(* ===== verification/Prelude.thy ===== *)
theory Prelude
  imports Main "HOL-Library.Word" "HOL-Library.List_Lexorder" "HOL-Library.Char_ord"
    "HOL-Library.Product_Lexorder"
begin

text \<open>
  Shared vocabulary of the development: Python strings and byte strings, the exceptions of the
  runtime as values, sequencing of fallible and of stateful computations, and the generic lemmas
  on lists and association lists (Python dictionaries) that the components share.

  \<^item> A Python \<open>str\<close> is its list of code points (\<open>pystr\<close>), so that its order, its length and its
    surrogates are the language's own; \<open>u\<close> embeds a literal.
  \<^item> A Python \<open>bytes\<close> is a \<open>string\<close>: a \<open>char\<close> is exactly one byte, and the order is bytewise.
  \<^item> An exception is a value of \<open>exc\<close>: a \<open>WorldlineError\<close> by its code, or one of the built-in
    exceptions the code lets escape. Messages and details are reported text and carry no decision.
\<close>

section \<open>Strings, bytes and exceptions\<close>

type_synonym pystr = "nat list"
type_synonym bytes = string

definition u :: "string \<Rightarrow> pystr" where
  "u s = map of_char s"

lemma u_inj [simp]: "u s = u t \<longleftrightarrow> s = t"
proof -
  have "inj (of_char :: char \<Rightarrow> nat)" by (rule inj_of_char)
  then show ?thesis by (simp add: u_def inj_map_eq_map)
qed

lemma u_Nil [simp]: "u [] = []"
  by (simp add: u_def)

lemma u_append: "u (s @ t) = u s @ u t"
  by (simp add: u_def)

lemma u_eq_Nil [simp]: "u s = [] \<longleftrightarrow> s = []"
  by (simp add: u_def)

lemma length_u [simp]: "length (u s) = length s"
  by (simp add: u_def)

lemma u_bound: "c \<in> set (u s) \<Longrightarrow> c < 256"
  by (auto simp: u_def)

datatype exc =
    WL string            \<comment> \<open>WorldlineError, by its code\<close>
  | KeyError
  | ValueError
  | TypeError
  | AttributeError
  | IndexError
  | OSError
  | IntegrityError       \<comment> \<open>sqlite3.IntegrityError\<close>

type_synonym 'a res = "exc + 'a"

section \<open>Sequencing fallible computations\<close>

text \<open>
  \<open>rbind m f\<close> runs \<open>m\<close> and, unless it raised, \<open>f\<close> on its value; \<open>ensure b e\<close> raises \<open>e\<close> unless
  \<open>b\<close>; \<open>rmap\<close> is the comprehension \<open>[f(x) for x in xs]\<close>, stopping at the first exception.
\<close>

definition rbind :: "'a res \<Rightarrow> ('a \<Rightarrow> 'b res) \<Rightarrow> 'b res" where
  "rbind m f = (case m of Inl e \<Rightarrow> Inl e | Inr x \<Rightarrow> f x)"

definition ensure :: "bool \<Rightarrow> exc \<Rightarrow> unit res" where
  "ensure b e = (if b then Inr () else Inl e)"

fun rmap :: "('a \<Rightarrow> 'b res) \<Rightarrow> 'a list \<Rightarrow> 'b list res" where
  "rmap f [] = Inr []"
| "rmap f (x # xs) = rbind (f x) (\<lambda>y. rbind (rmap f xs) (\<lambda>ys. Inr (y # ys)))"

fun rfold :: "('a \<Rightarrow> 's \<Rightarrow> 's res) \<Rightarrow> 'a list \<Rightarrow> 's \<Rightarrow> 's res" where
  "rfold f [] s = Inr s"
| "rfold f (x # xs) s = rbind (f x s) (rfold f xs)"

definition req :: "exc \<Rightarrow> 'a option \<Rightarrow> 'a res" where
  "req e m = (case m of None \<Rightarrow> Inl e | Some x \<Rightarrow> Inr x)"

lemma rbind_simps [simp]: "rbind (Inl e) f = Inl e" "rbind (Inr x) f = f x"
  by (simp_all add: rbind_def)

lemma rbind_Inr_iff: "rbind m f = Inr y \<longleftrightarrow> (\<exists>x. m = Inr x \<and> f x = Inr y)"
  by (cases m) auto

lemma rbind_Inl_iff: "rbind m f = Inl e \<longleftrightarrow> m = Inl e \<or> (\<exists>x. m = Inr x \<and> f x = Inl e)"
  by (cases m) auto

lemma ensure_Inr_iff [simp]: "ensure b e = Inr x \<longleftrightarrow> b"
  by (simp add: ensure_def)

lemma ensure_Inl_iff [simp]: "ensure b e = Inl e' \<longleftrightarrow> \<not> b \<and> e' = e"
  by (auto simp: ensure_def)

lemma ensure_True [simp]: "ensure True e = Inr ()"
  by (simp add: ensure_def)

lemma ensure_False [simp]: "ensure False e = Inl e"
  by (simp add: ensure_def)

lemma req_simps [simp]: "req e None = Inl e" "req e (Some x) = Inr x"
  by (simp_all add: req_def)

lemma req_Inr_iff: "req e m = Inr x \<longleftrightarrow> m = Some x"
  by (cases m) auto

named_theorems res_iffs \<open>inversion of a successful or failed sequence of steps\<close>

declare rbind_Inr_iff [res_iffs] rbind_Inl_iff [res_iffs] req_Inr_iff [res_iffs]

lemma rmap_Inr_iff: "rmap f xs = Inr ys \<longleftrightarrow> list_all2 (\<lambda>x y. f x = Inr y) xs ys"
  by (induction xs arbitrary: ys) (auto simp: res_iffs list_all2_Cons1)

lemma rmap_length: "rmap f xs = Inr ys \<Longrightarrow> length ys = length xs"
  by (auto simp: rmap_Inr_iff dest: list_all2_lengthD)

lemma rmap_all_Inr: "(\<And>x. x \<in> set xs \<Longrightarrow> f x = Inr (g x)) \<Longrightarrow> rmap f xs = Inr (map g xs)"
  by (induction xs) auto

lemma rmap_check:
  "rmap (\<lambda>x. rbind (ensure (P x) e) (\<lambda>_. Inr x)) xs = Inr ys \<longleftrightarrow> (\<forall>x \<in> set xs. P x) \<and> ys = xs"
  by (induction xs arbitrary: ys) (auto simp: res_iffs)

lemma rmap_append:
  "rmap f (xs @ ys) = rbind (rmap f xs) (\<lambda>a. rbind (rmap f ys) (\<lambda>b. Inr (a @ b)))"
proof (induction xs)
  case Nil
  then show ?case by (cases "rmap f ys") auto
next
  case (Cons x xs)
  then show ?case
    by (cases "f x"; cases "rmap f xs"; cases "rmap f ys") auto
qed

lemma rfold_append: "rfold f (xs @ ys) s = rbind (rfold f xs s) (rfold f ys)"
proof (induction xs arbitrary: s)
  case Nil
  then show ?case by simp
next
  case (Cons x xs)
  then show ?case by (cases "f x s") auto
qed

text \<open>An invariant of the body of a loop is an invariant of the loop.\<close>

lemma rfold_invariant:
  assumes "rfold f xs s = Inr s'" and "P s"
    and "\<And>x s t. x \<in> set xs \<Longrightarrow> P s \<Longrightarrow> f x s = Inr t \<Longrightarrow> P t"
  shows "P s'"
  using assms
proof (induction xs arbitrary: s)
  case Nil
  then show ?case by simp
next
  case (Cons x xs)
  then obtain t where "f x s = Inr t" and "rfold f xs t = Inr s'"
    by (auto simp: res_iffs)
  with Cons show ?case by (metis list.set_intros(1,2))
qed

section \<open>Sequencing stateful computations\<close>

text \<open>
  A method that mutates \<open>self\<close> and may raise is a function from the state to a result and the
  state at that moment: effects made before an exception stay made, as in the source.
\<close>

type_synonym ('s, 'a) act = "'s \<Rightarrow> 'a res \<times> 's"

definition ret :: "'a \<Rightarrow> ('s, 'a) act" where
  "ret x s = (Inr x, s)"

definition raise :: "exc \<Rightarrow> ('s, 'a) act" where
  "raise e s = (Inl e, s)"

definition sbind :: "('s, 'a) act \<Rightarrow> ('a \<Rightarrow> ('s, 'b) act) \<Rightarrow> ('s, 'b) act" where
  "sbind m f s = (case m s of (Inl e, t) \<Rightarrow> (Inl e, t) | (Inr x, t) \<Rightarrow> f x t)"

definition lift :: "'a res \<Rightarrow> ('s, 'a) act" where
  "lift r s = (r, s)"

definition gets :: "('s \<Rightarrow> 'a) \<Rightarrow> ('s, 'a) act" where
  "gets f s = (Inr (f s), s)"

definition modify :: "('s \<Rightarrow> 's) \<Rightarrow> ('s, unit) act" where
  "modify f s = (Inr (), f s)"

definition sensure :: "bool \<Rightarrow> exc \<Rightarrow> ('s, unit) act" where
  "sensure b e s = (if b then Inr () else Inl e, s)"

fun smapM :: "('a \<Rightarrow> ('s, unit) act) \<Rightarrow> 'a list \<Rightarrow> ('s, unit) act" where
  "smapM f [] = ret ()"
| "smapM f (x # xs) = sbind (f x) (\<lambda>_. smapM f xs)"

named_theorems act_defs \<open>unfolding of the state-and-exception combinators\<close>

declare ret_def [act_defs] raise_def [act_defs] lift_def [act_defs] gets_def [act_defs]
  modify_def [act_defs] sensure_def [act_defs]

lemma sbind_Inr_iff:
  "sbind m f s = (Inr y, t) \<longleftrightarrow> (\<exists>x r. m s = (Inr x, r) \<and> f x r = (Inr y, t))"
  by (auto simp: sbind_def split: prod.splits sum.splits)

lemma sbind_Inl_iff:
  "sbind m f s = (Inl e, t) \<longleftrightarrow>
     m s = (Inl e, t) \<or> (\<exists>x r. m s = (Inr x, r) \<and> f x r = (Inl e, t))"
  by (auto simp: sbind_def split: prod.splits sum.splits)

lemma sbind_run_Inr [simp]: "m s = (Inr x, t) \<Longrightarrow> sbind m f s = f x t"
  by (simp add: sbind_def)

lemma sbind_run_Inl [simp]: "m s = (Inl e, t) \<Longrightarrow> sbind m f s = (Inl e, t)"
  by (simp add: sbind_def)

named_theorems act_elims \<open>elimination of a completed step, for \<open>elim!:\<close>\<close>

lemma sbind_InrE [act_elims]:
  "sbind m f s = (Inr y, t) \<Longrightarrow> (\<And>x r. m s = (Inr x, r) \<Longrightarrow> f x r = (Inr y, t) \<Longrightarrow> P) \<Longrightarrow> P"
  by (auto simp: sbind_Inr_iff)

lemma ret_InrE [act_elims]:
  assumes "ret x s = (Inr y, t)" obtains "y = x" and "t = s"
  using assms unfolding ret_def by blast

lemma lift_InrE [act_elims]:
  assumes "lift r s = (Inr y, t)" obtains "r = Inr y" and "t = s"
  using assms unfolding lift_def by blast

lemma gets_InrE [act_elims]:
  assumes "gets g s = (Inr y, t)" obtains "y = g s" and "t = s"
  using assms unfolding gets_def by blast

lemma modify_InrE [act_elims]:
  assumes "modify h s = (Inr y, t)" obtains "t = h s"
  using assms unfolding modify_def by blast

lemma sensure_InrE [act_elims]:
  assumes "sensure b e s = (Inr y, t)" obtains b and "t = s"
  using assms by (cases b) (simp_all add: sensure_def)

lemma raise_InrE [act_elims]:
  assumes "raise e s = (Inr y, t)" shows P
  using assms by (simp add: raise_def)

named_theorems act_run \<open>running a step whose outcome is known, for \<open>simp add:\<close>\<close>

lemma run_lift [act_run]: "sbind (lift r) f s = (case r of Inl e \<Rightarrow> (Inl e, s) | Inr x \<Rightarrow> f x s)"
  by (simp add: sbind_def lift_def split: sum.splits)

lemma run_gets [act_run]: "sbind (gets g) f s = f (g s) s"
  by (simp add: sbind_def gets_def)

lemma run_modify [act_run]: "sbind (modify h) f s = f () (h s)"
  by (simp add: sbind_def modify_def)

lemma run_sensure [act_run]: "sbind (sensure b e) f s = (if b then f () s else (Inl e, s))"
  by (simp add: sbind_def sensure_def)

lemma run_ret [act_run]: "sbind (ret x) f s = f x s"
  by (simp add: sbind_def ret_def)

section \<open>Association lists as Python dictionaries\<close>

text \<open>
  A dictionary is an association list in insertion order with distinct keys. \<open>dset\<close> is
  \<open>d[k] = v\<close>: in place when the key is present, appended otherwise; \<open>dpop\<close> is \<open>d.pop(k, None)\<close>.
\<close>

fun dset :: "'k \<Rightarrow> 'v \<Rightarrow> ('k \<times> 'v) list \<Rightarrow> ('k \<times> 'v) list" where
  "dset k v [] = [(k, v)]"
| "dset k v ((k', v') # d) = (if k' = k then (k, v) # d else (k', v') # dset k v d)"

definition dpop :: "'k \<Rightarrow> ('k \<times> 'v) list \<Rightarrow> ('k \<times> 'v) list" where
  "dpop k d = filter (\<lambda>(k', v). k' \<noteq> k) d"

abbreviation dkeys :: "('k \<times> 'v) list \<Rightarrow> 'k list" where
  "dkeys d \<equiv> map fst d"

abbreviation dget :: "('k \<times> 'v) list \<Rightarrow> 'k \<Rightarrow> 'v option" where
  "dget \<equiv> map_of"

lemma dget_dset: "dget (dset k v d) = (dget d)(k \<mapsto> v)"
  by (induction k v d rule: dset.induct) auto

lemma set_dkeys_dset [simp]: "set (dkeys (dset k v d)) = insert k (set (dkeys d))"
  by (induction k v d rule: dset.induct) auto

lemma distinct_dset: "distinct (dkeys d) \<Longrightarrow> distinct (dkeys (dset k v d))"
proof (induction k v d rule: dset.induct)
  case (2 k v k' v' d)
  have "set (map fst (dset k v d)) = insert k (set (map fst d))"
    by (rule set_dkeys_dset)
  with 2 show ?case by auto
qed simp

lemma dget_dpop: "dget (dpop k d) = (dget d)(k := None)"
proof
  fix x
  show "dget (dpop k d) x = ((dget d)(k := None)) x"
    by (induction d) (auto simp: dpop_def)
qed

lemma distinct_dpop: "distinct (dkeys d) \<Longrightarrow> distinct (dkeys (dpop k d))"
  unfolding dpop_def by (induction d) auto

definition dbuild :: "('k \<times> 'v) list \<Rightarrow> ('k \<times> 'v) list" where
  "dbuild kvs = fold (\<lambda>(k, v). dset k v) kvs []"

lemma dget_fold_dset:
  "dget (fold (\<lambda>(k, v). dset k v) kvs d) = dget d ++ dget (rev kvs)"
  by (induction kvs arbitrary: d)
    (auto simp: dget_dset map_add_def fun_eq_iff map_of_append split: option.splits)

lemma dget_dbuild: "dget (dbuild kvs) = dget (rev kvs)"
  by (simp add: dbuild_def dget_fold_dset)

lemma distinct_fold_dset:
  "distinct (dkeys d) \<Longrightarrow> distinct (dkeys (fold (\<lambda>(k, v). dset k v) kvs d))"
  by (induction kvs arbitrary: d) (auto simp: distinct_dset split: prod.splits)

lemma distinct_dbuild: "distinct (dkeys (dbuild kvs))"
  unfolding dbuild_def by (rule distinct_fold_dset) simp

lemma set_dkeys_fold_dset:
  "set (dkeys (fold (\<lambda>(k, v). dset k v) kvs d)) = set (dkeys d) \<union> set (dkeys kvs)"
proof (induction kvs arbitrary: d)
  case (Cons p kvs)
  obtain k v where "p = (k, v)" by (cases p)
  with Cons show ?case by (simp only: fold_simps split_beta set_dkeys_dset comp_apply) auto
qed simp

lemma dset_fresh: "k \<notin> set (dkeys d) \<Longrightarrow> dset k v d = d @ [(k, v)]"
  by (induction k v d rule: dset.induct) auto

lemma fold_dset_fresh:
  "distinct (dkeys (d @ kvs)) \<Longrightarrow> fold (\<lambda>(k, v). dset k v) kvs d = d @ kvs"
proof (induction kvs arbitrary: d)
  case (Cons p kvs)
  obtain k v where p: "p = (k, v)" by (cases p)
  from Cons.prems p have "dset k v d = d @ [(k, v)]" by (intro dset_fresh) auto
  moreover have "distinct (dkeys ((d @ [(k, v)]) @ kvs))" using Cons.prems p by simp
  ultimately show ?case using Cons.IH [of "d @ [(k, v)]"] p by simp
qed simp

lemma dbuild_distinct: "distinct (dkeys kvs) \<Longrightarrow> dbuild kvs = kvs"
  unfolding dbuild_def using fold_dset_fresh [of "[]" kvs] by simp

section \<open>Lists\<close>

lemma sorted_wrt_less_map_sorted_list_of_set:
  "finite (A :: 'a :: linorder set) \<Longrightarrow> sorted_wrt (<) (sorted_list_of_set A)"
  by (simp add: strict_sorted_iff)

lemma find_Some_mem: "List.find P xs = Some x \<Longrightarrow> x \<in> set xs \<and> P x"
  by (induction xs) (auto split: if_splits)

lemma find_None: "List.find P xs = None \<longleftrightarrow> (\<forall>x \<in> set xs. \<not> P x)"
  by (induction xs) auto

lemma find_map_key:
  assumes "distinct (map f xs)" and "x \<in> set xs"
  shows "List.find (\<lambda>y. f y = f x) xs = Some x"
  using assms by (induction xs) (auto simp: image_iff)

end
