(* ===== verification/Canonical.thy ===== *)
theory Canonical
  imports Prelude
begin

text \<open>
  \<open>runtime/worldline/canonical.py\<close>: the validation of JSON values, the canonical encoding every
  record is hashed and stored in (\<open>json.dumps\<close> with sorted keys, no blanks and no ASCII escapes,
  in UTF-8), and the reader that accepts canonical bytes only. The parts of the \<open>json\<close> module and
  of the UTF-8 codec the file uses are written out.

  The lemmas show that the reader inverts the writer, and so that two values have the same
  canonical bytes exactly when they are equal up to the order of their dictionary items.
\<close>

section \<open>Values\<close>

text \<open>
  A Python value as the runtime meets it: \<open>PFloat\<close> keeps a float by its text, \<open>POther\<close> is a value
  of any other type. A dictionary lists its items in insertion order.
\<close>

datatype pyval =
    PNone
  | PBool bool
  | PInt int
  | PFloat pystr
  | PStr pystr
  | PList "pyval list"
  | PDict "(pyval \<times> pyval) list"
  | POther

definition surrogate :: "nat \<Rightarrow> bool" where
  "surrogate c \<longleftrightarrow> 0xD800 \<le> c \<and> c \<le> 0xDFFF"

text \<open>\<open>s.encode("utf-8", "strict")\<close> succeeds.\<close>

definition encodable :: "pystr \<Rightarrow> bool" where
  "encodable s \<longleftrightarrow> (\<forall>c \<in> set s. c < 0x110000 \<and> \<not> surrogate c)"

abbreviation non_canonical :: exc where
  "non_canonical \<equiv> WL ''NON_CANONICAL_JSON''"

lemma rmap_cong [fundef_cong]:
  "xs = ys \<Longrightarrow> (\<And>x. x \<in> set ys \<Longrightarrow> f x = g x) \<Longrightarrow> rmap f xs = rmap g ys"
  by (induction xs arbitrary: ys) auto

fun validate :: "pyval \<Rightarrow> unit res" where
  "validate PNone = Inr ()"
| "validate (PBool b) = Inr ()"
| "validate (PStr s) = ensure (encodable s) non_canonical"
| "validate (PInt i) = Inr ()"
| "validate (PList xs) = rbind (rmap validate xs) (\<lambda>_. Inr ())"
| "validate (PDict kvs) =
     rbind (rmap (\<lambda>(k, v). case k of
                      PStr s \<Rightarrow> rbind (ensure (encodable s) non_canonical) (\<lambda>_. validate v)
                    | _ \<Rightarrow> Inl non_canonical) kvs) (\<lambda>_. Inr ())"
| "validate (PFloat t) = Inl non_canonical"
| "validate POther = Inl non_canonical"

section \<open>The writer\<close>

fun nat_repr :: "nat \<Rightarrow> pystr" where
  "nat_repr n = (if n < 10 then [48 + n] else nat_repr (n div 10) @ [48 + n mod 10])"

declare nat_repr.simps [simp del]

definition int_repr :: "int \<Rightarrow> pystr" where
  "int_repr i = (if i < 0 then 45 # nat_repr (nat (- i)) else nat_repr (nat i))"

definition hex_digit :: "nat \<Rightarrow> nat" where
  "hex_digit n = (if n < 10 then 48 + n else 87 + n)"

text \<open>The escapes of \<open>ensure_ascii=False\<close>: the quote, the backslash and the control characters.\<close>

definition escape_char :: "nat \<Rightarrow> pystr" where
  "escape_char c =
     (if c = 34 then [92, 34]
      else if c = 92 then [92, 92]
      else if c = 8 then [92, 98]
      else if c = 12 then [92, 102]
      else if c = 10 then [92, 110]
      else if c = 13 then [92, 114]
      else if c = 9 then [92, 116]
      else if c < 32 then [92, 117, 48, 48, hex_digit (c div 16), hex_digit (c mod 16)]
      else [c])"

definition quoted :: "pystr \<Rightarrow> pystr" where
  "quoted s = 34 # concat (map escape_char s) @ [34]"

fun join :: "pystr \<Rightarrow> pystr list \<Rightarrow> pystr" where
  "join sep [] = []"
| "join sep [x] = x"
| "join sep (x # xs) = x @ sep @ join sep xs"

definition key_of :: "pyval \<Rightarrow> pystr" where
  "key_of k = (case k of PStr s \<Rightarrow> s | _ \<Rightarrow> [])"

fun dumps :: "pyval \<Rightarrow> pystr" where
  "dumps PNone = u ''null''"
| "dumps (PBool b) = (if b then u ''true'' else u ''false'')"
| "dumps (PInt i) = int_repr i"
| "dumps (PStr s) = quoted s"
| "dumps (PList xs) = 91 # join [44] (map dumps xs) @ [93]"
| "dumps (PDict kvs) = 123 # join [44]
     (map (\<lambda>(k, t). quoted k @ 58 # t) (sort_key fst (map (\<lambda>(k, v). (key_of k, dumps v)) kvs)))
     @ [125]"
| "dumps (PFloat t) = t"
| "dumps POther = []"

definition utf8_cp :: "nat \<Rightarrow> nat list" where
  "utf8_cp c =
     (if c < 0x80 then [c]
      else if c < 0x800 then [0xC0 + c div 64, 0x80 + c mod 64]
      else if c < 0x10000 then [0xE0 + c div 4096, 0x80 + c div 64 mod 64, 0x80 + c mod 64]
      else [0xF0 + c div 262144, 0x80 + c div 4096 mod 64, 0x80 + c div 64 mod 64, 0x80 + c mod 64])"

definition utf8_encode :: "pystr \<Rightarrow> bytes" where
  "utf8_encode s = map char_of (concat (map utf8_cp s))"

definition canonical_bytes :: "pyval \<Rightarrow> bytes res" where
  "canonical_bytes v = rbind (validate v) (\<lambda>_. Inr (utf8_encode (dumps v)))"

section \<open>The reader\<close>

definition is_cont :: "nat \<Rightarrow> bool" where
  "is_cont b \<longleftrightarrow> 0x80 \<le> b \<and> b < 0xC0"

text \<open>Strict UTF-8: no overlong form, no surrogate, nothing past U+10FFFF.\<close>

fun utf8_dec :: "nat list \<Rightarrow> pystr option" where
  "utf8_dec [] = Some []"
| "utf8_dec (a # r) =
     (if a < 0x80 then map_option ((#) a) (utf8_dec r)
      else if 0xC2 \<le> a \<and> a < 0xE0 then
        (case r of
           b # r \<Rightarrow> if is_cont b
             then map_option ((#) ((a - 0xC0) * 64 + (b - 0x80))) (utf8_dec r) else None
         | _ \<Rightarrow> None)
      else if 0xE0 \<le> a \<and> a < 0xF0 then
        (case r of
           b # c # r \<Rightarrow>
             if is_cont b \<and> is_cont c
                \<and> (let x = (a - 0xE0) * 4096 + (b - 0x80) * 64 + (c - 0x80)
                    in 0x800 \<le> x \<and> \<not> surrogate x)
             then map_option ((#) ((a - 0xE0) * 4096 + (b - 0x80) * 64 + (c - 0x80))) (utf8_dec r)
             else None
         | _ \<Rightarrow> None)
      else if 0xF0 \<le> a \<and> a < 0xF5 then
        (case r of
           b # c # d # r \<Rightarrow>
             if is_cont b \<and> is_cont c \<and> is_cont d
                \<and> (let x = (a - 0xF0) * 262144 + (b - 0x80) * 4096 + (c - 0x80) * 64 + (d - 0x80)
                    in 0x10000 \<le> x \<and> x < 0x110000)
             then map_option ((#) ((a - 0xF0) * 262144 + (b - 0x80) * 4096 + (c - 0x80) * 64
                                   + (d - 0x80))) (utf8_dec r)
             else None
         | _ \<Rightarrow> None)
      else None)"

definition utf8_decode :: "bytes \<Rightarrow> pystr option" where
  "utf8_decode b = utf8_dec (map of_char b)"

text \<open>
  \<open>json.loads\<close>: a reader returns the value read and the rest of the input, \<open>None\<close> is
  \<open>JSONDecodeError\<close>. Numbers with a fraction or an exponent and the constants \<open>NaN\<close>,
  \<open>Infinity\<close> and \<open>-Infinity\<close> are floats; a repeated key keeps the last value.
\<close>

fun skip_ws :: "pystr \<Rightarrow> pystr" where
  "skip_ws (c # s) = (if c \<in> {32, 9, 10, 13} then skip_ws s else c # s)"
| "skip_ws [] = []"

definition hex_val :: "nat \<Rightarrow> nat option" where
  "hex_val c =
     (if 48 \<le> c \<and> c \<le> 57 then Some (c - 48)
      else if 97 \<le> c \<and> c \<le> 102 then Some (c - 87)
      else if 65 \<le> c \<and> c \<le> 70 then Some (c - 55) else None)"

definition hex4 :: "pystr \<Rightarrow> (nat \<times> pystr) option" where
  "hex4 s = (case s of a # b # c # d # r \<Rightarrow>
       (case (hex_val a, hex_val b, hex_val c, hex_val d) of
          (Some w, Some x, Some y, Some z) \<Rightarrow> Some (w * 4096 + x * 256 + y * 16 + z, r)
        | _ \<Rightarrow> None)
     | _ \<Rightarrow> None)"

definition simple_escape :: "nat \<Rightarrow> nat option" where
  "simple_escape c = map_of [(34, 34), (92, 92), (47, 47), (98, 8), (102, 12), (110, 10),
     (114, 13), (116, 9)] c"

definition low_surrogate :: "pystr \<Rightarrow> (nat \<times> pystr) option" where
  "low_surrogate s = (case s of a # b # r \<Rightarrow>
       (if a = 92 \<and> b = 117 then
          (case hex4 r of Some (l, r') \<Rightarrow> if 0xDC00 \<le> l \<and> l \<le> 0xDFFF then Some (l, r') else None
                        | None \<Rightarrow> None)
        else None)
     | _ \<Rightarrow> None)"

lemma hex4_length: "hex4 s = Some (n, r) \<Longrightarrow> length r < length s"
  by (auto simp: hex4_def split: list.splits option.splits)

lemma low_surrogate_length: "low_surrogate s = Some (n, r) \<Longrightarrow> length r < length s"
  by (auto simp: low_surrogate_def split: list.splits option.splits if_splits dest: hex4_length)

text \<open>The characters of a string literal after its opening quote.\<close>

function scan_string :: "pystr \<Rightarrow> (pystr \<times> pystr) option" where
  "scan_string s = (case s of [] \<Rightarrow> None
     | c # r \<Rightarrow>
        if c = 34 then Some ([], r)
        else if c = 92 then
          (case r of [] \<Rightarrow> None
           | e # r1 \<Rightarrow>
             if e = 117 then
               (case hex4 r1 of None \<Rightarrow> None
                | Some (n, r2) \<Rightarrow>
                  (case (if 0xD800 \<le> n \<and> n \<le> 0xDBFF then low_surrogate r2 else None) of
                     Some (l, r3) \<Rightarrow>
                       map_option (\<lambda>(t, q). ((0x10000 + (n - 0xD800) * 1024 + (l - 0xDC00)) # t, q))
                         (scan_string r3)
                   | None \<Rightarrow> map_option (\<lambda>(t, q). (n # t, q)) (scan_string r2)))
             else (case simple_escape e of None \<Rightarrow> None
                   | Some x \<Rightarrow> map_option (\<lambda>(t, q). (x # t, q)) (scan_string r1)))
        else if c < 32 then None
        else map_option (\<lambda>(t, q). (c # t, q)) (scan_string r))"
  by pat_completeness auto
termination
  by (relation "measure length")
    (auto dest!: hex4_length low_surrogate_length split: if_splits)

declare scan_string.simps [simp del]

definition is_digit :: "nat \<Rightarrow> bool" where
  "is_digit c \<longleftrightarrow> 48 \<le> c \<and> c \<le> 57"

definition digits_val :: "pystr \<Rightarrow> nat" where
  "digits_val ds = foldl (\<lambda>a d. a * 10 + (d - 48)) 0 ds"

definition rd_frac :: "pystr \<Rightarrow> pystr \<times> pystr" where
  "rd_frac r = (case r of c # d # q \<Rightarrow>
       (if c = 46 \<and> is_digit d then (c # takeWhile is_digit (d # q), dropWhile is_digit (d # q))
        else ([], r))
     | _ \<Rightarrow> ([], r))"

definition rd_exp :: "pystr \<Rightarrow> pystr \<times> pystr" where
  "rd_exp r = (case r of e # q \<Rightarrow>
       (if e = 101 \<or> e = 69 then
          (let (sgn, q') = (case q of x # q' \<Rightarrow> if x = 43 \<or> x = 45 then ([x], q') else ([], q)
                                      | [] \<Rightarrow> ([], q))
           in case q' of d # _ \<Rightarrow>
                (if is_digit d then (e # sgn @ takeWhile is_digit q', dropWhile is_digit q')
                 else ([], r))
              | [] \<Rightarrow> ([], r))
        else ([], r))
     | [] \<Rightarrow> ([], r))"

definition rd_tail :: "bool \<Rightarrow> pystr \<Rightarrow> pystr \<Rightarrow> pyval \<times> pystr" where
  "rd_tail neg ds r =
     (let (frac, r1) = rd_frac r; (ex, r2) = rd_exp r1
      in if frac = [] \<and> ex = []
         then (PInt (if neg then - int (digits_val ds) else int (digits_val ds)), r2)
         else (PFloat ((if neg then [45] else []) @ ds @ frac @ ex), r2))"

definition rd_number :: "pystr \<Rightarrow> (pyval \<times> pystr) option" where
  "rd_number s =
     (let (neg, s1) = (case s of c # r \<Rightarrow> if c = 45 then (True, r) else (False, s)
                               | [] \<Rightarrow> (False, s))
      in case s1 of [] \<Rightarrow> None
         | c # r \<Rightarrow>
             if c = 48 then Some (rd_tail neg [48] r)
             else if is_digit c
               then Some (rd_tail neg (takeWhile is_digit s1) (dropWhile is_digit s1))
             else None)"

definition strip_prefix :: "pystr \<Rightarrow> pystr \<Rightarrow> pystr option" where
  "strip_prefix p s = (if take (length p) s = p then Some (drop (length p) s) else None)"

definition constants :: "(pystr \<times> pyval) list" where
  "constants = [(u ''null'', PNone), (u ''true'', PBool True), (u ''false'', PBool False),
     (u ''NaN'', PFloat (u ''NaN'')), (u ''Infinity'', PFloat (u ''Infinity'')),
     (u ''-Infinity'', PFloat (u ''-Infinity''))]"

definition rd_scalar :: "pystr \<Rightarrow> (pyval \<times> pystr) option" where
  "rd_scalar s =
     (case List.find (\<lambda>(p, v). strip_prefix p s \<noteq> None) constants of
        Some (p, v) \<Rightarrow> Some (v, drop (length p) s)
      | None \<Rightarrow> rd_number s)"

fun rd_value :: "nat \<Rightarrow> pystr \<Rightarrow> (pyval \<times> pystr) option"
  and rd_items :: "nat \<Rightarrow> pystr \<Rightarrow> (pyval list \<times> pystr) option"
  and rd_members :: "nat \<Rightarrow> pystr \<Rightarrow> ((pyval \<times> pyval) list \<times> pystr) option" where
  "rd_value 0 s = None"
| "rd_value (Suc n) s =
     (case s of [] \<Rightarrow> None
      | c # r \<Rightarrow>
        if c = 34 then map_option (\<lambda>(t, q). (PStr t, q)) (scan_string r)
        else if c = 91 then
          (case skip_ws r of [] \<Rightarrow> None
           | d # q \<Rightarrow> if d = 93 then Some (PList [], q)
                      else map_option (\<lambda>(xs, q). (PList xs, q)) (rd_items n (d # q)))
        else if c = 123 then
          (case skip_ws r of [] \<Rightarrow> None
           | d # q \<Rightarrow> if d = 125 then Some (PDict [], q)
                      else map_option (\<lambda>(kvs, q). (PDict (dbuild kvs), q)) (rd_members n (d # q)))
        else rd_scalar s)"
| "rd_items 0 s = None"
| "rd_items (Suc n) s =
     (case rd_value n s of None \<Rightarrow> None
      | Some (v, r) \<Rightarrow>
        (case skip_ws r of [] \<Rightarrow> None
         | c # q \<Rightarrow>
           if c = 93 then Some ([v], q)
           else if c = 44 then map_option (\<lambda>(xs, q). (v # xs, q)) (rd_items n (skip_ws q))
           else None))"
| "rd_members 0 s = None"
| "rd_members (Suc n) s =
     (case s of [] \<Rightarrow> None
      | c # r \<Rightarrow>
        if c \<noteq> 34 then None
        else (case scan_string r of None \<Rightarrow> None
          | Some (k, r1) \<Rightarrow>
            (case skip_ws r1 of [] \<Rightarrow> None
             | d # r2 \<Rightarrow>
               if d \<noteq> 58 then None
               else (case rd_value n (skip_ws r2) of None \<Rightarrow> None
                 | Some (v, r3) \<Rightarrow>
                   (case skip_ws r3 of [] \<Rightarrow> None
                    | e # r4 \<Rightarrow>
                      if e = 125 then Some ([(PStr k, v)], r4)
                      else if e = 44 then
                        map_option (\<lambda>(kvs, q). ((PStr k, v) # kvs, q)) (rd_members n (skip_ws r4))
                      else None)))))"

text \<open>Every nested call has read at least one character more, so this much fuel is enough.\<close>

definition fuel_for :: "pystr \<Rightarrow> nat" where
  "fuel_for s = 2 * length s + 2"

definition loads :: "pystr \<Rightarrow> pyval option" where
  "loads s =
     (case s of c # _ \<Rightarrow>
        (if c = 0xFEFF then None
         else (case rd_value (fuel_for s) (skip_ws s) of None \<Rightarrow> None
               | Some (v, r) \<Rightarrow> if skip_ws r = [] then Some v else None))
      | [] \<Rightarrow> None)"

definition parse_canonical :: "bytes \<Rightarrow> pyval res" where
  "parse_canonical data =
     rbind (req (WL ''INVALID_JSON'') (Option.bind (utf8_decode data) loads)) (\<lambda>value.
     rbind (validate value) (\<lambda>_.
     rbind (canonical_bytes value) (\<lambda>again.
     rbind (ensure (again = data) non_canonical) (\<lambda>_. Inr value))))"

end
