(* ===== verification/Canonical_Roundtrip.thy ===== *)
theory Canonical_Roundtrip
  imports Canonical
begin

text \<open>
  The reader of \<open>canonical.py\<close> inverts its writer. \<open>norm\<close> is the value a reader gives back: the
  same value with the items of every dictionary in key order.
\<close>

section \<open>UTF-8\<close>

lemma utf8_cp_dec:
  assumes "c < 0x110000" and "\<not> surrogate c"
  shows "utf8_dec (utf8_cp c @ r) = map_option ((#) c) (utf8_dec r)"
proof -
  consider "c < 0x80" | "0x80 \<le> c" "c < 0x800" | "0x800 \<le> c" "c < 0x10000" | "0x10000 \<le> c"
    by linarith
  then show ?thesis
  proof cases
    case 1
    then show ?thesis by (simp add: utf8_cp_def)
  next
    case 2
    then have "c div 64 < 32" and "2 \<le> c div 64" by auto
    with 2 show ?thesis by (simp add: utf8_cp_def is_cont_def)
  next
    case 3
    let ?a = "c div 4096" and ?b = "c div 64 mod 64" and ?c = "c mod 64"
    have a: "?a < 16" using 3 by auto
    have x: "?a * 4096 + ?b * 64 + ?c = c"
      by (metis (no_types, lifting) add.assoc div_mult2_eq div_mult_mod_eq distrib_right
          mult.assoc numeral_times_numeral semiring_norm(13) semiring_norm(11) mult.commute
          mod_mult2_eq)
    show ?thesis using 3 a x assms by (simp add: utf8_cp_def is_cont_def Let_def)
  next
    case 4
    let ?a = "c div 262144" and ?b = "c div 4096 mod 64" and ?c = "c div 64 mod 64" and ?d = "c mod 64"
    have a: "?a < 5" using assms by auto
    have x: "?a * 262144 + ?b * 4096 + ?c * 64 + ?d = c"
    proof -
      have "c = c div 64 * 64 + ?d" by simp
      moreover have "c div 64 = c div 64 div 64 * 64 + ?c" by simp
      moreover have "c div 64 div 64 = c div 4096" by (simp add: div_mult2_eq [symmetric])
      moreover have "c div 4096 = c div 4096 div 64 * 64 + ?b" by simp
      moreover have "c div 4096 div 64 = ?a" by (simp add: div_mult2_eq [symmetric])
      ultimately show ?thesis by linarith
    qed
    show ?thesis using 4 a x assms by (simp add: utf8_cp_def is_cont_def Let_def)
  qed
qed

lemma utf8_dec_concat: "encodable s \<Longrightarrow> utf8_dec (concat (map utf8_cp s)) = Some s"
  by (induction s) (auto simp: encodable_def utf8_cp_dec)

lemma utf8_cp_byte: "c < 0x110000 \<Longrightarrow> b \<in> set (utf8_cp c) \<Longrightarrow> b < 256"
  by (auto simp: utf8_cp_def split: if_splits)

lemma utf8_roundtrip: "encodable s \<Longrightarrow> utf8_decode (utf8_encode s) = Some s"
proof -
  assume s: "encodable s"
  have "b < 256" if "b \<in> set (concat (map utf8_cp s))" for b
    using that s utf8_cp_byte by (auto simp: encodable_def)
  then have "map (of_char \<circ> char_of) (concat (map utf8_cp s)) = concat (map utf8_cp s)"
    by (intro map_idI) simp
  with s show ?thesis
    by (simp add: utf8_decode_def utf8_encode_def utf8_dec_concat)
qed

section \<open>String literals and numbers\<close>

lemma hex_val_digit: "n < 16 \<Longrightarrow> hex_val (hex_digit n) = Some n"
  by (auto simp: hex_val_def hex_digit_def)

lemma scan_escape:
  "scan_string (escape_char c @ r) = map_option (\<lambda>(t, q). (c # t, q)) (scan_string r)"
proof -
  consider "c \<in> {34, 92, 8, 12, 10, 13, 9}" | "c \<notin> {34, 92, 8, 12, 10, 13, 9}" "c < 32"
    | "c \<notin> {34, 92}" "32 \<le> c" by force
  then show ?thesis
  proof cases
    case 1
    then show ?thesis
      by (auto simp: escape_char_def scan_string.simps [of "_ # _"] simple_escape_def)
  next
    case 2
    then have h: "c div 16 < 16" "c mod 16 < 16" by auto
    have "hex_val 48 = Some 0" by (simp add: hex_val_def)
    then have "hex4 (48 # 48 # hex_digit (c div 16) # hex_digit (c mod 16) # r) = Some (c, r)"
      using h by (simp add: hex4_def hex_val_digit)
    with 2 show ?thesis
      by (simp add: escape_char_def scan_string.simps [of "_ # _"])
  next
    case 3
    then show ?thesis
      by (auto simp: escape_char_def scan_string.simps [of "_ # _"])
  qed
qed

lemma scan_quoted: "scan_string (concat (map escape_char s) @ 34 # r) = Some (s, r)"
proof (induction s)
  case Nil
  show ?case by (simp add: scan_string.simps [of "_ # _"])
next
  case (Cons c s)
  have "scan_string (escape_char c @ (concat (map escape_char s) @ 34 # r)) = Some (c # s, r)"
    unfolding scan_escape Cons.IH by simp
  then show ?case by simp
qed

lemma nat_repr_digits: "c \<in> set (nat_repr n) \<Longrightarrow> is_digit c"
proof (induction n rule: nat_repr.induct)
  case (1 n)
  show ?case
  proof (cases "n < 10")
    case True
    with 1 show ?thesis by (simp add: nat_repr.simps [of n] is_digit_def)
  next
    case False
    with 1 show ?thesis by (auto simp: nat_repr.simps [of n] is_digit_def)
  qed
qed

lemma digits_val_snoc: "digits_val (ds @ [d]) = digits_val ds * 10 + (d - 48)"
  by (simp add: digits_val_def)

lemma digits_val_repr: "digits_val (nat_repr n) = n"
proof (induction n rule: nat_repr.induct)
  case (1 n)
  show ?case
  proof (cases "n < 10")
    case True
    then show ?thesis by (simp add: nat_repr.simps [of n] digits_val_def)
  next
    case False
    with 1 show ?thesis by (simp add: nat_repr.simps [of n] digits_val_snoc)
  qed
qed

lemma nat_repr_head: "\<exists>c s. nat_repr n = c # s \<and> is_digit c \<and> (c = 48 \<longrightarrow> s = [])"
proof (induction n rule: nat_repr.induct)
  case (1 n)
  show ?case
  proof (cases "n < 10")
    case True
    then show ?thesis by (simp add: nat_repr.simps [of n] is_digit_def)
  next
    case False
    with 1 obtain c s where cs: "nat_repr (n div 10) = c # s" "is_digit c" "c = 48 \<longrightarrow> s = []"
      by blast
    have "c \<noteq> 48"
    proof
      assume "c = 48"
      with cs have "digits_val (nat_repr (n div 10)) = 0" by (simp add: digits_val_def)
      then have "n div 10 = 0" by (simp add: digits_val_repr)
      with False show False by simp
    qed
    with cs False show ?thesis by (simp add: nat_repr.simps [of n])
  qed
qed

definition delim :: "pystr \<Rightarrow> bool" where
  "delim r \<longleftrightarrow> (case r of [] \<Rightarrow> True | c # _ \<Rightarrow> \<not> is_digit c \<and> c \<noteq> 46 \<and> c \<noteq> 101 \<and> c \<noteq> 69)"

lemma rd_tail_delim:
  "delim r \<Longrightarrow> rd_tail neg ds r = (PInt (if neg then - int (digits_val ds) else int (digits_val ds)), r)"
  by (auto simp: rd_tail_def rd_frac_def rd_exp_def delim_def Let_def split: list.splits)

lemma digits_split:
  assumes "\<And>c. c \<in> set ds \<Longrightarrow> is_digit c" and "delim r"
  shows "takeWhile is_digit (ds @ r) = ds" and "dropWhile is_digit (ds @ r) = r"
proof -
  have d: "takeWhile is_digit r = []" "dropWhile is_digit r = r"
    using assms(2) by (auto simp: delim_def split: list.splits)
  show "takeWhile is_digit (ds @ r) = ds" "dropWhile is_digit (ds @ r) = r"
    using assms(1) d by (simp_all add: takeWhile_append2 dropWhile_append2)
qed

lemma rd_number_nat:
  assumes "delim r"
  shows "rd_number (nat_repr n @ r) = Some (PInt (int n), r)"
    and "rd_number (45 # nat_repr n @ r) = Some (PInt (- int n), r)"
proof -
  obtain c s where cs: "nat_repr n = c # s" "is_digit c" "c = 48 \<longrightarrow> s = []"
    using nat_repr_head by blast
  have sp: "takeWhile is_digit (c # s @ r) = c # s" "dropWhile is_digit (c # s @ r) = r"
    using digits_split [of "c # s" r] assms nat_repr_digits [of _ n] cs by auto
  have v: "digits_val (c # s) = n" using digits_val_repr [of n] cs by simp
  have "c \<noteq> 45" using cs(2) by (auto simp: is_digit_def)
  then show "rd_number (nat_repr n @ r) = Some (PInt (int n), r)"
    using cs sp v rd_tail_delim [OF assms] by (auto simp: rd_number_def)
  show "rd_number (45 # nat_repr n @ r) = Some (PInt (- int n), r)"
    using cs sp v rd_tail_delim [OF assms] by (auto simp: rd_number_def)
qed

lemma no_constant:
  "is_digit c \<Longrightarrow> List.find (\<lambda>(p, v). strip_prefix p (c # s) \<noteq> None) constants = None"
  "is_digit d \<Longrightarrow> List.find (\<lambda>(p, v). strip_prefix p (45 # d # s) \<noteq> None) constants = None"
  by (auto simp: constants_def strip_prefix_def u_def is_digit_def)

lemma rd_scalar_int:
  assumes "delim r"
  shows "rd_scalar (int_repr i @ r) = Some (PInt i, r)"
proof (cases "i < 0")
  case True
  obtain c s where cs: "nat_repr (nat (- i)) = c # s" "is_digit c"
    using nat_repr_head by blast
  then have "rd_scalar (45 # nat_repr (nat (- i)) @ r) = rd_number (45 # nat_repr (nat (- i)) @ r)"
    using no_constant(2) [of c "s @ r"] by (simp add: rd_scalar_def)
  with True rd_number_nat(2) [OF assms, of "nat (- i)"] show ?thesis by (simp add: int_repr_def)
next
  case False
  obtain c s where cs: "nat_repr (nat i) = c # s" "is_digit c"
    using nat_repr_head by blast
  then have "rd_scalar (nat_repr (nat i) @ r) = rd_number (nat_repr (nat i) @ r)"
    using no_constant(1) [of c "s @ r"] by (simp add: rd_scalar_def)
  with False rd_number_nat(1) [OF assms, of "nat i"] show ?thesis by (simp add: int_repr_def)
qed

lemma rd_scalar_constants:
  "rd_scalar (u ''null'' @ r) = Some (PNone, r)"
  "rd_scalar (u ''true'' @ r) = Some (PBool True, r)"
  "rd_scalar (u ''false'' @ r) = Some (PBool False, r)"
  by (simp_all add: rd_scalar_def constants_def strip_prefix_def u_def)

section \<open>Values\<close>

fun norm :: "pyval \<Rightarrow> pyval" where
  "norm (PList xs) = PList (map norm xs)"
| "norm (PDict kvs) = PDict (map (\<lambda>(k, v). (PStr k, v))
     (sort_key fst (map (\<lambda>(k, v). (key_of k, norm v)) kvs)))"
| "norm v = v"

text \<open>Python dictionaries have distinct keys, at every depth.\<close>

fun dict_ok :: "pyval \<Rightarrow> bool" where
  "dict_ok (PList xs) = list_all dict_ok xs"
| "dict_ok (PDict kvs) = (distinct (map fst kvs) \<and> list_all (\<lambda>(k, v). dict_ok v) kvs)"
| "dict_ok v = True"

definition canonicalizable :: "pyval \<Rightarrow> bool" where
  "canonicalizable v \<longleftrightarrow> validate v = Inr () \<and> dict_ok v"

lemma rmap_unit_Inr [simp]: "(\<exists>ys. rmap f xs = Inr ys) \<longleftrightarrow> (\<forall>x \<in> set xs. \<exists>y. f x = Inr y)"
  by (induction xs) (auto simp: res_iffs)

lemma validate_PList: "validate (PList xs) = Inr () \<longleftrightarrow> (\<forall>x \<in> set xs. validate x = Inr ())"
  by (auto simp: rbind_Inr_iff)

lemma validate_PDict:
  "validate (PDict kvs) = Inr () \<longleftrightarrow>
     (\<forall>(k, v) \<in> set kvs. \<exists>s. k = PStr s \<and> encodable s \<and> validate v = Inr ())"
  by (fastforce simp: rbind_Inr_iff split: pyval.splits)

lemma canonicalizable_PList:
  "canonicalizable (PList xs) \<longleftrightarrow> (\<forall>x \<in> set xs. canonicalizable x)"
  by (auto simp: canonicalizable_def validate_PList list_all_iff simp del: validate.simps)

lemma canonicalizable_PDict:
  "canonicalizable (PDict kvs) \<longleftrightarrow>
     distinct (map fst kvs) \<and> (\<forall>(k, v) \<in> set kvs. \<exists>s. k = PStr s \<and> encodable s \<and> canonicalizable v)"
  by (fastforce simp: canonicalizable_def validate_PDict list_all_iff simp del: validate.simps)

lemma sort_key_map: "sort_key f (map g xs) = map g (sort_key (\<lambda>x. f (g x)) xs)"
proof (induction xs)
  case (Cons x xs)
  have "insort_key f (g x) (map g ys) = map g (insort_key (\<lambda>x. f (g x)) x ys)" for ys
    by (induction ys) auto
  with Cons show ?case by simp
qed simp

text \<open>The items of a dictionary in the order both the writer and \<open>norm\<close> put them.\<close>

definition items :: "(pyval \<times> pyval) list \<Rightarrow> (pyval \<times> pyval) list" where
  "items kvs = sort_key (\<lambda>p. key_of (fst p)) kvs"

lemma set_items [simp]: "set (items kvs) = set kvs"
  by (simp add: items_def)

lemma dumps_PDict:
  "dumps (PDict kvs) =
     123 # join [44] (map (\<lambda>(k, v). quoted (key_of k) @ 58 # dumps v) (items kvs)) @ [125]"
  by (simp add: items_def sort_key_map case_prod_unfold comp_def)

lemma norm_PDict: "norm (PDict kvs) = PDict (map (\<lambda>(k, v). (PStr (key_of k), norm v)) (items kvs))"
  by (simp add: items_def sort_key_map case_prod_unfold comp_def)

declare dumps.simps(6) [simp del] norm.simps(2) [simp del]

lemma dumps_head:
  assumes "validate v = Inr ()"
  shows "\<exists>c s. dumps v = c # s \<and> c < 128 \<and> c \<notin> {32, 9, 10, 13, 93, 125, 44, 58}"
proof (cases v)
  case (PInt i)
  obtain c s where cs: "nat_repr (nat \<bar>i\<bar>) = c # s" "is_digit c" using nat_repr_head by blast
  then show ?thesis
    using PInt by (cases "i < 0") (auto simp: int_repr_def is_digit_def)
qed (use assms in \<open>auto simp: u_def quoted_def dumps_PDict\<close>)

lemma join_Cons: "join sep (x # xs) = x @ (if xs = [] then [] else sep @ join sep xs)"
  by (cases xs) auto

lemma skip_ws_head: "c \<notin> {32, 9, 10, 13} \<Longrightarrow> skip_ws (c # s) = c # s"
  by simp

definition reads :: "pyval \<Rightarrow> bool" where
  "reads v \<longleftrightarrow> (\<forall>n r. 2 * length (dumps v) \<le> n \<longrightarrow> delim r \<longrightarrow> rd_value n (dumps v @ r) = Some (norm v, r))"

lemma readsD: "reads v \<Longrightarrow> 2 * length (dumps v) \<le> n \<Longrightarrow> delim r \<Longrightarrow> rd_value n (dumps v @ r) = Some (norm v, r)"
  by (simp add: reads_def)

lemma delim_simps [simp]: "delim []" "delim (93 # r)" "delim (44 # r)" "delim (125 # r)"
  by (simp_all add: delim_def is_digit_def)

lemma rd_items_join:
  assumes "xs \<noteq> []" and "\<And>x. x \<in> set xs \<Longrightarrow> reads x \<and> validate x = Inr ()"
    and "2 * length (join [44] (map dumps xs)) + 1 \<le> n"
  shows "rd_items n (join [44] (map dumps xs) @ 93 # r) = Some (map norm xs, r)"
  using assms
proof (induction xs arbitrary: n)
  case (Cons x xs)
  obtain m where n: "n = Suc m" using Cons.prems(3) by (cases n) auto
  have x: "reads x" "validate x = Inr ()" using Cons.prems(2) by auto
  show ?case
  proof (cases "xs = []")
    case True
    with Cons.prems n x show ?thesis by (simp add: readsD)
  next
    case False
    then obtain y ys where ys: "xs = y # ys" by (cases xs) auto
    have "validate y = Inr ()" using Cons.prems(2) ys by auto
    then obtain c s where c: "dumps y = c # s" "c < 128" "c \<notin> {32, 9, 10, 13, 93, 125, 44, 58}"
      using dumps_head by blast
    let ?j = "join [44] (map dumps xs)"
    have len: "2 * length (dumps x) \<le> m" "2 * length ?j + 1 \<le> m"
      using Cons.prems(3) n False by (simp_all add: join_Cons)
    have ws: "skip_ws (?j @ 93 # r) = ?j @ 93 # r"
      using c ys by (simp add: join_Cons)
    have "rd_value m (dumps x @ 44 # ?j @ 93 # r) = Some (norm x, 44 # ?j @ 93 # r)"
      using x(1) len(1) by (intro readsD) auto
    moreover have "rd_items m (?j @ 93 # r) = Some (map norm xs, r)"
      using Cons.prems(2) False len(2) by (intro Cons.IH) auto
    ultimately show ?thesis using n False ws by (simp add: join_Cons)
  qed
qed simp

lemma rd_members_join:
  fixes kvs :: "(pyval \<times> pyval) list"
  defines "txt \<equiv> \<lambda>(k, v). quoted (key_of k) @ 58 # dumps v"
  assumes "kvs \<noteq> []" and "\<And>k v. (k, v) \<in> set kvs \<Longrightarrow> reads v \<and> validate v = Inr ()"
    and "2 * length (join [44] (map txt kvs)) + 1 \<le> n"
  shows "rd_members n (join [44] (map txt kvs) @ 125 # r)
       = Some (map (\<lambda>(k, v). (PStr (key_of k), norm v)) kvs, r)"
  using assms(2-)
proof (induction kvs arbitrary: n)
  case (Cons p kvs)
  obtain k v where p: "p = (k, v)" by (cases p)
  obtain m where n: "n = Suc m" using Cons.prems(3) by (cases n) auto
  have v: "reads v" "validate v = Inr ()" using Cons.prems(2) p by auto
  obtain c s where c: "dumps v = c # s" "c < 128" "c \<notin> {32, 9, 10, 13, 93, 125, 44, 58}"
    using dumps_head v(2) by blast
  let ?rest = "if kvs = [] then [] else 44 # join [44] (map txt kvs)"
  have j: "join [44] (map txt (p # kvs)) = quoted (key_of k) @ 58 # dumps v @ ?rest"
    by (simp add: join_Cons p txt_def)
  have len: "2 * length (dumps v) \<le> m"
    using Cons.prems(3) n unfolding j by (simp add: quoted_def)
  have "delim (?rest @ 125 # r)" by simp
  then have val: "rd_value m (dumps v @ ?rest @ 125 # r) = Some (norm v, ?rest @ 125 # r)"
    using v(1) len by (intro readsD) auto
  have ws: "skip_ws (dumps v @ ?rest @ 125 # r) = dumps v @ ?rest @ 125 # r"
    using c by simp
  have key: "scan_string (concat (map escape_char (key_of k)) @ 34 # 58 # dumps v @ ?rest @ 125 # r)
      = Some (key_of k, 58 # dumps v @ ?rest @ 125 # r)" by (rule scan_quoted)
  show ?case
  proof (cases "kvs = []")
    case True
    with n j key val ws p show ?thesis by (simp add: quoted_def)
  next
    case False
    let ?j = "join [44] (map txt kvs)"
    have "2 * length ?j + 1 \<le> m" using Cons.prems(3) n False unfolding j by simp
    then have IH: "rd_members m (?j @ 125 # r) = Some (map (\<lambda>(k, v). (PStr (key_of k), norm v)) kvs, r)"
      using Cons.prems(2) False by (intro Cons.IH) auto
    obtain q qs where "kvs = q # qs" using False by (cases kvs) auto
    then have "skip_ws (?j @ 125 # r) = ?j @ 125 # r"
      by (cases q) (simp add: join_Cons txt_def quoted_def)
    with IH n j key val ws p False show ?thesis by (simp add: quoted_def)
  qed
qed simp

lemma distinct_norm_items:
  assumes "canonicalizable (PDict kvs)"
  shows "distinct (map fst (map (\<lambda>(k, v). (PStr (key_of k), norm v)) (items kvs)))"
proof -
  have "map fst (map (\<lambda>(k, v). (PStr (key_of k), norm v)) (items kvs)) = map fst (items kvs)"
    using assms by (fastforce simp: canonicalizable_PDict key_of_def)
  moreover have "distinct (map fst (items kvs))"
    using assms by (simp add: canonicalizable_PDict distinct_map items_def)
  ultimately show ?thesis by (simp only:)
qed

lemma scalar_reads:
  assumes "\<exists>c s. dumps v = c # s \<and> c \<notin> {34, 91, 123}"
    and "\<And>r. delim r \<Longrightarrow> rd_scalar (dumps v @ r) = Some (norm v, r)"
  shows "reads v"
  unfolding reads_def
proof (intro allI impI)
  fix n r assume n: "2 * length (dumps v) \<le> n" and r: "delim r"
  obtain c s where c: "dumps v = c # s" "c \<notin> {34, 91, 123}" using assms(1) by blast
  then obtain m where "n = Suc m" using n by (cases n) auto
  with c assms(2) [OF r] show "rd_value n (dumps v @ r) = Some (norm v, r)" by simp
qed

lemma canonicalizable_reads: "canonicalizable v \<Longrightarrow> reads v"
proof (induction v)
  case (PList xs)
  have el: "reads x \<and> validate x = Inr ()" if "x \<in> set xs" for x
    using PList that by (auto simp: canonicalizable_PList) (simp add: canonicalizable_def)
  show ?case unfolding reads_def
  proof (intro allI impI)
    fix n r assume n: "2 * length (dumps (PList xs)) \<le> n"
    obtain m where m: "n = Suc m" using n by (cases n) auto
    show "rd_value n (dumps (PList xs) @ r) = Some (norm (PList xs), r)"
    proof (cases "xs = []")
      case True
      with m show ?thesis by simp
    next
      case False
      then obtain y ys where ys: "xs = y # ys" by (cases xs) auto
      obtain c s where c: "dumps y = c # s" "c < 128" "c \<notin> {32, 9, 10, 13, 93, 125, 44, 58}"
        using dumps_head el ys by (metis list.set_intros(1))
      let ?j = "join [44] (map dumps xs)"
      obtain t where j: "?j = c # t" using c ys by (simp add: join_Cons)
      have "rd_items m (?j @ 93 # r) = Some (map norm xs, r)"
        using el False n m by (intro rd_items_join) auto
      with m j c show ?thesis by auto
    qed
  qed
next
  case (PDict kvs)
  have el: "reads v \<and> validate v = Inr ()" if "(k, v) \<in> set (items kvs)" for k v
  proof -
    from that PDict.prems have "canonicalizable v"
      unfolding canonicalizable_PDict set_items by blast
    moreover from that have "(k, v) \<in> set kvs" by simp
    moreover have "v \<in> Basic_BNFs.snds (k, v)" by simp
    ultimately show ?thesis using PDict.IH(2) by (auto simp: canonicalizable_def)
  qed
  show ?case unfolding reads_def
  proof (intro allI impI)
    fix n r assume n: "2 * length (dumps (PDict kvs)) \<le> n"
    obtain m where m: "n = Suc m" using n by (cases n) (auto simp: dumps_PDict)
    let ?j = "join [44] (map (\<lambda>(k, v). quoted (key_of k) @ 58 # dumps v) (items kvs))"
    show "rd_value n (dumps (PDict kvs) @ r) = Some (norm (PDict kvs), r)"
    proof (cases "items kvs = []")
      case True
      then show ?thesis using m by (simp only: dumps_PDict norm_PDict) simp
    next
      case False
      then obtain q qs where q: "items kvs = q # qs" by (cases "items kvs") auto
      obtain t where j: "?j = 34 # t" using q by (cases q) (simp add: join_Cons quoted_def)
      have "rd_members m (?j @ 125 # r)
          = Some (map (\<lambda>(k, v). (PStr (key_of k), norm v)) (items kvs), r)"
        using el False n m by (intro rd_members_join) (auto simp: dumps_PDict)
      with m j show ?thesis
        using dbuild_distinct [OF distinct_norm_items [OF PDict.prems]]
        by (simp only: dumps_PDict norm_PDict) simp
    qed
  qed
next
  case PNone
  then show ?case using rd_scalar_constants(1) by (intro scalar_reads) (auto simp: u_def)
next
  case (PBool b)
  then show ?case using rd_scalar_constants(2,3)
    by (intro scalar_reads) (auto simp: u_def)
next
  case (PInt i)
  obtain c s where "nat_repr (nat \<bar>i\<bar>) = c # s" "is_digit c" using nat_repr_head by blast
  then have "\<exists>c s. dumps (PInt i) = c # s \<and> c \<notin> {34, 91, 123}"
    by (cases "i < 0") (auto simp: int_repr_def is_digit_def)
  then show ?case using rd_scalar_int by (intro scalar_reads) auto
next
  case (PStr s)
  show ?case unfolding reads_def
  proof (intro allI impI)
    fix n r assume "2 * length (dumps (PStr s)) \<le> n"
    then obtain m where "n = Suc m" by (cases n) (auto simp: quoted_def)
    then show "rd_value n (dumps (PStr s) @ r) = Some (norm (PStr s), r)"
      using scan_quoted [of s r] by (simp add: quoted_def)
  qed
qed (simp_all add: canonicalizable_def)

lemma loads_dumps: "canonicalizable v \<Longrightarrow> loads (dumps v) = Some (norm v)"
proof -
  assume v: "canonicalizable v"
  then obtain c s where c: "dumps v = c # s" "c < 128" "c \<notin> {32, 9, 10, 13, 93, 125, 44, 58}"
    using dumps_head canonicalizable_def by blast
  have "rd_value (fuel_for (dumps v)) (dumps v @ []) = Some (norm v, [])"
    using v by (intro readsD canonicalizable_reads) (simp_all add: fuel_for_def)
  moreover have "c \<noteq> 0xFEFF" using c(2) by simp
  ultimately show ?thesis using c by (simp add: loads_def)
qed

section \<open>The encoding is a faithful name of the value\<close>

lemma encodable_append [simp]: "encodable (s @ t) \<longleftrightarrow> encodable s \<and> encodable t"
  by (auto simp: encodable_def)

lemma encodable_Cons [simp]: "encodable (c # s) \<longleftrightarrow> c < 0x110000 \<and> \<not> surrogate c \<and> encodable s"
  by (auto simp: encodable_def)

lemma encodable_Nil [simp]: "encodable []"
  by (simp add: encodable_def)

lemma ascii_ok: "c < 256 \<Longrightarrow> \<not> surrogate c"
  by (simp add: surrogate_def)

lemma encodable_u [simp]: "encodable (u s)"
  using u_bound by (fastforce simp: encodable_def surrogate_def)

lemma encodable_join: "list_all encodable xs \<Longrightarrow> encodable sep \<Longrightarrow> encodable (join sep xs)"
  by (induction sep xs rule: join.induct) auto

lemma encodable_quoted: "encodable s \<Longrightarrow> encodable (quoted s)"
proof -
  have "encodable (escape_char c)" if "c < 0x110000" "\<not> surrogate c" for c
    using that by (auto simp: escape_char_def hex_digit_def surrogate_def)
  then have "encodable s \<Longrightarrow> encodable (concat (map escape_char s))"
    by (induction s) auto
  then show "encodable s \<Longrightarrow> encodable (quoted s)" by (simp add: quoted_def surrogate_def)
qed

lemma encodable_int_repr: "encodable (int_repr i)"
proof -
  have "encodable (nat_repr n)" for n
    using nat_repr_digits by (fastforce simp: encodable_def is_digit_def surrogate_def)
  then show ?thesis by (simp add: int_repr_def surrogate_def)
qed

lemma encodable_dumps: "canonicalizable v \<Longrightarrow> encodable (dumps v)"
proof (induction v)
  case (PList xs)
  then have "list_all encodable (map dumps xs)" by (auto simp: canonicalizable_PList list_all_iff)
  then show ?case by (simp add: encodable_join surrogate_def)
next
  case (PDict kvs)
  have "encodable (quoted (key_of k) @ 58 # dumps v)" if kv: "(k, v) \<in> set kvs" for k v
  proof -
    from kv PDict.prems obtain s where "k = PStr s" "encodable s" "canonicalizable v"
      unfolding canonicalizable_PDict by blast
    with PDict.IH(2) [of "(k, v)" v] kv show ?thesis
      by (simp add: key_of_def encodable_quoted surrogate_def)
  qed
  then have "list_all encodable (map (\<lambda>(k, v). quoted (key_of k) @ 58 # dumps v) (items kvs))"
    by (auto simp: list_all_iff)
  then show ?case by (simp add: dumps_PDict encodable_join surrogate_def)
next
  case (PStr s)
  then show ?case by (auto simp: canonicalizable_def encodable_quoted)
qed (auto simp: encodable_int_repr canonicalizable_def)

lemma canonical_bytes_ok:
  "canonicalizable v \<Longrightarrow> canonical_bytes v = Inr (utf8_encode (dumps v))"
  by (simp add: canonical_bytes_def canonicalizable_def)

lemma read_canonical_bytes:
  "canonicalizable v \<Longrightarrow> Option.bind (utf8_decode (utf8_encode (dumps v))) loads = Some (norm v)"
  by (simp add: utf8_roundtrip encodable_dumps loads_dumps)

lemma items_norm:
  "items (map (\<lambda>(k, v). (PStr (key_of k), norm v)) (items kvs))
     = map (\<lambda>(k, v). (PStr (key_of k), norm v)) (items kvs)"
proof -
  have "sorted (map (\<lambda>p. key_of (fst p)) (map (\<lambda>(k, v). (PStr (key_of k), norm v)) (items kvs)))"
    by (simp add: items_def comp_def case_prod_unfold key_of_def)
  then show ?thesis unfolding items_def [of "map _ _"] by (rule sort_key_id_if_sorted)
qed

lemma dumps_norm: "canonicalizable v \<Longrightarrow> dumps (norm v) = dumps v"
proof (induction v)
  case (PList xs)
  then have "map dumps (map norm xs) = map dumps xs" by (auto simp: canonicalizable_PList)
  then show ?case by (simp only: norm.simps(1) dumps.simps(5))
next
  case (PDict kvs)
  have "dumps (norm v) = dumps v" if kv: "(k, v) \<in> set kvs" for k v
  proof -
    from kv PDict.prems have "canonicalizable v" unfolding canonicalizable_PDict by blast
    with PDict.IH(2) [of "(k, v)" v] kv show ?thesis by simp
  qed
  then have "map (\<lambda>(k, v). quoted (key_of k) @ 58 # dumps v)
        (map (\<lambda>(k, v). (PStr (key_of k), norm v)) (items kvs))
      = map (\<lambda>(k, v). quoted (key_of k) @ 58 # dumps v) (items kvs)"
    by (auto simp: key_of_def)
  then show ?case by (simp only: norm_PDict dumps_PDict items_norm)
qed auto

lemma validate_norm: "canonicalizable v \<Longrightarrow> validate (norm v) = Inr ()"
proof (induction v)
  case (PList xs)
  then show ?case by (auto simp: canonicalizable_PList validate_PList simp del: validate.simps)
next
  case (PDict kvs)
  have "encodable (key_of k) \<and> validate (norm v) = Inr ()" if kv: "(k, v) \<in> set kvs" for k v
  proof -
    from kv PDict.prems obtain s where "k = PStr s" "encodable s" "canonicalizable v"
      unfolding canonicalizable_PDict by blast
    with PDict.IH(2) [of "(k, v)" v] kv show ?thesis by (simp add: key_of_def)
  qed
  then show ?case unfolding norm_PDict validate_PDict by auto
qed (auto simp: canonicalizable_def)

text \<open>Round trip: the reader accepts what the writer wrote and gives back the value.\<close>

lemma parse_canonical_bytes:
  assumes "canonicalizable v"
  shows "rbind (canonical_bytes v) parse_canonical = Inr (norm v)"
proof -
  have "canonical_bytes (norm v) = Inr (utf8_encode (dumps v))"
    using assms by (simp add: canonical_bytes_def validate_norm dumps_norm)
  with assms show ?thesis
    by (simp add: canonical_bytes_ok parse_canonical_def read_canonical_bytes validate_norm)
qed

lemma canonical_bytes_inj:
  assumes "canonicalizable v" and "canonicalizable w"
  shows "canonical_bytes v = canonical_bytes w \<longleftrightarrow> norm v = norm w"
proof
  assume "canonical_bytes v = canonical_bytes w"
  then have "rbind (canonical_bytes v) parse_canonical = rbind (canonical_bytes w) parse_canonical"
    by simp
  with assms show "norm v = norm w" by (simp only: parse_canonical_bytes sum.inject)
next
  assume "norm v = norm w"
  then have "dumps v = dumps w" using dumps_norm assms by metis
  with assms show "canonical_bytes v = canonical_bytes w" by (simp add: canonical_bytes_ok)
qed

section \<open>The reader's fuel is enough\<close>

lemma length_skip_ws: "length (skip_ws s) \<le> length s"
  by (induction s rule: skip_ws.induct) auto

lemma skip_ws_Cons_length: "skip_ws s = c # q \<Longrightarrow> length q < length s"
  using length_skip_ws [of s] by simp

lemma scan_string_step:
  assumes "scan_string s = Some (t, q)"
  shows "s = 34 # q \<or> (\<exists>s' t'. length s' < length s \<and> scan_string s' = Some (t', q))"
  using assms
  by (subst (asm) scan_string.simps)
    (fastforce split: list.splits if_splits option.splits dest: hex4_length low_surrogate_length)

lemma scan_string_length: "scan_string s = Some (t, q) \<Longrightarrow> length q < length s"
proof (induction s arbitrary: t rule: length_induct)
  case (1 s)
  from scan_string_step [OF 1(2)] 1(1) show ?case by fastforce
qed

lemma length_dropWhile_le': "length (dropWhile P s) \<le> length s"
  by (rule length_dropWhile_le)

lemma rd_tail_length: "rd_tail neg ds r = (v, q) \<Longrightarrow> length q \<le> length r"
proof -
  have f: "length (snd (rd_frac s)) \<le> length s" for s
    using length_dropWhile_le' [of is_digit "tl s"]
    by (auto simp: rd_frac_def split: list.splits)
  have e: "length (snd (rd_exp s)) \<le> length s" for s
    unfolding rd_exp_def Let_def
    by (auto split: list.splits prod.splits if_splits
        intro: order_trans [OF length_dropWhile_le'])
  assume "rd_tail neg ds r = (v, q)"
  then have "q = snd (rd_exp (snd (rd_frac r)))"
    by (auto simp: rd_tail_def Let_def split: prod.splits if_splits)
  with f [of r] e [of "snd (rd_frac r)"] show ?thesis by simp
qed

lemma rd_scalar_length: "rd_scalar s = Some (v, q) \<Longrightarrow> s \<noteq> [] \<Longrightarrow> length q < length s"
proof (cases "List.find (\<lambda>(p, v). strip_prefix p s \<noteq> None) constants")
  case None
  assume "rd_scalar s = Some (v, q)" and "s \<noteq> []"
  with None show ?thesis
    using length_dropWhile_le [of is_digit "tl s"] length_dropWhile_le [of is_digit "tl (tl s)"]
    by (fastforce simp: rd_scalar_def rd_number_def is_digit_def split: list.splits if_splits
        dest!: rd_tail_length)
next
  case (Some pv)
  assume "rd_scalar s = Some (v, q)" and "s \<noteq> []"
  obtain p w where pv: "pv = (p, w)" by (cases pv)
  have "(p, w) \<in> set constants" using Some pv find_Some_mem by fastforce
  then have "p \<noteq> []" by (auto simp: constants_def u_def)
  with Some pv \<open>rd_scalar s = Some (v, q)\<close> \<open>s \<noteq> []\<close> show ?thesis by (auto simp: rd_scalar_def)
qed

lemma rd_lengths:
  "(\<forall>s v q. rd_value n s = Some (v, q) \<longrightarrow> length q < length s) \<and>
   (\<forall>s xs q. rd_items n s = Some (xs, q) \<longrightarrow> length q < length s) \<and>
   (\<forall>s kvs q. rd_members n s = Some (kvs, q) \<longrightarrow> length q < length s)"
proof (induction n)
  case (Suc n)
  note IH = Suc.IH [THEN conjunct1, rule_format] Suc.IH [THEN conjunct2, THEN conjunct1, rule_format]
    Suc.IH [THEN conjunct2, THEN conjunct2, rule_format]
  show ?case
  proof (intro conjI allI impI)
    fix s v q assume "rd_value (Suc n) s = Some (v, q)"
    then show "length q < length s"
      using rd_scalar_length [of s v q]
      by (auto split: list.splits if_splits dest!: scan_string_length skip_ws_Cons_length IH(2,3))
  next
    fix s xs q assume r: "rd_items (Suc n) s = Some (xs, q)"
    then obtain v r c p where v: "rd_value n s = Some (v, r)" "skip_ws r = c # p"
      by (auto split: option.splits list.splits)
    then have l: "length p < length s" using IH(1) skip_ws_Cons_length by fastforce
    show "length q < length s"
    proof (cases "c = 93")
      case True
      with r v l show ?thesis by simp
    next
      case False
      with r v obtain ys where "rd_items n (skip_ws p) = Some (ys, q)"
        by (auto split: if_splits)
      then show ?thesis using IH(2) length_skip_ws [of p] l by fastforce
    qed
  next
    fix s kvs q assume r: "rd_members (Suc n) s = Some (kvs, q)"
    then obtain c s' k r1 d r2 v r3 e r4
      where k: "s = c # s'" "c = 34" "scan_string s' = Some (k, r1)" "skip_ws r1 = d # r2" "d = 58"
        "rd_value n (skip_ws r2) = Some (v, r3)" "skip_ws r3 = e # r4"
      by (auto split: option.splits list.splits if_splits)
    have "length r1 < length s'" "length r2 < length r1" "length r3 < length (skip_ws r2)"
      "length r4 < length r3"
      using k scan_string_length skip_ws_Cons_length IH(1) by auto
    then have l: "length r4 < length s" using k(1) length_skip_ws [of r2] by simp
    show "length q < length s"
    proof (cases "e = 125")
      case True
      with r k l show ?thesis by simp
    next
      case False
      with r k obtain ys where "rd_members n (skip_ws r4) = Some (ys, q)"
        by (auto split: if_splits)
      then show ?thesis using IH(3) length_skip_ws [of r4] l by fastforce
    qed
  qed
qed auto

lemmas rd_value_length = rd_lengths [THEN conjunct1, rule_format]

text \<open>More fuel than twice the input plus two changes nothing: the bound of \<open>loads\<close> is enough.\<close>

lemma rd_fuel:
  "(\<forall>s m. 2 * length s + 1 \<le> n \<longrightarrow> 2 * length s + 1 \<le> m \<longrightarrow> rd_value n s = rd_value m s) \<and>
   (\<forall>s m. 2 * length s + 2 \<le> n \<longrightarrow> 2 * length s + 2 \<le> m \<longrightarrow> rd_items n s = rd_items m s) \<and>
   (\<forall>s m. 2 * length s + 2 \<le> n \<longrightarrow> 2 * length s + 2 \<le> m \<longrightarrow> rd_members n s = rd_members m s)"
proof (induction n)
  case (Suc n)
  note IH = Suc.IH [THEN conjunct1, rule_format] Suc.IH [THEN conjunct2, THEN conjunct1, rule_format]
    Suc.IH [THEN conjunct2, THEN conjunct2, rule_format]
  show ?case
  proof (intro conjI allI impI)
    fix s :: pystr and m assume n: "2 * length s + 1 \<le> Suc n" and m: "2 * length s + 1 \<le> m"
    obtain m' where m': "m = Suc m'" using m by (cases m) auto
    show "rd_value (Suc n) s = rd_value m s"
    proof (cases s)
      case (Cons c r)
      have "rd_items n (skip_ws r) = rd_items m' (skip_ws r)"
        "rd_members n (skip_ws r) = rd_members m' (skip_ws r)"
        using n m m' Cons length_skip_ws [of r] by (intro IH; simp)+
      then show ?thesis using m' Cons by (auto split: list.split)
    qed (simp add: m')
  next
    fix s :: pystr and m assume n: "2 * length s + 2 \<le> Suc n" and m: "2 * length s + 2 \<le> m"
    obtain m' where m': "m = Suc m'" using m by (cases m) auto
    have v: "rd_value n s = rd_value m' s" using n m m' by (intro IH) auto
    have "rd_items n (skip_ws q) = rd_items m' (skip_ws q)"
      if "rd_value m' s = Some (x, r)" "skip_ws r = c # q" for x r c q
    proof -
      have "length (skip_ws q) < length s"
        using rd_value_length [OF that(1)] skip_ws_Cons_length [OF that(2)] length_skip_ws [of q] by simp
      then show ?thesis using n m m' by (intro IH) auto
    qed
    then show "rd_items (Suc n) s = rd_items m s"
      by (auto simp: m' v split: option.splits list.splits)
  next
    fix s :: pystr and m assume n: "2 * length s + 2 \<le> Suc n" and m: "2 * length s + 2 \<le> m"
    obtain m' where m': "m = Suc m'" using m by (cases m) auto
    have v: "rd_value n (skip_ws r2) = rd_value m' (skip_ws r2)"
      if "s = c # s'" "scan_string s' = Some (k, r1)" "skip_ws r1 = d # r2" for c s' k r1 d r2
      using n m m' that(1) scan_string_length [OF that(2)] skip_ws_Cons_length [OF that(3)]
        length_skip_ws [of r2] by (intro IH) auto
    have "rd_members n (skip_ws r4) = rd_members m' (skip_ws r4)"
      if "s = c # s'" "scan_string s' = Some (k, r1)" "skip_ws r1 = d # r2"
        "rd_value m' (skip_ws r2) = Some (x, r3)" "skip_ws r3 = e # r4" for c s' k r1 d r2 x r3 e r4
      using n m m' that(1) scan_string_length [OF that(2)] skip_ws_Cons_length [OF that(3)]
        length_skip_ws [of r2] rd_value_length [OF that(4)] skip_ws_Cons_length [OF that(5)]
        length_skip_ws [of r4] by (intro IH) auto
    with v show "rd_members (Suc n) s = rd_members m s"
      by (auto simp: m' split: option.splits list.splits)
  qed
qed auto

lemma rd_value_enough:
  "fuel_for s \<le> n \<Longrightarrow> rd_value n (skip_ws s) = rd_value (fuel_for s) (skip_ws s)"
  using length_skip_ws [of s]
  by (intro rd_fuel [THEN conjunct1, rule_format]) (auto simp: fuel_for_def)

section \<open>Properties\<close>

text \<open>
  C8. The canonical reader inverts the canonical writer: what was written for a value is accepted
  and read back as that value, with its dictionary items in key order.
\<close>
theorem canonical_roundtrip:
  assumes "canonicalizable v"
  shows "rbind (canonical_bytes v) parse_canonical = Inr (norm v)"
  using assms by (rule parse_canonical_bytes)

definition sample_value :: pyval where
  "sample_value = PDict [(PStr (u ''b''), PInt 1), (PStr (u ''a''), PList [PNone, PBool True])]"

theorem canonical_roundtrip_witness:
  "\<exists>b. canonical_bytes sample_value = Inr b \<and> parse_canonical b = Inr (norm sample_value)"
proof -
  have "canonicalizable sample_value"
    by (simp add: canonicalizable_def sample_value_def)
  from canonical_roundtrip [OF this] show ?thesis by (auto simp: rbind_Inr_iff)
qed

text \<open>
  The canonical encoding is injective up to dictionary order, so a hash of canonical bytes
  identifies the value and does not depend on the order its items were inserted in.
\<close>
theorem canonical_injective:
  assumes "canonicalizable v" and "canonicalizable w"
  shows "canonical_bytes v = canonical_bytes w \<longleftrightarrow> norm v = norm w"
  using assms by (rule canonical_bytes_inj)

theorem canonical_injective_witness:
  "canonical_bytes (PList [PInt 1]) \<noteq> canonical_bytes (PList [PInt 2])"
proof -
  have "canonicalizable (PList [PInt 1])" "canonicalizable (PList [PInt 2])"
    by (simp_all add: canonicalizable_def)
  from canonical_injective [OF this] show ?thesis by simp
qed

text \<open>
  The reader never runs out of fuel: any fuel above twice the text gives the same answer.\<close>
theorem reader_fuel_enough:
  assumes "fuel_for s \<le> n"
  shows "rd_value n (skip_ws s) = rd_value (fuel_for s) (skip_ws s)"
  using assms by (rule rd_value_enough)

theorem reader_fuel_enough_witness:
  "rd_value 100 (skip_ws (u '' [1]'')) = rd_value (fuel_for (u '' [1]'')) (skip_ws (u '' [1]''))"
  by (rule reader_fuel_enough) (simp add: fuel_for_def)

end
