(* ===== verification/Sha256.thy ===== *)
theory Sha256
  imports Prelude
begin

unbundle bit_operations_syntax

text \<open>
  The kernel's hash, \<open>core/attest/attest-sha256.adb\<close>: the streaming context with its block buffer,
  \<open>Update\<close>, \<open>Final\<close> and the compression function, on 32-bit words as Ada's \<open>Unsigned_32\<close>. Every
  identity of the runtime is a digest this code produced.

  The lemmas relate the streaming interface to a block-wise reference: feeding a message in
  pieces is feeding it at once, and the digest always has 32 bytes.
\<close>

type_synonym u32 = "32 word"

text \<open>The round constants of the source, in decimal.\<close>

definition K :: "u32 list" where
  "K = [
      1116352408, 1899447441, 3049323471, 3921009573, 961987163, 1508970993,
      2453635748, 2870763221, 3624381080, 310598401, 607225278, 1426881987,
      1925078388, 2162078206, 2614888103, 3248222580, 3835390401, 4022224774,
      264347078, 604807628, 770255983, 1249150122, 1555081692, 1996064986,
      2554220882, 2821834349, 2952996808, 3210313671, 3336571891, 3584528711,
      113926993, 338241895, 666307205, 773529912, 1294757372, 1396182291,
      1695183700, 1986661051, 2177026350, 2456956037, 2730485921, 2820302411,
      3259730800, 3345764771, 3516065817, 3600352804, 4094571909, 275423344,
      430227734, 506948616, 659060556, 883997877, 958139571, 1322822218,
      1537002063, 1747873779, 1955562222, 2024104815, 2227730452, 2361852424,
      2428436474, 2756734187, 3204031479, 3329325298]"

definition Init_State :: "u32 list" where
  "Init_State = [0x6a09e667, 0xbb67ae85, 0x3c6ef372, 0xa54ff53a,
      0x510e527f, 0x9b05688c, 0x1f83d9ab, 0x5be0cd19]"

definition Ch :: "u32 \<Rightarrow> u32 \<Rightarrow> u32 \<Rightarrow> u32" where
  "Ch x y z = (x AND y) XOR ((NOT x) AND z)"

definition Maj :: "u32 \<Rightarrow> u32 \<Rightarrow> u32 \<Rightarrow> u32" where
  "Maj x y z = (x AND y) XOR (x AND z) XOR (y AND z)"

definition rotr :: "nat \<Rightarrow> u32 \<Rightarrow> u32" where
  "rotr n x = drop_bit n x OR push_bit (32 - n) x"

definition Sigma0 :: "u32 \<Rightarrow> u32" where
  "Sigma0 x = rotr 2 x XOR rotr 13 x XOR rotr 22 x"

definition Sigma1 :: "u32 \<Rightarrow> u32" where
  "Sigma1 x = rotr 6 x XOR rotr 11 x XOR rotr 25 x"

definition Theta0 :: "u32 \<Rightarrow> u32" where
  "Theta0 x = rotr 7 x XOR rotr 18 x XOR drop_bit 3 x"

definition Theta1 :: "u32 \<Rightarrow> u32" where
  "Theta1 x = rotr 17 x XOR rotr 19 x XOR drop_bit 10 x"

definition Low_Byte :: "u32 \<Rightarrow> nat \<Rightarrow> char" where
  "Low_Byte x n = char_of (unat (drop_bit n x AND 0xFF))"

section \<open>Compression\<close>

definition be32 :: "char \<Rightarrow> char \<Rightarrow> char \<Rightarrow> char \<Rightarrow> u32" where
  "be32 a b c d =
     push_bit 24 (of_char a) OR push_bit 16 (of_char b) OR push_bit 8 (of_char c) OR of_char d"

fun words_of_block :: "bytes \<Rightarrow> u32 list" where
  "words_of_block (a # b # c # d # bs) = be32 a b c d # words_of_block bs"
| "words_of_block _ = []"

text \<open>The schedule loop appends \<open>W (I)\<close> for \<open>I\<close> from 16 to 63.\<close>

fun extend :: "nat \<Rightarrow> u32 list \<Rightarrow> u32 list" where
  "extend 0 w = w"
| "extend (Suc k) w =
     (let i = length w in
      extend k (w @ [Theta1 (w ! (i - 2)) + w ! (i - 7) + Theta0 (w ! (i - 15)) + w ! (i - 16)]))"

definition round256 :: "u32 \<times> u32 \<Rightarrow> u32 list \<Rightarrow> u32 list" where
  "round256 kw s = (case s of
     [a, b, c, d, e, f, g, h] \<Rightarrow>
       (let t1 = h + Sigma1 e + Ch e f g + fst kw + snd kw; t2 = Sigma0 a + Maj a b c
        in [t1 + t2, a, b, c, d + t1, e, f, g])
   | _ \<Rightarrow> s)"

definition Compress :: "u32 list \<Rightarrow> bytes \<Rightarrow> u32 list" where
  "Compress h b =
     map2 (+) h (fold round256 (zip K (extend 48 (words_of_block b))) h)"

section \<open>The streaming interface\<close>

text \<open>
  \<open>Buf\<close> keeps the \<open>Fill\<close> bytes of the current block: the Ada array's cells past \<open>Fill\<close> are
  never read before they are written, so the list of the filled cells is the whole buffer.
\<close>

record sha_context =
  Hs :: "u32 list"
  Buf :: bytes
  Count :: "64 word"

definition Initial :: sha_context where
  "Initial = \<lparr>Hs = Init_State, Buf = [], Count = 0\<rparr>"

definition absorb :: "char \<Rightarrow> sha_context \<Rightarrow> sha_context" where
  "absorb x c =
     (if length (Buf c) = 63
      then c\<lparr>Hs := Compress (Hs c) (Buf c @ [x]), Buf := []\<rparr>
      else c\<lparr>Buf := Buf c @ [x]\<rparr>)"

definition Update :: "sha_context \<Rightarrow> bytes \<Rightarrow> sha_context" where
  "Update c inp = (let c' = fold absorb inp c in c'\<lparr>Count := Count c + of_nat (length inp)\<rparr>)"

definition len64 :: "64 word \<Rightarrow> bytes" where
  "len64 bits = map (\<lambda>j. char_of (unat (drop_bit (8 * (7 - j)) bits AND 0xFF))) [0..<8]"

definition Final :: "sha_context \<Rightarrow> bytes" where
  "Final c =
     (let bits = push_bit 3 (Count c);
          buf = Buf c @ [CHR 0x80];
          (h, rest) = (if length buf > 56
             then (Compress (Hs c) (buf @ replicate (64 - length buf) (CHR 0x00)), [])
             else (Hs c, buf));
          h' = Compress h (rest @ replicate (56 - length rest) (CHR 0x00) @ len64 bits)
      in concat (map (\<lambda>x. [Low_Byte x 24, Low_Byte x 16, Low_Byte x 8, Low_Byte x 0]) h'))"

definition Hash :: "bytes \<Rightarrow> bytes" where
  "Hash inp = Final (Update Initial inp)"

section \<open>Lengths\<close>

lemma length_round256 [simp]: "length (round256 kw s) = length s"
  by (auto simp: round256_def Let_def split: list.splits)

lemma length_fold_round256 [simp]: "length (fold round256 xs s) = length s"
  by (induction xs arbitrary: s) auto

lemma length_Compress [simp]: "length (Compress h b) = length h"
  by (simp add: Compress_def)

definition ctx_ok :: "sha_context \<Rightarrow> bool" where
  "ctx_ok c \<longleftrightarrow> length (Hs c) = 8 \<and> length (Buf c) < 64"

lemma ctx_ok_Initial [simp, intro]: "ctx_ok Initial"
  by (simp add: ctx_ok_def Initial_def Init_State_def)

lemma ctx_ok_absorb: "ctx_ok c \<Longrightarrow> ctx_ok (absorb x c)"
  by (auto simp: ctx_ok_def absorb_def)

lemma ctx_ok_fold_absorb: "ctx_ok c \<Longrightarrow> ctx_ok (fold absorb xs c)"
  by (induction xs arbitrary: c) (auto intro: ctx_ok_absorb)

lemma ctx_ok_Count [simp]: "ctx_ok (c\<lparr>Count := n\<rparr>) = ctx_ok c"
  by (simp add: ctx_ok_def)

lemma ctx_ok_Update: "ctx_ok c \<Longrightarrow> ctx_ok (Update c xs)"
  by (simp add: Update_def Let_def ctx_ok_fold_absorb)

lemma length_concat_map_const:
  "(\<And>x. length (f x) = n) \<Longrightarrow> length (concat (map f xs)) = length xs * n"
  by (induction xs) auto

lemma length_Final: "ctx_ok c \<Longrightarrow> length (Final c) = 32"
  by (simp add: Final_def Let_def ctx_ok_def length_concat_map_const [where n = 4])

lemma length_Hash [simp]: "length (Hash xs) = 32"
  by (simp add: Hash_def length_Final ctx_ok_Update)

section \<open>Feeding a message in pieces\<close>

lemma absorb_Count: "absorb x (c\<lparr>Count := n\<rparr>) = (absorb x c)\<lparr>Count := n\<rparr>"
  by (simp add: absorb_def)

lemma Count_absorb [simp]: "Count (absorb x c) = Count c"
  by (simp add: absorb_def)

lemma fold_absorb_Count: "fold absorb xs (c\<lparr>Count := n\<rparr>) = (fold absorb xs c)\<lparr>Count := n\<rparr>"
  by (induction xs arbitrary: c) (simp_all add: absorb_Count)

lemma Count_fold_absorb [simp]: "Count (fold absorb xs c) = Count c"
  by (induction xs arbitrary: c) simp_all

lemma Update_append: "Update (Update c xs) ys = Update c (xs @ ys)"
  by (simp add: Update_def Let_def fold_absorb_Count add.assoc)

lemma Update_Nil [simp]: "Update c [] = c"
  by (simp add: Update_def)

section \<open>The block-wise reference\<close>

text \<open>
  The reference pads the whole message to a multiple of 64 bytes (a 1 bit, zeroes, the 64-bit
  length in bits) and compresses block by block.
\<close>

definition pad_zeroes :: "nat \<Rightarrow> nat" where
  "pad_zeroes n = (119 - n mod 64) mod 64"

definition padded :: "bytes \<Rightarrow> bytes" where
  "padded m = m @ CHR 0x80 # replicate (pad_zeroes (length m)) (CHR 0x00)
                @ len64 (push_bit 3 (of_nat (length m)))"

function blocks :: "u32 list \<Rightarrow> bytes \<Rightarrow> u32 list" where
  "blocks h m = (if length m < 64 then h else blocks (Compress h (take 64 m)) (drop 64 m))"
  by pat_completeness auto
termination by (relation "measure (length \<circ> snd)") auto

declare blocks.simps [simp del]

definition sha256_spec :: "bytes \<Rightarrow> bytes" where
  "sha256_spec m = concat (map (\<lambda>x. [Low_Byte x 24, Low_Byte x 16, Low_Byte x 8, Low_Byte x 0])
                      (blocks Init_State (padded m)))"

lemma blocks_short [simp]: "length m < 64 \<Longrightarrow> blocks h m = h"
  by (subst blocks.simps) simp

lemma blocks_block: "length b = 64 \<Longrightarrow> blocks h (b @ m) = blocks (Compress h b) m"
  by (subst blocks.simps) simp

text \<open>What the context holds after absorbing: the full blocks compressed, the rest buffered.\<close>

lemma fold_absorb_blocks:
  assumes "length (Buf c) < 64"
  shows "blocks (Hs c) (Buf c @ xs @ t) = blocks (Hs (fold absorb xs c)) (Buf (fold absorb xs c) @ t)"
  using assms
proof (induction xs arbitrary: c)
  case Nil
  then show ?case by simp
next
  case (Cons x xs)
  show ?case
  proof (cases "length (Buf c) = 63")
    case True
    then have "blocks (Hs c) ((Buf c @ [x]) @ xs @ t) = blocks (Compress (Hs c) (Buf c @ [x])) (xs @ t)"
      by (intro blocks_block) simp
    with True Cons.IH [of "absorb x c"] show ?thesis by (simp add: absorb_def)
  next
    case False
    with Cons.prems have "length (Buf (absorb x c)) < 64" by (simp add: absorb_def)
    with False Cons.IH [of "absorb x c"] show ?thesis by (simp add: absorb_def)
  qed
qed

lemma length_Buf_fold_absorb:
  "length (Buf c) < 64 \<Longrightarrow>
     length (Buf (fold absorb xs c)) = (length (Buf c) + length xs) mod 64"
proof (induction xs arbitrary: c)
  case (Cons x xs)
  show ?case
  proof (cases "length (Buf c) = 63")
    case True
    then have "Buf (absorb x c) = []" by (simp add: absorb_def)
    moreover have "(63 + Suc (length xs)) mod 64 = length xs mod 64"
      using mod_add_self1 [of 64 "length xs"] by simp
    ultimately show ?thesis using True Cons.IH [of "absorb x c"] by simp
  next
    case False
    then have "length (Buf (absorb x c)) = Suc (length (Buf c))" by (simp add: absorb_def)
    with False Cons.prems Cons.IH [of "absorb x c"] show ?thesis by simp
  qed
qed simp

lemma length_len64 [simp]: "length (len64 b) = 8"
  by (simp add: len64_def)

lemma pad_arith:
  fixes r :: nat
  shows "r \<le> 55 \<Longrightarrow> (119 - r) mod 64 = 55 - r"
    and "55 < r \<Longrightarrow> r < 64 \<Longrightarrow> (119 - r) mod 64 = (63 - r) + 56"
proof -
  assume r: "r \<le> 55"
  then have "119 - r = (55 - r) + 64" by simp
  then have "(119 - r) mod 64 = (55 - r) mod 64" by (simp only: mod_add_self2)
  with r show "(119 - r) mod 64 = 55 - r" by simp
next
  assume "55 < r" and "r < 64"
  then show "(119 - r) mod 64 = (63 - r) + 56" by simp
qed

lemma pad_zeroes_long: "55 < n mod 64 \<Longrightarrow> pad_zeroes n = (63 - n mod 64) + 56"
  unfolding pad_zeroes_def by (rule pad_arith(2)) simp_all

lemma pad_zeroes_short: "n mod 64 \<le> 55 \<Longrightarrow> pad_zeroes n = 55 - n mod 64"
  unfolding pad_zeroes_def by (rule pad_arith(1))

lemma Final_blocks:
  assumes "length (Buf c) < 64" and "length (Buf c) = n mod 64"
  shows "Final c = concat (map (\<lambda>x. [Low_Byte x 24, Low_Byte x 16, Low_Byte x 8, Low_Byte x 0])
    (blocks (Hs c) (Buf c @ CHR 0x80 # replicate (pad_zeroes n) (CHR 0x00)
                     @ len64 (push_bit 3 (Count c)))))"
proof (cases "length (Buf c) > 55")
  case True
  let ?b1 = "Buf c @ CHR 0x80 # replicate (63 - length (Buf c)) (CHR 0x00)"
  let ?b2 = "replicate 56 (CHR 0x00) @ len64 (push_bit 3 (Count c))"
  have z: "replicate (pad_zeroes n) (CHR 0x00) =
      replicate (63 - length (Buf c)) (CHR 0x00) @ replicate 56 (CHR 0x00)"
    using True assms(2) pad_zeroes_long [of n] by (simp only: replicate_add)
  have "blocks (Hs c) (?b1 @ ?b2 @ []) = Compress (Compress (Hs c) ?b1) ?b2"
    using assms(1) by (simp only: blocks_block blocks_short length_append length_Cons
        length_replicate length_len64 list.size)
  with True show ?thesis by (simp add: Final_def Let_def z)
next
  case False
  let ?b = "Buf c @ CHR 0x80 # replicate (55 - length (Buf c)) (CHR 0x00) @ len64 (push_bit 3 (Count c))"
  have z: "pad_zeroes n = 55 - length (Buf c)"
    using False assms(2) by (simp add: pad_zeroes_short)
  have "blocks (Hs c) (?b @ []) = Compress (Hs c) ?b"
    using False by (simp only: blocks_block blocks_short length_append length_Cons
        length_replicate length_len64 list.size)
  with False show ?thesis by (simp add: Final_def Let_def z)
qed

lemma Hash_refines_spec: "Hash m = sha256_spec m"
proof -
  let ?c = "fold absorb m Initial"
  have I: "Buf Initial = []" "Hs Initial = Init_State" "Count Initial = 0" by (simp_all add: Initial_def)
  have len: "length (Buf ?c) = length m mod 64"
    using length_Buf_fold_absorb [of Initial m] I by simp
  then have "length (Buf ?c) < 64" by simp
  have "blocks Init_State (padded m) = blocks (Hs ?c) (Buf ?c @ CHR 0x80 #
      replicate (pad_zeroes (length m)) (CHR 0x00) @ len64 (push_bit 3 (of_nat (length m))))"
    unfolding padded_def using fold_absorb_blocks [of Initial m] I by simp
  then show ?thesis
    using Final_blocks [of "Update Initial m" "length m"] len \<open>length (Buf ?c) < 64\<close> I
    by (simp add: Hash_def sha256_spec_def Update_def Let_def)
qed

section \<open>The digest interface\<close>

text \<open>What the rest of the runtime relies on when it hashes: 32 bytes come back, always.\<close>

locale digest =
  fixes hb :: "bytes \<Rightarrow> bytes"
  assumes length_hb [simp]: "length (hb m) = 32"
begin

lemma hb_nonempty: "hb m \<noteq> []"
  using length_hb [of m] by (metis length_0_conv zero_neq_numeral)

lemma hb_take_drop: "take 32 (hb m @ rest) = hb m" "drop 32 (hb m @ rest) = rest"
  by simp_all

lemma hb_append_inj: "hb a @ x = hb b @ y \<longleftrightarrow> hb a = hb b \<and> x = y"
  by (simp add: append_eq_append_conv)

end

interpretation sha: digest Hash
  by unfold_locales simp

section \<open>Properties\<close>


end
