(* ===== verification/Kernel.thy ===== *)
theory Kernel
  imports Sha256
begin

text \<open>
  The proved kernel of \<open>core/\<close>, as the runtime calls it: the three lifecycles of
  \<open>worldline-transitions.adb\<close> and \<open>worldline-evaluation.adb\<close>, the collapse decision of
  \<open>worldline-collapse.adb\<close>, the classification, admission and roster rules of evaluations, the
  chain links and world identities, and the C wire record with its validity rules
  (\<open>worldline-collapse_wire.ads\<close>).

  The \<open>lifecycle\<close> interface states what a client may rely on: a lifecycle only moves forward, so
  no run of it is longer than its rank allows or returns to a state it left.
\<close>

section \<open>Lifecycles\<close>

datatype world_state = MUTABLE | FINALIZING | VALID | DEGRADED | DEAD | ARCHIVED | COLLAPSED

fun Allowed :: "world_state \<Rightarrow> world_state \<Rightarrow> bool" where
  "Allowed MUTABLE t \<longleftrightarrow> t \<in> {FINALIZING, DEAD}"
| "Allowed FINALIZING t \<longleftrightarrow> t \<in> {VALID, DEGRADED, DEAD}"
| "Allowed VALID t \<longleftrightarrow> t \<in> {COLLAPSED, ARCHIVED}"
| "Allowed DEGRADED t \<longleftrightarrow> t \<in> {DEAD, ARCHIVED}"
| "Allowed DEAD t \<longleftrightarrow> t = ARCHIVED"
| "Allowed COLLAPSED t \<longleftrightarrow> t = ARCHIVED"
| "Allowed ARCHIVED t \<longleftrightarrow> False"

datatype tx_state = TxPREPARED | TxAUTHORIZED | TxDENIED | TxCOMMITTED | TxABORTED

fun Transaction_Allowed :: "tx_state \<Rightarrow> tx_state \<Rightarrow> bool" where
  "Transaction_Allowed TxPREPARED t \<longleftrightarrow> t \<in> {TxAUTHORIZED, TxDENIED, TxABORTED}"
| "Transaction_Allowed TxAUTHORIZED t \<longleftrightarrow> t \<in> {TxCOMMITTED, TxABORTED}"
| "Transaction_Allowed TxDENIED t \<longleftrightarrow> t = TxABORTED"
| "Transaction_Allowed TxCOMMITTED t \<longleftrightarrow> False"
| "Transaction_Allowed TxABORTED t \<longleftrightarrow> False"

datatype execution = NOT_ATTEMPTED | PREPARED | STARTED | INTERRUPTED | ERROR_BEFORE_EXAMINER
  | INCOMPLETE_UNKNOWN | EVALUATOR_INCOMPLETE | UNCLASSIFIED | COMPLETED

fun Transition_Allowed :: "execution \<Rightarrow> execution \<Rightarrow> bool" where
  "Transition_Allowed NOT_ATTEMPTED t \<longleftrightarrow> t = PREPARED"
| "Transition_Allowed PREPARED t \<longleftrightarrow>
     t \<in> {STARTED, INTERRUPTED, ERROR_BEFORE_EXAMINER, INCOMPLETE_UNKNOWN, UNCLASSIFIED}"
| "Transition_Allowed STARTED t \<longleftrightarrow>
     t \<in> {COMPLETED, INTERRUPTED, INCOMPLETE_UNKNOWN, EVALUATOR_INCOMPLETE, UNCLASSIFIED}"
| "Transition_Allowed _ t \<longleftrightarrow> False"

definition Advance :: "execution \<Rightarrow> execution \<Rightarrow> execution" where
  "Advance s requested = (if Transition_Allowed s requested then requested else s)"

definition Transaction_Advance :: "tx_state \<Rightarrow> tx_state \<Rightarrow> tx_state" where
  "Transaction_Advance s requested = (if Transaction_Allowed s requested then requested else s)"

text \<open>A run of a lifecycle: consecutive states are allowed steps.\<close>

locale lifecycle =
  fixes allowed :: "'s \<Rightarrow> 's \<Rightarrow> bool" and rank :: "'s \<Rightarrow> nat" and top :: nat
  assumes allowed_rank: "allowed s t \<Longrightarrow> rank s < rank t"
    and rank_top: "rank s \<le> top"
begin

lemma steps_rank: "allowed\<^sup>*\<^sup>* s t \<Longrightarrow> s = t \<or> rank s < rank t"
  by (induction rule: rtranclp_induct) (auto dest: allowed_rank)

lemma no_return: "allowed s t \<Longrightarrow> \<not> allowed\<^sup>*\<^sup>* t s"
  using steps_rank allowed_rank by fastforce

lemma acyclic: "allowed\<^sup>*\<^sup>* s t \<Longrightarrow> allowed\<^sup>*\<^sup>* t s \<Longrightarrow> s = t"
  by (metis steps_rank less_asym)

lemma run_sorted: "successively allowed xs \<Longrightarrow> sorted_wrt (\<lambda>s t. rank s < rank t) xs"
proof -
  assume "successively allowed xs"
  then have "successively (\<lambda>s t. rank s < rank t) xs"
    by (rule successively_mono) (auto dest: allowed_rank)
  moreover have "transp (\<lambda>s t. rank s < rank t)" by (auto intro: transpI)
  ultimately show ?thesis by (simp add: successively_conv_sorted_wrt)
qed

lemma run_bounded: "successively allowed xs \<Longrightarrow> distinct xs \<and> length xs \<le> Suc top"
proof -
  assume "successively allowed xs"
  then have "sorted_wrt (<) (map rank xs)" by (simp add: run_sorted sorted_wrt_map)
  then have d: "distinct (map rank xs)" by (simp add: strict_sorted_iff)
  then have "length xs = card (set (map rank xs))" by (metis distinct_card length_map)
  also have "\<dots> \<le> card {0..top}" using rank_top by (intro card_mono) auto
  finally show ?thesis using d by (simp add: distinct_map)
qed

end

fun world_rank :: "world_state \<Rightarrow> nat" where
  "world_rank MUTABLE = 0" | "world_rank FINALIZING = 1" | "world_rank VALID = 2"
| "world_rank DEGRADED = 2" | "world_rank DEAD = 3" | "world_rank COLLAPSED = 3"
| "world_rank ARCHIVED = 4"

fun tx_rank :: "tx_state \<Rightarrow> nat" where
  "tx_rank TxPREPARED = 0" | "tx_rank TxAUTHORIZED = 1" | "tx_rank TxDENIED = 1"
| "tx_rank TxCOMMITTED = 2" | "tx_rank TxABORTED = 2"

fun execution_rank :: "execution \<Rightarrow> nat" where
  "execution_rank NOT_ATTEMPTED = 0" | "execution_rank PREPARED = 1"
| "execution_rank STARTED = 2" | "execution_rank _ = 3"

interpretation world: lifecycle Allowed world_rank 4
proof
  fix s t show "Allowed s t \<Longrightarrow> world_rank s < world_rank t" by (cases s) auto
  show "world_rank s \<le> 4" by (cases s) auto
qed

interpretation tx: lifecycle Transaction_Allowed tx_rank 2
proof
  fix s t show "Transaction_Allowed s t \<Longrightarrow> tx_rank s < tx_rank t" by (cases s) auto
  show "tx_rank s \<le> 2" by (cases s) auto
qed

interpretation evaluation: lifecycle Transition_Allowed execution_rank 3
proof
  fix s t show "Transition_Allowed s t \<Longrightarrow> execution_rank s < execution_rank t" by (cases s) auto
  show "execution_rank s \<le> 3" by (cases s) auto
qed

lemma Transaction_steps_cases:
  "Transaction_Allowed\<^sup>*\<^sup>* s t \<longleftrightarrow> s = t \<or> Transaction_Allowed s t \<or>
     (s = TxPREPARED \<and> t \<in> {TxCOMMITTED, TxABORTED})"
proof
  assume "Transaction_Allowed\<^sup>*\<^sup>* s t"
  then show "s = t \<or> Transaction_Allowed s t \<or> (s = TxPREPARED \<and> t \<in> {TxCOMMITTED, TxABORTED})"
  proof (induction rule: rtranclp_induct)
    case (step y z)
    then show ?case by (cases s; cases y) auto
  qed simp
next
  have "Transaction_Allowed TxPREPARED TxAUTHORIZED" "Transaction_Allowed TxAUTHORIZED TxCOMMITTED"
    by simp_all
  then have "Transaction_Allowed\<^sup>*\<^sup>* TxPREPARED TxCOMMITTED" by (meson converse_rtranclp_into_rtranclp r_into_rtranclp)
  moreover assume "s = t \<or> Transaction_Allowed s t \<or> (s = TxPREPARED \<and> t \<in> {TxCOMMITTED, TxABORTED})"
  ultimately show "Transaction_Allowed\<^sup>*\<^sup>* s t" by auto
qed

section \<open>The collapse decision\<close>

datatype phase = Commit | Prepare
datatype measurement = Unmeasured | None_Found | Found
datatype evaluation_mode = Candidate_Evaluation | Checkpoint_Return

text \<open>
  An optional identity of \<open>worldline-identities.ads\<close> is \<open>None\<close> or a present value; the Ada types
  keep the identity kinds apart, which the field names do here.
\<close>

record collapse_request =
  Candidate_State :: world_state
  Request_Phase :: phase
  Mode :: evaluation_mode
  Conflicts :: measurement
  Foreign_Writes :: measurement
  Roster_Complete :: bool
  Staged_Roster_Complete :: bool
  Expected_Parent :: "bytes option"
  Candidate_Parent :: "bytes option"
  Expected_Subject :: "bytes option"
  Evidence_Subject :: "bytes option"
  Expected_Base :: "bytes option"
  Candidate_Base :: "bytes option"
  Expected_Delta :: "bytes option"
  Candidate_Delta :: "bytes option"
  Expected_Root_Set :: "bytes option"
  Candidate_Root_Set :: "bytes option"
  Expected_Staged_Root :: "bytes option"
  Actual_Staged_Root :: "bytes option"
  Staged_Content_Root :: "bytes option"
  Tested_Root :: "bytes option"
  Current_Requirement :: "bytes option"
  Evaluated_Requirement :: "bytes option"
  Declared_Verifiers :: "bytes option"
  Executed_Verifiers :: "bytes option"
  Staged_Evaluated_Requirement :: "bytes option"
  Staged_Executed_Verifiers :: "bytes option"
  Staged_Examined_Root :: "bytes option"
  Expected_Checkpoint :: "bytes option"
  Witnessed_Checkpoint :: "bytes option"
  Registered_Watch_Set :: "bytes option"
  Watched_Set :: "bytes option"
  Generation_Before :: "64 word option"
  Generation_After :: "64 word option"

datatype decision = AUTHORIZED | INVALID_CANDIDATE | PARENT_MISMATCH | OWNER_MISMATCH
  | BASE_MISMATCH | DELTA_MISMATCH | ROOT_SET_MISMATCH | STAGED_ROOT_MISMATCH | CONFLICT
  | FOREIGN_MANAGED_WRITE | VALIDATION_CONTEXT_MISMATCH | STAGED_UNTESTED
  | EXECUTION_EVIDENCE_INCOMPLETE | VERIFIER_EXECUTION_IDENTITY_MISMATCH
  | CHECKPOINT_UNWITNESSED | IDENTITY_ABSENT | MEASUREMENT_ABSENT | PRIME_CHANGED
  | WATCH_INCOMPLETE | CHECKPOINT_MISMATCH | EVIDENCE_SUBJECT_MISMATCH

definition Same :: "'a option \<Rightarrow> 'a option \<Rightarrow> bool" where
  "Same l r \<longleftrightarrow> (case (l, r) of (Some x, Some y) \<Rightarrow> x = y | _ \<Rightarrow> False)"

definition Differ :: "'a option \<Rightarrow> 'a option \<Rightarrow> bool" where
  "Differ l r \<longleftrightarrow> (case (l, r) of (Some x, Some y) \<Rightarrow> x \<noteq> y | _ \<Rightarrow> False)"

definition Measured :: "collapse_request \<Rightarrow> bool" where
  "Measured r \<longleftrightarrow> Conflicts r \<noteq> Unmeasured \<and> Foreign_Writes r \<noteq> Unmeasured
     \<and> Generation_Before r \<noteq> None \<and> Generation_After r \<noteq> None
     \<and> Registered_Watch_Set r \<noteq> None \<and> Watched_Set r \<noteq> None"

definition Required_Present :: "collapse_request \<Rightarrow> bool" where
  "Required_Present r \<longleftrightarrow>
     Expected_Parent r \<noteq> None \<and> Candidate_Parent r \<noteq> None
     \<and> Expected_Subject r \<noteq> None \<and> Evidence_Subject r \<noteq> None
     \<and> Expected_Base r \<noteq> None \<and> Candidate_Base r \<noteq> None
     \<and> Expected_Delta r \<noteq> None \<and> Candidate_Delta r \<noteq> None
     \<and> Expected_Root_Set r \<noteq> None \<and> Candidate_Root_Set r \<noteq> None
     \<and> Staged_Content_Root r \<noteq> None
     \<and> Expected_Staged_Root r \<noteq> None
     \<and> (Request_Phase r = Prepare \<or> Actual_Staged_Root r \<noteq> None)
     \<and> (case Mode r of
          Candidate_Evaluation \<Rightarrow>
            Current_Requirement r \<noteq> None \<and> Evaluated_Requirement r \<noteq> None
            \<and> Declared_Verifiers r \<noteq> None \<and> Executed_Verifiers r \<noteq> None
        | Checkpoint_Return \<Rightarrow> Expected_Checkpoint r \<noteq> None)"

definition Staged_Root_Holds :: "collapse_request \<Rightarrow> bool" where
  "Staged_Root_Holds r \<longleftrightarrow>
     (case Request_Phase r of
        Commit \<Rightarrow> Same (Expected_Staged_Root r) (Actual_Staged_Root r)
      | Prepare \<Rightarrow> Expected_Staged_Root r \<noteq> None)"

definition Primary_Covers :: "collapse_request \<Rightarrow> bool" where
  "Primary_Covers r \<longleftrightarrow> Same (Tested_Root r) (Staged_Content_Root r)"

definition Staged_Covers :: "collapse_request \<Rightarrow> bool" where
  "Staged_Covers r \<longleftrightarrow>
     Same (Current_Requirement r) (Staged_Evaluated_Requirement r)
     \<and> Staged_Roster_Complete r
     \<and> Same (Declared_Verifiers r) (Staged_Executed_Verifiers r)
     \<and> Same (Staged_Examined_Root r) (Staged_Content_Root r)"

definition Covered :: "collapse_request \<Rightarrow> bool" where
  "Covered r \<longleftrightarrow> Primary_Covers r \<or> Staged_Covers r"

definition Evidence_Holds :: "collapse_request \<Rightarrow> bool" where
  "Evidence_Holds r \<longleftrightarrow>
     (case Mode r of
        Candidate_Evaluation \<Rightarrow>
          Same (Current_Requirement r) (Evaluated_Requirement r)
          \<and> Roster_Complete r
          \<and> Same (Declared_Verifiers r) (Executed_Verifiers r)
      | Checkpoint_Return \<Rightarrow> Same (Expected_Checkpoint r) (Witnessed_Checkpoint r))
     \<and> Covered r"

definition All_Hold :: "collapse_request \<Rightarrow> bool" where
  "All_Hold r \<longleftrightarrow>
     Candidate_State r = VALID
     \<and> Conflicts r = None_Found
     \<and> Foreign_Writes r = None_Found
     \<and> Same (Registered_Watch_Set r) (Watched_Set r)
     \<and> Same (Generation_Before r) (Generation_After r)
     \<and> Same (Expected_Parent r) (Candidate_Parent r)
     \<and> Same (Expected_Subject r) (Evidence_Subject r)
     \<and> Same (Expected_Base r) (Candidate_Base r)
     \<and> Same (Expected_Delta r) (Candidate_Delta r)
     \<and> Same (Expected_Root_Set r) (Candidate_Root_Set r)
     \<and> Staged_Root_Holds r
     \<and> Evidence_Holds r"

definition Decide :: "collapse_request \<Rightarrow> decision" where
  "Decide r =
     (if Candidate_State r \<noteq> VALID then INVALID_CANDIDATE
      else if Conflicts r = Found then CONFLICT
      else if Foreign_Writes r = Found then FOREIGN_MANAGED_WRITE
      else if \<not> Measured r then MEASUREMENT_ABSENT
      else if \<not> Same (Registered_Watch_Set r) (Watched_Set r) then WATCH_INCOMPLETE
      else if \<not> Same (Generation_Before r) (Generation_After r) then PRIME_CHANGED
      else if Mode r = Candidate_Evaluation \<and> \<not> Roster_Complete r
        then EXECUTION_EVIDENCE_INCOMPLETE
      else if \<not> Required_Present r then IDENTITY_ABSENT
      else if \<not> Same (Expected_Parent r) (Candidate_Parent r) then PARENT_MISMATCH
      else if \<not> Same (Expected_Subject r) (Evidence_Subject r) then EVIDENCE_SUBJECT_MISMATCH
      else if \<not> Same (Expected_Base r) (Candidate_Base r) then BASE_MISMATCH
      else if \<not> Same (Expected_Delta r) (Candidate_Delta r) then DELTA_MISMATCH
      else if \<not> Same (Expected_Root_Set r) (Candidate_Root_Set r) then ROOT_SET_MISMATCH
      else if Request_Phase r = Commit \<and> \<not> Same (Expected_Staged_Root r) (Actual_Staged_Root r)
        then STAGED_ROOT_MISMATCH
      else if Mode r = Candidate_Evaluation \<and> \<not> Same (Current_Requirement r) (Evaluated_Requirement r)
        then VALIDATION_CONTEXT_MISMATCH
      else if Mode r = Candidate_Evaluation \<and> \<not> Same (Declared_Verifiers r) (Executed_Verifiers r)
        then VERIFIER_EXECUTION_IDENTITY_MISMATCH
      else if Mode r = Checkpoint_Return \<and> Witnessed_Checkpoint r = None
        then CHECKPOINT_UNWITNESSED
      else if Mode r = Checkpoint_Return \<and> \<not> Same (Expected_Checkpoint r) (Witnessed_Checkpoint r)
        then CHECKPOINT_MISMATCH
      else if \<not> Covered r then STAGED_UNTESTED
      else AUTHORIZED)"

lemma Same_iff: "Same l r \<longleftrightarrow> l \<noteq> None \<and> r \<noteq> None \<and> l = r"
  by (auto simp: Same_def split: option.splits)

lemma Differ_iff: "Differ l r \<longleftrightarrow> l \<noteq> None \<and> r \<noteq> None \<and> \<not> Same l r"
  by (auto simp: Differ_def Same_def split: option.splits)

lemmas decision_defs = Measured_def Required_Present_def Staged_Root_Holds_def Evidence_Holds_def
  All_Hold_def

lemma Decide_authorized: "Decide r = AUTHORIZED \<longleftrightarrow> All_Hold r"
proof
  assume "Decide r = AUTHORIZED"
  then show "All_Hold r"
    by (cases "Conflicts r"; cases "Foreign_Writes r"; cases "Mode r"; cases "Request_Phase r")
      (simp_all add: Decide_def decision_defs split: if_splits)
next
  assume h: "All_Hold r"
  then have "Covered r" by (simp add: All_Hold_def Evidence_Holds_def)
  then have "Staged_Content_Root r \<noteq> None"
    by (metis Covered_def Primary_Covers_def Staged_Covers_def Same_iff)
  moreover have "Measured r"
    using h by (simp add: All_Hold_def Measured_def Same_iff del: not_None_eq)
  ultimately have "Measured r" "Required_Present r"
    using h unfolding All_Hold_def Required_Present_def Staged_Root_Holds_def Evidence_Holds_def
    by (cases "Mode r"; cases "Request_Phase r"; simp add: Same_iff del: not_None_eq)+
  moreover have "Witnessed_Checkpoint r \<noteq> None" if "Mode r = Checkpoint_Return"
    using h that by (simp add: All_Hold_def Evidence_Holds_def Same_iff)
  ultimately show "Decide r = AUTHORIZED"
    using h unfolding Decide_def All_Hold_def Staged_Root_Holds_def Evidence_Holds_def
    by (cases "Mode r"; cases "Request_Phase r"; simp)
qed

section \<open>Evaluations\<close>

datatype origin = Engine | Agent | External
datatype raw_status = Absent_Status | Pass_Status | Fail_Status | Unassessed_Status | Other_Status
datatype channel = Absent_Channel | Empty_Channel | Accepted_Channel | Rejected_Channel
  | Other_Channel | Malformed_Channel
datatype stage = No_Stage | Never_Started | Manager_Stopped | Harness_Signalled | Other_Stage
datatype supervision = No_Supervision | Supervised | Stopped | Other_Supervision

record observations =
  Source :: origin
  Status :: raw_status
  Channel :: channel
  Stage :: stage
  Exit_Present :: bool
  Exit_Integer :: bool
  Supervisor :: supervision
  Supervisor_Stopped :: bool
  Bundle_Present :: bool
  Bundle_Is_Mapping :: bool
  Bundle_Stable :: bool
  Bundle_Changed :: bool
  Unsatisfied_Imports :: bool

datatype outcome = No_Outcome | Passed | Failed
datatype bundle_integrity = Not_Covered | Verified | Compromised | Unknown_Integrity
datatype report_integrity = Not_Applicable | Verified_Report | Untrusted_Report

record classification =
  Execution :: execution
  Result :: outcome
  Bundle :: bundle_integrity

definition Bundle_Of :: "observations \<Rightarrow> bundle_integrity" where
  "Bundle_Of f =
     (if \<not> Bundle_Present f then Not_Covered
      else if \<not> Bundle_Is_Mapping f then Unknown_Integrity
      else if Bundle_Stable f \<and> \<not> Bundle_Changed f then Verified
      else Compromised)"

definition Classify :: "observations \<Rightarrow> classification" where
  "Classify f =
     (let verdict = Status f \<in> {Pass_Status, Fail_Status};
          e1 =
        (if Channel f = Malformed_Channel then UNCLASSIFIED
         else if Source f = Engine then
           (if verdict \<and> \<not> Exit_Present f \<and> Channel f \<in> {Absent_Channel, Empty_Channel}
               \<and> \<not> Bundle_Present f then COMPLETED else UNCLASSIFIED)
         else if Source f = Agent then
           (if Supervisor f = Supervised \<and> \<not> Supervisor_Stopped f \<and> Exit_Integer f \<and> verdict
              then COMPLETED
            else if Supervisor f \<in> {No_Supervision, Stopped} \<or> Supervisor_Stopped f
              then INTERRUPTED
            else INCOMPLETE_UNKNOWN)
         else if Status f = Unassessed_Status
             \<or> (Status f = Absent_Status \<and> \<not> Exit_Present f
                 \<and> Channel f \<in> {Absent_Channel, Empty_Channel})
           then NOT_ATTEMPTED
         else if Channel f = Rejected_Channel then
           (case Stage f of
              Never_Started \<Rightarrow> ERROR_BEFORE_EXAMINER
            | Manager_Stopped \<Rightarrow> INTERRUPTED
            | Harness_Signalled \<Rightarrow> INTERRUPTED
            | _ \<Rightarrow> INCOMPLETE_UNKNOWN)
         else if Channel f = Accepted_Channel \<and> Exit_Integer f \<and> verdict then COMPLETED
         else if \<not> Exit_Present f \<and> (Bundle_Present f \<or> Status f \<noteq> Absent_Status)
           then INCOMPLETE_UNKNOWN
         else UNCLASSIFIED);
          e2 = (if e1 = COMPLETED \<and> Unsatisfied_Imports f \<and> Status f = Fail_Status
                then EVALUATOR_INCOMPLETE else e1)
      in \<lparr>Execution = e2,
          Result = (if e2 = COMPLETED then (if Status f = Pass_Status then Passed else Failed)
                    else No_Outcome),
          Bundle = Bundle_Of f\<rparr>)"

record evidence_presence =
  Record_Identified :: bool
  Verdict_Recorded :: bool
  Binding_Established :: bool
  Declaration_Matches :: bool
  Bundle_Identified :: bool

definition Evidence_Complete :: "evidence_presence \<Rightarrow> bool" where
  "Evidence_Complete p \<longleftrightarrow> Record_Identified p \<and> Verdict_Recorded p \<and> Binding_Established p
     \<and> Declaration_Matches p \<and> Bundle_Identified p"

definition Admissible :: "classification \<Rightarrow> report_integrity \<Rightarrow> evidence_presence \<Rightarrow> bool" where
  "Admissible v report p \<longleftrightarrow>
     Execution v = COMPLETED \<and> Result v = Passed \<and> Bundle v \<in> {Not_Covered, Verified}
     \<and> report \<in> {Not_Applicable, Verified_Report} \<and> Evidence_Complete p"

definition Roster_Complete_Rule :: "bool list \<Rightarrow> bool \<Rightarrow> bool" where
  "Roster_Complete_Rule admitted empty_declared =
     (if admitted = [] then empty_declared else list_all id admitted)"

lemma Classify_passed:
  assumes "Execution (Classify f) = COMPLETED" and "Result (Classify f) = Passed"
  shows "Status f = Pass_Status" and "Channel f \<noteq> Malformed_Channel"
    and "Source f = External \<Longrightarrow> Channel f = Accepted_Channel \<and> Exit_Integer f"
    and "Source f = Agent \<Longrightarrow> Supervisor f = Supervised \<and> \<not> Supervisor_Stopped f \<and> Exit_Integer f"
    and "Source f = Engine \<Longrightarrow> \<not> Exit_Present f \<and> \<not> Bundle_Present f"
  using assms by (auto simp: Classify_def Let_def split: if_splits stage.splits)

section \<open>Identities and chains\<close>

text \<open>
  The kernel streams a domain tag and the 32-byte parts into one digest. \<open>hb\<close> is the byte hash
  the runtime reaches through the library; \<open>Identity_stream\<close> and the two streamed links are the
  Ada bodies over the SHA-256 context, and agree with it on the real hash.
\<close>

definition world_domain :: bytes where
  "world_domain = ''worldline-world-v1''"

definition receipt_domain :: bytes where
  "receipt_domain = ''worldline-receipt-v1''"

definition causal_domain :: bytes where
  "causal_domain = ''worldline-causal-v1''"

definition world_identity :: "(bytes \<Rightarrow> bytes) \<Rightarrow> bytes \<Rightarrow> bytes \<Rightarrow> bytes \<Rightarrow> bytes \<Rightarrow> bytes \<Rightarrow> bytes \<Rightarrow> bytes"
  where
  "world_identity hb parent fs cfg repo env evid =
     hb (world_domain @ parent @ fs @ cfg @ repo @ env @ evid)"

definition causal_link :: "(bytes \<Rightarrow> bytes) \<Rightarrow> bytes \<Rightarrow> bytes \<Rightarrow> bytes" where
  "causal_link hb previous root = hb (causal_domain @ previous @ root)"

definition receipt_link :: "(bytes \<Rightarrow> bytes) \<Rightarrow> bytes \<Rightarrow> bytes \<Rightarrow> bytes" where
  "receipt_link hb previous root = hb (receipt_domain @ previous @ root)"

definition Identity_stream :: "bytes \<Rightarrow> bytes \<Rightarrow> bytes \<Rightarrow> bytes \<Rightarrow> bytes \<Rightarrow> bytes \<Rightarrow> bytes" where
  "Identity_stream parent fs cfg repo env evid =
     Final (Update (Update (Update (Update (Update (Update (Update Initial world_domain)
       parent) fs) cfg) repo) env) evid)"

definition Causal_Link_stream :: "bytes \<Rightarrow> bytes \<Rightarrow> bytes" where
  "Causal_Link_stream previous root = Final (Update (Update (Update Initial causal_domain) previous) root)"

definition Receipt_Link_stream :: "bytes \<Rightarrow> bytes \<Rightarrow> bytes" where
  "Receipt_Link_stream previous root = Final (Update (Update (Update Initial receipt_domain) previous) root)"

lemma streams_agree:
  "Identity_stream p f c r e v = world_identity Hash p f c r e v"
  "Causal_Link_stream p r = causal_link Hash p r"
  "Receipt_Link_stream p r = receipt_link Hash p r"
  by (simp_all add: Identity_stream_def Causal_Link_stream_def Receipt_Link_stream_def
      world_identity_def causal_link_def receipt_link_def Hash_def Update_append)

section \<open>The wire record\<close>

text \<open>
  The C record of \<open>wl_collapse_decide\<close>: seven category bytes, then the 25 optional hashes in
  declaration order (\<open>Hashes\<close>), then the two optional counters in little-endian bytes. A byte is
  a \<open>nat\<close> below 256.
\<close>

record raw_request =
  raw_state :: nat
  raw_phase :: nat
  raw_mode :: nat
  raw_conflicts :: nat
  raw_foreign :: nat
  raw_roster :: nat
  raw_staged_roster :: nat
  Hashes :: "(nat \<times> bytes) list"
  raw_before :: "nat \<times> bytes"
  raw_after :: "nat \<times> bytes"

definition All_Zero :: "bytes \<Rightarrow> bool" where
  "All_Zero v \<longleftrightarrow> list_all (\<lambda>c. c = CHR 0x00) v"

definition Hash_Well_Formed :: "nat \<times> bytes \<Rightarrow> bool" where
  "Hash_Well_Formed h \<longleftrightarrow> fst h \<le> 1 \<and> (if fst h = 0 then All_Zero (snd h) else \<not> All_Zero (snd h))"

definition Counter_Well_Formed :: "nat \<times> bytes \<Rightarrow> bool" where
  "Counter_Well_Formed c \<longleftrightarrow> fst c \<le> 1 \<and> (fst c = 0 \<longrightarrow> All_Zero (snd c))"

definition Well_Formed :: "raw_request \<Rightarrow> bool" where
  "Well_Formed r \<longleftrightarrow>
     raw_state r \<le> 6 \<and> raw_phase r \<le> 1 \<and> raw_mode r \<le> 1 \<and> raw_conflicts r \<le> 2
     \<and> raw_foreign r \<le> 2 \<and> raw_roster r \<le> 1 \<and> raw_staged_roster r \<le> 1
     \<and> list_all Hash_Well_Formed (Hashes r)
     \<and> Counter_Well_Formed (raw_before r) \<and> Counter_Well_Formed (raw_after r)
     \<and> (raw_phase r = 1 \<longrightarrow> fst (Hashes r ! 11) = 0)
     \<and> (raw_mode r = 0 \<longrightarrow> fst (Hashes r ! 21) = 0 \<and> fst (Hashes r ! 22) = 0)
     \<and> (raw_mode r = 1 \<longrightarrow> fst (Hashes r ! 15) = 0 \<and> fst (Hashes r ! 17) = 0 \<and> raw_roster r = 0)"

definition Counter_Value :: "bytes \<Rightarrow> 64 word" where
  "Counter_Value v = fold (\<lambda>i w. or w (push_bit (8 * i) (of_char (v ! i)))) [0..<8] 0"

definition opt_hash :: "nat \<times> bytes \<Rightarrow> bytes option" where
  "opt_hash h = (if fst h = 1 then Some (snd h) else None)"

definition opt_counter :: "nat \<times> bytes \<Rightarrow> 64 word option" where
  "opt_counter c = (if fst c = 1 then Some (Counter_Value (snd c)) else None)"

definition Measure :: "nat \<Rightarrow> measurement" where
  "Measure b = (if b = 2 then Found else if b = 1 then None_Found else Unmeasured)"

definition world_states :: "world_state list" where
  "world_states = [MUTABLE, FINALIZING, VALID, DEGRADED, DEAD, ARCHIVED, COLLAPSED]"

definition Decode :: "raw_request \<Rightarrow> collapse_request" where
  "Decode r =
     \<lparr>Candidate_State = world_states ! raw_state r,
      Request_Phase = (if raw_phase r = 1 then Prepare else Commit),
      Mode = (if raw_mode r = 1 then Checkpoint_Return else Candidate_Evaluation),
      Conflicts = Measure (raw_conflicts r),
      Foreign_Writes = Measure (raw_foreign r),
      Roster_Complete = (raw_roster r = 1),
      Staged_Roster_Complete = (raw_staged_roster r = 1),
      Expected_Parent = opt_hash (Hashes r ! 0),
      Candidate_Parent = opt_hash (Hashes r ! 1),
      Expected_Subject = opt_hash (Hashes r ! 2),
      Evidence_Subject = opt_hash (Hashes r ! 3),
      Expected_Base = opt_hash (Hashes r ! 4),
      Candidate_Base = opt_hash (Hashes r ! 5),
      Expected_Delta = opt_hash (Hashes r ! 6),
      Candidate_Delta = opt_hash (Hashes r ! 7),
      Expected_Root_Set = opt_hash (Hashes r ! 8),
      Candidate_Root_Set = opt_hash (Hashes r ! 9),
      Expected_Staged_Root = opt_hash (Hashes r ! 10),
      Actual_Staged_Root = opt_hash (Hashes r ! 11),
      Staged_Content_Root = opt_hash (Hashes r ! 12),
      Tested_Root = opt_hash (Hashes r ! 13),
      Current_Requirement = opt_hash (Hashes r ! 14),
      Evaluated_Requirement = opt_hash (Hashes r ! 15),
      Declared_Verifiers = opt_hash (Hashes r ! 16),
      Executed_Verifiers = opt_hash (Hashes r ! 17),
      Staged_Evaluated_Requirement = opt_hash (Hashes r ! 18),
      Staged_Executed_Verifiers = opt_hash (Hashes r ! 19),
      Staged_Examined_Root = opt_hash (Hashes r ! 20),
      Expected_Checkpoint = opt_hash (Hashes r ! 21),
      Witnessed_Checkpoint = opt_hash (Hashes r ! 22),
      Registered_Watch_Set = opt_hash (Hashes r ! 23),
      Watched_Set = opt_hash (Hashes r ! 24),
      Generation_Before = opt_counter (raw_before r),
      Generation_After = opt_counter (raw_after r)\<rparr>"

definition decisions :: "decision list" where
  "decisions = [AUTHORIZED, INVALID_CANDIDATE, PARENT_MISMATCH, OWNER_MISMATCH, BASE_MISMATCH,
     DELTA_MISMATCH, ROOT_SET_MISMATCH, STAGED_ROOT_MISMATCH, CONFLICT, FOREIGN_MANAGED_WRITE,
     VALIDATION_CONTEXT_MISMATCH, STAGED_UNTESTED, EXECUTION_EVIDENCE_INCOMPLETE,
     VERIFIER_EXECUTION_IDENTITY_MISMATCH, CHECKPOINT_UNWITNESSED, IDENTITY_ABSENT,
     MEASUREMENT_ABSENT, PRIME_CHANGED, WATCH_INCOMPLETE, CHECKPOINT_MISMATCH,
     EVIDENCE_SUBJECT_MISMATCH]"

fun index_of :: "'a \<Rightarrow> 'a list \<Rightarrow> nat" where
  "index_of x [] = 0"
| "index_of x (y # ys) = (if x = y then 0 else Suc (index_of x ys))"

definition Decide_Wire :: "raw_request \<Rightarrow> nat" where
  "Decide_Wire r = (if \<not> Well_Formed r then 255 else index_of (Decide (Decode r)) decisions)"

text \<open>The exported transition tests answer 0 for a code outside the enumeration.\<close>

definition wl_transition_allowed :: "nat \<Rightarrow> nat \<Rightarrow> nat" where
  "wl_transition_allowed s t =
     (if s > 6 \<or> t > 6 then 0 else if Allowed (world_states ! s) (world_states ! t) then 1 else 0)"

definition tx_states :: "tx_state list" where
  "tx_states = [TxPREPARED, TxAUTHORIZED, TxDENIED, TxCOMMITTED, TxABORTED]"

definition wl_transaction_transition_allowed :: "nat \<Rightarrow> nat \<Rightarrow> nat" where
  "wl_transaction_transition_allowed s t =
     (if s > 4 \<or> t > 4 then 0
      else if Transaction_Allowed (tx_states ! s) (tx_states ! t) then 1 else 0)"

lemma decisions_complete: "d \<in> set decisions"
  by (cases d) (auto simp: decisions_def)

lemma index_of_nth: "x \<in> set xs \<Longrightarrow> index_of x xs < length xs \<and> xs ! index_of x xs = x"
  by (induction xs) auto

lemma index_of_decision: "index_of d decisions < 21 \<and> decisions ! index_of d decisions = d"
proof -
  have "length decisions = 21" by (simp add: decisions_def)
  then show ?thesis using index_of_nth [OF decisions_complete, of d] by simp
qed

section \<open>Properties\<close>

text \<open>
  A denied transaction is never committed, a committed or aborted one never moves, and no
  transaction passes through more than three states.
\<close>
theorem transaction_lifecycle:
  "\<not> Transaction_Allowed\<^sup>*\<^sup>* TxDENIED TxCOMMITTED
   \<and> (\<forall>t. Transaction_Allowed\<^sup>*\<^sup>* TxCOMMITTED t \<longrightarrow> t = TxCOMMITTED)
   \<and> (\<forall>t. Transaction_Allowed\<^sup>*\<^sup>* TxABORTED t \<longrightarrow> t = TxABORTED)
   \<and> (\<forall>xs. successively Transaction_Allowed xs \<longrightarrow> distinct xs \<and> length xs \<le> 3)"
  using tx.run_bounded by (simp add: Transaction_steps_cases)

theorem transaction_lifecycle_witness:
  "distinct [TxPREPARED, TxAUTHORIZED, TxCOMMITTED]"
proof -
  have "successively Transaction_Allowed [TxPREPARED, TxAUTHORIZED, TxCOMMITTED]" by simp
  with transaction_lifecycle show ?thesis by blast
qed

text \<open>
  C9. A world's lifecycle is acyclic and a world passes through at most five states: every run of
  allowed steps is without repetition and no longer than that.
\<close>
theorem world_lifecycle:
  "(\<forall>s t. Allowed\<^sup>*\<^sup>* s t \<longrightarrow> Allowed\<^sup>*\<^sup>* t s \<longrightarrow> s = t)
   \<and> (\<forall>xs. successively Allowed xs \<longrightarrow> distinct xs \<and> length xs \<le> 5)"
  using world.acyclic world.run_bounded by simp

theorem world_lifecycle_witness:
  "distinct [MUTABLE, FINALIZING, VALID, COLLAPSED, ARCHIVED]"
proof -
  have "successively Allowed [MUTABLE, FINALIZING, VALID, COLLAPSED, ARCHIVED]" by simp
  with world_lifecycle show ?thesis by blast
qed

end
