(* ===== verification/PyValue.thy ===== *)
theory PyValue
  imports Canonical
begin

text \<open>
  The operations of Python the runtime applies to JSON values and to text: dictionary access,
  iteration, truth, equality and conversion to text, \<open>str.strip\<close>, splitting and joining, and the
  lexical path functions of \<open>posixpath\<close>. The path functions exist for \<open>str\<close> and for \<open>bytes\<close>;
  they are written once over the element type, with the separator and the dot as arguments.
\<close>

section \<open>Values\<close>

definition pget :: "pyval \<Rightarrow> pystr \<Rightarrow> pyval \<Rightarrow> pyval res" where
  "pget d k dflt = (case d of
       PDict kvs \<Rightarrow> Inr (case dget kvs (PStr k) of None \<Rightarrow> dflt | Some v \<Rightarrow> v)
     | _ \<Rightarrow> Inl AttributeError)"

definition pitem :: "pyval \<Rightarrow> pystr \<Rightarrow> pyval res" where
  "pitem d k = (case d of
       PDict kvs \<Rightarrow> req KeyError (dget kvs (PStr k))
     | _ \<Rightarrow> Inl TypeError)"

definition piter :: "pyval \<Rightarrow> pyval list res" where
  "piter v = (case v of
       PList xs \<Rightarrow> Inr xs
     | PDict kvs \<Rightarrow> Inr (map fst kvs)
     | PStr s \<Rightarrow> Inr (map (\<lambda>c. PStr [c]) s)
     | _ \<Rightarrow> Inl TypeError)"

definition truthy :: "pyval \<Rightarrow> bool" where
  "truthy v = (case v of
       PNone \<Rightarrow> False | PBool b \<Rightarrow> b | PInt i \<Rightarrow> i \<noteq> 0 | PFloat t \<Rightarrow> t \<notin> {u ''0.0'', u ''-0.0''}
     | PStr s \<Rightarrow> s \<noteq> [] | PList xs \<Rightarrow> xs \<noteq> [] | PDict kvs \<Rightarrow> kvs \<noteq> [] | POther \<Rightarrow> True)"

text \<open>\<open>v == n\<close> for an integer: \<open>True\<close> is 1, and a float equal to \<open>n\<close> is the text \<open>n.0\<close>.\<close>

definition eq_int :: "pyval \<Rightarrow> int \<Rightarrow> bool" where
  "eq_int v n = (case v of
       PInt i \<Rightarrow> i = n | PBool b \<Rightarrow> n = of_bool b | PFloat t \<Rightarrow> t = int_repr n @ u ''.0''
     | _ \<Rightarrow> False)"

definition eq_str :: "pyval \<Rightarrow> pystr \<Rightarrow> bool" where
  "eq_str v s \<longleftrightarrow> v = PStr s"

text \<open>\<open>str(v)\<close>; the text of a container is not specified here.\<close>

fun py_str :: "pyval \<Rightarrow> pystr" where
  "py_str PNone = u ''None''"
| "py_str (PBool b) = (if b then u ''True'' else u ''False'')"
| "py_str (PInt i) = int_repr i"
| "py_str (PFloat t) = t"
| "py_str (PStr s) = s"
| "py_str _ = undefined"

abbreviation pdict :: "(pystr \<times> pyval) list \<Rightarrow> pyval" where
  "pdict kvs \<equiv> PDict (map (\<lambda>(k, v). (PStr k, v)) kvs)"

definition opt_str :: "pystr option \<Rightarrow> pyval" where
  "opt_str s = (case s of None \<Rightarrow> PNone | Some t \<Rightarrow> PStr t)"

lemma opt_str_inj [simp]: "opt_str a = opt_str b \<longleftrightarrow> a = b"
  by (auto simp: opt_str_def split: option.splits)

lemma opt_str_eq_PStr [simp]: "opt_str a = PStr s \<longleftrightarrow> a = Some s"
  by (auto simp: opt_str_def split: option.splits)

lemma opt_str_eq_PNone [simp]: "opt_str a = PNone \<longleftrightarrow> a = None"
  by (auto simp: opt_str_def split: option.splits)

lemma map_of_pdict: "map_of (map (\<lambda>(k, v). (PStr k, v)) kvs) (PStr k) = map_of kvs k"
  by (induction kvs) auto

lemma pget_pdict: "pget (pdict kvs) k d = Inr (case dget kvs k of None \<Rightarrow> d | Some v \<Rightarrow> v)"
  by (simp add: pget_def map_of_pdict)

lemma pitem_pdict: "pitem (pdict kvs) k = req KeyError (dget kvs k)"
  by (simp add: pitem_def map_of_pdict)

section \<open>Text\<close>

text \<open>The code points \<open>str.strip\<close> removes.\<close>

definition py_space :: "nat \<Rightarrow> bool" where
  "py_space c \<longleftrightarrow> (9 \<le> c \<and> c \<le> 13) \<or> (28 \<le> c \<and> c \<le> 32) \<or> c = 0x85 \<or> c = 0xA0 \<or> c = 0x1680
     \<or> (0x2000 \<le> c \<and> c \<le> 0x200A) \<or> c = 0x2028 \<or> c = 0x2029 \<or> c = 0x202F \<or> c = 0x205F \<or> c = 0x3000"

definition rstrip_by :: "('a \<Rightarrow> bool) \<Rightarrow> 'a list \<Rightarrow> 'a list" where
  "rstrip_by P s = rev (dropWhile P (rev s))"

definition strip :: "pystr \<Rightarrow> pystr" where
  "strip s = rstrip_by py_space (dropWhile py_space s)"

lemma dropWhile_id_iff: "dropWhile P s = s \<longleftrightarrow> s = [] \<or> \<not> P (hd s)"
proof (cases s)
  case (Cons x xs)
  have "length (dropWhile P xs) < length (x # xs)"
    by (metis length_Cons le_imp_less_Suc length_dropWhile_le)
  then have "dropWhile P xs \<noteq> x # xs" by auto
  with Cons show ?thesis by auto
qed simp

lemma rstrip_id_iff: "rstrip_by P s = s \<longleftrightarrow> s = [] \<or> \<not> P (last s)"
proof -
  have "rstrip_by P s = s \<longleftrightarrow> dropWhile P (rev s) = rev s"
    unfolding rstrip_by_def by (metis rev_rev_ident)
  then show ?thesis by (simp add: dropWhile_id_iff hd_rev)
qed

lemma strip_id_iff: "strip s = s \<longleftrightarrow> s = [] \<or> (\<not> py_space (hd s) \<and> \<not> py_space (last s))"
proof
  assume a: "strip s = s"
  have "length (rstrip_by py_space (dropWhile py_space s)) \<le> length (dropWhile py_space s)"
    unfolding rstrip_by_def by (metis length_dropWhile_le length_rev)
  moreover have "length (dropWhile py_space s) \<le> length s" by (rule length_dropWhile_le)
  ultimately have "length (dropWhile py_space s) = length s"
    using a by (simp add: strip_def)
  then have d: "dropWhile py_space s = s"
    by (metis append_take_drop_id dropWhile_eq_drop length_drop diff_diff_cancel
        length_takeWhile_le diff_self_eq_0 drop0)
  with a have "rstrip_by py_space s = s" by (simp add: strip_def)
  with d show "s = [] \<or> (\<not> py_space (hd s) \<and> \<not> py_space (last s))"
    by (auto simp: dropWhile_id_iff rstrip_id_iff)
next
  assume "s = [] \<or> (\<not> py_space (hd s) \<and> \<not> py_space (last s))"
  then have "dropWhile py_space s = s" "rstrip_by py_space s = s"
    by (auto simp: dropWhile_id_iff rstrip_id_iff)
  then show "strip s = s" by (simp add: strip_def)
qed

section \<open>Splitting and paths\<close>

fun split_on :: "'a \<Rightarrow> 'a list \<Rightarrow> 'a list list" where
  "split_on c [] = [[]]"
| "split_on c (x # xs) =
     (if x = c then [] # split_on c xs
      else (case split_on c xs of p # ps \<Rightarrow> (x # p) # ps | [] \<Rightarrow> [[x]]))"

fun join_on :: "'a \<Rightarrow> 'a list list \<Rightarrow> 'a list" where
  "join_on c [] = []"
| "join_on c [p] = p"
| "join_on c (p # ps) = p @ c # join_on c ps"

definition prefixed :: "'a list \<Rightarrow> 'a list \<Rightarrow> bool" where
  "prefixed s p \<longleftrightarrow> take (length p) s = p"

text \<open>\<open>posixpath.normpath\<close>: exactly two leading slashes are kept, as POSIX allows.\<close>

definition norm_push :: "'a \<Rightarrow> bool \<Rightarrow> 'a list \<Rightarrow> 'a list list \<Rightarrow> 'a list list" where
  "norm_push dot absolute part acc =
     (if part = [] \<or> part = [dot] then acc
      else if part \<noteq> [dot, dot] \<or> (\<not> absolute \<and> acc = []) \<or> (acc \<noteq> [] \<and> last acc = [dot, dot])
        then acc @ [part]
      else if acc \<noteq> [] then butlast acc
      else acc)"

definition norm_parts :: "'a \<Rightarrow> bool \<Rightarrow> 'a list list \<Rightarrow> 'a list list" where
  "norm_parts dot absolute comps = fold (norm_push dot absolute) comps []"

definition normpath :: "'a \<Rightarrow> 'a \<Rightarrow> 'a list \<Rightarrow> 'a list" where
  "normpath slash dot path =
     (if path = [] then [dot]
      else let initial = (if \<not> prefixed path [slash] then 0
                          else if prefixed path [slash, slash] \<and> \<not> prefixed path [slash, slash, slash]
                            then 2 else 1);
               body = join_on slash (norm_parts dot (0 < initial) (split_on slash path));
               full = replicate initial slash @ body
           in if full = [] then [dot] else full)"

text \<open>\<open>posixpath.join\<close> of two paths and \<open>posixpath.dirname\<close>.\<close>

definition path_join :: "'a \<Rightarrow> 'a list \<Rightarrow> 'a list \<Rightarrow> 'a list" where
  "path_join slash a b =
     (if prefixed b [slash] then b
      else if a = [] \<or> last a = slash then a @ b
      else a @ slash # b)"

definition dirname :: "'a \<Rightarrow> 'a list \<Rightarrow> 'a list" where
  "dirname slash p =
     (let head = rev (dropWhile (\<lambda>c. c \<noteq> slash) (rev p))
      in if head \<noteq> [] \<and> head \<noteq> replicate (length head) slash
         then rstrip_by (\<lambda>c. c = slash) head else head)"

lemma split_on_Nil_iff [simp]: "split_on c xs \<noteq> []"
  by (induction xs) (auto split: list.splits)

lemma split_on_no_sep: "p \<in> set (split_on c xs) \<Longrightarrow> c \<notin> set p"
  by (induction xs arbitrary: p) (auto split: list.splits if_splits)

lemma join_split: "join_on c (split_on c xs) = xs"
proof (induction xs)
  case (Cons x xs)
  obtain p ps where s: "split_on c xs = p # ps" by (metis split_on_Nil_iff neq_Nil_conv)
  with Cons show ?case by (cases ps) auto
qed simp

lemma split_on_append_sep: "c \<notin> set p \<Longrightarrow> split_on c (p @ c # xs) = p # split_on c xs"
  by (induction p) auto

lemma split_on_single: "c \<notin> set p \<Longrightarrow> split_on c p = [p]"
  by (induction p) auto

lemma split_join: "ps \<noteq> [] \<Longrightarrow> (\<And>p. p \<in> set ps \<Longrightarrow> c \<notin> set p) \<Longrightarrow> split_on c (join_on c ps) = ps"
proof (induction ps rule: join_on.induct)
  case (3 c p q ps)
  then show ?case by (simp add: split_on_append_sep)
qed (simp_all add: split_on_single)

lemma split_on_append:
  "split_on c (xs @ c # ys) = split_on c xs @ split_on c ys"
proof (induction xs)
  case (Cons x xs)
  obtain p ps where "split_on c xs = p # ps" by (metis split_on_Nil_iff neq_Nil_conv)
  with Cons show ?case by auto
qed simp

lemma join_on_append:
  "ps \<noteq> [] \<Longrightarrow> qs \<noteq> [] \<Longrightarrow> join_on c (ps @ qs) = join_on c ps @ c # join_on c qs"
proof (induction ps rule: join_on.induct)
  case (2 c p)
  then show ?case by (cases qs) auto
qed auto

lemma prefixed_iff: "prefixed s p \<longleftrightarrow> (\<exists>t. s = p @ t)"
  unfolding prefixed_def by (metis append_eq_conv_conj append_take_drop_id)

lemma prefixed_append [simp]: "prefixed (p @ s) p"
  by (simp add: prefixed_def)

section \<open>Normalised paths\<close>

definition clean_part :: "'a \<Rightarrow> 'a list \<Rightarrow> bool" where
  "clean_part dot p \<longleftrightarrow> p \<noteq> [] \<and> p \<noteq> [dot] \<and> p \<noteq> [dot, dot]"

abbreviation dotdot :: "'a \<Rightarrow> 'a list" where
  "dotdot dot \<equiv> [dot, dot]"

lemma norm_parts_snoc:
  "norm_parts dot ab (cs @ [c]) = norm_push dot ab c (norm_parts dot ab cs)"
  by (simp add: norm_parts_def)

lemma norm_parts_Nil [simp]: "norm_parts dot ab [] = []"
  by (simp add: norm_parts_def)

text \<open>A relative path normalises to some climbs followed by clean names of its own.\<close>

lemma norm_parts_relative:
  "\<exists>k ns. norm_parts dot False cs = replicate k (dotdot dot) @ ns
     \<and> (\<forall>n \<in> set ns. clean_part dot n \<and> n \<in> set cs)"
proof (induction cs rule: rev_induct)
  case (snoc c cs)
  then obtain k ns where ns: "norm_parts dot False cs = replicate k (dotdot dot) @ ns"
    and cl: "\<forall>n \<in> set ns. clean_part dot n \<and> n \<in> set cs" by blast
  show ?case
  proof (cases "c = [] \<or> c = [dot] \<or> c \<noteq> dotdot dot")
    case True
    then show ?thesis
    proof (cases "c = [] \<or> c = [dot]")
      case True
      then have "norm_parts dot False (cs @ [c]) = replicate k (dotdot dot) @ ns"
        by (auto simp: norm_parts_snoc norm_push_def ns)
      then show ?thesis using cl by (metis Un_iff set_append)
    next
      case False
      with True have "norm_parts dot False (cs @ [c]) = replicate k (dotdot dot) @ (ns @ [c])"
        by (auto simp: norm_parts_snoc norm_push_def ns)
      moreover have "\<forall>n \<in> set (ns @ [c]). clean_part dot n \<and> n \<in> set (cs @ [c])"
        using cl True False by (auto simp: clean_part_def)
      ultimately show ?thesis by blast
    qed
  next
    case False
    then have c: "c = dotdot dot" by simp
    show ?thesis
    proof (cases ns rule: rev_cases)
      case Nil
      then have "norm_parts dot False (cs @ [c]) = replicate (Suc k) (dotdot dot) @ []"
        by (cases k) (auto simp: norm_parts_snoc norm_push_def ns c replicate_append_same)
      then show ?thesis by (metis empty_iff list.set(1))
    next
      case (snoc ms m)
      then have "m \<noteq> dotdot dot" using cl by (simp add: clean_part_def)
      then have "norm_parts dot False (cs @ [c]) = replicate k (dotdot dot) @ ms"
        by (simp add: norm_parts_snoc norm_push_def ns c snoc butlast_append)
      moreover have "\<forall>n \<in> set ms. clean_part dot n \<and> n \<in> set (cs @ [c])"
        using cl snoc by auto
      ultimately show ?thesis by blast
    qed
  qed
qed simp

lemma norm_push_climb:
  "norm_push dot False (dotdot dot) (replicate j (dotdot dot)) = replicate (Suc j) (dotdot dot)"
  by (cases "j = 0") (simp_all add: norm_push_def replicate_append_same)

lemma norm_push_back:
  assumes "\<forall>b \<in> set B. clean_part dot b"
  shows "norm_push dot True (dotdot dot) B = butlast B"
proof (cases "B = []")
  case False
  then have "last B \<noteq> dotdot dot" using assms last_in_set clean_part_def by metis
  then show ?thesis by (simp add: norm_push_def)
qed (simp add: norm_push_def)

lemma climbs_unique:
  "replicate k d @ ns = replicate i d @ xs \<Longrightarrow> d \<notin> set ns \<Longrightarrow> d \<notin> set xs \<Longrightarrow> k = i \<and> ns = xs"
proof (induction k arbitrary: i)
  case 0
  then show ?case by (cases i) auto
next
  case (Suc k)
  then show ?case by (cases i) auto
qed

lemma clean_not_dotdot: "\<forall>n \<in> set ns. clean_part dot n \<Longrightarrow> dotdot dot \<notin> set ns"
  by (auto simp: clean_part_def)

text \<open>
  Below an absolute clean path, a relative path acts as its normal form: its climbs drop the last
  names, its own names follow.
\<close>

lemma norm_fold_absolute:
  assumes "\<forall>a \<in> set A. clean_part dot a"
    and "norm_parts dot False cs = replicate k (dotdot dot) @ ns" and "\<forall>n \<in> set ns. clean_part dot n"
  shows "fold (norm_push dot True) cs A = take (length A - k) A @ ns"
  using assms(2,3)
proof (induction cs arbitrary: k ns rule: rev_induct)
  case Nil
  then show ?case by (cases k) auto
next
  case (snoc c cs)
  obtain j ms where ms: "norm_parts dot False cs = replicate j (dotdot dot) @ ms"
    and clm: "\<forall>n \<in> set ms. clean_part dot n" using norm_parts_relative [of dot cs] by auto
  then have IH: "fold (norm_push dot True) cs A = take (length A - j) A @ ms" by (rule snoc.IH)
  note uniq = climbs_unique [OF _ clean_not_dotdot [OF snoc.prems(2)] clean_not_dotdot]
  consider (skip) "c = [] \<or> c = [dot]" | (name) "clean_part dot c" | (up) "c = dotdot dot"
    by (auto simp: clean_part_def)
  then show ?case
  proof cases
    case skip
    then have "k = j \<and> ns = ms"
      using snoc.prems(1) ms clm by (intro uniq) (auto simp: norm_parts_snoc norm_push_def)
    with skip IH show ?thesis by (auto simp: norm_push_def [of dot True c])
  next
    case name
    then have "k = j \<and> ns = ms @ [c]"
      using snoc.prems(1) ms clm
      by (intro uniq) (auto simp: norm_parts_snoc norm_push_def clean_part_def)
    with name IH show ?thesis by (auto simp: norm_push_def [of dot True c] clean_part_def)
  next
    case up
    show ?thesis
    proof (cases ms rule: rev_cases)
      case Nil
      have "replicate k (dotdot dot) @ ns = replicate (Suc j) (dotdot dot) @ []"
        using snoc.prems(1) ms Nil up by (simp only: norm_parts_snoc append_Nil2 norm_push_climb)
      then have kn: "k = Suc j \<and> ns = []" by (rule uniq) simp
      let ?B = "take (length A - j) A"
      have "\<forall>b \<in> set ?B. clean_part dot b" using assms(1) in_set_takeD by metis
      then have "fold (norm_push dot True) (cs @ [c]) A = butlast ?B"
        using IH Nil by (simp add: up norm_push_back)
      also have "butlast ?B = take (length A - Suc j) A"
        by (cases "j \<le> length A") (auto simp: butlast_take)
      finally show ?thesis using kn by simp
    next
      case (snoc ls l)
      then have l: "l \<noteq> dotdot dot" using clm by (simp add: clean_part_def)
      then have "k = j \<and> ns = ls"
        using snoc.prems(1) ms clm snoc up
        by (intro uniq) (auto simp: norm_parts_snoc norm_push_def butlast_append)
      with up IH snoc l show ?thesis by (auto simp: norm_push_def [of dot True "dotdot dot"] butlast_append)
    qed
  qed
qed

end
