(* ===== verification/CoreAbi.thy ===== *)
theory CoreAbi
  imports Kernel PyValue
begin

text \<open>
  \<open>runtime/worldline/core.py\<close>: the typed binding between the runtime and the proved library. It
  checks every category, flag, hash and counter, lays them out as the C record, calls the kernel
  and names its answer. The exported C functions of \<open>core/worldline-c_api.adb\<close> that refuse an
  ill-formed record are here beside the calls that use them.

  The lemmas show that nothing is lost or invented on the way: an identity round trips through
  its text, a counter through its eight bytes, and the runtime's answer to a collapse question is
  the kernel's decision on the input's own fields.
\<close>

section \<open>Identities\<close>

abbreviation invalid_hash :: exc where
  "invalid_hash \<equiv> WL ''INVALID_HASH''"

abbreviation invalid_evaluation :: exc where
  "invalid_evaluation \<equiv> WL ''INVALID_EVALUATION''"

text \<open>\<open>bytes.fromhex\<close>: two digits of either case per byte, ASCII blanks allowed between bytes.\<close>

definition hex_value :: "nat \<Rightarrow> nat option" where
  "hex_value c =
     (if 48 \<le> c \<and> c \<le> 57 then Some (c - 48)
      else if 97 \<le> c \<and> c \<le> 102 then Some (c - 87)
      else if 65 \<le> c \<and> c \<le> 70 then Some (c - 55)
      else None)"

fun fromhex :: "pystr \<Rightarrow> bytes option" where
  "fromhex [] = Some []"
| "fromhex (c # s) =
     (if c \<in> {9, 10, 11, 12, 13, 32} then fromhex s
      else (case s of
              [] \<Rightarrow> None
            | d # s \<Rightarrow> (case (hex_value c, hex_value d) of
                (Some a, Some b) \<Rightarrow> map_option ((#) (char_of (16 * a + b))) (fromhex s)
              | _ \<Rightarrow> None)))"

definition hex_text :: "bytes \<Rightarrow> pystr" where
  "hex_text b = concat (map (\<lambda>c. [hex_digit (of_char c div 16), hex_digit (of_char c mod 16)]) b)"

definition hash_bytes_from_id :: "pystr \<Rightarrow> bytes res" where
  "hash_bytes_from_id v =
     rbind (ensure (prefixed v (u ''sha256:'')) invalid_hash) (\<lambda>_.
     rbind (req invalid_hash (fromhex (drop 7 v))) (\<lambda>b.
     rbind (ensure (length b = 32) invalid_hash) (\<lambda>_. Inr b)))"

definition hash_id :: "bytes \<Rightarrow> pystr res" where
  "hash_id v = rbind (ensure (length v = 32) invalid_hash) (\<lambda>_. Inr (u ''sha256:'' @ hex_text v))"

lemma hex_value_digit: "n < 16 \<Longrightarrow> hex_value (hex_digit n) = Some n"
  by (auto simp: hex_value_def hex_digit_def)

lemma hex_digit_not_blank: "hex_digit n \<notin> {9, 10, 11, 12, 13, 32}"
  by (auto simp: hex_digit_def)

lemma of_char_nat_bound: "(of_char c :: nat) < 256"
  using of_char_mod_256 [of c, where ?'a = nat] by (metis mod_less_divisor zero_less_numeral)

lemma fromhex_pair:
  assumes "a < 16" and "b < 16"
  shows "fromhex (hex_digit a # hex_digit b # s) = map_option ((#) (char_of (16 * a + b))) (fromhex s)"
proof -
  have "\<not> hex_digit a \<in> {9, 10, 11, 12, 13, 32}" by (rule hex_digit_not_blank)
  then show ?thesis
    by (simp only: fromhex.simps hex_value_digit [OF assms(1)] hex_value_digit [OF assms(2)] if_False
        list.case option.case prod.case)
qed

lemma char_of_halves: "char_of (16 * (of_char c div 16) + of_char c mod (16 :: nat)) = c"
  by (simp only: mult_div_mod_eq char_of_char)

lemma fromhex_hex_text: "fromhex (hex_text b) = Some b"
proof (induction b)
  case Nil
  then show ?case by (simp add: hex_text_def)
next
  case (Cons c b)
  let ?n = "of_char c :: nat"
  have "hex_text (c # b) = hex_digit (?n div 16) # hex_digit (?n mod 16) # hex_text b"
    by (simp add: hex_text_def)
  moreover have "?n div 16 < 16" "?n mod 16 < 16"
    using of_char_nat_bound [of c] by (simp_all add: less_mult_imp_div_less)
  ultimately show ?case
    by (simp only: fromhex_pair Cons.IH char_of_halves option.map)
qed

lemma length_hex_text: "length (hex_text b) = 2 * length b"
  by (induction b) (auto simp: hex_text_def)

lemma hash_id_Inr: "hash_id b = Inr s \<longleftrightarrow> length b = 32 \<and> s = u ''sha256:'' @ hex_text b"
  by (auto simp: hash_id_def res_iffs)

lemma hash_bytes_from_hash_id: "hash_id b = Inr s \<Longrightarrow> hash_bytes_from_id s = Inr b"
  by (auto simp: hash_id_Inr hash_bytes_from_id_def fromhex_hex_text)

lemma hash_id_inj: "hash_id b = Inr s \<Longrightarrow> hash_id c = Inr s \<Longrightarrow> b = c"
  by (metis hash_bytes_from_hash_id sum.inject(2))

lemma hash_bytes_from_id_length: "hash_bytes_from_id s = Inr b \<Longrightarrow> length b = 32"
  by (auto simp: hash_bytes_from_id_def res_iffs)

section \<open>Category tables\<close>

definition STATE_CODES :: "(pystr \<times> nat) list" where
  "STATE_CODES = [(u ''MUTABLE'', 0), (u ''FINALIZING'', 1), (u ''VALID'', 2), (u ''DEGRADED'', 3),
     (u ''DEAD'', 4), (u ''ARCHIVED'', 5), (u ''COLLAPSED'', 6)]"

definition TRANSACTION_STATE_CODES :: "(pystr \<times> nat) list" where
  "TRANSACTION_STATE_CODES = [(u ''PREPARED'', 0), (u ''AUTHORIZED'', 1), (u ''DENIED'', 2),
     (u ''COMMITTED'', 3), (u ''ABORTED'', 4)]"

definition COLLAPSE_DECISIONS :: "(nat \<times> pystr) list" where
  "COLLAPSE_DECISIONS = [
     (0, u ''AUTHORIZED''), (1, u ''INVALID_CANDIDATE''), (2, u ''PARENT_MISMATCH''),
     (3, u ''OWNER_MISMATCH''), (4, u ''BASE_MISMATCH''), (5, u ''DELTA_MISMATCH''),
     (6, u ''ROOT_SET_MISMATCH''), (7, u ''STAGED_ROOT_MISMATCH''), (8, u ''CONFLICT''),
     (9, u ''FOREIGN_MANAGED_WRITE''), (10, u ''VALIDATION_CONTEXT_MISMATCH''),
     (11, u ''STAGED_UNTESTED''), (12, u ''EXECUTION_EVIDENCE_INCOMPLETE''),
     (13, u ''VERIFIER_EXECUTION_IDENTITY_MISMATCH''), (14, u ''CHECKPOINT_UNWITNESSED''),
     (15, u ''IDENTITY_ABSENT''), (16, u ''MEASUREMENT_ABSENT''), (17, u ''PRIME_CHANGED''),
     (18, u ''WATCH_INCOMPLETE''), (19, u ''CHECKPOINT_MISMATCH''),
     (20, u ''EVIDENCE_SUBJECT_MISMATCH''), (255, u ''INVALID_REQUEST'')]"

definition EVALUATION_MODES :: "(pystr \<times> nat) list" where
  "EVALUATION_MODES = [(u ''CANDIDATE_EVALUATION'', 0), (u ''CHECKPOINT_RETURN'', 1)]"

definition COLLAPSE_PHASES :: "(pystr \<times> nat) list" where
  "COLLAPSE_PHASES = [(u ''COMMIT'', 0), (u ''PREPARE'', 1)]"

definition MEASUREMENTS :: "(pystr \<times> nat) list" where
  "MEASUREMENTS = [(u ''UNMEASURED'', 0), (u ''NONE_FOUND'', 1), (u ''FOUND'', 2)]"

definition EVALUATION_ORIGINS :: "(pystr \<times> nat) list" where
  "EVALUATION_ORIGINS = [(u ''engine'', 0), (u ''agent'', 1), (u ''external'', 2)]"

definition EVALUATION_STATUSES :: "(pystr \<times> nat) list" where
  "EVALUATION_STATUSES = [(u ''ABSENT'', 0), (u ''PASS'', 1), (u ''FAIL'', 2), (u ''UNASSESSED'', 3),
     (u ''OTHER'', 4)]"

definition EVALUATION_CHANNELS :: "(pystr \<times> nat) list" where
  "EVALUATION_CHANNELS = [(u ''ABSENT'', 0), (u ''EMPTY'', 1), (u ''ACCEPTED'', 2),
     (u ''REJECTED'', 3), (u ''OTHER'', 4), (u ''MALFORMED'', 5)]"

definition EVALUATION_STAGES :: "(pystr \<times> nat) list" where
  "EVALUATION_STAGES = [(u ''ABSENT'', 0), (u ''SANDBOX_NEVER_STARTED'', 1),
     (u ''STOPPED_BY_MANAGER'', 2), (u ''HARNESS_SIGNALLED'', 3), (u ''OTHER'', 4)]"

definition EVALUATION_SUPERVISION :: "(pystr \<times> nat) list" where
  "EVALUATION_SUPERVISION = [(u ''ABSENT'', 0), (u ''SUPERVISED'', 1), (u ''STOPPED'', 2),
     (u ''OTHER'', 3)]"

definition EVALUATION_EXECUTIONS :: "pystr list" where
  "EVALUATION_EXECUTIONS = [u ''NOT_ATTEMPTED'', u ''PREPARED'', u ''STARTED'', u ''INTERRUPTED'',
     u ''ERROR_BEFORE_EXAMINER'', u ''INCOMPLETE_UNKNOWN'', u ''EVALUATOR_INCOMPLETE'',
     u ''UNCLASSIFIED'', u ''COMPLETED'']"

definition EVALUATION_OUTCOMES :: "pystr list" where
  "EVALUATION_OUTCOMES = [u ''NONE'', u ''PASS'', u ''FAIL'']"

definition EVALUATION_BUNDLES :: "pystr list" where
  "EVALUATION_BUNDLES = [u ''NOT_COVERED'', u ''VERIFIED'', u ''COMPROMISED'', u ''UNKNOWN'']"

definition EVALUATION_REPORTS :: "(pystr \<times> nat) list" where
  "EVALUATION_REPORTS = [(u ''NOT_APPLICABLE'', 0), (u ''VERIFIED'', 1), (u ''UNTRUSTED'', 2)]"

lemmas collapse_tables = STATE_CODES_def COLLAPSE_PHASES_def EVALUATION_MODES_def MEASUREMENTS_def

lemmas evaluation_tables = EVALUATION_ORIGINS_def EVALUATION_STATUSES_def EVALUATION_CHANNELS_def
  EVALUATION_STAGES_def EVALUATION_SUPERVISION_def

section \<open>Transition questions\<close>

definition transition_allowed :: "pystr \<Rightarrow> pystr \<Rightarrow> bool res" where
  "transition_allowed from_state to_state =
     rbind (req (WL ''INVALID_STATE'') (dget STATE_CODES from_state)) (\<lambda>s.
     rbind (req (WL ''INVALID_STATE'') (dget STATE_CODES to_state)) (\<lambda>t.
     Inr (wl_transition_allowed s t \<noteq> 0)))"

definition transaction_transition_allowed :: "pystr \<Rightarrow> pystr \<Rightarrow> bool res" where
  "transaction_transition_allowed from_state to_state =
     rbind (req (WL ''INVALID_TRANSACTION_STATE'') (dget TRANSACTION_STATE_CODES from_state)) (\<lambda>s.
     rbind (req (WL ''INVALID_TRANSACTION_STATE'') (dget TRANSACTION_STATE_CODES to_state)) (\<lambda>t.
     Inr (wl_transaction_transition_allowed s t \<noteq> 0)))"

fun state_name :: "world_state \<Rightarrow> pystr" where
  "state_name MUTABLE = u ''MUTABLE''" | "state_name FINALIZING = u ''FINALIZING''"
| "state_name VALID = u ''VALID''" | "state_name DEGRADED = u ''DEGRADED''"
| "state_name DEAD = u ''DEAD''" | "state_name ARCHIVED = u ''ARCHIVED''"
| "state_name COLLAPSED = u ''COLLAPSED''"

fun tx_name :: "tx_state \<Rightarrow> pystr" where
  "tx_name TxPREPARED = u ''PREPARED''" | "tx_name TxAUTHORIZED = u ''AUTHORIZED''"
| "tx_name TxDENIED = u ''DENIED''" | "tx_name TxCOMMITTED = u ''COMMITTED''"
| "tx_name TxABORTED = u ''ABORTED''"

lemma state_name_inj [simp]: "state_name s = state_name t \<longleftrightarrow> s = t"
  by (cases s; cases t) simp_all

lemma tx_name_inj [simp]: "tx_name s = tx_name t \<longleftrightarrow> s = t"
  by (cases s; cases t) simp_all

lemma transition_allowed_name:
  "transition_allowed (state_name s) (state_name t) = Inr (Allowed s t)"
  by (cases s; cases t)
    (simp_all add: transition_allowed_def STATE_CODES_def wl_transition_allowed_def world_states_def)

lemma transaction_transition_allowed_name:
  "transaction_transition_allowed (tx_name s) (tx_name t) = Inr (Transaction_Allowed s t)"
  by (cases s; cases t)
    (simp_all add: transaction_transition_allowed_def TRANSACTION_STATE_CODES_def
      wl_transaction_transition_allowed_def tx_states_def)

lemma state_code_name: "dget STATE_CODES s = Some c \<Longrightarrow> s = state_name (world_states ! c) \<and> c < 7"
  by (auto simp: STATE_CODES_def world_states_def split: if_splits)

lemma tx_code_name:
  "dget TRANSACTION_STATE_CODES s = Some c \<Longrightarrow> s = tx_name (tx_states ! c) \<and> c < 5"
  by (auto simp: TRANSACTION_STATE_CODES_def tx_states_def split: if_splits)

lemma transition_allowed_Inr:
  "transition_allowed a b = Inr x \<longleftrightarrow> (\<exists>s t. a = state_name s \<and> b = state_name t \<and> x = Allowed s t)"
proof
  assume "transition_allowed a b = Inr x"
  then obtain s t where "dget STATE_CODES a = Some s" "dget STATE_CODES b = Some t"
    by (auto simp: transition_allowed_def res_iffs)
  then have "a = state_name (world_states ! s)" "b = state_name (world_states ! t)"
    by (simp_all add: state_code_name)
  with \<open>transition_allowed a b = Inr x\<close>
  show "\<exists>s t. a = state_name s \<and> b = state_name t \<and> x = Allowed s t"
    by (metis transition_allowed_name sum.inject(2))
qed (auto simp: transition_allowed_name)

lemma transaction_transition_allowed_Inr:
  "transaction_transition_allowed a b = Inr x \<longleftrightarrow>
     (\<exists>s t. a = tx_name s \<and> b = tx_name t \<and> x = Transaction_Allowed s t)"
proof
  assume "transaction_transition_allowed a b = Inr x"
  then obtain s t where "dget TRANSACTION_STATE_CODES a = Some s"
      "dget TRANSACTION_STATE_CODES b = Some t"
    by (auto simp: transaction_transition_allowed_def res_iffs)
  then have "a = tx_name (tx_states ! s)" "b = tx_name (tx_states ! t)"
    by (simp_all add: tx_code_name)
  with \<open>transaction_transition_allowed a b = Inr x\<close>
  show "\<exists>s t. a = tx_name s \<and> b = tx_name t \<and> x = Transaction_Allowed s t"
    by (metis transaction_transition_allowed_name sum.inject(2))
qed (auto simp: transaction_transition_allowed_name)

text \<open>Two spellings of one byte.\<close>

lemma fromhex_lower: "fromhex (concat (replicate n (u ''aa''))) = Some (replicate n (CHR 0xAA))"
  by (induction n) (auto simp: u_def hex_value_def char_of_eq_iff take_bit_eq_mod)

lemma fromhex_spaced_upper: "fromhex (concat (replicate n (u '' AA''))) = Some (replicate n (CHR 0xAA))"
  by (induction n) (auto simp: u_def hex_value_def char_of_eq_iff take_bit_eq_mod)

section \<open>Properties\<close>

text \<open>
  An identity round trips through its text, and the text is one the runtime itself accepts:
  \<open>hash_bytes_from_id\<close> inverts \<open>hash_id\<close> on every 32-byte digest, so two digests never share a text.
\<close>
theorem identity_roundtrip:
  assumes "length b = 32"
  shows "rbind (hash_id b) hash_bytes_from_id = Inr b"
proof -
  from assms have "hash_id b = Inr (u ''sha256:'' @ hex_text b)" by (simp add: hash_id_Inr)
  with hash_bytes_from_hash_id [OF this] show ?thesis by simp
qed

theorem identity_roundtrip_witness:
  "rbind (hash_id (replicate 32 (CHR 0x41))) hash_bytes_from_id = Inr (replicate 32 (CHR 0x41))"
  by (rule identity_roundtrip) simp

text \<open>
  The reader of identities is not injective: it accepts upper-case digits and blanks between the
  bytes, so one digest has several accepted texts besides the one \<open>hash_id\<close> writes.
\<close>
theorem identity_text_not_unique:
  "\<exists>s t. s \<noteq> t \<and> hash_bytes_from_id s = Inr (replicate 32 (CHR 0xAA))
     \<and> hash_bytes_from_id t = Inr (replicate 32 (CHR 0xAA))"
proof -
  let ?s = "u ''sha256:'' @ concat (replicate 32 (u ''aa''))"
  let ?t = "u ''sha256:'' @ concat (replicate 32 (u '' AA''))"
  have "hash_bytes_from_id ?s = Inr (replicate 32 (CHR 0xAA))"
    by (simp add: hash_bytes_from_id_def fromhex_lower)
  moreover have "hash_bytes_from_id ?t = Inr (replicate 32 (CHR 0xAA))"
    by (simp add: hash_bytes_from_id_def fromhex_spaced_upper)
  moreover have "?s \<noteq> ?t" by (simp add: u_def numeral_eq_Suc)
  ultimately show ?thesis by blast
qed

end
