(* ===== verification/CoreDecide.thy ===== *)
theory CoreDecide
  imports CoreAbi
begin

text \<open>
  \<open>core.py\<close>, the two decisions the runtime asks the kernel for: \<open>collapse_decide\<close> with its typed
  input (\<open>CollapseInput\<close>), and the evaluation calls. \<open>request_of\<close> and \<open>observations_of\<close> say what
  an input means to the kernel; the lemmas show that the answer is the kernel's decision on it.
\<close>

section \<open>The collapse question\<close>

record collapse_input =
  candidate_state :: pystr
  phase_of :: pystr
  mode_of :: pystr
  conflicts_of :: pystr
  foreign_writes :: pystr
  roster_complete :: bool
  staged_roster_complete :: bool
  expected_parent :: "bytes option"
  candidate_parent :: "bytes option"
  expected_subject :: "bytes option"
  evidence_subject :: "bytes option"
  expected_base :: "bytes option"
  candidate_base :: "bytes option"
  expected_delta :: "bytes option"
  candidate_delta :: "bytes option"
  expected_root_set :: "bytes option"
  candidate_root_set :: "bytes option"
  expected_staged_root :: "bytes option"
  actual_staged_root :: "bytes option"
  staged_content_root :: "bytes option"
  tested_root :: "bytes option"
  current_requirement :: "bytes option"
  evaluated_requirement :: "bytes option"
  declared_verifiers :: "bytes option"
  executed_verifiers :: "bytes option"
  staged_evaluated_requirement :: "bytes option"
  staged_executed_verifiers :: "bytes option"
  staged_examined_root :: "bytes option"
  expected_checkpoint :: "bytes option"
  witnessed_checkpoint :: "bytes option"
  registered_watch_set :: "bytes option"
  watched_set :: "bytes option"
  generation_before :: "int option"
  generation_after :: "int option"

text \<open>The values of \<open>COLLAPSE_HASH_FIELDS\<close>, in its order.\<close>

definition hash_values :: "collapse_input \<Rightarrow> bytes option list" where
  "hash_values v =
     [expected_parent v, candidate_parent v, expected_subject v, evidence_subject v,
      expected_base v, candidate_base v, expected_delta v, candidate_delta v,
      expected_root_set v, candidate_root_set v, expected_staged_root v, actual_staged_root v,
      staged_content_root v, tested_root v, current_requirement v, evaluated_requirement v,
      declared_verifiers v, executed_verifiers v, staged_evaluated_requirement v,
      staged_executed_verifiers v, staged_examined_root v, expected_checkpoint v,
      witnessed_checkpoint v, registered_watch_set v, watched_set v]"

definition optional_hash :: "bytes option \<Rightarrow> (nat \<times> bytes) res" where
  "optional_hash value = (case value of
       None \<Rightarrow> Inr (0, replicate 32 (CHR 0x00))
     | Some b \<Rightarrow>
         rbind (ensure (length b = 32) invalid_hash) (\<lambda>_.
         rbind (ensure (\<not> All_Zero b) invalid_hash) (\<lambda>_. Inr (1, b))))"

definition to_bytes8 :: "int \<Rightarrow> bytes" where
  "to_bytes8 v = map (\<lambda>i. char_of (nat v div 256 ^ i)) [0..<8]"

definition optional_counter :: "int option \<Rightarrow> (nat \<times> bytes) res" where
  "optional_counter value = (case value of
       None \<Rightarrow> Inr (0, replicate 8 (CHR 0x00))
     | Some i \<Rightarrow>
         rbind (ensure (0 \<le> i \<and> i < 2 ^ 64) invalid_evaluation) (\<lambda>_. Inr (1, to_bytes8 i)))"

definition decision_name :: "nat \<Rightarrow> pystr" where
  "decision_name code = (case dget COLLAPSE_DECISIONS code of
       Some n \<Rightarrow> n | None \<Rightarrow> u ''UNKNOWN_'' @ nat_repr code)"

definition collapse_request_of :: "collapse_input \<Rightarrow> raw_request res" where
  "collapse_request_of v =
     rbind (req invalid_evaluation (dget STATE_CODES (candidate_state v))) (\<lambda>state.
     rbind (req invalid_evaluation (dget COLLAPSE_PHASES (phase_of v))) (\<lambda>ph.
     rbind (req invalid_evaluation (dget EVALUATION_MODES (mode_of v))) (\<lambda>md.
     rbind (req invalid_evaluation (dget MEASUREMENTS (conflicts_of v))) (\<lambda>conf.
     rbind (req invalid_evaluation (dget MEASUREMENTS (foreign_writes v))) (\<lambda>foreign.
     rbind (rmap optional_hash (hash_values v)) (\<lambda>hashes.
     rbind (optional_counter (generation_before v)) (\<lambda>before.
     rbind (optional_counter (generation_after v)) (\<lambda>after.
     Inr \<lparr>raw_state = state, raw_phase = ph, raw_mode = md, raw_conflicts = conf,
          raw_foreign = foreign, raw_roster = of_bool (roster_complete v),
          raw_staged_roster = of_bool (staged_roster_complete v),
          Hashes = hashes, raw_before = before, raw_after = after\<rparr>))))))))"

definition collapse_decide :: "collapse_input \<Rightarrow> pystr res" where
  "collapse_decide v = rbind (collapse_request_of v) (\<lambda>r. Inr (decision_name (Decide_Wire r)))"

subsection \<open>Counters\<close>

lemma bit_fold_or:
  fixes f :: "nat \<Rightarrow> 64 word"
  shows "bit (fold (\<lambda>i w. or w (f i)) is w) n \<longleftrightarrow> bit w n \<or> (\<exists>i \<in> set is. bit (f i) n)"
  by (induction "is" arbitrary: w) (auto simp: bit_or_iff)

lemma bit_byte: "bit (of_char (char_of (m :: nat)) :: 64 word) k \<longleftrightarrow> k < 8 \<and> bit m k"
proof -
  have "(of_char (char_of m) :: 64 word) = of_nat (of_char (char_of m))"
    by (simp only: of_nat_of_char)
  also have "\<dots> = of_nat (take_bit 8 m)" by (simp add: take_bit_eq_mod)
  finally show ?thesis by (auto simp: bit_of_nat_iff bit_take_bit_iff possible_bit_word)
qed

lemma Counter_Value_to_bytes8:
  assumes "0 \<le> v" and "v < 2 ^ 64"
  shows "Counter_Value (to_bytes8 v) = word_of_int v"
proof (rule bit_word_eqI)
  fix n :: nat assume n: "n < LENGTH(64)"
  define m where "m = nat v"
  have v: "v = int m" using assms by (simp add: m_def)
  have "bit (Counter_Value (to_bytes8 v)) n \<longleftrightarrow>
      (\<exists>i < 8. 8 * i \<le> n \<and> n - 8 * i < 8 \<and> bit (m div 256 ^ i) (n - 8 * i))"
  proof -
    have "bit (Counter_Value (to_bytes8 v)) n \<longleftrightarrow> (\<exists>i \<in> set [0..<8].
        bit (push_bit (8 * i) (of_char (char_of (m div 256 ^ i))) :: 64 word) n)"
      unfolding Counter_Value_def bit_fold_or by (simp add: to_bytes8_def m_def)
    also have "\<dots> \<longleftrightarrow> (\<exists>i < 8. 8 * i \<le> n \<and> n - 8 * i < 8 \<and> bit (m div 256 ^ i) (n - 8 * i))"
      using n by (simp add: bit_push_bit_iff bit_byte Bex_def)
    finally show ?thesis .
  qed
  also have "\<dots> \<longleftrightarrow> (\<exists>i < 8. 8 * i \<le> n \<and> n - 8 * i < 8 \<and> bit m n)"
  proof -
    have "m div 256 ^ i = drop_bit (8 * i) m" for i
      by (simp add: drop_bit_eq_div power_mult)
    then show ?thesis by (auto simp: bit_drop_bit_eq)
  qed
  also have "\<dots> \<longleftrightarrow> bit m n"
  proof -
    have "n div 8 < 8 \<and> 8 * (n div 8) \<le> n \<and> n - 8 * (n div 8) < 8" using n by auto
    then show ?thesis by blast
  qed
  also have "\<dots> \<longleftrightarrow> bit (word_of_int v :: 64 word) n"
    using n by (simp add: v bit_of_nat_iff possible_bit_word)
  finally show "bit (Counter_Value (to_bytes8 v)) n = bit (word_of_int v :: 64 word) n" .
qed

subsection \<open>What an input means\<close>

definition typed_hash :: "bytes option \<Rightarrow> bool" where
  "typed_hash h \<longleftrightarrow> (case h of None \<Rightarrow> True | Some b \<Rightarrow> length b = 32 \<and> \<not> All_Zero b)"

definition typed_counter :: "int option \<Rightarrow> bool" where
  "typed_counter c \<longleftrightarrow> (case c of None \<Rightarrow> True | Some i \<Rightarrow> 0 \<le> i \<and> i < 2 ^ 64)"

definition typed_input :: "collapse_input \<Rightarrow> bool" where
  "typed_input v \<longleftrightarrow>
     dget STATE_CODES (candidate_state v) \<noteq> None \<and> dget COLLAPSE_PHASES (phase_of v) \<noteq> None
     \<and> dget EVALUATION_MODES (mode_of v) \<noteq> None \<and> dget MEASUREMENTS (conflicts_of v) \<noteq> None
     \<and> dget MEASUREMENTS (foreign_writes v) \<noteq> None
     \<and> list_all typed_hash (hash_values v)
     \<and> typed_counter (generation_before v) \<and> typed_counter (generation_after v)"

definition well_posed :: "collapse_input \<Rightarrow> bool" where
  "well_posed v \<longleftrightarrow>
     (phase_of v = u ''PREPARE'' \<longrightarrow> actual_staged_root v = None)
     \<and> (mode_of v = u ''CANDIDATE_EVALUATION'' \<longrightarrow>
          expected_checkpoint v = None \<and> witnessed_checkpoint v = None)
     \<and> (mode_of v = u ''CHECKPOINT_RETURN'' \<longrightarrow>
          evaluated_requirement v = None \<and> executed_verifiers v = None \<and> \<not> roster_complete v)"

definition measurement_of :: "pystr \<Rightarrow> measurement" where
  "measurement_of s = (if s = u ''FOUND'' then Found else if s = u ''NONE_FOUND'' then None_Found
     else Unmeasured)"

definition request_of :: "collapse_input \<Rightarrow> collapse_request" where
  "request_of v =
     \<lparr>Candidate_State = world_states ! the (dget STATE_CODES (candidate_state v)),
      Request_Phase = (if phase_of v = u ''PREPARE'' then Prepare else Commit),
      Mode = (if mode_of v = u ''CHECKPOINT_RETURN'' then Checkpoint_Return else Candidate_Evaluation),
      Conflicts = measurement_of (conflicts_of v),
      Foreign_Writes = measurement_of (foreign_writes v),
      Roster_Complete = roster_complete v,
      Staged_Roster_Complete = staged_roster_complete v,
      Expected_Parent = expected_parent v,
      Candidate_Parent = candidate_parent v,
      Expected_Subject = expected_subject v,
      Evidence_Subject = evidence_subject v,
      Expected_Base = expected_base v,
      Candidate_Base = candidate_base v,
      Expected_Delta = expected_delta v,
      Candidate_Delta = candidate_delta v,
      Expected_Root_Set = expected_root_set v,
      Candidate_Root_Set = candidate_root_set v,
      Expected_Staged_Root = expected_staged_root v,
      Actual_Staged_Root = actual_staged_root v,
      Staged_Content_Root = staged_content_root v,
      Tested_Root = tested_root v,
      Current_Requirement = current_requirement v,
      Evaluated_Requirement = evaluated_requirement v,
      Declared_Verifiers = declared_verifiers v,
      Executed_Verifiers = executed_verifiers v,
      Staged_Evaluated_Requirement = staged_evaluated_requirement v,
      Staged_Executed_Verifiers = staged_executed_verifiers v,
      Staged_Examined_Root = staged_examined_root v,
      Expected_Checkpoint = expected_checkpoint v,
      Witnessed_Checkpoint = witnessed_checkpoint v,
      Registered_Watch_Set = registered_watch_set v,
      Watched_Set = watched_set v,
      Generation_Before = map_option of_int (generation_before v),
      Generation_After = map_option of_int (generation_after v)\<rparr>"

definition wire_hash :: "bytes option \<Rightarrow> nat \<times> bytes" where
  "wire_hash h = (case h of None \<Rightarrow> (0, replicate 32 (CHR 0x00)) | Some b \<Rightarrow> (1, b))"

definition wire_counter :: "int option \<Rightarrow> nat \<times> bytes" where
  "wire_counter c = (case c of None \<Rightarrow> (0, replicate 8 (CHR 0x00)) | Some i \<Rightarrow> (1, to_bytes8 i))"

lemma optional_hash_Inr: "optional_hash h = Inr w \<longleftrightarrow> typed_hash h \<and> w = wire_hash h"
  by (auto simp: optional_hash_def typed_hash_def wire_hash_def res_iffs split: option.splits)

lemma optional_counter_Inr: "optional_counter c = Inr w \<longleftrightarrow> typed_counter c \<and> w = wire_counter c"
  by (auto simp: optional_counter_def typed_counter_def wire_counter_def res_iffs split: option.splits)

lemma optional_hashes_Inr:
  "rmap optional_hash hs = Inr ws \<longleftrightarrow> list_all typed_hash hs \<and> ws = map wire_hash hs"
  by (induction hs arbitrary: ws) (auto simp: res_iffs optional_hash_Inr)

lemma opt_hash_wire: "opt_hash (wire_hash h) = h"
  by (auto simp: opt_hash_def wire_hash_def split: option.splits)

lemma fst_wire_hash: "fst (wire_hash h) = 0 \<longleftrightarrow> h = None"
  by (auto simp: wire_hash_def split: option.splits)

lemma opt_counter_wire: "typed_counter c \<Longrightarrow> opt_counter (wire_counter c) = map_option of_int c"
  by (auto simp: opt_counter_def wire_counter_def typed_counter_def Counter_Value_to_bytes8
      split: option.splits)

lemma Hash_Well_Formed_wire: "typed_hash h \<Longrightarrow> Hash_Well_Formed (wire_hash h)"
  by (auto simp: typed_hash_def Hash_Well_Formed_def wire_hash_def All_Zero_def list_all_iff
      split: option.splits)

lemma Counter_Well_Formed_wire: "Counter_Well_Formed (wire_counter c)"
  by (auto simp: Counter_Well_Formed_def wire_counter_def All_Zero_def list_all_iff
      split: option.splits)

lemma request_Inr:
  "collapse_request_of v = Inr r \<longleftrightarrow> typed_input v \<and>
     r = \<lparr>raw_state = the (dget STATE_CODES (candidate_state v)),
          raw_phase = the (dget COLLAPSE_PHASES (phase_of v)),
          raw_mode = the (dget EVALUATION_MODES (mode_of v)),
          raw_conflicts = the (dget MEASUREMENTS (conflicts_of v)),
          raw_foreign = the (dget MEASUREMENTS (foreign_writes v)),
          raw_roster = of_bool (roster_complete v),
          raw_staged_roster = of_bool (staged_roster_complete v),
          Hashes = map wire_hash (hash_values v),
          raw_before = wire_counter (generation_before v),
          raw_after = wire_counter (generation_after v)\<rparr>"
  unfolding collapse_request_of_def typed_input_def
  by (simp add: res_iffs optional_hashes_Inr optional_counter_Inr) fastforce

lemma phase_cases:
  "dget COLLAPSE_PHASES p = Some c \<Longrightarrow> p = u ''COMMIT'' \<and> c = 0 \<or> p = u ''PREPARE'' \<and> c = 1"
  by (auto simp: COLLAPSE_PHASES_def split: if_splits)

lemma mode_cases:
  "dget EVALUATION_MODES p = Some c \<Longrightarrow>
     p = u ''CANDIDATE_EVALUATION'' \<and> c = 0 \<or> p = u ''CHECKPOINT_RETURN'' \<and> c = 1"
  by (auto simp: EVALUATION_MODES_def split: if_splits)

lemma measurement_cases:
  "dget MEASUREMENTS p = Some c \<Longrightarrow> measurement_of p = Measure c \<and> c \<le> 2"
  by (auto simp: MEASUREMENTS_def measurement_of_def Measure_def split: if_splits)

lemma nth_hashes:
  "map wire_hash (hash_values v) ! 11 = wire_hash (actual_staged_root v)"
  "map wire_hash (hash_values v) ! 15 = wire_hash (evaluated_requirement v)"
  "map wire_hash (hash_values v) ! 17 = wire_hash (executed_verifiers v)"
  "map wire_hash (hash_values v) ! 21 = wire_hash (expected_checkpoint v)"
  "map wire_hash (hash_values v) ! 22 = wire_hash (witnessed_checkpoint v)"
  by (simp_all add: hash_values_def)

lemma request_well_formed:
  assumes "collapse_request_of v = Inr r"
  shows "Well_Formed r \<longleftrightarrow> well_posed v"
proof -
  from assms have t: "typed_input v" by (simp add: request_Inr)
  then obtain s p m c f where codes: "dget STATE_CODES (candidate_state v) = Some s"
      "dget COLLAPSE_PHASES (phase_of v) = Some p" "dget EVALUATION_MODES (mode_of v) = Some m"
      "dget MEASUREMENTS (conflicts_of v) = Some c" "dget MEASUREMENTS (foreign_writes v) = Some f"
    by (auto simp: typed_input_def)
  have "list_all Hash_Well_Formed (map wire_hash (hash_values v))"
    using t by (auto simp: typed_input_def list_all_iff Hash_Well_Formed_wire)
  moreover have "s \<le> 6" "c \<le> 2" "f \<le> 2"
    using state_code_name [OF codes(1)] measurement_cases [OF codes(4)]
      measurement_cases [OF codes(5)] by auto
  ultimately show ?thesis
    using assms codes phase_cases [OF codes(2)] mode_cases [OF codes(3)]
    by (auto simp: request_Inr Well_Formed_def well_posed_def Counter_Well_Formed_wire nth_hashes
        fst_wire_hash)
qed

lemma request_decodes:
  assumes "collapse_request_of v = Inr r"
  shows "Decode r = request_of v"
proof -
  from assms have t: "typed_input v" by (simp add: request_Inr)
  then obtain s p m c f where codes: "dget STATE_CODES (candidate_state v) = Some s"
      "dget COLLAPSE_PHASES (phase_of v) = Some p" "dget EVALUATION_MODES (mode_of v) = Some m"
      "dget MEASUREMENTS (conflicts_of v) = Some c" "dget MEASUREMENTS (foreign_writes v) = Some f"
    by (auto simp: typed_input_def)
  have counters: "typed_counter (generation_before v)" "typed_counter (generation_after v)"
    using t by (auto simp: typed_input_def)
  have "p = 1 \<longleftrightarrow> phase_of v = u ''PREPARE''" "m = 1 \<longleftrightarrow> mode_of v = u ''CHECKPOINT_RETURN''"
    using phase_cases [OF codes(2)] mode_cases [OF codes(3)] by auto
  then show ?thesis
    using assms codes measurement_cases [OF codes(4)] measurement_cases [OF codes(5)]
    by (simp add: request_Inr Decode_def request_of_def hash_values_def opt_hash_wire
        opt_counter_wire counters)
qed

text \<open>The answer: a type error, \<open>INVALID_REQUEST\<close> for an ill-posed question, or the kernel's decision.\<close>

lemma collapse_decide_Inr:
  "collapse_decide v = Inr d \<longleftrightarrow> typed_input v \<and>
     d = (if well_posed v then decision_name (index_of (Decide (request_of v)) decisions)
          else u ''INVALID_REQUEST'')"
proof (cases "typed_input v")
  case True
  then obtain r where r: "collapse_request_of v = Inr r" by (auto simp: request_Inr)
  have "decision_name 255 = u ''INVALID_REQUEST''"
    by (simp add: decision_name_def COLLAPSE_DECISIONS_def)
  then show ?thesis
    using True request_well_formed [OF r] request_decodes [OF r]
    by (auto simp: collapse_decide_def r Decide_Wire_def)
next
  case False
  then show ?thesis by (auto simp: collapse_decide_def res_iffs request_Inr)
qed

lemma decision_name_authorized: "decision_name (index_of d decisions) = u ''AUTHORIZED'' \<longleftrightarrow> d = AUTHORIZED"
  by (cases d) (simp_all add: decisions_def decision_name_def COLLAPSE_DECISIONS_def)

lemma collapse_decide_authorized:
  "collapse_decide v = Inr (u ''AUTHORIZED'') \<longleftrightarrow>
     typed_input v \<and> well_posed v \<and> All_Hold (request_of v)"
  unfolding collapse_decide_Inr Decide_authorized [symmetric]
    decision_name_authorized [symmetric, of "Decide (request_of v)"]
  by auto

section \<open>Evaluations\<close>

text \<open>
  \<open>EvaluationFacts\<close>, \<open>EvaluationClassification\<close> and \<open>EvidencePresence\<close> of the runtime; the field
  names carry a prefix where the kernel's records have the same ones. A flag of the C record is
  0 or 1 because the runtime sends Booleans.
\<close>

record evaluation_facts =
  ef_source :: pystr
  ef_status :: pystr
  ef_channel :: pystr
  ef_stage :: pystr
  ef_exit_present :: bool
  ef_exit_integer :: bool
  ef_supervisor :: pystr
  ef_supervisor_stopped :: bool
  ef_bundle_present :: bool
  ef_bundle_is_mapping :: bool
  ef_bundle_stable :: bool
  ef_bundle_changed :: bool
  ef_unsatisfied_imports :: bool

record evaluation_classification =
  ec_execution :: pystr
  ec_outcome :: pystr
  ec_bundle :: pystr

definition origins :: "origin list" where
  "origins = [Engine, Agent, External]"

definition statuses :: "raw_status list" where
  "statuses = [Absent_Status, Pass_Status, Fail_Status, Unassessed_Status, Other_Status]"

definition channels :: "channel list" where
  "channels = [Absent_Channel, Empty_Channel, Accepted_Channel, Rejected_Channel, Other_Channel,
     Malformed_Channel]"

definition stages :: "stage list" where
  "stages = [No_Stage, Never_Started, Manager_Stopped, Harness_Signalled, Other_Stage]"

definition supervisions :: "supervision list" where
  "supervisions = [No_Supervision, Supervised, Stopped, Other_Supervision]"

definition executions :: "execution list" where
  "executions = [NOT_ATTEMPTED, PREPARED, STARTED, INTERRUPTED, ERROR_BEFORE_EXAMINER,
     INCOMPLETE_UNKNOWN, EVALUATOR_INCOMPLETE, UNCLASSIFIED, COMPLETED]"

definition outcomes :: "outcome list" where
  "outcomes = [No_Outcome, Passed, Failed]"

definition bundles :: "bundle_integrity list" where
  "bundles = [Not_Covered, Verified, Compromised, Unknown_Integrity]"

definition reports :: "report_integrity list" where
  "reports = [Not_Applicable, Verified_Report, Untrusted_Report]"

text \<open>\<open>wl_evaluation_classify\<close>: the record's own consistency, then the proved rule. \<open>None\<close> is 255.\<close>

definition observations_consistent :: "observations \<Rightarrow> bool" where
  "observations_consistent f \<longleftrightarrow>
     (Exit_Integer f \<longrightarrow> Exit_Present f)
     \<and> (Bundle_Stable f \<longrightarrow> Bundle_Present f \<and> Bundle_Is_Mapping f)
     \<and> (Bundle_Changed f \<longrightarrow> Bundle_Present f \<and> Bundle_Is_Mapping f)"

definition wl_evaluation_classify :: "observations \<Rightarrow> (nat \<times> nat \<times> nat) option" where
  "wl_evaluation_classify f =
     (if \<not> observations_consistent f then None
      else let v = Classify f in
        Some (index_of (Execution v) executions, index_of (Result v) outcomes,
              index_of (Bundle v) bundles))"

definition nth_name :: "pystr list \<Rightarrow> nat \<Rightarrow> pystr option" where
  "nth_name names i = (if i < length names then Some (names ! i) else None)"

definition core_invalid :: exc where
  "core_invalid = WL ''CORE_INVALID_EVALUATION''"

definition evaluation_classify :: "evaluation_facts \<Rightarrow> evaluation_classification res" where
  "evaluation_classify f =
     rbind (req KeyError (dget EVALUATION_ORIGINS (ef_source f))) (\<lambda>source.
     rbind (req KeyError (dget EVALUATION_STATUSES (ef_status f))) (\<lambda>status.
     rbind (req KeyError (dget EVALUATION_CHANNELS (ef_channel f))) (\<lambda>chan.
     rbind (req KeyError (dget EVALUATION_STAGES (ef_stage f))) (\<lambda>stg.
     rbind (req KeyError (dget EVALUATION_SUPERVISION (ef_supervisor f))) (\<lambda>sup.
     rbind (req core_invalid (wl_evaluation_classify
       \<lparr>Source = origins ! source, Status = statuses ! status, Channel = channels ! chan,
        Stage = stages ! stg, Exit_Present = ef_exit_present f, Exit_Integer = ef_exit_integer f,
        Supervisor = supervisions ! sup, Supervisor_Stopped = ef_supervisor_stopped f,
        Bundle_Present = ef_bundle_present f, Bundle_Is_Mapping = ef_bundle_is_mapping f,
        Bundle_Stable = ef_bundle_stable f, Bundle_Changed = ef_bundle_changed f,
        Unsatisfied_Imports = ef_unsatisfied_imports f\<rparr>)) (\<lambda>(e, out, b).
     rbind (req core_invalid (nth_name EVALUATION_EXECUTIONS e)) (\<lambda>e.
     rbind (req core_invalid (nth_name EVALUATION_OUTCOMES out)) (\<lambda>out.
     rbind (req core_invalid (nth_name EVALUATION_BUNDLES b)) (\<lambda>b.
     Inr \<lparr>ec_execution = e, ec_outcome = out, ec_bundle = b\<rparr>)))))))))"

definition position :: "pystr list \<Rightarrow> pystr \<Rightarrow> nat option" where
  "position names s = (if s \<in> set names then Some (index_of s names) else None)"

text \<open>\<open>wl_evaluation_admissible\<close>: 255 for a classification \<open>Classify\<close> never returns.\<close>

definition wl_evaluation_admissible ::
    "nat \<times> nat \<times> nat \<Rightarrow> nat \<Rightarrow> evidence_presence \<Rightarrow> nat" where
  "wl_evaluation_admissible v report p = (case v of (e, out, b) \<Rightarrow>
     if e > 8 \<or> out > 2 \<or> b > 3 \<or> report > 2 \<or> ((e = 8) = (out = 0)) \<or> (1 \<le> e \<and> e \<le> 2) then 255
     else if Admissible \<lparr>Execution = executions ! e, Result = outcomes ! out, Bundle = bundles ! b\<rparr>
               (reports ! report) p then 1 else 0)"

definition evaluation_admissible ::
    "evaluation_classification \<Rightarrow> pystr \<Rightarrow> evidence_presence \<Rightarrow> bool res" where
  "evaluation_admissible v report_integrity p =
     rbind (req invalid_evaluation (position EVALUATION_EXECUTIONS (ec_execution v))) (\<lambda>e.
     rbind (req invalid_evaluation (position EVALUATION_OUTCOMES (ec_outcome v))) (\<lambda>out.
     rbind (req invalid_evaluation (position EVALUATION_BUNDLES (ec_bundle v))) (\<lambda>b.
     rbind (req invalid_evaluation (dget EVALUATION_REPORTS report_integrity)) (\<lambda>report.
     let code = wl_evaluation_admissible (e, out, b) report p in
     rbind (ensure (code \<in> {0, 1}) core_invalid) (\<lambda>_. Inr (code = 1))))))"

definition wl_evaluation_transition_allowed :: "nat \<Rightarrow> nat \<Rightarrow> nat" where
  "wl_evaluation_transition_allowed s t =
     (if s > 8 \<or> t > 8 then 255
      else if Transition_Allowed (executions ! s) (executions ! t) then 1 else 0)"

definition evaluation_transition_allowed :: "pystr \<Rightarrow> pystr \<Rightarrow> bool res" where
  "evaluation_transition_allowed from_state to_state =
     rbind (req invalid_evaluation (position EVALUATION_EXECUTIONS from_state)) (\<lambda>s.
     rbind (req invalid_evaluation (position EVALUATION_EXECUTIONS to_state)) (\<lambda>t.
     let code = wl_evaluation_transition_allowed s t in
     rbind (ensure (code \<in> {0, 1}) core_invalid) (\<lambda>_. Inr (code = 1))))"

definition wl_evaluation_advance :: "nat \<Rightarrow> nat \<Rightarrow> nat option" where
  "wl_evaluation_advance s t =
     (if s > 8 \<or> t > 8 then None
      else Some (index_of (Advance (executions ! s) (executions ! t)) executions))"

definition evaluation_advance :: "pystr \<Rightarrow> pystr \<Rightarrow> pystr res" where
  "evaluation_advance state requested =
     rbind (req invalid_evaluation (position EVALUATION_EXECUTIONS state)) (\<lambda>s.
     rbind (req invalid_evaluation (position EVALUATION_EXECUTIONS requested)) (\<lambda>t.
     rbind (req core_invalid (wl_evaluation_advance s t)) (\<lambda>r.
     req core_invalid (nth_name EVALUATION_EXECUTIONS r))))"

definition wl_evaluation_roster_complete :: "bool list \<Rightarrow> bool \<Rightarrow> nat" where
  "wl_evaluation_roster_complete admitted empty_declared =
     (if length admitted > 4096 then 255
      else if Roster_Complete_Rule admitted empty_declared then 1 else 0)"

definition evaluation_roster_complete :: "bool list \<Rightarrow> bool \<Rightarrow> bool res" where
  "evaluation_roster_complete admitted empty_declared =
     rbind (ensure (length admitted \<le> 4096) (WL ''ROSTER_TOO_LARGE'')) (\<lambda>_.
     let code = wl_evaluation_roster_complete admitted empty_declared in
     rbind (ensure (code \<in> {0, 1}) core_invalid) (\<lambda>_. Inr (code = 1)))"

subsection \<open>Names and kernel values\<close>

definition execution_name :: "execution \<Rightarrow> pystr" where
  "execution_name e = EVALUATION_EXECUTIONS ! index_of e executions"

definition outcome_name :: "outcome \<Rightarrow> pystr" where
  "outcome_name r = EVALUATION_OUTCOMES ! index_of r outcomes"

definition bundle_name :: "bundle_integrity \<Rightarrow> pystr" where
  "bundle_name b = EVALUATION_BUNDLES ! index_of b bundles"

definition names_of :: "classification \<Rightarrow> evaluation_classification" where
  "names_of v = \<lparr>ec_execution = execution_name (Execution v), ec_outcome = outcome_name (Result v),
     ec_bundle = bundle_name (Bundle v)\<rparr>"

definition observations_of :: "evaluation_facts \<Rightarrow> observations" where
  "observations_of f =
     \<lparr>Source = origins ! the (dget EVALUATION_ORIGINS (ef_source f)),
      Status = statuses ! the (dget EVALUATION_STATUSES (ef_status f)),
      Channel = channels ! the (dget EVALUATION_CHANNELS (ef_channel f)),
      Stage = stages ! the (dget EVALUATION_STAGES (ef_stage f)),
      Exit_Present = ef_exit_present f, Exit_Integer = ef_exit_integer f,
      Supervisor = supervisions ! the (dget EVALUATION_SUPERVISION (ef_supervisor f)),
      Supervisor_Stopped = ef_supervisor_stopped f,
      Bundle_Present = ef_bundle_present f, Bundle_Is_Mapping = ef_bundle_is_mapping f,
      Bundle_Stable = ef_bundle_stable f, Bundle_Changed = ef_bundle_changed f,
      Unsatisfied_Imports = ef_unsatisfied_imports f\<rparr>"

definition typed_facts :: "evaluation_facts \<Rightarrow> bool" where
  "typed_facts f \<longleftrightarrow>
     dget EVALUATION_ORIGINS (ef_source f) \<noteq> None \<and> dget EVALUATION_STATUSES (ef_status f) \<noteq> None
     \<and> dget EVALUATION_CHANNELS (ef_channel f) \<noteq> None \<and> dget EVALUATION_STAGES (ef_stage f) \<noteq> None
     \<and> dget EVALUATION_SUPERVISION (ef_supervisor f) \<noteq> None"

lemma execution_index: "index_of e executions < 9 \<and> executions ! index_of e executions = e"
  by (cases e) (simp_all add: executions_def)

lemma nth_execution: "nth_name EVALUATION_EXECUTIONS (index_of e executions) = Some (execution_name e)"
  using execution_index [of e] by (simp add: nth_name_def execution_name_def EVALUATION_EXECUTIONS_def)

lemma nth_outcome: "nth_name EVALUATION_OUTCOMES (index_of r outcomes) = Some (outcome_name r)"
  by (cases r) (simp_all add: nth_name_def outcome_name_def EVALUATION_OUTCOMES_def outcomes_def)

lemma nth_bundle: "nth_name EVALUATION_BUNDLES (index_of b bundles) = Some (bundle_name b)"
  by (cases b) (simp_all add: nth_name_def bundle_name_def EVALUATION_BUNDLES_def bundles_def)

lemma evaluation_classify_Inr:
  "evaluation_classify f = Inr c \<longleftrightarrow>
     typed_facts f \<and> observations_consistent (observations_of f)
     \<and> c = names_of (Classify (observations_of f))"
  by (auto simp: evaluation_classify_def wl_evaluation_classify_def observations_of_def
      typed_facts_def names_of_def Let_def res_iffs nth_execution nth_outcome nth_bundle
      split: if_splits)

lemma position_execution:
  "position EVALUATION_EXECUTIONS (execution_name e) = Some (index_of e executions)"
  by (cases e) (simp_all add: position_def execution_name_def EVALUATION_EXECUTIONS_def executions_def)

lemma position_outcome: "position EVALUATION_OUTCOMES (outcome_name r) = Some (index_of r outcomes)"
  by (cases r) (simp_all add: position_def outcome_name_def EVALUATION_OUTCOMES_def outcomes_def)

lemma position_bundle: "position EVALUATION_BUNDLES (bundle_name b) = Some (index_of b bundles)"
  by (cases b) (simp_all add: position_def bundle_name_def EVALUATION_BUNDLES_def bundles_def)

lemma evaluation_transition_allowed_name:
  "evaluation_transition_allowed (execution_name s) (execution_name t) = Inr (Transition_Allowed s t)"
  using execution_index [of s] execution_index [of t]
  by (simp add: evaluation_transition_allowed_def position_execution
      wl_evaluation_transition_allowed_def Let_def)

lemma evaluation_advance_name:
  "evaluation_advance (execution_name s) (execution_name t) = Inr (execution_name (Advance s t))"
  using execution_index [of s] execution_index [of t]
  by (simp add: evaluation_advance_def position_execution wl_evaluation_advance_def nth_execution)

lemma evaluation_roster_complete_Inr:
  "evaluation_roster_complete xs d = Inr b \<longleftrightarrow>
     length xs \<le> 4096 \<and> b = (if xs = [] then d else list_all id xs)"
  by (auto simp: evaluation_roster_complete_def wl_evaluation_roster_complete_def
      Roster_Complete_Rule_def Let_def res_iffs)

text \<open>Admission as the runtime asks for it, on names.\<close>

lemma wl_evaluation_admissible_1:
  "wl_evaluation_admissible (e, out, b) report p = 1 \<longleftrightarrow>
     e = 8 \<and> out = 1 \<and> b \<in> {0, 1} \<and> report \<in> {0, 1} \<and> Evidence_Complete p"
proof -
  have "e \<le> 8 \<Longrightarrow> executions ! e = COMPLETED \<longleftrightarrow> e = 8"
    unfolding executions_def by (auto simp: le_Suc_eq numeral_eq_Suc)
  moreover have "out \<le> 2 \<Longrightarrow> outcomes ! out = Passed \<longleftrightarrow> out = 1"
    unfolding outcomes_def by (auto simp: le_Suc_eq numeral_eq_Suc)
  moreover have "b \<le> 3 \<Longrightarrow> bundles ! b \<in> {Not_Covered, Verified} \<longleftrightarrow> b \<in> {0, 1}"
    unfolding bundles_def by (auto simp: le_Suc_eq numeral_eq_Suc)
  moreover have "report \<le> 2 \<Longrightarrow> reports ! report \<in> {Not_Applicable, Verified_Report} \<longleftrightarrow> report \<in> {0, 1}"
    unfolding reports_def by (auto simp: le_Suc_eq numeral_eq_Suc)
  ultimately show ?thesis
    unfolding wl_evaluation_admissible_def Admissible_def prod.case
    by (auto simp del: insert_iff)
qed

lemma position_Some: "position names s = Some i \<Longrightarrow> i < length names \<and> names ! i = s"
  using index_of_nth [of s names] by (auto simp: position_def split: if_splits)

lemma position_distinct: "distinct names \<Longrightarrow> i < length names \<Longrightarrow> position names (names ! i) = Some i"
  by (metis index_of_nth nth_eq_iff_index_eq nth_mem position_def)

lemma named_categories:
  "position EVALUATION_EXECUTIONS s = Some 8 \<longleftrightarrow> s = u ''COMPLETED''"
  "position EVALUATION_OUTCOMES s = Some 1 \<longleftrightarrow> s = u ''PASS''"
  "position EVALUATION_BUNDLES s = Some 0 \<longleftrightarrow> s = u ''NOT_COVERED''"
  "position EVALUATION_BUNDLES s = Some 1 \<longleftrightarrow> s = u ''VERIFIED''"
  "dget EVALUATION_REPORTS s = Some 0 \<longleftrightarrow> s = u ''NOT_APPLICABLE''"
  "dget EVALUATION_REPORTS s = Some 1 \<longleftrightarrow> s = u ''VERIFIED''"
  by (auto simp: position_def EVALUATION_EXECUTIONS_def EVALUATION_OUTCOMES_def
      EVALUATION_BUNDLES_def EVALUATION_REPORTS_def split: if_splits)

lemma evaluation_admissible_True:
  "evaluation_admissible v report p = Inr True \<longleftrightarrow>
     ec_execution v = u ''COMPLETED'' \<and> ec_outcome v = u ''PASS''
     \<and> ec_bundle v \<in> {u ''NOT_COVERED'', u ''VERIFIED''}
     \<and> report \<in> {u ''NOT_APPLICABLE'', u ''VERIFIED''} \<and> Evidence_Complete p"
proof -
  have "evaluation_admissible v report p = Inr True \<longleftrightarrow>
     (\<exists>e out b c. position EVALUATION_EXECUTIONS (ec_execution v) = Some e
       \<and> position EVALUATION_OUTCOMES (ec_outcome v) = Some out
       \<and> position EVALUATION_BUNDLES (ec_bundle v) = Some b
       \<and> dget EVALUATION_REPORTS report = Some c
       \<and> wl_evaluation_admissible (e, out, b) c p = 1)"
    by (auto simp: evaluation_admissible_def Let_def res_iffs)
  also have "\<dots> \<longleftrightarrow> position EVALUATION_EXECUTIONS (ec_execution v) = Some 8
      \<and> position EVALUATION_OUTCOMES (ec_outcome v) = Some 1
      \<and> (position EVALUATION_BUNDLES (ec_bundle v) = Some 0
          \<or> position EVALUATION_BUNDLES (ec_bundle v) = Some 1)
      \<and> (dget EVALUATION_REPORTS report = Some 0 \<or> dget EVALUATION_REPORTS report = Some 1)
      \<and> Evidence_Complete p"
    unfolding wl_evaluation_admissible_1 by blast
  finally show ?thesis unfolding named_categories by simp
qed

text \<open>The kernel's category and the runtime's name of it agree.\<close>

lemma facts_names:
  assumes "typed_facts f"
  shows "Status (observations_of f) = Pass_Status \<longleftrightarrow> ef_status f = u ''PASS''"
    and "Channel (observations_of f) = Accepted_Channel \<longleftrightarrow> ef_channel f = u ''ACCEPTED''"
    and "Source (observations_of f) = External \<longleftrightarrow> ef_source f = u ''external''"
    and "Source (observations_of f) = Agent \<longleftrightarrow> ef_source f = u ''agent''"
    and "Supervisor (observations_of f) = Supervised \<longleftrightarrow> ef_supervisor f = u ''SUPERVISED''"
  using assms
  by (auto simp: typed_facts_def observations_of_def evaluation_tables origins_def statuses_def
      channels_def supervisions_def split: if_splits)

text \<open>What an admissible classification says of the observed facts.\<close>

lemma admitted_facts:
  assumes "evaluation_classify f = Inr c" and "evaluation_admissible c report p = Inr True"
  shows "ef_status f = u ''PASS'' \<and> Evidence_Complete p
    \<and> (ef_source f = u ''external'' \<longrightarrow> ef_channel f = u ''ACCEPTED'' \<and> ef_exit_integer f)
    \<and> (ef_source f = u ''agent'' \<longrightarrow>
         ef_supervisor f = u ''SUPERVISED'' \<and> \<not> ef_supervisor_stopped f \<and> ef_exit_integer f)
    \<and> (ef_bundle_present f \<longrightarrow> ef_bundle_is_mapping f \<and> ef_bundle_stable f \<and> \<not> ef_bundle_changed f)"
proof -
  let ?o = "observations_of f"
  from assms(1) have t: "typed_facts f" and c: "c = names_of (Classify ?o)"
    by (simp_all add: evaluation_classify_Inr)
  from assms(2) have a: "ec_execution c = u ''COMPLETED''" "ec_outcome c = u ''PASS''"
      "ec_bundle c \<in> {u ''NOT_COVERED'', u ''VERIFIED''}" "Evidence_Complete p"
    by (simp_all add: evaluation_admissible_True)
  have "Execution (Classify ?o) = COMPLETED" using a(1) c
    by (cases "Execution (Classify ?o)") (simp_all add: names_of_def execution_name_def executions_def EVALUATION_EXECUTIONS_def)
  moreover have "Result (Classify ?o) = Passed" using a(2) c
    by (cases "Result (Classify ?o)") (simp_all add: names_of_def outcome_name_def outcomes_def EVALUATION_OUTCOMES_def)
  ultimately have k: "Status ?o = Pass_Status" "Source ?o = External \<longrightarrow> Channel ?o = Accepted_Channel \<and> Exit_Integer ?o"
      "Source ?o = Agent \<longrightarrow> Supervisor ?o = Supervised \<and> \<not> Supervisor_Stopped ?o \<and> Exit_Integer ?o"
    using Classify_passed [of ?o] by blast+
  have "Bundle (Classify ?o) \<in> {Not_Covered, Verified}" using a(3) c
    by (cases "Bundle (Classify ?o)") (simp_all add: names_of_def bundle_name_def bundles_def EVALUATION_BUNDLES_def)
  then have b: "ef_bundle_present f \<longrightarrow> ef_bundle_is_mapping f \<and> ef_bundle_stable f \<and> \<not> ef_bundle_changed f"
    by (auto simp: Classify_def Let_def Bundle_Of_def observations_of_def split: if_splits)
  show ?thesis
    using facts_names [OF t] k b a(4) by (simp add: observations_of_def)
qed

section \<open>Properties\<close>

text \<open>
  C7. The runtime authorizes a collapse exactly when the input is typed (known categories, 32-byte
  nonzero identities, 64-bit counters), the question is well posed for its phase and mode, the
  candidate is \<open>VALID\<close>, neither conflicts nor foreign writes were found by a measurement that was
  made, and every pair of identities is present on both sides and equal, with evidence that covers
  the staged bytes. Nothing else is answered \<open>AUTHORIZED\<close>.
\<close>
theorem collapse_authorized_iff:
  "collapse_decide v = Inr (u ''AUTHORIZED'') \<longleftrightarrow>
     typed_input v \<and> well_posed v \<and> All_Hold (request_of v)"
  by (rule collapse_decide_authorized)

text \<open>
  A check is admitted only on evidence that says so: when the classification of observed facts
  is admissible, the recorded status was \<open>PASS\<close>, the evidence is complete, an external examiner's
  record came through the accepted channel with an integer exit code, an agent's one came under
  supervision that was never stopped, and a bundle, when there is one, was stable and unchanged.
\<close>
theorem admitted_evidence:
  assumes "evaluation_classify f = Inr c" and "evaluation_admissible c report p = Inr True"
  shows "ef_status f = u ''PASS'' \<and> Evidence_Complete p
    \<and> (ef_source f = u ''external'' \<longrightarrow> ef_channel f = u ''ACCEPTED'' \<and> ef_exit_integer f)
    \<and> (ef_source f = u ''agent'' \<longrightarrow>
         ef_supervisor f = u ''SUPERVISED'' \<and> \<not> ef_supervisor_stopped f \<and> ef_exit_integer f)
    \<and> (ef_bundle_present f \<longrightarrow> ef_bundle_is_mapping f \<and> ef_bundle_stable f \<and> \<not> ef_bundle_changed f)"
  using admitted_facts [OF assms] .

definition sample_facts :: evaluation_facts where
  "sample_facts = \<lparr>ef_source = u ''external'', ef_status = u ''PASS'', ef_channel = u ''ACCEPTED'',
     ef_stage = u ''ABSENT'', ef_exit_present = True, ef_exit_integer = True,
     ef_supervisor = u ''ABSENT'', ef_supervisor_stopped = False, ef_bundle_present = True,
     ef_bundle_is_mapping = True, ef_bundle_stable = True, ef_bundle_changed = False,
     ef_unsatisfied_imports = False\<rparr>"

theorem admitted_evidence_witness:
  "ef_channel sample_facts = u ''ACCEPTED'' \<and> ef_bundle_stable sample_facts"
proof -
  let ?c = "\<lparr>ec_execution = u ''COMPLETED'', ec_outcome = u ''PASS'', ec_bundle = u ''VERIFIED''\<rparr>"
  let ?p = "\<lparr>Record_Identified = True, Verdict_Recorded = True, Binding_Established = True,
      Declaration_Matches = True, Bundle_Identified = True\<rparr>"
  have "evaluation_classify sample_facts = Inr ?c"
    by (simp add: evaluation_classify_def sample_facts_def evaluation_tables wl_evaluation_classify_def
        observations_consistent_def Classify_def Let_def Bundle_Of_def origins_def statuses_def
        channels_def stages_def supervisions_def executions_def outcomes_def bundles_def nth_name_def
        EVALUATION_EXECUTIONS_def EVALUATION_OUTCOMES_def EVALUATION_BUNDLES_def)
  moreover have "evaluation_admissible ?c (u ''NOT_APPLICABLE'') ?p = Inr True"
    by (simp add: evaluation_admissible_True Evidence_Complete_def)
  ultimately show ?thesis
    using admitted_evidence [of sample_facts ?c "u ''NOT_APPLICABLE''" ?p] by (simp add: sample_facts_def)
qed

end
