(* ===== verification/Resolution.thy ===== *)
theory Resolution
  imports PyValue
begin

text \<open>
  \<open>runtime/worldline/resolution.py\<close>: the one rule that turns a policy argv token into the object it
  names inside a managed root. The lemmas show what a caller may rely on: a token is a member only
  when it designates, lexically, a clean path strictly below the root it is attributed to, so two
  spellings of one object are one member and no spelling climbs out.
\<close>

section \<open>The rule\<close>

datatype token_class = Outside | Escape | Member pystr pystr

definition root_prefixes :: "(pystr \<times> pystr) list \<Rightarrow> (pystr \<times> pystr) list" where
  "root_prefixes roots =
     sort_key (\<lambda>(prefix, key). - int (length prefix))
       (map (\<lambda>(key, path). (rstrip_by (\<lambda>c. c = 47) path @ [47], key)) roots)"

fun resolve_absolute :: "pystr \<Rightarrow> (pystr \<times> pystr) list \<Rightarrow> token_class" where
  "resolve_absolute token [] = Outside"
| "resolve_absolute token ((prefix, key) # prefixes) =
     (if prefixed token prefix then
        let remainder = normpath 47 46 (dropWhile (\<lambda>c. c = 47) (drop (length prefix) token))
        in if remainder \<in> {u ''.'', []} \<or> prefixed remainder (u ''..'') \<or> prefixed remainder [47]
           then Escape else Member key remainder
      else if rstrip_by (\<lambda>c. c = 47) token @ [47] = prefix then Escape
      else resolve_absolute token prefixes)"

definition resolve_token ::
    "pystr \<Rightarrow> (pystr \<times> pystr) list \<Rightarrow> pystr option \<Rightarrow> pystr \<Rightarrow> token_class" where
  "resolve_token token prefixes primary_root_key cwd =
     (if token = [] \<or> prefixed token (u ''-'') then Outside
      else if prefixed token [47] then resolve_absolute token prefixes
      else case primary_root_key of
          None \<Rightarrow> Outside
        | Some key \<Rightarrow>
            let relative = normpath 47 46 (if cwd \<noteq> [] then path_join 47 cwd token else token)
            in if prefixed relative (u ''..'') \<or> prefixed relative [47] then Escape
               else Member key relative)"

section \<open>What a member is\<close>

text \<open>The lexical object a path names: its clean parts from the filesystem root.\<close>

definition object_of :: "pystr \<Rightarrow> pystr list" where
  "object_of p = norm_parts 46 True (split_on 47 p)"

definition clean_relative :: "pystr \<Rightarrow> bool" where
  "clean_relative r \<longleftrightarrow> (\<forall>p \<in> set (split_on 47 r). clean_part 46 p)"

lemma u_dots [simp]: "u ''.'' = [46]" "u ''..'' = [46, 46]"
  by (simp_all add: u_def)

lemma norm_parts_skip_blank: "norm_push dot ab [] acc = acc"
  by (simp add: norm_push_def)

lemma normpath_relative:
  assumes "\<not> prefixed p [47]" and "r = normpath 47 46 p"
    and "r \<notin> {[46], []}" and "\<not> prefixed r [46, 46]"
  shows "norm_parts 46 False (split_on 47 p) = split_on 47 r \<and> clean_relative r"
proof -
  have "p \<noteq> []" using assms by (auto simp: normpath_def)
  define ps where "ps = norm_parts 46 False (split_on 47 p)"
  have r: "r = (if join_on 47 ps = [] then [46] else join_on 47 ps)"
    using assms(1,2) \<open>p \<noteq> []\<close> by (simp add: normpath_def ps_def Let_def)
  then have r2: "r = join_on 47 ps" using assms(3) by (simp split: if_splits)
  obtain k ns where ns: "ps = replicate k [46, 46] @ ns"
      "\<forall>n \<in> set ns. clean_part 46 n \<and> n \<in> set (split_on 47 p)"
    using norm_parts_relative [of 46 "split_on 47 p"] by (auto simp: ps_def)
  have "k = 0"
  proof (rule ccontr)
    assume "k \<noteq> 0"
    then obtain qs where "ps = [46, 46] # qs" using ns(1) by (cases k) auto
    then have "prefixed r [46, 46]" by (cases qs) (auto simp: r2 prefixed_def)
    with assms(4) show False by simp
  qed
  with ns have clean: "\<forall>n \<in> set ps. clean_part 46 n \<and> 47 \<notin> set n"
    using split_on_no_sep [of _ 47 p] by auto
  have "ps \<noteq> []" using assms(3) r2 by auto
  then have "split_on 47 r = ps" using clean by (simp add: r2 split_join)
  then show ?thesis using clean by (simp add: ps_def clean_relative_def)
qed

lemma fold_norm_blanks:
  "fold (norm_push dot ab) (split_on c (dropWhile (\<lambda>x. x = c) xs)) acc
     = fold (norm_push dot ab) (split_on c xs) acc"
  by (induction xs) (auto simp: norm_parts_skip_blank)

lemma norm_absolute_clean: "\<forall>a \<in> set (norm_parts dot True cs). clean_part dot a"
proof -
  obtain k ns where "norm_parts dot False cs = replicate k (dotdot dot) @ ns"
      "\<forall>n \<in> set ns. clean_part dot n \<and> n \<in> set cs"
    using norm_parts_relative [of dot cs] by auto
  then show ?thesis
    using norm_fold_absolute [of "[]" dot cs k ns] by (simp add: norm_parts_def)
qed

lemma object_of_member:
  assumes "r = normpath 47 46 (dropWhile (\<lambda>c. c = 47) s)"
    and "r \<notin> {[46], []}" and "\<not> prefixed r [46, 46]"
  shows "object_of (p @ 47 # s) = object_of p @ split_on 47 r" and "clean_relative r"
proof -
  let ?d = "dropWhile (\<lambda>c. c = (47 :: nat)) s"
  have "\<not> prefixed ?d [47]"
  proof
    assume "prefixed ?d [47]"
    then obtain t where "?d = 47 # t" by (auto simp: prefixed_iff)
    with hd_dropWhile [of "\<lambda>c. c = 47" s] show False by auto
  qed
  then have n: "norm_parts 46 False (split_on 47 ?d) = split_on 47 r" and c: "clean_relative r"
    using normpath_relative [OF _ assms] by auto
  show "clean_relative r" by (rule c)
  have "object_of (p @ 47 # s)
      = fold (norm_push 46 True) (split_on 47 ?d) (norm_parts 46 True (split_on 47 p))"
    by (simp add: object_of_def norm_parts_def split_on_append fold_norm_blanks)
  also have "\<dots> = norm_parts 46 True (split_on 47 p) @ split_on 47 r"
    using norm_fold_absolute [OF norm_absolute_clean, of 46 "split_on 47 ?d" 0 "split_on 47 r"] n c
    by (simp add: clean_relative_def)
  finally show "object_of (p @ 47 # s) = object_of p @ split_on 47 r" by (simp add: object_of_def)
qed

lemma resolve_absolute_member:
  assumes "resolve_absolute token prefixes = Member key r"
    and "\<And>prefix key. (prefix, key) \<in> set prefixes \<Longrightarrow> \<exists>p. prefix = p @ [47]"
  shows "\<exists>p. (p @ [47], key) \<in> set prefixes \<and> clean_relative r
    \<and> object_of token = object_of p @ split_on 47 r"
  using assms
proof (induction token prefixes rule: resolve_absolute.induct)
  case (2 token prefix k prefixes)
  show ?case
  proof (cases "prefixed token prefix")
    case True
    obtain p where p: "prefix = p @ [47]" using "2.prems"(2) by (metis list.set_intros(1))
    then obtain s where s: "token = p @ 47 # s" using True by (auto simp: prefixed_iff)
    define rem where "rem = normpath 47 46 (dropWhile (\<lambda>c. c = (47 :: nat)) s)"
    have "key = k" "r = rem" "rem \<notin> {[46], []}" "\<not> prefixed rem [46, 46]"
      using "2.prems"(1) True p s by (auto simp: rem_def Let_def split: if_splits)
    then show ?thesis
      using object_of_member(1) [OF rem_def, of p] object_of_member(2) [OF rem_def] p s by auto
  next
    case False
    with "2.prems" have "resolve_absolute token prefixes = Member key r"
      by (simp split: if_splits)
    then show ?thesis using "2.IH" [OF False] False "2.prems" by (fastforce split: if_splits)
  qed
qed simp

lemma root_prefixes_mem:
  "(prefix, key) \<in> set (root_prefixes roots) \<longleftrightarrow>
     (\<exists>path. (key, path) \<in> set roots \<and> prefix = rstrip_by (\<lambda>c. c = 47) path @ [47])"
  by (force simp: root_prefixes_def)

lemma resolve_token_absolute_member:
  assumes "resolve_token token (root_prefixes roots) primary cwd = Member key r"
    and "prefixed token [47]"
  shows "\<exists>path. (key, path) \<in> set roots \<and> clean_relative r
    \<and> object_of token = object_of (rstrip_by (\<lambda>c. c = 47) path) @ split_on 47 r"
proof -
  have "resolve_absolute token (root_prefixes roots) = Member key r"
    using assms by (simp add: resolve_token_def split: if_splits)
  then have "\<exists>p. (p @ [47], key) \<in> set (root_prefixes roots) \<and> clean_relative r
      \<and> object_of token = object_of p @ split_on 47 r"
    by (rule resolve_absolute_member) (auto simp: root_prefixes_mem)
  then show ?thesis by (auto simp: root_prefixes_mem)
qed

lemma resolve_token_relative_member:
  assumes "resolve_token token prefixes (Some k) cwd = Member key r"
    and "\<not> prefixed token [47]"
  shows "key = k \<and> (r = [46] \<or> clean_relative r)"
proof -
  let ?p = "if cwd \<noteq> [] then path_join 47 cwd token else token"
  from assms have t: "token \<noteq> []" and r: "r = normpath 47 46 ?p" "key = k"
      "\<not> prefixed r [46, 46]" "\<not> prefixed r [47]"
    by (auto simp: resolve_token_def Let_def split: if_splits)
  have "?p \<noteq> []" using t by (auto simp: path_join_def)
  have np: "normpath 47 46 ?p \<noteq> []" by (auto simp: normpath_def Let_def)
  have "\<not> prefixed ?p [47]"
  proof
    assume "prefixed ?p [47]"
    then have "prefixed (normpath 47 46 ?p) [47]"
      using \<open>?p \<noteq> []\<close> by (auto simp: normpath_def Let_def prefixed_def)
    with r show False by simp
  qed
  then show ?thesis
    using normpath_relative [OF _ r(1)] r np by (cases "r = [46]") auto
qed

text \<open>A longer prefix is tried first, so the most specific root wins.\<close>

lemma root_prefixes_sorted:
  "sorted_wrt (\<lambda>p q. length (fst q) \<le> length (fst p)) (root_prefixes roots)"
proof -
  let ?f = "\<lambda>(prefix :: pystr, key :: pystr). - int (length prefix)"
  have "sorted (map ?f (root_prefixes roots))" by (simp add: root_prefixes_def)
  then have "sorted_wrt (\<lambda>p q. ?f p \<le> ?f q) (root_prefixes roots)"
    by (simp add: sorted_map)
  then show ?thesis by (rule sorted_wrt_mono_rel [rotated]) (auto split: prod.splits)
qed

section \<open>Properties\<close>

text \<open>
  A policy token that is taken for a member of a registered root designates an object strictly
  below that root, by a clean relative path: its parts are the root's parts followed by the parts of
  the path, with no empty, dot or dot-dot part. So no spelling of a token climbs out of the root it
  is attributed to, and two spellings of one object are one member.
\<close>
theorem member_token_inside:
  assumes "resolve_token token (root_prefixes roots) primary cwd = Member key r"
    and "prefixed token [47]"
  shows "\<exists>path. (key, path) \<in> set roots \<and> clean_relative r
    \<and> object_of token = object_of (rstrip_by (\<lambda>c. c = 47) path) @ split_on 47 r"
  using assms by (rule resolve_token_absolute_member)

theorem member_token_inside_witness:
  "\<exists>path. (u ''k'', path) \<in> set [(u ''k'', u ''/root'')] \<and> clean_relative (u ''gate.py'')
    \<and> object_of (u ''/root/.//x/../gate.py'')
        = object_of (rstrip_by (\<lambda>c. c = 47) path) @ split_on 47 (u ''gate.py'')"
  by (rule member_token_inside [where primary = None and cwd = "[]"])
    (simp_all add: u_def resolve_token_def root_prefixes_def prefixed_def normpath_def norm_parts_def
      norm_push_def rstrip_by_def)

end
