(* ===== verification/Model.thy ===== *)
theory Model
  imports CoreAbi
begin

text \<open>
  \<open>runtime/worldline/model.py\<close>: the world record, its names, its lifecycle steps and its identity.
  The clock (\<open>utc_now\<close>), the random identifier and the byte hash \<open>hb\<close> of the library are arguments.
  The lemmas show which names are accepted, that a step is taken exactly when the kernel allows it
  and stamps the end of a terminal world, and that an identity binds the parent and every component.
\<close>

section \<open>Names\<close>

definition TERMINAL_STATES :: "world_state set" where
  "TERMINAL_STATES = {VALID, DEGRADED, DEAD, ARCHIVED, COLLAPSED}"

definition NONTERMINAL_STATES :: "world_state set" where
  "NONTERMINAL_STATES = {MUTABLE, FINALIZING}"

definition validate_alias :: "pystr \<Rightarrow> pystr res" where
  "validate_alias name =
     rbind (ensure (\<not> (name = [] \<or> strip name \<noteq> name \<or> 47 \<in> set name \<or> 0 \<in> set name))
       (WL ''INVALID_ALIAS'')) (\<lambda>_.
     rbind (ensure (length name \<le> 128) (WL ''INVALID_ALIAS'')) (\<lambda>_.
     rbind (ensure (\<not> list_ex (\<lambda>c. c < 0x20 \<or> c = 0x7F) name) (WL ''INVALID_ALIAS'')) (\<lambda>_.
     Inr name)))"

definition validate_user_alias :: "pystr \<Rightarrow> pystr res" where
  "validate_user_alias name =
     rbind (validate_alias name) (\<lambda>_.
     rbind (ensure (\<not> (name = u ''PRIME'' \<or> prefixed name (u ''prime-''))) (WL ''RESERVED_ALIAS'')) (\<lambda>_.
     Inr name))"

definition alias_ok :: "pystr \<Rightarrow> bool" where
  "alias_ok a \<longleftrightarrow> a \<noteq> [] \<and> \<not> py_space (hd a) \<and> \<not> py_space (last a) \<and> length a \<le> 128
     \<and> (\<forall>c \<in> set a. c \<noteq> 47 \<and> 0x20 \<le> c \<and> c \<noteq> 0x7F)"

lemma validate_alias_Inr: "validate_alias a = Inr b \<longleftrightarrow> alias_ok a \<and> b = a"
  by (auto simp: validate_alias_def alias_ok_def strip_id_iff res_iffs list_ex_iff not_less)

lemma validate_user_alias_Inr:
  "validate_user_alias a = Inr b \<longleftrightarrow>
     alias_ok a \<and> a \<noteq> u ''PRIME'' \<and> \<not> prefixed a (u ''prime-'') \<and> b = a"
  by (auto simp: validate_user_alias_def res_iffs validate_alias_Inr)

section \<open>The world\<close>

text \<open>
  \<open>World\<close>. Strings keep their Python type, dictionaries and lists of JSON values are \<open>pyval\<close>, the
  component roots are a dictionary of strings.
\<close>

record world =
  w_instance_id :: pystr
  w_alias :: pystr
  w_parent_instance :: "pystr option"
  w_parent_content :: pystr
  w_cause :: pystr
  w_actor :: pystr
  w_born :: pystr
  w_ended :: "pystr option"
  w_state :: world_state
  w_components :: "(pystr \<times> pystr) list"
  w_content_id :: "pystr option"
  w_payload_path :: pystr
  w_mission_hash :: pystr
  w_agent_reference :: "pystr option"
  w_evidence :: pyval
  w_workspace :: pyval
  w_base_payload_path :: pystr
  w_base_root :: pystr
  w_root_set_hash :: pystr
  w_delta_hash :: "pystr option"
  w_delta :: pyval
  w_conflicts :: "pyval list"
  w_contamination :: "pyval list"
  w_world_kind :: pystr
  w_descendants :: int
  w_complexity :: pystr
  w_risk :: pystr
  w_payload_pruned :: bool
  w_pruned_at :: "pystr option"

record world_request =
  r_alias :: pystr
  r_parent_instance :: "pystr option"
  r_parent_content :: pystr
  r_cause :: pystr
  r_actor :: pystr
  r_payload_path :: pystr
  r_base_payload_path :: pystr
  r_base_root :: pystr
  r_root_set_hash :: pystr
  r_mission_hash :: pystr
  r_workspace :: "pyval option"
  r_world_kind :: pystr

definition create :: "pystr \<Rightarrow> pystr \<Rightarrow> world_request \<Rightarrow> world res" where
  "create uuid now r =
     rbind (validate_alias (r_alias r)) (\<lambda>_. Inr
       \<lparr>w_instance_id = uuid,
        w_alias = r_alias r,
        w_parent_instance = r_parent_instance r,
        w_parent_content = r_parent_content r,
        w_cause = r_cause r,
        w_actor = r_actor r,
        w_born = now,
        w_ended = None,
        w_state = MUTABLE,
        w_components = [],
        w_content_id = None,
        w_payload_path = r_payload_path r,
        w_mission_hash = r_mission_hash r,
        w_agent_reference = None,
        w_evidence = pdict [(u ''checks'', PList []), (u ''summary'', PStr (u ''UNASSESSED''))],
        w_workspace = (case r_workspace r of None \<Rightarrow> PDict []
                         | Some w \<Rightarrow> if truthy w then w else PDict []),
        w_base_payload_path = r_base_payload_path r,
        w_base_root = r_base_root r,
        w_root_set_hash = r_root_set_hash r,
        w_delta_hash = None,
        w_delta = pdict [(u ''files'', PList []), (u ''added'', PInt 0), (u ''modified'', PInt 0),
                         (u ''deleted'', PInt 0)],
        w_conflicts = [],
        w_contamination = [],
        w_world_kind = r_world_kind r,
        w_descendants = 0,
        w_complexity = u ''MEDIUM'',
        w_risk = u ''MEDIUM'',
        w_payload_pruned = False,
        w_pruned_at = None\<rparr>)"

definition transition :: "pystr \<Rightarrow> world_state \<Rightarrow> world \<Rightarrow> world res" where
  "transition now target w =
     rbind (transition_allowed (state_name (w_state w)) (state_name target)) (\<lambda>ok.
     rbind (ensure ok (WL ''INVALID_TRANSITION'')) (\<lambda>_.
     let w1 = w\<lparr>w_state := target\<rparr>
     in Inr (if target \<in> TERMINAL_STATES then w1\<lparr>w_ended := Some now\<rparr> else w1)))"

lemma transition_Inr:
  "transition now t w = Inr w' \<longleftrightarrow> Allowed (w_state w) t \<and>
     w' = w\<lparr>w_state := t, w_ended := if t \<in> TERMINAL_STATES then Some now else w_ended w\<rparr>"
  by (auto simp: transition_def transition_allowed_name res_iffs Let_def)

lemma transition_Inl:
  "transition now t w = Inl e \<longleftrightarrow> \<not> Allowed (w_state w) t \<and> e = WL ''INVALID_TRANSITION''"
  by (auto simp: transition_def transition_allowed_name res_iffs Let_def)

text \<open>A world that ended is terminal, and stays so under every later step.\<close>

definition ended_iff_terminal :: "world \<Rightarrow> bool" where
  "ended_iff_terminal w \<longleftrightarrow> (w_ended w \<noteq> None \<longleftrightarrow> w_state w \<in> TERMINAL_STATES)"

lemma create_ended: "create uuid now r = Inr w \<Longrightarrow> ended_iff_terminal w"
  by (auto simp: create_def res_iffs ended_iff_terminal_def TERMINAL_STATES_def)

lemma terminal_successor: "Allowed s t \<Longrightarrow> s \<in> TERMINAL_STATES \<Longrightarrow> t \<in> TERMINAL_STATES"
  by (cases s; cases t) (simp_all add: TERMINAL_STATES_def)

lemma transition_ended:
  "transition now t w = Inr w' \<Longrightarrow> ended_iff_terminal w \<Longrightarrow> ended_iff_terminal w'"
  by (auto simp: transition_Inr ended_iff_terminal_def dest: terminal_successor)

section \<open>Identity\<close>

definition identity_components :: "pystr list" where
  "identity_components = [u ''filesystem'', u ''config'', u ''repository'', u ''environment'', u ''evidence'']"

definition core_world_id ::
    "(bytes \<Rightarrow> bytes) \<Rightarrow> bytes list \<Rightarrow> bytes res" where
  "core_world_id hb parts =
     rbind (rmap (\<lambda>p. rbind (ensure (length p = 32) invalid_hash) (\<lambda>_. Inr p)) parts) (\<lambda>ps.
     Inr (world_identity hb (ps ! 0) (ps ! 1) (ps ! 2) (ps ! 3) (ps ! 4) (ps ! 5)))"

definition establish_identity :: "(bytes \<Rightarrow> bytes) \<Rightarrow> world \<Rightarrow> (world \<times> pystr) res" where
  "establish_identity hb w =
     rbind (ensure (list_all (\<lambda>name. name \<in> set (dkeys (w_components w))) identity_components)
       (WL ''INCOMPLETE_WORLD'')) (\<lambda>_.
     rbind (hash_bytes_from_id (w_parent_content w)) (\<lambda>parent.
     rbind (rmap (\<lambda>name. rbind (req KeyError (dget (w_components w) name)) hash_bytes_from_id)
       identity_components) (\<lambda>parts.
     rbind (core_world_id hb (parent # parts)) (\<lambda>digest.
     rbind (hash_id digest) (\<lambda>ident.
     Inr (w\<lparr>w_content_id := Some ident\<rparr>, ident))))))"

lemma establish_identity_Inr:
  assumes "establish_identity hb w = Inr (w', ident)"
  shows "w' = w\<lparr>w_content_id := Some ident\<rparr>"
    and "\<exists>parent parts. hash_bytes_from_id (w_parent_content w) = Inr parent
      \<and> list_all2 (\<lambda>name b. \<exists>s. dget (w_components w) name = Some s \<and> hash_bytes_from_id s = Inr b)
          identity_components parts
      \<and> hash_id (world_identity hb parent (parts ! 0) (parts ! 1) (parts ! 2) (parts ! 3) (parts ! 4))
          = Inr ident"
proof -
  from assms show "w' = w\<lparr>w_content_id := Some ident\<rparr>"
    by (auto simp: establish_identity_def res_iffs)
  from assms obtain parent parts digest where
    p: "hash_bytes_from_id (w_parent_content w) = Inr parent"
    and ps: "rmap (\<lambda>name. rbind (req KeyError (dget (w_components w) name)) hash_bytes_from_id)
       identity_components = Inr parts"
    and d: "core_world_id hb (parent # parts) = Inr digest" "hash_id digest = Inr ident"
    by (auto simp: establish_identity_def res_iffs)
  have "list_all2 (\<lambda>name b. \<exists>s. dget (w_components w) name = Some s \<and> hash_bytes_from_id s = Inr b)
      identity_components parts"
    using ps by (simp add: rmap_Inr_iff res_iffs)
  moreover have "digest = world_identity hb parent (parts ! 0) (parts ! 1) (parts ! 2) (parts ! 3) (parts ! 4)"
    using d(1) by (auto simp: core_world_id_def rbind_Inr_iff rmap_check)
  ultimately show "\<exists>parent parts. hash_bytes_from_id (w_parent_content w) = Inr parent
      \<and> list_all2 (\<lambda>name b. \<exists>s. dget (w_components w) name = Some s \<and> hash_bytes_from_id s = Inr b)
          identity_components parts
      \<and> hash_id (world_identity hb parent (parts ! 0) (parts ! 1) (parts ! 2) (parts ! 3) (parts ! 4))
          = Inr ident"
    using p d(2) by auto
qed

section \<open>Records and summaries\<close>

text \<open>\<open>{**d, k: v}\<close> on a dictionary of strings.\<close>

definition dict_with :: "pyval \<Rightarrow> (pystr \<times> pyval) list \<Rightarrow> pyval" where
  "dict_with d kvs = (case d of
      PDict items \<Rightarrow> PDict (fold (\<lambda>(k, v). dset (PStr k) v) kvs items)
    | _ \<Rightarrow> d)"

definition compact_delta :: "world \<Rightarrow> pyval res" where
  "compact_delta w =
     rbind (pget (w_delta w) (u ''files'') PNone) (\<lambda>files.
     Inr (case files of
        PList fs \<Rightarrow> if length fs \<le> 200 then w_delta w
          else dict_with (w_delta w) [(u ''files'', PList (take 200 fs)), (u ''truncated'', PBool True),
                 (u ''total'', PInt (int (length fs)))]
      | _ \<Rightarrow> w_delta w))"

definition of_kind :: "pystr \<Rightarrow> pyval list \<Rightarrow> pyval list res" where
  "of_kind k items =
     rbind (rmap (\<lambda>item. rbind (pget item (u ''kind'') PNone) (\<lambda>v. Inr (eq_str v k, item))) items)
       (\<lambda>ps. Inr (map snd (filter fst ps)))"

definition summary :: "world \<Rightarrow> pyval res" where
  "summary w =
     rbind (pget (w_evidence w) (u ''checks'') (PList [])) (\<lambda>checks.
     rbind (piter checks) (\<lambda>items.
     rbind (of_kind (u ''proofs'') items) (\<lambda>proofs.
     rbind (of_kind (u ''benchmark'') items) (\<lambda>benchmarks.
     rbind (compact_delta w) (\<lambda>delta.
     Inr (pdict [
       (u ''alias'', PStr (w_alias w)),
       (u ''id'', opt_str (w_content_id w)),
       (u ''instanceId'', PStr (w_instance_id w)),
       (u ''parent'', opt_str (w_parent_instance w)),
       (u ''parentId'', PStr (w_parent_content w)),
       (u ''agent'', PStr (w_actor w)),
       (u ''state'', PStr (state_name (w_state w))),
       (u ''delta'', delta),
       (u ''pruned'', PBool (w_payload_pruned w)),
       (u ''checks'', checks),
       (u ''proofs'', PList proofs),
       (u ''perf'', PList benchmarks),
       (u ''complexity'', PStr (w_complexity w)),
       (u ''risk'', PStr (w_risk w)),
       (u ''workspace'', w_workspace w),
       (u ''born'', PStr (w_born w)),
       (u ''ended'', opt_str (w_ended w)),
       (u ''cause'', PStr (w_cause w)),
       (u ''hash'', opt_str (w_content_id w)),
       (u ''descendants'', PInt (w_descendants w)),
       (u ''baseRoot'', PStr (w_base_root w)),
       (u ''rootSetHash'', PStr (w_root_set_hash w)),
       (u ''conflicts'', PList (w_conflicts w)),
       (u ''contamination'', PList (w_contamination w)),
       (u ''kind'', PStr (w_world_kind w))]))))))"

text \<open>\<open>World.record\<close>: the fields in declaration order, the state by its name.\<close>

definition world_record :: "world \<Rightarrow> pyval" where
  "world_record w = pdict [
     (u ''instance_id'', PStr (w_instance_id w)),
     (u ''alias'', PStr (w_alias w)),
     (u ''parent_instance'', opt_str (w_parent_instance w)),
     (u ''parent_content'', PStr (w_parent_content w)),
     (u ''cause'', PStr (w_cause w)),
     (u ''actor'', PStr (w_actor w)),
     (u ''born'', PStr (w_born w)),
     (u ''ended'', opt_str (w_ended w)),
     (u ''state'', PStr (state_name (w_state w))),
     (u ''components'', pdict (map (\<lambda>(k, v). (k, PStr v)) (w_components w))),
     (u ''content_id'', opt_str (w_content_id w)),
     (u ''payload_path'', PStr (w_payload_path w)),
     (u ''mission_hash'', PStr (w_mission_hash w)),
     (u ''agent_reference'', opt_str (w_agent_reference w)),
     (u ''evidence'', w_evidence w),
     (u ''workspace'', w_workspace w),
     (u ''base_payload_path'', PStr (w_base_payload_path w)),
     (u ''base_root'', PStr (w_base_root w)),
     (u ''root_set_hash'', PStr (w_root_set_hash w)),
     (u ''delta_hash'', opt_str (w_delta_hash w)),
     (u ''delta'', w_delta w),
     (u ''conflicts'', PList (w_conflicts w)),
     (u ''contamination'', PList (w_contamination w)),
     (u ''world_kind'', PStr (w_world_kind w)),
     (u ''descendants'', PInt (w_descendants w)),
     (u ''complexity'', PStr (w_complexity w)),
     (u ''risk'', PStr (w_risk w)),
     (u ''payload_pruned'', PBool (w_payload_pruned w)),
     (u ''pruned_at'', opt_str (w_pruned_at w))]"

text \<open>The published delta never lists more than 200 files, and says how many there are.\<close>

lemma compact_delta_bounded:
  assumes "compact_delta w = Inr d" and "pget (w_delta w) (u ''files'') PNone = Inr (PList fs)"
  shows "pget d (u ''files'') PNone = Inr (PList (take 200 fs))"
    and "length fs > 200 \<Longrightarrow> pget d (u ''total'') PNone = Inr (PInt (int (length fs)))
           \<and> pget d (u ''truncated'') PNone = Inr (PBool True)"
    and "k \<notin> {u ''files'', u ''total'', u ''truncated''} \<Longrightarrow> pget d k v = pget (w_delta w) k v"
proof -
  obtain items where i: "w_delta w = PDict items"
    using assms(2) by (auto simp: pget_def split: pyval.splits)
  have d: "d = (if length fs \<le> 200 then PDict items
      else dict_with (PDict items) [(u ''files'', PList (take 200 fs)), (u ''truncated'', PBool True),
                 (u ''total'', PInt (int (length fs)))])"
    using assms by (auto simp: compact_delta_def i)
  show "pget d (u ''files'') PNone = Inr (PList (take 200 fs))"
    using assms(2) by (simp add: d i dict_with_def pget_def dget_dset)
  show "length fs > 200 \<Longrightarrow> pget d (u ''total'') PNone = Inr (PInt (int (length fs)))
           \<and> pget d (u ''truncated'') PNone = Inr (PBool True)"
    by (simp add: d dict_with_def pget_def dget_dset)
  show "k \<notin> {u ''files'', u ''total'', u ''truncated''} \<Longrightarrow> pget d k v = pget (w_delta w) k v"
    by (simp add: d i dict_with_def pget_def dget_dset)
qed

lemma append_parts_eq:
  "length a = length b \<Longrightarrow> a @ c = b @ d \<longleftrightarrow> a = b \<and> c = d"
  by simp

lemma hash_values_length:
  assumes "list_all2 (\<lambda>name b. \<exists>s. dget cs name = Some s \<and> hash_bytes_from_id s = Inr b)
      identity_components parts"
  shows "length parts = 5" and "\<forall>p \<in> set parts. length p = 32"
    and "map (\<lambda>name. map_option hash_bytes_from_id (dget cs name)) identity_components
      = map (\<lambda>b. Some (Inr b)) parts"
proof -
  show "length parts = 5"
    using assms by (simp add: identity_components_def list_all2_lengthD [symmetric])
  show "\<forall>p \<in> set parts. length p = 32"
    using assms by (fastforce simp: list_all2_conv_all_nth in_set_conv_nth dest: hash_bytes_from_id_length)
  show "map (\<lambda>name. map_option hash_bytes_from_id (dget cs name)) identity_components
      = map (\<lambda>b. Some (Inr b)) parts"
    using assms by (force simp: list_all2_conv_all_nth intro: nth_equalityI)
qed

lemma length5: "length xs = 5 \<Longrightarrow> xs = [xs ! 0, xs ! 1, xs ! 2, xs ! 3, xs ! 4]"
  by (auto simp: numeral_eq_Suc length_Suc_conv)

lemma identity_binds:
  assumes v: "establish_identity hb v = Inr (v', i)" and w: "establish_identity hb w = Inr (w', i)"
  shows "(\<exists>x y. x \<noteq> y \<and> hb x = hb y) \<or>
    (hash_bytes_from_id (w_parent_content v) = hash_bytes_from_id (w_parent_content w) \<and>
     (\<forall>name \<in> set identity_components.
        map_option hash_bytes_from_id (dget (w_components v) name)
          = map_option hash_bytes_from_id (dget (w_components w) name)))"
proof -
  let ?W = "\<lambda>p (ps :: bytes list). world_identity hb p (ps ! 0) (ps ! 1) (ps ! 2) (ps ! 3) (ps ! 4)"
  from establish_identity_Inr(2) [OF v] obtain p ps where
    p: "hash_bytes_from_id (w_parent_content v) = Inr p" and pi: "hash_id (?W p ps) = Inr i"
    and ps: "list_all2 (\<lambda>name b. \<exists>s. dget (w_components v) name = Some s \<and> hash_bytes_from_id s = Inr b)
      identity_components ps" by blast
  from establish_identity_Inr(2) [OF w] obtain q qs where
    q: "hash_bytes_from_id (w_parent_content w) = Inr q" and qi: "hash_id (?W q qs) = Inr i"
    and qs: "list_all2 (\<lambda>name b. \<exists>s. dget (w_components w) name = Some s \<and> hash_bytes_from_id s = Inr b)
      identity_components qs" by blast
  note lp = hash_values_length [OF ps] and lq = hash_values_length [OF qs]
  have eq: "?W p ps = ?W q qs" using hash_id_inj [OF pi qi] .
  let ?m = "\<lambda>p (ps :: bytes list). world_domain @ p @ ps ! 0 @ ps ! 1 @ ps ! 2 @ ps ! 3 @ ps ! 4"
  show ?thesis
  proof (cases "?m p ps = ?m q qs")
    case False
    then show ?thesis using eq unfolding world_identity_def by blast
  next
    case True
    have len: "length p = 32" "length q = 32" using p q by (auto dest: hash_bytes_from_id_length)
    have nth: "length (ps ! k) = 32" "length (qs ! k) = 32" if "k < 5" for k
      using that lp(1,2) lq(1,2) by auto
    from True len nth have "p = q" "ps ! 0 = qs ! 0" "ps ! 1 = qs ! 1" "ps ! 2 = qs ! 2"
        "ps ! 3 = qs ! 3" "ps ! 4 = qs ! 4"
      by (simp_all add: append_parts_eq)
    then have "ps = qs" using length5 [OF lp(1)] length5 [OF lq(1)] by metis
    then have "map (\<lambda>name. map_option hash_bytes_from_id (dget (w_components v) name)) identity_components
        = map (\<lambda>name. map_option hash_bytes_from_id (dget (w_components w) name)) identity_components"
      using lp(3) lq(3) by simp
    then show ?thesis using p q \<open>p = q\<close> by (simp add: map_eq_conv)
  qed
qed

definition sample_world :: world where
  "sample_world = \<lparr>w_instance_id = u ''i'', w_alias = u ''fork'', w_parent_instance = None,
     w_parent_content = u ''sha256:'' @ concat (replicate 32 (u ''aa'')), w_cause = u ''fork'',
     w_actor = u ''agent'', w_born = u ''t'', w_ended = None, w_state = MUTABLE,
     w_components = map (\<lambda>k. (k, u ''sha256:'' @ concat (replicate 32 (u ''aa'')))) identity_components,
     w_content_id = None, w_payload_path = u ''/p'', w_mission_hash = u ''m'',
     w_agent_reference = None, w_evidence = PDict [], w_workspace = PDict [],
     w_base_payload_path = u ''/b'', w_base_root = u ''r'', w_root_set_hash = u ''s'',
     w_delta_hash = None, w_delta = PDict [], w_conflicts = [], w_contamination = [],
     w_world_kind = u ''computational'', w_descendants = 0, w_complexity = u ''LOW'',
     w_risk = u ''LOW'', w_payload_pruned = False, w_pruned_at = None\<rparr>"

definition constant_hash :: "bytes \<Rightarrow> bytes" where
  "constant_hash b = replicate 32 (CHR 0x41)"

lemma fromhex_ones: "fromhex (concat (replicate n (u ''11''))) = Some (replicate n (CHR 0x11))"
  by (induction n) (auto simp: u_def hex_value_def char_of_eq_iff take_bit_eq_mod)

section \<open>Properties\<close>

text \<open>
  The names an operator may give a world: nonempty, at most 128 code points, no blank at either
  end, no slash, no control character, and neither \<open>PRIME\<close> nor a \<open>prime-\<close> name, which only the
  runtime mints. Nothing else is refused and the name is returned unchanged.
\<close>
theorem user_alias_rule:
  "validate_user_alias a = Inr b \<longleftrightarrow>
     b = a \<and> a \<noteq> [] \<and> length a \<le> 128 \<and> \<not> py_space (hd a) \<and> \<not> py_space (last a)
     \<and> (\<forall>c \<in> set a. c \<noteq> 47 \<and> 0x20 \<le> c \<and> c \<noteq> 0x7F)
     \<and> a \<noteq> u ''PRIME'' \<and> \<not> prefixed a (u ''prime-'')"
  by (auto simp: validate_user_alias_Inr alias_ok_def)

theorem user_alias_rule_witness:
  "validate_user_alias (u ''fork 1'') = Inr (u ''fork 1'')"
  by (simp add: user_alias_rule u_def py_space_def prefixed_def)

text \<open>
  A world step is taken exactly when the kernel allows it, changes the state and nothing else
  but the end stamp, and keeps the rule that a world has ended exactly when its state is terminal.
\<close>
theorem world_transition:
  "transition now t w = (if Allowed (w_state w) t
      then Inr (w\<lparr>w_state := t, w_ended := if t \<in> TERMINAL_STATES then Some now else w_ended w\<rparr>)
      else Inl (WL ''INVALID_TRANSITION''))
   \<and> (\<forall>w'. transition now t w = Inr w' \<longrightarrow> ended_iff_terminal w \<longrightarrow> ended_iff_terminal w')"
  using transition_ended by (auto simp: transition_Inr transition_Inl)

theorem world_transition_witness:
  "ended_iff_terminal (sample_world\<lparr>w_state := DEAD, w_ended := Some (u ''now'')\<rparr>)"
proof -
  have "w_state sample_world = MUTABLE" "ended_iff_terminal sample_world"
    by (simp_all add: sample_world_def ended_iff_terminal_def TERMINAL_STATES_def)
  then show ?thesis
    using world_transition [of "u ''now''" DEAD sample_world] by (simp add: TERMINAL_STATES_def)
qed

text \<open>
  A content identity binds what it names: two worlds whose identities agree have the same parent
  identity and the same root of every component, or exhibit two different byte strings with one hash.
\<close>
theorem identity_binds_components:
  assumes "establish_identity hb v = Inr (v', i)" and "establish_identity hb w = Inr (w', i)"
  shows "(\<exists>x y. x \<noteq> y \<and> hb x = hb y) \<or>
    (hash_bytes_from_id (w_parent_content v) = hash_bytes_from_id (w_parent_content w) \<and>
     (\<forall>name \<in> set identity_components.
        map_option hash_bytes_from_id (dget (w_components v) name)
          = map_option hash_bytes_from_id (dget (w_components w) name)))"
  by (rule identity_binds [OF assms])

theorem identity_binds_components_witness:
  "\<exists>x y :: bytes. x \<noteq> y \<and> constant_hash x = constant_hash y"
proof -
  let ?v = "sample_world\<lparr>w_parent_content := u ''sha256:'' @ concat (replicate 32 (u ''11''))\<rparr>"
  have v: "hash_bytes_from_id (w_parent_content ?v) = Inr (replicate 32 (CHR 0x11))"
    by (simp add: hash_bytes_from_id_def fromhex_ones)
  have w: "hash_bytes_from_id (w_parent_content sample_world) = Inr (replicate 32 (CHR 0xAA))"
    by (simp add: sample_world_def hash_bytes_from_id_def fromhex_lower)
  have ident: "\<exists>w'. establish_identity constant_hash w = Inr (w', u ''sha256:'' @ hex_text (constant_hash []))"
    if "hash_bytes_from_id (w_parent_content w) = Inr b" "w_components w = w_components sample_world" for w b
    using that by (auto simp: establish_identity_def identity_components_def core_world_id_def hash_id_def
        world_identity_def sample_world_def hash_bytes_from_id_def fromhex_lower constant_hash_def res_iffs)
  obtain v' where a: "establish_identity constant_hash ?v = Inr (v', u ''sha256:'' @ hex_text (constant_hash []))"
    using ident [OF v] by auto
  obtain w' where
    b: "establish_identity constant_hash sample_world = Inr (w', u ''sha256:'' @ hex_text (constant_hash []))"
    using ident [OF w] by auto
  have "hash_bytes_from_id (w_parent_content ?v) \<noteq> hash_bytes_from_id (w_parent_content sample_world)"
    unfolding v w by (simp add: replicate_eq_replicate)
  then show ?thesis using identity_binds_components [OF a b] by (simp only: simp_thms)
qed

end
