(* ===== verification/Store.thy ===== *)
theory Store
  imports Model Canonical_Roundtrip
begin

text \<open>
  \<open>runtime/worldline/store.py\<close>: the SQLite tables as lists of rows in rowid order, the files the
  chains live in as a dictionary from path to bytes, and one definition per operation. A method that
  mutates the store is an action (\<open>store act\<close>): constraints of the schema are checked where SQLite
  checks them, \<open>atomically\<close> is the \<open>transaction\<close> context manager, \<open>now\<close> is \<open>utc_now()\<close>, \<open>hb\<close> the
  byte hash of the library.

  A lookup on several unique columns tries them in the order of the query, which is how SQLite
  answers an \<open>OR\<close> of indexed columns; the rows differ only if one world's alias is another's identity.
\<close>

section \<open>Tables\<close>

record root_row =
  rt_key :: pystr
  rt_path :: bytes
  rt_display_path :: pystr
  rt_kind :: pystr
  rt_device :: int
  rt_primary :: bool
  rt_generation :: "pystr option"
  rt_manifest_root :: "pystr option"
  rt_added_at :: pystr

record world_row =
  wr_instance_id :: pystr
  wr_alias :: pystr
  wr_parent_instance :: "pystr option"
  wr_parent_content :: pystr
  wr_cause :: pystr
  wr_actor :: pystr
  wr_born :: pystr
  wr_ended :: "pystr option"
  wr_state :: world_state
  wr_components :: bytes
  wr_content_id :: "pystr option"
  wr_payload_path :: pystr
  wr_mission_hash :: pystr
  wr_agent_reference :: "pystr option"
  wr_evidence :: bytes
  wr_workspace :: bytes
  wr_base_payload_path :: pystr
  wr_base_root :: pystr
  wr_root_set_hash :: pystr
  wr_delta_hash :: "pystr option"
  wr_delta :: bytes
  wr_conflicts :: bytes
  wr_contamination :: bytes
  wr_world_kind :: pystr
  wr_complexity :: pystr
  wr_risk :: pystr
  wr_payload_pruned :: bool
  wr_pruned_at :: "pystr option"

record job_row =
  jb_id :: pystr
  jb_world :: pystr
  jb_state :: pystr
  jb_unit :: "pystr option"
  jb_pid :: "int option"
  jb_started_at :: pystr
  jb_ended_at :: "pystr option"
  jb_error :: "bytes option"
  jb_raw_event_path :: pystr
  jb_sandbox :: bytes

record event_row =
  ev_id :: pystr
  ev_world :: pystr
  ev_ordinal :: nat
  ev_kind :: pystr
  ev_actor :: pyval
  ev_tool :: pyval
  ev_reason :: pyval
  ev_path_b64 :: pyval
  ev_path_display :: pyval
  ev_line_start :: pyval
  ev_line_end :: pyval
  ev_predecessor :: pystr
  ev_root :: pystr
  ev_chain :: pystr
  ev_path :: pystr
  ev_created_at :: pystr

record range_row =
  rg_world :: pystr
  rg_event :: pystr
  rg_root_key :: pystr
  rg_path_b64 :: pystr
  rg_path_display :: pystr
  rg_start :: int
  rg_end :: int
  rg_granularity :: pystr

record tx_row =
  tx_id :: pystr
  tx_kind :: pystr
  tx_state_name :: pystr
  tx_candidate :: pystr
  tx_prepared_path :: pystr
  tx_before_root :: pystr
  tx_base_root :: pystr
  tx_candidate_root :: pystr
  tx_delta_hash :: pystr
  tx_staged_root :: pystr
  tx_root_set_hash :: pystr
  tx_marker :: pystr
  tx_created_at :: pystr
  tx_committed_at :: "pystr option"
  tx_error :: "bytes option"

record receipt_row =
  rc_id :: pystr
  rc_previous :: "pystr option"
  rc_transaction :: pystr
  rc_root :: pystr
  rc_chain :: pystr
  rc_path :: pystr
  rc_created_at :: pystr

record store =
  st_version :: nat
  st_meta :: "(pystr \<times> bytes) list"
  st_roots :: "root_row list"
  st_worlds :: "world_row list"
  st_jobs :: "job_row list"
  st_events :: "event_row list"
  st_ranges :: "range_row list"
  st_txs :: "tx_row list"
  st_receipts :: "receipt_row list"
  st_files :: "(pystr \<times> bytes) list"
  st_events_dir :: pystr
  st_receipts_dir :: pystr

type_synonym 'a sact = "(store, 'a) act"

section \<open>Blobs, transactions, settings\<close>

definition json_blob :: "pyval \<Rightarrow> bytes res" where
  "json_blob v = canonical_bytes v"

text \<open>\<open>_json_load\<close>: \<open>json.loads\<close> of UTF-8 text; anything unreadable is a \<open>ValueError\<close>.\<close>

definition json_load :: "bytes option \<Rightarrow> pyval \<Rightarrow> pyval res" where
  "json_load value dflt = (case value of
       None \<Rightarrow> Inr dflt
     | Some b \<Rightarrow> rbind (req ValueError (utf8_decode b)) (\<lambda>s. req ValueError (loads s)))"

definition atomically :: "'a sact \<Rightarrow> 'a sact" where
  "atomically m s = (case m s of (Inl e, t) \<Rightarrow> (Inl e, s) | (Inr x, t) \<Rightarrow> (Inr x, t))"

definition not_found :: exc where
  "not_found = WL ''NOT_FOUND''"

definition set_meta :: "pystr \<Rightarrow> pyval \<Rightarrow> unit sact" where
  "set_meta key value =
     sbind (lift (json_blob value)) (\<lambda>payload.
     modify (\<lambda>s. s\<lparr>st_meta := dset key payload (st_meta s)\<rparr>))"

definition get_meta :: "pystr \<Rightarrow> pyval \<Rightarrow> pyval sact" where
  "get_meta key dflt =
     sbind (gets (\<lambda>s. dget (st_meta s) key)) (\<lambda>row.
     lift (json_load row dflt))"

text \<open>
  \<open>_create_schema\<close>: a newer store is refused, an older one is migrated one version at a time. The
  migration to version 2 adds the columns the row type already has.
\<close>

definition STORE_SCHEMA_VERSION :: nat where
  "STORE_SCHEMA_VERSION = 2"

definition migrate_step :: "pystr \<Rightarrow> nat \<Rightarrow> unit sact" where
  "migrate_step now version =
     sbind (modify (\<lambda>s. s\<lparr>st_version := version,
       st_worlds := (if version = 2
         then map (\<lambda>w. w\<lparr>wr_payload_pruned := False, wr_pruned_at := None\<rparr>) (st_worlds s)
         else st_worlds s)\<rparr>)) (\<lambda>_.
     sbind (get_meta (u ''schemaMigrations'') (PList [])) (\<lambda>history.
     sbind (lift (piter (if truthy history then history else PList []))) (\<lambda>items.
     set_meta (u ''schemaMigrations'')
       (PList (items @ [pdict [(u ''from'', PInt (int version - 1)), (u ''to'', PInt (int version)),
                               (u ''at'', PStr now)]])))))"

definition create_schema :: "pystr \<Rightarrow> unit sact" where
  "create_schema now =
     sbind (gets st_version) (\<lambda>current.
     sbind (sensure (current \<le> STORE_SCHEMA_VERSION) (WL ''UNSUPPORTED_SCHEMA'')) (\<lambda>_.
     sbind (if current = 0 then modify (\<lambda>s. s\<lparr>st_version := STORE_SCHEMA_VERSION\<rparr>)
            else smapM (migrate_step now) [current + 1 ..< STORE_SCHEMA_VERSION + 1]) (\<lambda>_.
     sbind (set_meta (u ''schemaVersion'') (PInt 1)) (\<lambda>_.
     sbind (set_meta (u ''storeSchemaVersion'') (PInt (int STORE_SCHEMA_VERSION))) (\<lambda>_.
     sbind (set_meta (u ''dirty'') (PBool False)) (\<lambda>_.
     set_meta (u ''inotifyGeneration'') (PInt 0)))))))"

section \<open>Roots\<close>

definition root_kinds :: "pystr list" where
  "root_kinds = [u ''repo'', u ''config'', u ''filesystem'']"

definition root_constraints :: "root_row \<Rightarrow> store \<Rightarrow> bool" where
  "root_constraints r s \<longleftrightarrow> rt_kind r \<in> set root_kinds
     \<and> rt_key r \<notin> set (map rt_key (st_roots s)) \<and> rt_path r \<notin> set (map rt_path (st_roots s))
     \<and> \<not> (rt_primary r \<and> list_ex rt_primary (st_roots s))"

definition add_root :: "root_row \<Rightarrow> unit sact" where
  "add_root r =
     sbind (gets (root_constraints r)) (\<lambda>ok.
     sbind (sensure ok (WL ''ROOT_CONFLICT'')) (\<lambda>_.
     modify (\<lambda>s. s\<lparr>st_roots := st_roots s @ [r]\<rparr>)))"

definition update_where :: "('a \<Rightarrow> bool) \<Rightarrow> ('a \<Rightarrow> 'a) \<Rightarrow> 'a list \<Rightarrow> 'a list" where
  "update_where P f rows = map (\<lambda>r. if P r then f r else r) rows"

definition update_root_generation :: "pystr \<Rightarrow> pystr \<Rightarrow> pystr \<Rightarrow> unit sact" where
  "update_root_generation key generation manifest_root =
     sbind (gets (\<lambda>s. list_ex (\<lambda>r. rt_key r = key) (st_roots s))) (\<lambda>found.
     sbind (modify (\<lambda>s. s\<lparr>st_roots := update_where (\<lambda>r. rt_key r = key)
         (\<lambda>r. r\<lparr>rt_generation := Some generation, rt_manifest_root := Some manifest_root\<rparr>)
         (st_roots s)\<rparr>)) (\<lambda>_.
     sensure found not_found))"

definition remove_root :: "pystr \<Rightarrow> unit sact" where
  "remove_root key =
     sbind (gets (\<lambda>s. list_ex (\<lambda>r. rt_key r = key) (st_roots s))) (\<lambda>found.
     sbind (modify (\<lambda>s. s\<lparr>st_roots := filter (\<lambda>r. rt_key r \<noteq> key) (st_roots s)\<rparr>)) (\<lambda>_.
     sensure found not_found))"

definition set_primary_root :: "pystr \<Rightarrow> unit sact" where
  "set_primary_root key = atomically (
     sbind (gets (\<lambda>s. list_ex (\<lambda>r. rt_key r = key) (st_roots s))) (\<lambda>found.
     sbind (sensure found not_found) (\<lambda>_.
     sbind (modify (\<lambda>s. s\<lparr>st_roots := update_where rt_primary (\<lambda>r. r\<lparr>rt_primary := False\<rparr>)
         (st_roots s)\<rparr>)) (\<lambda>_.
     modify (\<lambda>s. s\<lparr>st_roots := update_where (\<lambda>r. rt_key r = key) (\<lambda>r. r\<lparr>rt_primary := True\<rparr>)
         (st_roots s)\<rparr>)))))"

text \<open>\<open>ORDER BY primary_root DESC, path\<close>.\<close>

definition roots :: "store \<Rightarrow> root_row list" where
  "roots s = sort_key (\<lambda>r. (\<not> rt_primary r, rt_path r)) (st_roots s)"

definition root_by_path :: "bytes \<Rightarrow> store \<Rightarrow> root_row res" where
  "root_by_path path s = req not_found (List.find (\<lambda>r. rt_path r = path) (st_roots s))"

definition root :: "pystr \<Rightarrow> store \<Rightarrow> root_row res" where
  "root value s =
     req not_found (List.find (\<lambda>r. rt_key r = value \<or> rt_display_path r = value) (st_roots s))"

section \<open>Worlds\<close>

definition components_value :: "(pystr \<times> pystr) list \<Rightarrow> pyval" where
  "components_value cs = pdict (map (\<lambda>(k, v). (k, PStr v)) cs)"

text \<open>The annotation of \<open>components\<close> is \<open>dict[str, str]\<close>; a blob holding anything else is refused.\<close>

definition components_of :: "pyval \<Rightarrow> (pystr \<times> pystr) list res" where
  "components_of v = (case v of
       PDict kvs \<Rightarrow> rmap (\<lambda>(k, x). case (k, x) of (PStr a, PStr b) \<Rightarrow> Inr (a, b) | _ \<Rightarrow> Inl TypeError) kvs
     | _ \<Rightarrow> Inl TypeError)"

definition list_of :: "pyval \<Rightarrow> pyval list res" where
  "list_of v = (case v of PList xs \<Rightarrow> Inr xs | _ \<Rightarrow> Inl TypeError)"

text \<open>The row a world is written as; every JSON column must be canonical.\<close>

definition row_of_world :: "world \<Rightarrow> world_row res" where
  "row_of_world w =
     rbind (json_blob (components_value (w_components w))) (\<lambda>components.
     rbind (json_blob (w_evidence w)) (\<lambda>evidence.
     rbind (json_blob (w_workspace w)) (\<lambda>workspace.
     rbind (json_blob (w_delta w)) (\<lambda>delta.
     rbind (json_blob (PList (w_conflicts w))) (\<lambda>conflicts.
     rbind (json_blob (PList (w_contamination w))) (\<lambda>contamination.
     Inr \<lparr>wr_instance_id = w_instance_id w, wr_alias = w_alias w,
          wr_parent_instance = w_parent_instance w, wr_parent_content = w_parent_content w,
          wr_cause = w_cause w, wr_actor = w_actor w, wr_born = w_born w, wr_ended = w_ended w,
          wr_state = w_state w, wr_components = components, wr_content_id = w_content_id w,
          wr_payload_path = w_payload_path w, wr_mission_hash = w_mission_hash w,
          wr_agent_reference = w_agent_reference w, wr_evidence = evidence,
          wr_workspace = workspace, wr_base_payload_path = w_base_payload_path w,
          wr_base_root = w_base_root w, wr_root_set_hash = w_root_set_hash w,
          wr_delta_hash = w_delta_hash w, wr_delta = delta, wr_conflicts = conflicts,
          wr_contamination = contamination, wr_world_kind = w_world_kind w,
          wr_complexity = w_complexity w, wr_risk = w_risk w,
          wr_payload_pruned = w_payload_pruned w, wr_pruned_at = w_pruned_at w\<rparr>))))))"

definition world_from_row :: "world_row \<Rightarrow> world res" where
  "world_from_row r =
     rbind (rbind (json_load (Some (wr_components r)) (PDict [])) components_of) (\<lambda>components.
     rbind (json_load (Some (wr_evidence r)) (PDict [])) (\<lambda>evidence.
     rbind (json_load (Some (wr_workspace r)) (PDict [])) (\<lambda>workspace.
     rbind (json_load (Some (wr_delta r)) (PDict [])) (\<lambda>delta.
     rbind (rbind (json_load (Some (wr_conflicts r)) (PList [])) list_of) (\<lambda>conflicts.
     rbind (rbind (json_load (Some (wr_contamination r)) (PList [])) list_of) (\<lambda>contamination.
     Inr \<lparr>w_instance_id = wr_instance_id r, w_alias = wr_alias r,
          w_parent_instance = wr_parent_instance r, w_parent_content = wr_parent_content r,
          w_cause = wr_cause r, w_actor = wr_actor r, w_born = wr_born r, w_ended = wr_ended r,
          w_state = wr_state r, w_components = components, w_content_id = wr_content_id r,
          w_payload_path = wr_payload_path r, w_mission_hash = wr_mission_hash r,
          w_agent_reference = wr_agent_reference r, w_evidence = evidence,
          w_workspace = workspace, w_base_payload_path = wr_base_payload_path r,
          w_base_root = wr_base_root r, w_root_set_hash = wr_root_set_hash r,
          w_delta_hash = wr_delta_hash r, w_delta = delta, w_conflicts = conflicts,
          w_contamination = contamination, w_world_kind = wr_world_kind r, w_descendants = 0,
          w_complexity = wr_complexity r, w_risk = wr_risk r,
          w_payload_pruned = wr_payload_pruned r, w_pruned_at = wr_pruned_at r\<rparr>))))))"

definition levels :: "pystr list" where
  "levels = [u ''LOW'', u ''MEDIUM'', u ''HIGH'']"

text \<open>The constraints of a row against the other rows of its table.\<close>

definition world_constraints :: "world_row \<Rightarrow> world_row list \<Rightarrow> bool" where
  "world_constraints r others \<longleftrightarrow>
     wr_instance_id r \<notin> set (map wr_instance_id others)
     \<and> wr_alias r \<notin> set (map wr_alias others)
     \<and> (wr_content_id r \<noteq> None \<longrightarrow> wr_content_id r \<notin> set (map wr_content_id others))
     \<and> (case wr_parent_instance r of None \<Rightarrow> True
         | Some p \<Rightarrow> p = wr_instance_id r \<or> p \<in> set (map wr_instance_id others))
     \<and> wr_world_kind r \<in> {u ''computational'', u ''system''}
     \<and> wr_complexity r \<in> set levels \<and> wr_risk r \<in> set levels"

definition insert_world :: "world \<Rightarrow> unit sact" where
  "insert_world w =
     sbind (lift (row_of_world w)) (\<lambda>r.
     sbind (gets (\<lambda>s. world_constraints r (st_worlds s))) (\<lambda>ok.
     sbind (sensure ok (WL ''WORLD_CONFLICT'')) (\<lambda>_.
     modify (\<lambda>s. s\<lparr>st_worlds := st_worlds s @ [r]\<rparr>))))"

definition save_world :: "world \<Rightarrow> unit sact" where
  "save_world w =
     sbind (lift (row_of_world w)) (\<lambda>r.
     sbind (gets (\<lambda>s. (list_ex (\<lambda>x. wr_instance_id x = wr_instance_id r) (st_worlds s),
         world_constraints r (filter (\<lambda>x. wr_instance_id x \<noteq> wr_instance_id r) (st_worlds s)))))
       (\<lambda>(found, ok).
     sbind (sensure found not_found) (\<lambda>_.
     sbind (sensure ok IntegrityError) (\<lambda>_.
     modify (\<lambda>s. s\<lparr>st_worlds := update_where (\<lambda>x. wr_instance_id x = wr_instance_id r) (\<lambda>_. r)
         (st_worlds s)\<rparr>)))))"

text \<open>
  \<open>_descendant_counts\<close>: the recursive query joins one generation at a time. The fuel is the number
  of rows; no chain of parents is longer.
\<close>

fun descendants :: "nat \<Rightarrow> world_row list \<Rightarrow> (pystr \<times> pystr) list \<Rightarrow> (pystr \<times> pystr) list" where
  "descendants 0 rows frontier = []"
| "descendants (Suc n) rows frontier =
     frontier @ descendants n rows
       (concat (map (\<lambda>(ancestor, child).
          map (\<lambda>r. (ancestor, wr_instance_id r)) (filter (\<lambda>r. wr_parent_instance r = Some child) rows))
        frontier))"

definition parent_links :: "world_row list \<Rightarrow> (pystr \<times> pystr) list" where
  "parent_links rows =
     concat (map (\<lambda>r. case wr_parent_instance r of None \<Rightarrow> [] | Some p \<Rightarrow> [(p, wr_instance_id r)]) rows)"

definition descendant_count :: "pystr \<Rightarrow> store \<Rightarrow> int" where
  "descendant_count i s =
     int (length (filter (\<lambda>(ancestor, child). ancestor = i)
       (descendants (length (st_worlds s)) (st_worlds s) (parent_links (st_worlds s)))))"

definition world_lookup :: "pystr \<Rightarrow> world_row list \<Rightarrow> world_row option" where
  "world_lookup value rows =
     (case List.find (\<lambda>r. wr_instance_id r = value) rows of
        Some r \<Rightarrow> Some r
      | None \<Rightarrow> (case List.find (\<lambda>r. wr_alias r = value) rows of
          Some r \<Rightarrow> Some r
        | None \<Rightarrow> List.find (\<lambda>r. wr_content_id r = Some value) rows))"

definition world_get :: "pystr \<Rightarrow> store \<Rightarrow> world res" where
  "world_get value s =
     rbind (req not_found (world_lookup value (st_worlds s))) (\<lambda>r.
     rbind (world_from_row r) (\<lambda>w.
     Inr (w\<lparr>w_descendants := descendant_count (wr_instance_id r) s\<rparr>)))"

definition worlds :: "store \<Rightarrow> world list res" where
  "worlds s =
     rbind (rmap world_from_row
       (sort_key (\<lambda>r. (wr_born r, wr_instance_id r)) (st_worlds s))) (\<lambda>ws.
     Inr (map (\<lambda>w. w\<lparr>w_descendants := descendant_count (w_instance_id w) s\<rparr>) ws))"

definition nonterminal_worlds :: "store \<Rightarrow> world list res" where
  "nonterminal_worlds s = rmap world_from_row
     (sort_key wr_born (filter (\<lambda>r. wr_state r \<in> NONTERMINAL_STATES) (st_worlds s)))"

definition terminal_siblings :: "world \<Rightarrow> store \<Rightarrow> world list res" where
  "terminal_siblings w s = rmap world_from_row
     (sort_key wr_born (filter (\<lambda>r. wr_parent_instance r = w_parent_instance w
        \<and> wr_instance_id r \<noteq> w_instance_id w
        \<and> wr_state r \<in> {VALID, DEGRADED, DEAD, ARCHIVED, COLLAPSED}) (st_worlds s)))"

record lineage =
  ln_instance :: pystr
  ln_parent :: "pystr option"
  ln_parent_content :: pystr

definition lineage_link :: "pystr \<Rightarrow> store \<Rightarrow> lineage option" where
  "lineage_link i s = map_option
     (\<lambda>r. \<lparr>ln_instance = wr_instance_id r, ln_parent = wr_parent_instance r,
          ln_parent_content = wr_parent_content r\<rparr>)
     (List.find (\<lambda>r. wr_instance_id r = i) (st_worlds s))"

definition set_prime :: "pystr \<Rightarrow> pystr \<Rightarrow> pystr \<Rightarrow> unit sact" where
  "set_prime instance_id content_id generation_id = atomically (
     sbind (set_meta (u ''primeInstance'') (PStr instance_id)) (\<lambda>_.
     sbind (set_meta (u ''primeContent'') (PStr content_id)) (\<lambda>_.
     sbind (set_meta (u ''primeGeneration'') (PStr generation_id)) (\<lambda>_.
     set_meta (u ''dirty'') (PBool False)))))"

definition prime :: "world option sact" where
  "prime =
     sbind (get_meta (u ''primeInstance'') PNone) (\<lambda>i.
     if \<not> truthy i then ret None
     else sbind (gets (world_get (py_str i))) (\<lambda>r. sbind (lift r) (\<lambda>w. ret (Some w))))"

section \<open>Jobs\<close>

definition create_job ::
    "pystr \<Rightarrow> pystr \<Rightarrow> pystr \<Rightarrow> pystr \<Rightarrow> pystr \<Rightarrow> pyval \<Rightarrow> pystr option \<Rightarrow> int option \<Rightarrow> unit sact" where
  "create_job now job_id world_instance state raw_event_path sandbox unit_name pid =
     sbind (lift (json_blob sandbox)) (\<lambda>blob.
     sbind (gets (\<lambda>s. job_id \<notin> set (map jb_id (st_jobs s))
         \<and> world_instance \<in> set (map wr_instance_id (st_worlds s)))) (\<lambda>ok.
     sbind (sensure ok IntegrityError) (\<lambda>_.
     modify (\<lambda>s. s\<lparr>st_jobs := st_jobs s @
       [\<lparr>jb_id = job_id, jb_world = world_instance, jb_state = state, jb_unit = unit_name, jb_pid = pid,
         jb_started_at = now, jb_ended_at = None, jb_error = None, jb_raw_event_path = raw_event_path,
         jb_sandbox = blob\<rparr>]\<rparr>))))"

definition coalesce :: "'a option \<Rightarrow> 'a option \<Rightarrow> 'a option" where
  "coalesce a b = (case a of None \<Rightarrow> b | Some x \<Rightarrow> Some x)"

definition error_blob :: "pyval option \<Rightarrow> bytes option res" where
  "error_blob error = (case error of None \<Rightarrow> Inr None | Some e \<Rightarrow> rbind (json_blob e) (\<lambda>b. Inr (Some b)))"

definition update_job ::
    "pystr \<Rightarrow> pystr \<Rightarrow> pystr \<Rightarrow> pystr option \<Rightarrow> int option \<Rightarrow> pyval option \<Rightarrow> bool \<Rightarrow> unit sact" where
  "update_job now job_id state unit_name pid error ended =
     sbind (lift (error_blob error)) (\<lambda>blob.
     sbind (gets (\<lambda>s. job_id \<in> set (map jb_id (st_jobs s)))) (\<lambda>found.
     sbind (modify (\<lambda>s. s\<lparr>st_jobs := update_where (\<lambda>j. jb_id j = job_id)
       (\<lambda>j. j\<lparr>jb_state := state, jb_unit := coalesce unit_name (jb_unit j),
             jb_pid := coalesce pid (jb_pid j), jb_error := blob,
             jb_ended_at := (if ended then Some now else None)\<rparr>) (st_jobs s)\<rparr>)) (\<lambda>_.
     sensure found not_found)))"

definition jobs :: "store \<Rightarrow> (job_row \<times> pyval \<times> pyval) list res" where
  "jobs s = rmap (\<lambda>j.
       rbind (json_load (jb_error j) PNone) (\<lambda>error.
       rbind (json_load (Some (jb_sandbox j)) (PDict [])) (\<lambda>sandbox.
       Inr (j, error, sandbox))))
     (sort_key jb_started_at (st_jobs s))"

definition active_states :: "pystr set" where
  "active_states = {u ''STARTING'', u ''RUNNING'', u ''FINALIZING''}"

definition active_jobs_for_world :: "pystr \<Rightarrow> store \<Rightarrow> job_row list res" where
  "active_jobs_for_world i s =
     rbind (jobs s) (\<lambda>js.
     Inr (filter (\<lambda>j. jb_world j = i \<and> jb_state j \<in> active_states) (map fst js)))"

definition daemon_restart_error :: pyval where
  "daemon_restart_error = pdict [(u ''code'', PStr (u ''DAEMON_RESTART'')),
     (u ''message'', PStr (u ''job owner disappeared during daemon restart''))]"

definition sweep_reason :: "bool \<Rightarrow> pyval" where
  "sweep_reason had_job = pdict
     [(u ''code'', PStr (if had_job then u ''DAEMON_RESTART'' else u ''NO_SUPERVISING_JOB'')),
      (u ''message'', PStr (if had_job
         then u ''supervision was lost during a daemon restart before the world finalized''
         else u ''the world was created but no agent job ever supervised it''))]"

definition degrade_job :: "pystr \<Rightarrow> job_row \<Rightarrow> unit sact" where
  "degrade_job now row =
     sbind (lift (json_blob daemon_restart_error)) (\<lambda>error.
     modify (\<lambda>s. s\<lparr>st_jobs := update_where (\<lambda>j. jb_id j = jb_id row)
       (\<lambda>j. j\<lparr>jb_state := u ''DEGRADED'', jb_ended_at := Some now, jb_error := Some error\<rparr>)
       (st_jobs s)\<rparr>))"

definition sweep_jobs :: "pystr \<Rightarrow> nat sact" where
  "sweep_jobs now = atomically (
     sbind (gets (\<lambda>s. filter (\<lambda>j. jb_state j \<in> active_states) (st_jobs s))) (\<lambda>rows.
     sbind (smapM (degrade_job now) rows) (\<lambda>_.
     ret (length rows))))"

definition sweep_checks :: "pyval \<Rightarrow> pyval list res" where
  "sweep_checks evidence = (case evidence of
       PDict _ \<Rightarrow> rbind (pget evidence (u ''checks'') (PList [])) piter
     | _ \<Rightarrow> Inr [])"

definition sweep_world :: "pystr \<Rightarrow> world \<Rightarrow> unit sact" where
  "sweep_world now w =
     sbind (gets jobs) (\<lambda>r. sbind (lift r) (\<lambda>js.
     sbind (lift (sweep_checks (w_evidence w))) (\<lambda>checks.
     let had_job = list_ex (\<lambda>(j, _). jb_world j = w_instance_id w) js;
         w1 = w\<lparr>w_evidence := pdict [(u ''summary'', PStr (u ''FAIL'')), (u ''checks'', PList checks),
                  (u ''supervision'', sweep_reason had_job)]\<rparr>
     in sbind (lift (transition now DEAD w1)) save_world)))"

definition sweep_unsupervised :: "pystr \<Rightarrow> (nat \<times> nat) sact" where
  "sweep_unsupervised now =
     sbind (sweep_jobs now) (\<lambda>swept_jobs.
     sbind (gets nonterminal_worlds) (\<lambda>r. sbind (lift r) (\<lambda>ws.
     sbind (smapM (sweep_world now) ws) (\<lambda>_.
     ret (swept_jobs, length ws)))))"

section \<open>The causal chain\<close>

definition CHAIN_GENESIS :: bytes where
  "CHAIN_GENESIS = replicate 32 (CHR 0x00)"

definition core_link :: "((bytes \<Rightarrow> bytes) \<Rightarrow> bytes \<Rightarrow> bytes \<Rightarrow> bytes) \<Rightarrow> (bytes \<Rightarrow> bytes) \<Rightarrow> bytes \<Rightarrow> bytes \<Rightarrow> bytes res"
  where
  "core_link link hb previous root_hash =
     rbind (ensure (length previous = 32) invalid_hash) (\<lambda>_.
     rbind (ensure (length root_hash = 32) invalid_hash) (\<lambda>_.
     Inr (link hb previous root_hash)))"

definition chain_file :: "pystr \<Rightarrow> bytes \<Rightarrow> pystr" where
  "chain_file directory chain = directory @ 47 # hex_text chain @ u ''.json''"

definition event_root_of :: "(bytes \<Rightarrow> bytes) \<Rightarrow> bytes \<Rightarrow> bytes" where
  "event_root_of hb payload = hb (''worldline-event-v1'' @ payload)"

definition last_row :: "'a list \<Rightarrow> 'a option" where
  "last_row xs = (if xs = [] then None else Some (last xs))"

definition previous_chain :: "pystr option \<Rightarrow> bytes res" where
  "previous_chain row = (case row of None \<Rightarrow> Inr CHAIN_GENESIS | Some c \<Rightarrow> hash_bytes_from_id c)"

definition event_constraints :: "event_row \<Rightarrow> store \<Rightarrow> bool" where
  "event_constraints r s \<longleftrightarrow> ev_id r \<notin> set (map ev_id (st_events s))
     \<and> ev_chain r \<notin> set (map ev_chain (st_events s)) \<and> ev_path r \<notin> set (map ev_path (st_events s))
     \<and> (ev_world r, ev_ordinal r) \<notin> set (map (\<lambda>x. (ev_world x, ev_ordinal x)) (st_events s))
     \<and> ev_world r \<in> set (map wr_instance_id (st_worlds s))"

record chain_ids =
  ci_id :: pystr
  ci_root :: pystr
  ci_chain :: pystr

definition append_causal_event :: "(bytes \<Rightarrow> bytes) \<Rightarrow> pystr \<Rightarrow> pyval \<Rightarrow> chain_ids sact" where
  "append_causal_event hb now event =
     sbind (lift (pget event (u ''schemaVersion'') PNone)) (\<lambda>version.
     sbind (sensure (eq_int version 1) (WL ''INVALID_SCHEMA'')) (\<lambda>_.
     sbind (lift (pget event (u ''worldInstance'') (PStr []))) (\<lambda>wi.
     let world_instance = py_str wi in
     sbind (gets (world_get world_instance)) (\<lambda>r. sbind (lift r) (\<lambda>_.
     sbind (lift (canonical_bytes event)) (\<lambda>payload.
     let root_hash = event_root_of hb payload in
     sbind (gets (\<lambda>s. last_row (st_events s))) (\<lambda>previous_row.
     sbind (lift (previous_chain (map_option ev_chain previous_row))) (\<lambda>previous.
     sbind (lift (core_link causal_link hb previous root_hash)) (\<lambda>chain.
     sbind (lift (hash_id chain)) (\<lambda>event_id.
     sbind (gets (\<lambda>s. chain_file (st_events_dir s) chain)) (\<lambda>path.
     sbind (modify (\<lambda>s. s\<lparr>st_files := dset path payload (st_files s)\<rparr>)) (\<lambda>_.
     let ordinal = (case previous_row of None \<Rightarrow> 0 | Some p \<Rightarrow> ev_ordinal p + 1);
         get = (\<lambda>k. case pget event k PNone of Inr v \<Rightarrow> v | Inl _ \<Rightarrow> PNone)
     in
     sbind (lift (pget event (u ''kind'') (PStr (u ''event'')))) (\<lambda>kind.
     sbind (lift (hash_id previous)) (\<lambda>predecessor.
     sbind (lift (hash_id root_hash)) (\<lambda>event_root.
     let row = \<lparr>ev_id = event_id, ev_world = world_instance, ev_ordinal = ordinal,
         ev_kind = py_str kind, ev_actor = get (u ''actor''), ev_tool = get (u ''tool''),
         ev_reason = get (u ''reason''), ev_path_b64 = get (u ''pathB64''),
         ev_path_display = get (u ''pathDisplay''), ev_line_start = get (u ''lineStart''),
         ev_line_end = get (u ''lineEnd''), ev_predecessor = predecessor, ev_root = event_root,
         ev_chain = event_id, ev_path = path, ev_created_at = now\<rparr>
     in
     sbind (gets (event_constraints row)) (\<lambda>ok.
     sbind (sensure ok IntegrityError) (\<lambda>_.
     sbind (modify (\<lambda>s. s\<lparr>st_events := st_events s @ [row]\<rparr>)) (\<lambda>_.
     ret \<lparr>ci_id = event_id, ci_root = event_root, ci_chain = event_id\<rparr>))))))))))))))))))"

definition range_constraints :: "range_row \<Rightarrow> store \<Rightarrow> bool" where
  "range_constraints r s \<longleftrightarrow> rg_world r \<in> set (map wr_instance_id (st_worlds s))
     \<and> rg_event r \<in> set (map ev_id (st_events s))
     \<and> rg_granularity r \<in> {u ''line'', u ''file''} \<and> 0 < rg_start r \<and> rg_start r \<le> rg_end r"

definition add_line_ranges :: "range_row list \<Rightarrow> unit sact" where
  "add_line_ranges ranges = atomically (smapM (\<lambda>r.
     sbind (gets (range_constraints r)) (\<lambda>ok.
     sbind (sensure ok IntegrityError) (\<lambda>_.
     modify (\<lambda>s. s\<lparr>st_ranges := st_ranges s @ [r]\<rparr>)))) ranges)"

text \<open>The join of ranges and events on a path and line, newest event first.\<close>

definition line_events :: "pystr \<Rightarrow> pystr \<Rightarrow> int \<Rightarrow> store \<Rightarrow> (range_row \<times> event_row) list" where
  "line_events root_key path line s =
     sort_key (\<lambda>(r, e). - int (ev_ordinal e))
       (concat (map (\<lambda>r. map (Pair r) (filter (\<lambda>e. ev_id e = rg_event r) (st_events s)))
         (filter (\<lambda>r. rg_root_key r = root_key \<and> rg_path_b64 r = path
             \<and> rg_start r \<le> line \<and> line \<le> rg_end r) (st_ranges s))))"

definition newest_line_event :: "pystr \<Rightarrow> pystr \<Rightarrow> int \<Rightarrow> store \<Rightarrow> (range_row \<times> event_row) option" where
  "newest_line_event root_key path line s =
     (case line_events root_key path line s of [] \<Rightarrow> None | x # _ \<Rightarrow> Some x)"

definition read_json :: "pystr \<Rightarrow> store \<Rightarrow> pyval res" where
  "read_json path s =
     rbind (req OSError (dget (st_files s) path)) (\<lambda>b. json_load (Some b) PNone)"

definition causal_events_for_world :: "pystr \<Rightarrow> store \<Rightarrow> (event_row \<times> pyval) list res" where
  "causal_events_for_world i s =
     rmap (\<lambda>e. rbind (read_json (ev_path e) s) (\<lambda>v. Inr (e, v)))
       (sort_key ev_ordinal (filter (\<lambda>e. ev_world e = i) (st_events s)))"

section \<open>Transactions\<close>

definition tx_constraints :: "tx_row \<Rightarrow> store \<Rightarrow> bool" where
  "tx_constraints r s \<longleftrightarrow> tx_kind r \<in> {u ''collapse'', u ''return''}
     \<and> tx_state_name r \<in> set (dkeys TRANSACTION_STATE_CODES)
     \<and> tx_id r \<notin> set (map tx_id (st_txs s)) \<and> tx_prepared_path r \<notin> set (map tx_prepared_path (st_txs s))
     \<and> tx_candidate r \<in> set (map wr_instance_id (st_worlds s))"

text \<open>An absent staged root is stored as the literal \<open>absent\<close>.\<close>

definition create_transaction :: "tx_row \<Rightarrow> pystr option \<Rightarrow> unit sact" where
  "create_transaction r staged_root =
     (let row = r\<lparr>tx_staged_root := (case staged_root of None \<Rightarrow> u ''absent'' | Some x \<Rightarrow> x),
                 tx_committed_at := None, tx_error := None\<rparr> in
     sbind (gets (tx_constraints row)) (\<lambda>ok.
     sbind (sensure ok IntegrityError) (\<lambda>_.
     modify (\<lambda>s. s\<lparr>st_txs := st_txs s @ [row]\<rparr>))))"

definition update_transaction :: "pystr \<Rightarrow> pystr \<Rightarrow> pystr \<Rightarrow> pyval option \<Rightarrow> bool \<Rightarrow> unit sact" where
  "update_transaction now i state error committed =
     sbind (lift (error_blob error)) (\<lambda>blob.
     sbind (gets (\<lambda>s. i \<in> set (map tx_id (st_txs s)))) (\<lambda>found.
     sbind (sensure (\<not> found \<or> state \<in> set (dkeys TRANSACTION_STATE_CODES)) IntegrityError) (\<lambda>_.
     sbind (modify (\<lambda>s. s\<lparr>st_txs := update_where (\<lambda>t. tx_id t = i)
       (\<lambda>t. t\<lparr>tx_state_name := state, tx_error := blob,
             tx_committed_at := (if committed then Some now else None)\<rparr>) (st_txs s)\<rparr>)) (\<lambda>_.
     sensure found not_found))))"

definition transactions_in_state :: "pystr list \<Rightarrow> store \<Rightarrow> tx_row list" where
  "transactions_in_state states s =
     sort_key tx_created_at (filter (\<lambda>t. tx_state_name t \<in> set states) (st_txs s))"

definition transaction_record :: "pystr \<Rightarrow> store \<Rightarrow> (tx_row \<times> pyval) res" where
  "transaction_record i s =
     rbind (req not_found (List.find (\<lambda>t. tx_id t = i) (st_txs s))) (\<lambda>t.
     rbind (json_load (tx_error t) PNone) (\<lambda>error. Inr (t, error)))"

section \<open>The receipt chain\<close>

definition receipt_required :: "pystr list" where
  "receipt_required = [u ''schemaVersion'', u ''receiptId'', u ''previousReceipt'', u ''parentWorld'',
     u ''candidateWorld'', u ''baseState'', u ''candidateDelta'', u ''foreignWorldContamination'',
     u ''mergeSet'', u ''invariantPreservation'', u ''atomicCollapse'', u ''beforeRoot'', u ''afterRoot'',
     u ''transactionId'', u ''nonClaims'']"

definition receipt_optional :: "pystr list" where
  "receipt_optional = [u ''evidenceBinding'']"

definition receipt_fields_ok :: "pyval \<Rightarrow> bool" where
  "receipt_fields_ok receipt \<longleftrightarrow> (case receipt of
       PDict kvs \<Rightarrow> set (map PStr receipt_required) \<subseteq> set (map fst kvs)
         \<and> set (map fst kvs) \<subseteq> set (map PStr (receipt_required @ receipt_optional))
     | _ \<Rightarrow> False)"

definition receipt_root_of :: "(bytes \<Rightarrow> bytes) \<Rightarrow> bytes \<Rightarrow> bytes" where
  "receipt_root_of hb payload = hb (''worldline-receipt-record-v1'' @ payload)"

definition receipt_constraints :: "receipt_row \<Rightarrow> store \<Rightarrow> bool" where
  "receipt_constraints r s \<longleftrightarrow> rc_id r \<notin> set (map rc_id (st_receipts s))
     \<and> rc_transaction r \<notin> set (map rc_transaction (st_receipts s))
     \<and> rc_transaction r \<in> set (map tx_id (st_txs s))
     \<and> rc_chain r \<notin> set (map rc_chain (st_receipts s)) \<and> rc_path r \<notin> set (map rc_path (st_receipts s))"

definition text_item :: "pyval \<Rightarrow> pystr \<Rightarrow> pystr res" where
  "text_item d k = rbind (pitem d k) (\<lambda>v. case v of PStr s \<Rightarrow> Inr s | _ \<Rightarrow> Inl TypeError)"

definition append_receipt :: "(bytes \<Rightarrow> bytes) \<Rightarrow> pystr \<Rightarrow> pyval \<Rightarrow> (pystr \<times> pystr) sact" where
  "append_receipt hb now receipt =
     sbind (lift (pget receipt (u ''schemaVersion'') PNone)) (\<lambda>version.
     sbind (sensure (eq_int version 1) (WL ''INVALID_SCHEMA'')) (\<lambda>_.
     sbind (sensure (receipt_fields_ok receipt) (WL ''INVALID_RECEIPT'')) (\<lambda>_.
     sbind (lift (canonical_bytes receipt)) (\<lambda>payload.
     let root_hash = receipt_root_of hb payload in
     sbind (gets (\<lambda>s. last_row (st_receipts s))) (\<lambda>previous_row.
     sbind (lift (pitem receipt (u ''previousReceipt''))) (\<lambda>named.
     sbind (sensure (named = opt_str (map_option rc_id previous_row))
       (WL ''RECEIPT_PREDECESSOR_MISMATCH'')) (\<lambda>_.
     sbind (lift (previous_chain (map_option rc_chain previous_row))) (\<lambda>previous.
     sbind (lift (core_link receipt_link hb previous root_hash)) (\<lambda>chain.
     sbind (gets (\<lambda>s. chain_file (st_receipts_dir s) chain)) (\<lambda>path.
     sbind (modify (\<lambda>s. s\<lparr>st_files := dset path payload (st_files s)\<rparr>)) (\<lambda>_.
     sbind (lift (text_item receipt (u ''receiptId''))) (\<lambda>receipt_id.
     sbind (lift (text_item receipt (u ''transactionId''))) (\<lambda>transaction_id.
     sbind (lift (hash_id root_hash)) (\<lambda>root_text.
     sbind (lift (hash_id chain)) (\<lambda>chain_text.
     let row = \<lparr>rc_id = receipt_id, rc_previous = map_option rc_id previous_row,
         rc_transaction = transaction_id, rc_root = root_text, rc_chain = chain_text,
         rc_path = path, rc_created_at = now\<rparr>
     in
     sbind (gets (receipt_constraints row)) (\<lambda>ok.
     sbind (sensure ok IntegrityError) (\<lambda>_.
     sbind (modify (\<lambda>s. s\<lparr>st_receipts := st_receipts s @ [row]\<rparr>)) (\<lambda>_.
     ret (root_text, chain_text)))))))))))))))))))"

definition receipts :: "store \<Rightarrow> receipt_row list" where
  "receipts s = st_receipts s"

definition receipt_for_transaction :: "pystr \<Rightarrow> store \<Rightarrow> (receipt_row \<times> pyval) option res" where
  "receipt_for_transaction i s =
     (case List.find (\<lambda>r. rc_transaction r = i) (st_receipts s) of
        None \<Rightarrow> Inr None
      | Some r \<Rightarrow> rbind (read_json (rc_path r) s) (\<lambda>v. Inr (Some (r, v))))"

fun first_receipt_for :: "pystr \<Rightarrow> store \<Rightarrow> receipt_row list \<Rightarrow> (receipt_row \<times> pyval) option res" where
  "first_receipt_for content s [] = Inr None"
| "first_receipt_for content s (r # rs) =
     rbind (read_json (rc_path r) s) (\<lambda>v.
     rbind (pget v (u ''candidateWorld'') PNone) (\<lambda>c.
     if c = PStr content then Inr (Some (r, v)) else first_receipt_for content s rs))"

definition receipt_for_candidate :: "pystr \<Rightarrow> store \<Rightarrow> (receipt_row \<times> pyval) option res" where
  "receipt_for_candidate content s = first_receipt_for content s (rev (receipts s))"

definition last_receipt :: "store \<Rightarrow> (receipt_row \<times> pyval) option res" where
  "last_receipt s = (case last_row (st_receipts s) of
       None \<Rightarrow> Inr None
     | Some r \<Rightarrow> rbind (read_json (rc_path r) s) (\<lambda>v. Inr (Some (r, v))))"

section \<open>Verification\<close>

fun verify_events :: "(bytes \<Rightarrow> bytes) \<Rightarrow> (pystr \<times> bytes) list \<Rightarrow> bytes \<Rightarrow> event_row list \<Rightarrow> nat res" where
  "verify_events hb files previous [] = Inr 0"
| "verify_events hb files previous (r # rs) =
     rbind (req OSError (dget files (ev_path r))) (\<lambda>payload.
     let root_hash = event_root_of hb payload in
     rbind (core_link causal_link hb previous root_hash) (\<lambda>chain.
     rbind (hash_id previous) (\<lambda>p. rbind (hash_id root_hash) (\<lambda>t. rbind (hash_id chain) (\<lambda>c.
     rbind (ensure (p = ev_predecessor r \<and> t = ev_root r \<and> c = ev_chain r)
       (WL ''CAUSAL_CHAIN_INVALID'')) (\<lambda>_.
     rbind (verify_events hb files chain rs) (\<lambda>n. Inr (Suc n))))))))"

fun verify_receipts ::
    "(bytes \<Rightarrow> bytes) \<Rightarrow> (pystr \<times> bytes) list \<Rightarrow> bytes \<Rightarrow> pystr option \<Rightarrow> receipt_row list \<Rightarrow> nat res" where
  "verify_receipts hb files previous previous_receipt [] = Inr 0"
| "verify_receipts hb files previous previous_receipt (r # rs) =
     rbind (req OSError (dget files (rc_path r))) (\<lambda>payload.
     rbind (json_load (Some payload) PNone) (\<lambda>receipt.
     rbind (pget receipt (u ''previousReceipt'') PNone) (\<lambda>named.
     rbind (ensure (named = opt_str previous_receipt) (WL ''RECEIPT_CHAIN_INVALID'')) (\<lambda>_.
     let root_hash = receipt_root_of hb payload in
     rbind (core_link receipt_link hb previous root_hash) (\<lambda>chain.
     rbind (hash_id root_hash) (\<lambda>t. rbind (hash_id chain) (\<lambda>c.
     rbind (ensure (t = rc_root r \<and> c = rc_chain r) (WL ''RECEIPT_CHAIN_INVALID'')) (\<lambda>_.
     rbind (verify_receipts hb files chain (Some (rc_id r)) rs) (\<lambda>n. Inr (Suc n))))))))))"

definition verify_chains :: "(bytes \<Rightarrow> bytes) \<Rightarrow> store \<Rightarrow> (nat \<times> nat) res" where
  "verify_chains hb s =
     rbind (verify_events hb (st_files s) CHAIN_GENESIS (st_events s)) (\<lambda>n.
     rbind (verify_receipts hb (st_files s) CHAIN_GENESIS None (st_receipts s)) (\<lambda>m. Inr (n, m)))"

end
