(* ===== verification/Store_Chains.thy ===== *)
theory Store_Chains
  imports Store
begin

text \<open>
  The two hash chains of the store. \<open>hash_chain\<close> is the interface of a chain: a link over two digests
  and a root of a payload, binding up to a collision of the hash. Both chains are its instances. The
  lemmas show that appending keeps a verified chain verified, and that two stores whose chains verify
  with the same number of rows and the same last link hold the same payloads.
\<close>

section \<open>Hash chains\<close>

definition collides :: "(bytes \<Rightarrow> bytes) \<Rightarrow> bool" where
  "collides hb \<longleftrightarrow> (\<exists>x y. x \<noteq> y \<and> hb x = hb y)"

locale hash_chain =
  fixes link :: "bytes \<Rightarrow> bytes \<Rightarrow> bytes" and root_of :: "bytes \<Rightarrow> bytes" and collision :: bool
  assumes link_binds:
      "length p = 32 \<Longrightarrow> length q = 32 \<Longrightarrow> link p a = link q b \<Longrightarrow> collision \<or> (p = q \<and> a = b)"
    and root_binds: "root_of x = root_of y \<Longrightarrow> collision \<or> x = y"
begin

fun head :: "bytes \<Rightarrow> bytes list \<Rightarrow> bytes" where
  "head p [] = p"
| "head p (x # xs) = head (link p (root_of x)) xs"

fun wide :: "bytes \<Rightarrow> bytes list \<Rightarrow> bool" where
  "wide p [] \<longleftrightarrow> length p = 32"
| "wide p (x # xs) \<longleftrightarrow> length p = 32 \<and> wide (link p (root_of x)) xs"

lemma wide_length: "wide p xs \<Longrightarrow> length p = 32"
  by (cases xs) auto

lemma head_binds:
  "wide p xs \<Longrightarrow> wide q ys \<Longrightarrow> length xs = length ys \<Longrightarrow> head p xs = head q ys
     \<Longrightarrow> collision \<or> (p = q \<and> xs = ys)"
proof (induction p xs arbitrary: q ys rule: head.induct)
  case (1 p)
  then show ?case by auto
next
  case (2 p x xs)
  then obtain y ys' where ys: "ys = y # ys'" by (cases ys) auto
  with 2 have "collision \<or> (link p (root_of x) = link q (root_of y) \<and> xs = ys')" by simp
  then show ?case using 2 ys link_binds root_binds by (metis wide.simps(2))
qed

lemma head_append: "head p (xs @ ys) = head (head p xs) ys"
  by (induction p xs rule: head.induct) auto

end

lemma tagged_hash_binds: "hb (t @ x) = hb (t @ y) \<Longrightarrow> collides hb \<or> x = y"
  unfolding collides_def by (metis same_append_eq)

lemma linked_hash_binds:
  "length p = 32 \<Longrightarrow> length q = 32 \<Longrightarrow> hb (t @ p @ a) = hb (t @ q @ b) \<Longrightarrow> collides hb \<or> (p = q \<and> a = b)"
  unfolding collides_def by (metis append_eq_append_conv same_append_eq)

interpretation causal: hash_chain "causal_link hb" "event_root_of hb" "collides hb" for hb
  by unfold_locales (unfold causal_link_def event_root_of_def, rule linked_hash_binds tagged_hash_binds; assumption)+

interpretation receipt: hash_chain "receipt_link hb" "receipt_root_of hb" "collides hb" for hb
  by unfold_locales (unfold receipt_link_def receipt_root_of_def, rule linked_hash_binds tagged_hash_binds; assumption)+

lemma core_link_Inr:
  "core_link link hb p r = Inr c \<longleftrightarrow> length p = 32 \<and> length r = 32 \<and> c = link hb p r"
  by (auto simp: core_link_def res_iffs)

section \<open>What a verified chain says\<close>

text \<open>The last link a verified prefix ends in; the rest of the chain is verified from it.\<close>

definition ends_in :: "bytes \<Rightarrow> pystr option \<Rightarrow> bytes \<Rightarrow> bool" where
  "ends_in p last_chain q \<longleftrightarrow> length q = 32 \<and>
     (case last_chain of None \<Rightarrow> q = p | Some c \<Rightarrow> hash_id q = Inr c)"

lemma ends_in_previous: "ends_in CHAIN_GENESIS c q \<Longrightarrow> previous_chain c = Inr q"
  by (auto simp: ends_in_def previous_chain_def hash_bytes_from_hash_id split: option.splits)

lemma last_row_Cons: "last_row (x # xs) = Some (case last_row xs of None \<Rightarrow> x | Some y \<Rightarrow> y)"
  by (simp add: last_row_def)

lemma verify_events_split:
  assumes "verify_events hb files p rs = Inr n" and "length p = 32"
  shows "n = length rs \<and> (\<exists>xs q. map (\<lambda>r. dget files (ev_path r)) rs = map Some xs
     \<and> causal.wide hb p xs \<and> q = causal.head hb p xs
     \<and> ends_in p (map_option ev_chain (last_row rs)) q
     \<and> (\<forall>rs'. verify_events hb files p (rs @ rs')
          = rbind (verify_events hb files q rs') (\<lambda>k. Inr (n + k))))"
  using assms
proof (induction hb files p rs arbitrary: n rule: verify_events.induct)
  case (1 hb files p)
  have "verify_events hb files p rs' = rbind (verify_events hb files p rs') (\<lambda>k. Inr (0 + k))" for rs'
    by (cases "verify_events hb files p rs'") auto
  then show ?case using 1 by (auto simp: ends_in_def last_row_def intro!: exI [of _ "[]"])
next
  case (2 hb files p r rs)
  from "2.prems"(1) obtain x c m where x: "dget files (ev_path r) = Some x"
    and c: "core_link causal_link hb p (event_root_of hb x) = Inr c" "hash_id c = Inr (ev_chain r)"
    and ids: "hash_id p = Inr (ev_predecessor r)" "hash_id (event_root_of hb x) = Inr (ev_root r)"
    and m: "verify_events hb files c rs = Inr m" "n = Suc m"
    by (auto simp: Let_def res_iffs)
  have lc: "length c = 32" using c(2) by (simp add: hash_id_Inr)
  have cl: "c = causal_link hb p (event_root_of hb x)" using c(1) by (simp add: core_link_Inr)
  from "2.IH" [OF refl m(1) lc] obtain xs q where IH: "m = length rs"
      "map (\<lambda>r. dget files (ev_path r)) rs = map Some xs" "causal.wide hb c xs"
      "q = causal.head hb c xs" "ends_in c (map_option ev_chain (last_row rs)) q"
      "\<forall>rs'. verify_events hb files c (rs @ rs') = rbind (verify_events hb files q rs') (\<lambda>k. Inr (m + k))"
    by (auto simp: Let_def)
  have "ends_in p (map_option ev_chain (last_row (r # rs))) q"
    using IH(5) c(2) lc by (auto simp: ends_in_def last_row_Cons split: option.splits)
  moreover have "verify_events hb files p ((r # rs) @ rs')
      = rbind (verify_events hb files q rs') (\<lambda>k. Inr (n + k))" for rs'
    using x c ids IH(6) m(2) by (cases "verify_events hb files q rs'") (auto simp: Let_def)
  ultimately show ?case
    using x IH cl "2.prems"(2) m(2) by (intro conjI exI [of _ "x # xs"] exI [of _ q]) auto
qed

lemma verify_receipts_split:
  assumes "verify_receipts hb files p prev rs = Inr n" and "length p = 32"
  shows "n = length rs \<and> (\<exists>xs q. map (\<lambda>r. dget files (rc_path r)) rs = map Some xs
     \<and> receipt.wide hb p xs \<and> q = receipt.head hb p xs
     \<and> ends_in p (map_option rc_chain (last_row rs)) q
     \<and> (\<forall>rs'. verify_receipts hb files p prev (rs @ rs')
          = rbind (verify_receipts hb files q
              (case last_row rs of None \<Rightarrow> prev | Some r \<Rightarrow> Some (rc_id r)) rs') (\<lambda>k. Inr (n + k))))"
  using assms
proof (induction hb files p prev rs arbitrary: n rule: verify_receipts.induct)
  case (1 hb files p prev)
  have "verify_receipts hb files p prev rs' = rbind (verify_receipts hb files p prev rs') (\<lambda>k. Inr (0 + k))" for rs'
    by (cases "verify_receipts hb files p prev rs'") auto
  then show ?case using 1 by (auto simp: ends_in_def last_row_def intro!: exI [of _ "[]"])
next
  case (2 hb files p prev r rs)
  from "2.prems"(1) obtain x v c m where x: "dget files (rc_path r) = Some x"
    and v: "json_load (Some x) PNone = Inr v" "pget v (u ''previousReceipt'') PNone = Inr (opt_str prev)"
    and c: "core_link receipt_link hb p (receipt_root_of hb x) = Inr c" "hash_id c = Inr (rc_chain r)"
    and ids: "hash_id (receipt_root_of hb x) = Inr (rc_root r)"
    and m: "verify_receipts hb files c (Some (rc_id r)) rs = Inr m" "n = Suc m"
    by (auto simp: Let_def res_iffs)
  have lc: "length c = 32" using c(2) by (simp add: hash_id_Inr)
  have cl: "c = receipt_link hb p (receipt_root_of hb x)" using c(1) by (simp add: core_link_Inr)
  from "2.IH" [OF refl m(1) lc] obtain xs q where IH: "m = length rs"
      "map (\<lambda>r. dget files (rc_path r)) rs = map Some xs" "receipt.wide hb c xs"
      "q = receipt.head hb c xs" "ends_in c (map_option rc_chain (last_row rs)) q"
      "\<forall>rs'. verify_receipts hb files c (Some (rc_id r)) (rs @ rs')
         = rbind (verify_receipts hb files q
             (case last_row rs of None \<Rightarrow> Some (rc_id r) | Some r \<Rightarrow> Some (rc_id r)) rs')
             (\<lambda>k. Inr (m + k))"
    by (auto simp: Let_def)
  have "ends_in p (map_option rc_chain (last_row (r # rs))) q"
    using IH(5) c(2) lc by (auto simp: ends_in_def last_row_Cons split: option.splits)
  moreover have "verify_receipts hb files p prev ((r # rs) @ rs')
      = rbind (verify_receipts hb files q
          (case last_row (r # rs) of None \<Rightarrow> prev | Some r \<Rightarrow> Some (rc_id r)) rs') (\<lambda>k. Inr (n + k))" for rs'
    using x v c ids IH(6) m(2)
    by (cases "last_row rs") (auto simp: Let_def last_row_Cons rbind_def split: sum.splits)
  ultimately show ?case
    using x IH cl "2.prems"(2) m(2) by (intro conjI exI [of _ "x # xs"] exI [of _ q]) auto
qed

lemma length_genesis [simp]: "length CHAIN_GENESIS = 32"
  by (simp add: CHAIN_GENESIS_def)

lemma verify_chains_Inr:
  "verify_chains hb s = Inr (n, m) \<longleftrightarrow>
     verify_events hb (st_files s) CHAIN_GENESIS (st_events s) = Inr n
     \<and> verify_receipts hb (st_files s) CHAIN_GENESIS None (st_receipts s) = Inr m"
  by (auto simp: verify_chains_def res_iffs)

section \<open>Tamper evidence\<close>

lemma map_Some_inj: "map f xs = map Some as \<Longrightarrow> map g ys = map Some as \<Longrightarrow> map f xs = map g ys"
  by simp

lemma same_end:
  assumes "ends_in p a q" and "ends_in p b r" and "a = b"
  shows "q = r"
  using assms by (auto simp: ends_in_def hash_id_inj split: option.splits)

lemma causal_chain_binds:
  assumes s: "verify_events hb (st_files s) CHAIN_GENESIS (st_events s) = Inr n"
    and t: "verify_events hb (st_files t) CHAIN_GENESIS (st_events t) = Inr n"
    and last: "map_option ev_chain (last_row (st_events s)) = map_option ev_chain (last_row (st_events t))"
  shows "collides hb \<or> map (\<lambda>r. dget (st_files s) (ev_path r)) (st_events s)
      = map (\<lambda>r. dget (st_files t) (ev_path r)) (st_events t)"
proof -
  from verify_events_split [OF s length_genesis] obtain xs q where a: "n = length (st_events s)"
      "map (\<lambda>r. dget (st_files s) (ev_path r)) (st_events s) = map Some xs"
      "causal.wide hb CHAIN_GENESIS xs" "q = causal.head hb CHAIN_GENESIS xs"
      "ends_in CHAIN_GENESIS (map_option ev_chain (last_row (st_events s))) q" by blast
  from verify_events_split [OF t length_genesis] obtain ys r where b: "n = length (st_events t)"
      "map (\<lambda>r. dget (st_files t) (ev_path r)) (st_events t) = map Some ys"
      "causal.wide hb CHAIN_GENESIS ys" "r = causal.head hb CHAIN_GENESIS ys"
      "ends_in CHAIN_GENESIS (map_option ev_chain (last_row (st_events t))) r" by blast
  have "length xs = length ys" using a b by (metis length_map)
  then have "collides hb \<or> xs = ys"
    using causal.head_binds [OF a(3) b(3)] same_end [OF a(5) b(5) last] a(4) b(4) by auto
  then show ?thesis using a(2) b(2) by auto
qed

lemma receipt_chain_binds:
  assumes s: "verify_receipts hb (st_files s) CHAIN_GENESIS None (st_receipts s) = Inr n"
    and t: "verify_receipts hb (st_files t) CHAIN_GENESIS None (st_receipts t) = Inr n"
    and last: "map_option rc_chain (last_row (st_receipts s)) = map_option rc_chain (last_row (st_receipts t))"
  shows "collides hb \<or> map (\<lambda>r. dget (st_files s) (rc_path r)) (st_receipts s)
      = map (\<lambda>r. dget (st_files t) (rc_path r)) (st_receipts t)"
proof -
  from verify_receipts_split [OF s length_genesis] obtain xs q where a: "n = length (st_receipts s)"
      "map (\<lambda>r. dget (st_files s) (rc_path r)) (st_receipts s) = map Some xs"
      "receipt.wide hb CHAIN_GENESIS xs" "q = receipt.head hb CHAIN_GENESIS xs"
      "ends_in CHAIN_GENESIS (map_option rc_chain (last_row (st_receipts s))) q" by blast
  from verify_receipts_split [OF t length_genesis] obtain ys r where b: "n = length (st_receipts t)"
      "map (\<lambda>r. dget (st_files t) (rc_path r)) (st_receipts t) = map Some ys"
      "receipt.wide hb CHAIN_GENESIS ys" "r = receipt.head hb CHAIN_GENESIS ys"
      "ends_in CHAIN_GENESIS (map_option rc_chain (last_row (st_receipts t))) r" by blast
  have "length xs = length ys" using a b by (metis length_map)
  then have "collides hb \<or> xs = ys"
    using receipt.head_binds [OF a(3) b(3)] same_end [OF a(5) b(5) last] a(4) b(4) by auto
  then show ?thesis using a(2) b(2) by auto
qed

section \<open>Appending\<close>

lemma append_event_Inr:
  assumes "append_causal_event hb now event s = (Inr ids, t)"
  shows "\<exists>payload previous. canonical_bytes event = Inr payload
    \<and> previous_chain (map_option ev_chain (last_row (st_events s))) = Inr previous
    \<and> length previous = 32 \<and> length (event_root_of hb payload) = 32
    \<and> hash_id (causal_link hb previous (event_root_of hb payload)) = Inr (ev_chain (last (st_events t)))
    \<and> hash_id (event_root_of hb payload) = Inr (ev_root (last (st_events t)))
    \<and> hash_id previous = Inr (ev_predecessor (last (st_events t)))
    \<and> ev_path (last (st_events t))
        = chain_file (st_events_dir s) (causal_link hb previous (event_root_of hb payload))
    \<and> event_constraints (last (st_events t)) s
    \<and> t = s\<lparr>st_files := dset (ev_path (last (st_events t))) payload (st_files s),
            st_events := st_events s @ [last (st_events t)]\<rparr>"
  using assms
  unfolding append_causal_event_def Let_def
  apply (elim act_elims)
  apply (unfold core_link_Inr)
  apply (elim conjE)
  apply hypsubst
  apply (rule exI, rule exI, rule conjI, assumption, rule conjI, assumption)
  by (intro conjI; simp add: event_constraints_def)

text \<open>
  The files of the two chains never collide: every recorded path is a digest's name in its own
  directory.
\<close>

definition paths_apart :: "store \<Rightarrow> bool" where
  "paths_apart s \<longleftrightarrow> st_events_dir s \<noteq> st_receipts_dir s
     \<and> (\<forall>e \<in> set (st_events s). \<exists>c. length c = 32 \<and> ev_path e = chain_file (st_events_dir s) c)
     \<and> (\<forall>r \<in> set (st_receipts s). \<exists>c. length c = 32 \<and> rc_path r = chain_file (st_receipts_dir s) c)"

lemma chain_file_directory:
  assumes "chain_file d c = chain_file d' c'" and "length c = length c'"
  shows "d = d'"
proof -
  have "length (47 # hex_text c @ u ''.json'') = length (47 # hex_text c' @ u ''.json'')"
    using assms(2) by (simp add: length_hex_text)
  with assms(1) show ?thesis unfolding chain_file_def by (metis append_eq_append_conv)
qed

lemma verify_events_files:
  "(\<And>r. r \<in> set rs \<Longrightarrow> dget files (ev_path r) = dget files' (ev_path r)) \<Longrightarrow>
     verify_events hb files p rs = verify_events hb files' p rs"
proof (induction hb files p rs rule: verify_events.induct)
  case (2 hb files p r rs)
  have "dget files (ev_path r) = dget files' (ev_path r)" using "2.prems" by simp
  then show ?case using 2 by (auto simp: Let_def rbind_def split: sum.splits)
qed simp

lemma verify_receipts_files:
  "(\<And>r. r \<in> set rs \<Longrightarrow> dget files (rc_path r) = dget files' (rc_path r)) \<Longrightarrow>
     verify_receipts hb files p prev rs = verify_receipts hb files' p prev rs"
proof (induction hb files p prev rs rule: verify_receipts.induct)
  case (2 hb files p prev r rs)
  have "dget files (rc_path r) = dget files' (rc_path r)" using "2.prems" by simp
  then show ?case using 2 by (auto simp: Let_def rbind_def split: sum.splits)
qed simp

lemma append_event_verifies:
  assumes app: "append_causal_event hb now event s = (Inr ids, t)"
    and ok: "verify_chains hb s = Inr (n, m)" and apart: "paths_apart s"
  shows "verify_chains hb t = Inr (Suc n, m)" and "paths_apart t"
proof -
  define row where "row = last (st_events t)"
  from append_event_Inr [OF app, folded row_def] obtain payload previous where
    prev: "previous_chain (map_option ev_chain (last_row (st_events s))) = Inr previous"
    and len: "length previous = 32" "length (event_root_of hb payload) = 32"
    and ids: "hash_id (causal_link hb previous (event_root_of hb payload)) = Inr (ev_chain row)"
      "hash_id (event_root_of hb payload) = Inr (ev_root row)"
      "hash_id previous = Inr (ev_predecessor row)"
    and path: "ev_path row = chain_file (st_events_dir s) (causal_link hb previous (event_root_of hb payload))"
    and con: "event_constraints row s"
    and t: "t = s\<lparr>st_files := dset (ev_path row) payload (st_files s), st_events := st_events s @ [row]\<rparr>"
    by blast
  have clen: "length (causal_link hb previous (event_root_of hb payload)) = 32"
    using ids(1) by (simp add: hash_id_Inr)
  have files: "st_files t = dset (ev_path row) payload (st_files s)"
    and events: "st_events t = st_events s @ [row]" and receipts: "st_receipts t = st_receipts s"
    and dirs: "st_events_dir t = st_events_dir s" "st_receipts_dir t = st_receipts_dir s"
    by (subst t, simp)+
  from ok have v: "verify_events hb (st_files s) CHAIN_GENESIS (st_events s) = Inr n"
    and w: "verify_receipts hb (st_files s) CHAIN_GENESIS None (st_receipts s) = Inr m"
    by (simp_all add: verify_chains_Inr)
  have same_e: "dget (st_files t) (ev_path r) = dget (st_files s) (ev_path r)" if r: "r \<in> set (st_events s)" for r
  proof -
    have "ev_path row \<notin> set (map ev_path (st_events s))"
      using con by (simp only: event_constraints_def simp_thms)
    then have "ev_path r \<noteq> ev_path row" using r by (metis image_eqI list.set_map)
    then show ?thesis by (simp add: files dget_dset)
  qed
  have same_r: "dget (st_files t) (rc_path r) = dget (st_files s) (rc_path r)" if r: "r \<in> set (st_receipts s)" for r
  proof -
    obtain c where "length c = 32" "rc_path r = chain_file (st_receipts_dir s) c"
      using r apart unfolding paths_apart_def by blast
    then have "rc_path r \<noteq> ev_path row"
      using path clen apart chain_file_directory by (metis paths_apart_def)
    then show ?thesis by (simp add: files dget_dset)
  qed
  have v': "verify_events hb (st_files t) CHAIN_GENESIS (st_events s) = Inr n"
    using v verify_events_files [OF same_e] by simp
  have w': "verify_receipts hb (st_files t) CHAIN_GENESIS None (st_receipts s) = Inr m"
    using w verify_receipts_files [OF same_r] by simp
  from verify_events_split [OF v' length_genesis] obtain q where
    q: "ends_in CHAIN_GENESIS (map_option ev_chain (last_row (st_events s))) q"
    and app': "verify_events hb (st_files t) CHAIN_GENESIS (st_events s @ [row])
       = rbind (verify_events hb (st_files t) q [row]) (\<lambda>k. Inr (n + k))" by blast
  have "q = previous" using ends_in_previous [OF q] prev by simp
  then have "verify_events hb (st_files t) q [row] = Inr 1"
    using ids len by (simp add: files dget_dset Let_def core_link_def)
  then have "verify_events hb (st_files t) CHAIN_GENESIS (st_events t) = Inr (Suc n)"
    using app' by (simp add: events)
  then show "verify_chains hb t = Inr (Suc n, m)" using w' by (simp add: verify_chains_Inr receipts)
  show "paths_apart t"
    using apart path clen unfolding paths_apart_def dirs events receipts by auto
qed

lemma canonicalizable_blob: "canonical_bytes v = Inr b \<Longrightarrow> dict_ok v \<Longrightarrow> canonicalizable v"
  by (auto simp: canonical_bytes_def canonicalizable_def res_iffs)

lemma json_load_blob:
  assumes "canonical_bytes v = Inr b" and "dict_ok v"
  shows "json_load (Some b) d = Inr (norm v)"
proof -
  have c: "canonicalizable v" using assms by (rule canonicalizable_blob)
  with assms(1) have b: "b = utf8_encode (dumps v)" by (simp add: canonical_bytes_ok)
  from read_canonical_bytes [OF c]
  show ?thesis by (auto simp: json_load_def b bind_eq_Some_conv)
qed

lemma map_of_norm:
  assumes "distinct (map fst kvs)" and "\<forall>(k, v) \<in> set kvs. \<exists>s. k = PStr s"
  shows "map_of (map (\<lambda>(k, v). (PStr (key_of k), norm v)) (items kvs)) (PStr k)
    = map_option norm (map_of kvs (PStr k))"
proof -
  have d: "distinct (map fst (items kvs))"
    using assms(1) by (simp add: items_def distinct_map)
  have "map_of (map (\<lambda>(k, v). (PStr (key_of k), norm v)) xs) (PStr k) = map_option norm (map_of xs (PStr k))"
    if "\<forall>(k, v) \<in> set xs. \<exists>s. k = PStr s" for xs
    using that by (induction xs) (auto simp: key_of_def)
  then have "map_of (map (\<lambda>(k, v). (PStr (key_of k), norm v)) (items kvs)) (PStr k)
      = map_option norm (map_of (items kvs) (PStr k))"
    using assms(2) by simp
  moreover have "map_of (items kvs) = map_of kvs"
    using d assms(1) by (intro map_of_inject_set [THEN iffD2]) auto
  ultimately show ?thesis by simp
qed

lemma pitem_norm:
  assumes "canonicalizable v" and "pitem v k = Inr x"
  shows "pget (norm v) k d = Inr (norm x)"
proof -
  obtain kvs where v: "v = PDict kvs" using assms(2) by (auto simp: pitem_def split: pyval.splits)
  have "validate (PDict kvs) = Inr ()" and dis: "distinct (map fst kvs)"
    using assms(1) unfolding v canonicalizable_def by simp_all
  then have keys: "\<forall>(k, v) \<in> set kvs. \<exists>s. k = PStr s" unfolding validate_PDict by fast
  show ?thesis
    using assms(2) map_of_norm [OF dis keys, of k] by (auto simp: v norm_PDict pget_def pitem_def res_iffs)
qed

lemma append_receipt_Inr:
  assumes "append_receipt hb now receipt s = (Inr ids, t)"
  shows "\<exists>payload previous. canonical_bytes receipt = Inr payload
    \<and> previous_chain (map_option rc_chain (last_row (st_receipts s))) = Inr previous
    \<and> pitem receipt (u ''previousReceipt'') = Inr (opt_str (map_option rc_id (last_row (st_receipts s))))
    \<and> length previous = 32 \<and> length (receipt_root_of hb payload) = 32
    \<and> hash_id (receipt_link hb previous (receipt_root_of hb payload)) = Inr (rc_chain (last (st_receipts t)))
    \<and> hash_id (receipt_root_of hb payload) = Inr (rc_root (last (st_receipts t)))
    \<and> rc_path (last (st_receipts t))
        = chain_file (st_receipts_dir s) (receipt_link hb previous (receipt_root_of hb payload))
    \<and> text_item receipt (u ''transactionId'') = Inr (rc_transaction (last (st_receipts t)))
    \<and> receipt_constraints (last (st_receipts t)) s
    \<and> t = s\<lparr>st_files := dset (rc_path (last (st_receipts t))) payload (st_files s),
            st_receipts := st_receipts s @ [last (st_receipts t)]\<rparr>"
  using assms
  unfolding append_receipt_def Let_def
  apply (elim act_elims)
  apply (unfold core_link_Inr)
  apply (elim conjE)
  apply hypsubst
  apply (rule exI, rule exI, rule conjI, assumption, rule conjI, assumption)
  by (intro conjI; simp add: receipt_constraints_def)

lemma append_receipt_verifies:
  assumes app: "append_receipt hb now receipt s = (Inr ids, t)" and dict: "dict_ok receipt"
    and ok: "verify_chains hb s = Inr (n, m)" and apart: "paths_apart s"
  shows "verify_chains hb t = Inr (n, Suc m)" and "paths_apart t"
proof -
  define row where "row = last (st_receipts t)"
  from append_receipt_Inr [OF app, folded row_def] obtain payload previous where
    can: "canonical_bytes receipt = Inr payload"
    and prev: "previous_chain (map_option rc_chain (last_row (st_receipts s))) = Inr previous"
    and named: "pitem receipt (u ''previousReceipt'') = Inr (opt_str (map_option rc_id (last_row (st_receipts s))))"
    and len: "length previous = 32" "length (receipt_root_of hb payload) = 32"
    and ids: "hash_id (receipt_link hb previous (receipt_root_of hb payload)) = Inr (rc_chain row)"
      "hash_id (receipt_root_of hb payload) = Inr (rc_root row)"
    and path: "rc_path row = chain_file (st_receipts_dir s) (receipt_link hb previous (receipt_root_of hb payload))"
    and con: "receipt_constraints row s"
    and t: "t = s\<lparr>st_files := dset (rc_path row) payload (st_files s), st_receipts := st_receipts s @ [row]\<rparr>"
    by blast
  have clen: "length (receipt_link hb previous (receipt_root_of hb payload)) = 32"
    using ids(1) by (simp add: hash_id_Inr)
  have files: "st_files t = dset (rc_path row) payload (st_files s)"
    and receipts: "st_receipts t = st_receipts s @ [row]" and events: "st_events t = st_events s"
    and dirs: "st_events_dir t = st_events_dir s" "st_receipts_dir t = st_receipts_dir s"
    by (subst t, simp)+
  from ok have v: "verify_events hb (st_files s) CHAIN_GENESIS (st_events s) = Inr n"
    and w: "verify_receipts hb (st_files s) CHAIN_GENESIS None (st_receipts s) = Inr m"
    by (simp_all add: verify_chains_Inr)
  have same_r: "dget (st_files t) (rc_path r) = dget (st_files s) (rc_path r)" if r: "r \<in> set (st_receipts s)" for r
  proof -
    have "rc_path row \<notin> set (map rc_path (st_receipts s))"
      using con by (simp only: receipt_constraints_def simp_thms)
    then have "rc_path r \<noteq> rc_path row" using r by (metis image_eqI list.set_map)
    then show ?thesis by (simp add: files dget_dset)
  qed
  have same_e: "dget (st_files t) (ev_path r) = dget (st_files s) (ev_path r)" if r: "r \<in> set (st_events s)" for r
  proof -
    obtain c where "length c = 32" "ev_path r = chain_file (st_events_dir s) c"
      using r apart unfolding paths_apart_def by blast
    then have "ev_path r \<noteq> rc_path row"
      using path clen apart chain_file_directory by (metis paths_apart_def)
    then show ?thesis by (simp add: files dget_dset)
  qed
  have v': "verify_events hb (st_files t) CHAIN_GENESIS (st_events s) = Inr n"
    using v verify_events_files [OF same_e] by simp
  have w': "verify_receipts hb (st_files t) CHAIN_GENESIS None (st_receipts s) = Inr m"
    using w verify_receipts_files [OF same_r] by simp
  from verify_receipts_split [OF w' length_genesis] obtain q where
    q: "ends_in CHAIN_GENESIS (map_option rc_chain (last_row (st_receipts s))) q"
    and app': "verify_receipts hb (st_files t) CHAIN_GENESIS None (st_receipts s @ [row])
       = rbind (verify_receipts hb (st_files t) q
           (case last_row (st_receipts s) of None \<Rightarrow> None | Some r \<Rightarrow> Some (rc_id r)) [row]) (\<lambda>k. Inr (m + k))"
    by blast
  have "q = previous" using ends_in_previous [OF q] prev by simp
  moreover have "json_load (Some payload) PNone = Inr (norm receipt)" using can dict by (rule json_load_blob)
  moreover have "pget (norm receipt) (u ''previousReceipt'') PNone
      = Inr (norm (opt_str (map_option rc_id (last_row (st_receipts s)))))"
    using pitem_norm [OF canonicalizable_blob [OF can dict] named] .
  ultimately have "verify_receipts hb (st_files t) q
      (case last_row (st_receipts s) of None \<Rightarrow> None | Some r \<Rightarrow> Some (rc_id r)) [row] = Inr 1"
    using ids len by (cases "last_row (st_receipts s)")
      (simp_all add: files dget_dset Let_def core_link_def opt_str_def)
  then have "verify_receipts hb (st_files t) CHAIN_GENESIS None (st_receipts t) = Inr (Suc m)"
    using app' by (simp add: receipts)
  then show "verify_chains hb t = Inr (n, Suc m)" using v' by (simp add: verify_chains_Inr events)
  show "paths_apart t"
    using apart path clen unfolding paths_apart_def dirs events receipts by auto
qed

end
