(* ===== verification/Store_Worlds.thy ===== *)
theory Store_Worlds
  imports Store_Chains
begin

text \<open>
  The world and job tables of the store: what is written is what is read back, up to the order of
  dictionary items, and the sweep at daemon start leaves no world and no job without an owner.
\<close>

section \<open>Round trip\<close>

text \<open>A world as it comes back from the store.\<close>

definition stored :: "world \<Rightarrow> world" where
  "stored w = w\<lparr>w_components := sort_key fst (w_components w), w_evidence := norm (w_evidence w),
     w_workspace := norm (w_workspace w), w_delta := norm (w_delta w),
     w_conflicts := map norm (w_conflicts w), w_contamination := map norm (w_contamination w),
     w_descendants := 0\<rparr>"

definition dicts_ok :: "world \<Rightarrow> bool" where
  "dicts_ok w \<longleftrightarrow> distinct (dkeys (w_components w)) \<and> dict_ok (w_evidence w) \<and> dict_ok (w_workspace w)
     \<and> dict_ok (w_delta w) \<and> list_all dict_ok (w_conflicts w) \<and> list_all dict_ok (w_contamination w)"

lemma norm_components:
  "norm (components_value cs) = components_value (sort_key fst cs)"
  by (simp add: components_value_def norm.simps(2) comp_def case_prod_unfold key_of_def sort_key_map)

lemma components_of_value: "components_of (components_value cs) = Inr cs"
  by (induction cs) (auto simp: components_of_def components_value_def split: prod.splits)

lemma dict_ok_components: "distinct (dkeys cs) \<Longrightarrow> dict_ok (components_value cs)"
proof -
  assume "distinct (dkeys cs)"
  then have "distinct (map PStr (dkeys cs))" by (simp add: distinct_map inj_on_def)
  moreover have "map fst (map (\<lambda>(k, v). (PStr k, v)) (map (\<lambda>(k, v). (k, PStr v)) cs)) = map PStr (dkeys cs)"
    by auto
  ultimately show ?thesis by (simp only: components_value_def dict_ok.simps) (auto simp: list_all_iff)
qed

lemma world_from_row_of_world:
  assumes "row_of_world w = Inr r" and "dicts_ok w"
  shows "world_from_row r = Inr (stored w)"
proof -
  from assms(2) have d: "dict_ok (components_value (w_components w))" "dict_ok (w_evidence w)"
      "dict_ok (w_workspace w)" "dict_ok (w_delta w)" "dict_ok (PList (w_conflicts w))"
      "dict_ok (PList (w_contamination w))"
    by (simp_all add: dicts_ok_def dict_ok_components)
  from assms(1) have b: "canonical_bytes (components_value (w_components w)) = Inr (wr_components r)"
      "canonical_bytes (w_evidence w) = Inr (wr_evidence r)"
      "canonical_bytes (w_workspace w) = Inr (wr_workspace r)"
      "canonical_bytes (w_delta w) = Inr (wr_delta r)"
      "canonical_bytes (PList (w_conflicts w)) = Inr (wr_conflicts r)"
      "canonical_bytes (PList (w_contamination w)) = Inr (wr_contamination r)"
    by (auto simp: row_of_world_def json_blob_def res_iffs)
  note loads = json_load_blob [OF b(1) d(1)] json_load_blob [OF b(2) d(2)] json_load_blob [OF b(3) d(3)]
    json_load_blob [OF b(4) d(4)] json_load_blob [OF b(5) d(5)] json_load_blob [OF b(6) d(6)]
  have w: "world_from_row r = Inr (stored w \<lparr>w_instance_id := wr_instance_id r, w_alias := wr_alias r,
      w_parent_instance := wr_parent_instance r, w_parent_content := wr_parent_content r,
      w_cause := wr_cause r, w_actor := wr_actor r, w_born := wr_born r, w_ended := wr_ended r,
      w_state := wr_state r, w_content_id := wr_content_id r, w_payload_path := wr_payload_path r,
      w_mission_hash := wr_mission_hash r, w_agent_reference := wr_agent_reference r,
      w_base_payload_path := wr_base_payload_path r, w_base_root := wr_base_root r,
      w_root_set_hash := wr_root_set_hash r, w_delta_hash := wr_delta_hash r,
      w_world_kind := wr_world_kind r, w_complexity := wr_complexity r, w_risk := wr_risk r,
      w_payload_pruned := wr_payload_pruned r, w_pruned_at := wr_pruned_at r\<rparr>)"
    unfolding world_from_row_def loads norm_components components_of_value rbind_simps norm.simps(1)
    by (simp add: list_of_def components_of_value stored_def)
  show ?thesis
    unfolding w using assms(1) by (auto simp: row_of_world_def res_iffs stored_def)
qed

lemma row_of_world_ids:
  "row_of_world w = Inr r \<Longrightarrow> wr_instance_id r = w_instance_id w \<and> wr_alias r = w_alias w
     \<and> wr_state r = w_state w \<and> wr_content_id r = w_content_id w \<and> wr_parent_instance r = w_parent_instance w"
  by (auto simp: row_of_world_def res_iffs)

lemma find_append: "List.find P (xs @ ys) = (case List.find P xs of None \<Rightarrow> List.find P ys | Some x \<Rightarrow> Some x)"
  by (induction xs) auto

lemma find_update_where:
  "\<exists>x \<in> set rows. P x \<Longrightarrow> P r \<Longrightarrow> List.find P (update_where P (\<lambda>_. r) rows) = Some r"
  by (induction rows) (auto simp: update_where_def)

lemma save_world_Inr:
  "save_world w s = (Inr x, t) \<longleftrightarrow> (\<exists>r. row_of_world w = Inr r
     \<and> (\<exists>y \<in> set (st_worlds s). wr_instance_id y = w_instance_id w)
     \<and> world_constraints r (filter (\<lambda>y. wr_instance_id y \<noteq> w_instance_id w) (st_worlds s))
     \<and> t = s\<lparr>st_worlds := update_where (\<lambda>y. wr_instance_id y = w_instance_id w) (\<lambda>_. r) (st_worlds s)\<rparr>)"
proof
  assume "save_world w s = (Inr x, t)"
  then obtain r where r: "row_of_world w = Inr r"
    and rest: "list_ex (\<lambda>y. wr_instance_id y = wr_instance_id r) (st_worlds s)"
      "world_constraints r (filter (\<lambda>y. wr_instance_id y \<noteq> wr_instance_id r) (st_worlds s))"
      "t = s\<lparr>st_worlds := update_where (\<lambda>y. wr_instance_id y = wr_instance_id r) (\<lambda>_. r) (st_worlds s)\<rparr>"
    unfolding save_world_def by (elim act_elims) (auto elim!: act_elims)
  then show "\<exists>r. row_of_world w = Inr r
     \<and> (\<exists>y \<in> set (st_worlds s). wr_instance_id y = w_instance_id w)
     \<and> world_constraints r (filter (\<lambda>y. wr_instance_id y \<noteq> w_instance_id w) (st_worlds s))
     \<and> t = s\<lparr>st_worlds := update_where (\<lambda>y. wr_instance_id y = w_instance_id w) (\<lambda>_. r) (st_worlds s)\<rparr>"
    using row_of_world_ids [OF r] by (auto simp: list_ex_iff)
next
  assume "\<exists>r. row_of_world w = Inr r
     \<and> (\<exists>y \<in> set (st_worlds s). wr_instance_id y = w_instance_id w)
     \<and> world_constraints r (filter (\<lambda>y. wr_instance_id y \<noteq> w_instance_id w) (st_worlds s))
     \<and> t = s\<lparr>st_worlds := update_where (\<lambda>y. wr_instance_id y = w_instance_id w) (\<lambda>_. r) (st_worlds s)\<rparr>"
  then obtain r where "row_of_world w = Inr r"
      "list_ex (\<lambda>y. wr_instance_id y = w_instance_id w) (st_worlds s)"
      "world_constraints r (filter (\<lambda>y. wr_instance_id y \<noteq> w_instance_id w) (st_worlds s))"
      "t = s\<lparr>st_worlds := update_where (\<lambda>y. wr_instance_id y = w_instance_id w) (\<lambda>_. r) (st_worlds s)\<rparr>"
    by (auto simp: list_ex_iff)
  with row_of_world_ids [of w r] show "save_world w s = (Inr x, t)"
    by (simp add: save_world_def sbind_def act_defs)
qed

lemma save_world_lookup:
  assumes "save_world w s = (Inr x, t)" and "dicts_ok w"
  shows "world_get (w_instance_id w) t
    = Inr (stored w \<lparr>w_descendants := descendant_count (w_instance_id w) t\<rparr>)"
proof -
  from assms(1) obtain r where r: "row_of_world w = Inr r"
    and ex: "\<exists>y \<in> set (st_worlds s). wr_instance_id y = w_instance_id w"
    and t0: "t = s\<lparr>st_worlds := update_where (\<lambda>y. wr_instance_id y = w_instance_id w) (\<lambda>_. r) (st_worlds s)\<rparr>"
    unfolding save_world_Inr by blast
  have t: "st_worlds t = update_where (\<lambda>y. wr_instance_id y = w_instance_id w) (\<lambda>_. r) (st_worlds s)"
    by (simp add: t0)
  have "List.find (\<lambda>y. wr_instance_id y = w_instance_id w) (st_worlds t) = Some r"
    unfolding t by (rule find_update_where [OF ex]) (simp add: row_of_world_ids [OF r])
  then have "world_lookup (w_instance_id w) (st_worlds t) = Some r" by (simp add: world_lookup_def)
  then show ?thesis
    using world_from_row_of_world [OF r assms(2)] row_of_world_ids [OF r] by (simp add: world_get_def)
qed

lemma insert_world_Inr:
  "insert_world w s = (Inr x, t) \<longleftrightarrow> (\<exists>r. row_of_world w = Inr r \<and> world_constraints r (st_worlds s)
     \<and> t = s\<lparr>st_worlds := st_worlds s @ [r]\<rparr>)"
  by (auto simp: insert_world_def sbind_Inr_iff act_defs split: if_splits)

lemma insert_world_lookup:
  assumes "insert_world w s = (Inr x, t)" and "dicts_ok w"
  shows "world_get (w_instance_id w) t
    = Inr (stored w \<lparr>w_descendants := descendant_count (w_instance_id w) t\<rparr>)"
proof -
  from assms(1) obtain r where r: "row_of_world w = Inr r" and c: "world_constraints r (st_worlds s)"
    and t: "st_worlds t = st_worlds s @ [r]"
    by (auto simp: insert_world_Inr)
  have "List.find (\<lambda>y. wr_instance_id y = w_instance_id w) (st_worlds s) = None"
  proof -
    have "w_instance_id w \<notin> set (map wr_instance_id (st_worlds s))"
      using c row_of_world_ids [OF r] unfolding world_constraints_def by simp
    then show ?thesis by (force simp: find_None)
  qed
  then have "world_lookup (w_instance_id w) (st_worlds t) = Some r"
    using row_of_world_ids [OF r] by (simp add: world_lookup_def t find_append)
  then show ?thesis
    using world_from_row_of_world [OF r assms(2)] row_of_world_ids [OF r] by (simp add: world_get_def)
qed

section \<open>The sweep\<close>

text \<open>
  What a pass over some rows of a keyed table does: the rows it names satisfy \<open>P\<close> afterwards, the
  others are as they were, and no row appears, vanishes or changes its key.
\<close>

definition touched :: "('r \<Rightarrow> 'k) \<Rightarrow> ('r \<Rightarrow> bool) \<Rightarrow> 'k set \<Rightarrow> 'r list \<Rightarrow> 'r list \<Rightarrow> bool" where
  "touched key P ids rows rows' \<longleftrightarrow>
     list_all2 (\<lambda>r r'. key r' = key r \<and> (if key r \<in> ids then P r' else r' = r)) rows rows'"

lemma touched_none: "touched key P {} rows rows"
  by (simp add: touched_def list_all2_refl)

lemma touched_trans: "touched key P A xs ys \<Longrightarrow> touched key P B ys zs \<Longrightarrow> touched key P (A \<union> B) xs zs"
  unfolding touched_def list_all2_conv_all_nth by (auto split: if_splits)

lemma touched_update:
  "(\<And>r. key r = k \<Longrightarrow> key (f r) = k \<and> P (f r)) \<Longrightarrow>
     touched key P {k} rows (update_where (\<lambda>r. key r = k) f rows)"
  by (auto simp: touched_def update_where_def list_all2_conv_all_nth)

lemma touched_all:
  "touched key P (key ` {r \<in> set rows. Q r}) rows rows' \<Longrightarrow> (\<And>r. P r \<Longrightarrow> \<not> Q r) \<Longrightarrow>
     r \<in> set rows' \<Longrightarrow> \<not> Q r"
proof -
  assume t: "touched key P (key ` {r \<in> set rows. Q r}) rows rows'" and PQ: "\<And>r. P r \<Longrightarrow> \<not> Q r"
    and "r \<in> set rows'"
  then obtain i where i: "i < length rows'" "r = rows' ! i" by (auto simp: in_set_conv_nth)
  from t have len: "length rows = length rows'" unfolding touched_def by (rule list_all2_lengthD)
  from t i len have "if key (rows ! i) \<in> key ` {r \<in> set rows. Q r} then P r else r = rows ! i"
    unfolding touched_def list_all2_conv_all_nth by simp
  moreover have "rows ! i \<in> set rows" using i len by simp
  ultimately show "\<not> Q r" using PQ by (auto split: if_splits)
qed

abbreviation "swept \<equiv> touched wr_instance_id (\<lambda>r. wr_state r = DEAD)"
abbreviation "degraded_jobs \<equiv> touched jb_id (\<lambda>j. jb_state j = u ''DEGRADED'')"

lemma sweep_world_Inr:
  assumes "sweep_world now w s = (Inr x, t)"
  shows "swept {w_instance_id w} (st_worlds s) (st_worlds t) \<and> st_jobs t = st_jobs s"
proof -
  from assms obtain ev w' where tr: "transition now DEAD (w\<lparr>w_evidence := ev\<rparr>) = Inr w'"
      and sv: "save_world w' s = (Inr x, t)"
    unfolding sweep_world_def Let_def by (elim act_elims) blast
  have w': "w_instance_id w' = w_instance_id w" "w_state w' = DEAD"
    using tr by (simp_all add: transition_Inr)
  from sv obtain r where "row_of_world w' = Inr r"
    and "t = s\<lparr>st_worlds := update_where (\<lambda>y. wr_instance_id y = w_instance_id w') (\<lambda>_. r) (st_worlds s)\<rparr>"
    unfolding save_world_Inr by blast
  with w' row_of_world_ids [of w' r] show ?thesis by (simp add: touched_update)
qed

lemma sweep_worlds_Inr:
  "smapM (sweep_world now) ws s = (Inr x, t) \<Longrightarrow>
     swept (w_instance_id ` set ws) (st_worlds s) (st_worlds t) \<and> st_jobs t = st_jobs s"
proof (induction ws arbitrary: s)
  case Nil
  then show ?case by (simp add: act_defs touched_none)
next
  case (Cons w ws)
  then obtain x' r where a: "sweep_world now w s = (Inr x', r)" and b: "smapM (sweep_world now) ws r = (Inr x, t)"
    unfolding smapM.simps by (elim act_elims) blast
  have "swept ({w_instance_id w} \<union> w_instance_id ` set ws) (st_worlds s) (st_worlds t)"
    using sweep_world_Inr [OF a] Cons.IH [OF b] touched_trans by blast
  then show ?case using sweep_world_Inr [OF a] Cons.IH [OF b] by simp
qed

lemma degrade_job_Inr:
  assumes "degrade_job now row s = (Inr x, t)"
  shows "degraded_jobs {jb_id row} (st_jobs s) (st_jobs t) \<and> st_worlds t = st_worlds s"
  using assms unfolding degrade_job_def by (elim act_elims) (simp add: touched_update)

lemma degrade_jobs_Inr:
  "smapM (degrade_job now) rows s = (Inr x, t) \<Longrightarrow>
     degraded_jobs (jb_id ` set rows) (st_jobs s) (st_jobs t) \<and> st_worlds t = st_worlds s"
proof (induction rows arbitrary: s)
  case Nil
  then show ?case by (simp add: act_defs touched_none)
next
  case (Cons row rows)
  then obtain x' r where a: "degrade_job now row s = (Inr x', r)" and b: "smapM (degrade_job now) rows r = (Inr x, t)"
    unfolding smapM.simps by (elim act_elims) blast
  have "degraded_jobs ({jb_id row} \<union> jb_id ` set rows) (st_jobs s) (st_jobs t)"
    using degrade_job_Inr [OF a] Cons.IH [OF b] touched_trans by blast
  then show ?case using degrade_job_Inr [OF a] Cons.IH [OF b] by simp
qed

lemma atomically_Inr: "atomically m s = (Inr x, t) \<longleftrightarrow> m s = (Inr x, t)"
  by (auto simp: atomically_def split: prod.splits sum.splits)

lemma sweep_jobs_Inr:
  assumes "sweep_jobs now s = (Inr n, t)"
  shows "degraded_jobs (jb_id ` {j \<in> set (st_jobs s). jb_state j \<in> active_states}) (st_jobs s) (st_jobs t)
    \<and> st_worlds t = st_worlds s"
proof -
  from assms obtain x where
    "smapM (degrade_job now) (filter (\<lambda>j. jb_state j \<in> active_states) (st_jobs s)) s = (Inr x, t)"
    unfolding sweep_jobs_def atomically_Inr by (elim act_elims) auto
  from degrade_jobs_Inr [OF this] show ?thesis by simp
qed

lemma world_from_row_id: "world_from_row r = Inr w \<Longrightarrow> w_instance_id w = wr_instance_id r"
  by (auto simp: world_from_row_def res_iffs)

lemma rmap_world_ids:
  "rmap world_from_row rows = Inr ws \<Longrightarrow> w_instance_id ` set ws = wr_instance_id ` set rows"
proof (induction rows arbitrary: ws)
  case (Cons r rows)
  from Cons.prems obtain w ws' where "world_from_row r = Inr w" "rmap world_from_row rows = Inr ws'" "ws = w # ws'"
    unfolding rmap.simps rbind_Inr_iff by blast
  then show ?case using Cons.IH [of ws'] world_from_row_id [of r w] by simp
qed simp

lemma sweep_unsupervised_Inr:
  assumes "sweep_unsupervised now s = (Inr nm, t)"
  shows "\<forall>r \<in> set (st_worlds t). wr_state r \<notin> NONTERMINAL_STATES"
    and "\<forall>j \<in> set (st_jobs t). jb_state j \<notin> active_states"
    and "swept (wr_instance_id ` {r \<in> set (st_worlds s). wr_state r \<in> NONTERMINAL_STATES})
      (st_worlds s) (st_worlds t)"
proof -
  from assms obtain n r ws x where a: "sweep_jobs now s = (Inr n, r)"
    and w: "nonterminal_worlds r = Inr ws" and b: "smapM (sweep_world now) ws r = (Inr x, t)"
    unfolding sweep_unsupervised_def by (elim act_elims) auto
  have J: "degraded_jobs (jb_id ` {j \<in> set (st_jobs s). jb_state j \<in> active_states}) (st_jobs s) (st_jobs t)"
    and W: "st_worlds r = st_worlds s"
    using sweep_jobs_Inr [OF a] sweep_worlds_Inr [OF b] by auto
  have "w_instance_id ` set ws = wr_instance_id ` {r \<in> set (st_worlds s). wr_state r \<in> NONTERMINAL_STATES}"
    using rmap_world_ids [OF w [unfolded nonterminal_worlds_def]] by (simp add: W)
  then show S: "swept (wr_instance_id ` {r \<in> set (st_worlds s). wr_state r \<in> NONTERMINAL_STATES})
      (st_worlds s) (st_worlds t)"
    using sweep_worlds_Inr [OF b] W by simp
  show "\<forall>r \<in> set (st_worlds t). wr_state r \<notin> NONTERMINAL_STATES"
    using touched_all [OF S] by (simp add: NONTERMINAL_STATES_def)
  show "\<forall>j \<in> set (st_jobs t). jb_state j \<notin> active_states"
    using touched_all [OF J] by (simp add: active_states_def)
qed

end
