(* ===== verification/Store_Laws.thy ===== *)
theory Store_Laws
  imports Store_Worlds
begin

text \<open>
  The properties of the store: a world comes back as it was written, the sweep leaves nothing without
  an owner, appending keeps both hash chains verified, and a verified chain fixes every payload.
\<close>

section \<open>Samples\<close>

definition empty_store :: store where
  "empty_store = \<lparr>st_version = 0, st_meta = [], st_roots = [], st_worlds = [], st_jobs = [],
     st_events = [], st_ranges = [], st_txs = [], st_receipts = [], st_files = [],
     st_events_dir = u ''/events'', st_receipts_dir = u ''/receipts''\<rparr>"

definition sample_store :: store where
  "sample_store = snd (insert_world sample_world empty_store)"

definition sample_event :: pyval where
  "sample_event = pdict [(u ''schemaVersion'', PInt 1), (u ''worldInstance'', PStr (u ''i'')),
     (u ''kind'', PStr (u ''note''))]"

lemma encodable_concat: "encodable (concat (replicate n s)) \<longleftrightarrow> n = 0 \<or> encodable s"
  by (auto simp: encodable_def)

lemma validate_pdict:
  "validate (pdict kvs) = Inr () \<longleftrightarrow> (\<forall>(k, v) \<in> set kvs. encodable k \<and> validate v = Inr ())"
  unfolding validate_PDict by auto

lemma json_blob_ok: "validate v = Inr () \<Longrightarrow> json_blob v = Inr (utf8_encode (dumps v))"
  by (simp add: json_blob_def canonical_bytes_def)

lemma valid_components:
  "validate (components_value cs) = Inr () \<longleftrightarrow> (\<forall>(k, v) \<in> set cs. encodable k \<and> encodable v)"
  unfolding components_value_def validate_pdict by (auto simp: ensure_def split: if_splits)

definition valid_columns :: "world \<Rightarrow> bool" where
  "valid_columns w \<longleftrightarrow> validate (components_value (w_components w)) = Inr () \<and> validate (w_evidence w) = Inr ()
     \<and> validate (w_workspace w) = Inr () \<and> validate (w_delta w) = Inr ()
     \<and> validate (PList (w_conflicts w)) = Inr () \<and> validate (PList (w_contamination w)) = Inr ()"

lemma valid_columns_row: "valid_columns w \<Longrightarrow> \<exists>r. row_of_world w = Inr r"
  unfolding valid_columns_def row_of_world_def by (elim conjE) (simp add: json_blob_ok del: validate.simps)

lemma sample_columns: "valid_columns sample_world"
  by (auto simp: valid_columns_def valid_components sample_world_def identity_components_def encodable_append
      encodable_concat simp del: encodable_u intro: encodable_u)

lemma sample_insert:
  obtains r where "row_of_world sample_world = Inr r" and "wr_instance_id r = u ''i''"
    and "sample_store = empty_store\<lparr>st_worlds := [r]\<rparr>"
    and "insert_world sample_world empty_store = (Inr (), sample_store)"
proof -
  from valid_columns_row [OF sample_columns] obtain r where r: "row_of_world sample_world = Inr r" by blast
  have "wr_world_kind r = u ''computational'' \<and> wr_complexity r = u ''LOW'' \<and> wr_risk r = u ''LOW''
      \<and> wr_parent_instance r = None"
    using r by (auto simp: row_of_world_def res_iffs sample_world_def simp del: validate.simps)
  then have "world_constraints r []"
    by (simp add: world_constraints_def levels_def)
  then have "insert_world sample_world empty_store = (Inr (), empty_store\<lparr>st_worlds := [r]\<rparr>)"
    unfolding insert_world_Inr using r by (simp add: empty_store_def)
  moreover have "wr_instance_id r = u ''i''" using row_of_world_ids [OF r] by (simp add: sample_world_def)
  ultimately show thesis using r that by (simp add: sample_store_def)
qed

lemma constant_roots: "event_root_of constant_hash p = replicate 32 (CHR 0x41)"
    "receipt_root_of constant_hash p = replicate 32 (CHR 0x41)"
    "causal_link constant_hash p r = replicate 32 (CHR 0x41)"
    "receipt_link constant_hash p r = replicate 32 (CHR 0x41)"
  by (simp_all add: event_root_of_def receipt_root_of_def causal_link_def receipt_link_def constant_hash_def)

lemma hash_id_ok: "length b = 32 \<Longrightarrow> hash_id b = Inr (u ''sha256:'' @ hex_text b)"
  by (simp add: hash_id_Inr)

lemma sample_append: "\<exists>ids t. append_causal_event constant_hash [] sample_event sample_store = (Inr ids, t)"
proof -
  obtain r where r: "row_of_world sample_world = Inr r" "wr_instance_id r = u ''i''"
    and s: "sample_store = empty_store\<lparr>st_worlds := [r]\<rparr>"
    and ins: "insert_world sample_world empty_store = (Inr (), sample_store)"
    by (rule sample_insert)
  have "world_lookup (u ''i'') (st_worlds sample_store) = Some r"
    using r by (simp add: s world_lookup_def)
  moreover have "dicts_ok sample_world" by (simp add: dicts_ok_def sample_world_def identity_components_def)
  ultimately have w: "\<exists>w. world_get (u ''i'') sample_store = Inr w"
    using world_from_row_of_world [OF r(1)] by (simp add: world_get_def)
  then obtain w where w: "world_get (u ''i'') sample_store = Inr w" by blast
  have "validate sample_event = Inr ()" unfolding sample_event_def validate_pdict by simp
  then obtain b where b: "canonical_bytes sample_event = Inr b" by (simp add: canonical_bytes_def)
  have ids: "pget sample_event (u ''schemaVersion'') PNone = Inr (PInt 1)"
      "pget sample_event (u ''worldInstance'') (PStr []) = Inr (PStr (u ''i''))"
      "pget sample_event (u ''kind'') (PStr (u ''event'')) = Inr (PStr (u ''note''))"
    unfolding sample_event_def pget_pdict by (simp_all add: u_def)
  have ev: "st_events sample_store = []" "u ''i'' \<in> set (map wr_instance_id (st_worlds sample_store))"
    using r(2) by (simp_all add: s empty_store_def)
  show ?thesis
    unfolding append_causal_event_def Let_def
    using ev(2) by (simp add: act_run ids eq_int_def w b ev(1) last_row_def previous_chain_def core_link_def
        constant_roots hash_id_ok event_constraints_def ret_def del: list.set_map)
qed

text \<open>A receipt for one transaction in an otherwise empty store.\<close>

definition sample_receipt :: pyval where
  "sample_receipt = pdict (map (\<lambda>k. (k, if k = u ''schemaVersion'' then PInt 1
     else if k = u ''previousReceipt'' then PNone else PStr k)) receipt_required)"

definition sample_tx_store :: store where
  "sample_tx_store = empty_store\<lparr>st_txs := [\<lparr>tx_id = u ''transactionId'', tx_kind = u ''collapse'',
     tx_state_name = u ''AUTHORIZED'', tx_candidate = [], tx_prepared_path = [], tx_before_root = [],
     tx_base_root = [], tx_candidate_root = [], tx_delta_hash = [], tx_staged_root = [],
     tx_root_set_hash = [], tx_marker = [], tx_created_at = [], tx_committed_at = None,
     tx_error = None\<rparr>]\<rparr>"

lemma sample_receipt_append:
  "\<exists>ids t. append_receipt constant_hash [] sample_receipt sample_tx_store = (Inr ids, t)"
proof -
  have "validate sample_receipt = Inr ()"
    unfolding sample_receipt_def validate_pdict by (auto simp: receipt_required_def)
  then obtain b where b: "canonical_bytes sample_receipt = Inr b" by (simp add: canonical_bytes_def)
  have ids: "pget sample_receipt (u ''schemaVersion'') PNone = Inr (PInt 1)"
      "pitem sample_receipt (u ''previousReceipt'') = Inr PNone"
      "pitem sample_receipt (u ''receiptId'') = Inr (PStr (u ''receiptId''))"
      "pitem sample_receipt (u ''transactionId'') = Inr (PStr (u ''transactionId''))"
    unfolding sample_receipt_def pget_pdict pitem_pdict by (simp_all add: u_def receipt_required_def)
  have f: "receipt_fields_ok sample_receipt"
    by (simp add: receipt_fields_ok_def sample_receipt_def image_image)
  have s: "st_receipts sample_tx_store = []" "u ''transactionId'' \<in> set (map tx_id (st_txs sample_tx_store))"
    by (simp_all add: sample_tx_store_def empty_store_def)
  show ?thesis
    unfolding append_receipt_def Let_def
    using s(2) by (simp add: act_run ids eq_int_def text_item_def b f s(1) last_row_def previous_chain_def
        core_link_def constant_roots hash_id_ok receipt_constraints_def ret_def opt_str_def del: list.set_map)
qed

lemma sample_dicts: "dicts_ok sample_world"
  by (simp add: dicts_ok_def sample_world_def identity_components_def)

lemma sample_sweep: "\<exists>nm t. sweep_unsupervised [] sample_store = (Inr nm, t)"
proof -
  obtain r where r: "row_of_world sample_world = Inr r" "wr_instance_id r = u ''i''"
    and s: "sample_store = empty_store\<lparr>st_worlds := [r]\<rparr>" by (rule sample_insert)
  define w where "w = stored sample_world"
  have w: "world_from_row r = Inr w" unfolding w_def using r(1) sample_dicts by (rule world_from_row_of_world)
  have st: "wr_state r = MUTABLE" using row_of_world_ids [OF r(1)] by (simp add: sample_world_def)
  have jb: "st_jobs sample_store = []" by (simp add: s empty_store_def)
  have nw: "nonterminal_worlds sample_store = Inr [w]"
    by (simp add: nonterminal_worlds_def s st NONTERMINAL_STATES_def w)
  define ev where "ev = PDict [(PStr (u ''summary''), PStr (u ''FAIL'')), (PStr (u ''checks''), PList []),
      (PStr (u ''supervision''), sweep_reason False)]"
  define w' where "w' = w\<lparr>w_evidence := ev, w_state := DEAD, w_ended := Some []\<rparr>"
  have tr: "transition [] DEAD (w\<lparr>w_evidence := ev\<rparr>) = Inr w'"
    by (simp add: transition_Inr w'_def w_def stored_def sample_world_def TERMINAL_STATES_def)
  have "validate ev = Inr ()"
    unfolding ev_def validate_PDict by (simp add: sweep_reason_def)
  moreover have "validate (components_value (w_components w')) = Inr ()"
    using sample_columns unfolding valid_columns_def valid_components by (simp add: w'_def w_def stored_def)
  ultimately have "valid_columns w'"
    by (simp add: valid_columns_def w'_def w_def stored_def sample_world_def norm.simps(2))
  then obtain r' where r': "row_of_world w' = Inr r'" using valid_columns_row by blast
  have fields: "wr_parent_instance r' = None" "wr_world_kind r' = u ''computational''"
      "wr_complexity r' = u ''LOW''" "wr_risk r' = u ''LOW''" "wr_instance_id r' = u ''i''"
    using r' by (auto simp: row_of_world_def res_iffs w'_def w_def stored_def sample_world_def simp del: validate.simps)
  have sv: "save_world w' sample_store
      = (Inr (), sample_store\<lparr>st_worlds := update_where (\<lambda>x. wr_instance_id x = wr_instance_id r') (\<lambda>_. r')
           (st_worlds sample_store)\<rparr>)"
    unfolding save_world_Inr using r'
    by (intro exI [of _ r']) (simp add: s r(2) fields world_constraints_def levels_def w'_def w_def stored_def sample_world_def)
  have ch: "sweep_checks (w_evidence w) = Inr []"
    by (simp add: sweep_checks_def w_def stored_def sample_world_def pget_def norm.simps(2) piter_def)
  have "sweep_world [] w sample_store = save_world w' sample_store"
    unfolding sweep_world_def Let_def
    by (simp add: act_run jobs_def jb ch tr ev_def [symmetric])
  then show ?thesis using sv nw
    by (simp add: sweep_unsupervised_def sweep_jobs_def atomically_def act_run jb ret_def sbind_def [of "_ :: unit sact"]
        sbind_def [of "sweep_world [] w"])
qed

section \<open>Properties\<close>

text \<open>
  What is stored is what is read: after a successful insert, a lookup by the instance identifier
  returns the world that was inserted, with the items of its dictionaries sorted by key (nothing else
  is lost or changed) and its descendants counted from the table.
\<close>
theorem world_store_roundtrip:
  assumes "insert_world w s = (Inr x, t)" and "dicts_ok w"
  shows "world_get (w_instance_id w) t
    = Inr (stored w \<lparr>w_descendants := descendant_count (w_instance_id w) t\<rparr>)"
  by (rule insert_world_lookup [OF assms])

theorem world_store_roundtrip_witness:
  "\<exists>w. world_get (u ''i'') sample_store = Inr w \<and> w_alias w = u ''fork'' \<and> w_state w = MUTABLE"
proof -
  have i: "insert_world sample_world empty_store = (Inr (), sample_store)" by (rule sample_insert)
  have n: "w_instance_id sample_world = u ''i''" by (simp add: sample_world_def)
  show ?thesis using world_store_roundtrip [OF i sample_dicts, unfolded n]
    by (simp add: stored_def sample_world_def)
qed

text \<open>
  C13. The sweep at daemon start: when it succeeds, no world is left in a nonterminal state and no job
  in an active one. The worlds that were nonterminal are now \<open>DEAD\<close>; every other world row is as it
  was, and no row appears, vanishes or changes its identifier.
\<close>
theorem sweep_leaves_nothing_unowned:
  assumes "sweep_unsupervised now s = (Inr nm, t)"
  shows "(\<forall>r \<in> set (st_worlds t). wr_state r \<notin> NONTERMINAL_STATES)
    \<and> (\<forall>j \<in> set (st_jobs t). jb_state j \<notin> active_states)
    \<and> list_all2 (\<lambda>r r'. wr_instance_id r' = wr_instance_id r
        \<and> (if wr_instance_id r \<in> wr_instance_id ` {r \<in> set (st_worlds s). wr_state r \<in> NONTERMINAL_STATES}
           then wr_state r' = DEAD else r' = r)) (st_worlds s) (st_worlds t)"
  using sweep_unsupervised_Inr [OF assms] unfolding touched_def by blast

theorem sweep_leaves_nothing_unowned_witness:
  "\<exists>nm t r. sweep_unsupervised [] sample_store = (Inr nm, t) \<and> st_worlds t = [r] \<and> wr_state r = DEAD"
proof -
  obtain r where r: "row_of_world sample_world = Inr r" "wr_instance_id r = u ''i''"
    and s: "sample_store = empty_store\<lparr>st_worlds := [r]\<rparr>" by (rule sample_insert)
  have st: "wr_state r = MUTABLE" using row_of_world_ids [OF r(1)] by (simp add: sample_world_def)
  obtain nm t where t: "sweep_unsupervised [] sample_store = (Inr nm, t)" using sample_sweep by blast
  show ?thesis
    using sweep_leaves_nothing_unowned [OF t] t st by (auto simp: s list_all2_Cons1 NONTERMINAL_STATES_def)
qed

text \<open>
  Appending a causal event to a store whose chains verify leaves chains that verify, with one
  event more and no receipt lost; the files of the two chains stay apart.
\<close>
theorem append_event_keeps_chain:
  assumes "append_causal_event hb now event s = (Inr ids, t)"
    and "verify_chains hb s = Inr (n, m)" and "paths_apart s"
  shows "verify_chains hb t = Inr (Suc n, m) \<and> paths_apart t"
  using append_event_verifies [OF assms] by blast

theorem append_event_keeps_chain_witness:
  "\<exists>t. verify_chains constant_hash t = Inr (1, 0) \<and> paths_apart t"
proof -
  obtain ids t where t: "append_causal_event constant_hash [] sample_event sample_store = (Inr ids, t)"
    using sample_append by blast
  obtain r where s: "sample_store = empty_store\<lparr>st_worlds := [r]\<rparr>" by (rule sample_insert)
  have "verify_chains constant_hash sample_store = Inr (0, 0)"
    by (simp add: s empty_store_def verify_chains_def)
  moreover have "paths_apart sample_store"
    by (simp add: s empty_store_def paths_apart_def u_def)
  ultimately show ?thesis using append_event_keeps_chain [OF t] by auto
qed

text \<open>
  C11. Appending a receipt to a store whose chains verify leaves chains that verify, with one receipt
  more: the stored payload, read back as JSON, names the predecessor the verifier expects.
\<close>
theorem append_receipt_keeps_chain:
  assumes "append_receipt hb now receipt s = (Inr ids, t)" and "dict_ok receipt"
    and "verify_chains hb s = Inr (n, m)" and "paths_apart s"
  shows "verify_chains hb t = Inr (n, Suc m) \<and> paths_apart t"
  using append_receipt_verifies [OF assms] by blast

theorem append_receipt_keeps_chain_witness:
  "\<exists>t. verify_chains constant_hash t = Inr (0, 1) \<and> paths_apart t"
proof -
  obtain ids t where t: "append_receipt constant_hash [] sample_receipt sample_tx_store = (Inr ids, t)"
    using sample_receipt_append by blast
  have "dict_ok sample_receipt"
    by (simp add: sample_receipt_def receipt_required_def)
  moreover have "verify_chains constant_hash sample_tx_store = Inr (0, 0)"
    by (simp add: sample_tx_store_def empty_store_def verify_chains_def)
  moreover have "paths_apart sample_tx_store"
    by (simp add: sample_tx_store_def empty_store_def paths_apart_def u_def)
  ultimately show ?thesis using append_receipt_keeps_chain [OF t] by auto
qed



end
