(* ===== verification/Base64.thy ===== *)
theory Base64
  imports Canonical_Roundtrip CoreAbi PyValue
begin

text \<open>
  The text forms of byte strings in \<open>runtime/worldline/manifest.py\<close>: base64 both ways, the lossy
  display form, and the check that a manifest path is relative and normalised. The lemmas show that
  decoding inverts encoding, and which paths are accepted.
\<close>

section \<open>Base64\<close>

text \<open>
  The functions of Python's \<open>base64\<close>: \<open>b64encode\<close> and \<open>b64decode(validate=True)\<close>, which refuses
  characters outside the alphabet, data after the padding and missing padding, but does not ask the
  unused bits of the last digit to be zero.
\<close>

definition b64_digit :: "nat \<Rightarrow> nat" where
  "b64_digit n =
     (if n < 26 then 65 + n else if n < 52 then 71 + n else if n < 62 then n - 4
      else if n = 62 then 43 else 47)"

definition b64_value :: "nat \<Rightarrow> nat option" where
  "b64_value c =
     (if 65 \<le> c \<and> c \<le> 90 then Some (c - 65) else if 97 \<le> c \<and> c \<le> 122 then Some (c - 71)
      else if 48 \<le> c \<and> c \<le> 57 then Some (c + 4) else if c = 43 then Some 62
      else if c = 47 then Some 63 else None)"

fun b64_enc :: "nat list \<Rightarrow> pystr" where
  "b64_enc [] = []"
| "b64_enc [a] = [b64_digit (a div 4), b64_digit (a mod 4 * 16), 61, 61]"
| "b64_enc [a, b] = [b64_digit (a div 4), b64_digit (a mod 4 * 16 + b div 16), b64_digit (b mod 16 * 4), 61]"
| "b64_enc (a # b # c # r) =
     [b64_digit (a div 4), b64_digit (a mod 4 * 16 + b div 16),
      b64_digit (b mod 16 * 4 + c div 64), b64_digit (c mod 64)] @ b64_enc r"

fun b64_dec :: "pystr \<Rightarrow> nat list option" where
  "b64_dec [] = Some []"
| "b64_dec (a # b # c # d # r) =
     Option.bind (b64_value a) (\<lambda>w. Option.bind (b64_value b) (\<lambda>x.
       if c = 61 then (if d = 61 \<and> r = [] then Some [w * 4 + x div 16] else None)
       else Option.bind (b64_value c) (\<lambda>y.
         if d = 61 then (if r = [] then Some [w * 4 + x div 16, x mod 16 * 16 + y div 4] else None)
         else Option.bind (b64_value d) (\<lambda>z.
           map_option (\<lambda>bs. (w * 4 + x div 16) # (x mod 16 * 16 + y div 4) # (y mod 4 * 64 + z) # bs)
             (b64_dec r)))))"
| "b64_dec _ = None"

definition b64encode :: "bytes \<Rightarrow> pystr" where
  "b64encode b = b64_enc (map of_char b)"

definition b64decode :: "pystr \<Rightarrow> bytes option" where
  "b64decode s = map_option (map char_of) (b64_dec s)"

lemma b64_value_digit: "n < 64 \<Longrightarrow> b64_value (b64_digit n) = Some n"
  by (auto simp: b64_value_def b64_digit_def)

lemma b64_digit_not_pad: "n < 64 \<Longrightarrow> b64_digit n \<noteq> 61"
  by (auto simp: b64_digit_def)

lemma pack:
  assumes "y < (m :: nat)"
  shows "(x * m + y) div m = x" and "(x * m + y) mod m = y"
  using assms by simp_all

lemma pack_less: "x < (n :: nat) \<Longrightarrow> y < m \<Longrightarrow> x * m + y < n * m"
proof -
  assume "x < n" and "y < m"
  then have "x * m + y < Suc x * m" by simp
  also have "\<dots> \<le> n * m" using \<open>x < n\<close> by (intro mult_right_mono) auto
  finally show ?thesis .
qed

lemma b64_arith:
  assumes "a < 256" and "b < (256 :: nat)" and "c < (256 :: nat)"
  shows "a div 4 * 4 + (a mod 4 * 16 + b div 16) div 16 = a"
    and "(a mod 4 * 16 + b div 16) mod 16 * 16 + (b mod 16 * 4 + c div 64) div 4 = b"
    and "(b mod 16 * 4 + c div 64) mod 4 * 64 + c mod 64 = c"
    and "a div 4 < 64" "a mod 4 * 16 + b div 16 < 64" "b mod 16 * 4 + c div 64 < 64"
proof -
  have b: "b div 16 < 16" and c: "c div 64 < 4" using assms by (simp_all add: div_less_iff_less_mult)
  show "a div 4 * 4 + (a mod 4 * 16 + b div 16) div 16 = a" using pack [OF b] by simp
  show "(a mod 4 * 16 + b div 16) mod 16 * 16 + (b mod 16 * 4 + c div 64) div 4 = b"
    using pack [OF b] pack [OF c] by simp
  show "(b mod 16 * 4 + c div 64) mod 4 * 64 + c mod 64 = c" using pack [OF c] by simp
  show "a div 4 < 64" using assms by (simp add: div_less_iff_less_mult)
  show "a mod 4 * 16 + b div 16 < 64" using pack_less [of "a mod 4" 4 "b div 16" 16] b by simp
  show "b mod 16 * 4 + c div 64 < 64" using pack_less [of "b mod 16" 16 "c div 64" 4] c by simp
qed

lemma b64_dec_enc: "\<forall>b \<in> set bs. b < 256 \<Longrightarrow> b64_dec (b64_enc bs) = Some bs"
proof (induction bs rule: b64_enc.induct)
  case (2 a)
  then show ?case using b64_arith [of a 0 0] by (simp add: b64_value_digit b64_digit_not_pad)
next
  case (3 a b)
  then show ?case using b64_arith [of a b 0] by (simp add: b64_value_digit b64_digit_not_pad)
next
  case (4 a b c r)
  then have d: "b div 16 mod 16 = b div 16" "c div 64 mod 4 = c div 64"
      "b div 16 div 16 = 0" "c div 64 div 4 = 0"
    by (simp_all add: div_less_iff_less_mult)
  show ?case using 4 b64_arith(4-6) [of a b c] by (simp add: d b64_value_digit b64_digit_not_pad)
qed simp

lemma b64decode_encode [simp]: "b64decode (b64encode b) = Some b"
proof -
  have "\<forall>n \<in> set (map of_char b :: nat list). n < 256" using of_char_nat_bound by auto
  from b64_dec_enc [OF this] show ?thesis
    by (simp add: b64decode_def b64encode_def comp_def)
qed

lemma b64encode_inj [simp]: "b64encode a = b64encode b \<longleftrightarrow> a = b"
  by (metis b64decode_encode option.inject)

section \<open>Display\<close>

text \<open>
  \<open>bytes.decode("utf-8", "replace")\<close>: each maximal prefix of an ill-formed sequence becomes one
  U+FFFD.
\<close>

definition second_ok :: "nat \<Rightarrow> nat \<Rightarrow> bool" where
  "second_ok a b \<longleftrightarrow>
     (if a = 0xE0 then 0xA0 \<le> b \<and> b \<le> 0xBF else if a = 0xED then 0x80 \<le> b \<and> b \<le> 0x9F
      else if a = 0xF0 then 0x90 \<le> b \<and> b \<le> 0xBF else if a = 0xF4 then 0x80 \<le> b \<and> b \<le> 0x8F
      else is_cont b)"

fun utf8_replace :: "nat list \<Rightarrow> pystr" where
  "utf8_replace [] = []"
| "utf8_replace (a # r) =
     (if a < 0x80 then a # utf8_replace r
      else if 0xC2 \<le> a \<and> a < 0xF5 then
        (case r of
           [] \<Rightarrow> [0xFFFD]
         | b # r1 \<Rightarrow>
             if \<not> second_ok a b then 0xFFFD # utf8_replace r
             else if a < 0xE0 then ((a - 0xC0) * 64 + (b - 0x80)) # utf8_replace r1
             else (case r1 of
                 [] \<Rightarrow> [0xFFFD]
               | c # r2 \<Rightarrow>
                   if \<not> is_cont c then 0xFFFD # utf8_replace r1
                   else if a < 0xF0
                     then ((a - 0xE0) * 4096 + (b - 0x80) * 64 + (c - 0x80)) # utf8_replace r2
                   else (case r2 of
                       [] \<Rightarrow> [0xFFFD]
                     | d # r3 \<Rightarrow>
                         if \<not> is_cont d then 0xFFFD # utf8_replace r2
                         else ((a - 0xF0) * 262144 + (b - 0x80) * 4096 + (c - 0x80) * 64 + (d - 0x80))
                                # utf8_replace r3)))
      else 0xFFFD # utf8_replace r)"

definition display_path :: "bytes \<Rightarrow> pystr" where
  "display_path v = (if v = [] then u ''.'' else utf8_replace (map of_char v))"

text \<open>The display form can always be written as canonical JSON.\<close>

definition scalar :: "nat \<Rightarrow> bool" where
  "scalar c \<longleftrightarrow> c < 0x110000 \<and> \<not> surrogate c"

lemma scalar2: "a < 0xE0 \<Longrightarrow> is_cont b \<Longrightarrow> scalar ((a - 0xC0) * 64 + (b - 0x80))"
proof -
  assume "a < 0xE0" and "is_cont b"
  then have "(a - 0xC0) * 64 \<le> 31 * 64" and "b - 0x80 < 64" by (auto simp: is_cont_def)
  then have "(a - 0xC0) * 64 + (b - 0x80) < 0xD800" by linarith
  then show ?thesis by (simp add: scalar_def surrogate_def)
qed

lemma scalar3:
  assumes "a < 0xF0" and "second_ok a b" and "is_cont c"
  shows "scalar ((a - 0xE0) * 4096 + (b - 0x80) * 64 + (c - 0x80))"
proof (cases "a = 0xED")
  case True
  then have "(b - 0x80) * 64 \<le> 31 * 64" and "c - 0x80 < 64" using assms by (auto simp: second_ok_def is_cont_def)
  then have "(b - 0x80) * 64 + (c - 0x80) < 0x800" by linarith
  with True show ?thesis unfolding scalar_def surrogate_def by linarith
next
  case False
  then consider "a < 0xED" | "0xED < a" by linarith
  then show ?thesis
  proof cases
    case 1
    then have "b < 0xC0" using assms by (auto simp: second_ok_def is_cont_def split: if_splits)
    then have "(a - 0xE0) * 4096 \<le> 12 * 4096" "(b - 0x80) * 64 \<le> 63 * 64" "c - 0x80 < 64"
      using 1 assms by (auto simp: is_cont_def)
    then have "(a - 0xE0) * 4096 + (b - 0x80) * 64 + (c - 0x80) < 0xD800" by linarith
    then show ?thesis by (simp add: scalar_def surrogate_def)
  next
    case 2
    then have "b < 0xC0" using assms by (auto simp: second_ok_def is_cont_def split: if_splits)
    then have "(a - 0xE0) * 4096 \<le> 15 * 4096" "(b - 0x80) * 64 \<le> 63 * 64" "c - 0x80 < 64"
      using assms by (auto simp: is_cont_def)
    then have "(a - 0xE0) * 4096 + (b - 0x80) * 64 + (c - 0x80) < 0x110000" by linarith
    moreover have "0xE000 \<le> (a - 0xE0) * 4096" using 2 by simp
    ultimately show ?thesis by (simp add: scalar_def surrogate_def)
  qed
qed

lemma scalar4:
  assumes "0xF0 \<le> a" and "a < 0xF5" and "second_ok a b" and "is_cont c" and "is_cont d"
  shows "scalar ((a - 0xF0) * 262144 + (b - 0x80) * 4096 + (c - 0x80) * 64 + (d - 0x80))"
proof -
  have "(c - 0x80) * 64 \<le> 63 * 64" and "d - 0x80 < 64" using assms by (auto simp: is_cont_def)
  then have c: "(c - 0x80) * 64 + (d - 0x80) < 4096" by linarith
  consider "a = 0xF0" "0x90 \<le> b" "b \<le> 0xBF" | "0xF1 \<le> a" "a \<le> 0xF3" "b \<le> 0xBF" | "a = 0xF4" "b \<le> 0x8F"
    using assms by (auto simp: second_ok_def is_cont_def split: if_splits)
  then show ?thesis
  proof cases
    case 1
    then have "0x10 * 4096 \<le> (b - 0x80) * 4096" "(b - 0x80) * 4096 \<le> 63 * 4096" by auto
    with 1 c show ?thesis unfolding scalar_def surrogate_def by linarith
  next
    case 2
    then have "262144 \<le> (a - 0xF0) * 262144" "(a - 0xF0) * 262144 \<le> 3 * 262144"
      "(b - 0x80) * 4096 \<le> 63 * 4096" by auto
    with c show ?thesis unfolding scalar_def surrogate_def by linarith
  next
    case 3
    then have "(b - 0x80) * 4096 \<le> 15 * 4096" by auto
    with 3 c show ?thesis unfolding scalar_def surrogate_def by linarith
  qed
qed

lemma encodable_scalar: "encodable (c # s) \<longleftrightarrow> scalar c \<and> encodable s"
  by (simp add: scalar_def)

lemma second_cont: "0xC2 \<le> a \<Longrightarrow> a < 0xE0 \<Longrightarrow> second_ok a b \<Longrightarrow> is_cont b"
  by (auto simp: second_ok_def split: if_splits)

lemma scalar_fffd: "scalar 0xFFFD" "a < 0x80 \<Longrightarrow> scalar a"
  by (simp_all add: scalar_def surrogate_def)

lemma encodable_utf8_replace: "encodable (utf8_replace bs)"
proof (induction bs rule: utf8_replace.induct)
  case (2 a r)
  then show ?case
    by (auto simp: encodable_scalar scalar_fffd scalar2 scalar3 scalar4 second_cont not_less
        simp del: encodable_Cons split: list.splits)
qed simp

lemma encodable_display [simp]: "encodable (display_path v)"
  by (simp add: display_path_def encodable_utf8_replace)

section \<open>Relative paths\<close>

abbreviation slash :: char where "slash \<equiv> CHR ''/''"
abbreviation dot :: char where "dot \<equiv> CHR ''.''"

definition validate_relative :: "bytes \<Rightarrow> unit res" where
  "validate_relative v =
     rbind (ensure (\<not> (CHR 0x00 \<in> set v \<or> prefixed v [slash])) (WL ''PATH_ESCAPE'')) (\<lambda>_.
     if v = [] then Inr ()
     else ensure (\<not> list_ex (\<lambda>p. p \<in> {[], [dot], [dot, dot]}) (split_on slash v)) (WL ''PATH_ESCAPE''))"

definition path_b64 :: "bytes \<Rightarrow> pystr" where
  "path_b64 v = b64encode v"

definition path_from_b64 :: "pystr \<Rightarrow> bytes res" where
  "path_from_b64 s =
     rbind (ensure (list_all (\<lambda>c. c < 128) s) (WL ''INVALID_PATH_ENCODING'')) (\<lambda>_.
     rbind (req (WL ''INVALID_PATH_ENCODING'') (b64decode s)) (\<lambda>raw.
     rbind (validate_relative raw) (\<lambda>_. Inr raw)))"

text \<open>A manifest path: empty for the root, otherwise clean names joined by slashes.\<close>

definition name_ok :: "bytes \<Rightarrow> bool" where
  "name_ok n \<longleftrightarrow> clean_part dot n \<and> slash \<notin> set n \<and> CHR 0x00 \<notin> set n"

lemma validate_relative_Inr:
  "validate_relative v = Inr x \<longleftrightarrow> v = [] \<or> (\<forall>n \<in> set (split_on slash v). name_ok n)"
proof (cases v)
  case Nil
  then show ?thesis by (simp add: validate_relative_def prefixed_def)
next
  case (Cons c w)
  have j: "set v \<subseteq> {slash} \<union> \<Union> (set ` set (split_on slash v))"
  proof -
    have "set (join_on slash ps) \<subseteq> {slash} \<union> \<Union> (set ` set ps)" for ps
      by (induction ps rule: join_on.induct) auto
    from this [of "split_on slash v"] show ?thesis by (simp add: join_split)
  qed
  have s: "n \<in> set (split_on slash v) \<Longrightarrow> set n \<subseteq> set v" for n
  proof -
    have "n \<in> set ps \<Longrightarrow> set n \<subseteq> set (join_on slash ps)" for ps
      by (induction ps rule: join_on.induct) auto
    then show "n \<in> set (split_on slash v) \<Longrightarrow> set n \<subseteq> set v" by (metis join_split)
  qed
  have p: "prefixed v [slash] \<Longrightarrow> [] \<in> set (split_on slash v)"
    by (simp add: Cons prefixed_def)
  have "validate_relative v = Inr x \<longleftrightarrow> CHR 0x00 \<notin> set v \<and> \<not> prefixed v [slash]
      \<and> (\<forall>n \<in> set (split_on slash v). clean_part dot n)"
    using Cons by (auto simp: validate_relative_def res_iffs list_ex_iff clean_part_def)
  also have "\<dots> \<longleftrightarrow> (\<forall>n \<in> set (split_on slash v). name_ok n)"
    using j s p split_on_no_sep [of _ slash v] unfolding name_ok_def
    by (auto simp: clean_part_def)
  finally show ?thesis using Cons by simp
qed

lemma b64_digit_ascii: "n < 64 \<Longrightarrow> b64_digit n < 128"
  by (auto simp: b64_digit_def)

lemma b64_enc_ascii: "\<forall>b \<in> set bs. b < 256 \<Longrightarrow> \<forall>c \<in> set (b64_enc bs). c < 128"
proof (induction bs rule: b64_enc.induct)
  case (2 a)
  then show ?case using b64_arith [of a 0 0] by (simp add: b64_digit_ascii)
next
  case (3 a b)
  then show ?case using b64_arith [of a b 0] by (simp add: b64_digit_ascii)
next
  case (4 a b c r)
  then show ?case using b64_arith [of a b c] by (simp add: b64_digit_ascii)
qed simp

lemma b64encode_ascii: "c \<in> set (b64encode b) \<Longrightarrow> c < 128"
  using b64_enc_ascii [of "map of_char b"] of_char_nat_bound by (auto simp: b64encode_def)

lemma encodable_path_b64 [simp]: "encodable (path_b64 v)"
  using b64encode_ascii by (fastforce simp: encodable_def path_b64_def surrogate_def)

lemma path_from_b64_path_b64 [simp]:
  "path_from_b64 (path_b64 v) = rbind (validate_relative v) (\<lambda>_. Inr v)"
  using b64encode_ascii by (simp add: path_from_b64_def path_b64_def list_all_iff)

lemma path_from_b64_Inr:
  "path_from_b64 s = Inr v \<longleftrightarrow> (\<forall>c \<in> set s. c < 128) \<and> b64decode s = Some v \<and> validate_relative v = Inr ()"
  by (auto simp: path_from_b64_def res_iffs list_all_iff)

text \<open>
  The message says canonical base64, but two texts can name one path: the unused bits of the last
  digit are not checked.
\<close>

lemma path_text_not_unique:
  "path_from_b64 (u ''YQ=='') = Inr ''a'' \<and> path_from_b64 (u ''YR=='') = Inr ''a'' \<and> u ''YQ=='' \<noteq> u ''YR==''"
proof -
  have "u ''YQ=='' = [89, 81, 61, 61]" "u ''YR=='' = [89, 82, 61, 61]" by (simp_all add: u_def)
  moreover have "b64decode [89, 81, 61, 61] = Some ''a''" "b64decode [89, 82, 61, 61] = Some ''a''"
    by (simp_all add: b64decode_def b64_value_def char_of_eq_iff take_bit_eq_mod)
  moreover have "validate_relative ''a'' = Inr ()" by (simp add: validate_relative_def prefixed_def)
  ultimately show ?thesis by (simp add: path_from_b64_def)
qed

end
