(* ===== verification/Manifest.thy ===== *)
theory Manifest
  imports Base64 "HOL-Library.Multiset"
begin

text \<open>
  \<open>runtime/worldline/manifest.py\<close>: the capture of a directory tree as a canonical manifest, its
  loading, the check of a payload against it, and the hashes over several manifests. A tree is a
  \<open>node\<close>: what \<open>lstat\<close>, \<open>scandir\<close>, \<open>readlink\<close>, \<open>listxattr\<close> and reading a file return. Every entry is
  the JSON dictionary the source builds; \<open>hb\<close> is the byte hash of the library, also of a file's bytes.
\<close>

section \<open>Trees\<close>

text \<open>\<open>fi_xattrs\<close> is \<open>None\<close> where the filesystem cannot enumerate extended attributes.\<close>

record finfo =
  fi_mode :: int
  fi_mtime :: int
  fi_xattrs :: "(bytes \<times> bytes) list option"
  fi_dev :: int
  fi_ino :: int
  fi_nlink :: int

datatype node =
    NFile finfo bytes
  | NDir finfo "(bytes \<times> node) list"
  | NLink finfo bytes
  | NSpecial finfo

fun node_info :: "node \<Rightarrow> finfo" where
  "node_info (NFile i b) = i"
| "node_info (NDir i cs) = i"
| "node_info (NLink i t) = i"
| "node_info (NSpecial i) = i"

definition ACL_NAMES :: "bytes set" where
  "ACL_NAMES = {''system.posix_acl_access'', ''system.posix_acl_default''}"

definition xattr_item :: "bytes \<times> bytes \<Rightarrow> pyval" where
  "xattr_item nv = pdict [(u ''nameB64'', PStr (path_b64 (fst nv))), (u ''valueB64'', PStr (path_b64 (snd nv)))]"

definition xattrs :: "finfo \<Rightarrow> (pyval list \<times> pyval list) res" where
  "xattrs i =
     rbind (req (WL ''XATTR_UNAVAILABLE'') (fi_xattrs i)) (\<lambda>names.
     let normalized = sort_key fst names
     in Inr (map xattr_item normalized, map xattr_item (filter (\<lambda>nv. fst nv \<in> ACL_NAMES) normalized)))"

definition metadata :: "finfo \<Rightarrow> pyval list \<times> pyval list \<Rightarrow> (pystr \<times> pyval) list" where
  "metadata i xa = [(u ''mode'', PInt (fi_mode i)), (u ''mtimeNs'', PInt (fi_mtime i)),
     (u ''xattrs'', PList (fst xa)), (u ''acls'', PList (snd xa))]"

section \<open>Symbolic links\<close>

definition link_parts :: "bytes \<Rightarrow> bytes list" where
  "link_parts target = filter (\<lambda>p. p \<notin> {[], [dot]}) (split_on slash target)"

definition safe_symlink_target :: "bytes \<Rightarrow> bytes \<Rightarrow> unit res" where
  "safe_symlink_target relative target =
     rbind (ensure (\<not> (CHR 0x00 \<in> set target \<or> prefixed target [slash])) (WL ''EXTERNAL_SYMLINK'')) (\<lambda>_.
     rbind (ensure (dotdot dot \<notin> set (dropWhile (\<lambda>p. p = dotdot dot) (link_parts target)))
       (WL ''EXTERNAL_SYMLINK'')) (\<lambda>_.
     let resolved = normpath slash dot (path_join slash (dirname slash relative) target)
     in ensure (\<not> (resolved = dotdot dot \<or> prefixed resolved ''../'' \<or> prefixed resolved [slash]))
          (WL ''EXTERNAL_SYMLINK'')))"

section \<open>Capture\<close>

definition child_path :: "bytes \<Rightarrow> bytes \<Rightarrow> bytes" where
  "child_path directory name = (if directory = [] then name else directory @ slash # name)"

text \<open>One scanned child: its entry, and the inode and link count of a regular file.\<close>

record scanned =
  sc_path :: bytes
  sc_fields :: "(pystr \<times> pyval) list"
  sc_inode :: "(int \<times> int) option"
  sc_nlink :: int

definition scan_node :: "(bytes \<Rightarrow> bytes) \<Rightarrow> bytes set \<Rightarrow> int \<Rightarrow> bytes \<Rightarrow> node \<Rightarrow> scanned res" where
  "scan_node hb allow device relative n =
     (let info = node_info n in
     rbind (ensure (fi_dev info = device) (WL ''CROSS_DEVICE_ENTRY'')) (\<lambda>_.
     rbind (xattrs info) (\<lambda>xa.
     let entry = [(u ''pathB64'', PStr (path_b64 relative)), (u ''pathDisplay'', PStr (display_path relative))]
           @ metadata info xa;
         plain = (\<lambda>fields. \<lparr>sc_path = relative, sc_fields = entry @ fields, sc_inode = None, sc_nlink = 0\<rparr>)
     in case n of
       NFile _ content \<Rightarrow>
         rbind (hash_id (hb content)) (\<lambda>digest.
         Inr (plain [(u ''type'', PStr (u ''file'')), (u ''size'', PInt (int (length content))),
                     (u ''contentHash'', PStr digest), (u ''hardLinkGroup'', PNone)]
              \<lparr>sc_inode := Some (fi_dev info, fi_ino info), sc_nlink := fi_nlink info\<rparr>))
     | NDir _ _ \<Rightarrow> Inr (plain [(u ''type'', PStr (u ''directory''))])
     | NLink _ target \<Rightarrow>
         rbind (if relative \<in> allow then Inr () else safe_symlink_target relative target) (\<lambda>_.
         Inr (plain [(u ''type'', PStr (u ''symlink'')), (u ''targetB64'', PStr (path_b64 target)),
                     (u ''targetDisplay'', PStr (display_path target))]))
     | NSpecial _ \<Rightarrow> Inl (WL ''UNSUPPORTED_SPECIAL_FILE''))))"

definition scan_child :: "(bytes \<Rightarrow> bytes) \<Rightarrow> bytes set \<Rightarrow> int \<Rightarrow> bytes \<Rightarrow> bytes \<times> node \<Rightarrow> scanned res" where
  "scan_child hb allow device directory child =
     (let name = fst child; relative = child_path directory name in
     rbind (ensure (\<not> (name \<in> {[], [dot], dotdot dot} \<or> slash \<in> set name \<or> CHR 0x00 \<in> set name))
       (WL ''PATH_ESCAPE'')) (\<lambda>_.
     rbind (validate_relative relative) (\<lambda>_.
     scan_node hb allow device relative (snd child))))"

definition subdirectories :: "bytes \<Rightarrow> (bytes \<times> node) list \<Rightarrow> (bytes \<times> (bytes \<times> node) list) list" where
  "subdirectories directory children =
     concat (map (\<lambda>(name, n). case n of NDir _ cs \<Rightarrow> [(child_path directory name, cs)] | _ \<Rightarrow> []) children)"

fun node_size :: "node \<Rightarrow> nat" where
  "node_size (NDir i cs) = Suc (sum_list (map (\<lambda>(name, n). node_size n) cs))"
| "node_size _ = 1"

definition work_size :: "(bytes \<times> (bytes \<times> node) list) list \<Rightarrow> nat" where
  "work_size work = sum_list (map (\<lambda>(d, cs). Suc (sum_list (map (\<lambda>(name, n). node_size n) cs))) work)"

lemma work_size_simps [simp]:
  "work_size [] = 0"
  "work_size ((d, cs) # w) = Suc (sum_list (map (\<lambda>(name, n). node_size n) cs)) + work_size w"
  "work_size (v @ w) = work_size v + work_size w"
  by (simp_all add: work_size_def)

lemma work_size_subdirectories:
  "work_size (subdirectories d cs) \<le> sum_list (map (\<lambda>(name, n). node_size n) cs)"
  by (induction cs) (auto simp: subdirectories_def split: node.splits)

lemma sum_list_sort_key: "sum_list (map f (sort_key k xs)) = sum_list (map f (xs :: 'a list)) " for f :: "'a \<Rightarrow> nat"
  by (metis mset_map mset_sort sum_mset_sum_list)

function capture_walk ::
    "(bytes \<Rightarrow> bytes) \<Rightarrow> bytes set \<Rightarrow> int \<Rightarrow> (bytes \<times> (bytes \<times> node) list) list \<Rightarrow> scanned list res" where
  "capture_walk hb allow device [] = Inr []"
| "capture_walk hb allow device ((directory, children) # work) =
     (let ordered = sort_key fst children in
     rbind (rmap (scan_child hb allow device directory) ordered) (\<lambda>entries.
     rbind (capture_walk hb allow device (subdirectories directory ordered @ work)) (\<lambda>more.
     Inr (entries @ more))))"
  by pat_completeness auto
termination
proof (relation "measure (\<lambda>(hb, allow, device, work). work_size work)", goal_cases)
  case (2 hb allow device directory children work ordered x)
  then show ?case
    using work_size_subdirectories [of directory ordered]
    by (simp add: sum_list_sort_key)
qed simp

text \<open>
  The hard links: every name of an inode must have been found, and the names of one inode share a
  group. Inodes come in the order the walk met them.
\<close>

definition inodes :: "scanned list \<Rightarrow> (int \<times> int) list" where
  "inodes es = rev (remdups (rev (concat (map (\<lambda>e. case sc_inode e of None \<Rightarrow> [] | Some i \<Rightarrow> [i]) es))))"

definition link_group :: "(bytes \<Rightarrow> bytes) \<Rightarrow> scanned list \<Rightarrow> int \<times> int \<Rightarrow> ((int \<times> int) \<times> pyval) res" where
  "link_group hb es inode =
     (let members = filter (\<lambda>e. sc_inode e = Some inode) es in
     rbind (ensure (sc_nlink (hd members) = int (length members)) (WL ''EXTERNAL_HARDLINK'')) (\<lambda>_.
     if length members > 1 then
       rbind (canonical_bytes (PList (map (\<lambda>p. PStr (path_b64 p)) (sort (map sc_path members))))) (\<lambda>names.
       rbind (hash_id (hb (''worldline-hardlink-v1'' @ names))) (\<lambda>group.
       Inr (inode, PStr group)))
     else Inr (inode, PNone)))"

definition entry_value :: "((int \<times> int) \<times> pyval) list \<Rightarrow> scanned \<Rightarrow> pyval" where
  "entry_value groups e =
     (case sc_inode e of
        None \<Rightarrow> pdict (sc_fields e)
      | Some i \<Rightarrow> (case dget groups i of
           Some (PStr g) \<Rightarrow> pdict (dset (u ''hardLinkGroup'') (PStr g) (sc_fields e))
         | _ \<Rightarrow> pdict (sc_fields e)))"

record captured =
  cm_value :: pyval
  cm_canonical :: bytes
  cm_root :: pystr

definition manifest_hash :: "(bytes \<Rightarrow> bytes) \<Rightarrow> bytes \<Rightarrow> pystr res" where
  "manifest_hash hb data = hash_id (hb (''worldline-manifest-v1'' @ data))"

definition capture ::
    "(bytes \<Rightarrow> bytes) \<Rightarrow> bytes set \<Rightarrow> bytes \<Rightarrow> pystr \<Rightarrow> pystr \<Rightarrow> pyval \<Rightarrow> node \<Rightarrow> captured res" where
  "capture hb allow logical_root root_key kind repository tree =
     (case tree of
       NDir info children \<Rightarrow>
         rbind (xattrs info) (\<lambda>root_xattrs.
         rbind (capture_walk hb allow (fi_dev info) [([], children)]) (\<lambda>es.
         rbind (rmap (link_group hb es) (inodes es)) (\<lambda>groups.
         let value = pdict [
           (u ''schemaVersion'', PInt 1),
           (u ''rootKey'', PStr root_key),
           (u ''kind'', PStr kind),
           (u ''rootPathB64'', PStr (path_b64 logical_root)),
           (u ''rootPathDisplay'', PStr (display_path logical_root)),
           (u ''rootMetadata'', pdict (metadata info root_xattrs)),
           (u ''entries'', PList (map (entry_value groups) (sort_key sc_path es))),
           (u ''repository'', repository)]
         in rbind (canonical_bytes value) (\<lambda>encoded.
         rbind (manifest_hash hb encoded) (\<lambda>root_hash.
         Inr \<lparr>cm_value = value, cm_canonical = encoded, cm_root = root_hash\<rparr>)))))
     | _ \<Rightarrow> Inl (WL ''UNSUPPORTED_ROOT''))"

section \<open>Loading and entries\<close>

text \<open>A value used as text: \<open>.encode\<close> on anything else is an \<open>AttributeError\<close>.\<close>

definition str_item :: "pyval \<Rightarrow> pystr \<Rightarrow> pystr res" where
  "str_item d k = rbind (pitem d k) (\<lambda>v. case v of PStr s \<Rightarrow> Inr s | _ \<Rightarrow> Inl AttributeError)"

definition entry_path :: "pyval \<Rightarrow> bytes res" where
  "entry_path e = rbind (str_item e (u ''pathB64'')) path_from_b64"

definition entry_list :: "pyval \<Rightarrow> pyval list res" where
  "entry_list value = rbind (pitem value (u ''entries'')) piter"

definition entry_map :: "captured \<Rightarrow> (bytes \<times> pyval) list res" where
  "entry_map m =
     rbind (entry_list (cm_value m)) (\<lambda>entries.
     rbind (rmap (\<lambda>e. rbind (entry_path e) (\<lambda>p. Inr (p, e))) entries) (\<lambda>kvs.
     Inr (dbuild kvs)))"

definition manifest_fields :: "pystr list" where
  "manifest_fields = [u ''schemaVersion'', u ''rootKey'', u ''kind'', u ''rootPathB64'',
     u ''rootPathDisplay'', u ''rootMetadata'', u ''entries'', u ''repository'']"

definition load :: "(bytes \<Rightarrow> bytes) \<Rightarrow> bytes \<Rightarrow> captured res" where
  "load hb data =
     rbind (parse_canonical data) (\<lambda>value.
     case value of
       PDict kvs \<Rightarrow>
         rbind (pget value (u ''schemaVersion'') PNone) (\<lambda>version.
         rbind (ensure (eq_int version 1) (WL ''INVALID_MANIFEST'')) (\<lambda>_.
         rbind (ensure (set (map fst kvs) = set (map PStr manifest_fields)) (WL ''INVALID_MANIFEST'')) (\<lambda>_.
         rbind (pitem value (u ''entries'')) (\<lambda>entries.
         case entries of
           PList es \<Rightarrow>
             rbind (rmap entry_path es) (\<lambda>_.
             rbind (manifest_hash hb data) (\<lambda>root_hash.
             Inr \<lparr>cm_value = value, cm_canonical = data, cm_root = root_hash\<rparr>))
         | _ \<Rightarrow> Inl (WL ''INVALID_MANIFEST'')))))
     | _ \<Rightarrow> Inl (WL ''INVALID_MANIFEST''))"

section \<open>Checking a payload\<close>

text \<open>Every node below a directory with its path from the root: what \<open>os.walk\<close> observes.\<close>

fun nodes_of :: "bytes \<Rightarrow> node \<Rightarrow> (bytes \<times> node) list" where
  "nodes_of path (NDir i cs) =
     (path, NDir i cs) # concat (map (\<lambda>(name, n). nodes_of (child_path path name) n) cs)"
| "nodes_of path n = [(path, n)]"

definition nodes_below :: "bytes \<Rightarrow> (bytes \<times> node) list \<Rightarrow> (bytes \<times> node) list" where
  "nodes_below path cs = concat (map (\<lambda>(name, n). nodes_of (child_path path name) n) cs)"

definition children_of :: "node \<Rightarrow> (bytes \<times> node) list" where
  "children_of n = (case n of NDir _ cs \<Rightarrow> cs | _ \<Rightarrow> [])"

definition failed :: exc where
  "failed = WL ''PAYLOAD_INTEGRITY_FAILED''"

definition verify_file ::
    "(bytes \<Rightarrow> bytes) \<Rightarrow> pyval \<Rightarrow> node \<Rightarrow> (pyval \<times> int \<times> int) list \<Rightarrow> (pyval \<times> int \<times> int) list res" where
  "verify_file hb entry n groups =
     (case n of
       NFile i content \<Rightarrow>
         rbind (hash_id (hb content)) (\<lambda>digest.
         rbind (pitem entry (u ''contentHash'')) (\<lambda>expected.
         rbind (ensure (expected = PStr digest) failed) (\<lambda>_.
         rbind (pitem entry (u ''hardLinkGroup'')) (\<lambda>group.
         if group = PNone then Inr groups
         else rbind (ensure (case dget groups group of None \<Rightarrow> True | Some inode \<Rightarrow> inode = (fi_dev i, fi_ino i)) failed)
           (\<lambda>_. Inr (dset group (fi_dev i, fi_ino i) groups))))))
     | _ \<Rightarrow> Inl failed)"

text \<open>\<open>os.readlink\<close> comes before the test for a link: on any other node it is an \<open>OSError\<close>.\<close>

definition verify_link :: "pyval \<Rightarrow> node \<Rightarrow> unit res" where
  "verify_link entry n =
     (case n of
       NLink _ target \<Rightarrow>
         rbind (pitem entry (u ''targetB64'')) (\<lambda>expected. ensure (expected = PStr (path_b64 target)) failed)
     | _ \<Rightarrow> Inl OSError)"

definition verify_entry ::
    "(bytes \<Rightarrow> bytes) \<Rightarrow> (bytes \<times> node) list \<Rightarrow> bytes \<times> pyval \<Rightarrow> (pyval \<times> int \<times> int) list
       \<Rightarrow> (pyval \<times> int \<times> int) list res" where
  "verify_entry hb observed item groups =
     (let entry = snd item in
     rbind (req KeyError (dget observed (fst item))) (\<lambda>n.
     rbind (pitem entry (u ''type'')) (\<lambda>type.
     if eq_str type (u ''file'') then verify_file hb entry n groups
     else if eq_str type (u ''directory'')
       then rbind (ensure (case n of NDir _ _ \<Rightarrow> True | _ \<Rightarrow> False) failed) (\<lambda>_. Inr groups)
     else if eq_str type (u ''symlink'') then rbind (verify_link entry n) (\<lambda>_. Inr groups)
     else Inl (WL ''INVALID_MANIFEST''))))"

definition verify_content :: "(bytes \<Rightarrow> bytes) \<Rightarrow> captured \<Rightarrow> node \<Rightarrow> unit res" where
  "verify_content hb m tree =
     rbind (entry_map m) (\<lambda>expected.
     let observed = dbuild (nodes_below [] (children_of tree)) in
     rbind (ensure (set (dkeys observed) = set (dkeys expected)) failed) (\<lambda>_.
     rbind (rfold (verify_entry hb observed) expected []) (\<lambda>_. Inr ())))"

section \<open>Several manifests\<close>

definition component_names :: "(pystr \<times> pystr) list" where
  "component_names = [(u ''filesystem'', u ''filesystem''), (u ''config'', u ''config''), (u ''repo'', u ''repository'')]"

definition components_in_order :: "pystr list" where
  "components_in_order = [u ''filesystem'', u ''config'', u ''repository'']"

text \<open>The pair a manifest contributes: the value of its \<open>rootKey\<close> and its hash, sorted by the key.\<close>

definition root_pair :: "captured \<Rightarrow> (pystr \<times> pystr) res" where
  "root_pair m = rbind (str_item (cm_value m) (u ''rootKey'')) (\<lambda>k. Inr (k, cm_root m))"

definition pairs_value :: "(pystr \<times> pystr) list \<Rightarrow> pyval" where
  "pairs_value ps =
     PList (map (\<lambda>(k, r). pdict [(u ''rootKey'', PStr k), (u ''manifestRoot'', PStr r)]) (sort_key fst ps))"

definition component_roots :: "(bytes \<Rightarrow> bytes) \<Rightarrow> captured list \<Rightarrow> (pystr \<times> pystr) list res" where
  "component_roots hb manifests =
     rbind (rmap (\<lambda>m.
       rbind (pitem (cm_value m) (u ''kind'')) (\<lambda>kind.
       rbind (case kind of PStr k \<Rightarrow> req KeyError (dget component_names k)
         | PList _ \<Rightarrow> Inl TypeError | PDict _ \<Rightarrow> Inl TypeError | _ \<Rightarrow> Inl KeyError) (\<lambda>component.
       rbind (root_pair m) (\<lambda>pair. Inr (component, pair))))) manifests) (\<lambda>grouped.
     rmap (\<lambda>component.
       rbind (canonical_bytes (pairs_value (map snd (filter (\<lambda>g. fst g = component) grouped)))) (\<lambda>encoded.
       rbind (hash_id (hb (''worldline-'' @ map char_of component @ ''-component-v1'' @ encoded))) (\<lambda>digest.
       Inr (component, digest)))) components_in_order)"

definition root_set_hash :: "(bytes \<Rightarrow> bytes) \<Rightarrow> captured list \<Rightarrow> pystr res" where
  "root_set_hash hb manifests =
     rbind (rmap root_pair manifests) (\<lambda>ps.
     rbind (canonical_bytes (pairs_value ps)) (\<lambda>encoded.
     hash_id (hb (''worldline-root-manifests-v1'' @ encoded))))"

section \<open>Repository facts\<close>

text \<open>
  \<open>b64decode(validate=False)\<close>: characters outside the alphabet are skipped, data after a completed
  padding is ignored. \<open>q\<close> is the position in the group, \<open>left\<close> the bits carried over, \<open>pads\<close> the
  padding characters seen in a row.
\<close>

fun b64_lenient :: "nat \<Rightarrow> nat \<Rightarrow> nat \<Rightarrow> pystr \<Rightarrow> nat list option" where
  "b64_lenient q left pads [] = (if q = 0 then Some [] else None)"
| "b64_lenient q left pads (c # s) =
     (if c = 61 then
        (if 2 \<le> q \<and> 4 \<le> q + pads + 1 then Some [] else b64_lenient q left (if 2 \<le> q then pads + 1 else pads) s)
      else (case b64_value c of
          None \<Rightarrow> b64_lenient q left pads s
        | Some v \<Rightarrow>
            if q = 0 then b64_lenient 1 v 0 s
            else if q = 1 then map_option ((#) (left * 4 + v div 16)) (b64_lenient 2 (v mod 16) 0 s)
            else if q = 2 then map_option ((#) (left * 16 + v div 4)) (b64_lenient 3 (v mod 4) 0 s)
            else map_option ((#) (left * 64 + v)) (b64_lenient 0 0 0 s)))"

definition b64decode_lenient :: "pystr \<Rightarrow> bytes res" where
  "b64decode_lenient s =
     rbind (ensure (list_all (\<lambda>c. c < 128) s) ValueError) (\<lambda>_.
     req ValueError (map_option (map char_of) (b64_lenient 0 0 0 s)))"

definition status_entries :: "bytes \<Rightarrow> bytes list" where
  "status_entries status =
     filter (\<lambda>item. item \<noteq> [] \<and> \<not> prefixed item ''# '') (split_on (CHR 0x00) status)"

text \<open>
  The facts of one root: \<open>file\<close> is the manifest file of a root key, if it is a file. A manifest that
  does not load (a \<open>WorldlineError\<close>) or has no repository section contributes nothing.
\<close>

definition root_facts ::
    "(bytes \<Rightarrow> bytes) \<Rightarrow> (pystr \<Rightarrow> bytes option) \<Rightarrow> pyval \<Rightarrow> (pystr \<times> pyval) option res" where
  "root_facts hb file root =
     rbind (pget root (u ''kind'') PNone) (\<lambda>kind.
     if \<not> eq_str kind (u ''repo'') then Inr None
     else rbind (pitem root (u ''root_key'')) (\<lambda>key_value.
       let root_key = py_str key_value in
       case file root_key of
         None \<Rightarrow> Inr None
       | Some data \<Rightarrow>
           (case load hb data of
              Inl (WL _) \<Rightarrow> Inr None
            | Inl e \<Rightarrow> Inl e
            | Inr captured \<Rightarrow>
                rbind (pget (cm_value captured) (u ''repository'') PNone) (\<lambda>repository.
                case repository of
                  PDict _ \<Rightarrow>
                    rbind (pget repository (u ''statusRawB64'') (PStr [])) (\<lambda>raw.
                    rbind (b64decode_lenient (py_str raw)) (\<lambda>status.
                    let entries = status_entries status;
                        get = (\<lambda>k. case pget repository k PNone of Inr v \<Rightarrow> v | Inl _ \<Rightarrow> PNone)
                    in Inr (Some (root_key, pdict [
                      (u ''head'', get (u ''head'')),
                      (u ''branch'', get (u ''branch'')),
                      (u ''dirty'', PBool (entries \<noteq> [])),
                      (u ''statusEntries'', PInt (int (length entries))),
                      (u ''indexHash'', get (u ''indexHash'')),
                      (u ''stagedDiffHash'', get (u ''stagedDiffHash'')),
                      (u ''worktreeDiffHash'', get (u ''worktreeDiffHash''))]))))
                | _ \<Rightarrow> Inr None))))"

definition add_facts ::
    "(bytes \<Rightarrow> bytes) \<Rightarrow> (pystr \<Rightarrow> bytes option) \<Rightarrow> pyval
       \<Rightarrow> (pystr \<times> pyval) list \<times> pystr option \<Rightarrow> ((pystr \<times> pyval) list \<times> pystr option) res" where
  "add_facts hb file root acc =
     rbind (root_facts hb file root) (\<lambda>facts.
     case facts of
       None \<Rightarrow> Inr acc
     | Some (key, value) \<Rightarrow>
         rbind (pget root (u ''primary_root'') PNone) (\<lambda>primary.
         Inr (dset key value (fst acc), if truthy primary \<or> snd acc = None then Some key else snd acc)))"

definition repository_facts ::
    "(bytes \<Rightarrow> bytes) \<Rightarrow> (pystr \<Rightarrow> bytes option) \<Rightarrow> pyval list \<Rightarrow> pyval option res" where
  "repository_facts hb file roots =
     rbind (rfold (add_facts hb file) roots ([], None)) (\<lambda>(results, primary_key).
     case primary_key of
       None \<Rightarrow> Inr None
     | Some key \<Rightarrow>
         (case dget results key of
            Some (PDict primary) \<Rightarrow>
              Inr (Some (PDict (fold (\<lambda>(k, v). dset (PStr k) v)
                [(u ''rootKey'', PStr key), (u ''roots'', pdict results)] primary)))
          | _ \<Rightarrow> Inr None))"

end
