(* ===== verification/Delta.thy ===== *)
theory Delta
  imports Manifest
begin

text \<open>
  \<open>runtime/worldline/delta.py\<close>: what changed between two manifests, and the three-way merge of a
  candidate onto the current state. An entry is the JSON dictionary of the manifest, absent is \<open>None\<close>.
\<close>

section \<open>The state of an entry\<close>

definition content_hash :: "(bytes \<Rightarrow> bytes) \<Rightarrow> pyval option \<Rightarrow> pyval res" where
  "content_hash hb entry = (case entry of
       None \<Rightarrow> Inr PNone
     | Some e \<Rightarrow>
         rbind (pitem e (u ''type'')) (\<lambda>type.
         if eq_str type (u ''file'') then pitem e (u ''contentHash'')
         else if eq_str type (u ''symlink'') then
           rbind (str_item e (u ''targetB64'')) (\<lambda>text.
           rbind (ensure (list_all (\<lambda>c. c < 128) text) ValueError) (\<lambda>_.
           rbind (req ValueError (b64decode text)) (\<lambda>target.
           rbind (hash_id (hb (''worldline-symlink-target-v1'' @ target))) (\<lambda>digest.
           Inr (PStr digest)))))
         else Inr PNone))"

definition metadata_value :: "pyval option \<Rightarrow> pyval res" where
  "metadata_value entry = (case entry of
       None \<Rightarrow> Inr PNone
     | Some e \<Rightarrow>
         rbind (pitem e (u ''type'')) (\<lambda>type.
         rbind (pitem e (u ''mode'')) (\<lambda>mode.
         rbind (pitem e (u ''xattrs'')) (\<lambda>xs.
         rbind (pitem e (u ''acls'')) (\<lambda>acls.
         rbind (if eq_str type (u ''directory'') \<or> eq_str type (u ''root'') then Inr []
                else rbind (pitem e (u ''mtimeNs'')) (\<lambda>m. Inr [(u ''mtimeNs'', m)])) (\<lambda>mtime.
         rbind (if eq_str type (u ''file'')
                then rbind (pitem e (u ''hardLinkGroup'')) (\<lambda>g. Inr [(u ''hardLinkGroup'', g)])
                else Inr []) (\<lambda>group.
         Inr (pdict ([(u ''type'', type), (u ''mode'', mode), (u ''xattrs'', xs), (u ''acls'', acls)]
           @ mtime @ group)))))))))"

definition metadata_hash :: "(bytes \<Rightarrow> bytes) \<Rightarrow> pyval option \<Rightarrow> pyval res" where
  "metadata_hash hb entry =
     rbind (metadata_value entry) (\<lambda>value.
     if value = PNone then Inr PNone
     else rbind (canonical_bytes value) (\<lambda>encoded.
       rbind (hash_id (hb (''worldline-entry-metadata-v1'' @ encoded))) (\<lambda>digest. Inr (PStr digest))))"

record entry_state =
  es_content :: pyval
  es_metadata :: pyval

definition state_of :: "(bytes \<Rightarrow> bytes) \<Rightarrow> pyval option \<Rightarrow> entry_state res" where
  "state_of hb entry =
     rbind (content_hash hb entry) (\<lambda>c.
     rbind (metadata_hash hb entry) (\<lambda>m. Inr \<lparr>es_content = c, es_metadata = m\<rparr>))"

definition state_value :: "entry_state \<Rightarrow> pyval" where
  "state_value s = pdict [(u ''content'', es_content s), (u ''metadata'', es_metadata s)]"

definition same :: "(bytes \<Rightarrow> bytes) \<Rightarrow> pyval option \<Rightarrow> pyval option \<Rightarrow> bool res" where
  "same hb first second =
     rbind (state_of hb first) (\<lambda>a. rbind (state_of hb second) (\<lambda>b. Inr (a = b)))"

section \<open>Operations\<close>

record operation =
  op_root :: pystr
  op_path :: pystr
  op_display :: pystr
  op_kind :: pystr
  op_old :: entry_state
  op_new :: entry_state

definition operation_value :: "operation \<Rightarrow> pyval" where
  "operation_value o' = pdict [
     (u ''rootKey'', PStr (op_root o')),
     (u ''pathB64'', PStr (op_path o')),
     (u ''pathDisplay'', PStr (op_display o')),
     (u ''op'', PStr (op_kind o')),
     (u ''old'', state_value (op_old o')),
     (u ''new'', state_value (op_new o'))]"

fun validate_from :: "(pystr \<times> bytes) list \<Rightarrow> (pystr \<times> bytes) option \<Rightarrow> operation list \<Rightarrow> unit res" where
  "validate_from seen previous [] = Inr ()"
| "validate_from seen previous (o' # os) =
     rbind (ensure (op_kind o' \<in> {u ''ADD'', u ''MODIFY'', u ''DELETE''}) (WL ''INVALID_DELTA'')) (\<lambda>_.
     rbind (path_from_b64 (op_path o')) (\<lambda>relative.
     let key = (op_root o', relative) in
     rbind (ensure (key \<notin> set seen) (WL ''INVALID_DELTA'')) (\<lambda>_.
     rbind (ensure (case previous of None \<Rightarrow> True | Some p \<Rightarrow> \<not> key < p) (WL ''INVALID_DELTA'')) (\<lambda>_.
     validate_from (key # seen) (Some key) os))))"

definition validate_operations :: "operation list \<Rightarrow> unit res" where
  "validate_operations os = validate_from [] None os"

definition operation_of ::
    "(bytes \<Rightarrow> bytes) \<Rightarrow> pystr \<Rightarrow> (bytes \<times> pyval) list \<Rightarrow> (bytes \<times> pyval) list \<Rightarrow> bytes
       \<Rightarrow> operation list res" where
  "operation_of hb root_key base cand relative =
     rbind (validate_relative relative) (\<lambda>_.
     let old = dget base relative; new = dget cand relative in
     rbind (same hb old new) (\<lambda>unchanged.
     if unchanged then Inr []
     else rbind (state_of hb old) (\<lambda>s. rbind (state_of hb new) (\<lambda>t.
       Inr [\<lparr>op_root = root_key, op_path = path_b64 relative, op_display = display_path relative,
             op_kind = (if old = None then u ''ADD'' else if new = None then u ''DELETE'' else u ''MODIFY''),
             op_old = s, op_new = t\<rparr>]))))"

text \<open>The metadata of the root itself, as an entry of type \<open>root\<close>.\<close>

definition root_entry :: "captured \<Rightarrow> pyval res" where
  "root_entry m =
     rbind (pitem (cm_value m) (u ''rootMetadata'')) (\<lambda>metadata.
     case metadata of
       PDict kvs \<Rightarrow> Inr (PDict (fold (\<lambda>(k, v). dset k v) kvs [(PStr (u ''type''), PStr (u ''root''))]))
     | _ \<Rightarrow> Inl TypeError)"

definition root_operation ::
    "(bytes \<Rightarrow> bytes) \<Rightarrow> pystr \<Rightarrow> pyval \<Rightarrow> pyval \<Rightarrow> operation list res" where
  "root_operation hb root_key old new =
     rbind (metadata_hash hb (Some old)) (\<lambda>a. rbind (metadata_hash hb (Some new)) (\<lambda>b.
     if a = b then Inr []
     else rbind (state_of hb (Some old)) (\<lambda>s. rbind (state_of hb (Some new)) (\<lambda>t.
       Inr [\<lparr>op_root = root_key, op_path = [], op_display = u ''.'', op_kind = u ''MODIFY'',
             op_old = s, op_new = t\<rparr>]))))"

definition count_op :: "string \<Rightarrow> operation list \<Rightarrow> pyval" where
  "count_op k os = PInt (int (length (filter (\<lambda>o'. op_kind o' = u k) os)))"

definition op_summary :: "operation list \<Rightarrow> pyval" where
  "op_summary os = pdict [(u ''added'', count_op ''ADD'' os), (u ''modified'', count_op ''MODIFY'' os),
     (u ''deleted'', count_op ''DELETE'' os), (u ''files'', PInt (int (length os)))]"

record delta_result =
  dl_operations :: "operation list"
  dl_value :: pyval
  dl_hash :: pystr

definition all_paths :: "(bytes \<times> pyval) list \<Rightarrow> (bytes \<times> pyval) list \<Rightarrow> bytes list" where
  "all_paths base cand = sort (remdups (dkeys base @ dkeys cand))"

definition root_key_of :: "captured \<Rightarrow> pyval res" where
  "root_key_of m = pitem (cm_value m) (u ''rootKey'')"

definition compute :: "(bytes \<Rightarrow> bytes) \<Rightarrow> captured \<Rightarrow> captured \<Rightarrow> delta_result res" where
  "compute hb base cand =
     rbind (root_key_of base) (\<lambda>bk. rbind (root_key_of cand) (\<lambda>ck.
     rbind (ensure (bk = ck) (WL ''ROOT_SET_MISMATCH'')) (\<lambda>_.
     rbind (str_item (cm_value base) (u ''rootKey'')) (\<lambda>root_key.
     rbind (entry_map base) (\<lambda>base_entries. rbind (entry_map cand) (\<lambda>cand_entries.
     rbind (rmap (operation_of hb root_key base_entries cand_entries) (all_paths base_entries cand_entries)) (\<lambda>ops.
     rbind (root_entry base) (\<lambda>old_root. rbind (root_entry cand) (\<lambda>new_root.
     rbind (root_operation hb root_key old_root new_root) (\<lambda>root_op.
     let operations = root_op @ concat ops in
     rbind (validate_operations operations) (\<lambda>_.
     let value = pdict [
       (u ''schemaVersion'', PInt 1),
       (u ''baseRoot'', PStr (cm_root base)),
       (u ''candidateRoot'', PStr (cm_root cand)),
       (u ''rootKey'', PStr root_key),
       (u ''operations'', PList (map operation_value operations)),
       (u ''summary'', op_summary operations)]
     in rbind (canonical_bytes value) (\<lambda>encoded.
     rbind (hash_id (hb (''worldline-delta-v1'' @ encoded))) (\<lambda>digest.
     Inr \<lparr>dl_operations = operations, dl_value = value, dl_hash = digest\<rparr>)))))))))))))"

text \<open>The sort key of \<open>compute_all\<close>: root and path.\<close>

definition operation_key :: "operation \<Rightarrow> (pystr \<times> bytes) res" where
  "operation_key o' = rbind (path_from_b64 (op_path o')) (\<lambda>p. Inr (op_root o', p))"

definition compute_all ::
    "(bytes \<Rightarrow> bytes) \<Rightarrow> (pystr \<times> captured) list \<Rightarrow> (pystr \<times> captured) list \<Rightarrow> delta_result res" where
  "compute_all hb base cand =
     rbind (ensure (set (dkeys base) = set (dkeys cand)) (WL ''ROOT_SET_MISMATCH'')) (\<lambda>_.
     rbind (rmap (\<lambda>key.
         rbind (req KeyError (dget base key)) (\<lambda>b. rbind (req KeyError (dget cand key)) (\<lambda>c.
         rbind (compute hb b c) (\<lambda>r.
         Inr (dl_operations r, pdict [(u ''rootKey'', PStr key), (u ''baseRoot'', PStr (cm_root b)),
                                      (u ''candidateRoot'', PStr (cm_root c))])))))
       (sort (dkeys base))) (\<lambda>parts.
     rbind (rmap (\<lambda>o'. rbind (operation_key o') (\<lambda>k. Inr (k, o'))) (concat (map fst parts))) (\<lambda>keyed.
     let operations = map snd (sort_key fst keyed) in
     rbind (validate_operations operations) (\<lambda>_.
     let value = pdict [
       (u ''schemaVersion'', PInt 1),
       (u ''roots'', PList (map snd parts)),
       (u ''operations'', PList (map operation_value operations)),
       (u ''summary'', op_summary operations)]
     in rbind (canonical_bytes value) (\<lambda>encoded.
     rbind (hash_id (hb (''worldline-multi-delta-v1'' @ encoded))) (\<lambda>digest.
     Inr \<lparr>dl_operations = operations, dl_value = value, dl_hash = digest\<rparr>))))))"

section \<open>Three-way merge\<close>

text \<open>
  \<open>merge\<close> up to the writing of the stage: either the conflicts, or the entries of the result with the
  side each is copied from, the root's metadata, and the operations applied.
\<close>

record conflict =
  cf_operation :: operation
  cf_base :: entry_state
  cf_current :: entry_state

definition conflict_value :: "conflict \<Rightarrow> pyval" where
  "conflict_value c = (let o' = cf_operation c in pdict [
     (u ''rootKey'', PStr (op_root o')),
     (u ''pathB64'', PStr (op_path o')),
     (u ''pathDisplay'', PStr (op_display o')),
     (u ''op'', PStr (op_kind o')),
     (u ''base'', state_value (cf_base c)),
     (u ''current'', state_value (cf_current c)),
     (u ''candidate'', state_value (op_new o'))])"

datatype side = Current | Candidate

datatype merge_plan =
    Conflicts "conflict list"
  | Plan "(bytes \<times> pyval) list" "(bytes \<times> side) list" pyval "operation list"

text \<open>One operation of the candidate against the current state: a conflict, or a path to take over.\<close>

definition merge_step ::
    "(bytes \<Rightarrow> bytes) \<Rightarrow> (bytes \<times> pyval) list \<Rightarrow> (bytes \<times> pyval) list \<Rightarrow> pyval \<Rightarrow> pyval \<Rightarrow> operation
       \<Rightarrow> conflict list \<times> bytes list \<times> bool \<Rightarrow> (conflict list \<times> bytes list \<times> bool) res" where
  "merge_step hb base current base_root current_root o' acc =
     (case acc of (conflicts, touched, from_candidate) \<Rightarrow>
     rbind (path_from_b64 (op_path o')) (\<lambda>relative.
     let b = (if relative = [] then Some base_root else dget base relative);
         c = (if relative = [] then Some current_root else dget current relative);
         touched' = (if relative = [] then touched else touched @ [relative])
     in rbind (same hb b c) (\<lambda>unchanged.
     if unchanged then Inr (conflicts, touched', if relative = [] then True else from_candidate)
     else rbind (state_of hb b) (\<lambda>s. rbind (state_of hb c) (\<lambda>t.
       Inr (conflicts @ [\<lparr>cf_operation = o', cf_base = s, cf_current = t\<rparr>], touched', from_candidate))))))"

fun take_over ::
    "(bytes \<times> pyval) list \<Rightarrow> bytes list \<Rightarrow> (bytes \<times> pyval) list \<times> (bytes \<times> side) list
       \<Rightarrow> (bytes \<times> pyval) list \<times> (bytes \<times> side) list" where
  "take_over cand [] acc = acc"
| "take_over cand (p # ps) (entries, sources) =
     take_over cand ps (case dget cand p of
         None \<Rightarrow> (dpop p entries, dpop p sources)
       | Some e \<Rightarrow> (dset p e entries, dset p Candidate sources))"

definition merge_plan_of :: "(bytes \<Rightarrow> bytes) \<Rightarrow> captured \<Rightarrow> captured \<Rightarrow> captured \<Rightarrow> merge_plan res" where
  "merge_plan_of hb base current cand =
     rbind (root_key_of base) (\<lambda>bk. rbind (root_key_of current) (\<lambda>uk. rbind (root_key_of cand) (\<lambda>ck.
     rbind (ensure (bk = uk \<and> uk = ck) (WL ''ROOT_SET_MISMATCH'')) (\<lambda>_.
     rbind (compute hb base cand) (\<lambda>delta.
     rbind (entry_map base) (\<lambda>base_entries.
     rbind (entry_map current) (\<lambda>current_entries.
     rbind (entry_map cand) (\<lambda>cand_entries.
     rbind (root_entry base) (\<lambda>base_root. rbind (root_entry current) (\<lambda>current_root.
     rbind (rfold (merge_step hb base_entries current_entries base_root current_root) (dl_operations delta)
       ([], [], False)) (\<lambda>(conflicts, touched, from_candidate).
     if conflicts \<noteq> [] then Inr (Conflicts conflicts)
     else
       let (entries, sources) = take_over cand_entries touched
             (current_entries, map (\<lambda>(p, _). (p, Current)) current_entries)
       in rbind (pitem (cm_value (if from_candidate then cand else current)) (u ''rootMetadata'')) (\<lambda>metadata.
       Inr (Plan entries sources metadata (dl_operations delta))))))))))))))"

end
