(* ===== verification/Manifest_Links.thy ===== *)
theory Manifest_Links
  imports Manifest Model
begin

text \<open>
  What the capture says about the tree it captured: every entry is one node, every node has an entry,
  and no path of the tree, followed the way the kernel follows links, ever leaves the root.
\<close>

section \<open>A captured tree, node by node\<close>

lemma child_path_simps [simp]: "child_path [] n = n" "d \<noteq> [] \<Longrightarrow> child_path d n = d @ slash # n"
  by (simp_all add: child_path_def)

definition path_of :: "bytes list \<Rightarrow> bytes" where
  "path_of loc = join_on slash loc"

lemma path_of_simps [simp]: "path_of [] = []" "path_of [n] = n"
  by (simp_all add: path_of_def)

lemma path_of_snoc:
  assumes "\<forall>m \<in> set loc. name_ok m"
  shows "path_of (loc @ [n]) = child_path (path_of loc) n"
proof (cases "loc = []")
  case False
  then obtain m ms where m: "loc = m # ms" by (cases loc) auto
  then have "m \<noteq> []" using assms by (simp add: name_ok_def clean_part_def)
  then have "path_of loc \<noteq> []" by (cases ms) (auto simp: path_of_def m)
  then show ?thesis using False by (simp add: path_of_def join_on_append)
qed simp

lemma split_path_of:
  assumes "\<forall>n \<in> set loc. name_ok n" and "loc \<noteq> []"
  shows "split_on slash (path_of loc) = loc"
  unfolding path_of_def using assms by (intro split_join) (auto simp: name_ok_def)

lemma scan_child_Inr:
  assumes "scan_child hb allow dev d (n, x) = Inr e"
  shows "name_ok n" and "validate_relative (child_path d n) = Inr ()"
    and "scan_node hb allow dev (child_path d n) x = Inr e"
  using assms by (auto simp: scan_child_def Let_def res_iffs name_ok_def clean_part_def)

lemma scan_node_path: "scan_node hb allow dev p x = Inr e \<Longrightarrow> sc_path e = p"
  by (cases x) (auto simp: scan_node_def Let_def res_iffs)

text \<open>The nodes of a worklist, in the order the walk takes them.\<close>

definition work_nodes :: "(bytes \<times> (bytes \<times> node) list) list \<Rightarrow> (bytes \<times> node) list" where
  "work_nodes work = concat (map (\<lambda>(d, cs). nodes_below d cs) work)"

lemma nodes_below_simps:
  "nodes_below d [] = []" "nodes_below d ((n, x) # cs) = nodes_of (child_path d n) x @ nodes_below d cs"
  by (simp_all add: nodes_below_def)

lemma nodes_of_split:
  "mset (nodes_below d cs) = mset (map (\<lambda>(n, x). (child_path d n, x)) cs) + mset (work_nodes (subdirectories d cs))"
proof (induction cs)
  case (Cons c cs)
  obtain n x where c: "c = (n, x)" by (cases c)
  show ?case
    using Cons by (cases x) (auto simp: c nodes_below_simps work_nodes_def subdirectories_def nodes_below_def)
qed (simp_all add: nodes_below_def work_nodes_def subdirectories_def)

lemma mset_nodes_below_sort: "mset (nodes_below d (sort_key k cs)) = mset (nodes_below d cs)"
proof -
  have "mset (nodes_below d xs) = sum_mset (image_mset (\<lambda>(n, x). mset (nodes_of (child_path d n) x)) (mset xs))" for xs
    by (induction xs) (auto simp: nodes_below_simps nodes_below_def)
  then show ?thesis by (metis mset_sort)
qed

lemma mset_work_nodes_append: "mset (work_nodes (v @ w)) = mset (work_nodes v) + mset (work_nodes w)"
  by (simp add: work_nodes_def)

text \<open>A successful walk scanned every node below its worklist, once each.\<close>

lemma capture_walk_nodes:
  "capture_walk hb allow dev work = Inr es \<Longrightarrow>
     \<exists>ns. mset ns = mset (work_nodes work)
       \<and> rmap (\<lambda>(p, x). scan_node hb allow dev p x) ns = Inr es
       \<and> (\<forall>(p, x) \<in> set ns. validate_relative p = Inr ())"
proof (induction hb allow dev work arbitrary: es rule: capture_walk.induct)
  case (1 hb allow dev)
  then show ?case by (auto simp: work_nodes_def intro!: exI [of _ "[]"])
next
  case (2 hb allow dev d cs work)
  let ?o = "sort_key fst cs"
  from "2.prems" obtain as bs where a: "rmap (scan_child hb allow dev d) ?o = Inr as"
    and b: "capture_walk hb allow dev (subdirectories d ?o @ work) = Inr bs" and es: "es = as @ bs"
    by (auto simp: Let_def res_iffs)
  from "2.IH" [OF refl b] obtain ns where ns: "mset ns = mset (work_nodes (subdirectories d ?o @ work))"
    "rmap (\<lambda>(p, x). scan_node hb allow dev p x) ns = Inr bs" "\<forall>(p, x) \<in> set ns. validate_relative p = Inr ()"
    by blast
  let ?ms = "map (\<lambda>(n, x). (child_path d n, x)) ?o"
  have l: "list_all2 (\<lambda>c e. scan_child hb allow dev d c = Inr e) ?o as" using a by (simp add: rmap_Inr_iff)
  then have "list_all2 (\<lambda>c e. (\<lambda>(n, x). scan_node hb allow dev (child_path d n) x) c = Inr e) ?o as"
    by (rule list_all2_mono) (auto dest: scan_child_Inr)
  then have m: "rmap (\<lambda>(p, x). scan_node hb allow dev p x) ?ms = Inr as"
    by (simp add: rmap_Inr_iff list_all2_map1 case_prod_unfold)
  have "validate_relative (child_path d n) = Inr ()" if "(n, x) \<in> set ?o" for n x
  proof -
    have "\<exists>as. rmap (scan_child hb allow dev d) ?o = Inr as" using a by (rule exI)
    then have "\<forall>c \<in> set ?o. \<exists>e. scan_child hb allow dev d c = Inr e" by (simp only: rmap_unit_Inr)
    with that obtain e where "scan_child hb allow dev d (n, x) = Inr e" by fast
    then show ?thesis by (rule scan_child_Inr)
  qed
  then have v: "\<forall>(p, x) \<in> set ?ms. validate_relative p = Inr ()" by auto
  have "mset (?ms @ ns) = mset (work_nodes ((d, cs) # work))"
    using nodes_of_split [of d ?o] mset_nodes_below_sort [of d fst cs] ns(1)
    by (simp add: mset_work_nodes_append) (simp add: work_nodes_def)
  moreover have "rmap (\<lambda>(p, x). scan_node hb allow dev p x) (?ms @ ns) = Inr es"
    using m ns(2) by (simp add: rmap_append es)
  ultimately show ?case using v ns(3) by (intro exI [of _ "?ms @ ns"]) auto
qed

section \<open>Safe links\<close>

lemma norm_push_skip: "p \<in> {[], [d]} \<Longrightarrow> norm_push d ab p acc = acc"
  by (auto simp: norm_push_def)

lemma fold_norm_filter:
  "fold (norm_push d ab) cs acc = fold (norm_push d ab) (filter (\<lambda>p. p \<notin> {[], [d]}) cs) acc"
proof (induction cs arbitrary: acc)
  case (Cons p cs)
  show ?case
  proof (cases "p \<in> {[], [d]}")
    case True
    then show ?thesis using Cons norm_push_skip [OF True] by simp
  next
    case False
    then show ?thesis using Cons by simp
  qed
qed simp

lemma fold_norm_climbs:
  "\<forall>a \<in> set A. clean_part d a \<Longrightarrow>
     fold (norm_push d False) (replicate k (dotdot d)) A
       = (if k \<le> length A then take (length A - k) A else replicate (k - length A) (dotdot d))"
proof (induction k arbitrary: A)
  case (Suc k)
  show ?case
  proof (cases A rule: rev_cases)
    case Nil
    have "fold (norm_push d False) (replicate n (dotdot d)) (replicate m (dotdot d)) = replicate (n + m) (dotdot d)" for n m
    proof (induction n arbitrary: m)
      case (Suc n)
      show ?case using Suc.IH [of "Suc m"] norm_push_climb [of d m] by simp
    qed simp
    from this [of k 1] show ?thesis using norm_push_climb [of d 0] by (simp add: Nil)
  next
    case (snoc B b)
    then have "b \<noteq> dotdot d" using Suc.prems by (simp add: clean_part_def)
    then have "norm_push d False (dotdot d) A = B" by (simp add: snoc norm_push_def)
    then show ?thesis using Suc.IH [of B] Suc.prems by (simp add: snoc)
  qed
qed simp

lemma fold_norm_names:
  "\<forall>n \<in> set ns. n \<notin> {[], [d], dotdot d} \<Longrightarrow> fold (norm_push d ab) ns A = A @ ns"
  by (induction ns arbitrary: A) (auto simp: norm_push_def)

lemma leading_climbs:
  "p \<notin> set (dropWhile (\<lambda>x. x = p) xs) \<Longrightarrow> \<exists>k ns. xs = replicate k p @ ns \<and> p \<notin> set ns"
proof (induction xs)
  case (Cons x xs)
  show ?case
  proof (cases "x = p")
    case True
    then obtain k ns where "xs = replicate k p @ ns \<and> p \<notin> set ns" using Cons by auto
    then have "x # xs = replicate (Suc k) p @ ns \<and> p \<notin> set ns" using True by simp
    then show ?thesis by blast
  next
    case False
    then show ?thesis using Cons.prems by (intro exI [of _ 0] exI [of _ "x # xs"]) simp
  qed
qed (intro exI [of _ 0] exI [of _ "[]"], simp)

lemma path_of_ends:
  assumes "\<forall>m \<in> set loc. name_ok m" and "loc \<noteq> []"
  shows "path_of loc \<noteq> []" and "hd (path_of loc) \<noteq> slash" and "last (path_of loc) \<noteq> slash"
proof -
  have name: "name_ok m \<Longrightarrow> m \<noteq> [] \<and> slash \<notin> set m" for m by (auto simp: name_ok_def clean_part_def)
  obtain a as where a: "loc = a # as" using assms(2) by (cases loc) auto
  have "\<exists>q. path_of loc = a @ q" by (cases as) (auto simp: a path_of_def)
  moreover have "a \<noteq> [] \<and> slash \<notin> set a" using name assms(1) a by simp
  ultimately show "path_of loc \<noteq> []" "hd (path_of loc) \<noteq> slash" by (auto simp: hd_append) (metis hd_in_set)
  obtain bs b where b: "loc = bs @ [b]" using assms(2) by (cases loc rule: rev_cases) auto
  have "\<exists>q. path_of loc = q @ b" by (cases "bs = []") (auto simp: b path_of_def join_on_append)
  moreover have "b \<noteq> [] \<and> slash \<notin> set b" using name assms(1) b by simp
  ultimately show "last (path_of loc) \<noteq> slash" by (auto simp: last_append) (metis last_in_set)
qed

lemma dirname_path_of:
  assumes "\<forall>m \<in> set loc. name_ok m" and "name_ok n"
  shows "dirname slash (path_of (loc @ [n])) = path_of loc"
proof (cases "loc = []")
  case True
  have "dropWhile (\<lambda>c. c \<noteq> slash) (rev n) = []" using assms(2) by (auto simp: name_ok_def)
  then show ?thesis by (simp add: True dirname_def)
next
  case False
  let ?p = "path_of loc"
  have ne: "path_of (loc @ [n]) = ?p @ slash # n"
    using False by (simp add: path_of_def join_on_append)
  have d: "dropWhile (\<lambda>c. c \<noteq> slash) (rev n @ slash # rev ?p) = slash # rev ?p"
    using assms(2) by (subst dropWhile_append2) (auto simp: name_ok_def)
  note ends = path_of_ends [OF assms(1) False]
  have "rstrip_by (\<lambda>c. c = slash) ?p = ?p" using ends by (simp add: rstrip_id_iff)
  then have r: "rstrip_by (\<lambda>c. c = slash) (?p @ [slash]) = ?p" by (simp add: rstrip_by_def)
  have "?p @ [slash] \<noteq> replicate (length (?p @ [slash])) slash"
  proof
    assume "?p @ [slash] = replicate (length (?p @ [slash])) slash"
    then have "hd (?p @ [slash]) = slash" by (metis hd_replicate length_0_conv snoc_eq_iff_butlast)
    then show False using ends by simp
  qed
  then show ?thesis unfolding ne dirname_def Let_def using d r by simp
qed

text \<open>
  A target the check accepts for the link \<open>loc/n\<close> is relative: it climbs at most the depth of the
  link, and then only goes down.
\<close>

lemma safe_symlink_target_Inr:
  assumes "safe_symlink_target (path_of (loc @ [n])) t = Inr ()"
    and "\<forall>m \<in> set loc. name_ok m" and "name_ok n"
  shows "\<not> prefixed t [slash]"
    and "\<exists>k ns. link_parts t = replicate k (dotdot dot) @ ns \<and> dotdot dot \<notin> set ns \<and> k \<le> length loc"
proof -
  from assms(1) have rel: "\<not> prefixed t [slash]"
    and drop: "dotdot dot \<notin> set (dropWhile (\<lambda>p. p = dotdot dot) (link_parts t))"
    and norm: "\<not> (normpath slash dot (path_join slash (dirname slash (path_of (loc @ [n]))) t) = dotdot dot)"
      "\<not> prefixed (normpath slash dot (path_join slash (dirname slash (path_of (loc @ [n]))) t)) ''../''"
    by (auto simp: safe_symlink_target_def Let_def res_iffs)
  show "\<not> prefixed t [slash]" by (rule rel)
  obtain k ns where lp: "link_parts t = replicate k (dotdot dot) @ ns" and ns: "dotdot dot \<notin> set ns"
    using leading_climbs [OF drop] by blast
  have names: "\<forall>m \<in> set ns. m \<notin> {[], [dot], dotdot dot}"
  proof
    fix m assume "m \<in> set ns"
    then have "m \<in> set (link_parts t)" by (simp add: lp)
    then show "m \<notin> {[], [dot], dotdot dot}" using ns \<open>m \<in> set ns\<close> by (auto simp: link_parts_def)
  qed
  have "k \<le> length loc"
  proof (rule ccontr)
    assume k: "\<not> k \<le> length loc"
    let ?d = "path_of loc" and ?j = "path_join slash (path_of loc) t"
    have clean: "\<forall>a \<in> set loc. clean_part dot a" using assms(2) by (simp add: name_ok_def)
    have split: "split_on slash ?j = (if loc = [] then split_on slash t else loc @ split_on slash t)"
      and rel: "?j \<noteq> []" "\<not> prefixed ?j [slash]"
    proof -
      have "t \<noteq> []" using k lp by (auto simp: link_parts_def)
      then show "split_on slash ?j = (if loc = [] then split_on slash t else loc @ split_on slash t)"
          "?j \<noteq> []" "\<not> prefixed ?j [slash]"
        using rel path_of_ends [OF assms(2)] split_path_of [OF assms(2)]
        by (cases "loc = []"; auto simp: path_join_def split_on_append prefixed_iff hd_append neq_Nil_conv)+
    qed
    have "norm_parts dot False (split_on slash ?j) = fold (norm_push dot False) (split_on slash t) loc"
      using fold_norm_names [of loc dot False "[]"] clean
      by (auto simp: norm_parts_def split clean_part_def)
    also have "\<dots> = fold (norm_push dot False) (link_parts t) loc"
      by (simp add: fold_norm_filter [of dot False "split_on slash t"] link_parts_def)
    also have "\<dots> = replicate (k - length loc) (dotdot dot) @ ns"
      using k fold_norm_climbs [OF clean, of k] fold_norm_names [OF names] by (simp add: lp)
    also have "k - length loc = Suc (k - length loc - 1)" using k by simp
    finally have np: "normpath slash dot ?j = join_on slash (dotdot dot # replicate (k - length loc - 1) (dotdot dot) @ ns)"
      using rel by (simp add: normpath_def Let_def)
        (cases "replicate (k - length loc - 1) (dotdot dot) @ ns", simp_all)
    have "normpath slash dot ?j = dotdot dot \<or> prefixed (normpath slash dot ?j) ''../''"
      unfolding np by (cases "replicate (k - length loc - 1) (dotdot dot) @ ns") (simp_all add: prefixed_def)
    then show False using norm by (simp add: dirname_path_of [OF assms(2,3)])
  qed
  then show "\<exists>k ns. link_parts t = replicate k (dotdot dot) @ ns \<and> dotdot dot \<notin> set ns \<and> k \<le> length loc"
    using lp ns by blast
qed

section \<open>The kernel's walk stays inside\<close>

fun names_ok :: "node \<Rightarrow> bool" where
  "names_ok (NDir i cs) \<longleftrightarrow> (\<forall>c \<in> set cs. name_ok (fst c) \<and> names_ok (snd c))"
| "names_ok n \<longleftrightarrow> True"

lemma capture_walk_names:
  "capture_walk hb allow dev work = Inr es \<Longrightarrow>
     \<forall>(d, cs) \<in> set work. \<forall>c \<in> set cs. name_ok (fst c) \<and> names_ok (snd c)"
proof (induction hb allow dev work arbitrary: es rule: capture_walk.induct)
  case (2 hb allow dev d cs work)
  let ?o = "sort_key fst cs"
  from "2.prems" obtain as bs where a: "rmap (scan_child hb allow dev d) ?o = Inr as"
    and b: "capture_walk hb allow dev (subdirectories d ?o @ work) = Inr bs"
    by (auto simp: Let_def res_iffs)
  note IH = "2.IH" [OF refl b]
  have "name_ok n \<and> names_ok x" if c: "(n, x) \<in> set cs" for n x
  proof
    have "\<exists>as. rmap (scan_child hb allow dev d) ?o = Inr as" using a by (rule exI)
    then have "\<forall>c \<in> set ?o. \<exists>e. scan_child hb allow dev d c = Inr e" by (simp only: rmap_unit_Inr)
    with c obtain e where "scan_child hb allow dev d (n, x) = Inr e" by force
    then show "name_ok n" by (rule scan_child_Inr)
    show "names_ok x"
    proof (cases x)
      case (NDir i ds)
      then have "(child_path d n, ds) \<in> set (subdirectories d ?o)"
        using c by (force simp: subdirectories_def)
      then show ?thesis using IH NDir by fastforce
    qed auto
  qed
  then show ?case using IH by auto
qed simp

fun dir_at :: "(bytes \<times> node) list \<Rightarrow> bytes list \<Rightarrow> (bytes \<times> node) list option" where
  "dir_at cs [] = Some cs"
| "dir_at cs (n # loc) = (case dget cs n of Some (NDir i ds) \<Rightarrow> dir_at ds loc | _ \<Rightarrow> None)"

lemma dget_mem: "dget kvs k = Some v \<Longrightarrow> (k, v) \<in> set kvs"
  by (rule map_of_SomeD)

lemma dir_at_snoc:
  "dir_at cs loc = Some ds \<Longrightarrow> dget ds n = Some (NDir i es) \<Longrightarrow> dir_at cs (loc @ [n]) = Some es"
  by (induction cs loc rule: dir_at.induct) (auto split: option.splits node.splits)

lemma dir_at_butlast: "dir_at cs (loc @ [n]) = Some es \<Longrightarrow> \<exists>ds. dir_at cs loc = Some ds"
  by (induction cs loc rule: dir_at.induct) (auto split: option.splits node.splits)

lemma nodes_belowI: "(n, x) \<in> set cs \<Longrightarrow> y \<in> set (nodes_of (child_path d n) x) \<Longrightarrow> y \<in> set (nodes_below d cs)"
  by (auto simp: nodes_below_def)

lemma dir_at_nodes:
  "dir_at cs loc = Some ds \<Longrightarrow> (n, x) \<in> set ds \<Longrightarrow> (foldl child_path d (loc @ [n]), x) \<in> set (nodes_below d cs)"
proof (induction cs loc arbitrary: d rule: dir_at.induct)
  case (1 cs)
  have "(child_path d n, x) \<in> set (nodes_of (child_path d n) x)" by (cases x) simp_all
  then show ?case using 1 by (auto simp: nodes_below_def simp del: nodes_of.simps)
next
  case (2 cs m loc)
  then obtain i es where m: "dget cs m = Some (NDir i es)" and es: "dir_at es loc = Some ds"
    by (auto split: option.splits node.splits)
  have "(foldl child_path (child_path d m) (loc @ [n]), x) \<in> set (nodes_below (child_path d m) es)"
    using "2.IH" [OF m refl es "2.prems"(2)] .
  then have "(foldl child_path d ((m # loc) @ [n]), x) \<in> set (nodes_of (child_path d m) (NDir i es))"
    by (simp add: nodes_below_def)
  then show ?case by (rule nodes_belowI [OF dget_mem [OF m]])
qed

lemma dir_at_names:
  "dir_at cs loc = Some ds \<Longrightarrow> \<forall>c \<in> set cs. name_ok (fst c) \<and> names_ok (snd c) \<Longrightarrow>
     (\<forall>n \<in> set loc. name_ok n) \<and> (\<forall>c \<in> set ds. name_ok (fst c) \<and> names_ok (snd c))"
proof (induction cs loc rule: dir_at.induct)
  case (2 cs m loc)
  from "2.prems"(1) obtain i es where m: "dget cs m = Some (NDir i es)" and es: "dir_at es loc = Some ds"
    by (auto split: option.splits node.splits)
  have n: "name_ok m" "\<forall>c \<in> set es. name_ok (fst c) \<and> names_ok (snd c)"
    using bspec [OF "2.prems"(2) dget_mem [OF m]] unfolding fst_conv snd_conv names_ok.simps by blast+
  show ?case using n(1) "2.IH" [OF m refl es n(2)] unfolding set_simps by blast
qed simp

lemma path_of_foldl: "\<forall>n \<in> set loc. name_ok n \<Longrightarrow> path_of loc = foldl child_path [] loc"
  by (induction loc rule: rev_induct) (simp_all add: path_of_snoc)

text \<open>
  How the kernel resolves a path below the root: the position is a directory of the tree, named by the
  names that lead to it, and the components still to resolve. A link is replaced by its target's
  components; \<open>..\<close> in the root, or an absolute target, leaves the root.
\<close>

datatype position = At "bytes list" "bytes list" | Outside

inductive resolves :: "(bytes \<times> node) list \<Rightarrow> position \<Rightarrow> position \<Rightarrow> bool" for cs where
  up: "resolves cs (At (loc @ [n]) (dotdot dot # ps)) (At loc ps)"
| leave: "resolves cs (At [] (dotdot dot # ps)) Outside"
| down: "dir_at cs loc = Some ds \<Longrightarrow> dget ds n = Some (NDir i es) \<Longrightarrow> n \<noteq> dotdot dot \<Longrightarrow>
    resolves cs (At loc (n # ps)) (At (loc @ [n]) ps)"
| follow: "dir_at cs loc = Some ds \<Longrightarrow> dget ds n = Some (NLink i t) \<Longrightarrow> n \<noteq> dotdot dot \<Longrightarrow>
    \<not> prefixed t [slash] \<Longrightarrow> resolves cs (At loc (n # ps)) (At loc (link_parts t @ ps))"
| absolute: "dir_at cs loc = Some ds \<Longrightarrow> dget ds n = Some (NLink i t) \<Longrightarrow> n \<noteq> dotdot dot \<Longrightarrow>
    prefixed t [slash] \<Longrightarrow> resolves cs (At loc (n # ps)) Outside"

text \<open>The invariant: the climbs still to make are no more than the depth, and come before any name.\<close>

definition confined :: "(bytes \<times> node) list \<Rightarrow> position \<Rightarrow> bool" where
  "confined cs q \<longleftrightarrow> (case q of Outside \<Rightarrow> False
     | At loc ps \<Rightarrow> dir_at cs loc \<noteq> None \<and>
         (\<exists>k ns. ps = replicate k (dotdot dot) @ ns \<and> dotdot dot \<notin> set ns \<and> k \<le> length loc))"

lemma replicate_Cons_names:
  "n # ps = replicate k d @ ns \<Longrightarrow> n \<noteq> d \<Longrightarrow> k = 0 \<and> ns = n # ps"
  by (cases k) auto

lemma confined_name:
  assumes "confined cs (At loc (n # ps))" and "n \<noteq> dotdot dot"
  shows "dotdot dot \<notin> set ps"
proof -
  from assms(1) obtain k ns where "n # ps = replicate k (dotdot dot) @ ns" and "dotdot dot \<notin> set ns"
    by (auto simp: confined_def)
  with replicate_Cons_names [OF this(1) assms(2)] show ?thesis by auto
qed

lemma confined_step:
  assumes "resolves cs p q" and "confined cs p"
    and ok: "\<forall>c \<in> set cs. name_ok (fst c) \<and> names_ok (snd c)"
    and links: "\<And>path i t. (path, NLink i t) \<in> set (nodes_below [] cs) \<Longrightarrow> safe_symlink_target path t = Inr ()"
  shows "confined cs q"
proof -
  have safe: "\<not> prefixed t [slash]
      \<and> (\<exists>k ns. link_parts t = replicate k (dotdot dot) @ ns \<and> dotdot dot \<notin> set ns \<and> k \<le> length loc)"
    if d: "dir_at cs loc = Some ds" and l: "dget ds n = Some (NLink i t)" for loc ds n i t
  proof -
    have n: "\<forall>m \<in> set (loc @ [n]). name_ok m"
      using dir_at_names [OF d ok] bspec [OF conjunct2 [OF dir_at_names [OF d ok]] dget_mem [OF l]] by simp
    have "(path_of (loc @ [n]), NLink i t) \<in> set (nodes_below [] cs)"
      using dir_at_nodes [OF d dget_mem [OF l]] path_of_foldl [OF n] by simp
    from links [OF this] show ?thesis using safe_symlink_target_Inr [of loc n t] n by simp
  qed
  from assms(1,2) show ?thesis
  proof (cases rule: resolves.cases)
    case (up loc n ps)
    with assms(2) obtain k ns where k: "dotdot dot # ps = replicate k (dotdot dot) @ ns"
      "dotdot dot \<notin> set ns" "k \<le> Suc (length loc)" and "dir_at cs (loc @ [n]) \<noteq> None"
      by (auto simp: confined_def)
    moreover then obtain j where "k = Suc j" by (cases k) auto
    ultimately show ?thesis using dir_at_butlast [of cs loc n] by (auto simp: confined_def up)
  next
    case (leave ps)
    with assms(2) show ?thesis by (auto simp: confined_def)
  next
    case (down loc ds n i es ps)
    with assms(2) have "dotdot dot \<notin> set ps" using confined_name by metis
    then show ?thesis using down dir_at_snoc [of cs loc ds n i es]
      by (auto simp: confined_def intro!: exI [of _ 0])
  next
    case (follow loc ds n i t ps)
    with assms(2) have "dotdot dot \<notin> set ps" using confined_name by metis
    then show ?thesis using follow safe [of loc ds n i t]
      by (auto simp: confined_def) (metis Un_iff append_assoc set_append)
  next
    case (absolute loc ds n i t ps)
    with safe show ?thesis by blast
  qed
qed

lemma capture_tree:
  assumes "capture hb allow logical key kind repository tree = Inr m"
  shows "\<exists>i cs. tree = NDir i cs \<and> (\<forall>c \<in> set cs. name_ok (fst c) \<and> names_ok (snd c))
    \<and> (\<forall>(p, x) \<in> set (nodes_below [] cs). validate_relative p = Inr ()
         \<and> (\<exists>e. scan_node hb allow (fi_dev i) p x = Inr e))"
proof -
  from assms obtain i cs es where t: "tree = NDir i cs"
    and w: "capture_walk hb allow (fi_dev i) [([], cs)] = Inr es"
    by (cases tree) (auto simp: capture_def res_iffs)
  from capture_walk_nodes [OF w] obtain ns where
    "mset ns = mset (work_nodes [([], cs)])" and r: "rmap (\<lambda>(p, x). scan_node hb allow (fi_dev i) p x) ns = Inr es"
    and v: "\<forall>(p, x) \<in> set ns. validate_relative p = Inr ()" by blast
  then have "set ns = set (nodes_below [] cs)" by (metis append_Nil2 concat.simps list.simps(8,9) mset_eq_setD work_nodes_def case_prod_conv)
  moreover have "\<forall>y \<in> set ns. \<exists>e. (\<lambda>(p, x). scan_node hb allow (fi_dev i) p x) y = Inr e"
    using rmap_unit_Inr r by (metis (no_types, lifting))
  ultimately show ?thesis using t v capture_walk_names [OF w] by fastforce
qed

lemma scan_link_safe:
  "scan_node hb {} dev p (NLink i t) = Inr e \<Longrightarrow> safe_symlink_target p t = Inr ()"
  by (auto simp: scan_node_def Let_def res_iffs)

lemma capture_confines:
  assumes c: "capture hb {} logical key kind repository (NDir i cs) = Inr m"
    and "(resolves cs)\<^sup>*\<^sup>* (At [] ps) q" and "dotdot dot \<notin> set ps"
  shows "confined cs q"
proof -
  from capture_tree [OF c] have ok: "\<forall>c \<in> set cs. name_ok (fst c) \<and> names_ok (snd c)"
    and scans: "\<forall>(p, x) \<in> set (nodes_below [] cs). \<exists>e. scan_node hb {} (fi_dev i) p x = Inr e" by auto
  have links: "safe_symlink_target path t = Inr ()" if "(path, NLink i t) \<in> set (nodes_below [] cs)" for path i t
    using scans that scan_link_safe by blast
  have start: "confined cs (At [] ps)"
    using assms(3) by (auto simp: confined_def)
  from assms(2) show ?thesis
  proof (induction rule: rtranclp_induct)
    case base
    show ?case by (rule start)
  next
    case (step y z)
    show ?case by (rule confined_step [OF step.hyps(2) step.IH ok links])
  qed
qed


text \<open>
  A link that became a file is not reported as a failed payload: reading it as a link raises first.
\<close>

lemma replaced_link_raises:
  assumes "pitem e (u ''type'') = Inr (PStr (u ''symlink''))" and "dget observed p = Some (NFile i content)"
  shows "verify_entry hb observed (p, e) groups = Inl OSError"
  using assms by (simp add: verify_entry_def eq_str_def verify_link_def)

section \<open>Samples\<close>

lemma encodable_hex_text [simp]: "encodable (hex_text b)"
proof -
  have d: "n < 16 \<Longrightarrow> hex_digit n < 128" for n by (simp add: hex_digit_def)
  have "(of_char y :: nat) div 16 < 16" for y by (simp add: div_less_iff_less_mult of_char_nat_bound)
  then have "c \<in> set (hex_text b) \<Longrightarrow> c < 128" for c
    using d by (auto simp: hex_text_def)
  then show ?thesis by (fastforce simp: encodable_def surrogate_def)
qed

lemma constant_id: "hash_id (constant_hash b) = Inr (u ''sha256:'' @ hex_text (replicate 32 (CHR 0x41)))"
  by (simp add: hash_id_def constant_hash_def)

lemma canonical_ok: "validate v = Inr () \<Longrightarrow> canonical_bytes v = Inr (utf8_encode (dumps v))"
  by (simp add: canonical_bytes_def)

text \<open>A directory \<open>d\<close> with a link \<open>l\<close> back to the root.\<close>

definition sample_info :: finfo where
  "sample_info = \<lparr>fi_mode = 493, fi_mtime = 0, fi_xattrs = Some [], fi_dev = 1, fi_ino = 1, fi_nlink = 1\<rparr>"

definition sample_children :: "(bytes \<times> node) list" where
  "sample_children = [(''d'', NDir sample_info [(''l'', NLink sample_info ''..'')])]"

abbreviation sample_tree :: node where
  "sample_tree \<equiv> NDir sample_info sample_children"

lemma sample_scan_d: "\<exists>e. scan_child constant_hash {} 1 [] (''d'', NDir i cs) = Inr e \<and> sc_inode e = None
    \<and> validate (pdict (sc_fields e)) = Inr ()" if "i = sample_info"
  using that by (simp add: scan_child_def scan_node_def Let_def sample_info_def validate_relative_def prefixed_def
      xattrs_def metadata_def)

lemma sample_safe: "safe_symlink_target ''d/l'' ''..'' = Inr ()"
  by code_simp

lemma sample_scan_l: "\<exists>e. scan_child constant_hash {} 1 ''d'' (''l'', NLink sample_info ''..'') = Inr e \<and> sc_inode e = None
    \<and> validate (pdict (sc_fields e)) = Inr ()"
  by (simp add: scan_child_def scan_node_def Let_def sample_safe) (simp add: sample_info_def validate_relative_def
      prefixed_def xattrs_def metadata_def)

lemma sample_capture: "\<exists>m. capture constant_hash {} ''/r'' (u ''k'') (u ''repo'') PNone sample_tree = Inr m"
proof -
  obtain d where d: "scan_child constant_hash {} 1 [] (''d'', NDir sample_info [(''l'', NLink sample_info ''..'')]) = Inr d"
    "sc_inode d = None" "validate (pdict (sc_fields d)) = Inr ()" using sample_scan_d by blast
  obtain l where l: "scan_child constant_hash {} 1 ''d'' (''l'', NLink sample_info ''..'') = Inr l"
    "sc_inode l = None" "validate (pdict (sc_fields l)) = Inr ()" using sample_scan_l by blast
  have w: "capture_walk constant_hash {} 1 [([], sample_children)] = Inr [d, l]"
    using d(1) l(1) by (simp add: sample_children_def subdirectories_def)
  have i: "inodes [d, l] = []" by (simp add: inodes_def d l)
  let ?s = "sort_key sc_path [d, l]"
  have s: "set ?s = {d, l}" unfolding set_sort by simp
  have v: "\<forall>x \<in> set ?s. validate (entry_value [] x) = Inr ()"
    unfolding s using d(2,3) l(2,3) by (simp add: entry_value_def)
  then have v: "validate (PList (map (entry_value []) ?s)) = Inr ()" unfolding validate_PList by simp
  have x: "xattrs sample_info = Inr ([], [])" and dev: "fi_dev sample_info = 1" by (simp_all add: xattrs_def sample_info_def)
  define es where "es = map (entry_value []) ?s"
  have "validate (pdict [
           (u ''schemaVersion'', PInt 1),
           (u ''rootKey'', PStr (u ''k'')),
           (u ''kind'', PStr (u ''repo'')),
           (u ''rootPathB64'', PStr (path_b64 ''/r'')),
           (u ''rootPathDisplay'', PStr (display_path ''/r'')),
           (u ''rootMetadata'', pdict (metadata sample_info ([], []))),
           (u ''entries'', PList es),
           (u ''repository'', PNone)]) = Inr ()"
    using v unfolding validate_PDict es_def [symmetric] by (simp add: metadata_def)
  from canonical_ok [OF this] show ?thesis
    unfolding capture_def node.case x dev w rbind_simps i rmap.simps Let_def es_def [symmetric]
    by (simp add: manifest_hash_def constant_id)
qed

section \<open>Properties\<close>

text \<open>
  C14. No captured tree lets a path out: resolve any path without \<open>..\<close> from the root of a tree that
  was captured, replacing links by their targets the way the kernel does, for as many steps as it
  takes: every position on the way is a directory of the tree.
\<close>
theorem captured_links_stay_inside:
  assumes "capture hb {} logical key kind repository (NDir i cs) = Inr m"
    and "(resolves cs)\<^sup>*\<^sup>* (At [] ps) q" and "dotdot dot \<notin> set ps"
  shows "\<exists>loc rest ds. q = At loc rest \<and> dir_at cs loc = Some ds"
  using capture_confines [OF assms] by (auto simp: confined_def split: position.splits)

theorem captured_links_stay_inside_witness:
  "\<exists>m. capture constant_hash {} ''/r'' (u ''k'') (u ''repo'') PNone sample_tree = Inr m
     \<and> (resolves sample_children)\<^sup>*\<^sup>* (At [] [''d'', ''l'']) (At [] [])
     \<and> (\<exists>loc rest ds. At [] [] = At loc rest \<and> dir_at sample_children loc = Some ds)"
proof -
  obtain m where m: "capture constant_hash {} ''/r'' (u ''k'') (u ''repo'') PNone sample_tree = Inr m"
    using sample_capture by blast
  let ?d = "[(''l'', NLink sample_info ''..'')]"
  have 1: "resolves sample_children (At [] [''d'', ''l'']) (At ([] @ [''d'']) [''l''])"
    by (rule down [where ds = sample_children and i = sample_info and es = ?d]) (simp_all add: sample_children_def)
  have "link_parts ''..'' = [''..'']" by (simp add: link_parts_def)
  then have 2: "resolves sample_children (At ([] @ [''d'']) [''l'']) (At ([] @ [''d'']) [''..''])"
    using follow [of sample_children "[''d'']" ?d "''l''" sample_info "''..''" "[]"]
    by (simp add: sample_children_def prefixed_def)
  have 3: "resolves sample_children (At ([] @ [''d'']) [''..'']) (At [] [])" by (rule up)
  have r: "(resolves sample_children)\<^sup>*\<^sup>* (At [] [''d'', ''l'']) (At [] [])"
    by (rule converse_rtranclp_into_rtranclp, rule 1, rule converse_rtranclp_into_rtranclp, rule 2,
        rule converse_rtranclp_into_rtranclp, rule 3, rule rtranclp.rtrancl_refl)
  from captured_links_stay_inside [OF m r] show ?thesis using m r by simp
qed

end
