(* ===== verification/Delta_Laws.thy ===== *)
theory Delta_Laws
  imports Delta Manifest_Links
begin

text \<open>
  What a delta lists and what a merge produces: a path is listed exactly when its content or its
  metadata differ; a merge without conflict takes each path from the side that changed it, and a
  conflict is a path both sides changed.
\<close>

section \<open>States\<close>

lemma same_Inr: "same hb a b = Inr x \<longleftrightarrow>
    (\<exists>s t. state_of hb a = Inr s \<and> state_of hb b = Inr t \<and> (x \<longleftrightarrow> s = t))"
  by (auto simp: same_def res_iffs)

text \<open>Both states can be computed and agree.\<close>

definition agree :: "(bytes \<Rightarrow> bytes) \<Rightarrow> pyval option \<Rightarrow> pyval option \<Rightarrow> bool" where
  "agree hb a b \<longleftrightarrow> same hb a b = Inr True"

lemma agree_none [simp]: "agree hb None None"
  by (simp add: agree_def same_def state_of_def content_hash_def metadata_hash_def metadata_value_def)

section \<open>The operations of a delta\<close>

definition op_at :: "operation \<Rightarrow> bytes \<Rightarrow> bool" where
  "op_at o' p \<longleftrightarrow> path_from_b64 (op_path o') = Inr p"

lemma operation_of_Inr:
  assumes "operation_of hb k B C p = Inr os"
  shows "validate_relative p = Inr () \<and> (same hb (dget B p) (dget C p) = Inr True \<or> same hb (dget B p) (dget C p) = Inr False)
    \<and> (if agree hb (dget B p) (dget C p) then os = []
       else \<exists>o'. os = [o'] \<and> op_path o' = path_b64 p \<and> op_root o' = k
         \<and> op_kind o' = (if dget B p = None then u ''ADD'' else if dget C p = None then u ''DELETE'' else u ''MODIFY'')
         \<and> state_of hb (dget B p) = Inr (op_old o') \<and> state_of hb (dget C p) = Inr (op_new o'))"
proof -
  obtain x where v: "validate_relative p = Inr ()" and x: "same hb (dget B p) (dget C p) = Inr x"
    and os: "(if x then Inr [] else rbind (state_of hb (dget B p)) (\<lambda>s. rbind (state_of hb (dget C p)) (\<lambda>t.
       Inr [\<lparr>op_root = k, op_path = path_b64 p, op_display = display_path p,
             op_kind = (if dget B p = None then u ''ADD'' else if dget C p = None then u ''DELETE'' else u ''MODIFY''),
             op_old = s, op_new = t\<rparr>]))) = Inr os"
    using assms unfolding operation_of_def Let_def by (auto simp: rbind_Inr_iff)
  show ?thesis
  proof (cases x)
    case True
    then show ?thesis using v x os by (simp add: agree_def)
  next
    case False
    then obtain s t where st: "state_of hb (dget B p) = Inr s" "state_of hb (dget C p) = Inr t"
      using x by (auto simp: same_Inr)
    then show ?thesis using v x os False by (auto simp: agree_def)
  qed
qed

lemma in_all_paths: "p \<in> set (all_paths B C) \<longleftrightarrow> p \<in> set (dkeys B) \<or> p \<in> set (dkeys C)"
  by (auto simp: all_paths_def)

lemma not_in_all_paths: "p \<notin> set (all_paths B C) \<Longrightarrow> dget B p = None \<and> dget C p = None"
  by (auto simp: in_all_paths map_of_eq_None_iff)

lemma sorted_all_paths: "sorted (all_paths B C)" and distinct_all_paths: "distinct (all_paths B C)"
  by (simp_all add: all_paths_def)

text \<open>The pieces of a computed delta.\<close>

lemma compute_Inr:
  assumes "compute hb base cand = Inr r"
  obtains k B C ops old new root_op where
    "root_key_of base = Inr (PStr k)" "root_key_of cand = Inr (PStr k)"
    "entry_map base = Inr B" "entry_map cand = Inr C"
    "rmap (operation_of hb k B C) (all_paths B C) = Inr ops"
    "root_entry base = Inr old" "root_entry cand = Inr new"
    "root_operation hb k old new = Inr root_op"
    "dl_operations r = root_op @ concat ops"
    "validate_operations (dl_operations r) = Inr ()"
proof -
  from assms obtain bk k B C ops old new root_op where
    a: "root_key_of base = Inr bk" "root_key_of cand = Inr bk" "str_item (cm_value base) (u ''rootKey'') = Inr k"
    and b: "entry_map base = Inr B" "entry_map cand = Inr C"
    "rmap (operation_of hb k B C) (all_paths B C) = Inr ops"
    "root_entry base = Inr old" "root_entry cand = Inr new"
    "root_operation hb k old new = Inr root_op"
    "dl_operations r = root_op @ concat ops"
    "validate_operations (root_op @ concat ops) = Inr ()"
    unfolding compute_def Let_def by (auto simp: rbind_Inr_iff)
  have "bk = PStr k"
    using a by (auto simp: root_key_of_def str_item_def res_iffs split: pyval.splits)
  then show thesis using that a b by simp
qed

lemma root_operation_path:
  "root_operation hb k old new = Inr os \<Longrightarrow> o' \<in> set os \<Longrightarrow> op_path o' = []"
  by (auto simp: root_operation_def res_iffs split: if_splits)

lemma path_from_b64_empty [simp]: "path_from_b64 [] = Inr []"
  by (simp add: path_from_b64_def b64decode_def validate_relative_def prefixed_def)

lemma op_at_path_b64: "op_path o' = path_b64 p \<Longrightarrow> validate_relative p = Inr () \<Longrightarrow> op_at o' q \<longleftrightarrow> q = p"
  by (auto simp: op_at_def)

lemma compute_lists:
  assumes c: "compute hb base cand = Inr r" and B: "entry_map base = Inr B" and C: "entry_map cand = Inr C"
    and p: "p \<noteq> []"
  shows "(\<exists>o' \<in> set (dl_operations r). op_at o' p) \<longleftrightarrow> \<not> agree hb (dget B p) (dget C p)"
    and "\<And>o'. o' \<in> set (dl_operations r) \<Longrightarrow> op_at o' p \<Longrightarrow>
      op_kind o' = (if dget B p = None then u ''ADD'' else if dget C p = None then u ''DELETE'' else u ''MODIFY'')
      \<and> state_of hb (dget B p) = Inr (op_old o') \<and> state_of hb (dget C p) = Inr (op_new o')"
proof -
  from compute_Inr [OF c] B C obtain k ops old new root_op where
    ops: "rmap (operation_of hb k B C) (all_paths B C) = Inr ops"
    and ro: "root_operation hb k old new = Inr root_op" and dl: "dl_operations r = root_op @ concat ops"
    by (metis sum.inject(2))
  have all: "list_all2 (\<lambda>q os. operation_of hb k B C q = Inr os) (all_paths B C) ops"
    using ops by (simp add: rmap_Inr_iff)
  have root: "op_at o' [] \<and> \<not> op_at o' p" if "o' \<in> set root_op" for o'
    using root_operation_path [OF ro that] p by (simp add: op_at_def)
  have from_ops: "\<exists>q os. q \<in> set (all_paths B C) \<and> operation_of hb k B C q = Inr os \<and> o' \<in> set os"
    if "o' \<in> set (concat ops)" for o'
    using that all unfolding list_all2_conv_all_nth by (auto simp: in_set_conv_nth) (metis nth_mem)
  have to_ops: "\<exists>os. operation_of hb k B C q = Inr os \<and> set os \<subseteq> set (concat ops)"
    if "q \<in> set (all_paths B C)" for q
    using that all unfolding list_all2_conv_all_nth
    by (metis UN_I in_set_conv_nth nth_mem set_concat subsetI)
  have hit: "q = p" if "operation_of hb k B C q = Inr os" "o' \<in> set os" "op_at o' p" for q os o'
    using operation_of_Inr [OF that(1)] that(2,3) op_at_path_b64 [of o' q p] by (auto split: if_splits)
  show "(\<exists>o' \<in> set (dl_operations r). op_at o' p) \<longleftrightarrow> \<not> agree hb (dget B p) (dget C p)"
  proof
    assume "\<exists>o' \<in> set (dl_operations r). op_at o' p"
    then obtain o' where o': "o' \<in> set (concat ops)" "op_at o' p" using root dl by auto
    from from_ops [OF o'(1)] obtain q os where q: "operation_of hb k B C q = Inr os" "o' \<in> set os" by blast
    then have "q = p" using hit o'(2) by blast
    then show "\<not> agree hb (dget B p) (dget C p)" using operation_of_Inr [OF q(1)] q(2) by auto
  next
    assume na: "\<not> agree hb (dget B p) (dget C p)"
    then have "p \<in> set (all_paths B C)" using agree_none not_in_all_paths by metis
    from to_ops [OF this] obtain os where os: "operation_of hb k B C p = Inr os" "set os \<subseteq> set (concat ops)" by blast
    from operation_of_Inr [OF os(1)] na obtain o' where "os = [o']" "op_path o' = path_b64 p" "validate_relative p = Inr ()"
      by auto
    moreover from this have "op_at o' p" by (simp add: op_at_def)
    ultimately show "\<exists>o' \<in> set (dl_operations r). op_at o' p" using os(2) dl by auto
  qed
  show "op_kind o' = (if dget B p = None then u ''ADD'' else if dget C p = None then u ''DELETE'' else u ''MODIFY'')
      \<and> state_of hb (dget B p) = Inr (op_old o') \<and> state_of hb (dget C p) = Inr (op_new o')"
    if o': "o' \<in> set (dl_operations r)" "op_at o' p" for o'
  proof -
    have "o' \<in> set (concat ops)" using o' root dl by auto
    from from_ops [OF this] obtain q os where q: "operation_of hb k B C q = Inr os" "o' \<in> set os" by blast
    then have "q = p" using hit o'(2) by blast
    then show ?thesis using operation_of_Inr [OF q(1)] q(2) by (auto split: if_splits)
  qed
qed

text \<open>No path is listed twice, and a delta never fails its own check.\<close>

lemma path_from_b64_valid: "path_from_b64 t = Inr p \<Longrightarrow> validate_relative p = Inr ()"
  by (simp add: path_from_b64_Inr)

lemma validate_from_sorted:
  assumes "\<forall>o' \<in> set os. op_kind o' \<in> {u ''ADD'', u ''MODIFY'', u ''DELETE''}"
    and "list_all2 (\<lambda>o' key. op_root o' = fst key \<and> path_from_b64 (op_path o') = Inr (snd key)) os keys"
    and "sorted_wrt (<) (seen @ keys)" and "previous = (if seen = [] then None else Some (last seen))"
  shows "validate_from (rev seen) previous os = Inr ()"
  using assms
proof (induction os arbitrary: seen keys previous)
  case (Cons o' os)
  then obtain key keys' where keys: "keys = key # keys'" by (cases keys) auto
  have key: "op_root o' = fst key" "path_from_b64 (op_path o') = Inr (snd key)"
    using Cons.prems(2) by (auto simp: keys)
  have less: "\<forall>k \<in> set seen. k < key" using Cons.prems(3) by (auto simp: keys sorted_wrt_append)
  have "validate_from (rev (seen @ [key])) (Some key) os = Inr ()"
    using Cons.prems keys by (intro Cons.IH [of keys']) auto
  moreover have "\<not> key < last seen" if "seen \<noteq> []" using less last_in_set [OF that] by (auto dest: less_asym)
  moreover have "key \<notin> set seen" using less by auto
  ultimately show ?case using Cons.prems(1,4) key by (cases key) (auto simp: Let_def)
qed simp

section \<open>The merge\<close>

lemma merge_step_Inr:
  assumes "merge_step hb B U broot uroot o' (cs, tch, fc) = Inr (cs', tch', fc')"
  obtains p where "op_at o' p"
    and "tch' = (if p = [] then tch else tch @ [p])"
    and "cs' = [] \<longleftrightarrow> cs = [] \<and> (if p = [] then agree hb (Some broot) (Some uroot) else agree hb (dget B p) (dget U p))"
proof -
  from assms obtain p x where p: "path_from_b64 (op_path o') = Inr p"
    and x: "same hb (if p = [] then Some broot else dget B p) (if p = [] then Some uroot else dget U p) = Inr x"
    and rest: "(if x then Inr (cs, if p = [] then tch else tch @ [p], if p = [] then True else fc)
       else rbind (state_of hb (if p = [] then Some broot else dget B p)) (\<lambda>s.
            rbind (state_of hb (if p = [] then Some uroot else dget U p)) (\<lambda>t.
       Inr (cs @ [\<lparr>cf_operation = o', cf_base = s, cf_current = t\<rparr>], if p = [] then tch else tch @ [p], fc))))
       = Inr (cs', tch', fc')"
    unfolding merge_step_def Let_def by (auto simp: rbind_Inr_iff)
  show thesis
  proof (rule that [of p])
    show "op_at o' p" using p by (simp add: op_at_def)
    show "tch' = (if p = [] then tch else tch @ [p])" using rest by (auto simp: res_iffs split: if_splits)
    show "cs' = [] \<longleftrightarrow> cs = [] \<and> (if p = [] then agree hb (Some broot) (Some uroot) else agree hb (dget B p) (dget U p))"
      using rest x by (cases x) (auto simp: res_iffs agree_def split: if_splits)
  qed
qed

lemma merge_fold_Inr:
  "rfold (merge_step hb B U broot uroot) os (cs, tch, fc) = Inr (cs', tch', fc') \<Longrightarrow>
     (set tch' = set tch \<union> {p. p \<noteq> [] \<and> (\<exists>o' \<in> set os. op_at o' p)})
     \<and> (cs' = [] \<longrightarrow> cs = [] \<and> (\<forall>o' \<in> set os. \<forall>p. op_at o' p \<longrightarrow> p \<noteq> [] \<longrightarrow> agree hb (dget B p) (dget U p)))
     \<and> (cs' \<noteq> [] \<longrightarrow> cs \<noteq> [] \<or> (\<exists>o' \<in> set os. \<exists>p. op_at o' p
          \<and> \<not> (if p = [] then agree hb (Some broot) (Some uroot) else agree hb (dget B p) (dget U p))))"
proof (induction os arbitrary: cs tch fc)
  case (Cons o' os)
  obtain cs1 tch1 fc1 where s: "merge_step hb B U broot uroot o' (cs, tch, fc) = Inr (cs1, tch1, fc1)"
    and r: "rfold (merge_step hb B U broot uroot) os (cs1, tch1, fc1) = Inr (cs', tch', fc')"
    using Cons.prems by (auto simp: res_iffs)
  obtain p where p: "op_at o' p" and t: "tch1 = (if p = [] then tch else tch @ [p])"
    and c: "cs1 = [] \<longleftrightarrow> cs = [] \<and> (if p = [] then agree hb (Some broot) (Some uroot) else agree hb (dget B p) (dget U p))"
    by (rule merge_step_Inr [OF s])
  have uniq: "op_at o' q \<longleftrightarrow> q = p" for q using p by (auto simp: op_at_def)
  from Cons.IH [OF r] show ?case using p t c uniq by (auto split: if_splits)
qed auto

lemma take_over_lookup:
  "take_over C ps (E, S) = (E', S') \<Longrightarrow>
     dget E' p = (if p \<in> set ps then dget C p else dget E p)
     \<and> dget S' p = (if p \<in> set ps then map_option (\<lambda>_. Candidate) (dget C p) else dget S p)"
proof (induction ps arbitrary: E S)
  case (Cons q ps)
  show ?case
  proof (cases "dget C q")
    case None
    then have "take_over C ps (dpop q E, dpop q S) = (E', S')" using Cons.prems by simp
    from Cons.IH [OF this] show ?thesis using None by (auto simp: dget_dpop)
  next
    case (Some e)
    then have "take_over C ps (dset q e E, dset q Candidate S) = (E', S')" using Cons.prems by simp
    from Cons.IH [OF this] show ?thesis using Some by (auto simp: dget_dset)
  qed
qed simp

lemma merge_plan_cases:
  assumes "merge_plan_of hb base current cand = Inr plan"
    and B: "entry_map base = Inr B" and U: "entry_map current = Inr U" and C: "entry_map cand = Inr C"
  obtains r broot uroot cs tch fc where "compute hb base cand = Inr r"
    "root_entry base = Inr broot" "root_entry current = Inr uroot"
    "rfold (merge_step hb B U broot uroot) (dl_operations r) ([], [], False) = Inr (cs, tch, fc)"
    "cs \<noteq> [] \<Longrightarrow> plan = Conflicts cs"
    "cs = [] \<Longrightarrow> \<exists>E S md. take_over C tch (U, map (\<lambda>(p, _). (p, Current)) U) = (E, S)
        \<and> plan = Plan E S md (dl_operations r)"
proof -
  from assms(1) B U C obtain r broot uroot where
    1: "compute hb base cand = Inr r" "root_entry base = Inr broot" "root_entry current = Inr uroot"
    and 2: "rbind (rfold (merge_step hb B U broot uroot) (dl_operations r) ([], [], False))
      (\<lambda>(conflicts, touched, from_candidate).
     if conflicts \<noteq> [] then Inr (Conflicts conflicts)
     else
       let (entries, sources) = take_over C touched (U, map (\<lambda>(p, _). (p, Current)) U)
       in rbind (pitem (cm_value (if from_candidate then cand else current)) (u ''rootMetadata'')) (\<lambda>metadata.
       Inr (Plan entries sources metadata (dl_operations r)))) = Inr plan"
    unfolding merge_plan_of_def by (simp only: rbind_Inr_iff) (auto simp: rbind_Inr_iff)
  from 2 obtain cs tch fc where
    3: "rfold (merge_step hb B U broot uroot) (dl_operations r) ([], [], False) = Inr (cs, tch, fc)"
    and 4: "(if cs \<noteq> [] then Inr (Conflicts cs)
     else
       let (entries, sources) = take_over C tch (U, map (\<lambda>(p, _). (p, Current)) U)
       in rbind (pitem (cm_value (if fc then cand else current)) (u ''rootMetadata'')) (\<lambda>metadata.
       Inr (Plan entries sources metadata (dl_operations r)))) = Inr plan"
    by (auto simp: rbind_Inr_iff)
  show thesis
  proof (rule that [OF 1 3])
    show "cs \<noteq> [] \<Longrightarrow> plan = Conflicts cs" using 4 by simp
    show "\<exists>E S md. take_over C tch (U, map (\<lambda>(p, _). (p, Current)) U) = (E, S) \<and> plan = Plan E S md (dl_operations r)"
      if "cs = []"
    proof -
      obtain E S where t: "take_over C tch (U, map (\<lambda>(p, _). (p, Current)) U) = (E, S)" by fastforce
      then show ?thesis using 4 that by (auto simp: rbind_Inr_iff)
    qed
  qed
qed

section \<open>No delta of its own is refused\<close>

definition raises :: "'a res \<Rightarrow> string \<Rightarrow> bool" where
  "raises m code \<longleftrightarrow> m = Inl (WL code)"

lemma raises_simps [simp]: "\<not> raises (Inr x) c" "raises (Inl e) c \<longleftrightarrow> e = WL c"
  by (simp_all add: raises_def)

lemma raises_rbind: "raises (rbind m f) c \<longleftrightarrow> raises m c \<or> (\<exists>x. m = Inr x \<and> raises (f x) c)"
  by (auto simp: raises_def rbind_Inl_iff)

lemma raises_ensure [simp]: "raises (ensure b e) c \<longleftrightarrow> \<not> b \<and> e = WL c"
  by (auto simp: raises_def)

lemma raises_req [simp]: "raises (req e m) c \<longleftrightarrow> m = None \<and> e = WL c"
  by (cases m) (auto simp: raises_def)

lemma raises_rmap: "raises (rmap f xs) c \<Longrightarrow> \<exists>x \<in> set xs. raises (f x) c"
  by (induction xs) (auto simp: raises_rbind)

lemma raises_pitem [simp]: "\<not> raises (pitem d k) c"
  by (auto simp: pitem_def raises_def req_def split: pyval.splits option.splits)

lemma raises_str_item [simp]: "\<not> raises (str_item d k) c"
  by (auto simp: str_item_def raises_rbind split: pyval.splits)

lemma raises_validate: "raises (validate v) c \<Longrightarrow> WL c = non_canonical"
  by (induction v rule: validate.induct)
    (auto simp: raises_rbind dest!: raises_rmap split: pyval.splits)

lemma raises_canonical: "raises (canonical_bytes v) c \<Longrightarrow> WL c = non_canonical"
  by (auto simp: canonical_bytes_def raises_rbind dest: raises_validate)

lemma raises_hash_id: "raises (hash_id b) c \<Longrightarrow> WL c = invalid_hash"
  by (auto simp: hash_id_def raises_rbind)

lemma raises_state: "raises (state_of hb e) c \<Longrightarrow> WL c \<in> {non_canonical, invalid_hash}"
  by (auto simp: state_of_def content_hash_def metadata_hash_def metadata_value_def raises_rbind
      dest: raises_canonical raises_hash_id split: option.splits if_splits)

lemma raises_operation:
  "raises (operation_of hb k B C p) c \<Longrightarrow> WL c \<in> {non_canonical, invalid_hash, WL ''PATH_ESCAPE''}"
  by (auto simp: operation_of_def Let_def same_def raises_rbind validate_relative_def
      dest: raises_state split: if_splits)

lemma operation_keys:
  assumes "rmap (operation_of hb k B C) ps = Inr ops" and "sorted_wrt (<) ps"
  shows "\<exists>qs. sorted_wrt (<) qs \<and> set qs \<subseteq> set ps
    \<and> list_all2 (\<lambda>o' p. op_root o' = k \<and> path_from_b64 (op_path o') = Inr p) (concat ops) qs
    \<and> (\<forall>o' \<in> set (concat ops). op_kind o' \<in> {u ''ADD'', u ''MODIFY'', u ''DELETE''})"
  using assms
proof (induction ps arbitrary: ops)
  case (Cons p ps)
  then obtain os ops' where o': "operation_of hb k B C p = Inr os" and r: "rmap (operation_of hb k B C) ps = Inr ops'"
    and ops: "ops = os # ops'" by (auto simp: res_iffs)
  from Cons.IH [OF r] Cons.prems(2) obtain qs where qs: "sorted_wrt (<) qs" "set qs \<subseteq> set ps"
    "list_all2 (\<lambda>o' p. op_root o' = k \<and> path_from_b64 (op_path o') = Inr p) (concat ops') qs"
    "\<forall>o' \<in> set (concat ops'). op_kind o' \<in> {u ''ADD'', u ''MODIFY'', u ''DELETE''}" by auto
  have v: "validate_relative p = Inr ()" using operation_of_Inr [OF o'] by blast
  show ?case
  proof (cases "os = []")
    case True
    then show ?thesis using qs ops by (intro exI [of _ qs]) auto
  next
    case False
    then obtain o1 where "os = [o1]" "op_path o1 = path_b64 p" "op_root o1 = k"
      "op_kind o1 \<in> {u ''ADD'', u ''MODIFY'', u ''DELETE''}"
      using operation_of_Inr [OF o'] by (auto split: if_splits)
    then show ?thesis using qs ops v Cons.prems(2) by (intro exI [of _ "p # qs"]) auto
  qed
qed (auto intro: exI [of _ "[]"])

lemma compute_validates:
  assumes ops: "rmap (operation_of hb k B C) (all_paths B C) = Inr ops"
    and ro: "root_operation hb k old new = Inr root_op"
    and ne: "[] \<notin> set (dkeys B)" "[] \<notin> set (dkeys C)"
  shows "validate_operations (root_op @ concat ops) = Inr ()"
proof -
  have "sorted_wrt (<) (all_paths B C)"
    using sorted_all_paths distinct_all_paths by (simp add: strict_sorted_iff)
  from operation_keys [OF ops this] obtain qs where qs: "sorted_wrt (<) qs" "set qs \<subseteq> set (all_paths B C)"
    "list_all2 (\<lambda>o' p. op_root o' = k \<and> path_from_b64 (op_path o') = Inr p) (concat ops) qs"
    "\<forall>o' \<in> set (concat ops). op_kind o' \<in> {u ''ADD'', u ''MODIFY'', u ''DELETE''}" by blast
  have pos: "\<forall>q \<in> set qs. [] < q"
  proof
    fix q assume "q \<in> set qs"
    then have "q \<noteq> []" using qs(2) ne in_all_paths by blast
    then show "[] < q" by (cases q) auto
  qed
  have all: "list_all2 (\<lambda>o' key. op_root o' = fst key \<and> path_from_b64 (op_path o') = Inr (snd key))
      (concat ops) (map (Pair k) qs)"
    using qs(3) by (simp add: list_all2_map2)
  have sorted: "sorted_wrt (<) (map (Pair k) qs)" using qs(1) by (simp add: sorted_wrt_map)
  consider "root_op = []"
    | o1 where "root_op = [o1]" "op_root o1 = k" "op_path o1 = []" "op_kind o1 = u ''MODIFY''"
    using ro by (auto simp: root_operation_def res_iffs split: if_splits)
  then show ?thesis
  proof cases
    case 1
    then show ?thesis
      using validate_from_sorted [of "concat ops" "map (Pair k) qs" "[]" None] qs(4) all sorted
      by (simp add: validate_operations_def)
  next
    case 2
    then show ?thesis
      using validate_from_sorted [of "root_op @ concat ops" "(k, []) # map (Pair k) qs" "[]" None] qs(4) all sorted pos
      by (simp add: validate_operations_def)
  qed
qed

lemma compute_never_invalid:
  assumes B: "entry_map base = Inr B" and C: "entry_map cand = Inr C"
    and ne: "[] \<notin> set (dkeys B)" "[] \<notin> set (dkeys C)"
  shows "\<not> raises (compute hb base cand) ''INVALID_DELTA''"
proof
  assume "raises (compute hb base cand) ''INVALID_DELTA''"
  moreover have "\<not> raises (root_entry m) c" for m c
    by (auto simp: root_entry_def raises_rbind split: pyval.splits)
  moreover have "\<not> raises (root_operation hb k old new) ''INVALID_DELTA''" for k old new
    by (auto simp: root_operation_def metadata_hash_def metadata_value_def raises_rbind
        dest!: raises_state raises_canonical raises_hash_id split: if_splits)
  moreover have "\<not> raises (rmap (operation_of hb k B C) ps) ''INVALID_DELTA''" for k ps
    by (auto simp: dest!: raises_rmap raises_operation)
  moreover have "\<not> raises (canonical_bytes v) ''INVALID_DELTA''" for v
    by (auto dest!: raises_canonical)
  moreover have "\<not> raises (hash_id b) ''INVALID_DELTA''" for b
    by (auto dest!: raises_hash_id)
  ultimately obtain k ops old new root_op where "rmap (operation_of hb k B C) (all_paths B C) = Inr ops"
      "root_operation hb k old new = Inr root_op" "raises (validate_operations (root_op @ concat ops)) ''INVALID_DELTA''"
    by (auto simp: compute_def Let_def raises_rbind root_key_of_def B C)
  with compute_validates [OF this(1,2) ne] show False by simp
qed

section \<open>Samples\<close>

definition sample_metadata :: "(pystr \<times> pyval) list" where
  "sample_metadata = [(u ''mode'', PInt 493), (u ''mtimeNs'', PInt 0), (u ''xattrs'', PList []), (u ''acls'', PList [])]"

definition sample_directory :: pyval where
  "sample_directory = pdict ((u ''pathB64'', PStr (path_b64 ''d'')) # (u ''type'', PStr (u ''directory'')) # sample_metadata)"

definition sample_manifest :: "pyval list \<Rightarrow> captured" where
  "sample_manifest es = \<lparr>cm_value = pdict [(u ''rootKey'', PStr (u ''r'')),
     (u ''rootMetadata'', pdict sample_metadata), (u ''entries'', PList es)], cm_canonical = [], cm_root = u ''h''\<rparr>"

abbreviation old_sample :: captured where "old_sample \<equiv> sample_manifest []"
abbreviation new_sample :: captured where "new_sample \<equiv> sample_manifest [sample_directory]"

lemma validate_d: "validate_relative ''d'' = Inr ()"
  by (simp add: validate_relative_def prefixed_def)

lemma sample_maps: "entry_map old_sample = Inr []" "entry_map new_sample = Inr [(''d'', sample_directory)]"
proof -
  have e: "entry_list (cm_value (sample_manifest es)) = Inr es" for es
    by (simp add: entry_list_def sample_manifest_def pitem_def piter_def)
  have p: "entry_path sample_directory = Inr ''d''"
    by (simp add: entry_path_def str_item_def sample_directory_def pitem_def validate_d)
  show "entry_map old_sample = Inr []" by (simp add: entry_map_def e dbuild_def)
  show "entry_map new_sample = Inr [(''d'', sample_directory)]" by (simp add: entry_map_def e p dbuild_def)
qed

definition sample_digest :: pyval where
  "sample_digest = PStr (u ''sha256:'' @ hex_text (replicate 32 (CHR 0x41)))"

lemma sample_states: "state_of constant_hash None = Inr \<lparr>es_content = PNone, es_metadata = PNone\<rparr>"
  "state_of constant_hash (Some sample_directory) = Inr \<lparr>es_content = PNone, es_metadata = sample_digest\<rparr>"
proof -
  show "state_of constant_hash None = Inr \<lparr>es_content = PNone, es_metadata = PNone\<rparr>"
    by (simp add: state_of_def content_hash_def metadata_hash_def metadata_value_def)
  have "content_hash constant_hash (Some sample_directory) = Inr PNone"
    by (simp add: content_hash_def sample_directory_def pitem_def eq_str_def)
  moreover have "metadata_value (Some sample_directory)
      = Inr (pdict [(u ''type'', PStr (u ''directory'')), (u ''mode'', PInt 493), (u ''xattrs'', PList []), (u ''acls'', PList [])])"
    by (simp add: metadata_value_def sample_directory_def sample_metadata_def pitem_def eq_str_def)
  ultimately show "state_of constant_hash (Some sample_directory) = Inr \<lparr>es_content = PNone, es_metadata = sample_digest\<rparr>"
    by (simp add: state_of_def metadata_hash_def canonical_ok constant_id sample_digest_def)
qed

definition sample_operation :: operation where
  "sample_operation = \<lparr>op_root = u ''r'', op_path = path_b64 ''d'', op_display = display_path ''d'',
     op_kind = u ''ADD'', op_old = \<lparr>es_content = PNone, es_metadata = PNone\<rparr>,
     op_new = \<lparr>es_content = PNone, es_metadata = sample_digest\<rparr>\<rparr>"

lemma sample_operations:
  "rmap (operation_of constant_hash (u ''r'') [] [(''d'', sample_directory)]) (all_paths [] [(''d'', sample_directory)])
     = Inr [[sample_operation]]"
  by (simp add: all_paths_def operation_of_def validate_d same_def sample_states sample_operation_def sample_digest_def)

definition sample_root_value :: pyval where
  "sample_root_value = PDict ((PStr (u ''type''), PStr (u ''root'')) # map (\<lambda>(k, v). (PStr k, v)) sample_metadata)"

lemma sample_root:
  "root_entry (sample_manifest es) = Inr sample_root_value"
  "metadata_hash constant_hash (Some sample_root_value) = Inr sample_digest"
  "same constant_hash (Some sample_root_value) (Some sample_root_value) = Inr True"
proof -
  show "root_entry (sample_manifest es) = Inr sample_root_value"
    by (simp add: root_entry_def sample_manifest_def pitem_def sample_metadata_def sample_root_value_def)
  have "metadata_value (Some sample_root_value) = Inr (pdict [(u ''type'', PStr (u ''root'')), (u ''mode'', PInt 493),
      (u ''xattrs'', PList []), (u ''acls'', PList [])])"
    by (simp add: metadata_value_def sample_metadata_def pitem_def eq_str_def sample_root_value_def)
  then show m: "metadata_hash constant_hash (Some sample_root_value) = Inr sample_digest"
    by (simp add: metadata_hash_def canonical_ok constant_id sample_digest_def)
  have "content_hash constant_hash (Some sample_root_value) = Inr PNone"
    by (simp add: content_hash_def sample_metadata_def pitem_def eq_str_def sample_root_value_def)
  then show "same constant_hash (Some sample_root_value) (Some sample_root_value) = Inr True"
    using m by (simp add: same_def state_of_def)
qed

lemma sample_keys: "root_key_of (sample_manifest es) = Inr (PStr (u ''r''))"
    "str_item (cm_value (sample_manifest es)) (u ''rootKey'') = Inr (u ''r'')"
    "pitem (cm_value (sample_manifest es)) (u ''rootMetadata'') = Inr (pdict sample_metadata)"
    "cm_root (sample_manifest es) = u ''h''"
  by (simp_all add: root_key_of_def str_item_def sample_manifest_def pitem_def)

lemma sample_compute: "\<exists>r. compute constant_hash old_sample new_sample = Inr r \<and> dl_operations r = [sample_operation]"
proof -
  have p: "path_from_b64 (op_path sample_operation) = Inr ''d''" "op_kind sample_operation = u ''ADD''"
    by (simp_all add: sample_operation_def validate_d)
  then have v: "validate_operations [sample_operation] = Inr ()"
    by (simp add: validate_operations_def Let_def)
  have "validate (operation_value sample_operation) = Inr ()"
    by (simp add: operation_value_def sample_operation_def state_value_def sample_digest_def)
  then have c: "validate (PDict [(PStr (u ''schemaVersion''), PInt 1), (PStr (u ''baseRoot''), PStr (u ''h'')),
     (PStr (u ''candidateRoot''), PStr (u ''h'')), (PStr (u ''rootKey''), PStr (u ''r'')),
     (PStr (u ''operations''), PList [operation_value sample_operation]), (PStr (u ''summary''), op_summary [sample_operation])])
     = Inr ()"
    by (simp add: op_summary_def count_op_def)
  show ?thesis
    unfolding compute_def Let_def
    using canonical_ok [OF c]
    by (simp add: sample_keys sample_maps sample_operations sample_root root_operation_def v constant_id)
qed

lemma sample_merge:
  "\<exists>os. merge_plan_of constant_hash old_sample old_sample new_sample
     = Inr (Plan [(''d'', sample_directory)] [(''d'', Candidate)] (pdict sample_metadata) os)"
proof -
  obtain r where r: "compute constant_hash old_sample new_sample = Inr r" "dl_operations r = [sample_operation]"
    using sample_compute by blast
  have "path_from_b64 (op_path sample_operation) = Inr ''d''"
    by (simp add: sample_operation_def validate_d)
  then have "merge_step constant_hash [] [] sample_root_value sample_root_value sample_operation ([], [], False)
      = Inr ([], [''d''], False)"
    by (simp add: merge_step_def Let_def same_def sample_states)
  then show ?thesis
    by (simp add: merge_plan_of_def sample_keys r sample_maps sample_root)
qed

lemma sample_conflict: "\<exists>cs. merge_plan_of constant_hash old_sample new_sample new_sample = Inr (Conflicts cs)"
proof -
  obtain r where r: "compute constant_hash old_sample new_sample = Inr r" "dl_operations r = [sample_operation]"
    using sample_compute by blast
  have "path_from_b64 (op_path sample_operation) = Inr ''d''"
    by (simp add: sample_operation_def validate_d)
  then have "\<exists>c. merge_step constant_hash [] [(''d'', sample_directory)] sample_root_value sample_root_value
      sample_operation ([], [], False) = Inr ([c], [''d''], False)"
    by (simp add: merge_step_def Let_def same_def sample_states sample_digest_def)
  then show ?thesis
    by (auto simp: merge_plan_of_def sample_keys r sample_maps sample_root)
qed

section \<open>Properties\<close>



text \<open>
  The check every delta runs on itself never refuses one: if no manifest has an entry for the
  empty path, the operations are sorted, of a known kind and name no path twice.
\<close>
theorem delta_never_invalid:
  assumes "entry_map base = Inr B" and "entry_map cand = Inr C"
    and "[] \<notin> set (dkeys B)" and "[] \<notin> set (dkeys C)"
  shows "compute hb base cand \<noteq> Inl (WL ''INVALID_DELTA'')"
  using compute_never_invalid [OF assms] by (simp add: raises_def)

theorem delta_never_invalid_witness:
  "compute constant_hash new_sample old_sample \<noteq> Inl (WL ''INVALID_DELTA'')"
  by (rule delta_never_invalid [OF sample_maps(2,1)]) simp_all

text \<open>
  C15. A merge without conflict is the three-way merge, path by path: what the candidate left as in the
  base stays as in the current state, copied from it; what the candidate changed becomes the
  candidate's, copied from the candidate, and the current state had not touched it.
\<close>
theorem merge_takes_each_change:
  assumes "merge_plan_of hb base current cand = Inr (Plan E S md os)"
    and "entry_map base = Inr B" and "entry_map current = Inr U" and "entry_map cand = Inr C" and "p \<noteq> []"
  shows "if agree hb (dget B p) (dget C p)
    then dget E p = dget U p \<and> dget S p = map_option (\<lambda>_. Current) (dget U p)
    else dget E p = dget C p \<and> dget S p = map_option (\<lambda>_. Candidate) (dget C p) \<and> agree hb (dget B p) (dget U p)"
proof (rule merge_plan_cases [OF assms(1-4)])
  fix r broot uroot cs tch fc
  assume r: "compute hb base cand = Inr r"
    and f: "rfold (merge_step hb B U broot uroot) (dl_operations r) ([], [], False) = Inr (cs, tch, fc)"
    and c: "cs \<noteq> [] \<Longrightarrow> Plan E S md os = Conflicts cs"
    and t: "cs = [] \<Longrightarrow> \<exists>E' S' md'. take_over C tch (U, map (\<lambda>(p, _). (p, Current)) U) = (E', S')
        \<and> Plan E S md os = Plan E' S' md' (dl_operations r)"
  have "cs = []" using c by blast
  then have tk: "take_over C tch (U, map (\<lambda>(p, _). (p, Current)) U) = (E, S)" using t by auto
  have mo: "map_of (map (\<lambda>(p, _). (p, Current)) U) p = map_option (\<lambda>_. Current) (dget U p)"
    by (induction U) auto
  from merge_fold_Inr [OF f] \<open>cs = []\<close> have
    tch: "p \<in> set tch \<longleftrightarrow> (\<exists>o' \<in> set (dl_operations r). op_at o' p)"
    and clean: "\<forall>o' \<in> set (dl_operations r). op_at o' p \<longrightarrow> agree hb (dget B p) (dget U p)"
    using assms(5) by auto
  show ?thesis
    using take_over_lookup [OF tk, of p] compute_lists(1) [OF r assms(2,4,5)] tch clean mo by auto
qed

theorem merge_takes_each_change_witness:
  "\<exists>E S md os. merge_plan_of constant_hash old_sample old_sample new_sample = Inr (Plan E S md os)
     \<and> agree constant_hash (dget [] ''d'') (dget [] ''d'')"
proof -
  obtain E S md os where m: "merge_plan_of constant_hash old_sample old_sample new_sample = Inr (Plan E S md os)"
    using sample_merge by blast
  have "\<not> agree constant_hash None (Some sample_directory)"
    by (simp add: agree_def same_def sample_states sample_digest_def)
  then show ?thesis
    using merge_takes_each_change [OF m sample_maps(1) sample_maps(1) sample_maps(2), of "''d''"] m by auto
qed

text \<open>
  Conflicts are real: when a merge reports conflicts, some path was changed by the candidate and
  by the current state both, or the root's own metadata was.
\<close>
theorem merge_conflict_real:
  assumes "merge_plan_of hb base current cand = Inr (Conflicts cs)"
    and "entry_map base = Inr B" and "entry_map current = Inr U" and "entry_map cand = Inr C"
    and "root_entry base = Inr broot" and "root_entry current = Inr uroot"
  shows "(\<exists>p. p \<noteq> [] \<and> \<not> agree hb (dget B p) (dget C p) \<and> \<not> agree hb (dget B p) (dget U p))
    \<or> \<not> agree hb (Some broot) (Some uroot)"
proof -
  obtain r ds tch fc where r: "compute hb base cand = Inr r"
    and f: "rfold (merge_step hb B U broot uroot) (dl_operations r) ([], [], False) = Inr (ds, tch, fc)"
    and c: "ds = [] \<Longrightarrow> \<exists>E S md. take_over C tch (U, map (\<lambda>(p, _). (p, Current)) U) = (E, S)
        \<and> Conflicts cs = Plan E S md (dl_operations r)"
    using merge_plan_cases [OF assms(1-4)] assms(5,6) by (metis sum.inject(2))
  have "ds \<noteq> []" using c by blast
  with merge_fold_Inr [OF f] obtain o' p where "o' \<in> set (dl_operations r)" "op_at o' p"
    "\<not> (if p = [] then agree hb (Some broot) (Some uroot) else agree hb (dget B p) (dget U p))" by blast
  then show ?thesis using compute_lists(1) [OF r assms(2,4), of p] by (cases "p = []") auto
qed

theorem merge_conflict_real_witness:
  "\<exists>cs. merge_plan_of constant_hash old_sample new_sample new_sample = Inr (Conflicts cs)
     \<and> \<not> agree constant_hash None (Some sample_directory)"
proof -
  obtain cs where m: "merge_plan_of constant_hash old_sample new_sample new_sample = Inr (Conflicts cs)"
    using sample_conflict by blast
  have "agree constant_hash (Some sample_root_value) (Some sample_root_value)" by (simp add: agree_def sample_root)
  then show ?thesis
    using merge_conflict_real [OF m sample_maps(1) sample_maps(2) sample_maps(2) sample_root(1) sample_root(1)] m
    by (auto split: if_splits)
qed

end
