(* ===== verification/PyText.thy ===== *)
theory PyText
  imports PyValue
begin

text \<open>
  Further operations of Python the runtime applies to decoded records: reading a mapping that has
  been checked to be one, equality of values, \<open>str.split\<close> at white space, and the regular
  expressions the evidence rules match in full.
\<close>

section \<open>Mappings\<close>

text \<open>\<open>as_map v\<close> is \<open>isinstance(v, Mapping)\<close> with the items; \<open>mget d k\<close> is \<open>d.get(k)\<close> on them.\<close>

definition as_map :: "pyval \<Rightarrow> (pyval \<times> pyval) list option" where
  "as_map v = (case v of PDict kvs \<Rightarrow> Some kvs | _ \<Rightarrow> None)"

definition mget :: "(pyval \<times> pyval) list \<Rightarrow> pystr \<Rightarrow> pyval" where
  "mget d k = (case dget d (PStr k) of None \<Rightarrow> PNone | Some v \<Rightarrow> v)"

definition mhas :: "(pyval \<times> pyval) list \<Rightarrow> pystr \<Rightarrow> bool" where
  "mhas d k \<longleftrightarrow> PStr k \<in> set (map fst d)"

text \<open>The items of a value where a missing or ill-typed mapping reads as the empty one.\<close>

definition map_or_empty :: "pyval \<Rightarrow> (pyval \<times> pyval) list" where
  "map_or_empty v = (case as_map v of None \<Rightarrow> [] | Some d \<Rightarrow> d)"

definition is_map :: "pyval \<Rightarrow> bool" where
  "is_map v \<longleftrightarrow> as_map v \<noteq> None"

definition is_text :: "pyval \<Rightarrow> bool" where
  "is_text v = (case v of PStr s \<Rightarrow> True | _ \<Rightarrow> False)"

text \<open>\<open>type(v) is int\<close>: a Boolean is not one.\<close>

definition is_int :: "pyval \<Rightarrow> bool" where
  "is_int v = (case v of PInt i \<Rightarrow> True | _ \<Rightarrow> False)"

definition nonempty_text :: "pyval \<Rightarrow> bool" where
  "nonempty_text v = (case v of PStr s \<Rightarrow> s \<noteq> [] | _ \<Rightarrow> False)"

lemma as_map_simps [simp]:
  "as_map (PDict kvs) = Some kvs" "as_map PNone = None" "as_map (PStr s) = None"
  "as_map (PBool b) = None" "as_map (PInt i) = None" "as_map (PList xs) = None"
  "as_map (PFloat s) = None" "as_map POther = None"
  by (simp_all add: as_map_def)

lemma as_map_Some: "as_map v = Some d \<longleftrightarrow> v = PDict d"
  by (cases v) (auto simp: as_map_def)

lemma map_or_empty_simps [simp]: "map_or_empty (PDict kvs) = kvs" "map_or_empty PNone = []"
  by (simp_all add: map_or_empty_def)

lemma is_int_iff: "is_int v \<longleftrightarrow> (\<exists>i. v = PInt i)"
  by (cases v) (auto simp: is_int_def)

lemma is_text_iff: "is_text v \<longleftrightarrow> (\<exists>s. v = PStr s)"
  by (cases v) (auto simp: is_text_def)

lemma nonempty_text_iff: "nonempty_text v \<longleftrightarrow> (\<exists>s. v = PStr s \<and> s \<noteq> [])"
  by (cases v) (auto simp: nonempty_text_def)

section \<open>Equality\<close>

text \<open>
  \<open>v == w\<close>: a Boolean equals the number it stands for, a dictionary its items in any order. A
  float is compared by its text, apart from the two zeros, and equals no NaN.
\<close>

definition as_number :: "pyval \<Rightarrow> int option" where
  "as_number v = (case v of PInt i \<Rightarrow> Some i | PBool b \<Rightarrow> Some (of_bool b) | _ \<Rightarrow> None)"

definition float_eq :: "pystr \<Rightarrow> pystr \<Rightarrow> bool" where
  "float_eq s t \<longleftrightarrow> s \<noteq> u ''nan'' \<and> (s = t \<or> {s, t} = {u ''0.0'', u ''-0.0''})"

fun py_eq :: "pyval \<Rightarrow> pyval \<Rightarrow> bool"
  and py_eqs :: "pyval list \<Rightarrow> pyval list \<Rightarrow> bool"
  and py_eq_items :: "(pyval \<times> pyval) list \<Rightarrow> (pyval \<times> pyval) list \<Rightarrow> bool" where
  "py_eq (PList xs) w = (case w of PList ys \<Rightarrow> py_eqs xs ys | _ \<Rightarrow> False)"
| "py_eq (PDict kvs) w =
     (case w of PDict lvs \<Rightarrow> length kvs = length lvs \<and> py_eq_items kvs lvs | _ \<Rightarrow> False)"
| "py_eq (PFloat s) w = (case w of PFloat t \<Rightarrow> float_eq s t | PInt i \<Rightarrow> eq_int (PFloat s) i | _ \<Rightarrow> False)"
| "py_eq (PStr s) w = (w = PStr s)"
| "py_eq PNone w = (w = PNone)"
| "py_eq POther w = False"
| "py_eq (PInt i) w = eq_int w i"
| "py_eq (PBool b) w = eq_int w (of_bool b)"
| "py_eqs [] ys = (ys = [])"
| "py_eqs (x # xs) ys = (case ys of [] \<Rightarrow> False | y # ys \<Rightarrow> py_eq x y \<and> py_eqs xs ys)"
| "py_eq_items [] lvs = True"
| "py_eq_items ((k, v) # kvs) lvs =
     ((case dget lvs k of None \<Rightarrow> False | Some w \<Rightarrow> py_eq v w) \<and> py_eq_items kvs lvs)"

section \<open>Text\<close>

text \<open>\<open>s.split()\<close>: the runs of characters that are not white space.\<close>

fun words_from :: "pystr \<Rightarrow> pystr \<Rightarrow> pystr list" where
  "words_from w [] = (if w = [] then [] else [w])"
| "words_from w (c # s) =
     (if py_space c then (if w = [] then words_from [] s else w # words_from [] s)
      else words_from (w @ [c]) s)"

definition py_words :: "pystr \<Rightarrow> pystr list" where
  "py_words s = words_from [] s"

definition ends_with :: "pystr \<Rightarrow> pystr \<Rightarrow> bool" where
  "ends_with s t \<longleftrightarrow> prefixed (rev s) (rev t)"

text \<open>\<open>[0-9a-f]{64}\<close>, \<open>0+\<close> and \<open>key:\[[0-9]+\]\<close>.\<close>

definition lower_hex :: "nat \<Rightarrow> bool" where
  "lower_hex c \<longleftrightarrow> (48 \<le> c \<and> c \<le> 57) \<or> (97 \<le> c \<and> c \<le> 102)"

definition hex64 :: "pystr \<Rightarrow> bool" where
  "hex64 s \<longleftrightarrow> length s = 64 \<and> list_all lower_hex s"

definition zeros :: "pystr \<Rightarrow> bool" where
  "zeros s \<longleftrightarrow> s \<noteq> [] \<and> list_all (\<lambda>c. c = 48) s"

definition namespace_text :: "pystr \<Rightarrow> pystr \<Rightarrow> bool" where
  "namespace_text key s \<longleftrightarrow> prefixed s (key @ u '':['') \<and> ends_with s (u '']'')
     \<and> (let body = drop (length key + 2) s
        in 2 \<le> length body \<and> list_all is_digit (butlast body))"

lemma lower_hex_digit: "n < 16 \<Longrightarrow> lower_hex (hex_digit n)"
  by (auto simp: lower_hex_def hex_digit_def)

section \<open>Exceptions a computation can raise\<close>

text \<open>\<open>only_raises m E\<close>: when \<open>m\<close> fails it fails with an exception of \<open>E\<close>.\<close>

definition only_raises :: "'a res \<Rightarrow> exc set \<Rightarrow> bool" where
  "only_raises m E \<longleftrightarrow> (\<forall>e. m = Inl e \<longrightarrow> e \<in> E)"

named_theorems only_raises_intros \<open>rules that follow the structure of a computation\<close>

lemma only_raises_Inr [only_raises_intros]: "only_raises (Inr x) E"
  by (simp add: only_raises_def)

lemma only_raises_Inl [only_raises_intros]: "e \<in> E \<Longrightarrow> only_raises (Inl e) E"
  by (simp add: only_raises_def)

lemma only_raises_rbind [only_raises_intros]:
  "only_raises m E \<Longrightarrow> (\<And>x. only_raises (f x) E) \<Longrightarrow> only_raises (rbind m f) E"
  by (auto simp: only_raises_def rbind_Inl_iff)

lemma only_raises_ensure [only_raises_intros]: "e \<in> E \<Longrightarrow> only_raises (ensure b e) E"
  by (simp add: only_raises_def)

lemma only_raises_req [only_raises_intros]: "e \<in> E \<Longrightarrow> only_raises (req e m) E"
  by (cases m) (simp_all add: only_raises_def)

lemma only_raises_rmap [only_raises_intros]: "(\<And>x. only_raises (f x) E) \<Longrightarrow> only_raises (rmap f xs) E"
  by (induction xs) (auto intro: only_raises_intros)

lemma only_raises_rfold [only_raises_intros]:
  "(\<And>x s. only_raises (f x s) E) \<Longrightarrow> only_raises (rfold f xs s) E"
  by (induction xs arbitrary: s) (auto intro: only_raises_intros)

lemma only_raises_if [only_raises_intros]:
  "only_raises m E \<Longrightarrow> only_raises n E \<Longrightarrow> only_raises (if b then m else n) E"
  by simp

lemma only_raises_piter [only_raises_intros]: "TypeError \<in> E \<Longrightarrow> only_raises (piter v) E"
  by (cases v) (simp_all add: piter_def only_raises_def)

end
