(* ===== verification/Executed.thy ===== *)
theory Executed
  imports PyText CoreAbi Resolution
begin

text \<open>
  \<open>runtime/worldline/executed.py\<close>: the identity of the verifier bytes a check executed. A set of
  verifiers is staged from trusted trees, identified through descriptors, executed from the staging
  mount, and read again afterwards both through the descriptors and through the names.

  \<open>hb\<close> is SHA-256. The file system appears as arguments: what a source path holds, the device and
  inode of a staged file, and, for the second reading, what each descriptor and each name yields.
\<close>

section \<open>The identity of a set\<close>

definition VERIFIER_MOUNT :: pystr where
  "VERIFIER_MOUNT = u ''/run/worldline-verifiers''"

abbreviation unidentified :: exc where
  "unidentified \<equiv> WL ''VERIFIER_EXECUTION_UNIDENTIFIED''"

abbreviation NUL :: char where
  "NUL \<equiv> CHR 0x00"

definition member_content :: "pystr \<Rightarrow> bytes res" where
  "member_content content =
     (let raw = (if prefixed content (u ''sha256:'') then drop 7 content else content)
      in if raw = [] then Inr (replicate 32 NUL) else req ValueError (fromhex raw))"

definition member_bytes :: "pystr \<times> pystr \<times> pystr \<Rightarrow> bytes res" where
  "member_bytes m = (case m of (root_key, relative, content) \<Rightarrow>
     rbind (ensure (encodable root_key) ValueError) (\<lambda>_.
     rbind (ensure (encodable relative) ValueError) (\<lambda>_.
     rbind (member_content content) (\<lambda>raw.
     Inr (utf8_encode root_key @ [NUL] @ utf8_encode relative @ [NUL] @ raw @ [NUL])))))"

definition bundle_tag :: bytes where
  "bundle_tag = ''worldline-execution-verifier-set-v1'' @ [NUL]"

definition bundle_identity :: "(bytes \<Rightarrow> bytes) \<Rightarrow> (pystr \<times> pystr \<times> pystr) list \<Rightarrow> pystr res" where
  "bundle_identity hb members =
     rbind (rmap member_bytes (sort members)) (\<lambda>parts.
     Inr (u ''sha256:'' @ hex_text (hb (bundle_tag @ concat parts))))"

definition NO_BUNDLE_IDENTITY :: "(bytes \<Rightarrow> bytes) \<Rightarrow> pystr res" where
  "NO_BUNDLE_IDENTITY hb = bundle_identity hb []"

section \<open>Staging\<close>

text \<open>An entry of \<open>resolve_verifiers\<close>; a staged member with the object its name resolved to.\<close>

record verifier_entry =
  ve_check :: pystr
  ve_root :: pystr
  ve_path :: pystr
  ve_sha256 :: pystr
  ve_source :: pystr

record staged_verifier =
  sv_root_key :: pystr
  sv_relative :: pystr
  sv_staged :: pystr
  sv_source :: pystr
  sv_sha256 :: pystr
  sv_bytes :: int
  sv_device :: int
  sv_inode :: int
  sv_host_path :: pystr

definition as_dict :: "staged_verifier \<Rightarrow> pyval" where
  "as_dict i = pdict [(u ''rootKey'', PStr (sv_root_key i)), (u ''path'', PStr (sv_relative i)),
     (u ''executedAs'', PStr (sv_staged i)), (u ''source'', PStr (sv_source i)),
     (u ''sha256'', PStr (sv_sha256 i)), (u ''bytes'', PInt (sv_bytes i)),
     (u ''device'', PInt (sv_device i)), (u ''inode'', PInt (sv_inode i))]"

datatype source_file = Regular_File bytes | Not_Regular

text \<open>
  \<open>sources\<close> gives, per root key, the tree of that root; \<open>placed\<close> the device and inode of the copy
  at a staged host path.
\<close>

definition stage_entry ::
    "(bytes \<Rightarrow> bytes) \<Rightarrow> (pystr \<times> (pystr \<Rightarrow> source_file)) list \<Rightarrow> pystr \<Rightarrow> (pystr \<Rightarrow> int \<times> int)
       \<Rightarrow> verifier_entry \<Rightarrow> staged_verifier res" where
  "stage_entry hb sources staging placed e =
     rbind (req unidentified (dget sources (ve_root e))) (\<lambda>base.
     case base (ve_path e) of
       Not_Regular \<Rightarrow> Inl unidentified
     | Regular_File data \<Rightarrow>
         let target = path_join 47 (path_join 47 staging (ve_root e)) (ve_path e);
             (device, inode) = placed target
         in Inr \<lparr>sv_root_key = ve_root e, sv_relative = ve_path e,
              sv_staged = VERIFIER_MOUNT @ u ''/'' @ ve_root e @ u ''/'' @ ve_path e,
              sv_source = ve_source e, sv_sha256 = hex_text (hb data), sv_bytes = int (length data),
              sv_device = device, sv_inode = inode, sv_host_path = target\<rparr>)"

fun first_of_each :: "(pystr \<times> pystr) list \<Rightarrow> verifier_entry list \<Rightarrow> verifier_entry list" where
  "first_of_each seen [] = []"
| "first_of_each seen (e # es) =
     (if (ve_root e, ve_path e) \<in> set seen then first_of_each seen es
      else e # first_of_each ((ve_root e, ve_path e) # seen) es)"

definition stage_set ::
    "(bytes \<Rightarrow> bytes) \<Rightarrow> (pystr \<times> (pystr \<Rightarrow> source_file)) list \<Rightarrow> pystr \<Rightarrow> (pystr \<Rightarrow> int \<times> int)
       \<Rightarrow> verifier_entry list \<Rightarrow> staged_verifier list res" where
  "stage_set hb sources staging placed entries =
     rmap (stage_entry hb sources staging placed)
       (first_of_each [] (sort_key (\<lambda>e. (ve_root e, ve_path e)) entries))"

definition identity :: "(bytes \<Rightarrow> bytes) \<Rightarrow> staged_verifier list \<Rightarrow> pystr res" where
  "identity hb items =
     bundle_identity hb (map (\<lambda>i. (sv_root_key i, sv_relative i, sv_sha256 i)) items)"

section \<open>Reading again\<close>

datatype change =
    Unreadable staged_verifier
  | Content staged_verifier pystr
  | Pathname_Rebound staged_verifier "int \<times> int"
  | Pathname_Gone staged_verifier

text \<open>
  \<open>held\<close> reads through the descriptor of an item (\<open>None\<close> is an \<open>OSError\<close>), \<open>named\<close> states the
  item's host path. An unreadable descriptor is also a content change, to the empty digest.
\<close>

definition reread_item ::
    "(staged_verifier \<Rightarrow> bytes option) \<Rightarrow> (pystr \<Rightarrow> (int \<times> int) option) \<Rightarrow> (bytes \<Rightarrow> bytes)
       \<Rightarrow> staged_verifier \<Rightarrow> (pystr \<times> pystr \<times> pystr) \<times> change list" where
  "reread_item held named hb i =
     (let now = (case held i of None \<Rightarrow> [] | Some data \<Rightarrow> hex_text (hb data));
          unreadable = (case held i of None \<Rightarrow> [Unreadable i] | Some _ \<Rightarrow> []);
          content = (if now \<noteq> sv_sha256 i then [Content i now] else []);
          pathname = (case named (sv_host_path i) of
              None \<Rightarrow> [Pathname_Gone i]
            | Some object \<Rightarrow> if object \<noteq> (sv_device i, sv_inode i) then [Pathname_Rebound i object] else [])
      in ((sv_root_key i, sv_relative i, now), unreadable @ content @ pathname))"

definition reread ::
    "(staged_verifier \<Rightarrow> bytes option) \<Rightarrow> (pystr \<Rightarrow> (int \<times> int) option) \<Rightarrow> (bytes \<Rightarrow> bytes)
       \<Rightarrow> staged_verifier list \<Rightarrow> (pystr \<times> change list) res" where
  "reread held named hb items =
     (let seen = map (reread_item held named hb) (sort_key (\<lambda>i. (sv_root_key i, sv_relative i)) items)
      in rbind (bundle_identity hb (map fst seen)) (\<lambda>now. Inr (now, concat (map snd seen))))"

section \<open>The command\<close>

record argv_plan =
  ap_argv :: "pystr list"
  ap_rewrites :: "(pystr \<times> pystr \<times> pystr) list"
  ap_escapes :: "pystr list"
  ap_unbound :: "(pystr \<times> pystr \<times> pystr) list"

text \<open>\<open>by_member\<close> is a dictionary: of two items with one key the later is kept.\<close>

definition by_member :: "staged_verifier list \<Rightarrow> pystr \<Rightarrow> pystr \<Rightarrow> staged_verifier option" where
  "by_member items root_key relative =
     dget (dbuild (map (\<lambda>i. ((sv_root_key i, sv_relative i), i)) items)) (root_key, relative)"

definition plan_token ::
    "staged_verifier list \<Rightarrow> (pystr \<times> pystr) list \<Rightarrow> pystr option \<Rightarrow> pystr \<Rightarrow> pystr \<Rightarrow> argv_plan
       \<Rightarrow> argv_plan" where
  "plan_token items prefixes primary cwd token p =
     (case resolve_token token prefixes primary cwd of
        Escape \<Rightarrow> p\<lparr>ap_escapes := ap_escapes p @ [token], ap_argv := ap_argv p @ [token]\<rparr>
      | Member root_key relative \<Rightarrow>
          (case by_member items root_key relative of
             Some i \<Rightarrow> p\<lparr>ap_argv := ap_argv p @ [sv_staged i],
                 ap_rewrites := ap_rewrites p @ [(token, sv_staged i, sv_sha256 i)]\<rparr>
           | None \<Rightarrow> p\<lparr>ap_unbound := ap_unbound p @ [(token, root_key, relative)],
                 ap_argv := ap_argv p @ [token]\<rparr>)
      | Outside \<Rightarrow> p\<lparr>ap_argv := ap_argv p @ [token]\<rparr>)"

definition rewrite_argv ::
    "staged_verifier list \<Rightarrow> pystr list \<Rightarrow> (pystr \<times> pystr) list \<Rightarrow> pystr option \<Rightarrow> pystr \<Rightarrow> argv_plan" where
  "rewrite_argv items argv roots primary cwd =
     fold (plan_token items (root_prefixes roots) primary cwd) argv
       \<lparr>ap_argv = [], ap_rewrites = [], ap_escapes = [], ap_unbound = []\<rparr>"

section \<open>Imports the staged set cannot satisfy\<close>

text \<open>
  \<open>ast.parse\<close> is an argument: the top-level statements of a staged Python file, \<open>None\<close> where the
  file cannot be read or parsed.
\<close>

datatype statement =
    Import "pystr list"
  | Import_From nat "pystr option"
  | Other_Statement

definition imported_roots :: "statement \<Rightarrow> pystr list" where
  "imported_roots st = (case st of
       Import names \<Rightarrow> map (\<lambda>n. hd (split_on 46 n)) names
     | Import_From level name \<Rightarrow> (case name of
           Some n \<Rightarrow> if level = 0 \<and> n \<noteq> [] then [hd (split_on 46 n)] else []
         | None \<Rightarrow> [])
     | Other_Statement \<Rightarrow> [])"

definition satisfied :: "pystr set \<Rightarrow> (pystr \<times> pystr) set \<Rightarrow> staged_verifier \<Rightarrow> pystr \<Rightarrow> bool" where
  "satisfied stdlib staged i name \<longleftrightarrow> name \<in> stdlib
     \<or> (let directory = dirname 47 (sv_relative i);
            sibling = normpath 47 46 (path_join 47 directory (name @ u ''.py''));
            package = normpath 47 46 (path_join 47 (path_join 47 directory name) (u ''__init__.py''))
        in (sv_root_key i, sibling) \<in> staged \<or> (sv_root_key i, package) \<in> staged)"

definition gaps_of ::
    "pystr set \<Rightarrow> (pystr \<times> pystr) set \<Rightarrow> (staged_verifier \<Rightarrow> statement list option) \<Rightarrow> staged_verifier
       \<Rightarrow> (pystr \<times> pystr \<times> pystr) list" where
  "gaps_of stdlib staged parsed i =
     (if \<not> ends_with (sv_relative i) (u ''.py'') then []
      else case parsed i of
          None \<Rightarrow> []
        | Some body \<Rightarrow> map (\<lambda>name. (sv_relative i, sv_root_key i, name))
            (filter (\<lambda>name. \<not> satisfied stdlib staged i name) (concat (map imported_roots body))))"

definition unsatisfied_imports ::
    "pystr set \<Rightarrow> (staged_verifier \<Rightarrow> statement list option) \<Rightarrow> staged_verifier list
       \<Rightarrow> (pystr \<times> pystr \<times> pystr) list" where
  "unsatisfied_imports stdlib parsed items =
     fold (\<lambda>gap out. if gap \<in> set out then out else out @ [gap])
       (concat (map (gaps_of stdlib (set (map (\<lambda>i. (sv_root_key i, sv_relative i)) items)) parsed)
         (sort_key (\<lambda>i. (sv_root_key i, sv_relative i)) items))) []"

definition gap_value :: "pystr \<times> pystr \<times> pystr \<Rightarrow> pyval" where
  "gap_value g = (case g of (verifier, root_key, name) \<Rightarrow>
     pdict [(u ''verifier'', PStr verifier), (u ''rootKey'', PStr root_key), (u ''module'', PStr name)])"

definition as_evidence ::
    "(bytes \<Rightarrow> bytes) \<Rightarrow> pystr set \<Rightarrow> (staged_verifier \<Rightarrow> statement list option) \<Rightarrow> pyval
       \<Rightarrow> staged_verifier list \<Rightarrow> pyval res" where
  "as_evidence hb stdlib parsed non_claims items =
     rbind (identity hb items) (\<lambda>i.
     Inr (pdict [(u ''mount'', PStr VERIFIER_MOUNT), (u ''identity'', PStr i),
       (u ''members'', PList (map as_dict items)),
       (u ''unsatisfiedImports'', PList (map gap_value (unsatisfied_imports stdlib parsed items))),
       (u ''nonClaims'', non_claims)]))"

end
