(* ===== verification/Executed_Laws.thy ===== *)
theory Executed_Laws
  imports Executed Canonical_Roundtrip "HOL-Library.Multiset"
begin

text \<open>
  What \<open>Executed\<close> promises: the identity of a staged set binds every member's root, path and bytes;
  staging keeps one copy per file and measures trusted bytes; a second reading without a change is a
  reading of the same set through the same names; a rewritten command without escapes and unbound
  members reaches registered roots only through the staged copies.
\<close>

section \<open>The identity\<close>

lemma split_NUL: "NUL \<notin> set a \<Longrightarrow> NUL \<notin> set b \<Longrightarrow> a @ NUL # x = b @ NUL # y \<Longrightarrow> a = b \<and> x = y"
  by (induction a arbitrary: b) (auto simp: Cons_eq_append_conv append_eq_Cons_conv)

lemma utf8_cp_nonzero: "c \<noteq> 0 \<Longrightarrow> b \<in> set (utf8_cp c) \<Longrightarrow> b \<noteq> 0"
  by (auto simp: utf8_cp_def split: if_splits)

lemma utf8_no_NUL:
  assumes "encodable s" and "0 \<notin> set s"
  shows "NUL \<notin> set (utf8_encode s)"
proof
  assume "NUL \<in> set (utf8_encode s)"
  then obtain c b where c: "c \<in> set s" "b \<in> set (utf8_cp c)" "NUL = char_of b"
    by (auto simp: utf8_encode_def)
  then have "b < 256" "b \<noteq> 0"
    using assms utf8_cp_byte [of c b] utf8_cp_nonzero [of c b] by (auto simp: encodable_def)
  moreover have "of_char (char_of b :: char) = (of_char NUL :: nat)" using c(3) by simp
  ultimately show False by simp
qed

lemma utf8_encode_inj: "encodable s \<Longrightarrow> encodable t \<Longrightarrow> utf8_encode s = utf8_encode t \<Longrightarrow> s = t"
  by (metis option.inject utf8_roundtrip)

lemma hex_text_inj: "hex_text b = hex_text c \<Longrightarrow> b = c"
  by (metis fromhex_hex_text option.inject)

lemma hex_text_lower: "list_all lower_hex (hex_text b)"
  by (auto simp: hex_text_def list_all_iff of_char_nat_bound less_mult_imp_div_less intro!: lower_hex_digit)

lemma hex64_hex_text: "length b = 32 \<Longrightarrow> hex64 (hex_text b)"
  by (simp add: hex64_def hex_text_lower length_hex_text)

lemma lower_hex_value: "lower_hex c \<Longrightarrow> \<exists>n < 16. hex_value c = Some n \<and> c = hex_digit n"
  unfolding lower_hex_def
  by (elim disjE; intro exI [of _ "if c \<le> 57 then c - 48 else c - 87"])
    (auto simp: hex_value_def hex_digit_def)

text \<open>Lower-case digits have one reading and one spelling.\<close>

lemma fromhex_lower_hex:
  assumes "list_all lower_hex s" and "even (length s)"
  shows "\<exists>b. fromhex s = Some b \<and> s = hex_text b"
  using assms
proof (induction s rule: fromhex.induct)
  case (2 c s)
  then obtain d r where s: "s = d # r" by (cases s) auto
  obtain m n where m: "m < 16" "hex_value c = Some m" "c = hex_digit m"
    and n: "n < 16" "hex_value d = Some n" "d = hex_digit n"
    using 2(3) s lower_hex_value [of c] lower_hex_value [of d] by auto
  have blank: "c \<notin> {9, 10, 11, 12, 13, 32}" using m(3) hex_digit_not_blank by simp
  then obtain b where b: "fromhex r = Some b" "r = hex_text b"
    using 2(2) [OF blank s refl m(2) n(2)] 2(3,4) s by auto
  have v: "of_char (char_of (16 * m + n) :: char) = (16 * m + n :: nat)"
    using m(1) n(1) by simp
  have "hex_text (char_of (16 * m + n) # b) = c # d # r"
    using m n b(2) v by (simp add: hex_text_def)
  then show ?case using m n b blank s by auto
qed (simp add: hex_text_def)

lemma hex64_content:
  assumes "hex64 c"
  obtains b where "member_content c = Inr b" "length b = 32" "c = hex_text b"
proof -
  from assms have "length c = 64" "list_all lower_hex c" by (simp_all add: hex64_def)
  then obtain b where b: "fromhex c = Some b" "c = hex_text b" using fromhex_lower_hex by fastforce
  then have "length b = 32" using \<open>length c = 64\<close> length_hex_text [of b] by simp
  moreover have "\<not> prefixed c (u ''sha256:'')"
  proof
    assume "prefixed c (u ''sha256:'')"
    then obtain t where "c = u ''sha256:'' @ t" by (auto simp: prefixed_iff)
    then show False using \<open>list_all lower_hex c\<close> by (simp add: u_def lower_hex_def)
  qed
  moreover have "c \<noteq> []" using \<open>length c = 64\<close> by auto
  ultimately show ?thesis using that [of b] b(2) by (simp add: member_content_def fromhex_hex_text)
qed

text \<open>A member as the runtime names it: texts without NUL, a digest in lower-case hexadecimal.\<close>

definition plain_member :: "pystr \<times> pystr \<times> pystr \<Rightarrow> bool" where
  "plain_member m \<longleftrightarrow> (case m of (root_key, relative, content) \<Rightarrow>
     encodable root_key \<and> encodable relative \<and> 0 \<notin> set root_key \<and> 0 \<notin> set relative \<and> hex64 content)"

lemma plain_member_bytes:
  assumes "plain_member (r, p, c)"
  obtains b where "member_bytes (r, p, c) = Inr (utf8_encode r @ NUL # utf8_encode p @ NUL # b @ [NUL])"
    "length b = 32" "c = hex_text b" "NUL \<notin> set (utf8_encode r)" "NUL \<notin> set (utf8_encode p)"
proof -
  from assms have p: "encodable r" "encodable p" "0 \<notin> set r" "0 \<notin> set p" "hex64 c"
    by (simp_all add: plain_member_def)
  obtain b where "member_content c = Inr b" "length b = 32" "c = hex_text b"
    using hex64_content [OF p(5)] .
  with p show ?thesis using that by (simp add: member_bytes_def utf8_no_NUL)
qed

lemma member_bytes_prefix_free:
  assumes "plain_member m" "plain_member n" "member_bytes m = Inr x" "member_bytes n = Inr y"
    and "x @ s = y @ t"
  shows "m = n \<and> s = t"
proof -
  obtain r p c where m: "m = (r, p, c)" by (cases m)
  obtain r' p' c' where n: "n = (r', p', c')" by (cases n)
  obtain b where b: "x = utf8_encode r @ NUL # utf8_encode p @ NUL # b @ [NUL]" "length b = 32"
      "c = hex_text b" "NUL \<notin> set (utf8_encode r)" "NUL \<notin> set (utf8_encode p)"
    using plain_member_bytes assms(1,3) m by (metis sum.inject(2))
  obtain b' where b': "y = utf8_encode r' @ NUL # utf8_encode p' @ NUL # b' @ [NUL]" "length b' = 32"
      "c' = hex_text b'" "NUL \<notin> set (utf8_encode r')" "NUL \<notin> set (utf8_encode p')"
    using plain_member_bytes assms(2,4) n by (metis sum.inject(2))
  have e: "utf8_encode r @ NUL # (utf8_encode p @ NUL # b @ NUL # s)
      = utf8_encode r' @ NUL # (utf8_encode p' @ NUL # b' @ NUL # t)"
    using assms(5) b(1) b'(1) by simp
  have 1: "utf8_encode r = utf8_encode r'"
    and e2: "utf8_encode p @ NUL # (b @ NUL # s) = utf8_encode p' @ NUL # (b' @ NUL # t)"
    using split_NUL [OF b(4) b'(4) e] by auto
  have 2: "utf8_encode p = utf8_encode p'" and e3: "b @ NUL # s = b' @ NUL # t"
    using split_NUL [OF b(5) b'(5) e2] by auto
  have 3: "b = b'" "s = t" using e3 b(2) b'(2) by auto
  have "r = r'" "p = p'"
    using 1 2 assms(1,2) m n by (auto simp: plain_member_def dest: utf8_encode_inj)
  then show ?thesis using 3 b(3) b'(3) m n by simp
qed

lemma member_bytes_nonempty: "member_bytes m = Inr x \<Longrightarrow> x \<noteq> []"
  by (cases m) (auto simp: member_bytes_def res_iffs)

lemma concat_members_inj:
  assumes "\<forall>m \<in> set ms. plain_member m" "\<forall>n \<in> set ns. plain_member n"
    and "rmap member_bytes ms = Inr xs" "rmap member_bytes ns = Inr ys" "concat xs = concat ys"
  shows "ms = ns"
  using assms
proof (induction ms arbitrary: ns xs ys)
  case Nil
  then have "concat ys = []" by simp
  then show ?case using Nil.prems(4)
    by (cases ns) (auto simp: res_iffs dest: member_bytes_nonempty)
next
  case (Cons m ms)
  then obtain x xs' where x: "member_bytes m = Inr x" "rmap member_bytes ms = Inr xs'" "xs = x # xs'"
    by (auto simp: res_iffs)
  then have "concat ys \<noteq> []" using Cons.prems(5) member_bytes_nonempty [OF x(1)] by (metis append_is_Nil_conv concat.simps(2))
  then obtain n ns' where ns: "ns = n # ns'" using Cons.prems(4) by (cases ns) auto
  then obtain y ys' where y: "member_bytes n = Inr y" "rmap member_bytes ns' = Inr ys'" "ys = y # ys'"
    using Cons.prems(4) by (auto simp: res_iffs)
  have e: "x @ concat xs' = y @ concat ys'" using Cons.prems(5) x(3) y(3) by simp
  have "m = n \<and> concat xs' = concat ys'"
    using member_bytes_prefix_free [OF _ _ x(1) y(1) e] Cons.prems(1,2) ns by auto
  then show ?case using Cons.IH [of ns' xs' ys'] Cons.prems(1,2) x(2) y(2) ns by auto
qed

lemma bundle_identity_collision:
  assumes "\<forall>m \<in> set ms. plain_member m" "\<forall>n \<in> set ns. plain_member n"
    and "bundle_identity hb ms = Inr i" "bundle_identity hb ns = Inr i"
  shows "mset ms = mset ns \<or> (\<exists>x y. x \<noteq> y \<and> hb x = hb y)"
proof (cases "\<exists>x y. x \<noteq> y \<and> hb x = hb y")
  case False
  obtain xs ys where xs: "rmap member_bytes (sort ms) = Inr xs" "i = u ''sha256:'' @ hex_text (hb (bundle_tag @ concat xs))"
    and ys: "rmap member_bytes (sort ns) = Inr ys" "i = u ''sha256:'' @ hex_text (hb (bundle_tag @ concat ys))"
    using assms(3,4) by (auto simp: bundle_identity_def res_iffs)
  then have "hb (bundle_tag @ concat xs) = hb (bundle_tag @ concat ys)" using hex_text_inj by simp
  then have "concat xs = concat ys" using False same_append_eq [of bundle_tag] by metis
  then have "sort ms = sort ns" using concat_members_inj [OF _ _ xs(1) ys(1)] assms(1,2) by simp
  then show ?thesis by (metis mset_sort)
qed simp

section \<open>Staging\<close>

lemma first_of_each_keys:
  "set (map (\<lambda>e. (ve_root e, ve_path e)) (first_of_each seen es))
     = set (map (\<lambda>e. (ve_root e, ve_path e)) es) - set seen"
  by (induction es arbitrary: seen) auto

lemma first_of_each_distinct: "distinct (map (\<lambda>e. (ve_root e, ve_path e)) (first_of_each seen es))"
proof (induction es arbitrary: seen)
  case (Cons e es)
  then show ?case
    using first_of_each_keys [of "(ve_root e, ve_path e) # seen" es] by auto
qed simp

definition item_of_entry ::
    "(bytes \<Rightarrow> bytes) \<Rightarrow> (pystr \<times> (pystr \<Rightarrow> source_file)) list \<Rightarrow> staged_verifier \<Rightarrow> bool" where
  "item_of_entry hb sources i \<longleftrightarrow> (\<exists>base data. dget sources (sv_root_key i) = Some base
     \<and> base (sv_relative i) = Regular_File data \<and> sv_sha256 i = hex_text (hb data)
     \<and> sv_bytes i = int (length data)
     \<and> sv_staged i = VERIFIER_MOUNT @ u ''/'' @ sv_root_key i @ u ''/'' @ sv_relative i)"

lemma stage_entry_Inr:
  "stage_entry hb sources staging placed e = Inr i \<Longrightarrow>
     item_of_entry hb sources i \<and> sv_root_key i = ve_root e \<and> sv_relative i = ve_path e"
  unfolding stage_entry_def rbind_Inr_iff req_Inr_iff
proof (elim exE conjE)
  fix base
  assume b: "dget sources (ve_root e) = Some base"
  let ?t = "path_join 47 (path_join 47 staging (ve_root e)) (ve_path e)"
  assume "(case base (ve_path e) of Not_Regular \<Rightarrow> Inl unidentified
     | Regular_File data \<Rightarrow>
         let target = ?t; (device, inode) = placed target
         in Inr \<lparr>sv_root_key = ve_root e, sv_relative = ve_path e,
              sv_staged = VERIFIER_MOUNT @ u ''/'' @ ve_root e @ u ''/'' @ ve_path e,
              sv_source = ve_source e, sv_sha256 = hex_text (hb data), sv_bytes = int (length data),
              sv_device = device, sv_inode = inode, sv_host_path = target\<rparr>) = Inr i"
  then show ?thesis
    using b by (cases "base (ve_path e)"; cases "placed ?t") (auto simp: item_of_entry_def)
qed

lemma stage_Inr:
  assumes "stage_set hb sources staging placed entries = Inr vs"
  shows "(\<forall>i \<in> set vs. item_of_entry hb sources i)
    \<and> distinct (map (\<lambda>i. (sv_root_key i, sv_relative i)) vs)
    \<and> (\<lambda>i. (sv_root_key i, sv_relative i)) ` set vs = (\<lambda>e. (ve_root e, ve_path e)) ` set entries"
proof -
  let ?es = "first_of_each [] (sort_key (\<lambda>e. (ve_root e, ve_path e)) entries)"
  have l: "list_all2 (\<lambda>e i. stage_entry hb sources staging placed e = Inr i) ?es vs"
    using assms by (simp add: stage_set_def rmap_Inr_iff)
  have k: "map (\<lambda>i. (sv_root_key i, sv_relative i)) vs = map (\<lambda>e. (ve_root e, ve_path e)) ?es"
    using l by (induction rule: list_all2_induct) (auto dest: stage_entry_Inr)
  have i: "\<forall>i \<in> set vs. item_of_entry hb sources i"
    using l by (induction rule: list_all2_induct) (auto dest: stage_entry_Inr)
  have "set (map (\<lambda>i. (sv_root_key i, sv_relative i)) vs) = (\<lambda>e. (ve_root e, ve_path e)) ` set entries"
    unfolding k first_of_each_keys by simp
  moreover have "distinct (map (\<lambda>i. (sv_root_key i, sv_relative i)) vs)"
    unfolding k by (rule first_of_each_distinct)
  ultimately show ?thesis using i by simp
qed

section \<open>Reading again\<close>

definition unmoved ::
    "(staged_verifier \<Rightarrow> bytes option) \<Rightarrow> (pystr \<Rightarrow> (int \<times> int) option) \<Rightarrow> (bytes \<Rightarrow> bytes)
       \<Rightarrow> staged_verifier \<Rightarrow> bool" where
  "unmoved held named hb i \<longleftrightarrow> (\<exists>data. held i = Some data \<and> hex_text (hb data) = sv_sha256 i)
     \<and> named (sv_host_path i) = Some (sv_device i, sv_inode i)"

lemma reread_item_unmoved:
  "snd (reread_item held named hb i) = [] \<longleftrightarrow> unmoved held named hb i"
  by (auto simp: reread_item_def unmoved_def Let_def split: option.splits if_splits)

lemma reread_item_same:
  "unmoved held named hb i \<Longrightarrow>
     fst (reread_item held named hb i) = (sv_root_key i, sv_relative i, sv_sha256 i)"
  by (auto simp: reread_item_def unmoved_def Let_def)

lemma sort_mset_eq: "mset xs = mset ys \<Longrightarrow> sort xs = sort ys"
  by (rule properties_for_sort) simp_all

lemma bundle_identity_perm: "mset ms = mset ns \<Longrightarrow> bundle_identity hb ms = bundle_identity hb ns"
  using sort_mset_eq [of ms ns] by (simp add: bundle_identity_def)

lemma reread_unchanged:
  assumes "identity hb vs = Inr i"
  shows "(\<exists>now. reread held named hb vs = Inr (now, [])) \<longleftrightarrow> (\<forall>x \<in> set vs. unmoved held named hb x)"
    and "reread held named hb vs = Inr (now, []) \<Longrightarrow> now = i"
proof -
  let ?s = "sort_key (\<lambda>i. (sv_root_key i, sv_relative i)) vs"
  let ?r = "reread_item held named hb"
  have c: "concat (map snd (map ?r ?s)) = [] \<longleftrightarrow> (\<forall>x \<in> set vs. unmoved held named hb x)"
    by (auto simp: reread_item_unmoved)
  have same: "bundle_identity hb (map fst (map ?r ?s)) = Inr i"
    if "\<forall>x \<in> set vs. unmoved held named hb x"
  proof -
    have "map fst (map ?r ?s) = map (\<lambda>i. (sv_root_key i, sv_relative i, sv_sha256 i)) ?s"
      using that by (auto simp: reread_item_same)
    moreover have "mset (map (\<lambda>i. (sv_root_key i, sv_relative i, sv_sha256 i)) ?s)
        = mset (map (\<lambda>i. (sv_root_key i, sv_relative i, sv_sha256 i)) vs)"
      by (simp only: mset_map mset_sort)
    ultimately have "mset (map fst (map ?r ?s))
        = mset (map (\<lambda>i. (sv_root_key i, sv_relative i, sv_sha256 i)) vs)" by (simp only:)
    from bundle_identity_perm [OF this, of hb] show ?thesis using assms by (simp only: identity_def)
  qed
  have r: "reread held named hb vs = Inr (now, []) \<longleftrightarrow>
      bundle_identity hb (map fst (map ?r ?s)) = Inr now \<and> concat (map snd (map ?r ?s)) = []" for now
    unfolding reread_def Let_def rbind_Inr_iff by (simp only: sum.inject prod.inject) blast
  show "(\<exists>now. reread held named hb vs = Inr (now, [])) \<longleftrightarrow> (\<forall>x \<in> set vs. unmoved held named hb x)"
    unfolding r c using same by blast
  show "now = i" if "reread held named hb vs = Inr (now, [])"
    using that same unfolding r c by simp
qed

section \<open>The command\<close>

lemma by_member_Some:
  assumes "by_member vs k r = Some i"
  shows "i \<in> set vs \<and> sv_root_key i = k \<and> sv_relative i = r"
proof -
  have "((k, r), i) \<in> set (rev (map (\<lambda>i. ((sv_root_key i, sv_relative i), i)) vs))"
    using assms map_of_SomeD unfolding by_member_def dget_dbuild by fast
  then show ?thesis by auto
qed

definition token_bound ::
    "staged_verifier list \<Rightarrow> (pystr \<times> pystr) list \<Rightarrow> pystr option \<Rightarrow> pystr \<Rightarrow> pystr \<Rightarrow> pystr \<Rightarrow> bool" where
  "token_bound vs prefixes primary cwd token out \<longleftrightarrow>
     (case resolve_token token prefixes primary cwd of
        Outside \<Rightarrow> out = token
      | Escape \<Rightarrow> False
      | Member k r \<Rightarrow> (\<exists>i \<in> set vs. sv_root_key i = k \<and> sv_relative i = r \<and> out = sv_staged i))"

lemma plan_fold:
  assumes "fold (plan_token vs prefixes primary cwd) argv p = q"
    and "ap_escapes q = []" "ap_unbound q = []"
  shows "ap_escapes p = [] \<and> ap_unbound p = [] \<and>
    (\<exists>out. ap_argv q = ap_argv p @ out \<and> list_all2 (token_bound vs prefixes primary cwd) argv out)"
  using assms
proof (induction argv arbitrary: p)
  case (Cons t ts)
  let ?p = "plan_token vs prefixes primary cwd t p"
  have f: "fold (plan_token vs prefixes primary cwd) ts ?p = q" using Cons.prems(1) by simp
  obtain out where out: "ap_escapes ?p = []" "ap_unbound ?p = []" "ap_argv q = ap_argv ?p @ out"
      "list_all2 (token_bound vs prefixes primary cwd) ts out"
    using Cons.IH [OF f Cons.prems(2,3)] by auto
  have "\<exists>o'. ap_escapes p = [] \<and> ap_unbound p = [] \<and> ap_argv ?p = ap_argv p @ [o']
      \<and> token_bound vs prefixes primary cwd t o'"
    using out(1,2) by (auto simp: plan_token_def token_bound_def
        split: token_class.splits option.splits dest: by_member_Some)
  then show ?case using out(3,4) by auto
qed auto

section \<open>Properties\<close>


definition sample_sha :: pystr where
  "sample_sha = replicate 64 97"

definition sample_source :: "pystr \<Rightarrow> source_file" where
  "sample_source r = (if r = u ''gate.py'' then Regular_File ''exit'' else Not_Regular)"

definition sample_hash :: "bytes \<Rightarrow> bytes" where
  "sample_hash b = replicate 32 (CHR 0xAA)"

definition sample_entry :: verifier_entry where
  "sample_entry = \<lparr>ve_check = u ''unit'', ve_root = u ''k'', ve_path = u ''gate.py'',
     ve_sha256 = sample_sha, ve_source = u ''argv''\<rparr>"

definition sample_staged :: staged_verifier where
  "sample_staged = \<lparr>sv_root_key = u ''k'', sv_relative = u ''gate.py'',
     sv_staged = u ''/run/worldline-verifiers/k/gate.py'', sv_source = u ''argv'',
     sv_sha256 = sample_sha, sv_bytes = 4, sv_device = 7, sv_inode = 11,
     sv_host_path = u ''/s/k/gate.py''\<rparr>"

lemma sample_hex: "hex_text (sample_hash b) = sample_sha"
  unfolding sample_hash_def by code_simp

lemma sample_stage:
  "stage_set sample_hash [(u ''k'', sample_source)] (u ''/s'') (\<lambda>_. (7, 11)) [sample_entry, sample_entry]
     = Inr [sample_staged]"
  by (simp add: stage_set_def sample_entry_def stage_entry_def sample_source_def sample_staged_def
      path_join_def prefixed_def VERIFIER_MOUNT_def u_def sample_hex [simplified u_def])

lemma sample_plain: "plain_member (u ''k'', u ''gate.py'', sample_sha)"
proof -
  have "hex64 sample_sha"
    unfolding hex64_def sample_sha_def list_all_iff by (simp add: lower_hex_def)
  then show ?thesis by (simp add: plain_member_def u_def surrogate_def)
qed

lemma sample_identity:
  "bundle_identity sample_hash [(u ''k'', u ''gate.py'', sample_sha)] = Inr (u ''sha256:'' @ sample_sha)"
proof -
  obtain b where b: "member_bytes (u ''k'', u ''gate.py'', sample_sha) = Inr b"
    using plain_member_bytes [OF sample_plain] by metis
  show ?thesis unfolding bundle_identity_def by (simp add: b sample_hex)
qed




text \<open>
  The second reading finds nothing exactly when nothing moved: it reports the identity that was
  staged and no change if and only if every descriptor still yields bytes of the staged digest and
  every name still states to the device and inode captured at staging. So a substituted file behind
  an unchanged descriptor, and changed bytes behind an unchanged name, are both reported.
\<close>
theorem reread_detects:
  assumes "identity hb vs = Inr i"
  shows "reread held named hb vs = Inr (now, []) \<longleftrightarrow>
    now = i \<and> (\<forall>x \<in> set vs. (\<exists>data. held x = Some data \<and> hex_text (hb data) = sv_sha256 x)
      \<and> named (sv_host_path x) = Some (sv_device x, sv_inode x))"
proof -
  have "(\<exists>now. reread held named hb vs = Inr (now, [])) \<longleftrightarrow> (\<forall>x \<in> set vs. unmoved held named hb x)"
    by (rule reread_unchanged(1) [OF assms])
  then show ?thesis using reread_unchanged(2) [OF assms] unfolding unmoved_def by metis
qed

theorem reread_detects_witness:
  "reread (\<lambda>_. Some ''exit'') (\<lambda>_. Some (7, 12)) sample_hash [sample_staged]
     \<noteq> Inr (u ''sha256:'' @ sample_sha, [])"
proof -
  have "identity sample_hash [sample_staged] = Inr (u ''sha256:'' @ sample_sha)"
    using sample_identity by (simp add: identity_def sample_staged_def)
  from reread_detects [OF this, of "\<lambda>_. Some ''exit''" "\<lambda>_. Some (7, 12)"]
  show ?thesis by (simp add: sample_staged_def)
qed

text \<open>
  Staging measures trusted bytes and stages one copy per file: when it succeeds, the staged
  members are pairwise distinct, they are exactly the files the entries name, and each carries the
  digest and the length of the regular file its root's trusted tree holds under that path.
\<close>
theorem staging_measures_sources:
  assumes "stage_set hb sources staging placed entries = Inr vs"
  shows "distinct (map (\<lambda>i. (sv_root_key i, sv_relative i)) vs)
    \<and> (\<lambda>i. (sv_root_key i, sv_relative i)) ` set vs = (\<lambda>e. (ve_root e, ve_path e)) ` set entries
    \<and> (\<forall>i \<in> set vs. \<exists>base data. dget sources (sv_root_key i) = Some base
         \<and> base (sv_relative i) = Regular_File data
         \<and> sv_sha256 i = hex_text (hb data) \<and> sv_bytes i = int (length data))"
  using stage_Inr [OF assms] unfolding item_of_entry_def by blast

theorem staging_measures_sources_witness:
  "distinct (map (\<lambda>i. (sv_root_key i, sv_relative i)) [sample_staged])
    \<and> (\<lambda>i. (sv_root_key i, sv_relative i)) ` set [sample_staged]
        = (\<lambda>e. (ve_root e, ve_path e)) ` set [sample_entry, sample_entry]
    \<and> (\<exists>base data. dget [(u ''k'', sample_source)] (sv_root_key sample_staged) = Some base
         \<and> base (sv_relative sample_staged) = Regular_File data
         \<and> sv_sha256 sample_staged = hex_text (sample_hash data) \<and> sv_bytes sample_staged = int (length data))"
  using staging_measures_sources [OF sample_stage] by (simp only: list.set ball_simps insert_iff simp_thms) 

end
