(* ===== verification/Evidence.thy ===== *)
theory Evidence
  imports PyText CoreDecide Base64
begin

text \<open>
  The evidence rules of \<open>runtime/worldline/finalize.py\<close>: which records of a check the runtime reads,
  how it maps them to the finite categories of the kernel, what a private examiner's report must
  show, what the policy in force declares for each check, and the verdict on the whole roster. A
  record is a decoded JSON mapping; it is given by its items.
\<close>

section \<open>Private examination reports\<close>

definition MAX_REPORT_BYTES :: int where
  "MAX_REPORT_BYTES = 10000000"

definition stopped_supervision :: "(pyval \<times> pyval) list \<Rightarrow> bool" where
  "stopped_supervision supervision \<longleftrightarrow>
     truthy (mget supervision (u ''stoppedByManager'')) \<or> mget supervision (u ''result'') = PStr (u ''stopped'')"

definition role_ids :: "(pystr \<times> int) list" where
  "role_ids = [(u ''examiner'', 0), (u ''worker'', 1), (u ''candidate'', 2)]"

definition flag_is :: "(pyval \<times> pyval) list \<Rightarrow> pystr \<Rightarrow> bool \<Rightarrow> bool" where
  "flag_is d k b \<longleftrightarrow> mget d k = PBool b"

definition private_role_observed :: "pyval \<Rightarrow> pyval \<Rightarrow> bool" where
  "private_role_observed observation role =
     (case (as_map observation, role) of
        (Some obs, PStr r) \<Rightarrow>
          (case (dget role_ids r, as_map (mget obs (u ''status'')), as_map (mget obs (u ''namespaces''))) of
             (Some expected, Some status, Some namespaces) \<Rightarrow>
               mget obs (u ''role'') = PStr r
               \<and> mget obs (u ''uid'') = PInt expected \<and> mget obs (u ''gid'') = PInt expected
               \<and> mget status (u ''NoNewPrivs'') = PStr (u ''1'') \<and> mget status (u ''Groups'') = PStr []
               \<and> flag_is obs (u ''reportMounted'') (r = u ''examiner'')
               \<and> flag_is obs (u ''brokerMounted'') (r = u ''examiner'')
               \<and> flag_is obs (u ''workerBrokerMounted'') (r = u ''worker'')
               \<and> list_all (\<lambda>key. case mget status key of PStr v \<Rightarrow> zeros v | _ \<Rightarrow> False)
                   [u ''CapEff'', u ''CapPrm'', u ''CapBnd'', u ''CapAmb'']
               \<and> list_all (\<lambda>key. case mget status key of
                     PStr v \<Rightarrow> py_words v = replicate 4 (int_repr expected) | _ \<Rightarrow> False)
                   [u ''Uid'', u ''Gid'']
               \<and> list_all (\<lambda>key. case mget namespaces key of PStr v \<Rightarrow> namespace_text key v | _ \<Rightarrow> False)
                   [u ''pid'', u ''mnt'', u ''user'']
           | _ \<Rightarrow> False)
      | _ \<Rightarrow> False)"

text \<open>The channel, the supervision and the boundary of a clean supervised completion with \<open>code\<close>.\<close>

definition clean_completion ::
    "int \<Rightarrow> (pyval \<times> pyval) list \<Rightarrow> (pyval \<times> pyval) list \<Rightarrow> (pyval \<times> pyval) list
       \<Rightarrow> (pyval \<times> pyval) list \<Rightarrow> bool" where
  "clean_completion code chan supervision boundary report \<longleftrightarrow>
     mget chan (u ''accepted'') = PBool True
     \<and> mget chan (u ''recordProducer'') = PStr (u ''daemon-outside-sandbox'')
     \<and> mget supervision (u ''kind'') = PStr (u ''SUPERVISED'')
     \<and> mget supervision (u ''started'') = PBool True
     \<and> mget supervision (u ''stoppedByManager'') = PBool False
     \<and> mget supervision (u ''result'') = PStr (if code = 0 then u ''success'' else u ''failure'')
     \<and> mget supervision (u ''launcherExit'') = PInt code
     \<and> mget supervision (u ''exitCode'') \<in> {PNone, PStr (u ''exited'')}
     \<and> (mget supervision (u ''exitStatus'') = PNone \<or> mget supervision (u ''exitStatus'') = PInt code)
     \<and> mget boundary (u ''profileId'') = PStr (u ''private-evaluator-v1'')
     \<and> mget boundary (u ''error'') = PNone
     \<and> mget boundary (u ''examinerReturnCode'') = PInt code
     \<and> mget boundary (u ''bootstrapExitCode'') = PInt code
     \<and> (case as_map (mget boundary (u ''managerBootstrapProperties'')) of
          None \<Rightarrow> False | Some properties \<Rightarrow> mget properties (u ''NoNewPrivileges'') = PStr (u ''no''))
     \<and> mget boundary (u ''rolesCompleted'') = PBool True
     \<and> mget boundary (u ''reportMountExclusive'') = PBool True
     \<and> mget report (u ''collection'') = PStr (u ''private-directory'')"

definition names_subject :: "(pyval \<times> pyval) list \<Rightarrow> pystr \<Rightarrow> pyval \<Rightarrow> bool" where
  "names_subject report key expected =
     (case expected of PStr s \<Rightarrow> s \<noteq> [] \<and> 0 \<notin> set s \<and> mget report key = PStr s | _ \<Rightarrow> False)"

definition report_payload :: "(bytes \<Rightarrow> bytes) \<Rightarrow> (pyval \<times> pyval) list \<Rightarrow> bool" where
  "report_payload hb report =
     (case (mget report (u ''sha256''), mget report (u ''sizeBytes''), mget report (u ''payloadB64'')) of
        (PStr hash, PInt len, PStr text) \<Rightarrow>
          hex64 hash \<and> 0 < len \<and> len \<le> MAX_REPORT_BYTES
          \<and> int (length text) \<le> (MAX_REPORT_BYTES + 2) div 3 * 4
          \<and> (case b64decode text of
               None \<Rightarrow> False
             | Some payload \<Rightarrow> int (length payload) = len \<and> hex_text (hb payload) = hash)
      | _ \<Rightarrow> False)"

definition ns_of :: "(pyval \<times> pyval) list \<Rightarrow> pystr \<Rightarrow> pyval" where
  "ns_of obs key = mget (map_or_empty (mget obs (u ''namespaces''))) key"

text \<open>A worker of the boundary beside the examiner: its role and observation, or a refusal.\<close>

definition worker_observed ::
    "(pyval \<times> pyval) list \<Rightarrow> pyval \<Rightarrow> (pystr \<times> (pyval \<times> pyval) list) option" where
  "worker_observed examiner worker =
     (case as_map worker of
        None \<Rightarrow> None
      | Some w \<Rightarrow>
          let observation = mget w (u ''observation'');
              role = (if mhas w (u ''principal'') then mget w (u ''principal'') else PStr (u ''worker''))
          in if is_int (mget w (u ''returncode'')) \<and> private_role_observed observation role
                \<and> role \<in> {PStr (u ''worker''), PStr (u ''candidate'')}
                \<and> (let obs = map_or_empty observation in
                     ns_of obs (u ''user'') = ns_of examiner (u ''user'')
                     \<and> ns_of obs (u ''pid'') \<noteq> ns_of examiner (u ''pid'')
                     \<and> ns_of obs (u ''mnt'') \<noteq> ns_of examiner (u ''mnt'')
                     \<and> py_eq (mget obs (u ''uidMap'')) (mget examiner (u ''uidMap''))
                     \<and> py_eq (mget obs (u ''gidMap'')) (mget examiner (u ''gidMap'')))
             then Some (key_of role, map_or_empty observation) else None)"

definition roles_separate :: "(pystr \<times> (pyval \<times> pyval) list) list \<Rightarrow> bool" where
  "roles_separate observed \<longleftrightarrow>
     list_all (\<lambda>(r, cand). r = u ''worker'' \<or> list_all (\<lambda>(q, worker). q \<noteq> u ''worker''
       \<or> (mget cand (u ''uid'') \<noteq> mget worker (u ''uid'') \<and> mget cand (u ''gid'') \<noteq> mget worker (u ''gid'')))
       observed) observed"

definition workers_verified :: "(pyval \<times> pyval) list \<Rightarrow> bool" where
  "workers_verified boundary \<longleftrightarrow>
     private_role_observed (mget boundary (u ''examiner'')) (PStr (u ''examiner''))
     \<and> (case mget boundary (u ''workers'') of
          PList workers \<Rightarrow>
            let observed = map (worker_observed (map_or_empty (mget boundary (u ''examiner'')))) workers
            in None \<notin> set observed \<and> roles_separate (map the observed)
        | _ \<Rightarrow> False)"

definition private_report_verified ::
    "(bytes \<Rightarrow> bytes) \<Rightarrow> (pyval \<times> pyval) list \<Rightarrow> pystr \<Rightarrow> pystr \<Rightarrow> bool" where
  "private_report_verified hb result execution integrity =
     (mget result (u ''profile'') = PStr (u ''private-evaluator-v1'')
      \<and> mget result (u ''origin'') = PStr (u ''supervisor'')
      \<and> execution = u ''COMPLETED'' \<and> integrity = u ''VERIFIED''
      \<and> (case mget result (u ''exitCode'') of PInt code \<Rightarrow> 0 \<le> code
           \<and> (case (as_map (mget result (u ''resultChannel'')), as_map (mget result (u ''supervision'')),
                     as_map (mget result (u ''evaluatorBoundary'')), as_map (mget result (u ''privateReport'')),
                     as_map (mget result (u ''candidateSnapshot'')),
                     as_map (mget result (u ''executedVerifierSet''))) of
                (Some chan, Some supervision, Some boundary, Some report, Some snapshot, Some executed) \<Rightarrow>
                  clean_completion code chan supervision boundary report
                  \<and> names_subject report (u ''runId'') (mget boundary (u ''runId''))
                  \<and> names_subject report (u ''checkId'') (mget result (u ''id''))
                  \<and> names_subject report (u ''candidateIdentity'') (mget snapshot (u ''rootSetHash''))
                  \<and> names_subject report (u ''verifierIdentity'') (mget executed (u ''identity''))
                  \<and> report_payload hb report \<and> workers_verified boundary
              | _ \<Rightarrow> False)
         | _ \<Rightarrow> False))"

section \<open>Declarations\<close>

record check_declaration =
  cd_format :: "pystr option"
  cd_profile :: "pystr option"
  cd_bundle_declared :: bool
  cd_origin :: "pystr option"

definition ENGINE_DECLARATIONS :: "(pystr \<times> check_declaration) list" where
  "ENGINE_DECLARATIONS =
     [(u ''agent'', \<lparr>cd_format = Some (u ''exit''), cd_profile = None, cd_bundle_declared = False,
        cd_origin = Some (u ''agent'')\<rparr>),
      (u ''protected-paths'', \<lparr>cd_format = Some (u ''engine''), cd_profile = None,
        cd_bundle_declared = False, cd_origin = Some (u ''engine'')\<rparr>)]"

text \<open>The agent record of old runners, recognised by its exact shape and read with its origin.\<close>

definition runner_agent_record :: "pyval \<Rightarrow> pyval \<times> bool" where
  "runner_agent_record record =
     (case as_map record of
        None \<Rightarrow> (record, False)
      | Some r \<Rightarrow>
          if mget r (u ''id'') = PStr (u ''agent'') \<and> \<not> mhas r (u ''origin'')
             \<and> mget r (u ''kind'') = PStr (u ''build'') \<and> mget r (u ''format'') = PStr (u ''exit'')
             \<and> \<not> mhas r (u ''resultChannel'') \<and> \<not> mhas r (u ''executedVerifierSet'')
             \<and> is_map (mget r (u ''supervision'')) \<and> mhas r (u ''rawEventHash'')
          then (PDict (dset (PStr (u ''origin'')) (PStr (u ''agent'')) r), True)
          else (record, False))"

text \<open>\<open>x or ()\<close> as something to iterate over.\<close>

definition iter_or_empty :: "pyval \<Rightarrow> pyval list res" where
  "iter_or_empty v = (if truthy v then piter v else Inr [])"

definition canonical_policy_of :: "pyval \<Rightarrow> (pyval \<times> pyval) list option" where
  "canonical_policy_of requirement =
     (case as_map requirement of
        None \<Rightarrow> None
      | Some r \<Rightarrow> (case as_map (mget r (u ''policy'')) of
          None \<Rightarrow> None
        | Some p \<Rightarrow> as_map (mget p (u ''canonical''))))"

definition bundle_ids :: "pyval list \<Rightarrow> pystr list" where
  "bundle_ids verifiers = concat (map (\<lambda>e. case as_map e of
       Some d \<Rightarrow> (if mget d (u ''checkId'') = PNone then [] else [py_str (mget d (u ''checkId''))])
     | None \<Rightarrow> []) verifiers)"

definition declare_check :: "pystr list \<Rightarrow> pyval \<Rightarrow> (pystr \<times> check_declaration) list
    \<Rightarrow> (pystr \<times> check_declaration) list" where
  "declare_check bundled item declared =
     (case as_map item of
        None \<Rightarrow> declared
      | Some d \<Rightarrow> (case (mget d (u ''id''), mget d (u ''profile''), mget d (u ''format'')) of
          (PStr i, PStr profile, PStr format) \<Rightarrow>
            if i = [] then declared
            else dset i \<lparr>cd_format = Some format, cd_profile = Some profile,
                   cd_bundle_declared = (i \<in> set bundled), cd_origin = None\<rparr> declared
        | _ \<Rightarrow> declared))"

definition check_declarations :: "pyval \<Rightarrow> (pystr \<times> check_declaration) list res" where
  "check_declarations requirement =
     (case canonical_policy_of requirement of
        None \<Rightarrow> Inr []
      | Some canonical \<Rightarrow>
          rbind (iter_or_empty (mget (map_or_empty requirement) (u ''verifiers''))) (\<lambda>verifiers.
          rbind (iter_or_empty (mget canonical (u ''checks''))) (\<lambda>checks.
          let declared = fold (declare_check (bundle_ids verifiers)) checks [] in
          Inr (if truthy (mget canonical (u ''protected''))
               then dset (u ''protected-paths'') (the (dget ENGINE_DECLARATIONS (u ''protected-paths''))) declared
               else declared))))"

definition required_roster :: "pyval \<Rightarrow> (pystr list \<times> bool) res" where
  "required_roster requirement =
     (case as_map (mget (map_or_empty requirement) (u ''policy'')) of
        None \<Rightarrow> Inr ([], False)
      | Some policy \<Rightarrow>
          rbind (iter_or_empty (mget policy (u ''requiredChecks''))) (\<lambda>ids.
          let required = sort (remdups (map py_str ids));
              protects = (case as_map (mget policy (u ''canonical'')) of
                  None \<Rightarrow> False | Some c \<Rightarrow> truthy (mget c (u ''protected'')))
          in Inr (if protects \<and> u ''protected-paths'' \<notin> set required
                  then required @ [u ''protected-paths''] else required,
                  nonempty_text (mget policy (u ''sourceSha256'')))))"

definition declaration_matches :: "(pyval \<times> pyval) list \<Rightarrow> check_declaration option \<Rightarrow> bool" where
  "declaration_matches result declared =
     (case declared of
        None \<Rightarrow> False
      | Some d \<Rightarrow> cd_format d \<noteq> None \<and> mget result (u ''format'') = opt_str (cd_format d)
          \<and> (case cd_origin d of
               Some o' \<Rightarrow> mget result (u ''origin'') = PStr o' \<and> \<not> mhas result (u ''profile'')
             | None \<Rightarrow> is_text (mget result (u ''profile''))
                 \<and> mget result (u ''profile'') = opt_str (cd_profile d)))"

section \<open>One record\<close>

definition execution_binding :: "(pyval \<times> pyval) list \<Rightarrow> pystr" where
  "execution_binding result =
     (case mget result (u ''executedVerifierSet'') of
        PNone \<Rightarrow> u ''NOT_COVERED''
      | PDict executed \<Rightarrow>
          if mget executed (u ''stable'') = PBool True \<and> \<not> truthy (mget executed (u ''changedDuringExecution''))
          then u ''BOUND'' else u ''UNESTABLISHED''
      | _ \<Rightarrow> u ''UNESTABLISHED'')"

definition evaluation_presence ::
    "(pyval \<times> pyval) list \<Rightarrow> check_declaration option \<Rightarrow> evidence_presence" where
  "evaluation_presence result declared =
     \<lparr>Record_Identified = nonempty_text (mget result (u ''id'')),
      Verdict_Recorded = is_text (mget result (u ''status'')),
      Binding_Established = execution_binding result \<noteq> u ''UNESTABLISHED'',
      Declaration_Matches = declaration_matches result declared,
      Bundle_Identified = (case declared of
          None \<Rightarrow> False
        | Some d \<Rightarrow> \<not> cd_bundle_declared d
            \<or> nonempty_text (mget (map_or_empty (mget result (u ''executedVerifierSet''))) (u ''identity'')))\<rparr>"

text \<open>A value that is one of the named texts stays itself; a missing one and any other get a name.\<close>

definition category :: "pystr list \<Rightarrow> pyval \<Rightarrow> pystr" where
  "category names v =
     (if v \<in> set (map PStr names) then key_of v
      else if v = PNone then u ''ABSENT'' else u ''OTHER'')"

definition channel_kind :: "pyval \<Rightarrow> pystr" where
  "channel_kind v =
     (case v of
        PNone \<Rightarrow> u ''ABSENT''
      | PDict c \<Rightarrow>
          if c = [] then u ''EMPTY''
          else if mget c (u ''accepted'') = PBool True then u ''ACCEPTED''
          else if mget c (u ''accepted'') = PBool False then u ''REJECTED''
          else u ''OTHER''
      | _ \<Rightarrow> u ''MALFORMED'')"

definition facts_of :: "(pyval \<times> pyval) list \<Rightarrow> evaluation_facts" where
  "facts_of result =
     (let executed = mget result (u ''executedVerifierSet'');
          chan = map_or_empty (mget result (u ''resultChannel''));
          supervision = map_or_empty (mget result (u ''supervision''));
          bundle = map_or_empty executed in
      \<lparr>ef_source = (if mget result (u ''origin'') \<in> {PStr (u ''engine''), PStr (u ''agent'')}
          then key_of (mget result (u ''origin'')) else u ''external''),
       ef_status = category [u ''PASS'', u ''FAIL'', u ''UNASSESSED''] (mget result (u ''status'')),
       ef_channel = channel_kind (mget result (u ''resultChannel'')),
       ef_stage = category [u ''SANDBOX_NEVER_STARTED'', u ''STOPPED_BY_MANAGER'', u ''HARNESS_SIGNALLED'']
          (mget chan (u ''stage'')),
       ef_exit_present = (mget result (u ''exitCode'') \<noteq> PNone),
       ef_exit_integer = is_int (mget result (u ''exitCode'')),
       ef_supervisor = category [u ''SUPERVISED'', u ''STOPPED''] (mget supervision (u ''kind'')),
       ef_supervisor_stopped = stopped_supervision supervision,
       ef_bundle_present = (executed \<noteq> PNone),
       ef_bundle_is_mapping = is_map executed,
       ef_bundle_stable = (mget bundle (u ''stable'') = PBool True),
       ef_bundle_changed = truthy (mget bundle (u ''changedDuringExecution'')),
       ef_unsatisfied_imports = truthy (mget bundle (u ''unsatisfiedImports''))\<rparr>)"

record evaluation =
  ev_bundle_integrity :: pystr
  ev_execution_status :: pystr
  ev_outcome :: pystr
  ev_report_integrity :: pystr
  ev_presence :: evidence_presence
  ev_admissible :: bool

definition report_formats :: "pystr list" where
  "report_formats = [u ''junit'', u ''gnatprove'', u ''worldline-benchmark-v1'']"

definition evaluation_record ::
    "(bytes \<Rightarrow> bytes) \<Rightarrow> (pyval \<times> pyval) list \<Rightarrow> check_declaration option \<Rightarrow> evaluation res" where
  "evaluation_record hb result declared =
     rbind (evaluation_classify (facts_of result)) (\<lambda>c.
     let report_based = mget result (u ''format'') \<in> set (map PStr report_formats);
         report_integrity =
           (if \<not> report_based then u ''NOT_APPLICABLE''
            else if private_report_verified hb result (ec_execution c) (ec_bundle c) then u ''VERIFIED''
            else u ''UNTRUSTED'');
         presence = evaluation_presence result declared
     in rbind (evaluation_admissible c report_integrity presence) (\<lambda>admissible.
     Inr \<lparr>ev_bundle_integrity = ec_bundle c, ev_execution_status = ec_execution c,
          ev_outcome = ec_outcome c, ev_report_integrity = report_integrity,
          ev_presence = presence, ev_admissible = admissible\<rparr>))"

section \<open>The roster\<close>

definition presence_names :: "evidence_presence \<Rightarrow> (pystr \<times> bool) list" where
  "presence_names p = [(u ''recordIdentified'', Record_Identified p), (u ''verdictRecorded'', Verdict_Recorded p),
     (u ''bindingEstablished'', Binding_Established p), (u ''declarationMatches'', Declaration_Matches p),
     (u ''bundleIdentified'', Bundle_Identified p)]"

definition refusal_reason :: "evaluation \<Rightarrow> pystr" where
  "refusal_reason e =
     (if ev_execution_status e \<noteq> u ''COMPLETED''
      then u ''execution did not complete ('' @ ev_execution_status e @ u '')''
      else if ev_outcome e \<noteq> u ''PASS''
      then u ''the completed evaluation did not pass ('' @ ev_outcome e @ u '')''
      else if ev_bundle_integrity e \<notin> {u ''NOT_COVERED'', u ''VERIFIED''}
      then u ''verifier bundle integrity is '' @ ev_bundle_integrity e
      else if ev_report_integrity e = u ''UNTRUSTED''
      then u ''report bytes were reachable by candidate code''
      else let missing = map fst (filter (\<lambda>(n, b). \<not> b) (presence_names (ev_presence e)))
           in if missing \<noteq> [] then u ''evidence incomplete: '' @ join (u '', '') missing
              else u ''not admitted'')"

record roster_verdict =
  rv_complete :: bool
  rv_required :: "pystr list"
  rv_empty_declared :: bool
  rv_refused :: "(pystr \<times> pystr) list"
  rv_evaluations :: "(pystr \<times> evaluation) list"

text \<open>One required check: whether it is admitted, and what it adds to the refusals and evaluations.\<close>

definition roster_step ::
    "(bytes \<Rightarrow> bytes) \<Rightarrow> (pystr \<times> pyval) list \<Rightarrow> (pystr \<times> check_declaration) list \<Rightarrow> pystr
       \<Rightarrow> bool list \<times> (pystr \<times> pystr) list \<times> (pystr \<times> evaluation) list
       \<Rightarrow> (bool list \<times> (pystr \<times> pystr) list \<times> (pystr \<times> evaluation) list) res" where
  "roster_step hb results declarations i acc =
     (case acc of (admitted, refused, evaluations) \<Rightarrow>
      case Option.bind (dget results i) as_map of
        None \<Rightarrow> Inr (admitted @ [False], refused @ [(i, u ''no execution record'')], evaluations)
      | Some result \<Rightarrow>
          rbind (evaluation_record hb result (dget declarations i)) (\<lambda>e.
          Inr (admitted @ [ev_admissible e],
               (if ev_admissible e then refused else refused @ [(i, refusal_reason e)]),
               dset i e evaluations)))"

definition roster_decision ::
    "(bytes \<Rightarrow> bytes) \<Rightarrow> pystr list \<Rightarrow> (pystr \<times> pyval) list \<Rightarrow> (pystr \<times> check_declaration) list
       \<Rightarrow> bool \<Rightarrow> roster_verdict res" where
  "roster_decision hb required results declarations empty_declared =
     rbind (rfold (roster_step hb results declarations) required ([], [], [])) (\<lambda>(admitted, refused, evaluations).
     rbind (evaluation_roster_complete admitted empty_declared) (\<lambda>complete.
     Inr \<lparr>rv_complete = complete, rv_required = required, rv_empty_declared = empty_declared,
          rv_refused = refused, rv_evaluations = evaluations\<rparr>))"

end
