(* ===== verification/Evidence_Laws.thy ===== *)
theory Evidence_Laws
  imports Evidence
begin

text \<open>
  What the evidence rules promise: reading a record never fails, however malformed it is; a record
  is admitted only on positive facts that match the policy's declaration; a roster is complete
  exactly when nothing required was refused, and then every required check has such a record; a
  verified private report comes with observations of separate principals.
\<close>

section \<open>Every record is classified\<close>

lemma category_named: "category names v \<in> set names \<union> {u ''ABSENT'', u ''OTHER''}"
  by (auto simp: category_def key_of_def)

lemma typed_facts_of: "typed_facts (facts_of result)"
proof -
  have s: "dget EVALUATION_STATUSES (ef_status (facts_of result)) \<noteq> None"
    using category_named [of "[u ''PASS'', u ''FAIL'', u ''UNASSESSED'']" "mget result (u ''status'')"]
    by (auto simp: facts_of_def Let_def evaluation_tables)
  have t: "dget EVALUATION_STAGES (ef_stage (facts_of result)) \<noteq> None"
    using category_named [of "[u ''SANDBOX_NEVER_STARTED'', u ''STOPPED_BY_MANAGER'', u ''HARNESS_SIGNALLED'']"
        "mget (map_or_empty (mget result (u ''resultChannel''))) (u ''stage'')"]
    by (auto simp: facts_of_def Let_def evaluation_tables)
  have p: "dget EVALUATION_SUPERVISION (ef_supervisor (facts_of result)) \<noteq> None"
    using category_named [of "[u ''SUPERVISED'', u ''STOPPED'']"
        "mget (map_or_empty (mget result (u ''supervision''))) (u ''kind'')"]
    by (auto simp: facts_of_def Let_def evaluation_tables)
  have c: "dget EVALUATION_CHANNELS (ef_channel (facts_of result)) \<noteq> None"
    by (auto simp: facts_of_def Let_def channel_kind_def evaluation_tables split: pyval.split)
  have o': "dget EVALUATION_ORIGINS (ef_source (facts_of result)) \<noteq> None"
    by (auto simp: facts_of_def Let_def key_of_def evaluation_tables)
  show ?thesis using s t p c o' by (simp add: typed_facts_def)
qed

lemma mget_map_or_empty_present:
  "mget (map_or_empty v) k \<noteq> PNone \<Longrightarrow> v \<noteq> PNone \<and> is_map v"
  by (auto simp: mget_def map_or_empty_def is_map_def split: option.splits)

lemma truthy_not_none: "truthy v \<Longrightarrow> v \<noteq> PNone"
  by (auto simp: truthy_def)

lemma facts_consistent: "observations_consistent (observations_of (facts_of result))"
proof -
  let ?e = "mget result (u ''executedVerifierSet'')"
  have "mget (map_or_empty ?e) (u ''stable'') = PBool True \<Longrightarrow> ?e \<noteq> PNone \<and> is_map ?e"
    using mget_map_or_empty_present [of ?e "u ''stable''"] by (simp del: u_inj)
  moreover have "truthy (mget (map_or_empty ?e) (u ''changedDuringExecution'')) \<Longrightarrow> ?e \<noteq> PNone \<and> is_map ?e"
    using mget_map_or_empty_present [of ?e] truthy_not_none by blast
  moreover have "is_int v \<Longrightarrow> v \<noteq> PNone" for v by (auto simp: is_int_def)
  ultimately show ?thesis
    by (simp add: observations_consistent_def observations_of_def facts_of_def Let_def)
qed

lemma facts_classified:
  "evaluation_classify (facts_of result) = Inr (names_of (Classify (observations_of (facts_of result))))"
  by (simp add: evaluation_classify_Inr typed_facts_of facts_consistent)

text \<open>\<open>Classify\<close> never answers with a state in progress, and has an outcome exactly when completed.\<close>

lemma Classify_shape:
  "Execution (Classify f) \<notin> {PREPARED, STARTED}
    \<and> (Execution (Classify f) = COMPLETED \<longleftrightarrow> Result (Classify f) \<noteq> No_Outcome)"
  by (auto simp: Classify_def Let_def split: stage.splits raw_status.splits)

lemma admissible_defined:
  assumes "report \<in> {u ''NOT_APPLICABLE'', u ''VERIFIED'', u ''UNTRUSTED''}"
  shows "\<exists>b. evaluation_admissible (names_of (Classify f)) report p = Inr b"
proof -
  let ?v = "Classify f"
  obtain r where r: "dget EVALUATION_REPORTS report = Some r" "r \<le> 2"
    using assms by (auto simp: EVALUATION_REPORTS_def)
  have e: "index_of (Execution ?v) executions \<le> 8" using execution_index [of "Execution ?v"] by simp
  have o': "index_of (Result ?v) outcomes \<le> 2" by (cases "Result ?v") (simp_all add: outcomes_def)
  have b: "index_of (Bundle ?v) bundles \<le> 3" by (cases "Bundle ?v") (simp_all add: bundles_def)
  have s: "index_of (Execution ?v) executions \<notin> {1, 2}"
    using Classify_shape [of f] by (cases "Execution ?v") (simp_all add: executions_def)
  have c: "(index_of (Execution ?v) executions = 8) \<noteq> (index_of (Result ?v) outcomes = 0)"
    using Classify_shape [of f]
    by (cases "Execution ?v"; cases "Result ?v") (simp_all add: executions_def outcomes_def)
  have "wl_evaluation_admissible (index_of (Execution ?v) executions, index_of (Result ?v) outcomes,
      index_of (Bundle ?v) bundles) r p \<in> {0, 1}"
    using e o' b s c r(2) by (auto simp: wl_evaluation_admissible_def)
  then show ?thesis
    by (simp add: evaluation_admissible_def names_of_def position_execution position_outcome
        position_bundle r(1) Let_def)
qed

lemma evaluation_record_defined: "\<exists>e. evaluation_record hb result declared = Inr e"
  unfolding evaluation_record_def facts_classified rbind_simps Let_def
  using admissible_defined [of "if \<not> mget result (u ''format'') \<in> set (map PStr report_formats) then u ''NOT_APPLICABLE''
            else if private_report_verified hb result
              (ec_execution (names_of (Classify (observations_of (facts_of result)))))
              (ec_bundle (names_of (Classify (observations_of (facts_of result)))))
            then u ''VERIFIED'' else u ''UNTRUSTED''"
      "observations_of (facts_of result)" "evaluation_presence result declared"]
  by (auto simp: rbind_Inr_iff split: if_splits)

section \<open>Admission\<close>

text \<open>What a record must say of itself, under its declaration, to be admitted.\<close>

definition record_passes ::
    "(bytes \<Rightarrow> bytes) \<Rightarrow> (pyval \<times> pyval) list \<Rightarrow> check_declaration \<Rightarrow> bool" where
  "record_passes hb r d \<longleftrightarrow>
     mget r (u ''status'') = PStr (u ''PASS'') \<and> nonempty_text (mget r (u ''id''))
     \<and> declaration_matches r (Some d) \<and> execution_binding r \<noteq> u ''UNESTABLISHED''
     \<and> (cd_bundle_declared d \<longrightarrow>
          nonempty_text (mget (map_or_empty (mget r (u ''executedVerifierSet''))) (u ''identity'')))
     \<and> (mget r (u ''origin'') \<notin> {PStr (u ''engine''), PStr (u ''agent'')} \<longrightarrow>
          mget (map_or_empty (mget r (u ''resultChannel''))) (u ''accepted'') = PBool True
          \<and> is_int (mget r (u ''exitCode'')))
     \<and> (mget r (u ''origin'') = PStr (u ''agent'') \<longrightarrow>
          mget (map_or_empty (mget r (u ''supervision''))) (u ''kind'') = PStr (u ''SUPERVISED'')
          \<and> \<not> stopped_supervision (map_or_empty (mget r (u ''supervision''))))
     \<and> (mget r (u ''format'') \<in> set (map PStr report_formats) \<longrightarrow>
          private_report_verified hb r (u ''COMPLETED'') (u ''VERIFIED''))"

lemma category_eq: "category names v = s \<Longrightarrow> s \<in> set names \<Longrightarrow> s \<notin> {u ''ABSENT'', u ''OTHER''} \<Longrightarrow> v = PStr s"
  by (auto simp: category_def key_of_def split: if_splits)

lemma channel_accepted: "channel_kind v = u ''ACCEPTED'' \<Longrightarrow> mget (map_or_empty v) (u ''accepted'') = PBool True"
  by (auto simp: channel_kind_def split: pyval.splits if_splits)

lemma private_report_categories:
  "private_report_verified hb r e i \<Longrightarrow> private_report_verified hb r (u ''COMPLETED'') (u ''VERIFIED'')"
  by (simp add: private_report_verified_def)

lemma admitted_record_passes:
  assumes "evaluation_record hb r declared = Inr e" and "ev_admissible e"
  shows "\<exists>d. declared = Some d \<and> record_passes hb r d"
proof -
  let ?f = "facts_of r"
  let ?report = "ev_report_integrity e"
  obtain c where c: "evaluation_classify ?f = Inr c"
    and a: "evaluation_admissible c ?report (evaluation_presence r declared) = Inr True"
    and rep: "?report = (if mget r (u ''format'') \<notin> set (map PStr report_formats) then u ''NOT_APPLICABLE''
      else if private_report_verified hb r (ec_execution c) (ec_bundle c) then u ''VERIFIED'' else u ''UNTRUSTED'')"
    using assms by (auto simp: evaluation_record_def rbind_Inr_iff Let_def simp del: set_map)
  have p: "Evidence_Complete (evaluation_presence r declared)"
    and reports: "?report \<in> {u ''NOT_APPLICABLE'', u ''VERIFIED''}"
    using a by (simp_all add: evaluation_admissible_True)
  obtain d where d: "declared = Some d"
    using p by (cases declared) (auto simp: Evidence_Complete_def evaluation_presence_def)
  note facts = admitted_facts [OF c a]
  have o': "ef_source ?f = (if mget r (u ''origin'') \<in> {PStr (u ''engine''), PStr (u ''agent'')}
      then key_of (mget r (u ''origin'')) else u ''external'')"
    by (simp add: facts_of_def Let_def)
  have status: "mget r (u ''status'') = PStr (u ''PASS'')"
    using facts category_eq [of "[u ''PASS'', u ''FAIL'', u ''UNASSESSED'']" "mget r (u ''status'')" "u ''PASS''"]
    by (simp add: facts_of_def Let_def)
  have ext: "mget r (u ''origin'') \<notin> {PStr (u ''engine''), PStr (u ''agent'')} \<longrightarrow>
      mget (map_or_empty (mget r (u ''resultChannel''))) (u ''accepted'') = PBool True \<and> is_int (mget r (u ''exitCode''))"
    using facts o' channel_accepted [of "mget r (u ''resultChannel'')"]
    by (auto simp: facts_of_def Let_def)
  have ag: "mget r (u ''origin'') = PStr (u ''agent'') \<longrightarrow>
      mget (map_or_empty (mget r (u ''supervision''))) (u ''kind'') = PStr (u ''SUPERVISED'')
      \<and> \<not> stopped_supervision (map_or_empty (mget r (u ''supervision'')))"
    using facts o' category_eq [of "[u ''SUPERVISED'', u ''STOPPED'']"
        "mget (map_or_empty (mget r (u ''supervision''))) (u ''kind'')" "u ''SUPERVISED''"]
    by (auto simp: facts_of_def Let_def key_of_def)
  have priv: "mget r (u ''format'') \<in> set (map PStr report_formats) \<longrightarrow>
      private_report_verified hb r (u ''COMPLETED'') (u ''VERIFIED'')"
  proof
    assume f: "mget r (u ''format'') \<in> set (map PStr report_formats)"
    with rep reports have "private_report_verified hb r (ec_execution c) (ec_bundle c)"
      by (simp split: if_splits)
    then show "private_report_verified hb r (u ''COMPLETED'') (u ''VERIFIED'')"
      by (rule private_report_categories)
  qed
  have ev: "nonempty_text (mget r (u ''id''))" "execution_binding r \<noteq> u ''UNESTABLISHED''"
      "declaration_matches r (Some d)"
      "cd_bundle_declared d \<longrightarrow> nonempty_text (mget (map_or_empty (mget r (u ''executedVerifierSet''))) (u ''identity''))"
    using p d by (simp_all add: Evidence_Complete_def evaluation_presence_def)
  show ?thesis
    unfolding record_passes_def using d status ext ag priv ev by blast
qed

section \<open>The roster\<close>

text \<open>Whether the record of a required check is admitted, written without the accumulators.\<close>

definition check_admitted ::
    "(bytes \<Rightarrow> bytes) \<Rightarrow> (pystr \<times> pyval) list \<Rightarrow> (pystr \<times> check_declaration) list \<Rightarrow> pystr \<Rightarrow> bool" where
  "check_admitted hb results declarations i \<longleftrightarrow>
     (case Option.bind (dget results i) as_map of
        None \<Rightarrow> False
      | Some r \<Rightarrow> (case evaluation_record hb r (dget declarations i) of
          Inl _ \<Rightarrow> False | Inr e \<Rightarrow> ev_admissible e))"

lemma roster_step_Inr:
  "\<exists>refused' evaluations'. roster_step hb results declarations i (admitted, refused, evaluations)
      = Inr (admitted @ [check_admitted hb results declarations i], refused', evaluations')
    \<and> (refused' = [] \<longleftrightarrow> refused = [] \<and> check_admitted hb results declarations i)"
proof (cases "Option.bind (dget results i) as_map")
  case (Some r)
  obtain e where "evaluation_record hb r (dget declarations i) = Inr e"
    using evaluation_record_defined by blast
  then show ?thesis using Some by (simp add: roster_step_def check_admitted_def)
qed (simp add: roster_step_def check_admitted_def)

lemma roster_fold:
  "\<exists>refused' evaluations'. rfold (roster_step hb results declarations) required (admitted, refused, evaluations)
      = Inr (admitted @ map (check_admitted hb results declarations) required, refused', evaluations')
    \<and> (refused' = [] \<longleftrightarrow> refused = [] \<and> list_all (check_admitted hb results declarations) required)"
proof (induction required arbitrary: admitted refused evaluations)
  case (Cons i js)
  let ?A = "check_admitted hb results declarations"
  obtain f v where s: "roster_step hb results declarations i (admitted, refused, evaluations)
      = Inr (admitted @ [?A i], f, v)" and f: "f = [] \<longleftrightarrow> refused = [] \<and> ?A i"
    using roster_step_Inr [of hb results declarations i admitted refused evaluations]
    by (elim exE conjE) (rule that)
  obtain f' v' where t: "rfold (roster_step hb results declarations) js (admitted @ [?A i], f, v)
      = Inr ((admitted @ [?A i]) @ map ?A js, f', v')" and f': "f' = [] \<longleftrightarrow> f = [] \<and> list_all ?A js"
    using Cons.IH [of "admitted @ [?A i]" f v] by (elim exE conjE) (rule that)
  have "rfold (roster_step hb results declarations) (i # js) (admitted, refused, evaluations)
      = Inr (admitted @ map ?A (i # js), f', v')"
    by (simp add: s t)
  moreover have "f' = [] \<longleftrightarrow> refused = [] \<and> list_all ?A (i # js)" using f f' by simp
  ultimately show ?case by blast
qed simp

lemma roster_decision_cases:
  assumes "length required \<le> 4096"
  shows "\<exists>refused evaluations. roster_decision hb required results declarations empty_declared
      = Inr \<lparr>rv_complete = (if required = [] then empty_declared
               else list_all (check_admitted hb results declarations) required),
             rv_required = required, rv_empty_declared = empty_declared,
             rv_refused = refused, rv_evaluations = evaluations\<rparr>
    \<and> (refused = [] \<longleftrightarrow> list_all (check_admitted hb results declarations) required)"
proof -
  obtain refused evaluations where f: "rfold (roster_step hb results declarations) required ([], [], [])
      = Inr (map (check_admitted hb results declarations) required, refused, evaluations)"
    and r: "refused = [] \<longleftrightarrow> list_all (check_admitted hb results declarations) required"
    using roster_fold [of hb results declarations required "[]" "[]" "[]"] by auto
  have "evaluation_roster_complete (map (check_admitted hb results declarations) required) empty_declared
      = Inr (if required = [] then empty_declared
             else list_all (check_admitted hb results declarations) required)"
    using assms by (simp add: evaluation_roster_complete_Inr list_all_iff)
  then show ?thesis using f r by (simp add: roster_decision_def)
qed

lemma roster_too_large:
  assumes "4096 < length required"
  shows "roster_decision hb required results declarations empty_declared = Inl (WL ''ROSTER_TOO_LARGE'')"
proof -
  obtain refused evaluations where f: "rfold (roster_step hb results declarations) required ([], [], [])
      = Inr (map (check_admitted hb results declarations) required, refused, evaluations)"
    using roster_fold [of hb results declarations required "[]" "[]" "[]"] by auto
  then show ?thesis using assms
    by (simp add: roster_decision_def evaluation_roster_complete_def ensure_def)
qed

lemma check_admitted_passes:
  assumes "check_admitted hb results declarations i"
  shows "\<exists>r d. dget results i = Some (PDict r) \<and> dget declarations i = Some d \<and> record_passes hb r d"
proof -
  from assms obtain r e where r: "dget results i = Some (PDict r)"
    "evaluation_record hb r (dget declarations i) = Inr e" "ev_admissible e"
    by (auto simp: check_admitted_def as_map_Some bind_eq_Some_conv split: option.splits sum.splits)
  show ?thesis using r(1) admitted_record_passes [OF r(2,3)] by blast
qed

section \<open>Declarations come from the policy\<close>

text \<open>The items of the policy's check list, as far as they are mappings.\<close>

definition item_declares :: "pystr \<Rightarrow> check_declaration \<Rightarrow> (pyval \<times> pyval) list \<Rightarrow> bool" where
  "item_declares i d item \<longleftrightarrow> mget item (u ''id'') = PStr i
     \<and> mget item (u ''format'') = opt_str (cd_format d)
     \<and> mget item (u ''profile'') = opt_str (cd_profile d) \<and> cd_origin d = None"

definition policy_declares :: "pyval \<Rightarrow> pystr \<Rightarrow> check_declaration \<Rightarrow> bool" where
  "policy_declares requirement i d \<longleftrightarrow> (\<exists>canonical checks. canonical_policy_of requirement = Some canonical
     \<and> iter_or_empty (mget canonical (u ''checks'')) = Inr checks
     \<and> (i = u ''protected-paths'' \<and> truthy (mget canonical (u ''protected''))
          \<and> Some d = dget ENGINE_DECLARATIONS i
        \<or> (\<exists>item. PDict item \<in> set checks \<and> item_declares i d item)))"

lemma declare_check_from:
  assumes "dget (declare_check bundled c declared) i = Some d"
  shows "dget declared i = Some d \<or> (\<exists>item. c = PDict item \<and> item_declares i d item)"
proof (cases "declare_check bundled c declared = declared")
  case False
  then obtain item where c: "c = PDict item"
    by (auto simp: declare_check_def as_map_Some split: option.splits)
  obtain j profile format where v: "mget item (u ''id'') = PStr j" "mget item (u ''profile'') = PStr profile"
      "mget item (u ''format'') = PStr format" "j \<noteq> []"
    using False unfolding c declare_check_def as_map_simps option.case
    by (cases "mget item (u ''id'')"; cases "mget item (u ''profile'')"; cases "mget item (u ''format'')")
      (simp_all split: if_splits)
  have "declare_check bundled c declared = dset j \<lparr>cd_format = Some format, cd_profile = Some profile,
      cd_bundle_declared = (j \<in> set bundled), cd_origin = None\<rparr> declared"
    by (simp add: c declare_check_def v)
  then show ?thesis using assms v c by (auto simp: item_declares_def dget_dset opt_str_def split: if_splits)
qed (use assms in simp)

lemma declare_checks_from:
  "dget (fold (declare_check bundled) checks declared) i = Some d \<Longrightarrow>
     dget declared i = Some d \<or> (\<exists>item. PDict item \<in> set checks \<and> item_declares i d item)"
proof (induction checks arbitrary: declared)
  case (Cons c cs)
  have "dget (fold (declare_check bundled) cs (declare_check bundled c declared)) i = Some d"
    using Cons.prems by simp
  from Cons.IH [OF this] show ?case
  proof
    assume "dget (declare_check bundled c declared) i = Some d"
    from declare_check_from [OF this] show ?thesis
    proof
      assume "\<exists>item. c = PDict item \<and> item_declares i d item"
      then have "\<exists>item. PDict item \<in> set (c # cs) \<and> item_declares i d item" by auto
      then show ?thesis by (rule disjI2)
    qed (rule disjI1)
  next
    assume "\<exists>item. PDict item \<in> set cs \<and> item_declares i d item"
    then have "\<exists>item. PDict item \<in> set (c # cs) \<and> item_declares i d item" by auto
    then show ?thesis by (rule disjI2)
  qed
qed simp

lemma check_declarations_from:
  assumes "check_declarations requirement = Inr declared" and "dget declared i = Some d"
  shows "policy_declares requirement i d"
proof -
  from assms obtain canonical where c: "canonical_policy_of requirement = Some canonical"
    by (auto simp: check_declarations_def split: option.splits)
  then obtain verifiers checks where k: "iter_or_empty (mget canonical (u ''checks'')) = Inr checks"
    and D: "declared = (if truthy (mget canonical (u ''protected''))
        then dset (u ''protected-paths'') (the (dget ENGINE_DECLARATIONS (u ''protected-paths'')))
          (fold (declare_check (bundle_ids verifiers)) checks [])
        else fold (declare_check (bundle_ids verifiers)) checks [])"
    using assms(1) by (auto simp: check_declarations_def rbind_Inr_iff Let_def)
  have e: "Some (the (dget ENGINE_DECLARATIONS (u ''protected-paths''))) = dget ENGINE_DECLARATIONS (u ''protected-paths'')"
    by (simp add: ENGINE_DECLARATIONS_def)
  let ?F = "fold (declare_check (bundle_ids verifiers)) checks []"
  let ?P = "truthy (mget canonical (u ''protected''))"
  have g: "dget declared i = (if ?P \<and> i = u ''protected-paths''
      then Some (the (dget ENGINE_DECLARATIONS (u ''protected-paths''))) else dget ?F i)"
    unfolding D by (cases ?P) (simp_all add: dget_dset)
  then consider "i = u ''protected-paths''" ?P "d = the (dget ENGINE_DECLARATIONS (u ''protected-paths''))"
    | "dget ?F i = Some d"
    using assms(2) by (cases "?P \<and> i = u ''protected-paths''") simp_all
  then show ?thesis
  proof cases
    case 1
    then show ?thesis using c k e by (auto simp: policy_declares_def)
  next
    case 2
    from declare_checks_from [OF this] show ?thesis
      unfolding policy_declares_def using c k by auto
  qed
qed

section \<open>Principals of a private examination\<close>

lemma private_role_ids:
  assumes "private_role_observed v (PStr r)"
  shows "\<exists>obs n. v = PDict obs \<and> dget role_ids r = Some n \<and> mget obs (u ''uid'') = PInt n
    \<and> mget obs (u ''gid'') = PInt n \<and> mget obs (u ''role'') = PStr r"
  using assms
  by (auto simp: private_role_observed_def as_map_Some split: option.splits)

lemma if_Some_iff: "(if b then Some x else None) = Some y \<longleftrightarrow> b \<and> x = y"
  by simp

lemma worker_observed_Some:
  assumes "worker_observed examiner w = Some (r, obs)"
  shows "\<exists>d. w = PDict d \<and> mget d (u ''observation'') = PDict obs \<and> r \<in> {u ''worker'', u ''candidate''}
    \<and> private_role_observed (PDict obs) (PStr r)
    \<and> ns_of obs (u ''pid'') \<noteq> ns_of examiner (u ''pid'') \<and> ns_of obs (u ''mnt'') \<noteq> ns_of examiner (u ''mnt'')"
proof -
  obtain d where d: "w = PDict d"
    using assms by (auto simp: worker_observed_def as_map_Some split: option.splits)
  define o' where "o' = mget d (u ''observation'')"
  define role where "role = (if mhas d (u ''principal'') then mget d (u ''principal'') else PStr (u ''worker''))"
  note C = assms [unfolded worker_observed_def d as_map_simps option.case Let_def if_Some_iff,
      folded o'_def role_def]
  have c: "private_role_observed o' role" "role \<in> {PStr (u ''worker''), PStr (u ''candidate'')}"
    "ns_of (map_or_empty o') (u ''pid'') \<noteq> ns_of examiner (u ''pid'')"
    "ns_of (map_or_empty o') (u ''mnt'') \<noteq> ns_of examiner (u ''mnt'')"
    using C by - (elim conjE, assumption)+
  have p: "(key_of role, map_or_empty o') = (r, obs)" using C by (rule conjunct2)
  have r: "role = PStr r" using c(2) p by (auto simp: key_of_def)
  obtain obs' where "o' = PDict obs'" using private_role_ids c(1) r by blast
  moreover have "r \<in> {u ''worker'', u ''candidate''}" using c(2) r by simp
  ultimately show ?thesis using c r d p by (simp add: o'_def)
qed

lemma observed_separate:
  assumes "\<forall>x \<in> set observed. \<exists>examiner w. worker_observed examiner w = Some x"
  shows "roles_separate observed"
proof -
  have "fst x = u ''worker'' \<or> fst y \<noteq> u ''worker''
      \<or> (mget (snd x) (u ''uid'') \<noteq> mget (snd y) (u ''uid'') \<and> mget (snd x) (u ''gid'') \<noteq> mget (snd y) (u ''gid''))"
    if "x \<in> set observed" "y \<in> set observed" for x y
  proof -
    obtain r obs where x: "x = (r, obs)" by (cases x)
    obtain q obs' where y: "y = (q, obs')" by (cases y)
    have "r \<in> {u ''worker'', u ''candidate''}" "private_role_observed (PDict obs) (PStr r)"
      "private_role_observed (PDict obs') (PStr q)"
      using assms that x y worker_observed_Some by blast+
    then show ?thesis
      using private_role_ids [of "PDict obs" r] private_role_ids [of "PDict obs'" q] x y
      by (auto simp: role_ids_def split: if_splits)
  qed
  then show ?thesis unfolding roles_separate_def list_all_iff split_beta by blast
qed

lemma private_report_boundary:
  assumes "private_report_verified hb r e i"
  shows "\<exists>boundary. mget r (u ''evaluatorBoundary'') = PDict boundary \<and> workers_verified boundary"
  using assms unfolding private_report_verified_def
  by (cases "mget r (u ''exitCode'')"; cases "mget r (u ''evaluatorBoundary'')")
    (simp_all split: option.split_asm)

lemma workers_verified_all:
  assumes "workers_verified boundary"
  shows "\<exists>examiner workers. mget boundary (u ''examiner'') = PDict examiner
    \<and> mget boundary (u ''workers'') = PList workers
    \<and> private_role_observed (PDict examiner) (PStr (u ''examiner''))
    \<and> (\<forall>w \<in> set workers. \<exists>x. worker_observed examiner w = Some x)"
proof -
  have x: "private_role_observed (mget boundary (u ''examiner'')) (PStr (u ''examiner''))"
    using assms by (simp add: workers_verified_def)
  obtain examiner where e: "mget boundary (u ''examiner'') = PDict examiner"
    using private_role_ids [OF x] by auto
  obtain workers where w: "mget boundary (u ''workers'') = PList workers"
    using assms by (cases "mget boundary (u ''workers'')") (simp_all add: workers_verified_def)
  have "None \<notin> set (map (worker_observed examiner) workers)"
    using assms e w by (simp add: workers_verified_def Let_def)
  then have "\<forall>v \<in> set workers. \<exists>y. worker_observed examiner v = Some y"
    by (metis image_eqI list.set_map option.exhaust)
  then show ?thesis using e w x by metis
qed

section \<open>Properties\<close>

text \<open>
  No record of a check, however malformed, makes its evaluation fail: the observations read from
  any mapping fall in the kernel's finite categories and are consistent, so the classification and
  the decision on its admission always answer.
\<close>
theorem evaluation_record_total:
  "\<exists>e. evaluation_record hb result declared = Inr e"
  by (rule evaluation_record_defined)


definition sample_requirement :: pyval where
  "sample_requirement = pdict [
     (u ''policy'', pdict [
        (u ''canonical'', pdict [(u ''checks'', PList [pdict [(u ''id'', PStr (u ''unit'')),
           (u ''profile'', PStr (u ''candidate'')), (u ''format'', PStr (u ''exit''))]])]),
        (u ''requiredChecks'', PList [PStr (u ''unit'')]), (u ''sourceSha256'', PStr (u ''ab''))])]"

definition sample_result :: pyval where
  "sample_result = pdict [(u ''id'', PStr (u ''unit'')), (u ''status'', PStr (u ''PASS'')),
     (u ''format'', PStr (u ''exit'')), (u ''profile'', PStr (u ''candidate'')), (u ''exitCode'', PInt 0),
     (u ''resultChannel'', pdict [(u ''accepted'', PBool True)])]"

lemma sample_roster:
  "required_roster sample_requirement = Inr ([u ''unit''], True)"
  "check_declarations sample_requirement = Inr [(u ''unit'', \<lparr>cd_format = Some (u ''exit''),
     cd_profile = Some (u ''candidate''), cd_bundle_declared = False, cd_origin = None\<rparr>)]"
  by code_simp+

lemma sample_verdict:
  "case roster_decision (\<lambda>_. []) [u ''unit''] [(u ''unit'', sample_result)]
      [(u ''unit'', \<lparr>cd_format = Some (u ''exit''), cd_profile = Some (u ''candidate''),
        cd_bundle_declared = False, cd_origin = None\<rparr>)] True of
     Inl _ \<Rightarrow> False | Inr v \<Rightarrow> rv_complete v"
  by code_simp


text \<open>
  A roster is refused by name: whatever the records are, the verdict on a nonempty roster is
  complete exactly when no required check was refused, and the verdict on an empty roster is whether
  the policy declared it empty.
\<close>
theorem roster_complete_iff_unrefused:
  assumes "roster_decision hb required results declared empty_declared = Inr v"
  shows "rv_complete v \<longleftrightarrow> (if required = [] then empty_declared else rv_refused v = [])"
proof -
  have l: "length required \<le> 4096"
    using roster_too_large [of required hb results declared empty_declared] assms
    by (cases "length required \<le> 4096") simp_all
  show ?thesis
    using roster_decision_cases [OF l, of hb results declared empty_declared] assms by auto
qed

theorem roster_complete_iff_unrefused_witness:
  "\<exists>v. roster_decision (\<lambda>_. []) [u ''unit''] [] [] True = Inr v
     \<and> (rv_complete v \<longleftrightarrow> (if [u ''unit''] = [] then True else rv_refused v = []))"
proof -
  have "length [u ''unit''] \<le> 4096" by simp
  from roster_decision_cases [OF this, of "\<lambda>_. []" "[]" "[]" True]
  obtain v where v: "roster_decision (\<lambda>_. []) [u ''unit''] [] [] True = Inr v" by blast
  show ?thesis using v roster_complete_iff_unrefused [OF v] by blast
qed

text \<open>
  A verified private report comes from separate principals: the examiner was observed as user 0,
  every other observed process ran as user 1 or 2, according to its role, and in process and mount
  namespaces that differ from the examiner's. The code's closing comparison of candidates with
  workers therefore never refuses a report on its own.
\<close>
theorem private_report_isolated:
  assumes "private_report_verified hb r execution integrity"
  shows "\<exists>boundary examiner workers. mget r (u ''evaluatorBoundary'') = PDict boundary
    \<and> mget boundary (u ''examiner'') = PDict examiner \<and> mget boundary (u ''workers'') = PList workers
    \<and> mget examiner (u ''uid'') = PInt 0
    \<and> (\<forall>w \<in> set workers. \<exists>role obs. worker_observed examiner w = Some (role, obs)
        \<and> mget obs (u ''uid'') = PInt (if role = u ''worker'' then 1 else 2)
        \<and> ns_of obs (u ''pid'') \<noteq> ns_of examiner (u ''pid'')
        \<and> ns_of obs (u ''mnt'') \<noteq> ns_of examiner (u ''mnt''))"
proof -
  obtain boundary where b: "mget r (u ''evaluatorBoundary'') = PDict boundary" "workers_verified boundary"
    using private_report_boundary [OF assms] by blast
  obtain examiner workers where e: "mget boundary (u ''examiner'') = PDict examiner"
    "mget boundary (u ''workers'') = PList workers"
    "private_role_observed (PDict examiner) (PStr (u ''examiner''))"
    and w: "\<forall>w \<in> set workers. \<exists>x. worker_observed examiner w = Some x"
    using workers_verified_all [OF b(2)] by blast
  have uid: "mget examiner (u ''uid'') = PInt 0"
    using private_role_ids [OF e(3)] by (auto simp: role_ids_def)
  have "\<exists>role obs. worker_observed examiner v = Some (role, obs)
        \<and> mget obs (u ''uid'') = PInt (if role = u ''worker'' then 1 else 2)
        \<and> ns_of obs (u ''pid'') \<noteq> ns_of examiner (u ''pid'')
        \<and> ns_of obs (u ''mnt'') \<noteq> ns_of examiner (u ''mnt'')" if v: "v \<in> set workers" for v
  proof -
    obtain role obs where x: "worker_observed examiner v = Some (role, obs)" using w v by (metis surj_pair)
    from worker_observed_Some [OF x] have k: "role \<in> {u ''worker'', u ''candidate''}"
      "private_role_observed (PDict obs) (PStr role)"
      "ns_of obs (u ''pid'') \<noteq> ns_of examiner (u ''pid'')" "ns_of obs (u ''mnt'') \<noteq> ns_of examiner (u ''mnt'')"
      by blast+
    have "mget obs (u ''uid'') = PInt (if role = u ''worker'' then 1 else 2)"
      using private_role_ids [OF k(2)] k(1) by (auto simp: role_ids_def)
    then show ?thesis using x k by blast
  qed
  then show ?thesis using b(1) e(1,2) uid by blast
qed

definition sample_role :: "pystr \<Rightarrow> pystr \<Rightarrow> bool \<Rightarrow> pystr \<Rightarrow> pyval" where
  "sample_role role n examiner ns = pdict [(u ''role'', PStr role), (u ''uid'', PInt (if examiner then 0 else 1)),
     (u ''gid'', PInt (if examiner then 0 else 1)),
     (u ''status'', pdict ([(u ''NoNewPrivs'', PStr (u ''1'')), (u ''Groups'', PStr [])]
        @ map (\<lambda>k. (k, PStr (u ''0000''))) [u ''CapEff'', u ''CapPrm'', u ''CapBnd'', u ''CapAmb'']
        @ map (\<lambda>k. (k, PStr n)) [u ''Uid'', u ''Gid''])),
     (u ''reportMounted'', PBool examiner), (u ''brokerMounted'', PBool examiner),
     (u ''workerBrokerMounted'', PBool (\<not> examiner)),
     (u ''namespaces'', pdict [(u ''pid'', PStr (u ''pid:['' @ ns @ u '']'')),
        (u ''mnt'', PStr (u ''mnt:['' @ ns @ u '']'')), (u ''user'', PStr (u ''user:[9]''))])]"

definition sample_private :: "(pyval \<times> pyval) list" where
  "sample_private = map (\<lambda>(k, v). (PStr k, v)) [
     (u ''profile'', PStr (u ''private-evaluator-v1'')), (u ''origin'', PStr (u ''supervisor'')),
     (u ''id'', PStr (u ''unit'')), (u ''exitCode'', PInt 0),
     (u ''resultChannel'', pdict [(u ''accepted'', PBool True),
        (u ''recordProducer'', PStr (u ''daemon-outside-sandbox''))]),
     (u ''supervision'', pdict [(u ''kind'', PStr (u ''SUPERVISED'')), (u ''started'', PBool True),
        (u ''stoppedByManager'', PBool False), (u ''result'', PStr (u ''success'')), (u ''launcherExit'', PInt 0)]),
     (u ''evaluatorBoundary'', pdict [(u ''profileId'', PStr (u ''private-evaluator-v1'')),
        (u ''examinerReturnCode'', PInt 0), (u ''bootstrapExitCode'', PInt 0),
        (u ''managerBootstrapProperties'', pdict [(u ''NoNewPrivileges'', PStr (u ''no''))]),
        (u ''rolesCompleted'', PBool True), (u ''reportMountExclusive'', PBool True),
        (u ''runId'', PStr (u ''r1'')), (u ''examiner'', sample_role (u ''examiner'') (u ''0 0 0 0'') True (u ''4'')),
        (u ''workers'', PList [pdict [(u ''returncode'', PInt 0),
           (u ''observation'', sample_role (u ''worker'') (u ''1 1 1 1'') False (u ''5''))]])]),
     (u ''privateReport'', pdict [(u ''collection'', PStr (u ''private-directory'')),
        (u ''runId'', PStr (u ''r1'')), (u ''checkId'', PStr (u ''unit'')),
        (u ''candidateIdentity'', PStr (u ''c'')), (u ''verifierIdentity'', PStr (u ''v'')),
        (u ''sha256'', PStr (replicate 64 97)), (u ''sizeBytes'', PInt 3), (u ''payloadB64'', PStr (u ''YWJj''))]),
     (u ''candidateSnapshot'', pdict [(u ''rootSetHash'', PStr (u ''c''))]),
     (u ''executedVerifierSet'', pdict [(u ''identity'', PStr (u ''v''))])]"


lemma sample_ids: "int_repr 0 = u ''0''" "int_repr 1 = u ''1''"
  by code_simp+

lemma replicate_four: "replicate 4 x = [x, x, x, x]"
  by (simp add: numeral_eq_Suc)

lemma sample_words:
  "py_words (u ''0 0 0 0'') = [u ''0'', u ''0'', u ''0'', u ''0'']"
  "py_words (u ''1 1 1 1'') = [u ''1'', u ''1'', u ''1'', u ''1'']"
  by (simp_all add: py_words_def u_def py_space_def)

lemma sample_role_texts:
  "zeros (u ''0000'')"
  "namespace_text (u ''pid'') (u ''pid:['' @ u ''4'' @ u '']'')" "namespace_text (u ''mnt'') (u ''mnt:['' @ u ''4'' @ u '']'')"
  "namespace_text (u ''pid'') (u ''pid:['' @ u ''5'' @ u '']'')" "namespace_text (u ''mnt'') (u ''mnt:['' @ u ''5'' @ u '']'')"
  "namespace_text (u ''user'') (u ''user:[9]'')"
  by (simp_all add: u_def zeros_def namespace_text_def prefixed_def ends_with_def is_digit_def)

lemma sample_payload:
  "report_payload (\<lambda>_. replicate 32 (CHR 0xAA)) (map (\<lambda>(k, v). (PStr k, v))
     [(u ''sha256'', PStr (replicate 64 97)), (u ''sizeBytes'', PInt 3), (u ''payloadB64'', PStr (u ''YWJj''))])"
  by code_simp

lemma sample_roles:
  "private_role_observed (sample_role (u ''examiner'') (u ''0 0 0 0'') True (u ''4'')) (PStr (u ''examiner''))"
  "private_role_observed (sample_role (u ''worker'') (u ''1 1 1 1'') False (u ''5'')) (PStr (u ''worker''))"
  by (simp_all add: private_role_observed_def sample_role_def role_ids_def mget_def flag_is_def
      replicate_four sample_ids sample_words sample_role_texts del: append_Cons)

lemma sample_worker:
  "worker_observed (map_or_empty (sample_role (u ''examiner'') (u ''0 0 0 0'') True (u ''4'')))
     (pdict [(u ''returncode'', PInt 0), (u ''observation'', sample_role (u ''worker'') (u ''1 1 1 1'') False (u ''5''))])
   = Some (u ''worker'', map_or_empty (sample_role (u ''worker'') (u ''1 1 1 1'') False (u ''5'')))"
proof -
  let ?x = "sample_role (u ''examiner'') (u ''0 0 0 0'') True (u ''4'')"
  let ?w = "sample_role (u ''worker'') (u ''1 1 1 1'') False (u ''5'')"
  have n: "ns_of (map_or_empty ?w) (u ''user'') = ns_of (map_or_empty ?x) (u ''user'')"
    "ns_of (map_or_empty ?w) (u ''pid'') \<noteq> ns_of (map_or_empty ?x) (u ''pid'')"
    "ns_of (map_or_empty ?w) (u ''mnt'') \<noteq> ns_of (map_or_empty ?x) (u ''mnt'')"
    by (simp_all add: ns_of_def sample_role_def mget_def)
  have m: "mget (map_or_empty ?w) k = PNone" "mget (map_or_empty ?x) k = PNone" if "k \<in> {u ''uidMap'', u ''gidMap''}" for k
    using that by (auto simp: sample_role_def mget_def)
  show ?thesis
    by (simp add: worker_observed_def Let_def mget_def [of "[(PStr (u ''returncode''), z), w]" for z w]
        mhas_def sample_roles n m is_int_def key_of_def)
qed

lemma sample_separate: "roles_separate [(u ''worker'', obs)]"
  by (simp add: roles_separate_def)

lemma sample_private_ok:
  "private_report_verified (\<lambda>_. replicate 32 (CHR 0xAA)) sample_private (u ''COMPLETED'') (u ''VERIFIED'')"
proof -
  have no_nul: "0 \<notin> set (u ''r1'')" "0 \<notin> set (u ''unit'')" "0 \<notin> set (u ''c'')" "0 \<notin> set (u ''v'')"
    by (simp_all add: u_def)
  show ?thesis
    using sample_payload
    by (simp add: private_report_verified_def sample_private_def mget_def clean_completion_def names_subject_def
        report_payload_def workers_verified_def sample_roles sample_worker [simplified] sample_separate no_nul)
qed

theorem private_report_isolated_witness:
  "\<exists>boundary examiner. mget sample_private (u ''evaluatorBoundary'') = PDict boundary
    \<and> mget boundary (u ''examiner'') = PDict examiner \<and> mget examiner (u ''uid'') = PInt 0"
  using private_report_isolated [OF sample_private_ok] by blast

end
