(* ===== verification/Project.thy ===== *)
theory Project
  imports PyText CoreAbi
begin

text \<open>
  \<open>runtime/worldline/project.py\<close>: the policy a project declares in \<open>.worldline.json\<close>, read into
  check, service and classifier records with every field validated, and the patterns it names paths
  by. \<open>hb\<close> is SHA-256; the file is an argument, as are the registered roots.
\<close>

section \<open>\<open>fnmatch.fnmatchcase\<close>\<close>

text \<open>
  A pattern is read into items; a bracket without a closing one is a literal. In a class a hyphen
  between two characters is a range, and a range whose bounds are out of order matches nothing.
\<close>

datatype glob =
    Star
  | Any_Char
  | Class bool "(nat \<times> nat) list"
  | Literal nat

fun class_ranges :: "pystr \<Rightarrow> (nat \<times> nat) list" where
  "class_ranges [] = []"
| "class_ranges [c] = [(c, c)]"
| "class_ranges [c, d] = [(c, c), (d, d)]"
| "class_ranges (c # d # e # s) =
     (if d = 45 then (c, e) # class_ranges s else (c, c) # class_ranges (d # e # s))"

definition bracket :: "pystr \<Rightarrow> (bool \<times> pystr \<times> pystr) option" where
  "bracket s =
     (let negated = prefixed s [33];
          a = (if negated then tl s else s);
          first = (if prefixed a [93] then [93] else []);
          b = drop (length first) a
      in if 93 \<in> set b
         then Some (negated, first @ takeWhile (\<lambda>c. c \<noteq> 93) b, tl (dropWhile (\<lambda>c. c \<noteq> 93) b))
         else None)"

lemma bracket_shorter:
  assumes "bracket s = Some (neg, body, rest)"
  shows "length rest < length s"
proof -
  define a where "a = (if prefixed s [33] then tl s else s)"
  define b where "b = drop (length (if prefixed a [93] then [93 :: nat] else [])) a"
  have r: "93 \<in> set b \<and> rest = tl (dropWhile (\<lambda>c. c \<noteq> 93) b)"
    using assms unfolding bracket_def Let_def a_def [symmetric] b_def [symmetric]
    by (auto simp: b_def split: if_splits)
  then have "b \<noteq> []" by auto
  moreover have "length (dropWhile (\<lambda>c. c \<noteq> 93) b) \<le> length b" by (rule length_dropWhile_le)
  ultimately have "length rest < length b" using r by (cases b) auto
  moreover have "length b \<le> length a" "length a \<le> length s" by (simp_all add: a_def b_def)
  ultimately show ?thesis by simp
qed

function parse_glob :: "pystr \<Rightarrow> glob list" where
  "parse_glob [] = []"
| "parse_glob (c # s) =
     (if c = 42 then Star # parse_glob s
      else if c = 63 then Any_Char # parse_glob s
      else if c = 91 then
        (case bracket s of
           Some (negated, body, rest) \<Rightarrow> Class negated (class_ranges body) # parse_glob rest
         | None \<Rightarrow> Literal c # parse_glob s)
      else Literal c # parse_glob s)"
  by pat_completeness auto
termination
  by (relation "measure length") (auto dest: bracket_shorter)

definition in_class :: "bool \<Rightarrow> (nat \<times> nat) list \<Rightarrow> nat \<Rightarrow> bool" where
  "in_class negated ranges c \<longleftrightarrow> negated \<noteq> list_ex (\<lambda>(lo, hi). lo \<le> c \<and> c \<le> hi) ranges"

fun glob_one :: "glob \<Rightarrow> nat \<Rightarrow> bool" where
  "glob_one Star c = False"
| "glob_one Any_Char c = True"
| "glob_one (Class negated ranges) c = in_class negated ranges c"
| "glob_one (Literal d) c = (c = d)"

fun glob_matches :: "glob list \<Rightarrow> pystr \<Rightarrow> bool" where
  "glob_matches [] s = (s = [])"
| "glob_matches (Star # g) [] = glob_matches g []"
| "glob_matches (Star # g) (c # s) = (glob_matches g (c # s) \<or> glob_matches (Star # g) s)"
| "glob_matches (x # g) [] = False"
| "glob_matches (x # g) (c # s) = (glob_one x c \<and> glob_matches g s)"

definition fnmatchcase :: "pystr \<Rightarrow> pystr \<Rightarrow> bool" where
  "fnmatchcase name pattern \<longleftrightarrow> glob_matches (parse_glob pattern) name"

definition is_wild :: "nat \<Rightarrow> bool" where
  "is_wild c \<longleftrightarrow> c \<in> {42, 63, 91}"

text \<open>\<open>pattern.rstrip("*").rstrip("/") + "/"\<close>.\<close>

definition under_pattern :: "pystr \<Rightarrow> pystr \<Rightarrow> bool" where
  "under_pattern pattern path \<longleftrightarrow>
     prefixed path (rstrip_by (\<lambda>c. c = 47) (rstrip_by (\<lambda>c. c = 42) pattern) @ [47])"

section \<open>Records\<close>

record generated_classifier =
  gc_root_key :: pystr
  gc_glob :: pystr

record check_spec =
  ck_id :: pystr
  ck_kind :: pystr
  ck_argv :: "pystr list"
  ck_cwd :: "pystr option"
  ck_required :: bool
  ck_format :: pystr
  ck_result :: "pystr option"
  ck_covers :: "pystr list"
  ck_verifiers :: "pystr list"
  ck_profile :: pystr

definition covers_path :: "check_spec \<Rightarrow> pystr \<Rightarrow> bool" where
  "covers_path check relative \<longleftrightarrow>
     list_ex (\<lambda>p. p \<noteq> [] \<and> (fnmatchcase relative p \<or> under_pattern p relative)) (ck_covers check)"

definition named_path :: "check_spec \<Rightarrow> pystr \<Rightarrow> pystr option" where
  "named_path check token =
     (if token = [] \<or> prefixed token [45] \<or> prefixed token [47] then None
      else let relative = (case ck_cwd check of
             None \<Rightarrow> normpath 47 46 token
           | Some cwd \<Rightarrow> if cwd = [] then normpath 47 46 token else normpath 47 46 (path_join 47 cwd token))
        in if prefixed relative (u ''..'') \<or> prefixed relative [47] \<or> relative = u ''.'' then None
           else Some relative)"

definition named_paths :: "check_spec \<Rightarrow> pystr list" where
  "named_paths check = List.map_filter (named_path check) (ck_argv check)"

record service_spec =
  sp_id :: pystr
  sp_argv :: "pystr list"
  sp_cwd :: pystr
  sp_env :: "(pystr \<times> pystr) list"
  sp_health_argv :: "pystr list"
  sp_restart :: pystr

record project_config =
  pc_generated :: "generated_classifier list"
  pc_checks :: "check_spec list"
  pc_services :: "service_spec list"
  pc_protected :: "pystr list"
  pc_source_sha256 :: "pystr option"

section \<open>Field rules\<close>

abbreviation invalid_config :: exc where
  "invalid_config \<equiv> WL ''INVALID_PROJECT_CONFIG''"

definition relative_ok :: "pystr \<Rightarrow> bool" where
  "relative_ok s \<longleftrightarrow> s \<noteq> [] \<and> 0 \<notin> set s
     \<and> (s = u ''.'' \<or> \<not> prefixed s [47] \<and> list_all (\<lambda>p. p \<notin> {[], u ''.'', u ''..''}) (split_on 47 s))"

definition relative_field :: "pyval \<Rightarrow> pystr res" where
  "relative_field v = (case v of
       PStr s \<Rightarrow> if relative_ok s then Inr s else Inl invalid_config
     | _ \<Rightarrow> Inl invalid_config)"

definition argument_ok :: "pystr \<Rightarrow> bool" where
  "argument_ok s \<longleftrightarrow> s \<noteq> [] \<and> 0 \<notin> set s"

definition argv_field :: "pyval \<Rightarrow> pystr list res" where
  "argv_field v = (case v of
       PList xs \<Rightarrow>
         if xs \<noteq> [] \<and> list_all (\<lambda>x. case x of PStr s \<Rightarrow> argument_ok s | _ \<Rightarrow> False) xs
         then Inr (map key_of xs) else Inl invalid_config
     | _ \<Rightarrow> Inl invalid_config)"

definition identifier_char :: "nat \<Rightarrow> bool" where
  "identifier_char c \<longleftrightarrow> is_digit c \<or> (65 \<le> c \<and> c \<le> 90) \<or> (97 \<le> c \<and> c \<le> 122)"

definition safe_identifier :: "pystr \<Rightarrow> bool" where
  "safe_identifier s \<longleftrightarrow> (case s of
       [] \<Rightarrow> False
     | c # r \<Rightarrow> identifier_char c \<and> length r \<le> 127
         \<and> list_all (\<lambda>d. identifier_char d \<or> d \<in> {95, 46, 45}) r)"

definition identifier_field :: "pyval \<Rightarrow> pystr list \<Rightarrow> pystr res" where
  "identifier_field v seen = (case v of
       PStr s \<Rightarrow> if safe_identifier s \<and> s \<notin> set seen then Inr s else Inl invalid_config
     | _ \<Rightarrow> Inl invalid_config)"

text \<open>
  \<open>_SECRET_NAME.search\<close> with \<open>IGNORECASE\<close>: besides ASCII letters the long s, the Kelvin sign and the
  dotted and dotless i fold into the words' letters.
\<close>

definition fold_case :: "nat \<Rightarrow> nat" where
  "fold_case c =
     (if 97 \<le> c \<and> c \<le> 122 then c - 32
      else if c = 0x17F then 83 else if c = 0x212A then 75 else if c \<in> {0x130, 0x131} then 73 else c)"

definition secret_words :: "pystr list" where
  "secret_words = [u ''TOKEN'', u ''KEY'', u ''PASSWORD'', u ''PASSWD'', u ''SECRET'', u ''CREDENTIAL'',
     u ''AUTH'', u ''COOKIE'']"

fun contains_text :: "pystr \<Rightarrow> pystr \<Rightarrow> bool" where
  "contains_text w [] = (w = [])"
| "contains_text w (c # s) = (prefixed (c # s) w \<or> contains_text w s)"

definition secret_name :: "pystr \<Rightarrow> bool" where
  "secret_name s \<longleftrightarrow> list_ex (\<lambda>w. contains_text w (map fold_case s)) secret_words"

text \<open>\<open>v in {...}\<close> over a set of texts: a list or a mapping is not hashable.\<close>

definition in_set :: "pyval \<Rightarrow> pystr list \<Rightarrow> bool res" where
  "in_set v names = (case v of
       PList _ \<Rightarrow> Inl TypeError
     | PDict _ \<Rightarrow> Inl TypeError
     | _ \<Rightarrow> Inr (v \<in> set (map PStr names)))"

definition one_of :: "pyval \<Rightarrow> pystr list \<Rightarrow> pystr res" where
  "one_of v names =
     rbind (in_set v names) (\<lambda>b. rbind (ensure b invalid_config) (\<lambda>_. Inr (key_of v)))"

definition field_set :: "(pyval \<times> pyval) list \<Rightarrow> pystr list \<Rightarrow> pystr list \<Rightarrow> bool" where
  "field_set d required optional \<longleftrightarrow> set (map PStr required) \<subseteq> set (map fst d)
     \<and> set (map fst d) \<subseteq> set (map PStr (required @ optional))"

section \<open>Reading the policy\<close>

definition mget_or :: "(pyval \<times> pyval) list \<Rightarrow> pystr \<Rightarrow> pyval \<Rightarrow> pyval" where
  "mget_or d k dflt = (case dget d (PStr k) of None \<Rightarrow> dflt | Some v \<Rightarrow> v)"

definition opt_relative :: "pyval \<Rightarrow> pystr option res" where
  "opt_relative v = (if v = PNone then Inr None else rbind (relative_field v) (\<lambda>s. Inr (Some s)))"

definition pattern_list :: "pyval \<Rightarrow> pystr list res" where
  "pattern_list v = (case v of PList xs \<Rightarrow> rmap relative_field xs | _ \<Rightarrow> Inl invalid_config)"

definition check_kinds :: "pystr list" where
  "check_kinds = [u ''build'', u ''tests'', u ''proofs'', u ''benchmark'', u ''health'']"

definition check_formats :: "pystr list" where
  "check_formats = [u ''exit'', u ''junit'', u ''gnatprove'', u ''worldline-benchmark-v1'']"

definition private_formats :: "pystr list" where
  "private_formats = [u ''junit'', u ''gnatprove'', u ''worldline-benchmark-v1'']"

definition RESERVED_CHECK_IDS :: "pystr list" where
  "RESERVED_CHECK_IDS = [u ''agent'', u ''protected-paths'']"

definition private_profile :: pystr where
  "private_profile = u ''private-evaluator-v1''"

text \<open>The path a verifier pattern is probed by: itself, or a representative below its fixed parts.\<close>

definition probe_path :: "pystr \<Rightarrow> pystr" where
  "probe_path pattern =
     (if list_ex is_wild pattern then
        let prefix = join_on 47 (filter (\<lambda>p. \<not> list_ex is_wild p) (split_on 47 pattern))
        in if prefix \<noteq> [] then prefix @ u ''/__probe__'' else u ''__probe__''
      else normpath 47 46 pattern)"

definition verifiers_disjoint :: "check_spec \<Rightarrow> bool" where
  "verifiers_disjoint spec \<longleftrightarrow>
     list_all (\<lambda>p. \<not> covers_path spec (probe_path p) \<and> p \<notin> set (ck_covers spec)) (ck_verifiers spec)"

text \<open>The rules of the private examiner profile: a report format, no result path, verifiers, and last.\<close>

definition profile_rules :: "check_spec \<Rightarrow> bool \<Rightarrow> unit res" where
  "profile_rules spec private_started =
     (if ck_profile spec = private_profile then
        rbind (ensure (ck_format spec \<in> set private_formats) invalid_config) (\<lambda>_.
        rbind (ensure (ck_result spec = None) invalid_config) (\<lambda>_.
        ensure (ck_verifiers spec \<noteq> []) invalid_config))
      else ensure (\<not> private_started) (WL ''CHECK_PROFILE_ORDER_INVALID''))"

definition read_check :: "pyval \<Rightarrow> check_spec list \<Rightarrow> check_spec list res" where
  "read_check item checks =
     (case as_map item of
        None \<Rightarrow> Inl invalid_config
      | Some d \<Rightarrow>
          rbind (ensure (field_set d [u ''id'', u ''kind'', u ''argv'', u ''required'', u ''format'']
            [u ''cwd'', u ''result'', u ''covers'', u ''verifiers'', u ''profile'']) invalid_config) (\<lambda>_.
          rbind (identifier_field (mget d (u ''id'')) (map ck_id checks)) (\<lambda>i.
          rbind (ensure (i \<notin> set RESERVED_CHECK_IDS) invalid_config) (\<lambda>_.
          rbind (one_of (mget d (u ''kind'')) check_kinds) (\<lambda>kind.
          rbind (argv_field (mget d (u ''argv''))) (\<lambda>argv.
          rbind (opt_relative (mget d (u ''cwd''))) (\<lambda>cwd.
          rbind (case mget d (u ''required'') of PBool b \<Rightarrow> Inr b | _ \<Rightarrow> Inl invalid_config) (\<lambda>required.
          rbind (one_of (mget d (u ''format'')) check_formats) (\<lambda>format.
          rbind (opt_relative (mget d (u ''result''))) (\<lambda>result.
          rbind (pattern_list (mget_or d (u ''covers'') (PList []))) (\<lambda>covers.
          rbind (pattern_list (mget_or d (u ''verifiers'') (PList []))) (\<lambda>verifiers.
          rbind (one_of (mget_or d (u ''profile'') (PStr (u ''legacy''))) [u ''legacy'', private_profile]) (\<lambda>profile.
          let spec = \<lparr>ck_id = i, ck_kind = kind, ck_argv = argv, ck_cwd = cwd, ck_required = required,
                ck_format = format, ck_result = result, ck_covers = covers, ck_verifiers = verifiers,
                ck_profile = profile\<rparr>
          in rbind (profile_rules spec (list_ex (\<lambda>c. ck_profile c = private_profile) checks)) (\<lambda>_.
             rbind (ensure (verifiers_disjoint spec) invalid_config) (\<lambda>_.
             Inr (checks @ [spec]))))))))))))))))"

definition read_generated :: "(pystr \<times> pystr) list \<Rightarrow> pyval \<Rightarrow> generated_classifier res" where
  "read_generated aliases item =
     (case as_map item of
        None \<Rightarrow> Inl invalid_config
      | Some d \<Rightarrow>
          rbind (ensure (field_set d [u ''root'', u ''glob''] []) invalid_config) (\<lambda>_.
          rbind (case mget d (u ''root'') of PStr r \<Rightarrow> req invalid_config (dget aliases r)
                                          | _ \<Rightarrow> Inl invalid_config) (\<lambda>root_key.
          rbind (relative_field (mget d (u ''glob''))) (\<lambda>g.
          Inr \<lparr>gc_root_key = root_key, gc_glob = g\<rparr>))))"

definition env_field :: "pyval \<Rightarrow> (pystr \<times> pystr) list res" where
  "env_field v = (case v of
       PDict kvs \<Rightarrow>
         if list_all (\<lambda>(k, x). is_text k \<and> is_text x) kvs
         then rbind (ensure (\<not> list_ex (\<lambda>(k, x). secret_name (key_of k)) kvs) invalid_config) (\<lambda>_.
              Inr (map (\<lambda>(k, x). (key_of k, key_of x)) kvs))
         else Inl invalid_config
     | _ \<Rightarrow> Inl invalid_config)"

definition read_service :: "pyval \<Rightarrow> service_spec list \<Rightarrow> service_spec list res" where
  "read_service item services =
     (case as_map item of
        None \<Rightarrow> Inl invalid_config
      | Some d \<Rightarrow>
          rbind (ensure (field_set d [u ''id'', u ''argv'', u ''cwd'', u ''env'', u ''healthArgv'', u ''restart''] [])
            invalid_config) (\<lambda>_.
          rbind (identifier_field (mget d (u ''id'')) (map sp_id services)) (\<lambda>i.
          rbind (argv_field (mget d (u ''argv''))) (\<lambda>argv.
          rbind (argv_field (mget d (u ''healthArgv''))) (\<lambda>health.
          rbind (relative_field (mget d (u ''cwd''))) (\<lambda>cwd.
          rbind (env_field (mget d (u ''env''))) (\<lambda>env.
          rbind (one_of (mget d (u ''restart'')) [u ''never'', u ''on-failure'']) (\<lambda>restart.
          Inr (services @ [\<lparr>sp_id = i, sp_argv = argv, sp_cwd = cwd, sp_env = env,
            sp_health_argv = health, sp_restart = restart\<rparr>])))))))))"

definition protected_field :: "pyval \<Rightarrow> pystr list res" where
  "protected_field v = (case v of
       PList xs \<Rightarrow> if list_all nonempty_text xs then rmap relative_field xs else Inl invalid_config
     | _ \<Rightarrow> Inl invalid_config)"

definition root_aliases :: "(pystr \<times> pystr) list \<Rightarrow> (pystr \<times> pystr) list" where
  "root_aliases roots = fold (\<lambda>(key, display) d. dset display key (dset key key d)) roots []"

definition project_of :: "(pystr \<times> pystr) list \<Rightarrow> pystr \<Rightarrow> pyval \<Rightarrow> project_config res" where
  "project_of roots source_sha256 value =
     (case as_map value of
        None \<Rightarrow> Inl invalid_config
      | Some d \<Rightarrow>
          rbind (ensure (field_set d [u ''schemaVersion'', u ''generated'', u ''checks'', u ''services'']
            [u ''protected'']) invalid_config) (\<lambda>_.
          rbind (protected_field (mget_or d (u ''protected'') (PList []))) (\<lambda>protected.
          rbind (ensure (eq_int (mget d (u ''schemaVersion'')) 1) invalid_config) (\<lambda>_.
          rbind (piter (mget d (u ''generated''))) (\<lambda>gs.
          rbind (rmap (read_generated (root_aliases roots)) gs) (\<lambda>generated.
          rbind (piter (mget d (u ''checks''))) (\<lambda>cs.
          rbind (rfold read_check cs []) (\<lambda>checks.
          rbind (piter (mget d (u ''services''))) (\<lambda>ss.
          rbind (rfold read_service ss []) (\<lambda>services.
          Inr \<lparr>pc_generated = generated, pc_checks = checks, pc_services = services,
            pc_protected = protected, pc_source_sha256 = Some source_sha256\<rparr>))))))))))"

datatype policy_file = Absent | Unreadable_File | Policy bytes

definition load_project ::
    "(bytes \<Rightarrow> bytes) \<Rightarrow> policy_file \<Rightarrow> (pystr \<times> pystr) list \<Rightarrow> project_config res" where
  "load_project hb file roots =
     (case file of
        Absent \<Rightarrow> Inr \<lparr>pc_generated = [], pc_checks = [], pc_services = [], pc_protected = [],
            pc_source_sha256 = None\<rparr>
      | Unreadable_File \<Rightarrow> Inl invalid_config
      | Policy raw \<Rightarrow>
          rbind (req invalid_config (Option.bind (utf8_decode raw) loads)) (\<lambda>value.
          project_of roots (hex_text (hb raw)) value))"

definition protected_matches :: "pystr list \<Rightarrow> pystr \<Rightarrow> bool" where
  "protected_matches protected path \<longleftrightarrow>
     list_ex (\<lambda>p. let base = rstrip_by (\<lambda>c. c = 47) p
       in path = base \<or> fnmatchcase path p \<or> prefixed path (base @ [47])) protected"

end
