(* ===== verification/Project_Laws.thy ===== *)
theory Project_Laws
  imports Project Canonical_Roundtrip
begin

text \<open>
  What \<open>Project\<close> promises: pattern matching agrees with its declarative meaning; a policy that loads
  is well formed in every field, keeps private examinations last and no verifier inside the paths its
  own check lets a candidate write; and the exceptions a malformed policy can raise.
\<close>

section \<open>Patterns\<close>

text \<open>The meaning of a pattern: the name splits into one piece per item.\<close>

definition glob_piece :: "glob \<Rightarrow> pystr \<Rightarrow> bool" where
  "glob_piece x w \<longleftrightarrow> x = Star \<or> (\<exists>c. w = [c] \<and> glob_one x c)"

definition glob_denotes :: "glob list \<Rightarrow> pystr \<Rightarrow> bool" where
  "glob_denotes g s \<longleftrightarrow> (\<exists>ws. concat ws = s \<and> list_all2 glob_piece g ws)"

lemma glob_denotes_Nil: "glob_denotes [] s \<longleftrightarrow> s = []"
  by (auto simp: glob_denotes_def)

lemma glob_denotes_Cons: "glob_denotes (x # g) s \<longleftrightarrow> (\<exists>w t. s = w @ t \<and> glob_piece x w \<and> glob_denotes g t)"
  unfolding glob_denotes_def list_all2_Cons1 by (metis concat.simps(2))

lemma glob_denotes_Star:
  "glob_denotes (Star # g) (c # s) \<longleftrightarrow> glob_denotes g (c # s) \<or> glob_denotes (Star # g) s"
  unfolding glob_denotes_Cons glob_piece_def
  by (auto simp: Cons_eq_append_conv intro: exI [of _ "[]"])

lemma glob_denotes_one: "x \<noteq> Star \<Longrightarrow> glob_denotes (x # g) (c # s) \<longleftrightarrow> glob_one x c \<and> glob_denotes g s"
  unfolding glob_denotes_Cons glob_piece_def
  by (auto simp: Cons_eq_append_conv intro: exI [of _ "[c]"])

lemma glob_denotes_empty: "glob_denotes (x # g) [] \<longleftrightarrow> x = Star \<and> glob_denotes g []"
  by (auto simp: glob_denotes_Cons glob_piece_def)

lemma glob_matches_denotes: "glob_matches g s \<longleftrightarrow> glob_denotes g s"
  by (induction g s rule: glob_matches.induct)
    (simp_all add: glob_denotes_Nil glob_denotes_Star glob_denotes_one glob_denotes_empty)

section \<open>Field rules\<close>

lemma relative_field_Inr: "relative_field v = Inr s \<longleftrightarrow> v = PStr s \<and> relative_ok s"
  by (auto simp: relative_field_def split: pyval.splits)

lemma opt_relative_Inr: "opt_relative v = Inr r \<Longrightarrow> case r of None \<Rightarrow> True | Some s \<Rightarrow> relative_ok s"
  by (auto simp: opt_relative_def rbind_Inr_iff relative_field_Inr split: if_splits option.splits)

lemma rmap_relative: "rmap relative_field xs = Inr ps \<Longrightarrow> list_all relative_ok ps"
  by (induction xs arbitrary: ps) (auto simp: rbind_Inr_iff relative_field_Inr)

lemma pattern_list_Inr: "pattern_list v = Inr ps \<Longrightarrow> list_all relative_ok ps"
  by (auto simp: pattern_list_def rmap_relative split: pyval.splits)

lemma argv_field_Inr: "argv_field v = Inr a \<Longrightarrow> a \<noteq> [] \<and> list_all argument_ok a"
  by (auto simp: argv_field_def list_all_iff key_of_def split: pyval.splits if_splits)

lemma identifier_field_Inr: "identifier_field v seen = Inr i \<longleftrightarrow> v = PStr i \<and> safe_identifier i \<and> i \<notin> set seen"
  by (auto simp: identifier_field_def split: pyval.splits if_splits)

lemma one_of_Inr: "one_of v names = Inr s \<Longrightarrow> s \<in> set names"
  by (auto simp: one_of_def in_set_def rbind_Inr_iff key_of_def split: pyval.splits)

lemma fold_norm_clean:
  "\<forall>c \<in> set cs. clean_part dot c \<Longrightarrow> fold (norm_push dot False) cs acc = acc @ cs"
  by (induction cs arbitrary: acc) (auto simp: norm_push_def clean_part_def)

lemma relative_is_normal:
  assumes "relative_ok s" and "s \<noteq> u ''.''"
  shows "normpath 47 46 s = s"
proof -
  have p: "\<forall>c \<in> set (split_on 47 s). clean_part 46 c" and ns: "\<not> prefixed s [47]" and ne: "s \<noteq> []"
    using assms by (auto simp: relative_ok_def list_all_iff clean_part_def u_def)
  have "norm_parts 46 False (split_on 47 s) = split_on 47 s"
    using fold_norm_clean [OF p, of "[]"] by (simp add: norm_parts_def)
  then show ?thesis using ns ne by (simp add: normpath_def Let_def join_split)
qed

section \<open>A loaded policy\<close>

definition check_ok :: "check_spec \<Rightarrow> bool" where
  "check_ok c \<longleftrightarrow> safe_identifier (ck_id c) \<and> ck_id c \<notin> set RESERVED_CHECK_IDS
     \<and> ck_kind c \<in> set check_kinds \<and> ck_format c \<in> set check_formats
     \<and> ck_profile c \<in> {u ''legacy'', private_profile}
     \<and> ck_argv c \<noteq> [] \<and> list_all argument_ok (ck_argv c)
     \<and> list_all relative_ok (ck_covers c) \<and> list_all relative_ok (ck_verifiers c)
     \<and> (\<forall>p \<in> {ck_cwd c, ck_result c} - {None}. relative_ok (the p))
     \<and> verifiers_disjoint c
     \<and> (ck_profile c = private_profile \<longrightarrow>
          ck_format c \<in> set private_formats \<and> ck_result c = None \<and> ck_verifiers c \<noteq> [])"

definition private_last :: "check_spec list \<Rightarrow> bool" where
  "private_last checks \<longleftrightarrow>
     sorted_wrt (\<lambda>c d. ck_profile c = private_profile \<longrightarrow> ck_profile d = private_profile) checks"

definition checks_ok :: "check_spec list \<Rightarrow> bool" where
  "checks_ok checks \<longleftrightarrow> distinct (map ck_id checks) \<and> list_all check_ok checks \<and> private_last checks"

definition services_ok :: "service_spec list \<Rightarrow> bool" where
  "services_ok services \<longleftrightarrow> distinct (map sp_id services)
     \<and> list_all (\<lambda>s. safe_identifier (sp_id s) \<and> sp_argv s \<noteq> [] \<and> list_all argument_ok (sp_argv s)
         \<and> sp_health_argv s \<noteq> [] \<and> list_all argument_ok (sp_health_argv s) \<and> relative_ok (sp_cwd s)
         \<and> list_all (\<lambda>(k, v). \<not> secret_name k) (sp_env s)
         \<and> sp_restart s \<in> {u ''never'', u ''on-failure''}) services"

lemma profile_rules_Inr:
  "profile_rules spec private_started = Inr x \<Longrightarrow>
     (ck_profile spec = private_profile \<longrightarrow>
        ck_format spec \<in> set private_formats \<and> ck_result spec = None \<and> ck_verifiers spec \<noteq> [])
     \<and> (ck_profile spec \<noteq> private_profile \<longrightarrow> \<not> private_started)"
  by (auto simp: profile_rules_def rbind_Inr_iff split: if_splits)

lemma read_check_keeps:
  assumes "checks_ok checks" and "read_check item checks = Inr checks'"
  shows "checks_ok checks'"
proof -
  obtain d where item: "item = PDict d"
    using assms(2) by (auto simp: read_check_def as_map_Some split: option.splits)
  obtain i kind argv cwd required format result covers verifiers profile spec x where f:
    "identifier_field (mget d (u ''id'')) (map ck_id checks) = Inr i" "i \<notin> set RESERVED_CHECK_IDS"
    "one_of (mget d (u ''kind'')) check_kinds = Inr kind" "argv_field (mget d (u ''argv'')) = Inr argv"
    "opt_relative (mget d (u ''cwd'')) = Inr cwd" "one_of (mget d (u ''format'')) check_formats = Inr format"
    "opt_relative (mget d (u ''result'')) = Inr result"
    "pattern_list (mget_or d (u ''covers'') (PList [])) = Inr covers"
    "pattern_list (mget_or d (u ''verifiers'') (PList [])) = Inr verifiers"
    "one_of (mget_or d (u ''profile'') (PStr (u ''legacy''))) [u ''legacy'', private_profile] = Inr profile"
    and spec: "spec = \<lparr>ck_id = i, ck_kind = kind, ck_argv = argv, ck_cwd = cwd, ck_required = required,
                ck_format = format, ck_result = result, ck_covers = covers, ck_verifiers = verifiers,
                ck_profile = profile\<rparr>"
    and rules: "profile_rules spec (list_ex (\<lambda>c. ck_profile c = private_profile) checks) = Inr x"
    and disjoint: "verifiers_disjoint spec" and result: "checks @ [spec] = checks'"
    using assms(2) unfolding item read_check_def as_map_simps option.case rbind_Inr_iff Let_def ensure_Inr_iff sum.inject
    by (elim exE conjE) (rule that, assumption+, rule refl, assumption+)
  have ids: "safe_identifier i" "i \<notin> set (map ck_id checks)" using f(1) by (simp_all add: identifier_field_Inr)
  have "check_ok spec"
    using ids f(2) one_of_Inr [OF f(3)] one_of_Inr [OF f(6)] one_of_Inr [OF f(10)] argv_field_Inr [OF f(4)]
      opt_relative_Inr [OF f(5)] opt_relative_Inr [OF f(7)] pattern_list_Inr [OF f(8)] pattern_list_Inr [OF f(9)]
      profile_rules_Inr [OF rules] disjoint
    unfolding check_ok_def spec by (auto split: option.splits)
  moreover have "private_last checks'"
    using assms(1) profile_rules_Inr [OF rules] unfolding result [symmetric] checks_ok_def private_last_def
    by (auto simp: sorted_wrt_append list_ex_iff)
  moreover have "distinct (map ck_id checks')" using assms(1) ids by (auto simp: checks_ok_def result [symmetric] spec)
  ultimately show ?thesis using assms(1) by (simp add: checks_ok_def result [symmetric])
qed

lemma env_field_Inr: "env_field v = Inr env \<Longrightarrow> list_all (\<lambda>(k, v). \<not> secret_name k) env"
  by (auto simp: env_field_def rbind_Inr_iff list_all_iff list_ex_iff split: pyval.splits if_splits)

lemma read_service_keeps:
  assumes "services_ok services" and "read_service item services = Inr services'"
  shows "services_ok services'"
proof -
  obtain d where item: "item = PDict d"
    using assms(2) by (auto simp: read_service_def as_map_Some split: option.splits)
  obtain i argv health cwd env restart where f:
    "identifier_field (mget d (u ''id'')) (map sp_id services) = Inr i"
    "argv_field (mget d (u ''argv'')) = Inr argv" "argv_field (mget d (u ''healthArgv'')) = Inr health"
    "relative_field (mget d (u ''cwd'')) = Inr cwd" "env_field (mget d (u ''env'')) = Inr env"
    "one_of (mget d (u ''restart'')) [u ''never'', u ''on-failure''] = Inr restart"
    and result: "services @ [\<lparr>sp_id = i, sp_argv = argv, sp_cwd = cwd, sp_env = env,
            sp_health_argv = health, sp_restart = restart\<rparr>] = services'"
    using assms(2) unfolding item read_service_def as_map_simps option.case rbind_Inr_iff sum.inject
    by (elim exE conjE) (rule that, assumption+)
  have "safe_identifier i" "i \<notin> set (map sp_id services)" using f(1) by (simp_all add: identifier_field_Inr)
  then show ?thesis
    using assms(1) argv_field_Inr [OF f(2)] argv_field_Inr [OF f(3)] f(4) env_field_Inr [OF f(5)] one_of_Inr [OF f(6)]
    by (auto simp: services_ok_def result [symmetric] relative_field_Inr)
qed

lemma rfold_checks: "rfold read_check cs checks = Inr checks' \<Longrightarrow> checks_ok checks \<Longrightarrow> checks_ok checks'"
  by (induction cs arbitrary: checks) (auto simp: rbind_Inr_iff dest: read_check_keeps)

lemma rfold_services: "rfold read_service ss services = Inr services' \<Longrightarrow> services_ok services \<Longrightarrow> services_ok services'"
  by (induction ss arbitrary: services) (auto simp: rbind_Inr_iff dest: read_service_keeps)

lemma root_aliases_keys:
  "dget (fold (\<lambda>(key, display) d. dset display key (dset key key d)) roots d) r = Some k \<Longrightarrow>
     k \<in> fst ` set roots \<or> (\<exists>q. dget d q = Some k)"
proof (induction roots arbitrary: d)
  case (Cons x xs)
  obtain key display where x: "x = (key, display)" by (cases x)
  from Cons.IH [of "dset display key (dset key key d)"] Cons.prems
  have "k \<in> fst ` set xs \<or> (\<exists>q. dget (dset display key (dset key key d)) q = Some k)" by (simp add: x)
  then show ?case by (auto simp: x dget_dset split: if_splits)
qed auto

definition generated_ok :: "(pystr \<times> pystr) list \<Rightarrow> generated_classifier \<Rightarrow> bool" where
  "generated_ok roots g \<longleftrightarrow> gc_root_key g \<in> fst ` set roots \<and> relative_ok (gc_glob g)"

lemma read_generated_Inr:
  assumes "read_generated (root_aliases roots) item = Inr g"
  shows "generated_ok roots g"
proof -
  obtain d where item: "item = PDict d"
    using assms by (auto simp: read_generated_def as_map_Some split: option.splits)
  obtain r where r: "dget (root_aliases roots) r = Some (gc_root_key g)" and p: "relative_ok (gc_glob g)"
    using assms unfolding item read_generated_def
    by (auto simp: rbind_Inr_iff req_Inr_iff relative_field_Inr split: pyval.splits)
  show ?thesis using root_aliases_keys [OF r [unfolded root_aliases_def]] p by (auto simp: generated_ok_def)
qed

lemma rmap_generated: "rmap (read_generated (root_aliases roots)) gs = Inr out \<Longrightarrow> list_all (generated_ok roots) out"
  by (induction gs arbitrary: out) (auto simp: rbind_Inr_iff dest: read_generated_Inr)

definition config_ok :: "(pystr \<times> pystr) list \<Rightarrow> project_config \<Rightarrow> bool" where
  "config_ok roots cfg \<longleftrightarrow> checks_ok (pc_checks cfg) \<and> services_ok (pc_services cfg)
     \<and> list_all relative_ok (pc_protected cfg) \<and> list_all (generated_ok roots) (pc_generated cfg)"

lemma protected_field_Inr: "protected_field v = Inr ps \<Longrightarrow> list_all relative_ok ps"
  by (auto simp: protected_field_def rmap_relative split: pyval.splits if_splits)

lemma project_of_ok:
  assumes "project_of roots sha value = Inr cfg"
  shows "config_ok roots cfg"
proof -
  obtain d where d: "value = PDict d"
    using assms by (auto simp: project_of_def as_map_Some split: option.splits)
  obtain protected gs generated cs checks ss services where f:
    "protected_field (mget_or d (u ''protected'') (PList [])) = Inr protected"
    "rmap (read_generated (root_aliases roots)) gs = Inr generated"
    "rfold read_check cs [] = Inr checks" "rfold read_service ss [] = Inr services"
    and c: "\<lparr>pc_generated = generated, pc_checks = checks, pc_services = services,
            pc_protected = protected, pc_source_sha256 = Some sha\<rparr> = cfg"
    using assms unfolding d project_of_def as_map_simps option.case rbind_Inr_iff sum.inject
    by (elim exE conjE) (rule that, assumption+)
  have "checks_ok []" "services_ok []" by (simp_all add: checks_ok_def private_last_def services_ok_def)
  then show ?thesis
    using protected_field_Inr [OF f(1)] rmap_generated [OF f(2)] rfold_checks [OF f(3)] rfold_services [OF f(4)]
    by (simp add: config_ok_def c [symmetric])
qed

section \<open>Errors\<close>

definition policy_errors :: "exc set" where
  "policy_errors = {invalid_config, WL ''CHECK_PROFILE_ORDER_INVALID'', TypeError}"

lemma relative_raises [only_raises_intros]: "only_raises (relative_field v) policy_errors"
  by (auto simp: relative_field_def only_raises_def policy_errors_def split: pyval.splits)

lemma field_raises [only_raises_intros]:
  "only_raises (opt_relative v) policy_errors" "only_raises (pattern_list v) policy_errors"
  "only_raises (argv_field v) policy_errors" "only_raises (identifier_field v seen) policy_errors"
  "only_raises (one_of v names) policy_errors" "only_raises (env_field v) policy_errors"
  "only_raises (protected_field v) policy_errors" "only_raises (profile_rules spec b) policy_errors"
proof -
  have e: "invalid_config \<in> policy_errors" "TypeError \<in> policy_errors"
    "WL ''CHECK_PROFILE_ORDER_INVALID'' \<in> policy_errors" by (simp_all add: policy_errors_def)
  note intros = only_raises_intros relative_raises e
  show "only_raises (opt_relative v) policy_errors" unfolding opt_relative_def by (intro intros)
  show "only_raises (pattern_list v) policy_errors"
    unfolding pattern_list_def by (cases v) (auto intro: intros)
  show "only_raises (argv_field v) policy_errors"
    unfolding argv_field_def by (cases v) (auto intro: intros)
  show "only_raises (identifier_field v seen) policy_errors"
    unfolding identifier_field_def by (cases v) (auto intro: intros)
  show "only_raises (one_of v names) policy_errors"
    unfolding one_of_def in_set_def by (cases v) (auto intro!: intros)
  show "only_raises (env_field v) policy_errors"
    unfolding env_field_def by (cases v) (auto intro!: intros)
  show "only_raises (protected_field v) policy_errors"
    unfolding protected_field_def by (cases v) (auto intro!: intros)
  show "only_raises (profile_rules spec b) policy_errors"
    unfolding profile_rules_def by (intro intros)
qed

lemma read_raises [only_raises_intros]:
  "only_raises (read_check item checks) policy_errors" "only_raises (read_service item services) policy_errors"
  "only_raises (read_generated aliases item) policy_errors"
proof -
  have e: "invalid_config \<in> policy_errors" by (simp add: policy_errors_def)
  have b: "only_raises (case v of PBool b \<Rightarrow> Inr b | _ \<Rightarrow> Inl invalid_config) policy_errors" for v
    by (cases v) (auto intro: only_raises_intros e)
  have r: "only_raises (case v of PStr r \<Rightarrow> req invalid_config (dget aliases r) | _ \<Rightarrow> Inl invalid_config) policy_errors" for v
    by (cases v) (auto intro: only_raises_intros e)
  show "only_raises (read_check item checks) policy_errors"
    unfolding read_check_def Let_def by (cases "as_map item") (auto intro!: only_raises_intros e b)
  show "only_raises (read_service item services) policy_errors"
    unfolding read_service_def by (cases "as_map item") (auto intro!: only_raises_intros e)
  show "only_raises (read_generated aliases item) policy_errors"
    unfolding read_generated_def by (cases "as_map item") (auto intro!: only_raises_intros e r)
qed

lemma load_raises: "only_raises (load_project hb file roots) policy_errors"
proof -
  have e: "invalid_config \<in> policy_errors" "TypeError \<in> policy_errors" by (simp_all add: policy_errors_def)
  have p: "only_raises (project_of roots sha v) policy_errors" for sha v
    unfolding project_of_def by (cases "as_map v") (auto intro!: only_raises_intros e)
  show ?thesis unfolding load_project_def by (cases "file") (auto intro!: only_raises_intros p e)
qed

section \<open>Properties\<close>


definition sample_check :: pyval where
  "sample_check = pdict [(u ''argv'', PList [PStr (u ''gate.py'')]), (u ''covers'', PList [PStr (u ''src'')]),
     (u ''format'', PStr (u ''exit'')), (u ''id'', PStr (u ''unit'')), (u ''kind'', PStr (u ''tests'')), (u ''required'', PBool True)]"

definition sample_policy :: pyval where
  "sample_policy = pdict [(u ''checks'', PList [sample_check]), (u ''generated'', PList []),
     (u ''protected'', PList [PStr (u ''docs'')]), (u ''schemaVersion'', PInt 1), (u ''services'', PList [])]"

definition sample_spec :: check_spec where
  "sample_spec = \<lparr>ck_id = u ''unit'', ck_kind = u ''tests'', ck_argv = [u ''gate.py''], ck_cwd = None,
     ck_required = True, ck_format = u ''exit'', ck_result = None, ck_covers = [u ''src''], ck_verifiers = [],
     ck_profile = u ''legacy''\<rparr>"

lemma sample_read: "read_check sample_check [] = Inr [sample_spec]"
proof -
  have k: "argument_ok (u ''gate.py'')" "safe_identifier (u ''unit'')" "relative_ok (u ''src'')"
    by (simp_all add: relative_ok_def prefixed_def argument_ok_def safe_identifier_def identifier_char_def is_digit_def u_def)
  show ?thesis
    by (simp add: read_check_def sample_check_def field_set_def mget_def mget_or_def identifier_field_def k
        RESERVED_CHECK_IDS_def one_of_def in_set_def check_kinds_def check_formats_def argv_field_def key_of_def
        opt_relative_def pattern_list_def relative_field_def profile_rules_def private_profile_def verifiers_disjoint_def
        sample_spec_def Let_def)
qed

lemma sample_project:
  "project_of [] h sample_policy = Inr \<lparr>pc_generated = [], pc_checks = [sample_spec], pc_services = [],
     pc_protected = [u ''docs''], pc_source_sha256 = Some h\<rparr>"
proof -
  have k: "relative_ok (u ''docs'')" by (simp add: relative_ok_def u_def prefixed_def)
  show ?thesis
    by (simp add: project_of_def sample_policy_def field_set_def mget_def mget_or_def protected_field_def
        nonempty_text_def relative_field_def k eq_int_def piter_def sample_read)
qed

lemma sample_policy_norm: "norm sample_policy = sample_policy"
  by (simp add: sample_policy_def sample_check_def norm.simps key_of_def u_def)

lemma sample_policy_canonical: "canonicalizable sample_policy"
  by (simp add: canonicalizable_def sample_policy_def sample_check_def)

lemma sample_load:
  "load_project hb (Policy (utf8_encode (dumps sample_policy))) [] =
     project_of [] (hex_text (hb (utf8_encode (dumps sample_policy)))) sample_policy"
  using utf8_roundtrip [OF encodable_dumps [OF sample_policy_canonical]]
    loads_dumps [OF sample_policy_canonical]
  by (simp add: load_project_def sample_policy_norm)



lemma unhashable_kind_raises:
  "read_check (pdict [(u ''argv'', PList [PStr (u ''gate.py'')]), (u ''format'', PStr (u ''exit'')),
     (u ''id'', PStr (u ''unit'')), (u ''kind'', PList []), (u ''required'', PBool True)]) [] = Inl TypeError"
proof -
  have "safe_identifier (u ''unit'')"
    by (simp add: safe_identifier_def identifier_char_def is_digit_def u_def)
  then show ?thesis
    by (simp add: read_check_def field_set_def mget_def identifier_field_def RESERVED_CHECK_IDS_def
        one_of_def in_set_def)
qed


text \<open>
  Pattern matching agrees with its meaning: a name matches a pattern exactly when it is the
  concatenation of one piece per item of the pattern, an arbitrary text for a star and one admitted
  character for every other item.
\<close>
lemma fnmatch_denotes:
  "fnmatchcase name pattern \<longleftrightarrow> glob_denotes (parse_glob pattern) name"
  by (simp add: fnmatchcase_def glob_matches_denotes)

text \<open>
  Every path a loaded policy names is its own normal form: normalisation neither moves it nor
  lets it climb, so the file a check, a service or a classifier names is where it says, inside the
  root it is relative to.
\<close>
theorem policy_paths_are_normal:
  assumes "load_project hb src roots = Inr cfg" and "c \<in> set (pc_checks cfg)"
    and "p \<in> set (ck_covers c) \<union> set (ck_verifiers c)" and "p \<noteq> u ''.''"
  shows "normpath 47 46 p = p \<and> u ''..'' \<notin> set (split_on 47 p) \<and> \<not> prefixed p [47]"
proof -
  have "config_ok roots cfg"
    using assms(1) by (cases "src")
      (auto simp: load_project_def rbind_Inr_iff config_ok_def checks_ok_def private_last_def services_ok_def dest: project_of_ok)
  then have "relative_ok p"
    using assms(2,3) by (auto simp: config_ok_def checks_ok_def check_ok_def list_all_iff)
  then show ?thesis using relative_is_normal [of p] assms(4) by (auto simp: relative_ok_def list_all_iff)
qed
theorem policy_paths_are_normal_witness:
  "normpath 47 46 (u ''src'') = u ''src'' \<and> u ''..'' \<notin> set (split_on 47 (u ''src'')) \<and> \<not> prefixed (u ''src'') [47]"
proof (rule policy_paths_are_normal)
  show "load_project (\<lambda>_. []) (Policy (utf8_encode (dumps sample_policy))) [] = Inr
    \<lparr>pc_generated = [], pc_checks = [sample_spec], pc_services = [], pc_protected = [u ''docs''],
     pc_source_sha256 = Some (hex_text [])\<rparr>"
    by (simp add: sample_load sample_project)
  show "sample_spec \<in> set (pc_checks \<lparr>pc_generated = [], pc_checks = [sample_spec], pc_services = [],
     pc_protected = [u ''docs''], pc_source_sha256 = Some (hex_text [])\<rparr>)" by simp
  show "u ''src'' \<in> set (ck_covers sample_spec) \<union> set (ck_verifiers sample_spec)" by (simp add: sample_spec_def)
qed simp

text \<open>
  The disjointness rule probes a glob by one representative path, so a file can be a declared
  verifier and candidate-owned at once.
\<close>

lemma glob_verifier_may_be_covered:
  "verifiers_disjoint (sample_spec\<lparr>ck_verifiers := [u ''*.py''], ck_covers := [u ''x.py'']\<rparr>)
    \<and> fnmatchcase (u ''x.py'') (u ''*.py'')
    \<and> covers_path (sample_spec\<lparr>ck_verifiers := [u ''*.py''], ck_covers := [u ''x.py'']\<rparr>) (u ''x.py'')"
  by (simp add: verifiers_disjoint_def covers_path_def probe_path_def is_wild_def fnmatchcase_def
      under_pattern_def prefixed_def rstrip_by_def sample_spec_def u_def)

end
