(* ===== verification/Validation.thy ===== *)
theory Validation
  imports Project Executed Evidence Manifest Store
begin

text \<open>
  \<open>runtime/worldline/validation.py\<close>: the validation context. A requirement is the policy in its
  canonical form, the verifiers it resolves to and the execution configuration; a context binds one
  evaluation to a requirement and a candidate; two content roots say whether the bytes examined are
  the bytes staged. \<open>hb\<close> is SHA-256; trees and the execution configuration are arguments.
\<close>

section \<open>Digests and the canonical policy\<close>

definition digest_of :: "(bytes \<Rightarrow> bytes) \<Rightarrow> pyval \<Rightarrow> pystr res" where
  "digest_of hb v = rbind (canonical_bytes v) (\<lambda>b. hash_id (hb (''worldline-validation-v1'' @ b)))"

definition texts :: "pystr list \<Rightarrow> pyval" where
  "texts xs = PList (map PStr xs)"

definition canonical_check :: "check_spec \<Rightarrow> pyval" where
  "canonical_check c = pdict [(u ''id'', PStr (ck_id c)), (u ''kind'', PStr (ck_kind c)),
     (u ''argv'', texts (ck_argv c)), (u ''cwd'', opt_str (ck_cwd c)),
     (u ''required'', PBool (ck_required c)), (u ''format'', PStr (ck_format c)),
     (u ''result'', opt_str (ck_result c)), (u ''covers'', texts (sort (ck_covers c))),
     (u ''verifiers'', texts (sort (ck_verifiers c))), (u ''profile'', PStr (ck_profile c))]"

definition canonical_checks :: "check_spec list \<Rightarrow> pyval" where
  "canonical_checks checks = PList (map canonical_check checks)"

definition canonical_service :: "service_spec \<Rightarrow> pyval" where
  "canonical_service s = pdict [(u ''id'', PStr (sp_id s)), (u ''argv'', texts (sp_argv s)),
     (u ''cwd'', PStr (sp_cwd s)),
     (u ''env'', pdict (map (\<lambda>(k, v). (k, PStr v)) (sort (sp_env s)))),
     (u ''healthArgv'', texts (sp_health_argv s)), (u ''restart'', PStr (sp_restart s))]"

definition canonical_policy :: "project_config \<Rightarrow> pyval" where
  "canonical_policy p = pdict [(u ''schemaVersion'', PInt 1),
     (u ''checks'', canonical_checks (pc_checks p)),
     (u ''protected'', texts (sort (pc_protected p))),
     (u ''generated'', PList (map (\<lambda>g. pdict [(u ''root'', PStr (gc_root_key g)), (u ''glob'', PStr (gc_glob g))])
        (sort_key (\<lambda>g. (gc_root_key g, gc_glob g)) (pc_generated p)))),
     (u ''services'', PList (map canonical_service (sort_key sp_id (pc_services p))))]"

section \<open>Resolved verifiers\<close>

definition static_prefix :: "pystr \<Rightarrow> pystr" where
  "static_prefix pattern =
     (let parts = split_on 47 pattern;
          fixed = takeWhile (\<lambda>p. \<not> list_ex is_wild p) parts
      in join_on 47 (if fixed \<noteq> [] \<and> fixed = parts then butlast fixed else fixed))"

definition glob_match :: "pystr \<Rightarrow> pystr \<Rightarrow> bool" where
  "glob_match relative pattern \<longleftrightarrow> fnmatchcase relative pattern \<or> under_pattern pattern relative"

text \<open>
  A root's tree as the code reads it: the bytes of a regular file that is not a link itself, by its
  path from the root (\<open>None\<close> otherwise), and, at a directory that is not a link, what a walk finds
  below it. A link to a directory is listed among the directories and not entered.
\<close>

datatype walk_tree =
    Walk_File
  | Walk_Dir "(pystr \<times> walk_tree) list"
  | Walk_Dir_Link

record source_tree =
  tr_file :: "pystr \<Rightarrow> bytes option"
  tr_top :: "pystr \<Rightarrow> (pystr \<times> walk_tree) list option"

definition WALK_SKIP :: "pystr list" where
  "WALK_SKIP = [u ''.git'', u ''.hg'', u ''.svn'', u ''__pycache__'', u ''node_modules'', u ''.venv'']"

fun walk_files :: "(pystr \<times> walk_tree) list \<Rightarrow> pystr list" and walk_node :: "pystr \<Rightarrow> walk_tree \<Rightarrow> pystr list" where
  "walk_files [] = []"
| "walk_files ((name, t) # rest) = walk_node name t @ walk_files rest"
| "walk_node name Walk_File = [name]"
| "walk_node name Walk_Dir_Link = []"
| "walk_node name (Walk_Dir children) =
     (if name \<in> set WALK_SKIP then [] else map (\<lambda>p. name @ 47 # p) (walk_files children))"

type_synonym found = "((pystr \<times> pystr \<times> pystr) \<times> verifier_entry) list"

definition add_verifier ::
    "(bytes \<Rightarrow> bytes) \<Rightarrow> (pystr \<times> source_tree) list \<Rightarrow> pystr \<Rightarrow> pystr \<Rightarrow> pystr \<Rightarrow> pystr \<Rightarrow> found \<Rightarrow> found" where
  "add_verifier hb sources check_id root_key relative source found =
     (case dget sources root_key of
        None \<Rightarrow> found
      | Some base \<Rightarrow> (case tr_file base relative of
          None \<Rightarrow> found
        | Some data \<Rightarrow>
            if (check_id, root_key, relative) \<in> set (dkeys found) then found
            else found @ [((check_id, root_key, relative), \<lparr>ve_check = check_id, ve_root = root_key,
              ve_path = relative, ve_sha256 = hex_text (hb data), ve_source = source\<rparr>)]))"

definition add_tree ::
    "(bytes \<Rightarrow> bytes) \<Rightarrow> (pystr \<times> source_tree) list \<Rightarrow> pystr \<Rightarrow> pystr \<Rightarrow> pystr \<Rightarrow> pystr \<Rightarrow> pystr option
       \<Rightarrow> found \<Rightarrow> found" where
  "add_tree hb sources check_id root_key directory source pattern found =
     (case dget sources root_key of
        None \<Rightarrow> found
      | Some base \<Rightarrow> (case tr_top base directory of
          None \<Rightarrow> found
        | Some children \<Rightarrow>
            fold (\<lambda>p. add_verifier hb sources check_id root_key p source)
              (filter (\<lambda>p. case pattern of None \<Rightarrow> True | Some q \<Rightarrow> glob_match p q)
                (map (\<lambda>p. normpath 47 46 (if directory = [] then p else directory @ 47 # p)) (walk_files children)))
              found))"

text \<open>The members of registered trees a check's argv names, as \<open>source: argv\<close>.\<close>

definition named_members ::
    "(pystr \<times> source_tree) list \<Rightarrow> (pystr \<times> pystr) list \<Rightarrow> pystr \<Rightarrow> check_spec \<Rightarrow> (pystr \<times> pystr) list" where
  "named_members sources prefixes primary_key check =
     List.map_filter (\<lambda>token.
       case resolve_token token prefixes (Some primary_key) (case ck_cwd check of None \<Rightarrow> [] | Some c \<Rightarrow> c) of
         Member root_key relative \<Rightarrow>
           (case dget sources root_key of
              None \<Rightarrow> None
            | Some base \<Rightarrow>
                if tr_file base relative = None \<or> covers_path check relative then None
                else Some (root_key, relative))
       | _ \<Rightarrow> None) (ck_argv check)"

definition check_verifiers ::
    "(bytes \<Rightarrow> bytes) \<Rightarrow> (pystr \<times> source_tree) list \<Rightarrow> (pystr \<times> pystr) list \<Rightarrow> pystr \<Rightarrow> check_spec \<Rightarrow> found \<Rightarrow> found" where
  "check_verifiers hb sources prefixes primary_key check found =
     (let named = named_members sources prefixes primary_key check;
          found' = fold (\<lambda>(k, r). add_verifier hb sources (ck_id check) k r (u ''argv'')) named found
      in if ck_verifiers check \<noteq> []
         then fold (\<lambda>p. add_tree hb sources (ck_id check) primary_key (static_prefix p) (u ''declared'') (Some p))
                (ck_verifiers check) found'
         else fold (\<lambda>(k, r). let directory = dirname 47 r in
                if directory \<noteq> [] \<and> directory \<noteq> u ''.''
                then add_tree hb sources (ck_id check) k directory (u ''directory'') None else (\<lambda>f. f))
                named found')"

text \<open>
  A registered root for the resolver: its key, its path as text and whether it is the primary one.
\<close>

record logical_root =
  lr_key :: pystr
  lr_path :: pystr
  lr_kind :: pystr
  lr_primary :: bool

definition resolve_verifiers ::
    "(bytes \<Rightarrow> bytes) \<Rightarrow> check_spec list \<Rightarrow> logical_root list \<Rightarrow> (pystr \<times> source_tree) list \<Rightarrow> verifier_entry list" where
  "resolve_verifiers hb checks rs sources =
     (case List.find lr_primary rs of
        None \<Rightarrow> []
      | Some primary \<Rightarrow>
          let prefixes = root_prefixes (dbuild (map (\<lambda>r. (lr_key r, lr_path r)) rs));
              found = fold (check_verifiers hb sources prefixes (lr_key primary)) checks []
          in map snd (sort_key fst found))"

definition verifier_value :: "verifier_entry \<Rightarrow> pyval" where
  "verifier_value e = pdict [(u ''checkId'', PStr (ve_check e)), (u ''rootKey'', PStr (ve_root e)),
     (u ''path'', PStr (ve_path e)), (u ''sha256'', PStr (ve_sha256 e)), (u ''source'', PStr (ve_source e))]"

section \<open>Requirements\<close>

definition dash :: pystr where
  "dash = [32, 0x2014, 32]"

definition check_warnings :: "(pystr \<Rightarrow> bool) \<Rightarrow> check_spec \<Rightarrow> pystr list" where
  "check_warnings exists_file check =
     (let existing = filter exists_file (named_paths check);
          covered = map (\<lambda>n. u ''check '' @ ck_id check @ u '': argv names '' @ n
              @ u '', which its covers globs match; it is treated as candidate-owned data, not as a verifier'' @ dash
              @ u ''declare `verifiers` if it is the examiner'') (filter (covers_path check) existing);
          named = filter (\<lambda>n. \<not> covers_path check n) existing
      in covered @
         (if ck_verifiers check \<noteq> [] then []
          else if named = [] then
            [u ''check '' @ ck_id check @ u '': argv names no file in the root, so no verifier is bound (a Makefile, conftest.py, package.json or an inline script escapes the evidence identity)'' @ dash
              @ u ''declare `verifiers` to bind its examiner'']
          else map (\<lambda>n. u ''check '' @ ck_id check @ u '': only the named top-level verifier '' @ n
              @ u '' is bound, so it is the only file staged; anything it imports from beside it will NOT be found and the check will FAIL'' @ dash
              @ u ''declare `verifiers` to bind and stage them'')
            (filter (\<lambda>n. dirname 47 n \<in> {[], u ''.''}) named)))"

definition policy_warnings :: "(pystr \<Rightarrow> bool) \<Rightarrow> check_spec list \<Rightarrow> pystr list" where
  "policy_warnings exists_file checks = concat (map (check_warnings exists_file) checks)"

definition primary_source :: "logical_root list \<Rightarrow> (pystr \<times> source_tree) list \<Rightarrow> source_tree res" where
  "primary_source rs sources =
     (case List.find lr_primary rs of
        None \<Rightarrow> Inl (WL ''NO_PRIMARY_ROOT'')
      | Some r \<Rightarrow> req (WL ''NO_PRIMARY_ROOT'') (dget sources (lr_key r)))"

text \<open>\<open>dict(v)\<close> of a decoded value: a mapping, or a list of pairs with hashable first components.\<close>

definition pair_of :: "pyval \<Rightarrow> (pyval \<times> pyval) res" where
  "pair_of v =
     (let mk = (\<lambda>a b. case a of PList _ \<Rightarrow> Inl TypeError | PDict _ \<Rightarrow> Inl TypeError | _ \<Rightarrow> Inr (a, b)) in
      case v of
        PList [a, b] \<Rightarrow> mk a b
      | PDict [(a, _), (b, _)] \<Rightarrow> mk a b
      | PStr [a, b] \<Rightarrow> Inr (PStr [a], PStr [b])
      | PList _ \<Rightarrow> Inl ValueError
      | PDict _ \<Rightarrow> Inl ValueError
      | PStr _ \<Rightarrow> Inl ValueError
      | _ \<Rightarrow> Inl TypeError)"

definition dict_of :: "pyval \<Rightarrow> (pyval \<times> pyval) list res" where
  "dict_of v = (case v of
       PDict kvs \<Rightarrow> Inr kvs
     | PList xs \<Rightarrow> rbind (rmap pair_of xs) (\<lambda>kvs. Inr (dbuild kvs))
     | PStr s \<Rightarrow> if s = [] then Inr [] else Inl ValueError
     | _ \<Rightarrow> Inl TypeError)"

definition without :: "pystr list \<Rightarrow> (pyval \<times> pyval) list \<Rightarrow> (pyval \<times> pyval) list" where
  "without names kvs = filter (\<lambda>(k, v). k \<notin> set (map PStr names)) kvs"

definition or_empty :: "pyval \<Rightarrow> pyval" where
  "or_empty v = (if truthy v then v else PDict [])"

text \<open>The identity of a requirement leaves out the raw policy digest and the warnings.\<close>

definition hashed_requirement :: "(pyval \<times> pyval) list \<Rightarrow> pyval res" where
  "hashed_requirement value =
     rbind (dict_of (or_empty (mget value (u ''policy'')))) (\<lambda>policy.
     Inr (PDict (dset (PStr (u ''policy'')) (PDict (without [u ''sourceSha256'', u ''warnings''] policy))
       (without [u ''requirementHash''] value))))"

definition requirement_hash :: "(bytes \<Rightarrow> bytes) \<Rightarrow> (pyval \<times> pyval) list \<Rightarrow> pystr res" where
  "requirement_hash hb value = rbind (hashed_requirement value) (digest_of hb)"

definition requirement_fields ::
    "(bytes \<Rightarrow> bytes) \<Rightarrow> project_config \<Rightarrow> logical_root list \<Rightarrow> (pystr \<times> source_tree) list \<Rightarrow> pyval
       \<Rightarrow> source_tree \<Rightarrow> (pyval \<times> pyval) list" where
  "requirement_fields hb project rs sources execution primary =
     map (\<lambda>(k, v). (PStr k, v)) [
       (u ''schemaVersion'', PInt 1),
       (u ''policy'', pdict [(u ''canonical'', canonical_policy project),
          (u ''sourceSha256'', opt_str (pc_source_sha256 project)),
          (u ''requiredChecks'', texts (sort (map ck_id (filter ck_required (pc_checks project))))),
          (u ''warnings'', texts (policy_warnings (\<lambda>p. tr_file primary p \<noteq> None) (pc_checks project)))]),
       (u ''verifiers'', PList (map verifier_value (resolve_verifiers hb (pc_checks project) rs sources))),
       (u ''execution'', execution)]"

definition requirements ::
    "(bytes \<Rightarrow> bytes) \<Rightarrow> project_config \<Rightarrow> logical_root list \<Rightarrow> (pystr \<times> source_tree) list \<Rightarrow> pyval res
       \<Rightarrow> (pyval \<times> pyval) list res" where
  "requirements hb project rs sources execution =
     rbind (primary_source rs sources) (\<lambda>primary.
     rbind execution (\<lambda>exe.
     let value = requirement_fields hb project rs sources exe primary in
     rbind (requirement_hash hb value) (\<lambda>h.
     Inr (dset (PStr (u ''requirementHash'')) (PStr h) value))))"

definition current_requirements ::
    "(bytes \<Rightarrow> bytes) \<Rightarrow> policy_file \<Rightarrow> (pystr \<times> pystr) list \<Rightarrow> logical_root list \<Rightarrow> (pystr \<times> source_tree) list
       \<Rightarrow> pyval res \<Rightarrow> (pyval \<times> pyval) list res" where
  "current_requirements hb policy displays rs live execution =
     rbind (ensure (List.find lr_primary rs \<noteq> None) (WL ''NO_PRIMARY_ROOT'')) (\<lambda>_.
     rbind (load_project hb policy displays) (\<lambda>project.
     requirements hb project rs live execution))"

section \<open>The context of an evaluation\<close>

text \<open>A verifier list read by (root key, path), as the comparison keys it.\<close>

definition verifier_items :: "pyval list \<Rightarrow> ((pyval \<times> pyval) \<times> pyval) list res" where
  "verifier_items vs = rbind (rmap (\<lambda>v.
       rbind (pitem v (u ''rootKey'')) (\<lambda>k. rbind (pitem v (u ''path'')) (\<lambda>p.
       rbind (pitem v (u ''sha256'')) (\<lambda>d. Inr ((k, p), d))))) vs) (\<lambda>items. Inr (dbuild items))"

definition member_name :: "pyval \<times> pyval \<Rightarrow> pystr" where
  "member_name k = py_str (fst k) @ 58 # py_str (snd k)"

definition modified_verifiers ::
    "((pyval \<times> pyval) \<times> pyval) list \<Rightarrow> ((pyval \<times> pyval) \<times> pyval) list \<Rightarrow> pystr list" where
  "modified_verifiers expected present =
     sort (remdups (map (\<lambda>(k, d). member_name k) (filter (\<lambda>(k, d). dget present k \<noteq> Some d) expected)
       @ map (\<lambda>(k, d). member_name k @ u '' (added)'') (filter (\<lambda>(k, d). k \<notin> set (dkeys expected)) present)))"

definition context_result :: "(pyval \<times> pyval) list \<Rightarrow> pyval" where
  "context_result r = pdict ([(u ''id'', mget r (u ''id'')), (u ''status'', mget r (u ''status'')),
       (u ''required'', mget r (u ''required'')), (u ''format'', mget r (u ''format''))]
     @ (if mhas r (u ''profile'') then [(u ''profile'', mget r (u ''profile''))] else [])
     @ [(u ''exitCode'', mget r (u ''exitCode'')), (u ''candidateSnapshot'', mget r (u ''candidateSnapshot'')),
       (u ''privateReport'', mget r (u ''privateReport'')), (u ''evaluatorBoundary'', mget r (u ''evaluatorBoundary''))])"

definition root_value :: "logical_root \<Rightarrow> pyval" where
  "root_value r = pdict [(u ''rootKey'', PStr (lr_key r)), (u ''path'', PStr (lr_path r)), (u ''kind'', PStr (lr_kind r))]"

record context_input =
  cx_requirement :: "(pyval \<times> pyval) list"
  cx_candidate :: pyval
  cx_prime_at_fork :: pyval
  cx_roots :: "logical_root list"
  cx_results :: "(pyval \<times> pyval) list list"
  cx_candidate_verifiers :: "pyval list"
  cx_adapter :: pyval
  cx_evaluated_at :: pystr
  cx_source :: pystr
  cx_examined :: "pystr option"

definition context_fields :: "context_input \<Rightarrow> (pyval \<times> pyval) list res" where
  "context_fields c =
     rbind (case mget_or (cx_requirement c) (u ''verifiers'') (PList []) of v \<Rightarrow> piter v) (\<lambda>vs.
     rbind (verifier_items vs) (\<lambda>expected.
     rbind (verifier_items (cx_candidate_verifiers c)) (\<lambda>present.
     rbind (pitem (PDict (cx_requirement c)) (u ''requirementHash'')) (\<lambda>h.
     Inr (map (\<lambda>(k, v). (PStr k, v)) ([
       (u ''schemaVersion'', PInt 1),
       (u ''requirement'', PDict (cx_requirement c)),
       (u ''requirementHash'', h),
       (u ''candidate'', cx_candidate c),
       (u ''primeAtFork'', cx_prime_at_fork c),
       (u ''roots'', PList (map root_value (sort_key lr_key (cx_roots c)))),
       (u ''results'', PList (map context_result (cx_results c))),
       (u ''candidateVerifiers'', PList (cx_candidate_verifiers c)),
       (u ''verifiersModifiedByCandidate'', texts (modified_verifiers expected present)),
       (u ''adapter'', cx_adapter c),
       (u ''evaluatedAt'', PStr (cx_evaluated_at c)),
       (u ''source'', PStr (cx_source c))]
       @ (case cx_examined c of None \<Rightarrow> [] | Some x \<Rightarrow> [(u ''examinedContentRoot'', PStr x)])))))))"

definition build_context :: "(bytes \<Rightarrow> bytes) \<Rightarrow> context_input \<Rightarrow> (pyval \<times> pyval) list res" where
  "build_context hb c =
     rbind (context_fields c) (\<lambda>value.
     rbind (digest_of hb (PDict (without [u ''contextHash''] value))) (\<lambda>h.
     Inr (dset (PStr (u ''contextHash'')) (PStr h) value)))"

abbreviation context_invalid :: exc where
  "context_invalid \<equiv> WL ''EVIDENCE_CONTEXT_INVALID''"

definition verify_context :: "(bytes \<Rightarrow> bytes) \<Rightarrow> pyval \<Rightarrow> pystr option \<Rightarrow> pyval res" where
  "verify_context hb context candidate =
     rbind (ensure (context \<noteq> PNone) (WL ''EVIDENCE_CONTEXT_MISSING'')) (\<lambda>_.
     rbind (req context_invalid (as_map context)) (\<lambda>ctx.
     rbind (ensure (eq_int (mget ctx (u ''schemaVersion'')) 1) context_invalid) (\<lambda>_.
     rbind (digest_of hb (PDict (without [u ''contextHash''] ctx))) (\<lambda>expected.
     rbind (ensure (mget ctx (u ''contextHash'') = PStr expected) context_invalid) (\<lambda>_.
     rbind (req context_invalid (as_map (or_empty (mget ctx (u ''requirement''))))) (\<lambda>requirement.
     rbind (requirement_hash hb requirement) (\<lambda>h.
     rbind (ensure (mget requirement (u ''requirementHash'') = PStr h
       \<and> py_eq (mget ctx (u ''requirementHash'')) (mget requirement (u ''requirementHash''))) context_invalid) (\<lambda>_.
     rbind (pget (or_empty (mget ctx (u ''candidate''))) (u ''instanceId'') PNone) (\<lambda>bound.
     rbind (ensure (case candidate of None \<Rightarrow> True | Some i \<Rightarrow> bound = PStr i) context_invalid) (\<lambda>_.
     Inr context))))))))))"

section \<open>Content roots\<close>

definition CONTENT_FIELDS :: "pystr list" where
  "CONTENT_FIELDS = [u ''pathB64'', u ''type'', u ''mode'', u ''contentHash'', u ''size'', u ''targetB64'',
     u ''xattrs'', u ''acls'']"

definition content_entry :: "pyval \<Rightarrow> pyval res" where
  "content_entry e = (case e of
       PDict kvs \<Rightarrow> Inr (PDict (List.map_filter
         (\<lambda>k. case dget kvs (PStr k) of None \<Rightarrow> None | Some v \<Rightarrow> Some (PStr k, v)) CONTENT_FIELDS))
     | _ \<Rightarrow> Inl TypeError)"

definition content_entries :: "captured \<Rightarrow> pyval list res" where
  "content_entries m = rbind (pitem (cm_value m) (u ''entries'')) (\<lambda>v.
     rbind (piter v) (rmap content_entry))"

definition content_root_set :: "(bytes \<Rightarrow> bytes) \<Rightarrow> (pystr \<times> captured) list \<Rightarrow> pystr res" where
  "content_root_set hb manifests =
     rbind (rmap (\<lambda>(k, m). rbind (content_entries m) (\<lambda>es. Inr (k, PList es)))
       (sort_key fst manifests)) (\<lambda>value.
     rbind (canonical_bytes (pdict value)) (\<lambda>b.
     hash_id (hb (''worldline-content-root-set-v2'' @ b))))"

definition content_map :: "(pystr \<times> captured) list \<Rightarrow> pystr \<Rightarrow> (pystr \<times> pyval) list res" where
  "content_map manifests k =
     (case dget manifests k of
        None \<Rightarrow> Inr []
      | Some m \<Rightarrow> rbind (content_entries m) (\<lambda>es.
          rbind (rmap (\<lambda>e. rbind (str_item e (u ''pathB64'')) (\<lambda>p. Inr (p, e))) es) (\<lambda>kvs. Inr (dbuild kvs))))"

definition entries_differ :: "pyval option \<Rightarrow> pyval option \<Rightarrow> bool" where
  "entries_differ a b \<longleftrightarrow> (case (a, b) of
       (Some x, Some y) \<Rightarrow> \<not> py_eq x y
     | (None, None) \<Rightarrow> False
     | _ \<Rightarrow> True)"

definition content_differences ::
    "(pystr \<times> captured) list \<Rightarrow> (pystr \<times> captured) list \<Rightarrow> pystr list res" where
  "content_differences candidate staged =
     rbind (rmap (\<lambda>k.
       rbind (content_map candidate k) (\<lambda>a. rbind (content_map staged k) (\<lambda>b.
       rmap (\<lambda>p. rbind (b64decode_lenient p) (\<lambda>raw.
           Inr (take 12 k @ 58 # utf8_replace (map of_char raw))))
         (filter (\<lambda>p. entries_differ (dget a p) (dget b p)) (sort (remdups (dkeys a @ dkeys b)))))))
       (sort (remdups (dkeys candidate @ dkeys staged)))) (\<lambda>outs. Inr (concat outs))"

section \<open>The evaluation that speaks for a world\<close>

definition mappings :: "pyval list \<Rightarrow> pyval list" where
  "mappings xs = filter is_map xs"

fun spoken_by :: "pystr option \<Rightarrow> pyval list \<Rightarrow> (pyval \<times> pystr \<times> pyval list) option res" where
  "spoken_by content_id [] = Inr None"
| "spoken_by content_id (entry # older) =
     (let e = map_or_empty entry; ctx = mget e (u ''context'') in
      if is_map entry \<and> is_map ctx \<and> mget e (u ''outcome'') = PStr (u ''PASS'')
         \<and> mget e (u ''worldContentId'') = opt_str content_id
      then rbind (iter_or_empty (mget e (u ''results''))) (\<lambda>rs.
           Inr (Some (ctx, u ''revalidation:'' @ py_str (mget e (u ''validationId'')), mappings rs)))
      else spoken_by content_id older)"

definition effective_evidence :: "store \<Rightarrow> world \<Rightarrow> (pyval option \<times> pystr \<times> pyval list) res" where
  "effective_evidence s w =
     rbind (fst (get_meta (u ''validation:'' @ w_instance_id w) (PList []) s)) (\<lambda>history.
     rbind (if truthy history then case history of PList xs \<Rightarrow> Inr xs | _ \<Rightarrow> Inl TypeError else Inr []) (\<lambda>entries.
     rbind (spoken_by (w_content_id w) (rev entries)) (\<lambda>spoken.
     case spoken of
       Some (ctx, source, records) \<Rightarrow> Inr (Some ctx, source, records)
     | None \<Rightarrow>
         let evidence = map_or_empty (w_evidence w); ctx = mget evidence (u ''validationContext'') in
         rbind (iter_or_empty (mget evidence (u ''checks''))) (\<lambda>checks.
         Inr (if is_map ctx then Some ctx else None, u ''finalization'', mappings checks)))))"

definition effective_context :: "store \<Rightarrow> world \<Rightarrow> (pyval option \<times> pystr) res" where
  "effective_context s w = rbind (effective_evidence s w) (\<lambda>(ctx, source, _). Inr (ctx, source))"

section \<open>What changed between two requirements\<close>

definition sub_get :: "pyval \<Rightarrow> pystr \<Rightarrow> pyval \<Rightarrow> pyval res" where
  "sub_get requirement k dflt =
     rbind (pget requirement (u ''policy'') PNone) (\<lambda>p.
     rbind (pget (or_empty p) (u ''canonical'') (PDict [])) (\<lambda>c. pget c k dflt))"

definition by_id :: "pyval list \<Rightarrow> (pystr \<times> pyval) list res" where
  "by_id xs = rbind (rmap (\<lambda>c. rbind (str_item c (u ''id'')) (\<lambda>i. Inr (i, c))) xs) (\<lambda>kvs. Inr (dbuild kvs))"

definition changed_fields :: "pyval \<Rightarrow> pyval \<Rightarrow> pystr list res" where
  "changed_fields x y =
     rbind (dict_of x) (\<lambda>kvs.
     rbind (rmap (\<lambda>(k, v). rbind (pget y (key_of k) PNone) (\<lambda>w. Inr (key_of k, py_eq v w))) kvs) (\<lambda>cmp.
     Inr (map fst (filter (\<lambda>(k, same). \<not> same) cmp))))"

text \<open>The added, removed and changed entries of two lists read by identifier.\<close>

definition changes_by_id :: "pystr \<Rightarrow> (pystr \<times> pyval) list \<Rightarrow> (pystr \<times> pyval) list \<Rightarrow> pystr list res" where
  "changes_by_id label a b =
     rbind (rmap (\<lambda>i.
       case (dget a i, dget b i) of
         (None, _) \<Rightarrow> Inr [label @ u '' added: '' @ i]
       | (_, None) \<Rightarrow> Inr [label @ u '' removed: '' @ i]
       | (Some x, Some y) \<Rightarrow>
           if py_eq x y then Inr []
           else rbind (changed_fields x y) (\<lambda>fs.
                Inr [label @ u '' changed: '' @ i @ u '' ('' @ join (u '', '') fs @ u '')'']))
       (sort (remdups (dkeys a @ dkeys b)))) (\<lambda>outs. Inr (concat outs))"

definition policy_differences :: "pyval \<Rightarrow> pyval \<Rightarrow> pystr list res" where
  "policy_differences a b =
     rbind (sub_get a (u ''checks'') (PList [])) (\<lambda>xs. rbind (piter xs) (\<lambda>xs. rbind (by_id xs) (\<lambda>ca.
     rbind (sub_get b (u ''checks'') (PList [])) (\<lambda>ys. rbind (piter ys) (\<lambda>ys. rbind (by_id ys) (\<lambda>cb.
     rbind (changes_by_id (u ''check'') ca cb) (\<lambda>checks.
     rbind (sub_get a (u ''protected'') PNone) (\<lambda>pa. rbind (sub_get b (u ''protected'') PNone) (\<lambda>pb.
     rbind (sub_get a (u ''services'') (PList [])) (\<lambda>xs. rbind (piter xs) (\<lambda>xs. rbind (by_id (mappings xs)) (\<lambda>sa.
     rbind (sub_get b (u ''services'') (PList [])) (\<lambda>ys. rbind (piter ys) (\<lambda>ys. rbind (by_id (mappings ys)) (\<lambda>sb.
     rbind (changes_by_id (u ''service'') sa sb) (\<lambda>services.
     let out = checks @ (if py_eq pa pb then [] else [u ''protected paths changed'']) @ services
     in Inr (if out = [] then [u ''policy changed''] else out)))))))))))))))))"

definition verifier_differences :: "pyval \<Rightarrow> pyval \<Rightarrow> pystr list res" where
  "verifier_differences a b =
     rbind (pget a (u ''verifiers'') (PList [])) (\<lambda>xs. rbind (piter xs) (\<lambda>xs. rbind (verifier_items xs) (\<lambda>va.
     rbind (pget b (u ''verifiers'') (PList [])) (\<lambda>ys. rbind (piter ys) (\<lambda>ys. rbind (verifier_items ys) (\<lambda>vb.
     Inr (List.map_filter (\<lambda>k. case (dget va k, dget vb k) of
         (None, _) \<Rightarrow> Some (u ''verifier added: '' @ py_str (snd k))
       | (_, None) \<Rightarrow> Some (u ''verifier removed: '' @ py_str (snd k))
       | (Some x, Some y) \<Rightarrow> if py_eq x y then None else Some (u ''verifier changed: '' @ py_str (snd k)))
       (sort_key (\<lambda>k. (key_of (fst k), key_of (snd k))) (remdups (dkeys va @ dkeys vb))))))))))"

definition field_keys :: "(pyval \<times> pyval) list \<Rightarrow> (pyval \<times> pyval) list \<Rightarrow> pystr list" where
  "field_keys a b = sort (remdups (map (\<lambda>(k, v). key_of k) (a @ b)))"

definition execution_differences :: "pyval \<Rightarrow> pyval \<Rightarrow> pystr list res" where
  "execution_differences a b =
     rbind (pget a (u ''execution'') PNone) (\<lambda>x. rbind (pget b (u ''execution'') PNone) (\<lambda>y.
     rbind (req AttributeError (as_map (or_empty x))) (\<lambda>ea. rbind (req AttributeError (as_map (or_empty y))) (\<lambda>eb.
     Inr (List.map_filter (\<lambda>f.
       if py_eq (mget ea f) (mget eb f) then None
       else Some (case (as_map (mget ea f), as_map (mget eb f)) of
           (Some p, Some q) \<Rightarrow> if f = u ''checkEnvironment''
             then u ''execution changed: checkEnvironment (''
               @ join (u '', '') (filter (\<lambda>k. \<not> py_eq (mget p k) (mget q k)) (field_keys p q)) @ u '')''
             else u ''execution changed: '' @ f
         | _ \<Rightarrow> u ''execution changed: '' @ f)) (field_keys ea eb))))))"

definition differences :: "pyval \<Rightarrow> pyval \<Rightarrow> pystr list res" where
  "differences a b =
     rbind (pget a (u ''policy'') PNone) (\<lambda>p. rbind (pget (or_empty p) (u ''canonical'') PNone) (\<lambda>x.
     rbind (pget b (u ''policy'') PNone) (\<lambda>q. rbind (pget (or_empty q) (u ''canonical'') PNone) (\<lambda>y.
     rbind (if py_eq x y then Inr [] else policy_differences a b) (\<lambda>policy.
     rbind (verifier_differences a b) (\<lambda>verifiers.
     rbind (execution_differences a b) (\<lambda>execution.
     Inr (policy @ verifiers @ execution))))))))"

end
