(* ===== verification/Validation_Laws.thy ===== *)
theory Validation_Laws
  imports Validation Store_Laws
begin

text \<open>
  What \<open>Validation\<close> promises: a context that was built verifies; the requirement hash binds the checks
  in their order; a content root binds the content entries of every root; and the evidence that
  speaks for a world comes from one evaluation.
\<close>

section \<open>Digests bind values\<close>

lemma dget_norm_items:
  assumes "canonicalizable (PDict kvs)"
  shows "dget (map (\<lambda>(k, v). (PStr (key_of k), norm v)) (items kvs)) (PStr s) = map_option norm (dget kvs (PStr s))"
proof -
  have d: "distinct (map fst kvs)" and k: "\<forall>(k, v) \<in> set kvs. \<exists>s. k = PStr s"
    using assms unfolding canonicalizable_PDict by auto
  have m: "map (\<lambda>(k, v). (PStr (key_of k), norm v)) (items kvs) = map (\<lambda>(k, v). (k, norm v)) (items kvs)"
    using k by (auto simp: key_of_def)
  have "distinct (map fst (items kvs))"
  proof -
    have "mset (map fst (items kvs)) = mset (map fst kvs)" by (simp add: items_def)
    then show ?thesis using d by (metis mset_eq_imp_distinct_iff)
  qed
  then have "map_of (items kvs) = map_of kvs"
    using d by (intro map_of_inject_set [THEN iffD2]) simp_all
  then show ?thesis unfolding m by (simp add: map_of_map)
qed

lemma norm_PDict_get:
  assumes "canonicalizable (PDict a)" "canonicalizable (PDict b)" "norm (PDict a) = norm (PDict b)"
  shows "map_option norm (dget a (PStr s)) = map_option norm (dget b (PStr s))"
  using assms(3) unfolding norm_PDict pyval.inject
  by (metis dget_norm_items [OF assms(1)] dget_norm_items [OF assms(2)])

lemma norm_get_Some:
  assumes "norm (PDict a) = norm (PDict b)" "canonicalizable (PDict a)" "canonicalizable (PDict b)"
    and "dget a (PStr s) = Some x" "dget b (PStr s) = Some y"
  shows "norm x = norm y"
  using norm_PDict_get [OF assms(2,3,1), of s] assms(4,5) by simp

lemma canonicalizable_get:
  "canonicalizable (PDict a) \<Longrightarrow> dget a k = Some x \<Longrightarrow> canonicalizable x"
  unfolding canonicalizable_PDict using map_of_SomeD [of a k x] by blast

lemma digest_binds:
  assumes "digest_of hb v = Inr h" "digest_of hb w = Inr h" "dict_ok v" "dict_ok w"
  shows "canonicalizable v \<and> canonicalizable w \<and> (norm v = norm w \<or> (\<exists>x y. x \<noteq> y \<and> hb x = hb y))"
proof -
  obtain b c where b: "canonical_bytes v = Inr b" and c: "canonical_bytes w = Inr c"
    and hb: "hash_id (hb (''worldline-validation-v1'' @ b)) = Inr h"
    and hc: "hash_id (hb (''worldline-validation-v1'' @ c)) = Inr h"
    using assms(1,2) by (auto simp: digest_of_def rbind_Inr_iff)
  have v: "canonicalizable v" "canonicalizable w"
    using b c assms(3,4) by (auto simp: canonicalizable_def canonical_bytes_def rbind_Inr_iff)
  have "hb (''worldline-validation-v1'' @ b) = hb (''worldline-validation-v1'' @ c)"
    using hb hc by (rule hash_id_inj)
  then have "b = c \<or> (\<exists>x y. x \<noteq> y \<and> hb x = hb y)" by (metis same_append_eq)
  then show ?thesis using b c v canonical_bytes_inj [OF v] by auto
qed

section \<open>The requirement\<close>

lemma without_dset: "k \<in> set names \<Longrightarrow> without names (dset (PStr k) x kvs) = without names kvs"
  by (induction kvs) (auto simp: without_def split: if_split_asm)

lemma mget_dset: "mget (dset (PStr k) x kvs) j = (if j = k then x else mget kvs j)"
  by (simp add: mget_def dget_dset)

lemma requirement_hash_dset:
  "requirement_hash hb (dset (PStr (u ''requirementHash'')) x kvs) = requirement_hash hb kvs"
  by (simp add: requirement_hash_def hashed_requirement_def mget_dset without_dset)

lemma requirements_Inr:
  assumes "requirements hb p rs sources exe = Inr r"
  shows "\<exists>primary e h. exe = Inr e
    \<and> r = requirement_fields hb p rs sources e primary @ [(PStr (u ''requirementHash''), PStr h)]
    \<and> requirement_hash hb r = Inr h \<and> mget r (u ''requirementHash'') = PStr h"
proof -
  obtain primary e h where e: "exe = Inr e"
    "requirement_hash hb (requirement_fields hb p rs sources e primary) = Inr h"
    "r = dset (PStr (u ''requirementHash'')) (PStr h) (requirement_fields hb p rs sources e primary)"
    using assms by (auto simp: requirements_def rbind_Inr_iff Let_def)
  moreover have "r = requirement_fields hb p rs sources e primary @ [(PStr (u ''requirementHash''), PStr h)]"
    unfolding e(3) by (rule dset_fresh) (simp add: requirement_fields_def)
  ultimately show ?thesis by (metis requirement_hash_dset mget_dset)
qed

definition policy_value :: "project_config \<Rightarrow> source_tree \<Rightarrow> (pyval \<times> pyval) list" where
  "policy_value p primary = map (\<lambda>(k, v). (PStr k, v)) [(u ''canonical'', canonical_policy p),
     (u ''requiredChecks'', texts (sort (map ck_id (filter ck_required (pc_checks p)))))]"

definition hashed_fields ::
    "(bytes \<Rightarrow> bytes) \<Rightarrow> project_config \<Rightarrow> logical_root list \<Rightarrow> (pystr \<times> source_tree) list \<Rightarrow> pyval
       \<Rightarrow> source_tree \<Rightarrow> (pyval \<times> pyval) list" where
  "hashed_fields hb p rs sources e primary = map (\<lambda>(k, v). (PStr k, v)) [(u ''schemaVersion'', PInt 1),
     (u ''policy'', PDict (policy_value p primary)),
     (u ''verifiers'', PList (map verifier_value (resolve_verifiers hb (pc_checks p) rs sources))),
     (u ''execution'', e)]"

lemma hashed_requirement_fields:
  "hashed_requirement (requirement_fields hb p rs sources e primary)
     = Inr (PDict (hashed_fields hb p rs sources e primary))"
  by (simp add: hashed_requirement_def requirement_fields_def hashed_fields_def policy_value_def mget_def
      or_empty_def truthy_def dict_of_def without_def)

lemma dict_ok_texts [simp]: "dict_ok (texts xs)" "norm (texts xs) = texts xs"
  by (simp_all add: texts_def list_all_iff)

lemma dict_ok_check [simp]: "dict_ok (canonical_check c)"
  by (simp add: canonical_check_def opt_str_def split: option.split)

definition services_distinct :: "project_config \<Rightarrow> bool" where
  "services_distinct p \<longleftrightarrow> (\<forall>s \<in> set (pc_services p). distinct (map fst (sp_env s)))"

lemma dict_ok_service: "distinct (map fst (sp_env s)) \<Longrightarrow> dict_ok (canonical_service s)"
proof -
  assume d: "distinct (map fst (sp_env s))"
  have "mset (map fst (sort (sp_env s))) = mset (map fst (sp_env s))" by simp
  then have "distinct (map fst (sort (sp_env s)))" using d by (metis mset_eq_imp_distinct_iff)
  then have "distinct (map PStr (map fst (sort (sp_env s))))" by (simp add: distinct_map inj_on_def)
  then show ?thesis by (simp add: canonical_service_def list_all_iff case_prod_unfold comp_def)
qed

lemma dict_ok_policy: "services_distinct p \<Longrightarrow> dict_ok (canonical_policy p)"
  by (auto simp: canonical_policy_def canonical_checks_def services_distinct_def list_all_iff dict_ok_service)

lemma dict_ok_hashed:
  "services_distinct p \<Longrightarrow> dict_ok e \<Longrightarrow> dict_ok (PDict (hashed_fields hb p rs sources e primary))"
  by (simp add: hashed_fields_def policy_value_def dict_ok_policy list_all_iff verifier_value_def)

lemma hashed_get:
  "dget (hashed_fields hb p rs sources e primary) (PStr (u ''policy'')) = Some (PDict (policy_value p primary))"
  "dget (policy_value p primary) (PStr (u ''canonical'')) = Some (canonical_policy p)"
  by (simp_all add: hashed_fields_def policy_value_def)

text \<open>What the canonical form keeps of a check, in the order the checks run.\<close>

definition check_meaning :: "check_spec \<Rightarrow> pystr \<times> pystr \<times> pystr list \<times> pystr option \<times> bool \<times> pystr \<times> pystr option
    \<times> pystr list \<times> pystr list \<times> pystr" where
  "check_meaning c = (ck_id c, ck_kind c, ck_argv c, ck_cwd c, ck_required c, ck_format c, ck_result c,
     sort (ck_covers c), sort (ck_verifiers c), ck_profile c)"

lemma texts_inj [simp]: "texts a = texts b \<longleftrightarrow> a = b"
  by (simp add: texts_def inj_def inj_map_eq_map)

lemma canonical_check_get:
  "\<exists>kvs. canonical_check c = PDict kvs \<and> dget kvs (PStr (u ''id'')) = Some (PStr (ck_id c))
    \<and> dget kvs (PStr (u ''kind'')) = Some (PStr (ck_kind c)) \<and> dget kvs (PStr (u ''argv'')) = Some (texts (ck_argv c))
    \<and> dget kvs (PStr (u ''cwd'')) = Some (opt_str (ck_cwd c))
    \<and> dget kvs (PStr (u ''required'')) = Some (PBool (ck_required c))
    \<and> dget kvs (PStr (u ''format'')) = Some (PStr (ck_format c))
    \<and> dget kvs (PStr (u ''result'')) = Some (opt_str (ck_result c))
    \<and> dget kvs (PStr (u ''covers'')) = Some (texts (sort (ck_covers c)))
    \<and> dget kvs (PStr (u ''verifiers'')) = Some (texts (sort (ck_verifiers c)))
    \<and> dget kvs (PStr (u ''profile'')) = Some (PStr (ck_profile c))"
  by (simp add: canonical_check_def)

lemma norm_opt_str [simp]: "norm (opt_str x) = opt_str x"
  by (simp add: opt_str_def split: option.split)

lemma canonical_check_binds:
  assumes "norm (canonical_check c) = norm (canonical_check d)"
    and "canonicalizable (canonical_check c)" "canonicalizable (canonical_check d)"
  shows "check_meaning c = check_meaning d"
proof -
  obtain a where a: "canonical_check c = PDict a" "dget a (PStr (u ''id'')) = Some (PStr (ck_id c))"
    "dget a (PStr (u ''kind'')) = Some (PStr (ck_kind c))" "dget a (PStr (u ''argv'')) = Some (texts (ck_argv c))"
    "dget a (PStr (u ''cwd'')) = Some (opt_str (ck_cwd c))"
    "dget a (PStr (u ''required'')) = Some (PBool (ck_required c))"
    "dget a (PStr (u ''format'')) = Some (PStr (ck_format c))" "dget a (PStr (u ''result'')) = Some (opt_str (ck_result c))"
    "dget a (PStr (u ''covers'')) = Some (texts (sort (ck_covers c)))"
    "dget a (PStr (u ''verifiers'')) = Some (texts (sort (ck_verifiers c)))"
    "dget a (PStr (u ''profile'')) = Some (PStr (ck_profile c))"
    using canonical_check_get [of c] by (elim exE conjE) (rule that)
  obtain b where b: "canonical_check d = PDict b" "dget b (PStr (u ''id'')) = Some (PStr (ck_id d))"
    "dget b (PStr (u ''kind'')) = Some (PStr (ck_kind d))" "dget b (PStr (u ''argv'')) = Some (texts (ck_argv d))"
    "dget b (PStr (u ''cwd'')) = Some (opt_str (ck_cwd d))"
    "dget b (PStr (u ''required'')) = Some (PBool (ck_required d))"
    "dget b (PStr (u ''format'')) = Some (PStr (ck_format d))" "dget b (PStr (u ''result'')) = Some (opt_str (ck_result d))"
    "dget b (PStr (u ''covers'')) = Some (texts (sort (ck_covers d)))"
    "dget b (PStr (u ''verifiers'')) = Some (texts (sort (ck_verifiers d)))"
    "dget b (PStr (u ''profile'')) = Some (PStr (ck_profile d))"
    using canonical_check_get [of d] by (elim exE conjE) (rule that)
  note g = norm_get_Some [OF assms(1) [unfolded a(1) b(1)] assms(2) [unfolded a(1)] assms(3) [unfolded b(1)]]
  show ?thesis
    using g [OF a(2) b(2)] g [OF a(3) b(3)] g [OF a(4) b(4)] g [OF a(5) b(5)] g [OF a(6) b(6)] g [OF a(7) b(7)]
      g [OF a(8) b(8)] g [OF a(9) b(9)] g [OF a(10) b(10)] g [OF a(11) b(11)]
    by (simp add: check_meaning_def)
qed

lemma canonical_policy_get:
  "\<exists>kvs. canonical_policy p = PDict kvs
    \<and> dget kvs (PStr (u ''checks'')) = Some (PList (map canonical_check (pc_checks p)))
    \<and> dget kvs (PStr (u ''protected'')) = Some (texts (sort (pc_protected p)))"
  by (simp add: canonical_policy_def canonical_checks_def)

lemma canonical_policy_binds:
  assumes "norm (canonical_policy p) = norm (canonical_policy q)"
    and "canonicalizable (canonical_policy p)" "canonicalizable (canonical_policy q)"
  shows "map check_meaning (pc_checks p) = map check_meaning (pc_checks q)
    \<and> mset (pc_protected p) = mset (pc_protected q)"
proof -
  obtain a where a: "canonical_policy p = PDict a"
    "dget a (PStr (u ''checks'')) = Some (PList (map canonical_check (pc_checks p)))"
    "dget a (PStr (u ''protected'')) = Some (texts (sort (pc_protected p)))"
    using canonical_policy_get [of p] by (elim exE conjE) (rule that)
  obtain b where b: "canonical_policy q = PDict b"
    "dget b (PStr (u ''checks'')) = Some (PList (map canonical_check (pc_checks q)))"
    "dget b (PStr (u ''protected'')) = Some (texts (sort (pc_protected q)))"
    using canonical_policy_get [of q] by (elim exE conjE) (rule that)
  note g = norm_get_Some [OF assms(1) [unfolded a(1) b(1)] assms(2) [unfolded a(1)] assms(3) [unfolded b(1)]]
  have c: "canonicalizable (PList (map canonical_check (pc_checks p)))"
    "canonicalizable (PList (map canonical_check (pc_checks q)))"
    using canonicalizable_get assms(2,3) a b by metis+
  have l: "map norm (map canonical_check (pc_checks p)) = map norm (map canonical_check (pc_checks q))"
    using g [OF a(2) b(2)] by simp
  have "list_all2 (\<lambda>c d. check_meaning c = check_meaning d) (pc_checks p) (pc_checks q)"
  proof (rule list_all2_all_nthI)
    show n: "length (pc_checks p) = length (pc_checks q)" using l by (metis length_map)
    fix i assume i: "i < length (pc_checks p)"
    have "norm (canonical_check (pc_checks p ! i)) = norm (canonical_check (pc_checks q ! i))"
      using l i n by (metis length_map nth_map)
    then show "check_meaning (pc_checks p ! i) = check_meaning (pc_checks q ! i)"
      using c i n by (intro canonical_check_binds) (auto simp: canonicalizable_PList)
  qed
  then have "map check_meaning (pc_checks p) = map check_meaning (pc_checks q)"
    by (simp add: list_all2_map1 list_all2_map2 list.rel_eq [symmetric])
  moreover have "sort (pc_protected p) = sort (pc_protected q)" using g [OF a(3) b(3)] by simp
  ultimately show ?thesis by (metis mset_sort)
qed

section \<open>Building and verifying\<close>

lemma context_fields_get:
  assumes "context_fields c = Inr v"
  shows "mget v (u ''schemaVersion'') = PInt 1 \<and> mget v (u ''requirement'') = PDict (cx_requirement c)
    \<and> mget v (u ''candidate'') = cx_candidate c \<and> Inr (mget v (u ''requirementHash'')) = pitem (PDict (cx_requirement c)) (u ''requirementHash'')
    \<and> \<not> mhas v (u ''contextHash'')"
  using assms
  by (auto simp: context_fields_def rbind_Inr_iff mget_def mhas_def split: option.splits)

lemma without_fresh: "\<not> mhas v k \<Longrightarrow> without [k] v = v"
  by (force simp: without_def mhas_def filter_id_conv)

lemma pitem_PDict: "mhas kvs k \<Longrightarrow> pitem (PDict kvs) k = Inr (mget kvs k)"
  by (auto simp: pitem_def mget_def mhas_def req_def map_of_eq_None_iff split: option.splits)

lemma built_verifies:
  assumes "build_context hb c = Inr ctx"
    and "requirement_hash hb (cx_requirement c) = Inr h" "mget (cx_requirement c) (u ''requirementHash'') = PStr h"
    and "cx_candidate c = PDict cand" "mget cand (u ''instanceId'') = PStr i"
  shows "verify_context hb (PDict ctx) (Some i) = Inr (PDict ctx)"
proof -
  obtain v d where v: "context_fields c = Inr v" and d: "digest_of hb (PDict (without [u ''contextHash''] v)) = Inr d"
    and ctx: "ctx = dset (PStr (u ''contextHash'')) (PStr d) v"
    using assms(1) by (auto simp: build_context_def rbind_Inr_iff)
  note g = context_fields_get [OF v]
  have rh: "mhas (cx_requirement c) (u ''requirementHash'')"
    using assms(3) by (force simp: mget_def mhas_def split: option.splits dest: map_of_SomeD)
  have ne: "cx_requirement c \<noteq> []" using rh by (auto simp: mhas_def)
  have cne: "cand \<noteq> []" using assms(5) by (auto simp: mget_def)
  have w: "without [u ''contextHash''] ctx = without [u ''contextHash''] v"
    unfolding ctx by (simp add: without_dset)
  have m: "mget ctx k = (if k = u ''contextHash'' then PStr d else mget v k)" for k
    unfolding ctx by (simp add: mget_dset)
  have r: "mget v (u ''requirementHash'') = PStr h"
    using g pitem_PDict [OF rh] assms(3) by simp
  show ?thesis
    using d g r ne cne assms(2,3,4,5)
    by (simp add: verify_context_def w m eq_int_def or_empty_def truthy_def pget_def mget_def [symmetric]
        split del: option.split)
qed

section \<open>Which evaluation speaks\<close>

definition speaks :: "pystr option \<Rightarrow> pyval \<Rightarrow> bool" where
  "speaks content_id entry \<longleftrightarrow> is_map entry \<and> is_map (mget (map_or_empty entry) (u ''context''))
     \<and> mget (map_or_empty entry) (u ''outcome'') = PStr (u ''PASS'')
     \<and> mget (map_or_empty entry) (u ''worldContentId'') = opt_str content_id"

lemma spoken_by_cases:
  assumes "spoken_by content_id entries = Inr r"
  shows "(r = None \<longrightarrow> list_all (\<lambda>e. \<not> speaks content_id e) entries)
    \<and> (\<forall>ctx source records. r = Some (ctx, source, records) \<longrightarrow>
        (\<exists>newer entry older rs. entries = newer @ entry # older \<and> list_all (\<lambda>e. \<not> speaks content_id e) newer
          \<and> speaks content_id entry \<and> ctx = mget (map_or_empty entry) (u ''context'')
          \<and> iter_or_empty (mget (map_or_empty entry) (u ''results'')) = Inr rs \<and> records = mappings rs
          \<and> source = u ''revalidation:'' @ py_str (mget (map_or_empty entry) (u ''validationId''))))"
  using assms
proof (induction entries)
  case (Cons e es)
  show ?case
  proof (cases "speaks content_id e")
    case True
    then obtain rs where rs: "iter_or_empty (mget (map_or_empty e) (u ''results'')) = Inr rs"
      "r = Some (mget (map_or_empty e) (u ''context''),
          u ''revalidation:'' @ py_str (mget (map_or_empty e) (u ''validationId'')), mappings rs)"
      using Cons.prems by (auto simp: speaks_def Let_def rbind_Inr_iff)
    then show ?thesis using True by (intro conjI allI impI exI [of _ "[]"] exI [of _ e] exI [of _ es] exI [of _ rs]) auto
  next
    case False
    then have n: "spoken_by content_id es = Inr r"
      using Cons.prems by (simp add: speaks_def Let_def split: if_split_asm)
    show ?thesis
    proof (cases r)
      case None
      then show ?thesis using Cons.IH [OF n] False by simp
    next
      case (Some x)
      obtain ctx source records where x: "x = (ctx, source, records)" by (metis prod_cases3)
      obtain newer entry older rs where k: "es = newer @ entry # older"
        "list_all (\<lambda>e. \<not> speaks content_id e) newer" "speaks content_id entry"
        "ctx = mget (map_or_empty entry) (u ''context'')"
        "iter_or_empty (mget (map_or_empty entry) (u ''results'')) = Inr rs" "records = mappings rs"
        "source = u ''revalidation:'' @ py_str (mget (map_or_empty entry) (u ''validationId''))"
        using Cons.IH [OF n] Some x by blast
      have "e # es = (e # newer) @ entry # older" "list_all (\<lambda>e. \<not> speaks content_id e) (e # newer)"
        using k False by simp_all
      then show ?thesis using k Some x by (metis option.distinct(1) option.inject prod.inject)
    qed
  qed
qed simp

section \<open>Content roots\<close>

definition content_view :: "(pystr \<times> captured) list \<Rightarrow> (pystr \<times> pyval list) list res" where
  "content_view manifests =
     rmap (\<lambda>(k, m). rbind (content_entries m) (\<lambda>es. Inr (k, map norm es))) (sort_key fst manifests)"

section \<open>Properties\<close>

text \<open>
  C22. What finalization records, promotion can verify: a context built over a requirement that
  \<open>requirements\<close> produced, for a candidate with an instance identifier, passes its own verification
  for that candidate and is returned unchanged.
\<close>
theorem built_context_verifies:
  assumes "requirements hb p rs sources exe = Inr (cx_requirement c)"
    and "build_context hb c = Inr ctx"
    and "cx_candidate c = PDict cand" "mget cand (u ''instanceId'') = PStr i"
  shows "verify_context hb (PDict ctx) (Some i) = Inr (PDict ctx)"
proof -
  obtain h where "requirement_hash hb (cx_requirement c) = Inr h"
    "mget (cx_requirement c) (u ''requirementHash'') = PStr h"
    using requirements_Inr [OF assms(1)] by blast
  then show ?thesis by (rule built_verifies [OF assms(2) _ _ assms(3,4)])
qed


text \<open>
  C24. The evidence that speaks for a world is one evaluation: when it is not the finalization's, the
  context and the check records are those of a single recorded revalidation of this world, which
  passed for exactly the world's current content, and no newer revalidation did.
\<close>
theorem effective_evidence_coherent:
  assumes "effective_evidence s w = Inr (Some ctx, source, records)" and "source \<noteq> u ''finalization''"
  shows "\<exists>history newer entry older rs.
    fst (get_meta (u ''validation:'' @ w_instance_id w) (PList []) s) = Inr (PList history)
    \<and> rev history = newer @ entry # older
    \<and> speaks (w_content_id w) entry \<and> list_all (\<lambda>e. \<not> speaks (w_content_id w) e) newer
    \<and> ctx = mget (map_or_empty entry) (u ''context'')
    \<and> iter_or_empty (mget (map_or_empty entry) (u ''results'')) = Inr rs \<and> records = mappings rs"
proof -
  obtain h entries spoken where h: "fst (get_meta (u ''validation:'' @ w_instance_id w) (PList []) s) = Inr h"
    and e: "(if truthy h then case h of PList xs \<Rightarrow> Inr xs | _ \<Rightarrow> Inl TypeError else Inr []) = Inr entries"
    and sp: "spoken_by (w_content_id w) (rev entries) = Inr spoken"
    and r: "(case spoken of
       Some (ctx, source, records) \<Rightarrow> Inr (Some ctx, source, records)
     | None \<Rightarrow>
         let evidence = map_or_empty (w_evidence w); ctx = mget evidence (u ''validationContext'') in
         rbind (iter_or_empty (mget evidence (u ''checks''))) (\<lambda>checks.
         Inr (if is_map ctx then Some ctx else None, u ''finalization'', mappings checks)))
       = Inr (Some ctx, source, records)"
    using assms(1) unfolding effective_evidence_def rbind_Inr_iff by (elim exE conjE) (rule that)
  have spoken: "spoken = Some (ctx, source, records)"
    using r assms(2) by (auto simp: Let_def rbind_Inr_iff split: option.splits)
  obtain newer entry older rs where k: "rev entries = newer @ entry # older"
    "list_all (\<lambda>e. \<not> speaks (w_content_id w) e) newer" "speaks (w_content_id w) entry"
    "ctx = mget (map_or_empty entry) (u ''context'')"
    "iter_or_empty (mget (map_or_empty entry) (u ''results'')) = Inr rs" "records = mappings rs"
    using spoken_by_cases [OF sp] spoken by blast
  have "entries \<noteq> []" using k(1) by auto
  then have "h = PList entries" using e by (cases h) (auto split: if_splits)
  then show ?thesis using h k by blast
qed

section \<open>Witnesses\<close>

definition sample_hash_id :: pystr where
  "sample_hash_id = u ''sha256:'' @ hex_text (replicate 32 (CHR 0x41))"

lemma digest_constant: "validate v = Inr () \<Longrightarrow> digest_of constant_hash v = Inr sample_hash_id"
  by (simp add: digest_of_def canonical_bytes_def hash_id_def constant_hash_def sample_hash_id_def)

definition sample_config :: project_config where
  "sample_config = \<lparr>pc_generated = [], pc_checks = [], pc_services = [], pc_protected = [],
     pc_source_sha256 = None\<rparr>"

definition sample_roots :: "logical_root list" where
  "sample_roots = [\<lparr>lr_key = u ''k'', lr_path = u ''/r'', lr_kind = u ''repo'', lr_primary = True\<rparr>]"

definition sample_tree :: source_tree where
  "sample_tree = \<lparr>tr_file = (\<lambda>_. None), tr_top = (\<lambda>_. None)\<rparr>"

definition sample_req :: "(pyval \<times> pyval) list" where
  "sample_req = requirement_fields constant_hash sample_config sample_roots [(u ''k'', sample_tree)] (PDict []) sample_tree
     @ [(PStr (u ''requirementHash''), PStr sample_hash_id)]"

lemma sample_hashed:
  "validate (PDict (hashed_fields constant_hash sample_config sample_roots [(u ''k'', sample_tree)] (PDict []) sample_tree))
     = Inr ()"
  by (simp add: hashed_fields_def policy_value_def canonical_policy_def canonical_checks_def sample_config_def
      texts_def sample_roots_def resolve_verifiers_def)

lemma sample_requirements:
  "requirements constant_hash sample_config sample_roots [(u ''k'', sample_tree)] (Inr (PDict [])) = Inr sample_req"
proof -
  have p: "primary_source sample_roots [(u ''k'', sample_tree)] = Inr sample_tree"
    by (simp add: primary_source_def sample_roots_def)
  let ?f = "requirement_fields constant_hash sample_config sample_roots [(u ''k'', sample_tree)] (PDict []) sample_tree"
  have h: "requirement_hash constant_hash ?f = Inr sample_hash_id"
    by (simp add: requirement_hash_def hashed_requirement_fields digest_constant [OF sample_hashed])
  have "dset (PStr (u ''requirementHash'')) (PStr sample_hash_id) ?f = sample_req"
    unfolding sample_req_def by (rule dset_fresh) (simp add: requirement_fields_def)
  then show ?thesis using p h by (simp add: requirements_def)
qed

definition sample_input :: context_input where
  "sample_input = \<lparr>cx_requirement = sample_req, cx_candidate = pdict [(u ''instanceId'', PStr (u ''w''))],
     cx_prime_at_fork = PDict [], cx_roots = sample_roots, cx_results = [], cx_candidate_verifiers = [],
     cx_adapter = PDict [], cx_evaluated_at = u ''t'', cx_source = u ''finalization'', cx_examined = None\<rparr>"

lemma encodable_sample_id [simp]: "encodable sample_hash_id"
  by (simp add: sample_hash_id_def encodable_def) (auto simp: hex_text_def u_def hex_digit_def surrogate_def)

lemma sample_build: "\<exists>ctx. build_context constant_hash sample_input = Inr ctx"
proof -
  have v: "mget_or sample_req (u ''verifiers'') (PList []) = PList []"
    by (simp add: mget_or_def sample_req_def requirement_fields_def resolve_verifiers_def sample_config_def sample_roots_def)
  have h: "pitem (PDict sample_req) (u ''requirementHash'') = Inr (PStr sample_hash_id)"
    by (simp add: pitem_def sample_req_def requirement_fields_def)
  have req: "validate (PDict sample_req) = Inr ()"
    by (simp add: sample_req_def requirement_fields_def canonical_policy_def canonical_checks_def sample_config_def
      texts_def sample_roots_def resolve_verifiers_def policy_warnings_def opt_str_def)
  obtain fields where f: "context_fields sample_input = Inr fields"
    by (simp add: context_fields_def sample_input_def v piter_def verifier_items_def h dbuild_def)
  have "validate (PDict fields) = Inr ()"
    using f req by (auto simp: context_fields_def sample_input_def v piter_def verifier_items_def h dbuild_def
      sample_roots_def root_value_def modified_verifiers_def texts_def)
  moreover have "without [u ''contextHash''] fields = fields"
    using context_fields_get [OF f] without_fresh by blast
  ultimately show ?thesis using f by (simp add: build_context_def digest_constant)
qed

theorem built_context_verifies_witness:
  "\<exists>ctx. build_context constant_hash sample_input = Inr ctx
    \<and> verify_context constant_hash (PDict ctx) (Some (u ''w'')) = Inr (PDict ctx)"
proof -
  obtain ctx where c: "build_context constant_hash sample_input = Inr ctx" using sample_build by blast
  have r: "requirements constant_hash sample_config sample_roots [(u ''k'', sample_tree)] (Inr (PDict []))
      = Inr (cx_requirement sample_input)"
    by (simp add: sample_requirements sample_input_def)
  have d: "cx_candidate sample_input = PDict [(PStr (u ''instanceId''), PStr (u ''w''))]"
    "mget [(PStr (u ''instanceId''), PStr (u ''w''))] (u ''instanceId'') = PStr (u ''w'')"
    by (simp_all add: sample_input_def mget_def)
  show ?thesis using c built_context_verifies [OF r c d] by blast
qed


definition sample_revalidation :: pyval where
  "sample_revalidation = pdict [(u ''context'', PDict []), (u ''outcome'', PStr (u ''PASS'')),
     (u ''results'', PList []), (u ''validationId'', PStr (u ''v1'')), (u ''worldContentId'', PNone)]"

definition sample_history_store :: store where
  "sample_history_store = empty_store\<lparr>st_meta :=
     [(u ''validation:i'', utf8_encode (dumps (PList [sample_revalidation])))]\<rparr>"

lemma sample_speaks:
  "effective_evidence sample_history_store sample_world = Inr (Some (PDict []), u ''revalidation:v1'', [])"
proof -
  have c: "canonicalizable (PList [sample_revalidation])"
    by (simp add: canonicalizable_def sample_revalidation_def)
  have n: "norm (PList [sample_revalidation]) = PList [sample_revalidation]"
    by (simp add: sample_revalidation_def norm.simps(2) key_of_def) (simp add: u_def)
  have l: "json_load (Some (utf8_encode (dumps (PList [sample_revalidation])))) (PList []) = Inr (PList [sample_revalidation])"
    unfolding json_load_def option.case utf8_roundtrip [OF encodable_dumps [OF c]] req_def option.case rbind_simps loads_dumps [OF c] n by (rule refl)
  have k: "u ''validation:'' @ w_instance_id sample_world = u ''validation:i''"
    by (simp add: sample_world_def u_def)
  have w: "w_content_id sample_world = None" by (simp add: sample_world_def)
  have "fst (get_meta (u ''validation:i'') (PList []) sample_history_store) = Inr (PList [sample_revalidation])"
    by (simp add: get_meta_def run_gets sample_history_store_def l lift_def del: dumps.simps)
  moreover have "u ''revalidation:'' @ u ''v1'' = u ''revalidation:v1''" by (simp add: u_def)
  ultimately show ?thesis
    by (simp add: effective_evidence_def k w truthy_def Let_def sample_revalidation_def is_map_def mget_def
        opt_str_def iter_or_empty_def mappings_def)
qed

theorem effective_evidence_coherent_witness:
  "\<exists>history newer entry older.
    fst (get_meta (u ''validation:'' @ w_instance_id sample_world) (PList []) sample_history_store) = Inr (PList history)
    \<and> rev history = newer @ entry # older \<and> speaks (w_content_id sample_world) entry"
  using effective_evidence_coherent [OF sample_speaks] by (auto simp: u_def)

end
