(* ===== verification/Transaction.thy ===== *)
theory Transaction
  imports Validation Store_Laws
begin

text \<open>
  \<open>runtime/worldline/transaction.py\<close>, the durable side of a transaction: the prepared record and the
  generation markers as files of the store, the record's row, its lifecycle steps and what an operator
  may do to it (abort, describe, list).

  A file is its bytes under its path. \<open>Path(a) / b\<close> of a normal path is \<open>below a b\<close>; \<open>te_real\<close> is
  \<open>os.path.realpath\<close>, \<open>None\<close> where it raises \<open>ValueError\<close>, and
  \<open>te_is_dir\<close> whether a path is a directory. A record is the decoded dictionary.
\<close>

section \<open>Files\<close>

record tx_env =
  te_transactions :: pystr
  te_data :: pystr
  te_live :: pystr
  te_real :: "pystr \<Rightarrow> pystr option"
  te_is_dir :: "pystr \<Rightarrow> bool"

type_synonym fields = "(pyval \<times> pyval) list"

definition below :: "pystr \<Rightarrow> pystr \<Rightarrow> pystr" where
  "below directory name = directory @ 47 # name"

definition MARKER :: pystr where
  "MARKER = u ''.worldline-generation.json''"

text \<open>
  \<open>json.loads(path.read_text(encoding="utf-8"))\<close> under \<open>except (OSError, JSONDecodeError)\<close>: bytes that
  are not UTF-8 are a \<open>UnicodeDecodeError\<close>, which is neither.
\<close>

definition read_document :: "exc \<Rightarrow> pystr \<Rightarrow> store \<Rightarrow> pyval res" where
  "read_document err path s =
     rbind (req err (dget (st_files s) path)) (\<lambda>data.
     rbind (req ValueError (utf8_decode data)) (\<lambda>text.
     req err (loads text)))"

definition write_file :: "pystr \<Rightarrow> bytes \<Rightarrow> unit sact" where
  "write_file path data = modify (\<lambda>s. s\<lparr>st_files := dset path data (st_files s)\<rparr>)"

definition inside :: "pystr \<Rightarrow> pystr \<Rightarrow> bool" where
  "inside directory path \<longleftrightarrow> prefixed path (directory @ [47])"

definition rmtree :: "pystr \<Rightarrow> unit sact" where
  "rmtree directory = modify (\<lambda>s. s\<lparr>st_files := filter (\<lambda>(p, _). \<not> inside directory p) (st_files s)\<rparr>)"

abbreviation ambiguous :: exc where
  "ambiguous \<equiv> WL ''RECOVERY_AMBIGUOUS''"

definition marker :: "pystr \<Rightarrow> store \<Rightarrow> pystr option res" where
  "marker directory s =
     (let path = below directory MARKER in
      if dget (st_files s) path = None then Inr None
      else rbind (read_document ambiguous path s) (\<lambda>value.
           rbind (pget value (u ''schemaVersion'') PNone) (\<lambda>version.
           rbind (pget value (u ''transactionId'') PNone) (\<lambda>i.
           case i of
             PStr t \<Rightarrow> rbind (ensure (eq_int version 1) ambiguous) (\<lambda>_. Inr (Some t))
           | _ \<Rightarrow> Inl ambiguous))))"

text \<open>\<open>renameat2(RENAME_EXCHANGE)\<close> of two directories: the files below the one are now below the other.\<close>

definition moved_path :: "pystr \<Rightarrow> pystr \<Rightarrow> pystr \<Rightarrow> pystr" where
  "moved_path a b path =
     (if inside a path then b @ drop (length a) path
      else if inside b path then a @ drop (length b) path
      else path)"

definition exchange_files :: "pystr \<Rightarrow> pystr \<Rightarrow> unit sact" where
  "exchange_files a b = modify (\<lambda>s. s\<lparr>st_files := map (\<lambda>(p, d). (moved_path a b p, d)) (st_files s)\<rparr>)"

section \<open>The prepared record\<close>

definition require_own :: "tx_env \<Rightarrow> pystr \<Rightarrow> pystr \<Rightarrow> unit res" where
  "require_own env path directory =
     (let own = (case (te_real env directory, te_real env path) of
            (Some d, Some p) \<Rightarrow> p = d \<or> d = [47] \<or> inside d p
          | _ \<Rightarrow> False)
      in ensure (prefixed path [47] \<and> own) (WL ''TRANSACTION_RECORD_FOREIGN''))"

abbreviation record_invalid :: exc where
  "record_invalid \<equiv> WL ''TRANSACTION_RECORD_INVALID''"

definition own_field :: "tx_env \<Rightarrow> pystr \<Rightarrow> fields \<Rightarrow> pystr \<Rightarrow> unit res" where
  "own_field env i r key =
     (if mget r key = PNone then Inr ()
      else require_own env (py_str (mget r key)) (below (te_data env) i))"

definition load_record :: "tx_env \<Rightarrow> pystr \<Rightarrow> store \<Rightarrow> fields res" where
  "load_record env i s =
     rbind (transaction_record i s) (\<lambda>(row, _).
     rbind (require_own env (tx_prepared_path row) (te_transactions env)) (\<lambda>_.
     rbind (read_document record_invalid (tx_prepared_path row) s) (\<lambda>value.
     rbind (req AttributeError (as_map value)) (\<lambda>r.
     rbind (ensure (eq_int (mget r (u ''schemaVersion'')) 1 \<and> mget r (u ''transactionId'') = PStr i)
       record_invalid) (\<lambda>_.
     rbind (let p = mget r (u ''preparedPath'') in
       require_own env (if truthy p then py_str p else []) (te_transactions env)) (\<lambda>_.
     rbind (own_field env i r (u ''stagingPayload'')) (\<lambda>_.
     rbind (own_field env i r (u ''preparedMapping'')) (\<lambda>_.
     rbind (ensure (mget r (u ''state'') = PStr (tx_state_name row)) record_invalid) (\<lambda>_.
     Inr r)))))))))"

section \<open>Lifecycle\<close>

definition TRANSACTION_TRANSITIONS :: "(pystr \<times> pystr list) list" where
  "TRANSACTION_TRANSITIONS =
     [(u ''PREPARED'', [u ''AUTHORIZED'', u ''DENIED'', u ''ABORTED'']),
      (u ''AUTHORIZED'', [u ''COMMITTED'', u ''ABORTED'']),
      (u ''DENIED'', [u ''ABORTED'']),
      (u ''COMMITTED'', []),
      (u ''ABORTED'', [])]"

text \<open>
  A transaction that ended without commit gives back what it staged, unless the live marker names it.
\<close>

definition reclaim :: "tx_env \<Rightarrow> fields \<Rightarrow> unit sact" where
  "reclaim env r =
     (let staging = mget r (u ''stagingPayload'') in
      if \<not> truthy staging then ret ()
      else sbind (gets (marker (te_live env))) (\<lambda>m. sbind (lift m) (\<lambda>live.
           if opt_str live = mget r (u ''transactionId'') then ret ()
           else case staging of PStr p \<Rightarrow> rmtree (dirname 47 p) | _ \<Rightarrow> raise TypeError)))"

text \<open>
  The steps of \<open>_set_state\<close>: the check of the transition, the record file, the row, the reclaim. The
  dictionary is updated in place there; here the updated record is the result.
\<close>

definition allowed_step :: "fields \<Rightarrow> pystr \<Rightarrow> unit res" where
  "allowed_step r target =
     rbind (text_item (PDict r) (u ''state'')) (\<lambda>source.
     rbind (transaction_transition_allowed source target) (\<lambda>kernel_allows.
     rbind (req KeyError (dget TRANSACTION_TRANSITIONS source)) (\<lambda>table.
     rbind (ensure (kernel_allows = (target \<in> set table)) (WL ''CORE_DISAGREEMENT'')) (\<lambda>_.
     ensure kernel_allows (WL ''INVALID_TRANSACTION_STATE'')))))"

definition stepped :: "fields \<Rightarrow> pystr \<Rightarrow> pyval option \<Rightarrow> fields" where
  "stepped r target error =
     dset (PStr (u ''error'')) (case error of None \<Rightarrow> PNone | Some e \<Rightarrow> e)
       (dset (PStr (u ''state'')) (PStr target) r)"

definition write_record :: "fields \<Rightarrow> unit sact" where
  "write_record r =
     sbind (lift (text_item (PDict r) (u ''preparedPath''))) (\<lambda>path.
     sbind (lift (canonical_bytes (PDict r))) (\<lambda>data.
     write_file path data))"

definition set_state ::
    "tx_env \<Rightarrow> pystr \<Rightarrow> fields \<Rightarrow> pystr \<Rightarrow> pyval option \<Rightarrow> bool \<Rightarrow> fields sact" where
  "set_state env now r target error committed =
     sbind (lift (allowed_step r target)) (\<lambda>_.
     let r' = stepped r target error in
     sbind (write_record r') (\<lambda>_.
     sbind (lift (text_item (PDict r') (u ''transactionId''))) (\<lambda>i.
     sbind (update_transaction now i target error committed) (\<lambda>_.
     sbind (if target \<in> {u ''DENIED'', u ''ABORTED''} then reclaim env r' else ret ()) (\<lambda>_.
     ret r')))))"

abbreviation coded :: "string \<Rightarrow> pyval option" where
  "coded code \<equiv> Some (pdict [(u ''code'', PStr (u code))])"

definition abort :: "tx_env \<Rightarrow> pystr \<Rightarrow> pystr \<Rightarrow> unit sact" where
  "abort env now i =
     sbind (gets (load_record env i)) (\<lambda>loaded. sbind (lift loaded) (\<lambda>r.
     sbind (sensure (mget r (u ''state'') \<in> {PStr (u ''PREPARED''), PStr (u ''AUTHORIZED''), PStr (u ''DENIED'')})
       (WL ''INVALID_TRANSACTION_STATE'')) (\<lambda>_.
     sbind (gets (marker (te_live env))) (\<lambda>m. sbind (lift m) (\<lambda>live.
     sbind (sensure (live \<noteq> Some i) (WL ''TRANSACTION_ALREADY_COMMITTED'')) (\<lambda>_.
     sbind (set_state env now r (u ''ABORTED'') (coded ''USER_ABORTED'') False) (\<lambda>_.
     ret ())))))))"

section \<open>Reports\<close>

definition described_fields :: "pystr list" where
  "described_fields = map u [''transactionId'', ''kind'', ''state'', ''decision'', ''candidateWorld'',
     ''candidateAlias'', ''candidateContent'', ''parentWorld'', ''parentContentExpected'', ''currentPrime'',
     ''currentPrimeContent'', ''beforeRoot'', ''baseRoot'', ''candidateRoot'', ''deltaHash'', ''delta'',
     ''stagedRoot'', ''rootSetHash'', ''conflicts'', ''contamination'', ''createdAt'', ''generated'',
     ''dependencyChanges'', ''error'']"

text \<open>
  A record that cannot be read is described by its row. \<open>exc.as_dict()\<close> is the code and reported text;
  the text is left out.
\<close>

definition describe :: "tx_env \<Rightarrow> pystr \<Rightarrow> store \<Rightarrow> pyval res" where
  "describe env i s =
     rbind (transaction_record i s) (\<lambda>(row, _).
     case load_record env i s of
       Inl (WL code) \<Rightarrow> Inr (pdict [(u ''transactionId'', PStr i), (u ''kind'', PStr (tx_kind row)),
           (u ''state'', PStr (tx_state_name row)), (u ''error'', pdict [(u ''code'', PStr (u code))]),
           (u ''recordReadable'', PBool False)])
     | Inl e \<Rightarrow> Inl e
     | Inr r \<Rightarrow> Inr (pdict (map (\<lambda>k. (k, mget r k)) described_fields
           @ [(u ''committedAt'', opt_str (tx_committed_at row)), (u ''recordReadable'', PBool True)])))"

text \<open>The error column of a row is canonical JSON; what cannot be decoded is reported as such.\<close>

definition reported_error :: "tx_row \<Rightarrow> pyval" where
  "reported_error row =
     (case tx_error row of
        None \<Rightarrow> PNone
      | Some data \<Rightarrow> (case Option.bind (utf8_decode data) loads of
          Some v \<Rightarrow> v | None \<Rightarrow> pdict [(u ''code'', PStr (u ''UNREADABLE_ERROR''))]))"

definition listed_alias :: "pystr \<Rightarrow> store \<Rightarrow> pystr option res" where
  "listed_alias candidate s =
     (case world_get candidate s of Inr w \<Rightarrow> Inr (Some (w_alias w)) | Inl (WL _) \<Rightarrow> Inr None | Inl e \<Rightarrow> Inl e)"

definition listing :: "pystr list \<Rightarrow> store \<Rightarrow> pyval list res" where
  "listing unrecoverable s =
     rmap (\<lambda>row. rbind (listed_alias (tx_candidate row) s) (\<lambda>alias.
       Inr (pdict [(u ''transactionId'', PStr (tx_id row)), (u ''kind'', PStr (tx_kind row)),
         (u ''state'', PStr (tx_state_name row)), (u ''candidateWorld'', PStr (tx_candidate row)),
         (u ''candidateAlias'', opt_str alias), (u ''createdAt'', PStr (tx_created_at row)),
         (u ''committedAt'', opt_str (tx_committed_at row)), (u ''error'', reported_error row),
         (u ''quarantined'', PBool (tx_id row \<in> set unrecoverable))])))
       (transactions_in_state (map u [''PREPARED'', ''AUTHORIZED'', ''DENIED'', ''COMMITTED'', ''ABORTED'']) s)"

section \<open>Lineage\<close>

text \<open>
  \<open>_is_ancestor\<close> walks the parent links from the descendant and stops at a world already seen. Each
  step looks a world up by what its child names as its parent.
\<close>

definition parents :: "store \<Rightarrow> pystr set" where
  "parents s = {p. \<exists>r \<in> set (st_worlds s). wr_parent_instance r = Some p}"

lemma finite_parents: "finite (parents s)"
proof -
  have "parents s \<subseteq> the ` wr_parent_instance ` set (st_worlds s)"
    unfolding parents_def by (force simp: image_iff)
  then show ?thesis by (rule finite_subset) simp
qed

lemma world_get_parent:
  assumes "world_get x s = Inr w" and "w_parent_instance w = Some p"
  shows "p \<in> parents s"
proof -
  from assms(1) obtain r v where r: "world_lookup x (st_worlds s) = Some r" and v: "world_from_row r = Inr v"
    and w: "w = v\<lparr>w_descendants := descendant_count (wr_instance_id r) s\<rparr>"
    unfolding world_get_def by (auto simp: res_iffs)
  have "r \<in> set (st_worlds s)"
    using r by (auto simp: world_lookup_def find_Some_iff split: option.splits)
  moreover have "w_parent_instance v = wr_parent_instance r"
    using v by (auto simp: world_from_row_def res_iffs)
  ultimately show ?thesis using assms(2) w by (auto simp: parents_def)
qed

function ancestor_walk :: "store \<Rightarrow> pystr \<Rightarrow> pystr \<Rightarrow> pystr list \<Rightarrow> bool res" where
  "ancestor_walk s ancestor current seen =
     (if current \<in> set seen then Inr False
      else if current = ancestor then Inr True
      else case world_get current s of
             Inl e \<Rightarrow> Inl e
           | Inr w \<Rightarrow> (case w_parent_instance w of
                 None \<Rightarrow> Inr False
               | Some p \<Rightarrow> ancestor_walk s ancestor p (current # seen)))"
  by pat_completeness auto
termination
proof (relation "measure (\<lambda>(s, a, c, seen). 2 * card (parents s - set seen) + (if c \<in> parents s then 0 else 1))",
       goal_cases)
  case (2 s a c seen w p)
  then have p: "p \<in> parents s" by (auto intro: world_get_parent)
  have "card (parents s - set (c # seen)) < card (parents s - set seen)" if "c \<in> parents s"
    using that 2(1) finite_parents by (intro psubset_card_mono) auto
  moreover have "card (parents s - set (c # seen)) = card (parents s - set seen)" if "c \<notin> parents s"
    using that by (metis Diff_insert0 list.simps(15) Diff_insert)
  ultimately show ?case using p by fastforce
qed simp

definition is_ancestor :: "pystr option \<Rightarrow> pystr \<Rightarrow> store \<Rightarrow> bool res" where
  "is_ancestor ancestor descendant s =
     (case ancestor of None \<Rightarrow> Inr False | Some a \<Rightarrow> ancestor_walk s a descendant [])"

definition LINEAGE_LIMIT :: int where
  "LINEAGE_LIMIT = 1000000"

text \<open>
  The walk of \<open>_checkpoint_witness\<close>, from a world to its parents: the child of the subject on the way
  and the content it recorded for its parent.
\<close>

lemma lineage_link_row:
  "lineage_link i s = Some l \<Longrightarrow> ln_instance l = i \<and> i \<in> wr_instance_id ` set (st_worlds s)"
  by (auto simp: lineage_link_def find_Some_iff)

function lineage_walk :: "store \<Rightarrow> pystr \<Rightarrow> pystr \<Rightarrow> pystr list \<Rightarrow> (pystr \<times> pystr) option" where
  "lineage_walk s subject i seen =
     (case lineage_link i s of
        None \<Rightarrow> None
      | Some l \<Rightarrow> (case ln_parent l of
          None \<Rightarrow> None
        | Some p \<Rightarrow>
            if i \<in> set seen \<or> LINEAGE_LIMIT \<le> int (length seen) then None
            else if p = subject then Some (i, ln_parent_content l)
            else lineage_walk s subject p (i # seen)))"
  by pat_completeness auto
termination
proof (relation "measure (\<lambda>(s, x, i, seen). card (wr_instance_id ` set (st_worlds s) - set seen))", goal_cases)
  case (2 s x i seen l p)
  then have "i \<in> wr_instance_id ` set (st_worlds s)" by (auto dest: lineage_link_row)
  with 2 have "card (wr_instance_id ` set (st_worlds s) - set (i # seen))
      < card (wr_instance_id ` set (st_worlds s) - set seen)"
    by (intro psubset_card_mono) auto
  then show ?case by simp
qed simp

declare ancestor_walk.simps [simp del] lineage_walk.simps [simp del]

record witness =
  ws_source :: pystr
  ws_expected :: pystr
  ws_witnessed :: "pystr option"

definition checkpoint_witness :: "world \<Rightarrow> witness option sact" where
  "checkpoint_witness subject =
     (case w_content_id subject of
        None \<Rightarrow> ret None
      | Some content \<Rightarrow>
          sbind prime (\<lambda>p. case p of
            None \<Rightarrow> ret None
          | Some pw \<Rightarrow>
              if w_instance_id pw = w_instance_id subject
              then sbind (get_meta (u ''primeContent'') PNone) (\<lambda>recorded.
                   ret (Some \<lparr>ws_source = u ''prime-register'', ws_expected = content,
                     ws_witnessed = (case recorded of PStr t \<Rightarrow> Some t | _ \<Rightarrow> None)\<rparr>))
              else gets (\<lambda>s. map_option (\<lambda>(child, recorded).
                     \<lparr>ws_source = u ''lineage:'' @ child, ws_expected = content, ws_witnessed = Some recorded\<rparr>)
                   (lineage_walk s (w_instance_id subject) (w_instance_id pw) []))))"

end
