(* ===== verification/Transaction_Laws.thy ===== *)
theory Transaction_Laws
  imports Transaction
begin

text \<open>
  Laws of the durable side of a transaction: the prepared record on disk and its row stay in agreement,
  the lifecycle is the kernel's, and the two walks over the parents of a world are reachability.
\<close>

section \<open>Decoded values\<close>

lemma dset_values: "list_all P (map snd d) \<Longrightarrow> P v \<Longrightarrow> list_all P (map snd (dset k v d))"
  by (induction k v d rule: dset.induct) auto

lemma dbuild_values: "list_all P (map snd kvs) \<Longrightarrow> list_all P (map snd (dbuild kvs))"
proof -
  have "list_all P (map snd d) \<Longrightarrow> list_all P (map snd (fold (\<lambda>(k, v). dset k v) kvs d))"
    if "list_all P (map snd kvs)" for d
    using that by (induction kvs arbitrary: d) (auto simp: dset_values)
  then show "list_all P (map snd kvs) \<Longrightarrow> list_all P (map snd (dbuild kvs))" by (simp add: dbuild_def)
qed

lemma dict_ok_PDict: "dict_ok (PDict kvs) \<longleftrightarrow> distinct (dkeys kvs) \<and> list_all dict_ok (map snd kvs)"
  by (auto simp: list_all_iff)

lemma dict_ok_dbuild: "list_all dict_ok (map snd kvs) \<Longrightarrow> dict_ok (PDict (dbuild kvs))"
  unfolding dict_ok_PDict by (simp add: distinct_dbuild dbuild_values)

lemma scalar_dict_ok: "rd_scalar s = Some (v, r) \<Longrightarrow> dict_ok v"
  by (auto simp: rd_scalar_def rd_number_def rd_tail_def Let_def constants_def find_Some_iff nth_Cons
      split: option.splits list.splits if_splits prod.splits nat.splits)

lemma rd_dict_ok:
  "(rd_value n s = Some (v, r) \<longrightarrow> dict_ok v)
   \<and> (rd_items n s = Some (xs, r) \<longrightarrow> list_all dict_ok xs)
   \<and> (rd_members n s = Some (kvs, r) \<longrightarrow> list_all dict_ok (map snd kvs))"
proof (induction n arbitrary: s v r xs kvs)
  case 0
  then show ?case by simp
next
  case (Suc n)
  then have V: "\<And>s v r. rd_value n s = Some (v, r) \<Longrightarrow> dict_ok v"
    and I: "\<And>s xs r. rd_items n s = Some (xs, r) \<Longrightarrow> list_all dict_ok xs"
    and M: "\<And>s kvs r. rd_members n s = Some (kvs, r) \<Longrightarrow> list_all dict_ok (map snd kvs)"
    by blast+
  have "rd_value (Suc n) s = Some (v, r) \<Longrightarrow> dict_ok v"
    using I M scalar_dict_ok dict_ok_dbuild
    by (auto split: list.splits if_splits option.splits simp del: dict_ok.simps(2)) auto
  moreover have "rd_items (Suc n) s = Some (xs, r) \<Longrightarrow> list_all dict_ok xs"
    using V I by (auto split: list.splits if_splits option.splits prod.splits)
  moreover have "rd_members (Suc n) s = Some (kvs, r) \<Longrightarrow> list_all dict_ok (map snd kvs)"
    using V M by (auto split: list.splits if_splits option.splits prod.splits)
  ultimately show ?case by blast
qed

lemma loads_dict_ok: "loads s = Some v \<Longrightarrow> dict_ok v"
  using rd_dict_ok by (fastforce simp: loads_def split: list.splits if_splits option.splits prod.splits)

section \<open>Files\<close>

lemma rstrip_append:
  assumes "a \<noteq> []" and "\<not> P (last a)"
  shows "rstrip_by P (a @ z) = a @ rstrip_by P z"
proof (cases "\<forall>x \<in> set z. P x")
  case True
  then have "dropWhile P (rev z) = []" by simp
  moreover have "dropWhile P (rev a) = rev a" using assms by (cases a rule: rev_cases) auto
  ultimately show ?thesis using True by (simp add: rstrip_by_def dropWhile_append)
next
  case False
  then obtain x where x: "x \<in> set (rev z)" "\<not> P x" by auto
  show ?thesis by (simp add: rstrip_by_def dropWhile_append1 [of x "rev z" P, OF x])
qed

lemma rstrip_Cons: "rstrip_by P (x # z) = [] \<or> (\<exists>w. rstrip_by P (x # z) = x # w)"
proof (cases "\<forall>y \<in> set z. P y")
  case True
  then show ?thesis by (simp add: rstrip_by_def dropWhile_append)
next
  case False
  then obtain y where y: "y \<in> set (rev z)" "\<not> P y" by auto
  show ?thesis by (simp add: rstrip_by_def dropWhile_append1 [of y "rev z" P, OF y])
qed

lemma inside_iff: "inside d p \<longleftrightarrow> (\<exists>rest. p = d @ 47 # rest)"
proof
  assume "inside d p"
  then have "p = (d @ [47]) @ drop (length (d @ [47])) p"
    unfolding inside_def prefixed_def by (metis append_take_drop_id)
  then show "\<exists>rest. p = d @ 47 # rest" by auto
qed (auto simp: inside_def prefixed_def)

lemma inside_trans: "inside d p \<Longrightarrow> inside p q \<Longrightarrow> inside d q"
  by (auto simp: inside_iff)

text \<open>The directory of a path below \<open>d\<close> is \<open>d\<close> or below it.\<close>

lemma dirname_inside:
  assumes "inside d p" and "d \<noteq> []" and "last d \<noteq> 47"
  shows "dirname 47 p = d \<or> inside d (dirname 47 p)"
proof -
  from assms(1) obtain rest where p: "p = d @ 47 # rest" by (auto simp: inside_iff)
  obtain h where h: "rev (dropWhile (\<lambda>c. c \<noteq> 47) (rev p)) = d @ 47 # h"
  proof (cases "47 \<in> set rest")
    case True
    then have r: "47 \<in> set (rev rest)" "\<not> 47 \<noteq> (47 :: nat)" by simp_all
    show thesis using that [of "rev (dropWhile (\<lambda>c. c \<noteq> 47) (rev rest))"]
      by (simp add: p dropWhile_append1 [of 47 "rev rest", OF r(1)])
  next
    case False
    then have "\<forall>c \<in> set (rev rest). c \<noteq> 47" by auto
    then show thesis using that [of "[]"] by (simp add: p dropWhile_append)
  qed
  have "d @ 47 # h \<noteq> replicate (length (d @ 47 # h)) 47"
  proof
    assume all: "d @ 47 # h = replicate (length (d @ 47 # h)) 47"
    have "last d \<in> set (d @ 47 # h)" using assms(2) by simp
    then have "last d = 47" using all by (metis in_set_replicate)
    with assms(3) show False by simp
  qed
  then have "dirname 47 p = rstrip_by (\<lambda>c. c = 47) (d @ 47 # h)"
    using assms(2) by (simp add: dirname_def Let_def h)
  also have "\<dots> = d @ rstrip_by (\<lambda>c. c = 47) (47 # h)"
    using assms by (simp add: rstrip_append)
  finally show ?thesis using rstrip_Cons [of "\<lambda>c. c = 47" 47 h] by (auto simp: inside_iff)
qed

lemma dget_rmtree: "dget (filter (\<lambda>(p, _). \<not> inside d p) fs) q = (if inside d q then None else dget fs q)"
  by (induction fs) auto

lemma read_document_cong:
  "dget (st_files s) path = dget (st_files t) path \<Longrightarrow> read_document e path s = read_document e path t"
  by (simp add: read_document_def)

section \<open>Reading back a written record\<close>

lemma map_of_sort_key:
  assumes "distinct (dkeys d)"
  shows "dget (sort_key f d) = dget d"
proof (rule map_of_eqI)
  have "mset (map fst (sort_key f d)) = mset (dkeys d)" by simp
  with assms have dist: "distinct (dkeys (sort_key f d))" by (metis mset_eq_imp_distinct_iff)
  show "set (dkeys (sort_key f d)) = set (dkeys d)" by simp
  show "\<forall>k \<in> set (dkeys (sort_key f d)). dget (sort_key f d) k = dget d k"
  proof
    fix k assume "k \<in> set (dkeys (sort_key f d))"
    then obtain v where "(k, v) \<in> set d" by auto
    with assms dist show "dget (sort_key f d) k = dget d k"
      by (metis map_of_is_SomeI set_sort)
  qed
qed

lemma norm_fields:
  assumes "canonicalizable (PDict r)"
  obtains n where "norm (PDict r) = PDict n" and "\<And>k. mget n k = norm (mget r k)" and "dict_ok (PDict n)"
proof -
  define n where "n = map (\<lambda>(k, v). (k, norm v)) (items r)"
  have keys: "\<exists>t. k = PStr t" if "(k, v) \<in> set r" for k v
    using assms that by (auto simp: canonicalizable_PDict)
  have "map (\<lambda>(k, v). (PStr (key_of k), norm v)) (items r) = n"
    unfolding n_def using keys by (fastforce simp: key_of_def)
  then have norm: "norm (PDict r) = PDict n" by (simp add: norm_PDict)
  have "dget (items r) = dget r"
    using assms map_of_sort_key unfolding items_def canonicalizable_PDict by blast
  then have "dget n k = map_option norm (dget r k)" for k
    unfolding n_def by (metis map_of_map map_option_o_case_sum comp_apply split_conv)
  then have "mget n k = norm (mget r k)" for k
    by (simp add: mget_def split: option.splits)
  moreover have "dict_ok (PDict n)"
    using loads_dict_ok [OF loads_dumps [OF assms]] norm by simp
  ultimately show ?thesis using norm that by blast
qed

lemma read_written:
  assumes "canonical_bytes v = Inr data" and "dict_ok v"
  shows "read_document e path (s\<lparr>st_files := dset path data (st_files s)\<rparr>) = Inr (norm v)"
proof -
  have c: "canonicalizable v" using assms by (rule canonicalizable_blob)
  then have "data = utf8_encode (dumps v)" using assms(1) by (simp add: canonical_bytes_ok)
  then show ?thesis
    using utf8_roundtrip [OF encodable_dumps [OF c]] loads_dumps [OF c]
    by (simp add: read_document_def dget_dset)
qed

section \<open>One step of a record\<close>

lemma mget_set: "mget (dset (PStr k) v d) k' = (if k' = k then v else mget d k')"
  by (simp add: mget_def dget_dset)

lemma text_item_Inr: "text_item (PDict r) k = Inr t \<longleftrightarrow> mget r k = PStr t"
  by (auto simp: text_item_def pitem_def mget_def req_def split: option.splits pyval.splits)

lemma mget_stepped:
  "mget (stepped r target e) (u ''state'') = PStr target"
  "k \<noteq> u ''state'' \<Longrightarrow> k \<noteq> u ''error'' \<Longrightarrow> mget (stepped r target e) k = mget r k"
  by (simp_all add: stepped_def mget_set)

lemma dict_ok_dset: "dict_ok (PDict d) \<Longrightarrow> dict_ok v \<Longrightarrow> dict_ok (PDict (dset k v d))"
  unfolding dict_ok_PDict by (simp add: distinct_dset dset_values)

lemma dict_ok_stepped:
  "dict_ok (PDict r) \<Longrightarrow> (case e of None \<Rightarrow> True | Some v \<Rightarrow> dict_ok v) \<Longrightarrow> dict_ok (PDict (stepped r target e))"
  unfolding stepped_def by (intro dict_ok_dset) (auto split: option.splits simp del: dict_ok.simps(2))

text \<open>The runtime's table of transitions is the kernel's lifecycle, state by state.\<close>

lemma table_is_lifecycle:
  "\<exists>targets. dget TRANSACTION_TRANSITIONS (tx_name a) = Some targets
     \<and> (tx_name b \<in> set targets \<longleftrightarrow> Transaction_Allowed a b)"
  by (cases a; cases b) (simp_all add: TRANSACTION_TRANSITIONS_def)

lemma transaction_allowed_names:
  assumes "transaction_transition_allowed source target = Inr x"
  obtains a b where "source = tx_name a" and "target = tx_name b" and "x = Transaction_Allowed a b"
proof -
  from assms obtain m n where "dget TRANSACTION_STATE_CODES source = Some m" "dget TRANSACTION_STATE_CODES target = Some n"
    by (auto simp: transaction_transition_allowed_def res_iffs)
  then have s: "source = tx_name (tx_states ! m)" and t: "target = tx_name (tx_states ! n)"
    by (simp_all add: tx_code_name)
  then show ?thesis using assms transaction_transition_allowed_name that by fastforce
qed

lemma allowed_step_Inr:
  "allowed_step r target = Inr x \<longleftrightarrow>
     (\<exists>a b. mget r (u ''state'') = PStr (tx_name a) \<and> target = tx_name b \<and> Transaction_Allowed a b)"
proof
  assume h: "allowed_step r target = Inr x"
  from h obtain source where s: "mget r (u ''state'') = PStr source" and "transaction_transition_allowed source target = Inr True"
    unfolding allowed_step_def by (auto simp: res_iffs text_item_Inr)
  then show "\<exists>a b. mget r (u ''state'') = PStr (tx_name a) \<and> target = tx_name b \<and> Transaction_Allowed a b"
    using transaction_allowed_names by metis
next
  assume "\<exists>a b. mget r (u ''state'') = PStr (tx_name a) \<and> target = tx_name b \<and> Transaction_Allowed a b"
  then obtain a b where h: "mget r (u ''state'') = PStr (tx_name a)" "target = tx_name b" "Transaction_Allowed a b"
    by blast
  obtain targets where "dget TRANSACTION_TRANSITIONS (tx_name a) = Some targets" "tx_name b \<in> set targets"
    using table_is_lifecycle [of a b] h(3) by blast
  then show "allowed_step r target = Inr x"
    using h text_item_Inr [of r "u ''state''" "tx_name a"]
    by (simp add: allowed_step_def transaction_transition_allowed_name)
qed

lemma allowed_step_agrees: "allowed_step r target \<noteq> Inl (WL ''CORE_DISAGREEMENT'')"
proof
  assume "allowed_step r target = Inl (WL ''CORE_DISAGREEMENT'')"
  then obtain source where "text_item (PDict r) (u ''state'') = Inr source
      \<and> (\<exists>x table. transaction_transition_allowed source target = Inr x
          \<and> dget TRANSACTION_TRANSITIONS source = Some table \<and> x \<noteq> (target \<in> set table))"
    unfolding allowed_step_def
    by (auto simp: rbind_Inl_iff req_Inr_iff text_item_def pitem_def transaction_transition_allowed_def req_def
        split: option.splits pyval.splits)
  then show False using transaction_allowed_names table_is_lifecycle by (metis option.inject)
qed

lemma write_record_run:
  "write_record r s = (Inr x, t) \<longleftrightarrow> (\<exists>path data. mget r (u ''preparedPath'') = PStr path
     \<and> canonical_bytes (PDict r) = Inr data \<and> t = s\<lparr>st_files := dset path data (st_files s)\<rparr>)"
  by (auto simp: write_record_def write_file_def sbind_Inr_iff lift_def modify_def text_item_Inr)

lemma update_transaction_run:
  "update_transaction now i state e c s = (Inr x, t) \<longleftrightarrow> (\<exists>blob. error_blob e = Inr blob
     \<and> i \<in> set (map tx_id (st_txs s)) \<and> state \<in> set (dkeys TRANSACTION_STATE_CODES)
     \<and> t = s\<lparr>st_txs := update_where (\<lambda>r. tx_id r = i) (\<lambda>r. r\<lparr>tx_state_name := state, tx_error := blob,
           tx_committed_at := (if c then Some now else None)\<rparr>) (st_txs s)\<rparr>)"
  by (auto simp: update_transaction_def sbind_Inr_iff act_defs split: if_splits)

lemma reclaim_run:
  assumes "reclaim env r s = (x, t)"
  shows "t = s \<or> (\<exists>p. mget r (u ''stagingPayload'') = PStr p
    \<and> t = s\<lparr>st_files := filter (\<lambda>(q, _). \<not> inside (dirname 47 p) q) (st_files s)\<rparr>)"
  using assms
  by (auto simp: reclaim_def Let_def sbind_def act_defs rmtree_def split: if_splits pyval.splits sum.splits)

lemma set_state_run:
  assumes "set_state env now r target e c s = (Inr r', t)"
  obtains a b path data i blob v where "mget r (u ''state'') = PStr (tx_name a)" and "target = tx_name b"
    and "Transaction_Allowed a b" and "r' = stepped r target e" and "mget r (u ''preparedPath'') = PStr path"
    and "canonical_bytes (PDict r') = Inr data" and "mget r (u ''transactionId'') = PStr i"
    and "error_blob e = Inr blob" and "i \<in> set (map tx_id (st_txs s))"
    and "v = s\<lparr>st_files := dset path data (st_files s),
      st_txs := update_where (\<lambda>r. tx_id r = i) (\<lambda>r. r\<lparr>tx_state_name := target, tx_error := blob,
           tx_committed_at := (if c then Some now else None)\<rparr>) (st_txs s)\<rparr>"
    and "t = v \<or> target \<in> {u ''DENIED'', u ''ABORTED''} \<and> reclaim env r' v = (Inr (), t)"
proof -
  from assms obtain w i where step: "allowed_step r target = Inr ()"
    and wr: "write_record (stepped r target e) s = (Inr (), w)"
    and i: "text_item (PDict (stepped r target e)) (u ''transactionId'') = Inr i"
    and rest: "\<exists>v. update_transaction now i target e c w = (Inr (), v)
      \<and> (if target \<in> {u ''DENIED'', u ''ABORTED''} then reclaim env (stepped r target e) else ret ()) v = (Inr (), t)"
    and r': "r' = stepped r target e"
    unfolding set_state_def Let_def by (elim act_elims) auto
  from rest obtain v where up: "update_transaction now i target e c w = (Inr (), v)"
    and rc: "(if target \<in> {u ''DENIED'', u ''ABORTED''} then reclaim env (stepped r target e) else ret ()) v = (Inr (), t)"
    by blast
  obtain a b where ab: "mget r (u ''state'') = PStr (tx_name a)" "target = tx_name b" "Transaction_Allowed a b"
    using step allowed_step_Inr by blast
  obtain path data where pd: "mget (stepped r target e) (u ''preparedPath'') = PStr path"
      "canonical_bytes (PDict (stepped r target e)) = Inr data" "w = s\<lparr>st_files := dset path data (st_files s)\<rparr>"
    using wr write_record_run by blast
  obtain blob where bl: "error_blob e = Inr blob" "i \<in> set (map tx_id (st_txs w))"
      "v = w\<lparr>st_txs := update_where (\<lambda>r. tx_id r = i) (\<lambda>r. r\<lparr>tx_state_name := target, tx_error := blob,
           tx_committed_at := (if c then Some now else None)\<rparr>) (st_txs w)\<rparr>"
    using up update_transaction_run by blast
  have "mget r (u ''preparedPath'') = PStr path" "mget r (u ''transactionId'') = PStr i"
    using pd(1) i by (simp_all add: mget_stepped text_item_Inr)
  moreover have "t = v \<or> target \<in> {u ''DENIED'', u ''ABORTED''} \<and> reclaim env r' v = (Inr (), t)"
    using rc r' by (auto simp: ret_def split: if_splits)
  ultimately show ?thesis using that [OF ab r' _ pd(2) [folded r'] _ bl(1)] bl(2,3) pd(3) by auto
qed

lemma set_state_known:
  assumes step: "set_state env now r target e c s = (Inr r', t)"
    and path: "mget r (u ''preparedPath'') = PStr path" and i: "mget r (u ''transactionId'') = PStr i"
  obtains data blob v where "canonical_bytes (PDict r') = Inr data"
    and "v = s\<lparr>st_files := dset path data (st_files s),
      st_txs := update_where (\<lambda>r. tx_id r = i) (\<lambda>r. r\<lparr>tx_state_name := target, tx_error := blob,
           tx_committed_at := (if c then Some now else None)\<rparr>) (st_txs s)\<rparr>"
    and "r' = stepped r target e"
    and "t = v \<or> target \<in> {u ''DENIED'', u ''ABORTED''} \<and> reclaim env r' v = (Inr (), t)"
proof (rule set_state_run [OF step], goal_cases)
  case (1 a b path' data i' blob v)
  then have "path' = path" "i' = i" using path i by simp_all
  with 1 show ?thesis by (intro that [of data v blob]) simp_all
qed

section \<open>The record and its row\<close>

text \<open>
  What a store in good order looks like: every row has its own record file, which names the
  transaction, its path and the row's state, and lies outside the staging area.
\<close>

definition record_agrees :: "store \<Rightarrow> tx_row \<Rightarrow> bool" where
  "record_agrees s row \<longleftrightarrow> (\<exists>r. read_document record_invalid (tx_prepared_path row) s = Inr (PDict r)
     \<and> mget r (u ''schemaVersion'') = PInt 1 \<and> mget r (u ''transactionId'') = PStr (tx_id row)
     \<and> mget r (u ''preparedPath'') = PStr (tx_prepared_path row)
     \<and> mget r (u ''state'') = PStr (tx_state_name row))"

definition records_agree :: "tx_env \<Rightarrow> store \<Rightarrow> bool" where
  "records_agree env s \<longleftrightarrow> distinct (map tx_id (st_txs s)) \<and> distinct (map tx_prepared_path (st_txs s))
     \<and> (\<forall>row \<in> set (st_txs s). record_agrees s row \<and> \<not> inside (te_data env) (tx_prepared_path row))"

text \<open>Paths are written in their resolved form, and the staging directory is a proper path.\<close>

definition resolved_paths :: "tx_env \<Rightarrow> bool" where
  "resolved_paths env \<longleftrightarrow> te_real env = Some \<and> te_data env \<noteq> [] \<and> last (te_data env) \<noteq> 47"

lemma load_record_Inr:
  assumes "load_record env i s = Inr r"
  shows "\<exists>row. row \<in> set (st_txs s) \<and> tx_id row = i \<and> List.find (\<lambda>t. tx_id t = i) (st_txs s) = Some row
    \<and> read_document record_invalid (tx_prepared_path row) s = Inr (PDict r)
    \<and> mget r (u ''transactionId'') = PStr i \<and> mget r (u ''state'') = PStr (tx_state_name row)
    \<and> own_field env i r (u ''stagingPayload'') = Inr () \<and> own_field env i r (u ''preparedMapping'') = Inr ()
    \<and> eq_int (mget r (u ''schemaVersion'')) 1"
proof -
  from assms obtain row err doc where row: "List.find (\<lambda>t. tx_id t = i) (st_txs s) = Some row"
    and doc: "read_document record_invalid (tx_prepared_path row) s = Inr doc" "as_map doc = Some r"
    and rest: "eq_int (mget r (u ''schemaVersion'')) 1" "mget r (u ''transactionId'') = PStr i"
      "own_field env i r (u ''stagingPayload'') = Inr ()" "own_field env i r (u ''preparedMapping'') = Inr ()"
      "mget r (u ''state'') = PStr (tx_state_name row)"
    unfolding load_record_def transaction_record_def by (auto simp: res_iffs split: prod.splits)
  have "doc = PDict r" using doc(2) by (cases doc) (simp_all add: as_map_def)
  moreover have "row \<in> set (st_txs s) \<and> tx_id row = i" using row by (auto simp: find_Some_iff)
  ultimately show ?thesis using row doc rest by blast
qed

lemma read_document_dict_ok: "read_document e path s = Inr v \<Longrightarrow> dict_ok v"
  by (auto simp: read_document_def res_iffs dest: loads_dict_ok)

lemma staged_inside:
  assumes "own_field env i r (u ''stagingPayload'') = Inr ()" and "mget r (u ''stagingPayload'') = PStr p"
    and "resolved_paths env"
  shows "inside (te_data env) p"
proof -
  have "p = below (te_data env) i \<or> below (te_data env) i = [47] \<or> inside (below (te_data env) i) p"
    using assms by (auto simp: own_field_def require_own_def resolved_paths_def Let_def)
  moreover have "below (te_data env) i \<noteq> [47]"
    using assms(3) by (cases "te_data env") (auto simp: below_def resolved_paths_def)
  moreover have "inside (te_data env) (below (te_data env) i)" by (auto simp: inside_iff below_def)
  ultimately show ?thesis using inside_trans by blast
qed

lemma reclaimed_files:
  assumes "reclaim env r' v = (Inr (), t)" and "own_field env i r' (u ''stagingPayload'') = Inr ()"
    and "resolved_paths env" and "\<not> inside (te_data env) q"
  shows "dget (st_files t) q = dget (st_files v) q \<and> st_txs t = st_txs v"
proof -
  consider "t = v" | p where "mget r' (u ''stagingPayload'') = PStr p"
      "t = v\<lparr>st_files := filter (\<lambda>(q, _). \<not> inside (dirname 47 p) q) (st_files v)\<rparr>"
    using reclaim_run [OF assms(1)] by blast
  then show ?thesis
  proof cases
    case 2
    have "dirname 47 p = te_data env \<or> inside (te_data env) (dirname 47 p)"
      using dirname_inside staged_inside [OF assms(2) 2(1) assms(3)] assms(3) by (auto simp: resolved_paths_def)
    then have "\<not> inside (dirname 47 p) q" using assms(4) inside_trans by metis
    then show ?thesis using 2(2) by (simp add: dget_rmtree)
  qed simp
qed

lemma records_agree_row:
  assumes "records_agree env s" and "load_record env i s = Inr r"
  obtains row where "row \<in> set (st_txs s)" and "tx_id row = i"
    and "read_document record_invalid (tx_prepared_path row) s = Inr (PDict r)"
    and "mget r (u ''preparedPath'') = PStr (tx_prepared_path row)"
    and "mget r (u ''schemaVersion'') = PInt 1" and "\<not> inside (te_data env) (tx_prepared_path row)"
    and "own_field env i r (u ''stagingPayload'') = Inr ()"
    and "mget r (u ''state'') = PStr (tx_state_name row)" and "mget r (u ''transactionId'') = PStr i"
proof -
  from load_record_Inr [OF assms(2)] obtain row where row: "row \<in> set (st_txs s)" "tx_id row = i"
      "read_document record_invalid (tx_prepared_path row) s = Inr (PDict r)"
      "own_field env i r (u ''stagingPayload'') = Inr ()"
      "mget r (u ''state'') = PStr (tx_state_name row)" "mget r (u ''transactionId'') = PStr i" by blast
  then have "record_agrees s row" "\<not> inside (te_data env) (tx_prepared_path row)"
    using assms(1) by (auto simp: records_agree_def)
  with row that show ?thesis by (auto simp: record_agrees_def)
qed

lemma update_where_key:
  "(\<And>r. k (f r) = k r) \<Longrightarrow> map k (update_where P f rows) = map k rows"
  by (simp add: update_where_def)

lemma set_state_agrees:
  assumes inv: "records_agree env s" and load: "load_record env i s = Inr r" and paths: "resolved_paths env"
    and step: "set_state env now r target e c s = (Inr r', t)"
    and err: "case e of None \<Rightarrow> True | Some v \<Rightarrow> dict_ok v"
  shows "records_agree env t"
proof -
  from records_agree_row [OF inv load] obtain row where row: "row \<in> set (st_txs s)" "tx_id row = i"
      "read_document record_invalid (tx_prepared_path row) s = Inr (PDict r)"
      "mget r (u ''preparedPath'') = PStr (tx_prepared_path row)" "mget r (u ''schemaVersion'') = PInt 1"
      "\<not> inside (te_data env) (tx_prepared_path row)" "own_field env i r (u ''stagingPayload'') = Inr ()"
      "mget r (u ''transactionId'') = PStr i" by blast
  obtain data blob v where data: "canonical_bytes (PDict r') = Inr data"
    and v: "v = s\<lparr>st_files := dset (tx_prepared_path row) data (st_files s),
      st_txs := update_where (\<lambda>r. tx_id r = i) (\<lambda>r. r\<lparr>tx_state_name := target, tx_error := blob,
           tx_committed_at := (if c then Some now else None)\<rparr>) (st_txs s)\<rparr>"
    and r': "r' = stepped r target e"
    and t: "t = v \<or> target \<in> {u ''DENIED'', u ''ABORTED''} \<and> reclaim env r' v = (Inr (), t)"
    by (rule set_state_known [OF step row(4,8)])
  have own: "own_field env i r' (u ''stagingPayload'') = Inr ()"
    using row(7) by (simp add: own_field_def r' mget_stepped split: if_splits)
  have keep: "\<not> inside (te_data env) q \<Longrightarrow> dget (st_files t) q = dget (st_files v) q" for q
    using t reclaimed_files [OF _ own paths] by auto
  have txs: "st_txs t = st_txs v"
    using t reclaimed_files [OF _ own paths row(6)] by auto
  have ok: "dict_ok (PDict r')"
    unfolding r' using read_document_dict_ok [OF row(3)] err by (rule dict_ok_stepped)
  have can: "canonicalizable (PDict r')" using data ok by (rule canonicalizable_blob)
  obtain n where n: "norm (PDict r') = PDict n" "\<And>k. mget n k = norm (mget r' k)"
    using norm_fields [OF can] by metis
  have here: "read_document record_invalid (tx_prepared_path row) t = Inr (PDict n)"
    using read_written [OF data ok, of record_invalid "tx_prepared_path row" s] n(1) keep [OF row(6)]
    by (simp add: read_document_def v)
  have distinct_ids: "distinct (map tx_id (st_txs s))" and distinct_paths: "distinct (map tx_prepared_path (st_txs s))"
    using inv by (simp_all add: records_agree_def)
  have dist: "distinct (map tx_id (st_txs t))" "distinct (map tx_prepared_path (st_txs t))"
    using distinct_ids distinct_paths by (simp_all add: txs v update_where_key)
  have "record_agrees t x \<and> \<not> inside (te_data env) (tx_prepared_path x)" if "x \<in> set (st_txs t)" for x
  proof -
    from that obtain y where y: "y \<in> set (st_txs s)" "tx_prepared_path x = tx_prepared_path y" "tx_id x = tx_id y"
        "x = (if tx_id y = i then y\<lparr>tx_state_name := target, tx_error := blob,
           tx_committed_at := (if c then Some now else None)\<rparr> else y)"
      by (auto simp: txs v update_where_def)
    have out: "\<not> inside (te_data env) (tx_prepared_path y)" and agree: "record_agrees s y"
      using inv y(1) by (auto simp: records_agree_def)
    show ?thesis
    proof (cases "tx_id y = i")
      case True
      then have "y = row" using distinct_ids y(1) row(1,2) inj_onD [of tx_id "set (st_txs s)" y row] by (simp add: distinct_map)
      then have "tx_prepared_path x = tx_prepared_path row" "tx_id x = i" "tx_state_name x = target"
        using True y(2,3,4) by simp_all
      then have "record_agrees t x"
        unfolding record_agrees_def using here row(4,5,8)
        by (intro exI [of _ n] conjI) (simp_all add: n(2) r' mget_stepped)
      then show ?thesis using out y(2) by simp
    next
      case False
      then have "tx_prepared_path y \<noteq> tx_prepared_path row"
        using distinct_paths y(1) row(1,2) by (auto simp: distinct_map inj_on_eq_iff)
      then have "read_document record_invalid (tx_prepared_path y) t = read_document record_invalid (tx_prepared_path y) s"
        using keep [OF out] by (intro read_document_cong) (simp add: v dget_dset)
      then show ?thesis using agree False y(4) out by (auto simp: record_agrees_def)
    qed
  qed
  with dist show ?thesis by (auto simp: records_agree_def)
qed

text \<open>
  A crash after the record file was replaced and before the row was updated: the record is refused from
  then on, and every other one is read as before.
\<close>

lemma load_record_cong:
  assumes "st_txs t = st_txs s"
    and "\<And>row. List.find (\<lambda>x. tx_id x = j) (st_txs s) = Some row \<Longrightarrow>
      dget (st_files t) (tx_prepared_path row) = dget (st_files s) (tx_prepared_path row)"
  shows "load_record env j t = load_record env j s"
proof (cases "List.find (\<lambda>x. tx_id x = j) (st_txs s)")
  case None
  then show ?thesis using assms(1) by (simp add: load_record_def transaction_record_def)
next
  case (Some row)
  then have "read_document record_invalid (tx_prepared_path row) t = read_document record_invalid (tx_prepared_path row) s"
    using assms(2) by (intro read_document_cong) simp
  then show ?thesis
    using assms(1) Some by (cases "json_load (tx_error row) PNone") (simp_all add: load_record_def transaction_record_def)
qed

lemma allowed_step_moves: "Transaction_Allowed a b \<Longrightarrow> tx_name a \<noteq> tx_name b"
  by (cases a; cases b) simp_all

lemma torn_step_refused:
  assumes inv: "records_agree env s" and load: "load_record env i s = Inr r"
    and step: "allowed_step r target = Inr x" and written: "write_record (stepped r target e) s = (Inr y, t)"
    and err: "case e of None \<Rightarrow> True | Some v \<Rightarrow> dict_ok v"
  shows "load_record env i t \<noteq> Inr r'" and "j \<noteq> i \<Longrightarrow> load_record env j t = load_record env j s"
proof -
  from records_agree_row [OF inv load] obtain row where row: "row \<in> set (st_txs s)" "tx_id row = i"
      "read_document record_invalid (tx_prepared_path row) s = Inr (PDict r)"
      "mget r (u ''preparedPath'') = PStr (tx_prepared_path row)" "mget r (u ''state'') = PStr (tx_state_name row)"
    by blast
  obtain a b where ab: "mget r (u ''state'') = PStr (tx_name a)" "target = tx_name b" "Transaction_Allowed a b"
    using step allowed_step_Inr by blast
  then have moved: "target \<noteq> tx_state_name row" using row(5) allowed_step_moves by fastforce
  from written obtain data where data: "canonical_bytes (PDict (stepped r target e)) = Inr data"
    and t: "t = s\<lparr>st_files := dset (tx_prepared_path row) data (st_files s)\<rparr>"
    using row(4) by (auto simp: write_record_run mget_stepped)
  have ok: "dict_ok (PDict (stepped r target e))"
    using read_document_dict_ok [OF row(3)] err by (rule dict_ok_stepped)
  obtain n where n: "norm (PDict (stepped r target e)) = PDict n"
      "\<And>k. mget n k = norm (mget (stepped r target e) k)"
    using norm_fields [OF canonicalizable_blob [OF data ok]] by metis
  have doc: "read_document record_invalid (tx_prepared_path row) t = Inr (PDict n)"
    using read_written [OF data ok] n(1) t by simp
  have dist: "distinct (map tx_id (st_txs s))" "distinct (map tx_prepared_path (st_txs s))"
    using inv by (simp_all add: records_agree_def)
  show "load_record env i t \<noteq> Inr r'"
  proof
    assume "load_record env i t = Inr r'"
    from load_record_Inr [OF this] obtain row' where row': "row' \<in> set (st_txs s)" "tx_id row' = i"
        "read_document record_invalid (tx_prepared_path row') t = Inr (PDict r')"
        "mget r' (u ''state'') = PStr (tx_state_name row')" by (auto simp: t)
    have "row' = row" using dist(1) row(1,2) row'(1,2) inj_onD [of tx_id "set (st_txs s)" row' row]
      by (simp add: distinct_map)
    then have "r' = n" "mget r' (u ''state'') = PStr (tx_state_name row)" using row'(3,4) doc by simp_all
    then show False using n(2) moved by (simp add: mget_stepped)
  qed
  show "load_record env j t = load_record env j s" if "j \<noteq> i"
  proof (rule load_record_cong)
    fix row' assume "List.find (\<lambda>x. tx_id x = j) (st_txs s) = Some row'"
    then have "row' \<in> set (st_txs s)" "tx_id row' = j" by (auto simp: find_Some_iff)
    then have "tx_prepared_path row' \<noteq> tx_prepared_path row"
      using that row(1,2) dist(2) inj_onD [of tx_prepared_path "set (st_txs s)" row' row] by (auto simp: distinct_map)
    then show "dget (st_files t) (tx_prepared_path row') = dget (st_files s) (tx_prepared_path row')"
      by (simp add: t dget_dset)
  qed (simp add: t)
qed

section \<open>The walks over the parents of a world\<close>

definition parent_of :: "store \<Rightarrow> pystr \<Rightarrow> pystr \<Rightarrow> bool" where
  "parent_of s x p \<longleftrightarrow> (\<exists>w. world_get x s = Inr w \<and> w_parent_instance w = Some p)"

lemma parent_of_functional: "parent_of s x p \<Longrightarrow> parent_of s x q \<Longrightarrow> p = q"
  by (auto simp: parent_of_def)

lemma reach_step:
  assumes "parent_of s x p" and "x \<noteq> a"
  shows "(parent_of s)\<^sup>*\<^sup>* x a \<longleftrightarrow> (parent_of s)\<^sup>*\<^sup>* p a"
proof
  assume "(parent_of s)\<^sup>*\<^sup>* x a"
  then show "(parent_of s)\<^sup>*\<^sup>* p a"
    using assms parent_of_functional by (cases rule: converse_rtranclpE) metis+
qed (rule converse_rtranclp_into_rtranclp [of "parent_of s", OF assms(1)])

lemma closed_reach:
  assumes "(parent_of s)\<^sup>*\<^sup>* x y" and "x \<in> S" and "\<And>z p. z \<in> S \<Longrightarrow> parent_of s z p \<Longrightarrow> p \<in> S"
  shows "y \<in> S"
  using assms(1,2) by (induction rule: rtranclp_induct) (auto intro: assms(3))

lemma ancestor_walk_reach:
  assumes "ancestor_walk s a c seen = Inr b" and "a \<notin> set seen"
    and "\<And>z p. z \<in> set seen \<Longrightarrow> parent_of s z p \<Longrightarrow> p \<in> insert c (set seen)"
  shows "b \<longleftrightarrow> (parent_of s)\<^sup>*\<^sup>* c a"
  using assms
proof (induction s a c seen rule: ancestor_walk.induct)
  case (1 s a c seen)
  note walk = "1.prems"(1) [unfolded ancestor_walk.simps [of s a c seen]]
  show ?case
  proof (cases "c \<in> set seen \<or> c = a")
    case True
    have "\<not> (parent_of s)\<^sup>*\<^sup>* c a" if "c \<in> set seen"
      using closed_reach [of s c a "set seen"] "1.prems"(2,3) that by (auto simp: insert_absorb)
    then show ?thesis using True walk by (auto split: if_splits)
  next
    case False
    with walk obtain w where w: "world_get c s = Inr w" by (auto split: sum.splits if_splits)
    show ?thesis
    proof (cases "w_parent_instance w")
      case None
      then have "\<not> parent_of s c p" for p using w by (simp add: parent_of_def)
      then have "\<not> (parent_of s)\<^sup>*\<^sup>* c a" using False by (metis converse_rtranclpE)
      then show ?thesis using False walk w None by simp
    next
      case (Some p)
      then have p: "parent_of s c p" using w by (simp add: parent_of_def)
      have "b \<longleftrightarrow> (parent_of s)\<^sup>*\<^sup>* p a"
      proof (rule "1.IH" [OF _ _ w Some])
        show "ancestor_walk s a p (c # seen) = Inr b" using False walk w Some by simp
        show "q \<in> insert p (set (c # seen))" if "z \<in> set (c # seen)" "parent_of s z q" for z q
          using that "1.prems"(3) [of z q] parent_of_functional [OF p] by auto
      qed (use False "1.prems"(2) in auto)
      then show ?thesis using reach_step [OF p] False by simp
    qed
  qed
qed

definition recorded_parent :: "store \<Rightarrow> pystr \<Rightarrow> pystr \<Rightarrow> bool" where
  "recorded_parent s x p \<longleftrightarrow> (\<exists>l. lineage_link x s = Some l \<and> ln_parent l = Some p)"

lemma lineage_walk_reach:
  "lineage_walk s subject i seen = Some (child, content) \<Longrightarrow>
     (recorded_parent s)\<^sup>*\<^sup>* i child
     \<and> (\<exists>l. lineage_link child s = Some l \<and> ln_parent l = Some subject \<and> content = ln_parent_content l)"
proof (induction s subject i seen rule: lineage_walk.induct)
  case (1 s subject i seen)
  note walk = "1.prems" [unfolded lineage_walk.simps [of s subject i seen]]
  from walk obtain l p where l: "lineage_link i s = Some l" "ln_parent l = Some p"
    and stop: "\<not> (i \<in> set seen \<or> LINEAGE_LIMIT \<le> int (length seen))"
    by (auto split: option.splits if_splits)
  show ?case
  proof (cases "p = subject")
    case True
    then show ?thesis using walk l stop by auto
  next
    case False
    then have "lineage_walk s subject p (i # seen) = Some (child, content)" using walk l stop by auto
    from "1.IH" [OF l stop False this]
    have "(recorded_parent s)\<^sup>*\<^sup>* p child" and r: "\<exists>l. lineage_link child s = Some l \<and> ln_parent l = Some subject
        \<and> content = ln_parent_content l" by blast+
    moreover have "recorded_parent s i p" using l by (auto simp: recorded_parent_def)
    ultimately show ?thesis by (blast intro: converse_rtranclp_into_rtranclp)
  qed
qed

lemma checkpoint_witness_run:
  assumes "checkpoint_witness subject s = (Inr (Some x), t)"
  shows "\<exists>content pw r. w_content_id subject = Some content \<and> ws_expected x = content
    \<and> prime s = (Inr (Some pw), r)
    \<and> (w_instance_id pw = w_instance_id subject \<and> ws_source x = u ''prime-register''
       \<or> (\<exists>child recorded. lineage_walk r (w_instance_id subject) (w_instance_id pw) [] = Some (child, recorded)
            \<and> ws_source x = u ''lineage:'' @ child \<and> ws_witnessed x = Some recorded))"
proof (cases "w_content_id subject")
  case None
  then show ?thesis using assms by (simp add: checkpoint_witness_def ret_def)
next
  case (Some content)
  with assms obtain p r where p: "prime s = (Inr p, r)" and rest: "(case p of None \<Rightarrow> ret None
        | Some pw \<Rightarrow>
              if w_instance_id pw = w_instance_id subject
              then sbind (get_meta (u ''primeContent'') PNone) (\<lambda>recorded.
                   ret (Some \<lparr>ws_source = u ''prime-register'', ws_expected = content,
                     ws_witnessed = (case recorded of PStr t \<Rightarrow> Some t | _ \<Rightarrow> None)\<rparr>))
              else gets (\<lambda>s. map_option (\<lambda>(child, recorded).
                     \<lparr>ws_source = u ''lineage:'' @ child, ws_expected = content, ws_witnessed = Some recorded\<rparr>)
                   (lineage_walk s (w_instance_id subject) (w_instance_id pw) []))) r = (Inr (Some x), t)"
    unfolding checkpoint_witness_def by (auto elim: act_elims)
  then obtain pw where pw: "p = Some pw" by (cases p) (simp_all add: ret_def)
  show ?thesis
  proof (cases "w_instance_id pw = w_instance_id subject")
    case True
    then have "ws_source x = u ''prime-register'' \<and> ws_expected x = content"
      using rest pw by (auto elim!: act_elims)
    then show ?thesis using Some p pw True by blast
  next
    case False
    then show ?thesis using rest pw Some p by (auto simp: gets_def)
  qed
qed

end
