(* ===== verification/Transaction_Lifecycle.thy ===== *)
theory Transaction_Lifecycle
  imports Transaction_Laws
begin

text \<open>
  The lifecycle of a prepared transaction: what a completed step keeps, what a torn one leaves behind,
  and the tests over the lineage of worlds.
\<close>

section \<open>Properties\<close>


definition sample_env :: tx_env where
  "sample_env = \<lparr>te_transactions = u ''/t'', te_data = u ''/d'', te_live = u ''/l'', te_real = Some,
     te_is_dir = (\<lambda>_. True)\<rparr>"

definition sample_record :: fields where
  "sample_record = [(PStr (u ''preparedMapping''), PStr (u ''/d/x/m'')), (PStr (u ''preparedPath''), PStr (u ''/t/x'')),
     (PStr (u ''schemaVersion''), PInt 1), (PStr (u ''stagingPayload''), PStr (u ''/d/x/p'')),
     (PStr (u ''state''), PStr (u ''PREPARED'')), (PStr (u ''transactionId''), PStr (u ''x''))]"

definition sample_row :: tx_row where
  "sample_row = \<lparr>tx_id = u ''x'', tx_kind = u ''collapse'', tx_state_name = u ''PREPARED'', tx_candidate = u ''w'',
     tx_prepared_path = u ''/t/x'', tx_before_root = [], tx_base_root = [], tx_candidate_root = [],
     tx_delta_hash = [], tx_staged_root = [], tx_root_set_hash = [], tx_marker = u ''x'', tx_created_at = [],
     tx_committed_at = None, tx_error = None\<rparr>"

definition sample_prepared :: store where
  "sample_prepared = empty_store\<lparr>st_txs := [sample_row],
     st_files := [(u ''/t/x'', utf8_encode (dumps (PDict sample_record)))]\<rparr>"

lemma sample_canonicalizable: "canonicalizable (PDict sample_record)"
  by (simp add: canonicalizable_def sample_record_def)

lemma sample_order:
  "u ''preparedMapping'' \<le> u ''preparedPath''" "u ''preparedPath'' \<le> u ''schemaVersion''"
  "u ''schemaVersion'' \<le> u ''stagingPayload''" "u ''stagingPayload'' \<le> u ''state''"
  "u ''state'' \<le> u ''transactionId''"
  by (simp_all add: u_def)

lemma sample_norm: "norm (PDict sample_record) = PDict sample_record"
  by (simp add: sample_record_def norm.simps(2) key_of_def sample_order)

lemma sample_record_read: "read_document e (u ''/t/x'') sample_prepared = Inr (PDict sample_record)"
  using utf8_roundtrip [OF encodable_dumps [OF sample_canonicalizable]]
    loads_dumps [OF sample_canonicalizable] sample_norm
  by (simp add: read_document_def sample_prepared_def)

lemma sample_fields:
  "mget sample_record (u ''preparedMapping'') = PStr (u ''/d/x/m'')"
  "mget sample_record (u ''preparedPath'') = PStr (u ''/t/x'')"
  "mget sample_record (u ''schemaVersion'') = PInt 1"
  "mget sample_record (u ''stagingPayload'') = PStr (u ''/d/x/p'')"
  "mget sample_record (u ''state'') = PStr (u ''PREPARED'')"
  "mget sample_record (u ''transactionId'') = PStr (u ''x'')"
  by (simp_all add: mget_def sample_record_def)

lemma sample_own:
  "require_own sample_env (u ''/t/x'') (u ''/t'') = Inr ()"
  "require_own sample_env (u ''/d/x/p'') (u ''/d/x'') = Inr ()"
  "require_own sample_env (u ''/d/x/m'') (u ''/d/x'') = Inr ()"
  by (simp_all add: require_own_def sample_env_def inside_def prefixed_def u_def)

lemma sample_dirs:
  "te_transactions sample_env = u ''/t''" "below (te_data sample_env) (u ''x'') = u ''/d/x''"
  by (simp_all add: sample_env_def below_def u_def)

lemma sample_record_load: "load_record sample_env (u ''x'') sample_prepared = Inr sample_record"
proof -
  have t: "transaction_record (u ''x'') sample_prepared = Inr (sample_row, PNone)"
    by (simp add: transaction_record_def sample_prepared_def sample_row_def json_load_def)
  have p: "tx_prepared_path sample_row = u ''/t/x''" "tx_state_name sample_row = u ''PREPARED''"
    by (simp_all add: sample_row_def)
  have o: "own_field sample_env (u ''x'') sample_record (u ''stagingPayload'') = Inr ()"
    "own_field sample_env (u ''x'') sample_record (u ''preparedMapping'') = Inr ()"
    by (simp_all add: own_field_def sample_fields sample_dirs sample_own)
  show ?thesis
    by (simp add: load_record_def t p sample_record_read as_map_def sample_fields truthy_def eq_int_def o
        sample_dirs(1) sample_own(1) Let_def)
qed

lemma sample_agrees: "records_agree sample_env sample_prepared"
proof -
  have "record_agrees sample_prepared sample_row"
    unfolding record_agrees_def
    by (rule exI [of _ sample_record]) (simp add: sample_row_def sample_record_read sample_fields)
  then show ?thesis
    by (simp add: records_agree_def sample_prepared_def inside_def prefixed_def sample_env_def sample_row_def)
      (simp add: u_def)
qed

lemma sample_resolved: "resolved_paths sample_env"
  by (simp add: resolved_paths_def sample_env_def) (simp add: u_def)

lemma sample_stepped:
  "stepped sample_record (u ''AUTHORIZED'') None =
     [(PStr (u ''preparedMapping''), PStr (u ''/d/x/m'')), (PStr (u ''preparedPath''), PStr (u ''/t/x'')),
     (PStr (u ''schemaVersion''), PInt 1), (PStr (u ''stagingPayload''), PStr (u ''/d/x/p'')),
     (PStr (u ''state''), PStr (u ''AUTHORIZED'')), (PStr (u ''transactionId''), PStr (u ''x'')),
     (PStr (u ''error''), PNone)]"
  by (simp add: stepped_def sample_record_def)

lemma sample_next: "canonicalizable (PDict (stepped sample_record (u ''AUTHORIZED'') None))"
  by (simp add: canonicalizable_def sample_stepped)

lemma sample_allowed: "allowed_step sample_record (u ''AUTHORIZED'') = Inr ()"
  unfolding allowed_step_Inr
  by (rule exI [of _ TxPREPARED], rule exI [of _ TxAUTHORIZED]) (simp add: sample_fields)

lemma sample_step:
  "\<exists>t. set_state sample_env [] sample_record (u ''AUTHORIZED'') None False sample_prepared
     = (Inr (stepped sample_record (u ''AUTHORIZED'') None), t)"
proof -
  let ?r = "stepped sample_record (u ''AUTHORIZED'') None"
  obtain t where w: "write_record ?r sample_prepared = (Inr (), t)" and t: "st_txs t = [sample_row]"
    using canonical_bytes_ok [OF sample_next] write_record_run [of ?r sample_prepared "()"]
    by (simp add: mget_stepped sample_fields) (simp add: sample_prepared_def)
  obtain v where v: "update_transaction [] (u ''x'') (u ''AUTHORIZED'') None False t = (Inr (), v)"
    using update_transaction_run [of "[]" "u ''x''" "u ''AUTHORIZED''" None False t "()"]
    by (simp add: t sample_row_def error_blob_def TRANSACTION_STATE_CODES_def)
  have i: "text_item (PDict ?r) (u ''transactionId'') = Inr (u ''x'')"
    by (simp add: text_item_Inr mget_stepped sample_fields)
  show ?thesis
    unfolding set_state_def Let_def
    by (simp add: run_lift sample_allowed w i v run_ret) (simp add: ret_def)
qed


text \<open>
  A crash between the two writes of a step is detected: after the record file was replaced and
  before the row was updated, the transaction's record is no longer accepted by anything that reads it,
  so no commit, abort or recovery acts on it, and every other transaction is read as before.
\<close>
theorem torn_step_is_refused:
  assumes "records_agree env s" and "load_record env i s = Inr r" and "allowed_step r target = Inr x"
    and "write_record (stepped r target e) s = (Inr y, t)"
    and "case e of None \<Rightarrow> True | Some v \<Rightarrow> dict_ok v"
  shows "(\<nexists>r'. load_record env i t = Inr r') \<and> (\<forall>j. j \<noteq> i \<longrightarrow> load_record env j t = load_record env j s)"
  using torn_step_refused [OF assms] by blast

theorem torn_step_is_refused_witness:
  "\<exists>t. \<nexists>r'. load_record sample_env (u ''x'') t = Inr r'"
proof -
  obtain t where w: "write_record (stepped sample_record (u ''AUTHORIZED'') None) sample_prepared = (Inr (), t)"
    using canonical_bytes_ok [OF sample_next]
      write_record_run [of "stepped sample_record (u ''AUTHORIZED'') None" sample_prepared "()"]
    by (simp add: mget_stepped sample_fields)
  have "case (None :: pyval option) of None \<Rightarrow> True | Some v \<Rightarrow> dict_ok v" by simp
  from torn_step_is_refused [OF sample_agrees sample_record_load sample_allowed w this] show ?thesis by blast
qed

text \<open>
  The runtime's table of transitions is the kernel's lifecycle: the check of a step succeeds exactly
  on the steps the kernel allows, and the disagreement it guards against never occurs.
\<close>
theorem transition_table_is_kernel:
  "(allowed_step r target = Inr x \<longleftrightarrow>
     (\<exists>a b. mget r (u ''state'') = PStr (tx_name a) \<and> target = tx_name b \<and> Transaction_Allowed a b))
   \<and> allowed_step r target \<noteq> Inl (WL ''CORE_DISAGREEMENT'')"
  using allowed_step_Inr allowed_step_agrees by blast

text \<open>
  The ancestry test is reachability: when it answers, it says yes exactly when the ancestor is
  reached from the descendant over the parents the worlds record. It always answers or reports a world
  that is not found, cycles included.
\<close>
theorem ancestor_is_reachability:
  assumes "is_ancestor ancestor descendant s = Inr b"
  shows "b \<longleftrightarrow> (\<exists>a. ancestor = Some a \<and> (parent_of s)\<^sup>*\<^sup>* descendant a)"
  using assms ancestor_walk_reach [of s _ descendant "[]" b] by (auto simp: is_ancestor_def split: option.splits)

theorem ancestor_is_reachability_witness:
  "True \<longleftrightarrow> (\<exists>a. Some (u ''w'') = Some a \<and> (parent_of sample_prepared)\<^sup>*\<^sup>* (u ''w'') a)"
  by (rule ancestor_is_reachability [of "Some (u ''w'')"]) (simp add: is_ancestor_def ancestor_walk.simps)

end
