(* ===== verification/Decision.thy ===== *)
theory Decision
  imports Transaction Evidence CoreDecide
begin

text \<open>
  \<open>runtime/worldline/transaction.py\<close>, what a promotion is decided on: every identity from the producer
  the code names, absent as \<open>None\<close>, gathered into one question to the kernel. Captures of trees, the
  requirement the live policy imposes, the watcher's readings and the resolved root directories are
  arguments. Decoded dictionaries (the record, its decision inputs, the freshness) are \<open>fields\<close>.
\<close>

section \<open>Identities\<close>

definition identity_of :: "pyval \<Rightarrow> bytes option res" where
  "identity_of v = (case v of
       PStr t \<Rightarrow> if prefixed t (u ''sha256:'') then rbind (hash_bytes_from_id t) (\<lambda>b. Inr (Some b)) else Inr None
     | _ \<Rightarrow> Inr None)"

definition tagged_id :: "(bytes \<Rightarrow> bytes) \<Rightarrow> bytes \<Rightarrow> pyval \<Rightarrow> pystr res" where
  "tagged_id hb tag v = rbind (canonical_bytes v) (\<lambda>data. hash_id (hb (tag @ data)))"

text \<open>\<open>PrimeManager.root_set_hash\<close> (\<open>prime.py\<close>): the registered roots by key.\<close>

definition registered_root_set :: "(bytes \<Rightarrow> bytes) \<Rightarrow> root_row list \<Rightarrow> pystr res" where
  "registered_root_set hb rows =
     tagged_id hb ''worldline-root-set-v1'' (PList (map (\<lambda>r. pdict [(u ''rootKey'', PStr (rt_key r)),
       (u ''pathB64'', PStr (b64encode (rt_path r))), (u ''kind'', PStr (rt_kind r))]) (sort_key rt_key rows)))"

definition watch_set_digest :: "(bytes \<Rightarrow> bytes) \<Rightarrow> (pystr \<times> bytes) list \<Rightarrow> pystr res" where
  "watch_set_digest hb pairs =
     tagged_id hb ''worldline-watch-set-v1''
       (PList (map (\<lambda>(k, p). PList [PStr k, PStr p]) (sort (map (\<lambda>(k, p). (k, b64encode p)) pairs))))"

definition opt_digest :: "('a \<Rightarrow> pystr res) \<Rightarrow> 'a option \<Rightarrow> pystr option res" where
  "opt_digest f v = (case v of None \<Rightarrow> Inr None | Some x \<Rightarrow> rbind (f x) (\<lambda>d. Inr (Some d)))"

definition watch_sets ::
    "(bytes \<Rightarrow> bytes) \<Rightarrow> root_row list \<Rightarrow> (root_row \<Rightarrow> bytes res) \<Rightarrow> (pystr \<times> bytes) list option
       \<Rightarrow> (pystr option \<times> pystr option) res" where
  "watch_sets hb rows source watched =
     (let registered = rmap (\<lambda>r. rbind (source r) (\<lambda>p. Inr (rt_key r, p))) rows;
          live = opt_digest (watch_set_digest hb) watched
      in case registered of
           Inl (WL _) \<Rightarrow> rbind live (\<lambda>w. Inr (None, w))
         | Inl e \<Rightarrow> Inl e
         | Inr pairs \<Rightarrow> rbind live (\<lambda>w. rbind (watch_set_digest hb pairs) (\<lambda>d. Inr (Some d, w))))"

definition subject_digest :: "(bytes \<Rightarrow> bytes) \<Rightarrow> pyval \<Rightarrow> pystr \<Rightarrow> pystr option res" where
  "subject_digest hb instance_id binding =
     (case instance_id of
        PStr t \<Rightarrow> if t = [] then Inr None
          else rbind (tagged_id hb ''worldline-subject-v1'' (PList [PStr t, PStr binding])) (\<lambda>d. Inr (Some d))
      | _ \<Rightarrow> Inr None)"

definition ascii_encode :: "pystr \<Rightarrow> bytes res" where
  "ascii_encode t = rbind (ensure (list_all (\<lambda>c. c < 128) t) ValueError) (\<lambda>_. Inr (map char_of t))"

definition return_binding :: "(bytes \<Rightarrow> bytes) \<Rightarrow> pystr \<Rightarrow> pystr res" where
  "return_binding hb return_of =
     rbind (ascii_encode return_of) (\<lambda>b. hash_id (hb (''worldline-return-v1'' @ b)))"

definition CHECKPOINT :: pyval where
  "CHECKPOINT = PStr (u ''checkpoint-return'')"

definition subject_pair ::
    "(bytes \<Rightarrow> bytes) \<Rightarrow> fields \<Rightarrow> world \<Rightarrow> pystr option \<Rightarrow> (pystr option \<times> pystr option) res" where
  "subject_pair hb freshness candidate return_of =
     (case return_of of
        Some t \<Rightarrow>
          rbind (return_binding hb t) (\<lambda>binding.
          rbind (subject_digest hb (PStr t) binding) (\<lambda>expected.
          rbind (subject_digest hb (if mget freshness (u ''mode'') = CHECKPOINT then PStr t
              else mget freshness (u ''evidenceInstance'')) (w_mission_hash candidate)) (\<lambda>claimed.
          Inr (expected, claimed))))
      | None \<Rightarrow>
          rbind (subject_digest hb (PStr (w_instance_id candidate)) []) (\<lambda>expected.
          rbind (subject_digest hb (mget freshness (u ''evidenceInstance'')) []) (\<lambda>claimed.
          Inr (expected, claimed))))"

section \<open>Foreign writes\<close>

definition foreign_value :: "string \<Rightarrow> string \<Rightarrow> pystr list \<Rightarrow> fields" where
  "foreign_value state measured differing =
     [(PStr (u ''state''), PStr (u state)), (PStr (u ''measuredBy''), PStr (u measured)),
      (PStr (u ''differing''), texts differing)]"

definition compared_components :: "pystr list" where
  "compared_components = [u ''filesystem'', u ''config'', u ''repository'']"

definition foreign_writes_measured ::
    "(bytes \<Rightarrow> bytes) \<Rightarrow> (pystr \<times> captured) list \<Rightarrow> world option \<Rightarrow> world option \<Rightarrow> fields res" where
  "foreign_writes_measured hb live pw candidate =
     (if (case candidate of None \<Rightarrow> False | Some c \<Rightarrow> w_contamination c \<noteq> [])
      then Inr (foreign_value ''FOUND'' ''recorded-contamination'' [u ''contamination''])
      else case pw of
        None \<Rightarrow> Inr (foreign_value ''UNMEASURED'' ''live-capture-vs-prime-record'' [])
      | Some p \<Rightarrow>
          if \<not> list_all (\<lambda>k. dget (w_components p) k \<noteq> None) compared_components
          then Inr (foreign_value ''UNMEASURED'' ''live-capture-vs-prime-record'' [])
          else rbind (component_roots hb (map snd live)) (\<lambda>now.
               let differing = filter (\<lambda>k. dget now k \<noteq> dget (w_components p) k) compared_components
               in Inr (foreign_value (if differing = [] then ''NONE_FOUND'' else ''FOUND'')
                    ''live-capture-vs-prime-record'' differing)))"

text \<open>A measured difference nothing reported is recorded, so that a retry can reconcile it.\<close>

definition note_unaccounted_write :: "(bytes \<Rightarrow> bytes) \<Rightarrow> pystr \<Rightarrow> world option \<Rightarrow> fields \<Rightarrow> unit sact" where
  "note_unaccounted_write hb now pw measurement =
     (case pw of
        None \<Rightarrow> ret ()
      | Some p \<Rightarrow>
          if mget measurement (u ''measuredBy'') \<noteq> PStr (u ''live-capture-vs-prime-record'') then ret ()
          else sbind (set_meta (u ''dirty'') (PBool True)) (\<lambda>_.
               sbind (lift (iter_or_empty (mget measurement (u ''differing'')))) (\<lambda>names.
               sbind (append_causal_event hb now (pdict [(u ''schemaVersion'', PInt 1),
                 (u ''worldInstance'', PStr (w_instance_id p)), (u ''kind'', PStr (u ''unaccounted-write'')),
                 (u ''actor'', PStr (u ''worldline'')),
                 (u ''reason'', PStr (u ''live PRIME differs from its record: ''
                   @ join (u '', '') (map py_str names)))]))
                 (\<lambda>_. ret ()))))"

definition reported_contamination :: "world \<Rightarrow> fields \<Rightarrow> pyval list res" where
  "reported_contamination candidate foreign =
     (if mget foreign (u ''state'') = PStr (u ''FOUND'')
         \<and> mget foreign (u ''measuredBy'') = PStr (u ''live-capture-vs-prime-record'')
      then rbind (iter_or_empty (mget foreign (u ''differing''))) (\<lambda>names.
           Inr (w_contamination candidate @ [pdict [(u ''measuredBy'', mget foreign (u ''measuredBy'')),
             (u ''differing'', PList names)]]))
      else Inr (w_contamination candidate))"

section \<open>What was tested\<close>

definition tested_content ::
    "(bytes \<Rightarrow> bytes) \<Rightarrow> fields \<Rightarrow> (pystr \<times> captured) list \<Rightarrow> bool
       \<Rightarrow> (pystr \<times> captured) list option res
       \<Rightarrow> (pystr option \<times> (pystr \<times> captured) list option \<times> pystr) res" where
  "tested_content hb freshness manifests declared finalized =
     (case mget freshness (u ''examinedContentRoot'') of
        PStr examined \<Rightarrow>
          rbind (if declared then rbind (content_root_set hb manifests) (\<lambda>c. Inr (c = examined)) else Inr False)
            (\<lambda>same. Inr (Some examined, if same then Some manifests else None, u ''evaluation-examined-root''))
      | _ \<Rightarrow>
          if mget freshness (u ''mode'') = PStr (u ''re-application'')
          then rbind finalized (\<lambda>f. case f of
                 None \<Rightarrow> Inr (None, None, u ''finalized-manifests-missing'')
               | Some ms \<Rightarrow> rbind (content_root_set hb ms) (\<lambda>c. Inr (Some c, Some ms, u ''finalized-manifests'')))
          else if \<not> declared then Inr (None, None, u ''declared-manifests-missing'')
          else rbind (content_root_set hb manifests) (\<lambda>c. Inr (Some c, Some manifests, u ''declared-manifests'')))"

section \<open>The verifiers declared and executed\<close>

definition declared_bundle_of :: "pyval \<Rightarrow> (pystr \<times> pystr \<times> pystr \<times> pystr) res" where
  "declared_bundle_of entry =
     rbind (req AttributeError (as_map entry)) (\<lambda>e.
     Inr (py_str (mget e (u ''checkId'')), py_str (mget e (u ''rootKey'')), py_str (mget e (u ''path'')),
       py_str (mget e (u ''sha256''))))"

definition declared_bundles :: "fields \<Rightarrow> (pystr \<times> pystr \<times> pystr \<times> pystr) list res" where
  "declared_bundles current =
     rbind (iter_or_empty (mget current (u ''verifiers''))) (rmap declared_bundle_of)"

definition expected_member ::
    "(bytes \<Rightarrow> bytes) \<Rightarrow> (pystr \<times> pystr \<times> pystr \<times> pystr) list \<Rightarrow> pystr \<Rightarrow> (pystr \<times> pystr \<times> pystr) res" where
  "expected_member hb declared i =
     (let bundle = map snd (filter (\<lambda>b. fst b = i) declared) in
      rbind (if bundle = [] then NO_BUNDLE_IDENTITY hb else bundle_identity hb bundle) (\<lambda>d. Inr ([], i, d)))"

definition declared_verifiers_of :: "(bytes \<Rightarrow> bytes) \<Rightarrow> fields \<Rightarrow> pystr res" where
  "declared_verifiers_of hb current =
     rbind (required_roster (PDict current)) (\<lambda>(required, _).
     rbind (declared_bundles current) (\<lambda>declared.
     rbind (rmap (expected_member hb declared) required) (bundle_identity hb)))"

text \<open>
  The executed identity of one check: absent when the check was refused or its record does not state
  what it ran.
\<close>

definition actual_member ::
    "(bytes \<Rightarrow> bytes) \<Rightarrow> pystr list \<Rightarrow> (pystr \<times> pyval) list \<Rightarrow> pystr \<Rightarrow> (pystr \<times> pystr \<times> pystr) option res" where
  "actual_member hb refused recorded i =
     (case Option.bind (dget recorded i) as_map of
        None \<Rightarrow> Inr None
      | Some r \<Rightarrow>
          if i \<in> set refused then Inr None
          else (case as_map (mget r (u ''executedVerifierSet'')) of
              Some executed \<Rightarrow> Inr (case mget executed (u ''identity'') of
                  PStr d \<Rightarrow> if d = [] then None else Some ([], i, d)
                | _ \<Rightarrow> None)
            | None \<Rightarrow>
                if (mhas r (u ''executedVerifierSet'') \<and> mget r (u ''executedVerifierSet'') = PNone)
                   \<or> mget r (u ''origin'') = PStr (u ''engine'')
                then rbind (NO_BUNDLE_IDENTITY hb) (\<lambda>d. Inr (Some ([], i, d)))
                else Inr None))"

definition all_present :: "'a option list \<Rightarrow> 'a list option" where
  "all_present xs = (if list_all (\<lambda>x. x \<noteq> None) xs then Some (map the xs) else None)"

definition agent_record_of :: "world \<Rightarrow> (pyval option \<times> bool) res" where
  "agent_record_of subject =
     rbind (iter_or_empty (mget (map_or_empty (w_evidence subject)) (u ''checks''))) (\<lambda>checks.
     let found = List.find (\<lambda>c. is_map c \<and> mget (map_or_empty c) (u ''id'') = PStr (u ''agent'')) checks;
         (record, legacy) = runner_agent_record (case found of None \<Rightarrow> PNone | Some c \<Rightarrow> c)
     in Inr (if is_map record \<and> mget (map_or_empty record) (u ''origin'') = PStr (u ''agent'')
             then Some record else None, legacy))"

definition recorded_checks :: "pyval list \<Rightarrow> (pystr \<times> pyval) list" where
  "recorded_checks checks =
     dbuild (map (\<lambda>c. (py_str (mget (map_or_empty c) (u ''id'')), c)) (filter is_map checks))"

definition agent_declaration :: "(pystr \<times> check_declaration) list" where
  "agent_declaration = [(u ''agent'', the (dget ENGINE_DECLARATIONS (u ''agent'')))]"

record executed_roster =
  ex_complete :: bool
  ex_expected :: pystr
  ex_actual :: "pystr option"
  ex_problems :: "pystr list"
  ex_required :: "pystr list"
  ex_empty_declared :: bool
  ex_legacy_agent :: bool

definition execution_identity ::
    "(bytes \<Rightarrow> bytes) \<Rightarrow> world \<Rightarrow> fields \<Rightarrow> pyval list \<Rightarrow> executed_roster res" where
  "execution_identity hb subject current checks =
     rbind (required_roster (PDict current)) (\<lambda>(required, empty_declared).
     rbind (check_declarations (PDict current)) (\<lambda>declarations.
     rbind (agent_record_of subject) (\<lambda>(agent_record, legacy).
     rbind (roster_decision hb [u ''agent''] (case agent_record of None \<Rightarrow> [] | Some r \<Rightarrow> [(u ''agent'', r)])
       agent_declaration False) (\<lambda>agent.
     rbind (declared_bundles current) (\<lambda>declared.
     let recorded = recorded_checks checks in
     rbind (roster_decision hb required recorded declarations empty_declared) (\<lambda>roster.
     rbind (rmap (expected_member hb declared) required) (\<lambda>expected_members.
     rbind (rmap (actual_member hb (dkeys (rv_refused roster)) recorded) required) (\<lambda>actual_members.
     rbind (bundle_identity hb expected_members) (\<lambda>expected.
     rbind (opt_digest (bundle_identity hb) (all_present actual_members)) (\<lambda>actual.
     Inr \<lparr>ex_complete = rv_complete roster \<and> rv_complete agent,
          ex_expected = expected, ex_actual = actual,
          ex_problems = map (\<lambda>(i, reason). i @ u '': '' @ reason) (dbuild (rv_refused agent @ rv_refused roster))
            @ (if \<not> rv_complete roster \<and> required = []
               then [u ''no .worldline.json declares what a collapse requires; add one (\"checks\": [] declares that nothing is required)'']
               else []),
          ex_required = u ''agent'' # required, ex_empty_declared = empty_declared, ex_legacy_agent = legacy\<rparr>))))))))))"

definition execution_value :: "executed_roster \<Rightarrow> pyval" where
  "execution_value e = pdict [(u ''complete'', PBool (ex_complete e)), (u ''expected'', PStr (ex_expected e)),
     (u ''actual'', opt_str (ex_actual e)), (u ''mode'', PStr (u ''candidate-evaluation'')),
     (u ''problems'', texts (ex_problems e)), (u ''requiredChecks'', texts (ex_required e)),
     (u ''emptyDeclared'', PBool (ex_empty_declared e)), (u ''legacyAgentRecord'', PBool (ex_legacy_agent e))]"

definition staged_block :: "(bytes \<Rightarrow> bytes) \<Rightarrow> world \<Rightarrow> fields \<Rightarrow> fields option \<Rightarrow> pyval res" where
  "staged_block hb subject current staged =
     (case staged of
        None \<Rightarrow> Inr (pdict [(u ''ran'', PBool False), (u ''evaluatedRequirement'', PNone),
          (u ''rosterComplete'', PBool False), (u ''executedVerifiers'', PNone), (u ''examinedRoot'', PNone)])
      | Some s \<Rightarrow>
          rbind (iter_or_empty (mget s (u ''results''))) (\<lambda>results.
          rbind (execution_identity hb subject current results) (\<lambda>e.
          Inr (pdict [(u ''ran'', PBool True), (u ''validationId'', mget s (u ''validationId'')),
            (u ''evaluatedRequirement'', mget s (u ''requirementHash'')),
            (u ''rosterComplete'', PBool (ex_complete e)), (u ''executedVerifiers'', opt_str (ex_actual e)),
            (u ''examinedRoot'', mget s (u ''examinedContentRoot'')), (u ''problems'', texts (ex_problems e))]))))"

section \<open>The question to the kernel\<close>

text \<open>
  Two identities that are both absent are never equal for the kernel, and an input that cannot be read
  is absent here. \<open>inputs["absent"]\<close> lists the absent ones by name.
\<close>

record question =
  qn_phase :: pystr
  qn_mode :: pyval
  qn_candidate :: world
  qn_subject :: world
  qn_expected_parent :: pyval
  qn_base_root :: pyval
  qn_delta_hash :: pyval
  qn_root_set :: pyval
  qn_expected_staged :: pyval
  qn_actual_staged :: pyval
  qn_staged_content :: pyval
  qn_conflicts :: bool
  qn_requirement :: pyval
  qn_inputs :: fields
  qn_witness :: pyval

definition sub_fields :: "fields \<Rightarrow> string \<Rightarrow> fields" where
  "sub_fields inputs key = map_or_empty (mget inputs (u key))"

definition counter_of :: "pyval \<Rightarrow> int option" where
  "counter_of v = (case v of PInt i \<Rightarrow> Some i | _ \<Rightarrow> None)"

definition foreign_state_of :: "fields \<Rightarrow> pystr res" where
  "foreign_state_of inputs =
     rbind (pget (or_empty (mget inputs (u ''foreignWrites''))) (u ''state'') PNone) (\<lambda>v.
     Inr (if truthy v then py_str v else u ''UNMEASURED''))"

definition unless :: "bool \<Rightarrow> bytes option res \<Rightarrow> bytes option res" where
  "unless b m = (if b then Inr None else m)"

definition question_of :: "question \<Rightarrow> collapse_input res" where
  "question_of q =
     (let checkpoint = (qn_mode q = CHECKPOINT);
          primary = sub_fields (qn_inputs q) ''primary'';
          staged = sub_fields (qn_inputs q) ''staged'';
          generations = sub_fields (qn_inputs q) ''generations'';
          watch = sub_fields (qn_inputs q) ''watchSets'';
          get = (\<lambda>d k. identity_of (mget d (u k)))
      in
      rbind (foreign_state_of (qn_inputs q)) (\<lambda>foreign.
      rbind (identity_of (qn_expected_parent q)) (\<lambda>expected_parent.
      rbind (identity_of (PStr (w_parent_content (qn_candidate q)))) (\<lambda>candidate_parent.
      rbind (get (qn_inputs q) ''expectedSubject'') (\<lambda>expected_subject.
      rbind (get (qn_inputs q) ''evidenceSubject'') (\<lambda>evidence_subject.
      rbind (identity_of (PStr (w_base_root (qn_candidate q)))) (\<lambda>expected_base.
      rbind (identity_of (qn_base_root q)) (\<lambda>candidate_base.
      rbind (identity_of (opt_str (w_delta_hash (qn_candidate q)))) (\<lambda>expected_delta.
      rbind (identity_of (qn_delta_hash q)) (\<lambda>candidate_delta.
      rbind (identity_of (qn_root_set q)) (\<lambda>expected_root_set.
      rbind (identity_of (PStr (w_root_set_hash (qn_candidate q)))) (\<lambda>candidate_root_set.
      rbind (identity_of (qn_expected_staged q)) (\<lambda>expected_staged.
      rbind (unless (qn_phase q = u ''PREPARE'') (identity_of (qn_actual_staged q))) (\<lambda>actual_staged.
      rbind (identity_of (qn_staged_content q)) (\<lambda>staged_content.
      rbind (get (qn_inputs q) ''testedRoot'') (\<lambda>tested.
      rbind (identity_of (qn_requirement q)) (\<lambda>current.
      rbind (unless checkpoint (get primary ''evaluatedRequirement'')) (\<lambda>evaluated.
      rbind (get primary ''declaredVerifiers'') (\<lambda>declared.
      rbind (unless checkpoint (get primary ''executedVerifiers'')) (\<lambda>executed.
      rbind (get staged ''evaluatedRequirement'') (\<lambda>staged_evaluated.
      rbind (get staged ''executedVerifiers'') (\<lambda>staged_executed.
      rbind (get staged ''examinedRoot'') (\<lambda>staged_examined.
      rbind (unless (\<not> checkpoint) (identity_of (opt_str (w_content_id (qn_subject q))))) (\<lambda>expected_check.
      rbind (unless (\<not> checkpoint) (get (map_or_empty (or_empty (qn_witness q))) ''witnessed'')) (\<lambda>witnessed.
      rbind (get watch ''registered'') (\<lambda>registered.
      rbind (get watch ''watched'') (\<lambda>watched.
      Inr \<lparr>candidate_state = state_name (w_state (qn_candidate q)), phase_of = qn_phase q,
        mode_of = (if checkpoint then u ''CHECKPOINT_RETURN'' else u ''CANDIDATE_EVALUATION''),
        conflicts_of = (if qn_conflicts q then u ''FOUND''
          else if mget (qn_inputs q) (u ''conflictsMeasured'') = PBool True then u ''NONE_FOUND'' else u ''UNMEASURED''),
        foreign_writes = foreign,
        roster_complete = (\<not> checkpoint \<and> mget primary (u ''rosterComplete'') = PBool True),
        staged_roster_complete = (mget staged (u ''rosterComplete'') = PBool True),
        expected_parent = expected_parent, candidate_parent = candidate_parent,
        expected_subject = expected_subject, evidence_subject = evidence_subject,
        expected_base = expected_base, candidate_base = candidate_base,
        expected_delta = expected_delta, candidate_delta = candidate_delta,
        expected_root_set = expected_root_set, candidate_root_set = candidate_root_set,
        expected_staged_root = expected_staged, actual_staged_root = actual_staged,
        staged_content_root = staged_content, tested_root = tested,
        current_requirement = current, evaluated_requirement = evaluated,
        declared_verifiers = declared, executed_verifiers = executed,
        staged_evaluated_requirement = staged_evaluated, staged_executed_verifiers = staged_executed,
        staged_examined_root = staged_examined,
        expected_checkpoint = expected_check, witnessed_checkpoint = witnessed,
        registered_watch_set = registered, watched_set = watched,
        generation_before = counter_of (mget generations (u ''before'')),
        generation_after = counter_of (mget generations (u ''after''))\<rparr>)))))))))))))))))))))))))))"

definition absent_inputs :: "collapse_input \<Rightarrow> pystr list" where
  "absent_inputs v =
     sort (map fst (filter (\<lambda>(_, missing). missing)
       (zip (map u [''expected_parent'', ''candidate_parent'', ''expected_subject'', ''evidence_subject'',
           ''expected_base'', ''candidate_base'', ''expected_delta'', ''candidate_delta'', ''expected_root_set'',
           ''candidate_root_set'', ''expected_staged_root'', ''actual_staged_root'', ''staged_content_root'',
           ''tested_root'', ''current_requirement'', ''evaluated_requirement'', ''declared_verifiers'',
           ''executed_verifiers'', ''staged_evaluated_requirement'', ''staged_executed_verifiers'',
           ''staged_examined_root'', ''expected_checkpoint'', ''witnessed_checkpoint'',
           ''registered_watch_set'', ''watched_set'', ''generation_before'', ''generation_after''])
         (map (\<lambda>x. x = None) (hash_values v)
           @ [generation_before v = None, generation_after v = None]))))"

definition decide :: "question \<Rightarrow> (pystr \<times> fields) res" where
  "decide q =
     rbind (question_of q) (\<lambda>v.
     rbind (collapse_decide v) (\<lambda>decision.
     Inr (decision, dset (PStr (u ''absent'')) (texts (absent_inputs v)) (qn_inputs q))))"

section \<open>Freshness of the evidence\<close>

definition witness_value :: "witness option \<Rightarrow> pyval" where
  "witness_value w = (case w of None \<Rightarrow> PNone
     | Some x \<Rightarrow> pdict [(u ''source'', PStr (ws_source x)), (u ''expected'', PStr (ws_expected x)),
         (u ''witnessed'', opt_str (ws_witnessed x))])"

definition policy_source :: "fields \<Rightarrow> pyval res" where
  "policy_source current =
     rbind (pitem (PDict current) (u ''policy'')) (\<lambda>policy. pget policy (u ''sourceSha256'') PNone)"

text \<open>The evidence that speaks for a world, refused unless it is intact and of the live requirement.\<close>

definition fresh_context :: "(bytes \<Rightarrow> bytes) \<Rightarrow> fields \<Rightarrow> pyval \<Rightarrow> fields res" where
  "fresh_context hb current context =
     rbind (verify_context hb context None) (\<lambda>v.
     let ctx = map_or_empty v in
     rbind (ensure (\<not> truthy (mget ctx (u ''verifiersModifiedByCandidate'')))
       (WL ''VERIFIER_MODIFIED_BY_CANDIDATE'')) (\<lambda>_.
     rbind (pitem v (u ''requirementHash'')) (\<lambda>recorded.
     rbind (pitem (PDict current) (u ''requirementHash'')) (\<lambda>live.
     if recorded = live then Inr ctx
     else rbind (pitem v (u ''requirement'')) (\<lambda>requirement.
          rbind (differences requirement (PDict current)) (\<lambda>_.
          Inl (WL ''EVIDENCE_STALE'')))))))"

text \<open>A refusal is recorded on the causal log; \<open>report\<close> is what the exception reports beside its code.\<close>

definition refusing ::
    "(bytes \<Rightarrow> bytes) \<Rightarrow> pystr \<Rightarrow> (exc \<Rightarrow> pyval) \<Rightarrow> world \<Rightarrow> pystr \<Rightarrow> 'a res \<Rightarrow> 'a sact" where
  "refusing hb now report subject kind outcome =
     (case outcome of
        Inr x \<Rightarrow> ret x
      | Inl (WL code) \<Rightarrow>
          sbind (append_causal_event hb now (pdict [(u ''schemaVersion'', PInt 1),
            (u ''worldInstance'', PStr (w_instance_id subject)), (u ''kind'', PStr (u ''promotion-refused'')),
            (u ''actor'', PStr (u ''worldline'')), (u ''reason'', PStr (u code)),
            (u ''details'', report (WL code)), (u ''transactionKind'', PStr kind)])) (\<lambda>_. raise (WL code))
      | Inl e \<Rightarrow> raise e)"

definition subject_of :: "world \<Rightarrow> pystr option \<Rightarrow> world sact" where
  "subject_of candidate return_of =
     (case return_of of
        None \<Rightarrow> ret candidate
      | Some t \<Rightarrow> if t = [] then ret candidate
          else sbind (gets (world_get t)) (\<lambda>w. lift w))"

definition checkpoint_freshness :: "(bytes \<Rightarrow> bytes) \<Rightarrow> fields \<Rightarrow> world \<Rightarrow> fields sact" where
  "checkpoint_freshness hb current subject =
     sbind (lift (pitem (PDict current) (u ''requirementHash''))) (\<lambda>h.
     sbind (lift (policy_source current)) (\<lambda>policy.
     sbind (checkpoint_witness subject) (\<lambda>w.
     sbind (lift (declared_verifiers_of hb current)) (\<lambda>declared.
     ret (map (\<lambda>(k, v). (PStr (u k), v)) [(''mode'', CHECKPOINT), (''requirementHash'', h),
       (''candidateRequirementHash'', PNone), (''policySourceSha256'', policy),
       (''subject'', PStr (w_instance_id subject)), (''contextHash'', PNone), (''source'', PNone),
       (''witness'', witness_value w), (''current'', PDict current),
       (''execution'', pdict [(u ''complete'', PBool False), (u ''expected'', PStr declared),
          (u ''actual'', PNone), (u ''mode'', PStr (u ''no-candidate-evaluation'')),
          (u ''problems'', PList []), (u ''requiredChecks'', PList [])])])))))"

definition evaluated_freshness ::
    "(bytes \<Rightarrow> bytes) \<Rightarrow> pystr \<Rightarrow> (exc \<Rightarrow> pyval) \<Rightarrow> fields \<Rightarrow> pystr \<Rightarrow> world \<Rightarrow> fields sact" where
  "evaluated_freshness hb now report current kind subject =
     sbind (gets (\<lambda>s. effective_evidence s subject)) (\<lambda>e. sbind (lift e) (\<lambda>(context, source, checks).
     sbind (refusing hb now report subject kind
       (fresh_context hb current (case context of None \<Rightarrow> PNone | Some c \<Rightarrow> c))) (\<lambda>ctx.
     sbind (lift (pitem (PDict current) (u ''requirementHash''))) (\<lambda>h.
     sbind (lift (pitem (PDict ctx) (u ''contextHash''))) (\<lambda>context_hash.
     sbind (lift (policy_source current)) (\<lambda>policy.
     sbind (lift (pget (or_empty (mget ctx (u ''candidate''))) (u ''instanceId'') PNone)) (\<lambda>bound.
     sbind (lift (execution_identity hb subject current checks)) (\<lambda>x.
     ret (map (\<lambda>(k, v). (PStr (u k), v))
       [(''mode'', PStr (if kind = u ''return'' then u ''re-application'' else u ''collapse'')),
        (''requirementHash'', h), (''candidateRequirementHash'', mget ctx (u ''requirementHash'')),
        (''contextHash'', context_hash), (''source'', PStr source), (''policySourceSha256'', policy),
        (''subject'', PStr (w_instance_id subject)), (''evaluatedAt'', mget ctx (u ''evaluatedAt'')),
        (''evidenceInstance'', bound), (''examinedContentRoot'', mget ctx (u ''examinedContentRoot'')),
        (''current'', PDict current), (''execution'', execution_value x)])))))))))"

definition freshness_of ::
    "(bytes \<Rightarrow> bytes) \<Rightarrow> pystr \<Rightarrow> (exc \<Rightarrow> pyval) \<Rightarrow> fields res \<Rightarrow> world \<Rightarrow> pystr \<Rightarrow> pystr option \<Rightarrow> fields sact" where
  "freshness_of hb now report requirement candidate kind return_of =
     sbind (lift requirement) (\<lambda>current.
     sbind (subject_of candidate return_of) (\<lambda>subject.
     if kind = u ''return'' \<and> w_actor subject = u ''worldline''
     then checkpoint_freshness hb current subject
     else evaluated_freshness hb now report current kind subject))"

end
