(* ===== verification/Decision_Laws.thy ===== *)
theory Decision_Laws
  imports Decision Transaction_Laws
begin

text \<open>
  What an authorized promotion means in the runtime's own terms: every identity the record states and
  every identity measured at the decision is present, is a digest, and is the same on both sides.
\<close>

section \<open>The question and the record it is asked of\<close>

lemma question_facts:
  assumes "question_of q = Inr v"
  shows "identity_of (qn_expected_parent q) = Inr (expected_parent v)
    \<and> identity_of (PStr (w_parent_content (qn_candidate q))) = Inr (candidate_parent v)
    \<and> identity_of (mget (qn_inputs q) (u ''expectedSubject'')) = Inr (expected_subject v)
    \<and> identity_of (mget (qn_inputs q) (u ''evidenceSubject'')) = Inr (evidence_subject v)
    \<and> identity_of (PStr (w_base_root (qn_candidate q))) = Inr (expected_base v)
    \<and> identity_of (qn_base_root q) = Inr (candidate_base v)
    \<and> identity_of (opt_str (w_delta_hash (qn_candidate q))) = Inr (expected_delta v)
    \<and> identity_of (qn_delta_hash q) = Inr (candidate_delta v)
    \<and> identity_of (qn_root_set q) = Inr (expected_root_set v)
    \<and> identity_of (PStr (w_root_set_hash (qn_candidate q))) = Inr (candidate_root_set v)
    \<and> identity_of (qn_expected_staged q) = Inr (expected_staged_root v)
    \<and> unless (qn_phase q = u ''PREPARE'') (identity_of (qn_actual_staged q)) = Inr (actual_staged_root v)
    \<and> identity_of (qn_staged_content q) = Inr (staged_content_root v)
    \<and> identity_of (mget (qn_inputs q) (u ''testedRoot'')) = Inr (tested_root v)
    \<and> identity_of (qn_requirement q) = Inr (current_requirement v)
    \<and> unless (qn_mode q = CHECKPOINT) (identity_of (mget (sub_fields (qn_inputs q) ''primary'') (u ''evaluatedRequirement'')))
        = Inr (evaluated_requirement v)
    \<and> identity_of (mget (sub_fields (qn_inputs q) ''primary'') (u ''declaredVerifiers'')) = Inr (declared_verifiers v)
    \<and> unless (qn_mode q = CHECKPOINT) (identity_of (mget (sub_fields (qn_inputs q) ''primary'') (u ''executedVerifiers'')))
        = Inr (executed_verifiers v)
    \<and> identity_of (mget (sub_fields (qn_inputs q) ''staged'') (u ''evaluatedRequirement'')) = Inr (staged_evaluated_requirement v)
    \<and> identity_of (mget (sub_fields (qn_inputs q) ''staged'') (u ''executedVerifiers'')) = Inr (staged_executed_verifiers v)
    \<and> identity_of (mget (sub_fields (qn_inputs q) ''staged'') (u ''examinedRoot'')) = Inr (staged_examined_root v)
    \<and> unless (qn_mode q \<noteq> CHECKPOINT) (identity_of (opt_str (w_content_id (qn_subject q)))) = Inr (expected_checkpoint v)
    \<and> unless (qn_mode q \<noteq> CHECKPOINT) (identity_of (mget (map_or_empty (or_empty (qn_witness q))) (u ''witnessed'')))
        = Inr (witnessed_checkpoint v)
    \<and> identity_of (mget (sub_fields (qn_inputs q) ''watchSets'') (u ''registered'')) = Inr (registered_watch_set v)
    \<and> identity_of (mget (sub_fields (qn_inputs q) ''watchSets'') (u ''watched'')) = Inr (watched_set v)"
  using assms unfolding question_of_def Let_def rbind_Inr_iff sum.inject
  by (elim exE conjE) (hypsubst, simp)

lemma question_flags:
  assumes "question_of q = Inr v"
  shows "candidate_state v = state_name (w_state (qn_candidate q)) \<and> phase_of v = qn_phase q
    \<and> mode_of v = (if qn_mode q = CHECKPOINT then u ''CHECKPOINT_RETURN'' else u ''CANDIDATE_EVALUATION'')
    \<and> conflicts_of v = (if qn_conflicts q then u ''FOUND''
          else if mget (qn_inputs q) (u ''conflictsMeasured'') = PBool True then u ''NONE_FOUND'' else u ''UNMEASURED'')
    \<and> foreign_state_of (qn_inputs q) = Inr (foreign_writes v)
    \<and> roster_complete v = (qn_mode q \<noteq> CHECKPOINT
         \<and> mget (sub_fields (qn_inputs q) ''primary'') (u ''rosterComplete'') = PBool True)
    \<and> staged_roster_complete v = (mget (sub_fields (qn_inputs q) ''staged'') (u ''rosterComplete'') = PBool True)
    \<and> generation_before v = counter_of (mget (sub_fields (qn_inputs q) ''generations'') (u ''before''))
    \<and> generation_after v = counter_of (mget (sub_fields (qn_inputs q) ''generations'') (u ''after''))"
  using assms unfolding question_of_def Let_def rbind_Inr_iff sum.inject
  by (elim exE conjE) (hypsubst, simp)

definition same_id :: "pyval \<Rightarrow> pyval \<Rightarrow> bool" where
  "same_id a b \<longleftrightarrow> (\<exists>d. identity_of a = Inr (Some d) \<and> identity_of b = Inr (Some d))"

lemma same_id_Same: "Same x y \<Longrightarrow> identity_of a = Inr x \<Longrightarrow> identity_of b = Inr y \<Longrightarrow> same_id a b"
  by (auto simp: Same_iff same_id_def)

lemma decide_Inr: "decide q = Inr (d, inputs) \<Longrightarrow> \<exists>v. question_of q = Inr v \<and> collapse_decide v = Inr d"
  by (auto simp: decide_def rbind_Inr_iff)

lemma counter_of_Some: "counter_of x = Some i \<longleftrightarrow> x = PInt i"
  by (cases x) (simp_all add: counter_of_def)

lemma measured_none: "measurement_of s = None_Found \<longleftrightarrow> s = u ''NONE_FOUND''"
  by (simp add: measurement_of_def)

lemma Same_generations:
  assumes "Same (map_option of_int a) (map_option of_int b :: 64 word option)"
    and "typed_counter a" and "typed_counter b"
  shows "\<exists>g. a = Some g \<and> b = Some g \<and> 0 \<le> g \<and> g < 2 ^ 64"
proof -
  from assms(1) obtain i j where ij: "a = Some i" "b = Some j" "(of_int i :: 64 word) = of_int j"
    by (auto simp: Same_def split: option.splits)
  then have "i mod 2 ^ 64 = j mod 2 ^ 64"
    by (simp add: word_of_int_eq_iff take_bit_eq_mod)
  moreover have "0 \<le> i" "i < 2 ^ 64" "0 \<le> j" "j < 2 ^ 64"
    using assms(2,3) ij(1,2) by (simp_all add: typed_counter_def)
  ultimately show ?thesis using ij by simp
qed

lemma state_of_name: "world_states ! the (dget STATE_CODES (state_name w)) = w"
  by (cases w) (simp_all add: STATE_CODES_def world_states_def)

definition covered_bytes :: "question \<Rightarrow> bool" where
  "covered_bytes q \<longleftrightarrow> same_id (mget (qn_inputs q) (u ''testedRoot'')) (qn_staged_content q)
    \<or> (mget (sub_fields (qn_inputs q) ''staged'') (u ''rosterComplete'') = PBool True
       \<and> same_id (qn_requirement q) (mget (sub_fields (qn_inputs q) ''staged'') (u ''evaluatedRequirement''))
       \<and> same_id (mget (sub_fields (qn_inputs q) ''primary'') (u ''declaredVerifiers''))
           (mget (sub_fields (qn_inputs q) ''staged'') (u ''executedVerifiers''))
       \<and> same_id (mget (sub_fields (qn_inputs q) ''staged'') (u ''examinedRoot'')) (qn_staged_content q))"

definition evidence_applies :: "question \<Rightarrow> bool" where
  "evidence_applies q \<longleftrightarrow>
     (if qn_mode q = CHECKPOINT
      then same_id (opt_str (w_content_id (qn_subject q))) (mget (map_or_empty (or_empty (qn_witness q))) (u ''witnessed''))
      else mget (sub_fields (qn_inputs q) ''primary'') (u ''rosterComplete'') = PBool True
        \<and> same_id (qn_requirement q) (mget (sub_fields (qn_inputs q) ''primary'') (u ''evaluatedRequirement''))
        \<and> same_id (mget (sub_fields (qn_inputs q) ''primary'') (u ''declaredVerifiers''))
            (mget (sub_fields (qn_inputs q) ''primary'') (u ''executedVerifiers'')))"

definition world_agrees :: "question \<Rightarrow> bool" where
  "world_agrees q \<longleftrightarrow> w_state (qn_candidate q) = VALID
     \<and> same_id (qn_expected_parent q) (PStr (w_parent_content (qn_candidate q)))
     \<and> same_id (mget (qn_inputs q) (u ''expectedSubject'')) (mget (qn_inputs q) (u ''evidenceSubject''))
     \<and> same_id (PStr (w_base_root (qn_candidate q))) (qn_base_root q)
     \<and> same_id (opt_str (w_delta_hash (qn_candidate q))) (qn_delta_hash q)
     \<and> same_id (qn_root_set q) (PStr (w_root_set_hash (qn_candidate q)))"

definition prime_still :: "question \<Rightarrow> bool" where
  "prime_still q \<longleftrightarrow> foreign_state_of (qn_inputs q) = Inr (u ''NONE_FOUND'')
     \<and> same_id (mget (sub_fields (qn_inputs q) ''watchSets'') (u ''registered''))
         (mget (sub_fields (qn_inputs q) ''watchSets'') (u ''watched''))
     \<and> (\<exists>g. 0 \<le> g \<and> g < 2 ^ 64 \<and> mget (sub_fields (qn_inputs q) ''generations'') (u ''before'') = PInt g
          \<and> mget (sub_fields (qn_inputs q) ''generations'') (u ''after'') = PInt g)"

lemma decide_authorized:
  assumes "decide q = Inr (u ''AUTHORIZED'', inputs)"
  shows "world_agrees q \<and> prime_still q \<and> evidence_applies q \<and> covered_bytes q
    \<and> \<not> qn_conflicts q \<and> mget (qn_inputs q) (u ''conflictsMeasured'') = PBool True
    \<and> (qn_phase q = u ''COMMIT'' \<longrightarrow> same_id (qn_expected_staged q) (qn_actual_staged q))"
proof -
  from decide_Inr [OF assms] obtain v where v: "question_of q = Inr v" and "collapse_decide v = Inr (u ''AUTHORIZED'')"
    by blast
  then have typed: "typed_input v" and all: "All_Hold (request_of v)"
    by (simp_all add: collapse_decide_authorized)
  note facts = question_facts [OF v] note flags = question_flags [OF v]
  have hold: "Same (expected_parent v) (candidate_parent v)" "Same (expected_subject v) (evidence_subject v)"
      "Same (expected_base v) (candidate_base v)" "Same (expected_delta v) (candidate_delta v)"
      "Same (expected_root_set v) (candidate_root_set v)"
      "Same (registered_watch_set v) (watched_set v)"
      "Same (map_option of_int (generation_before v)) (map_option of_int (generation_after v) :: 64 word option)"
      "measurement_of (conflicts_of v) = None_Found" "measurement_of (foreign_writes v) = None_Found"
    using all by (simp_all add: All_Hold_def request_of_def)
  have held: "Staged_Root_Holds (request_of v)" "Evidence_Holds (request_of v)"
      "Candidate_State (request_of v) = VALID"
    using all by (simp_all add: All_Hold_def)
  have world: "world_agrees q"
    using hold(1-5) held(3) facts flags same_id_Same by (auto simp: world_agrees_def request_of_def state_of_name)
  have "\<exists>g. generation_before v = Some g \<and> generation_after v = Some g \<and> 0 \<le> g \<and> g < 2 ^ 64"
    using Same_generations [OF hold(7)] typed by (simp add: typed_input_def)
  then have still: "prime_still q"
    using hold(6,9) facts flags same_id_Same by (auto simp: prime_still_def measured_none counter_of_Some)
  have cover: "covered_bytes q"
    using held(2) facts flags same_id_Same
    by (auto simp: Evidence_Holds_def Covered_def Primary_Covers_def Staged_Covers_def covered_bytes_def request_of_def)
  have evidence: "evidence_applies q"
    using held(2) facts flags same_id_Same
    by (auto simp: Evidence_Holds_def evidence_applies_def request_of_def unless_def split: if_splits)
  have commit: "qn_phase q = u ''COMMIT'' \<longrightarrow> same_id (qn_expected_staged q) (qn_actual_staged q)"
    using held(1) facts flags same_id_Same
    by (auto simp: Staged_Root_Holds_def request_of_def unless_def)
  show ?thesis
    using world still cover evidence commit hold(8) flags by (auto simp: measured_none split: if_splits)
qed

section \<open>A question the kernel authorizes\<close>

lemma identity_of_PNone: "identity_of PNone = Inr None"
  by (simp add: identity_of_def)

lemma identity_of_hash_id:
  assumes "hash_id d = Inr t" shows "identity_of (PStr t) = Inr (Some d)"
proof -
  have "hash_bytes_from_id t = Inr d" using assms by (rule hash_bytes_from_hash_id)
  moreover have "prefixed t (u ''sha256:'')" using assms by (auto simp: hash_id_Inr prefixed_def)
  ultimately show ?thesis by (simp add: identity_of_def)
qed

text \<open>Where every identity of a commit is one digest, nothing else stands in the way and the counters agree.\<close>

lemma uniform_question_authorized:
  assumes d: "length d = 32" "\<not> All_Zero d"
    and ids: "\<forall>x \<in> set [qn_expected_parent q, PStr (w_parent_content (qn_candidate q)),
        mget (qn_inputs q) (u ''expectedSubject''), mget (qn_inputs q) (u ''evidenceSubject''),
        PStr (w_base_root (qn_candidate q)), qn_base_root q, opt_str (w_delta_hash (qn_candidate q)), qn_delta_hash q,
        qn_root_set q, PStr (w_root_set_hash (qn_candidate q)), qn_expected_staged q, qn_actual_staged q,
        qn_staged_content q, mget (qn_inputs q) (u ''testedRoot''), qn_requirement q,
        mget (sub_fields (qn_inputs q) ''primary'') (u ''evaluatedRequirement''),
        mget (sub_fields (qn_inputs q) ''primary'') (u ''declaredVerifiers''),
        mget (sub_fields (qn_inputs q) ''primary'') (u ''executedVerifiers''),
        mget (sub_fields (qn_inputs q) ''watchSets'') (u ''registered''),
        mget (sub_fields (qn_inputs q) ''watchSets'') (u ''watched'')]. identity_of x = Inr (Some d)"
    and staged: "sub_fields (qn_inputs q) ''staged'' = []"
    and flags: "w_state (qn_candidate q) = VALID" "qn_phase q = u ''COMMIT''" "qn_mode q \<noteq> CHECKPOINT"
      "\<not> qn_conflicts q" "mget (qn_inputs q) (u ''conflictsMeasured'') = PBool True"
      "foreign_state_of (qn_inputs q) = Inr (u ''NONE_FOUND'')"
      "mget (sub_fields (qn_inputs q) ''primary'') (u ''rosterComplete'') = PBool True"
      "mget (sub_fields (qn_inputs q) ''generations'') (u ''before'') = PInt g"
      "mget (sub_fields (qn_inputs q) ''generations'') (u ''after'') = PInt g"
    and g: "0 \<le> g" "g < 2 ^ 64"
  shows "\<exists>v. question_of q = Inr v \<and> collapse_decide v = Inr (u ''AUTHORIZED'')"
proof -
  have none: "identity_of (mget [] k) = Inr None" for k by (simp add: mget_def identity_of_PNone)
  have is_id: "identity_of x = Inr (Some d)" if "x \<in> set [qn_expected_parent q, PStr (w_parent_content (qn_candidate q)),
        mget (qn_inputs q) (u ''expectedSubject''), mget (qn_inputs q) (u ''evidenceSubject''),
        PStr (w_base_root (qn_candidate q)), qn_base_root q, opt_str (w_delta_hash (qn_candidate q)), qn_delta_hash q,
        qn_root_set q, PStr (w_root_set_hash (qn_candidate q)), qn_expected_staged q, qn_actual_staged q,
        qn_staged_content q, mget (qn_inputs q) (u ''testedRoot''), qn_requirement q,
        mget (sub_fields (qn_inputs q) ''primary'') (u ''evaluatedRequirement''),
        mget (sub_fields (qn_inputs q) ''primary'') (u ''declaredVerifiers''),
        mget (sub_fields (qn_inputs q) ''primary'') (u ''executedVerifiers''),
        mget (sub_fields (qn_inputs q) ''watchSets'') (u ''registered''),
        mget (sub_fields (qn_inputs q) ''watchSets'') (u ''watched'')]" for x
    using ids that by blast
  note known = is_id [of "qn_expected_parent q", simplified] is_id [of "PStr (w_parent_content (qn_candidate q))", simplified]
    is_id [of "mget (qn_inputs q) (u ''expectedSubject'')", simplified]
    is_id [of "mget (qn_inputs q) (u ''evidenceSubject'')", simplified]
    is_id [of "PStr (w_base_root (qn_candidate q))", simplified] is_id [of "qn_base_root q", simplified]
    is_id [of "opt_str (w_delta_hash (qn_candidate q))", simplified] is_id [of "qn_delta_hash q", simplified]
    is_id [of "qn_root_set q", simplified] is_id [of "PStr (w_root_set_hash (qn_candidate q))", simplified]
    is_id [of "qn_expected_staged q", simplified] is_id [of "qn_actual_staged q", simplified]
    is_id [of "qn_staged_content q", simplified] is_id [of "mget (qn_inputs q) (u ''testedRoot'')", simplified]
    is_id [of "qn_requirement q", simplified]
    is_id [of "mget (sub_fields (qn_inputs q) ''primary'') (u ''evaluatedRequirement'')", simplified]
    is_id [of "mget (sub_fields (qn_inputs q) ''primary'') (u ''declaredVerifiers'')", simplified]
    is_id [of "mget (sub_fields (qn_inputs q) ''primary'') (u ''executedVerifiers'')", simplified]
    is_id [of "mget (sub_fields (qn_inputs q) ''watchSets'') (u ''registered'')", simplified]
    is_id [of "mget (sub_fields (qn_inputs q) ''watchSets'') (u ''watched'')", simplified]
  obtain v where v: "question_of q = Inr v"
    by (simp add: question_of_def Let_def known staged none flags unless_def)
  note F = question_facts [OF v] and G = question_flags [OF v]
  have facts: "expected_parent v = Some d" "candidate_parent v = Some d" "expected_subject v = Some d"
      "evidence_subject v = Some d" "expected_base v = Some d" "candidate_base v = Some d"
      "expected_delta v = Some d" "candidate_delta v = Some d" "expected_root_set v = Some d"
      "candidate_root_set v = Some d" "expected_staged_root v = Some d" "actual_staged_root v = Some d"
      "staged_content_root v = Some d" "tested_root v = Some d" "current_requirement v = Some d"
      "evaluated_requirement v = Some d" "declared_verifiers v = Some d" "executed_verifiers v = Some d"
      "registered_watch_set v = Some d" "watched_set v = Some d"
      "staged_evaluated_requirement v = None" "staged_executed_verifiers v = None"
      "staged_examined_root v = None" "expected_checkpoint v = None" "witnessed_checkpoint v = None"
    using F by (auto simp: known staged none flags unless_def)
  have marks: "candidate_state v = u ''VALID''" "phase_of v = u ''COMMIT''" "mode_of v = u ''CANDIDATE_EVALUATION''"
      "conflicts_of v = u ''NONE_FOUND''" "foreign_writes v = u ''NONE_FOUND''" "roster_complete v"
      "generation_before v = Some g" "generation_after v = Some g"
    using G by (simp_all add: flags counter_of_def)
  have "typed_input v"
    using d g by (simp add: typed_input_def hash_values_def typed_hash_def typed_counter_def facts marks STATE_CODES_def
        COLLAPSE_PHASES_def EVALUATION_MODES_def MEASUREMENTS_def)
  moreover have "well_posed v" by (simp add: well_posed_def facts marks)
  moreover have "All_Hold (request_of v)"
    by (simp add: All_Hold_def request_of_def facts marks Same_def measurement_of_def Staged_Root_Holds_def
        Evidence_Holds_def Covered_def Primary_Covers_def STATE_CODES_def world_states_def)
  ultimately have "collapse_decide v = Inr (u ''AUTHORIZED'')" unfolding collapse_decide_authorized by simp
  then show ?thesis using v by blast
qed

end
