(* ===== verification/Decision_Claims.thy ===== *)
theory Decision_Claims
  imports Decision_Laws
begin

text \<open>
  The promotion decision as the transactions ask for it: what an authorization means, and that the
  kernel is asked only in its own range.
\<close>

section \<open>Properties\<close>

text \<open>
  C3. A promotion is authorized only for a valid world whose recorded and measured identities all agree:
  parent, subject of the evidence, base, delta and root set; with no conflict, no foreign write, full
  watch coverage and an unchanged generation; with evidence that applies (the complete roster run
  against the live requirement with the declared verifiers, or the witness of a former reality); with
  the staged bytes covered by what was tested; and, at commit, with the staged tree that was prepared.
\<close>
theorem promotion_authorized:
  assumes "decide q = Inr (u ''AUTHORIZED'', inputs)"
  shows "world_agrees q \<and> prime_still q \<and> evidence_applies q \<and> covered_bytes q
    \<and> \<not> qn_conflicts q \<and> mget (qn_inputs q) (u ''conflictsMeasured'') = PBool True
    \<and> (qn_phase q = u ''COMMIT'' \<longrightarrow> same_id (qn_expected_staged q) (qn_actual_staged q))"
  using assms by (rule decide_authorized)

definition sample_digest :: pyval where
  "sample_digest = PStr (u ''sha256:'' @ hex_text (replicate 32 (CHR 0x01)))"

definition sample_question :: question where
  "sample_question = \<lparr>qn_phase = u ''COMMIT'', qn_mode = PStr (u ''collapse''),
     qn_candidate = sample_world\<lparr>w_state := VALID,
       w_parent_content := u ''sha256:'' @ hex_text (replicate 32 (CHR 0x01)),
       w_base_root := u ''sha256:'' @ hex_text (replicate 32 (CHR 0x01)),
       w_delta_hash := Some (u ''sha256:'' @ hex_text (replicate 32 (CHR 0x01))),
       w_root_set_hash := u ''sha256:'' @ hex_text (replicate 32 (CHR 0x01))\<rparr>,
     qn_subject = sample_world, qn_expected_parent = sample_digest, qn_base_root = sample_digest,
     qn_delta_hash = sample_digest, qn_root_set = sample_digest, qn_expected_staged = sample_digest,
     qn_actual_staged = sample_digest, qn_staged_content = sample_digest, qn_conflicts = False,
     qn_requirement = sample_digest,
     qn_inputs = map (\<lambda>(k, v). (PStr (u k), v)) [(''conflictsMeasured'', PBool True),
       (''foreignWrites'', pdict [(u ''state'', PStr (u ''NONE_FOUND''))]),
       (''expectedSubject'', sample_digest), (''evidenceSubject'', sample_digest), (''testedRoot'', sample_digest),
       (''watchSets'', pdict [(u ''registered'', sample_digest), (u ''watched'', sample_digest)]),
       (''primary'', pdict [(u ''rosterComplete'', PBool True), (u ''evaluatedRequirement'', sample_digest),
          (u ''declaredVerifiers'', sample_digest), (u ''executedVerifiers'', sample_digest)]),
       (''generations'', pdict [(u ''before'', PInt 7), (u ''after'', PInt 7)])],
     qn_witness = PNone\<rparr>"

lemma sample_identity_of:
  "identity_of sample_digest = Inr (Some (replicate 32 (CHR 0x01)))"
  "identity_of (PStr (u ''sha256:'' @ hex_text (replicate 32 (CHR 0x01)))) = Inr (Some (replicate 32 (CHR 0x01)))"
proof -
  have "hash_id (replicate 32 (CHR 0x01)) = Inr (u ''sha256:'' @ hex_text (replicate 32 (CHR 0x01)))"
    by (simp add: hash_id_def)
  then have "hash_bytes_from_id (u ''sha256:'' @ hex_text (replicate 32 (CHR 0x01))) = Inr (replicate 32 (CHR 0x01))"
    by (rule hash_bytes_from_hash_id)
  then show "identity_of (PStr (u ''sha256:'' @ hex_text (replicate 32 (CHR 0x01)))) = Inr (Some (replicate 32 (CHR 0x01)))"
    by (simp add: identity_of_def prefixed_def)
  then show "identity_of sample_digest = Inr (Some (replicate 32 (CHR 0x01)))" by (simp add: sample_digest_def)
qed

lemma sample_authorized: "\<exists>inputs. decide sample_question = Inr (u ''AUTHORIZED'', inputs)"
proof -
  have "\<exists>v. question_of sample_question = Inr v \<and> collapse_decide v = Inr (u ''AUTHORIZED'')"
    by (rule uniform_question_authorized [of "replicate 32 (CHR 0x01)" _ 7])
      (simp_all add: sample_question_def mget_def sub_fields_def map_or_empty_def as_map_def CHECKPOINT_def
        foreign_state_of_def or_empty_def truthy_def pget_def opt_str_def sample_identity_of All_Zero_def list_all_iff)
  then show ?thesis by (auto simp: decide_def)
qed

theorem promotion_authorized_witness:
  "world_agrees sample_question \<and> prime_still sample_question \<and> covered_bytes sample_question
    \<and> same_id sample_digest sample_digest"
proof -
  obtain inputs where d: "decide sample_question = Inr (u ''AUTHORIZED'', inputs)" using sample_authorized by blast
  from promotion_authorized [OF d] show ?thesis by (simp add: sample_question_def)
qed

text \<open>
  C39. The kernel is asked only in its own range: whenever a decision is made, whatever it is, every
  identity in the question is absent or exactly 32 bytes and not all zero, and every generation is
  absent or a number of 64 bits.
\<close>
theorem decision_in_range:
  assumes "decide q = Inr (decision, inputs)"
  shows "\<exists>v. question_of q = Inr v
    \<and> list_all (\<lambda>h. case h of None \<Rightarrow> True | Some b \<Rightarrow> length b = 32 \<and> \<not> All_Zero b) (hash_values v)
    \<and> list_all (\<lambda>c. case c of None \<Rightarrow> True | Some i \<Rightarrow> 0 \<le> i \<and> i < 2 ^ 64) [generation_before v, generation_after v]"
proof -
  from decide_Inr [OF assms] obtain v where v: "question_of q = Inr v" "collapse_decide v = Inr decision" by blast
  then have "typed_input v" unfolding collapse_decide_Inr by simp
  then show ?thesis using v(1) by (auto simp: typed_input_def typed_hash_def [abs_def] typed_counter_def)
qed

theorem decision_in_range_witness:
  "\<exists>v. question_of sample_question = Inr v
    \<and> list_all (\<lambda>c. case c of None \<Rightarrow> True | Some i \<Rightarrow> 0 \<le> i \<and> i < 2 ^ 64) [generation_before v, generation_after v]"
proof -
  obtain inputs where d: "decide sample_question = Inr (u ''AUTHORIZED'', inputs)" using sample_authorized by blast
  from decision_in_range [OF d] show ?thesis by blast
qed

end
