(* ===== verification/Receipt.thy ===== *)
theory Receipt
  imports Transaction
begin

text \<open>
  \<open>runtime/worldline/receipt.py\<close>: the receipt of a committed transaction, built over the last one and
  appended to the receipt chain. The status of the proof (\<open>ProofStatus.inspect\<close>) is an argument.
\<close>

section \<open>Building a receipt\<close>

record receipt_input =
  ri_transaction :: pyval
  ri_parent :: pyval
  ri_candidate :: pyval
  ri_before :: pyval
  ri_after :: pyval
  ri_delta :: pyval
  ri_contamination :: "pyval list"
  ri_generated :: "pyval list"
  ri_dependencies :: "pyval list"
  ri_evidence :: "pyval option"
  ri_foreign :: pyval

definition receipt_file :: "pyval \<Rightarrow> pyval res" where
  "receipt_file operation =
     rbind (pitem operation (u ''rootKey'')) (\<lambda>root_key.
     rbind (pitem operation (u ''pathB64'')) (\<lambda>path_b64.
     rbind (pitem operation (u ''pathDisplay'')) (\<lambda>path.
     rbind (pitem operation (u ''op'')) (\<lambda>op.
     Inr (pdict [(u ''rootKey'', root_key), (u ''pathB64'', path_b64), (u ''path'', path), (u ''op'', op)])))))"

definition glob_applies :: "pyval \<Rightarrow> pyval \<Rightarrow> bool res" where
  "glob_applies path glob = (case (path, glob) of
       (PStr p, PStr g) \<Rightarrow> Inr (fnmatchcase p g) | _ \<Rightarrow> Inl TypeError)"

text \<open>\<open>any(\<dots>)\<close> over the classifiers: it stops at the first that applies.\<close>

fun classified :: "fields \<Rightarrow> pyval list \<Rightarrow> bool res" where
  "classified item [] = Inr False"
| "classified item (classifier # rest) =
     rbind (pget classifier (u ''root'') PNone) (\<lambda>root.
     if \<not> py_eq root (mget item (u ''rootKey'')) then classified item rest
     else rbind (pget classifier (u ''glob'') (PStr [])) (\<lambda>glob.
          rbind (glob_applies (mget item (u ''path'')) glob) (\<lambda>hit.
          if hit then Inr True else classified item rest)))"

definition generated_files :: "pyval list \<Rightarrow> pyval list \<Rightarrow> pyval list res" where
  "generated_files files classifiers =
     rbind (rmap (\<lambda>f. rbind (classified (map_or_empty f) classifiers) (\<lambda>b. Inr (f, b))) files)
       (\<lambda>marked. Inr (map fst (filter snd marked)))"

definition outside_mutations :: "pyval list \<Rightarrow> pyval list res" where
  "outside_mutations contamination =
     rbind (rmap (\<lambda>item. rbind (pget item (u ''scope'') PNone) (\<lambda>scope.
       Inr (item, scope = PStr (u ''outside-registered-roots'')))) contamination)
       (\<lambda>marked. Inr (map fst (filter snd marked)))"

definition contamination_value :: "pyval list \<Rightarrow> pyval \<Rightarrow> pyval res" where
  "contamination_value contamination foreign =
     rbind (if truthy foreign then rbind (pget foreign (u ''state'') PNone) (\<lambda>state.
              rbind (pget foreign (u ''measuredBy'') PNone) (\<lambda>by.
              Inr (state, [(u ''measuredBy'', by), (u ''measurement'', state)])))
            else Inr (PNone, [])) (\<lambda>(state, measured).
     Inr (pdict ([(u ''state'', PStr (if contamination = [] \<and> state \<noteq> PStr (u ''FOUND'')
                then u ''NONE'' else u ''DETECTED'')),
         (u ''writes'', PList contamination)] @ measured)))"

definition non_claims :: "pystr list" where
  "non_claims = [
     u ''OS syscalls and filesystem behavior are outside the SPARK proof.'',
     u ''Uncooperative external writers and open file descriptors are outside the SPARK proof.'',
     u ''SHA-256 collision resistance is outside the SPARK proof.'',
     u ''Evidence freshness is decided by comparing requirement and content identities computed by the runtime; the SPARK kernel proves only that unequal identities are never AUTHORIZED.'',
     u ''Checks are not re-run at commit; a PASS revalidation or staged validation is evidence about the bytes it names at the time it ran.'',
     u ''Foreign writes are measured by comparing a capture of live PRIME with the PRIME record's components; writes the watcher reported before preparation become PRIME generations, not contamination.'']"

definition receipt_body ::
    "pyval \<Rightarrow> pystr option \<Rightarrow> receipt_input \<Rightarrow> (pystr \<times> pyval) list res" where
  "receipt_body proof previous r =
     rbind (pitem (ri_delta r) (u ''operations'')) (\<lambda>operations. rbind (piter operations) (\<lambda>ops.
     rbind (rmap receipt_file ops) (\<lambda>files.
     rbind (generated_files files (ri_generated r)) (\<lambda>generated.
     rbind (pget (ri_delta r) (u ''baseRoot'') PNone) (\<lambda>base.
     rbind (pitem (ri_delta r) (u ''deltaHash'')) (\<lambda>delta_hash.
     rbind (pitem (ri_delta r) (u ''summary'')) (\<lambda>summary.
     rbind (contamination_value (ri_contamination r) (ri_foreign r)) (\<lambda>contamination.
     rbind (outside_mutations (ri_contamination r)) (\<lambda>outside.
     rbind (case ri_evidence r of None \<Rightarrow> Inr PNone | Some e \<Rightarrow> rbind (dict_of e) (\<lambda>d. Inr (PDict d))) (\<lambda>evidence.
     Inr [(u ''schemaVersion'', PInt 1), (u ''previousReceipt'', opt_str previous),
       (u ''parentWorld'', ri_parent r), (u ''candidateWorld'', ri_candidate r),
       (u ''baseState'', pdict [(u ''state'', PStr (u ''VERIFIED'')), (u ''root'', base)]),
       (u ''candidateDelta'', pdict [(u ''hash'', delta_hash), (u ''summary'', summary)]),
       (u ''foreignWorldContamination'', contamination),
       (u ''mergeSet'', pdict [(u ''files'', PList files), (u ''generatedArtifacts'', PList generated),
          (u ''dependencyChanges'', PList (ri_dependencies r)),
          (u ''unrelatedConfigurationMutations'', PList outside)]),
       (u ''invariantPreservation'', proof),
       (u ''atomicCollapse'', pdict [(u ''state'', PStr (u ''COMMITTED'')),
          (u ''mechanism'', PStr (u ''renameat2(RENAME_EXCHANGE)''))]),
       (u ''beforeRoot'', ri_before r), (u ''afterRoot'', ri_after r),
       (u ''transactionId'', ri_transaction r), (u ''evidenceBinding'', evidence),
       (u ''nonClaims'', texts non_claims)]))))))))))"

text \<open>The identity is the hash of the receipt without it.\<close>

definition build_receipt ::
    "(bytes \<Rightarrow> bytes) \<Rightarrow> pyval \<Rightarrow> receipt_input \<Rightarrow> store \<Rightarrow> pyval res" where
  "build_receipt hb proof r s =
     rbind (last_receipt s) (\<lambda>previous.
     rbind (receipt_body proof (map_option (\<lambda>(row, _). rc_id row) previous) r) (\<lambda>body.
     rbind (canonical_bytes (pdict body)) (\<lambda>preimage.
     Inr (pdict (dset (u ''receiptId'')
       (PStr (u ''WL:'' @ hex_text (hb (''worldline-receipt-id-v1'' @ preimage)))) body)))))"

definition append_built :: "(bytes \<Rightarrow> bytes) \<Rightarrow> pystr \<Rightarrow> pyval \<Rightarrow> receipt_input \<Rightarrow> fields sact" where
  "append_built hb now proof r =
     sbind (gets (build_receipt hb proof r)) (\<lambda>built. sbind (lift built) (\<lambda>receipt.
     sbind (append_receipt hb now receipt) (\<lambda>(root, chain).
     ret (dset (PStr (u ''chainHash'')) (PStr chain) (dset (PStr (u ''receiptRoot'')) (PStr root)
       (map_or_empty receipt))))))"

end
