(* ===== verification/Receipt_Laws.thy ===== *)
theory Receipt_Laws
  imports Receipt Store_Laws
begin

text \<open>
  The receipt a commit builds is one the store accepts over the last receipt, and its identity is bound
  to everything else it says.
\<close>

section \<open>The built receipt\<close>

definition without_id :: "pyval \<Rightarrow> pyval" where
  "without_id v = PDict (filter (\<lambda>(k, _). k \<noteq> PStr (u ''receiptId'')) (map_or_empty v))"

lemma without_id_pdict:
  assumes "u ''receiptId'' \<notin> set (dkeys body)"
  shows "without_id (pdict (body @ [(u ''receiptId'', x)])) = pdict body"
  using assms by (induction body) (auto simp: without_id_def map_or_empty_def as_map_def)

lemma receipt_body_fields:
  assumes "receipt_body proof previous r = Inr body"
  shows "set (dkeys body) = set (filter (\<lambda>k. k \<noteq> u ''receiptId'') (receipt_required @ receipt_optional))
    \<and> dget body (u ''schemaVersion'') = Some (PInt 1) \<and> dget body (u ''previousReceipt'') = Some (opt_str previous)
    \<and> dget body (u ''transactionId'') = Some (ri_transaction r) \<and> dget body (u ''beforeRoot'') = Some (ri_before r)
    \<and> dget body (u ''afterRoot'') = Some (ri_after r)"
  using assms unfolding receipt_body_def rbind_Inr_iff sum.inject
  by (elim exE conjE) (hypsubst, auto simp: receipt_required_def receipt_optional_def)

lemma built_receipt:
  assumes "build_receipt hb proof r s = Inr v"
  obtains body preimage where
    "receipt_body proof (map_option rc_id (last_row (st_receipts s))) r = Inr body"
    and "canonical_bytes (pdict body) = Inr preimage"
    and "v = pdict (body @ [(u ''receiptId'', PStr (u ''WL:'' @ hex_text (hb (''worldline-receipt-id-v1'' @ preimage))))])"
proof -
  from assms obtain previous body preimage where p: "last_receipt s = Inr previous"
    and b: "receipt_body proof (map_option (\<lambda>(row, _). rc_id row) previous) r = Inr body"
    and c: "canonical_bytes (pdict body) = Inr preimage"
    and v: "v = pdict (dset (u ''receiptId'')
       (PStr (u ''WL:'' @ hex_text (hb (''worldline-receipt-id-v1'' @ preimage)))) body)"
    unfolding build_receipt_def by (auto simp: res_iffs)
  have "map_option (\<lambda>(row, _). rc_id row) previous = map_option rc_id (last_row (st_receipts s))"
    using p by (auto simp: last_receipt_def res_iffs split: option.splits)
  moreover have "u ''receiptId'' \<notin> set (dkeys body)" using receipt_body_fields [OF b] by auto
  ultimately show ?thesis using that [of body preimage] b c v by (simp add: dset_fresh)
qed

section \<open>Properties\<close>

text \<open>
  The builder of receipts and the store agree: every receipt that is built passes the store's guards
  (schema, fields, the last receipt named as predecessor), names its transaction and both roots, and has
  as its identity the hash of the canonical form of everything else in it.
\<close>
theorem built_receipt_is_accepted:
  assumes "build_receipt hb proof r s = Inr v"
  shows "receipt_fields_ok v \<and> pitem v (u ''schemaVersion'') = Inr (PInt 1)
    \<and> pitem v (u ''previousReceipt'') = Inr (opt_str (map_option rc_id (last_row (st_receipts s))))
    \<and> pitem v (u ''transactionId'') = Inr (ri_transaction r)
    \<and> pitem v (u ''beforeRoot'') = Inr (ri_before r) \<and> pitem v (u ''afterRoot'') = Inr (ri_after r)
    \<and> (\<exists>preimage. canonical_bytes (without_id v) = Inr preimage
        \<and> pitem v (u ''receiptId'') = Inr (PStr (u ''WL:'' @ hex_text (hb (''worldline-receipt-id-v1'' @ preimage)))))"
proof -
  obtain body preimage where b: "receipt_body proof (map_option rc_id (last_row (st_receipts s))) r = Inr body"
    and c: "canonical_bytes (pdict body) = Inr preimage"
    and v: "v = pdict (body @ [(u ''receiptId'', PStr (u ''WL:'' @ hex_text (hb (''worldline-receipt-id-v1'' @ preimage))))])"
    by (rule built_receipt [OF assms])
  note f = receipt_body_fields [OF b]
  have fresh: "u ''receiptId'' \<notin> set (dkeys body)" using f by auto
  then have "without_id v = pdict body"
    unfolding v by (rule without_id_pdict)
  moreover have field: "pitem v k = req KeyError (dget (body @ [(u ''receiptId'',
      PStr (u ''WL:'' @ hex_text (hb (''worldline-receipt-id-v1'' @ preimage))))]) k)" for k
    unfolding v by (rule pitem_pdict)
  moreover have "dget body (u ''receiptId'') = None" using fresh by (simp add: map_of_eq_None_iff)
  moreover have "set (dkeys (map (\<lambda>(k, v). (PStr k, v)) body)) = PStr ` set (dkeys body)" by force
  then have "receipt_fields_ok v"
    using f unfolding v receipt_fields_ok_def
    by (auto simp: receipt_required_def receipt_optional_def)
  ultimately show ?thesis
    using c f by (simp add: field map_add_def req_def)
qed

definition sample_receipt_input :: receipt_input where
  "sample_receipt_input = \<lparr>ri_transaction = PStr (u ''x''), ri_parent = PNone, ri_candidate = PNone,
     ri_before = PNone, ri_after = PNone,
     ri_delta = pdict [(u ''operations'', PList []), (u ''deltaHash'', PNone), (u ''summary'', PNone)],
     ri_contamination = [], ri_generated = [], ri_dependencies = [], ri_evidence = None, ri_foreign = PNone\<rparr>"

lemma sample_body: "\<exists>body. receipt_body PNone None sample_receipt_input = Inr body \<and> validate (pdict body) = Inr ()"
  by (simp add: receipt_body_def sample_receipt_input_def pitem_def pget_def piter_def generated_files_def opt_str_def
      contamination_value_def truthy_def outside_mutations_def texts_def non_claims_def)

theorem built_receipt_is_accepted_witness:
  "\<exists>v. receipt_fields_ok v \<and> pitem v (u ''previousReceipt'') = Inr PNone
    \<and> pitem v (u ''transactionId'') = Inr (PStr (u ''x''))"
proof -
  obtain body where "receipt_body PNone None sample_receipt_input = Inr body" "validate (pdict body) = Inr ()"
    using sample_body by blast
  then obtain v where v: "build_receipt constant_hash PNone sample_receipt_input empty_store = Inr v"
    by (simp add: build_receipt_def last_receipt_def empty_store_def last_row_def canonical_bytes_def)
  from built_receipt_is_accepted [OF v] show ?thesis
    by (auto simp: empty_store_def last_row_def opt_str_def sample_receipt_input_def)
qed

end
