(* ===== verification/Prime.thy ===== *)
theory Prime
  imports Decision Receipt
begin

text \<open>
  \<open>runtime/worldline/prime.py\<close>: a generation and its publication as the new PRIME world.
\<close>

section \<open>Generations\<close>

definition GENESIS_PARENT :: pystr where
  "GENESIS_PARENT = u ''sha256:'' @ hex_text (replicate 32 NUL)"

record generation =
  gn_id :: pystr
  gn_payload :: pystr
  gn_root_set_hash :: pystr
  gn_state_root :: pystr
  gn_components :: "(pystr \<times> pystr) list"

definition cause_hash :: "(bytes \<Rightarrow> bytes) \<Rightarrow> pystr \<Rightarrow> pystr res" where
  "cause_hash hb cause =
     rbind (ensure (encodable cause) ValueError) (\<lambda>_.
     hash_id (hb (''worldline-prime-cause-v1'' @ utf8_encode cause)))"

text \<open>The world a generation becomes: final, identified, valid and not assessed.\<close>

definition checkpoint_world ::
    "(bytes \<Rightarrow> bytes) \<Rightarrow> pystr \<Rightarrow> pystr \<Rightarrow> world option \<Rightarrow> generation \<Rightarrow> pystr \<Rightarrow> pystr \<Rightarrow> pystr
       \<Rightarrow> pyval option \<Rightarrow> world res" where
  "checkpoint_world hb uuid now current g cause environment_root evidence_root workspace =
     rbind (case current of None \<Rightarrow> Inr GENESIS_PARENT
       | Some w \<Rightarrow> req (WL ''INCOMPLETE_WORLD'') (w_content_id w)) (\<lambda>parent_content.
     rbind (cause_hash hb cause) (\<lambda>mission.
     rbind (create uuid now \<lparr>r_alias = u ''prime-'' @ gn_id g,
         r_parent_instance = map_option w_instance_id current, r_parent_content = parent_content,
         r_cause = cause, r_actor = u ''worldline'', r_payload_path = gn_payload g,
         r_base_payload_path = gn_payload g, r_base_root = gn_state_root g,
         r_root_set_hash = gn_root_set_hash g, r_mission_hash = mission, r_workspace = workspace,
         r_world_kind = u ''computational''\<rparr>) (\<lambda>w.
     rbind (transition now FINALIZING (w\<lparr>w_components := dset (u ''evidence'') evidence_root
         (dset (u ''environment'') environment_root (gn_components g))\<rparr>)) (\<lambda>w.
     rbind (establish_identity hb w) (\<lambda>(w, _).
     rbind (transition now VALID w) (\<lambda>w.
     Inr (w\<lparr>w_evidence := pdict [(u ''checks'', PList []), (u ''summary'', PStr (u ''UNASSESSED''))]\<rparr>)))))))"

text \<open>
  The insertion commits before the register is set, so a recovery may meet its own row: the alias is
  the transaction's, and a row of the same identity is taken as the world published before.
\<close>

definition insert_or_replay :: "world \<Rightarrow> world sact" where
  "insert_or_replay w s =
     (case insert_world w s of
        (Inr _, t) \<Rightarrow> (Inr w, t)
      | (Inl e, t) \<Rightarrow>
          if e \<noteq> WL ''WORLD_CONFLICT'' then (Inl e, t)
          else (case world_get (w_alias w) t of
              Inl e' \<Rightarrow> (Inl e', t)
            | Inr existing \<Rightarrow>
                if w_content_id existing \<noteq> w_content_id w then (Inl (WL ''RECOVERY_STATE_MISMATCH''), t)
                else (Inr existing, t)))"

definition archive :: "pystr \<Rightarrow> world \<Rightarrow> unit sact" where
  "archive now w = sbind (lift (transition now ARCHIVED w)) save_world"

definition publish_checkpoint ::
    "(bytes \<Rightarrow> bytes) \<Rightarrow> tx_env \<Rightarrow> pystr \<Rightarrow> pystr \<Rightarrow> generation \<Rightarrow> pystr \<Rightarrow> pystr \<Rightarrow> pystr
       \<Rightarrow> pyval option \<Rightarrow> world sact" where
  "publish_checkpoint hb env uuid now g cause environment_root evidence_root workspace =
     sbind (sensure (te_is_dir env (gn_payload g)) (WL ''INVALID_GENERATION'')) (\<lambda>_.
     sbind (sensure (set (dkeys (gn_components g)) = set compared_components) (WL ''INCOMPLETE_WORLD'')) (\<lambda>_.
     sbind prime (\<lambda>current.
     sbind (lift (checkpoint_world hb uuid now current g cause environment_root evidence_root workspace)) (\<lambda>w.
     sbind (insert_or_replay w) (\<lambda>w.
     sbind (case current of None \<Rightarrow> ret ()
       | Some c \<Rightarrow> if w_state c \<in> {VALID, COLLAPSED} then archive now c else ret ()) (\<lambda>_.
     sbind (lift (req AttributeError (w_content_id w))) (\<lambda>content.
     sbind (set_prime (w_instance_id w) content (gn_id g)) (\<lambda>_.
     sbind (set_meta (u ''activeWorld'') (PStr (u ''PRIME''))) (\<lambda>_.
     ret w)))))))))"

end
