(* ===== verification/Commit.thy ===== *)
theory Commit
  imports Prime
begin

text \<open>
  \<open>runtime/worldline/transaction.py\<close>: the commit of a prepared transaction, what follows the exchange,
  and recovery. \<open>now\<close> is the clock of one operation, \<open>fi_uuid\<close> the identifier a published world would
  get; anchoring a receipt outside the store and flushing directories have no effect on the state.
\<close>

section \<open>The decision at commit\<close>

record readings =
  rd_before :: "int option"
  rd_after :: "int option"
  rd_now :: "int option"
  rd_current :: "(pystr \<times> captured) list res"
  rd_staged :: "(pystr \<times> captured) list res"
  rd_candidate :: "(pystr \<times> captured) list res"
  rd_requirement :: "fields res"
  rd_source :: "root_row \<Rightarrow> bytes res"
  rd_watched :: "(pystr \<times> bytes) list option"

definition counter_value :: "int option \<Rightarrow> pyval" where
  "counter_value g = (case g of None \<Rightarrow> PNone | Some i \<Rightarrow> PInt i)"

definition generations_value :: "int option \<Rightarrow> int option \<Rightarrow> pyval" where
  "generations_value before after = pdict [(u ''before'', counter_value before), (u ''after'', counter_value after)]"

definition return_of :: "fields \<Rightarrow> pystr option" where
  "return_of r = (case mget r (u ''returnOf'') of PStr t \<Rightarrow> if t = [] then None else Some t | _ \<Rightarrow> None)"

text \<open>
  The inputs only the preparation observed come from the record; every other one is taken now. What was
  taken is kept in the record.
\<close>

definition inputs_at_commit ::
    "(bytes \<Rightarrow> bytes) \<Rightarrow> readings \<Rightarrow> fields \<Rightarrow> world \<Rightarrow> (pystr \<times> captured) list \<Rightarrow> fields \<Rightarrow> fields sact" where
  "inputs_at_commit hb rd r candidate current requirement =
     sbind prime (\<lambda>pw.
     sbind (lift (foreign_writes_measured hb current pw (Some candidate))) (\<lambda>foreign.
     sbind (gets roots) (\<lambda>rows.
     sbind (lift (watch_sets hb rows (rd_source rd) (rd_watched rd))) (\<lambda>(registered, watched).
     sbind (lift (subject_pair hb (sub_fields r ''validation'') candidate (return_of r))) (\<lambda>(expected, _).
     sbind (lift (declared_verifiers_of hb requirement)) (\<lambda>declared.
     let inputs = sub_fields r ''decisionInputs'';
         primary = dset (PStr (u ''declaredVerifiers'')) (PStr declared) (sub_fields inputs ''primary'')
     in ret (fold (\<lambda>(k, v). dset (PStr (u k)) v)
          [(''expectedSubject'', opt_str expected), (''foreignWrites'', PDict foreign),
           (''watchSets'', pdict [(u ''registered'', opt_str registered), (u ''watched'', opt_str watched)]),
           (''primary'', PDict primary), (''generations'', generations_value (rd_before rd) (rd_after rd))]
          inputs)))))))"

definition kept_inputs :: "fields \<Rightarrow> fields" where
  "kept_inputs inputs = map (\<lambda>k. (PStr (u k), mget inputs (u k)))
     [''expectedSubject'', ''foreignWrites'', ''watchSets'', ''generations'', ''absent'']"

definition authorize ::
    "(bytes \<Rightarrow> bytes) \<Rightarrow> readings \<Rightarrow> fields \<Rightarrow> world \<Rightarrow> (pystr \<times> captured) list \<Rightarrow> pystr \<Rightarrow> pystr \<Rightarrow> fields
       \<Rightarrow> (pystr \<times> fields) sact" where
  "authorize hb rd r candidate current staged_root staged_content requirement =
     sbind (subject_of candidate (return_of r)) (\<lambda>subject.
     sbind (inputs_at_commit hb rd r candidate current requirement) (\<lambda>inputs.
     let mode = mget (sub_fields r ''validation'') (u ''mode'') in
     sbind (if mode = CHECKPOINT then checkpoint_witness subject else ret None) (\<lambda>w.
     sbind (gets roots) (\<lambda>rows.
     sbind (lift (registered_root_set hb rows)) (\<lambda>root_set.
     sbind (lift (pitem (PDict requirement) (u ''requirementHash''))) (\<lambda>h.
     sbind (lift (decide \<lparr>qn_phase = u ''COMMIT'', qn_mode = mode, qn_candidate = candidate,
         qn_subject = subject, qn_expected_parent = mget r (u ''parentContentExpected''),
         qn_base_root = mget r (u ''baseRoot''), qn_delta_hash = mget r (u ''deltaHash''),
         qn_root_set = PStr root_set, qn_expected_staged = mget inputs (u ''stagedRoot''),
         qn_actual_staged = PStr staged_root, qn_staged_content = PStr staged_content,
         qn_conflicts = truthy (mget r (u ''conflicts'')), qn_requirement = h, qn_inputs = inputs,
         qn_witness = witness_value w\<rparr>)) (\<lambda>(decision, inputs').
     ret (decision, dset (PStr (u ''decisionInputsAtCommit'')) (PDict (kept_inputs inputs')) r))))))))"

section \<open>What follows the exchange\<close>

definition staged_identity ::
    "(bytes \<Rightarrow> bytes) \<Rightarrow> world \<Rightarrow> (pystr \<times> pystr) list \<Rightarrow> pystr \<Rightarrow> pystr res" where
  "staged_identity hb candidate components prime_content =
     rbind (hash_bytes_from_id prime_content) (\<lambda>parent.
     rbind (rmap (\<lambda>k. rbind (req KeyError (dget components k)) hash_bytes_from_id) compared_components) (\<lambda>now.
     rbind (rmap (\<lambda>k. rbind (req KeyError (dget (w_components candidate) k)) hash_bytes_from_id)
       [u ''environment'', u ''evidence'']) (\<lambda>kept.
     rbind (core_world_id hb (parent # now @ kept)) hash_id)))"

definition world_if_known :: "pystr \<Rightarrow> store \<Rightarrow> world option res" where
  "world_if_known value s =
     (case world_get value s of Inr w \<Rightarrow> Inr (Some w) | Inl (WL _) \<Rightarrow> Inr None | Inl e \<Rightarrow> Inl e)"

text \<open>A world of another alias that already holds the identity the commit would publish.\<close>

definition checkpoint_collision ::
    "(bytes \<Rightarrow> bytes) \<Rightarrow> pystr \<Rightarrow> world \<Rightarrow> (pystr \<times> captured) list \<Rightarrow> world option sact" where
  "checkpoint_collision hb i candidate staged =
     sbind prime (\<lambda>current. case Option.bind current w_content_id of
       None \<Rightarrow> ret None
     | Some content \<Rightarrow>
         sbind (lift (component_roots hb (map snd staged))) (\<lambda>components.
         sbind (lift (staged_identity hb candidate components content)) (\<lambda>ident.
         if Some ident = w_content_id candidate then ret None
         else sbind (gets (world_if_known ident)) (\<lambda>known. sbind (lift known) (\<lambda>holder.
              ret (case holder of None \<Rightarrow> None
                | Some w \<Rightarrow> if w_alias w = u ''prime-'' @ i then None else Some w))))))"

definition save_manifests :: "pystr \<Rightarrow> (pystr \<times> captured) list \<Rightarrow> unit sact" where
  "save_manifests directory =
     smapM (\<lambda>(key, m). write_file (below directory (key @ u ''.json'')) (cm_canonical m))"

definition copy_state_files :: "pystr \<Rightarrow> pystr \<Rightarrow> unit sact" where
  "copy_state_files source destination =
     smapM (\<lambda>name. sbind (gets (\<lambda>s. (dget (st_files s) (below source name), dget (st_files s) (below destination name))))
       (\<lambda>(a, b). case a of None \<Rightarrow> ret ()
          | Some data \<Rightarrow> if b = Some data then ret () else write_file (below destination name) data))
       [u ''environment.json'', u ''evidence.json'', u ''agent.json'']"

definition advance_roots :: "pystr \<Rightarrow> (pystr \<times> captured) list \<Rightarrow> unit sact" where
  "advance_roots i manifests =
     sbind (gets roots) (smapM (\<lambda>row.
       sbind (lift (req KeyError (dget manifests (rt_key row)))) (\<lambda>m.
       update_root_generation (rt_key row) i (cm_root m))))"

definition settle_candidate :: "pystr \<Rightarrow> world \<Rightarrow> world sact" where
  "settle_candidate now w =
     (if w_state w = VALID
      then sbind (lift (transition now COLLAPSED w)) (\<lambda>w'. sbind (save_world w') (\<lambda>_. ret w'))
      else sbind (sensure (w_state w = COLLAPSED) (WL ''RECOVERY_STATE_MISMATCH'')) (\<lambda>_. ret w))"

definition archive_siblings :: "pystr \<Rightarrow> world \<Rightarrow> unit sact" where
  "archive_siblings now candidate =
     sbind (gets (terminal_siblings candidate)) (\<lambda>r. sbind (lift r)
       (smapM (\<lambda>w. if w_state w \<in> {VALID, DEGRADED, DEAD, COLLAPSED} then archive now w else ret ())))"

definition capitalized :: "pystr \<Rightarrow> pystr" where
  "capitalized k = (case k of [] \<Rightarrow> []
     | c # cs \<Rightarrow> (if 97 \<le> c \<and> c \<le> 122 then c - 32 else c)
         # map (\<lambda>x. if 65 \<le> x \<and> x \<le> 90 then x + 32 else x) cs)"

text \<open>The candidate itself becomes PRIME when the staged tree has its identity; else a checkpoint does.\<close>

definition enthrone :: "pystr \<Rightarrow> fields \<Rightarrow> pystr \<Rightarrow> world \<Rightarrow> world \<Rightarrow> unit sact" where
  "enthrone now r i candidate current =
     sbind (if w_instance_id current \<noteq> w_instance_id candidate \<and> w_state current \<in> {VALID, COLLAPSED}
            then archive now current else ret ()) (\<lambda>_.
     sbind (lift (text_item (PDict r) (u ''stagingPayload''))) (\<lambda>payload.
     let w = candidate\<lparr>w_payload_path := payload\<rparr> in
     sbind (save_world w) (\<lambda>_.
     sbind (lift (req AttributeError (w_content_id w))) (\<lambda>content.
     sbind (set_prime (w_instance_id w) content i) (\<lambda>_.
     set_meta (u ''activeWorld'') (PStr (u ''PRIME'')))))))"

definition publish_staged ::
    "(bytes \<Rightarrow> bytes) \<Rightarrow> tx_env \<Rightarrow> pystr \<Rightarrow> pystr \<Rightarrow> fields \<Rightarrow> pystr \<Rightarrow> world \<Rightarrow> (pystr \<times> pystr) list \<Rightarrow> pystr
       \<Rightarrow> unit sact" where
  "publish_staged hb env uuid now r i candidate components ident =
     sbind (gets (world_if_known ident)) (\<lambda>known. sbind (lift known) (\<lambda>holder.
     sbind (sensure (case holder of None \<Rightarrow> True | Some w \<Rightarrow> w_alias w = u ''prime-'' @ i)
       (WL ''CHECKPOINT_IDENTITY_TAKEN'')) (\<lambda>_.
     sbind (lift (text_item (PDict r) (u ''stagingPayload''))) (\<lambda>payload.
     sbind (lift (text_item (PDict r) (u ''rootSetHash''))) (\<lambda>root_set.
     sbind (lift (text_item (PDict r) (u ''stagedRoot''))) (\<lambda>state_root.
     sbind (lift (text_item (PDict r) (u ''kind''))) (\<lambda>kind.
     sbind (lift (req KeyError (dget (w_components candidate) (u ''environment'')))) (\<lambda>environment_root.
     sbind (lift (req KeyError (dget (w_components candidate) (u ''evidence'')))) (\<lambda>evidence_root.
     sbind (publish_checkpoint hb env uuid now
       \<lparr>gn_id = i, gn_payload = payload, gn_root_set_hash = root_set, gn_state_root = state_root,
        gn_components = components\<rparr>
       (capitalized kind @ 32 # w_alias candidate @ u '' into PRIME'') environment_root evidence_root
       (Some (w_workspace candidate))) (\<lambda>_. ret ()))))))))))"

definition publish_committed ::
    "(bytes \<Rightarrow> bytes) \<Rightarrow> tx_env \<Rightarrow> pystr \<Rightarrow> pystr \<Rightarrow> fields \<Rightarrow> pystr \<Rightarrow> world \<Rightarrow> (pystr \<times> captured) list
       \<Rightarrow> unit sact" where
  "publish_committed hb env uuid now r i candidate manifests =
     sbind (get_meta (u ''primeGeneration'') PNone) (\<lambda>generation.
     if generation = PStr i then ret ()
     else
       sbind (lift (component_roots hb (map snd manifests))) (\<lambda>components.
       sbind prime (\<lambda>pw.
       sbind (lift (req (WL ''RECOVERY_STATE_MISMATCH'') pw)) (\<lambda>current.
       sbind (lift (req (WL ''RECOVERY_STATE_MISMATCH'') (w_content_id current))) (\<lambda>content.
       sbind (lift (staged_identity hb candidate components content)) (\<lambda>ident.
       if Some ident = w_content_id candidate then enthrone now r i candidate current
       else publish_staged hb env uuid now r i candidate components ident))))))"

definition evidence_binding :: "fields \<Rightarrow> pyval option res" where
  "evidence_binding r =
     (case as_map (mget r (u ''validation'')) of
        None \<Rightarrow> Inr None
      | Some v \<Rightarrow>
          rbind (iter_or_empty (mget r (u ''untestedPaths''))) (\<lambda>untested.
          Inr (Some (pdict [(u ''schemaVersion'', PInt 1), (u ''mode'', mget v (u ''mode'')),
            (u ''evidenceSource'', mget v (u ''source'')),
            (u ''candidateContextHash'', mget v (u ''contextHash'')),
            (u ''candidateRequirementHash'', mget v (u ''candidateRequirementHash'')),
            (u ''prepareRequirementHash'', mget v (u ''requirementHash'')),
            (u ''commitRequirementHash'', mget r (u ''commitRequirementHash'')),
            (u ''policySourceSha256'', mget v (u ''policySourceSha256'')),
            (u ''testedRoot'', mget r (u ''testedRoot'')),
            (u ''stagedContentRoot'', mget r (u ''stagedContentRoot'')),
            (u ''stagedValidation'', case as_map (mget r (u ''stagedValidation'')) of
               None \<Rightarrow> PNone
             | Some s \<Rightarrow> pdict (map (\<lambda>k. (u k, mget s (u k))) [''validationId'', ''outcome'', ''summary'',
                 ''requirementHash'', ''contextHash'', ''evaluatedAt'', ''examinedContentRoot''])),
            (u ''untestedPathCount'', PInt (int (length untested)))]))))"

text \<open>
  The committed tree of a recovery: the live capture when it has the staged root, else the manifests
  the preparation kept when they do, and a flag that something else is live.
\<close>

fun kept_manifests :: "(bytes \<Rightarrow> bytes) \<Rightarrow> pystr \<Rightarrow> store \<Rightarrow> root_row list \<Rightarrow> (pystr \<times> captured) list option res" where
  "kept_manifests hb directory s [] = Inr (Some [])"
| "kept_manifests hb directory s (row # rows) =
     (case dget (st_files s) (below directory (rt_key row @ u ''.json'')) of
        None \<Rightarrow> Inr None
      | Some data \<Rightarrow>
          rbind (load hb data) (\<lambda>m. rbind (kept_manifests hb directory s rows) (\<lambda>rest.
          Inr (map_option (\<lambda>ms. (rt_key row, m) # ms) rest))))"

definition recovered_manifests ::
    "(bytes \<Rightarrow> bytes) \<Rightarrow> (pystr \<times> captured) list \<Rightarrow> fields \<Rightarrow> store \<Rightarrow> ((pystr \<times> captured) list \<times> bool) res" where
  "recovered_manifests hb live r s =
     rbind (root_set_hash hb (map snd live)) (\<lambda>h.
     if PStr h = mget r (u ''stagedRoot'') then Inr (live, False)
     else rbind (text_item (PDict r) (u ''stagingPayload'')) (\<lambda>payload.
          rbind (kept_manifests hb (below (dirname 47 payload) (u ''manifests'')) s (roots s)) (\<lambda>kept.
          case kept of
            None \<Rightarrow> Inr (live, True)
          | Some ms \<Rightarrow> rbind (root_set_hash hb (map snd ms)) (\<lambda>k.
              Inr (if PStr k = mget r (u ''stagedRoot'') then (ms, True) else (live, True))))))"

record finish_input =
  fi_uuid :: pystr
  fi_proof :: pyval
  fi_live :: "(pystr \<times> captured) list res"

definition note_moved :: "(bytes \<Rightarrow> bytes) \<Rightarrow> pystr \<Rightarrow> pystr \<Rightarrow> world \<Rightarrow> unit sact" where
  "note_moved hb now i candidate =
     sbind prime (\<lambda>pw.
     sbind (set_meta (u ''dirty'') (PBool True)) (\<lambda>_.
     sbind (append_causal_event hb now (pdict [(u ''schemaVersion'', PInt 1),
       (u ''worldInstance'', PStr (case pw of None \<Rightarrow> w_instance_id candidate | Some p \<Rightarrow> w_instance_id p)),
       (u ''kind'', PStr (u ''unaccounted-write'')), (u ''actor'', PStr (u ''worldline'')),
       (u ''reason'', PStr (u ''live PRIME differed from the committed staged tree at recovery'')),
       (u ''transactionId'', PStr i)])) (\<lambda>_. ret ())))"

definition receipt_input_of :: "fields \<Rightarrow> receipt_input res" where
  "receipt_input_of r =
     (let get = (\<lambda>k. pitem (PDict r) (u k));
          at_commit = mget r (u ''decisionInputsAtCommit'');
          inputs = or_empty (if truthy at_commit then at_commit else mget r (u ''decisionInputs''))
      in
      rbind (get ''transactionId'') (\<lambda>i. rbind (get ''parentWorld'') (\<lambda>parent.
      rbind (get ''candidateContent'') (\<lambda>candidate. rbind (get ''beforeRoot'') (\<lambda>before.
      rbind (get ''stagedRoot'') (\<lambda>after. rbind (get ''delta'') (\<lambda>delta.
      rbind (get ''contamination'') (\<lambda>c. rbind (piter c) (\<lambda>contamination.
      rbind (piter (mget_or r (u ''generated'') (PList []))) (\<lambda>generated.
      rbind (piter (mget_or r (u ''dependencyChanges'') (PList []))) (\<lambda>dependencies.
      rbind (evidence_binding r) (\<lambda>evidence.
      rbind (pget inputs (u ''foreignWrites'') PNone) (\<lambda>foreign.
      Inr \<lparr>ri_transaction = i, ri_parent = parent, ri_candidate = candidate, ri_before = before,
        ri_after = after, ri_delta = delta, ri_contamination = contamination, ri_generated = generated,
        ri_dependencies = dependencies, ri_evidence = evidence, ri_foreign = foreign\<rparr>)))))))))))))"

definition settle_receipt :: "(bytes \<Rightarrow> bytes) \<Rightarrow> pystr \<Rightarrow> pyval \<Rightarrow> fields \<Rightarrow> pystr \<Rightarrow> world \<Rightarrow> fields sact" where
  "settle_receipt hb now proof r i candidate =
     sbind (gets (receipt_for_transaction i)) (\<lambda>found. sbind (lift found) (\<lambda>known. case known of
       Some (row, receipt) \<Rightarrow>
         sbind (lift (dict_of receipt)) (\<lambda>kvs.
         ret (dset (PStr (u ''chainHash'')) (PStr (rc_chain row))
           (dset (PStr (u ''receiptRoot'')) (PStr (rc_root row)) kvs)))
     | None \<Rightarrow>
         sbind (lift (receipt_input_of r)) (\<lambda>input.
         sbind (append_built hb now proof input) (\<lambda>receipt.
         sbind (append_causal_event hb now (pdict [(u ''schemaVersion'', PInt 1),
           (u ''worldInstance'', PStr (w_instance_id candidate)), (u ''kind'', PStr (u ''collapse-receipt'')),
           (u ''actor'', PStr (u ''worldline'')), (u ''reason'', PNone), (u ''transactionId'', PStr i),
           (u ''receiptId'', mget receipt (u ''receiptId'')),
           (u ''receiptRoot'', mget receipt (u ''receiptRoot''))])) (\<lambda>_. ret receipt)))))"

definition settle_state :: "tx_env \<Rightarrow> pystr \<Rightarrow> fields \<Rightarrow> fields sact" where
  "settle_state env now r =
     sbind (if mget r (u ''state'') = PStr (u ''PREPARED'')
            then set_state env now r (u ''AUTHORIZED'') None False else ret r) (\<lambda>r.
     if mget r (u ''state'') = PStr (u ''AUTHORIZED'')
     then set_state env now r (u ''COMMITTED'') None True else ret r)"

definition finish_committed ::
    "(bytes \<Rightarrow> bytes) \<Rightarrow> tx_env \<Rightarrow> pystr \<Rightarrow> finish_input \<Rightarrow> fields \<Rightarrow> (pystr \<times> captured) list option \<Rightarrow> fields sact" where
  "finish_committed hb env now fi r staged =
     sbind (lift (text_item (PDict r) (u ''candidateWorld''))) (\<lambda>name.
     sbind (gets (world_get name)) (\<lambda>found. sbind (lift found) (\<lambda>candidate.
     sbind (case staged of
         Some ms \<Rightarrow> ret (ms, False)
       | None \<Rightarrow> sbind (lift (fi_live fi)) (\<lambda>live.
           sbind (gets (recovered_manifests hb live r)) lift)) (\<lambda>(manifests, moved).
     sbind (lift (text_item (PDict r) (u ''stagingPayload''))) (\<lambda>payload.
     sbind (save_manifests (below payload (u ''manifests'')) manifests) (\<lambda>_.
     sbind (copy_state_files (below (w_payload_path candidate) (u ''manifests'')) (below payload (u ''manifests''))) (\<lambda>_.
     sbind (lift (text_item (PDict r) (u ''transactionId''))) (\<lambda>i.
     sbind (advance_roots i manifests) (\<lambda>_.
     sbind (settle_candidate now candidate) (\<lambda>candidate.
     sbind (archive_siblings now candidate) (\<lambda>_.
     sbind (publish_committed hb env (fi_uuid fi) now r i candidate manifests) (\<lambda>_.
     sbind (settle_state env now r) (\<lambda>r.
     sbind (if moved then note_moved hb now i candidate else ret ()) (\<lambda>_.
     sbind (settle_receipt hb now (fi_proof fi) r i candidate) (\<lambda>receipt.
     sbind (lift (pitem (PDict r) (u ''beforeRoot''))) (\<lambda>before.
     sbind (lift (pitem (PDict r) (u ''stagedRoot''))) (\<lambda>after.
     ret (map (\<lambda>(k, v). (PStr (u k), v)) [(''transactionId'', PStr i), (''state'', PStr (u ''COMMITTED'')),
       (''candidate'', PStr (w_alias candidate)), (''beforeRoot'', before), (''afterRoot'', after),
       (''receipt'', PDict receipt)]))))))))))))))))))"

section \<open>Recovery\<close>

text \<open>
  What a running engine keeps beside the store: the transactions recovery could not settle.
\<close>

record engine =
  en_store :: store
  en_unrecoverable :: "(pystr \<times> exc) list"

type_synonym 'a eact = "(engine, 'a) act"

definition on_store :: "'a sact \<Rightarrow> 'a eact" where
  "on_store m e = (case m (en_store e) of (r, t) \<Rightarrow> (r, e\<lparr>en_store := t\<rparr>))"

definition quarantine :: "pystr \<Rightarrow> exc \<Rightarrow> unit eact" where
  "quarantine i x = modify (\<lambda>e. e\<lparr>en_unrecoverable := dset i x (en_unrecoverable e)\<rparr>)"

definition assert_recovery_complete :: "unit eact" where
  "assert_recovery_complete =
     sbind (gets en_unrecoverable) (\<lambda>q. sensure (q = []) (WL ''RECOVERY_INCOMPLETE''))"

datatype settled = Aborted | Committed fields | Receipt_Recovered | Unrecoverable exc | Receipt_Unrecoverable exc

text \<open>The generation markers say which side of the exchange a transaction stopped on.\<close>

definition recover_one ::
    "(bytes \<Rightarrow> bytes) \<Rightarrow> tx_env \<Rightarrow> pystr \<Rightarrow> (pystr \<Rightarrow> finish_input) \<Rightarrow> pystr \<Rightarrow> settled sact" where
  "recover_one hb env now fi i =
     sbind (gets (load_record env i)) (\<lambda>loaded. sbind (lift loaded) (\<lambda>r.
     sbind (gets (marker (te_live env))) (\<lambda>m. sbind (lift m) (\<lambda>live.
     sbind (lift (text_item (PDict r) (u ''preparedMapping''))) (\<lambda>mapping.
     sbind (gets (marker mapping)) (\<lambda>m. sbind (lift m) (\<lambda>prepared.
     if live = Some i \<and> prepared \<noteq> Some i
     then sbind (finish_committed hb env now (fi i) r None) (\<lambda>result. ret (Committed result))
     else if prepared = Some i \<and> live \<noteq> Some i
     then sbind (set_state env now r (u ''ABORTED'') (coded ''RECOVERED_BEFORE_COMMIT'') False) (\<lambda>_. ret Aborted)
     else raise ambiguous)))))))"

text \<open>Nothing a recovery raises leaves it: the transaction is quarantined and the next one is tried.\<close>

definition guarded :: "(exc \<Rightarrow> settled) \<Rightarrow> pystr \<Rightarrow> settled sact \<Rightarrow> (pystr \<times> settled) eact" where
  "guarded failure i m e =
     (case on_store m e of
        (Inr x, f) \<Rightarrow> (Inr (i, x), f)
      | (Inl x, f) \<Rightarrow> (Inr (i, failure x), f\<lparr>en_unrecoverable := dset i x (en_unrecoverable f)\<rparr>))"

fun collectM :: "('a \<Rightarrow> ('s, 'b) act) \<Rightarrow> 'a list \<Rightarrow> ('s, 'b list) act" where
  "collectM f [] = ret []"
| "collectM f (x # xs) = sbind (f x) (\<lambda>y. sbind (collectM f xs) (\<lambda>ys. ret (y # ys)))"

definition recover_receipt ::
    "(bytes \<Rightarrow> bytes) \<Rightarrow> tx_env \<Rightarrow> pystr \<Rightarrow> (pystr \<Rightarrow> finish_input) \<Rightarrow> pystr \<Rightarrow> settled sact" where
  "recover_receipt hb env now fi i =
     sbind (gets (load_record env i)) (\<lambda>loaded. sbind (lift loaded) (\<lambda>r.
     sbind (finish_committed hb env now (fi i) r None) (\<lambda>_. ret Receipt_Recovered)))"

text \<open>The receipt of a committed transaction is looked up outside the guard.\<close>

definition recover_committed ::
    "(bytes \<Rightarrow> bytes) \<Rightarrow> tx_env \<Rightarrow> pystr \<Rightarrow> (pystr \<Rightarrow> finish_input) \<Rightarrow> pystr \<Rightarrow> (pystr \<times> settled) list eact" where
  "recover_committed hb env now fi i =
     sbind (gets (\<lambda>e. receipt_for_transaction i (en_store e))) (\<lambda>found. sbind (lift found) (\<lambda>known.
     if known \<noteq> None then ret []
     else sbind (guarded Receipt_Unrecoverable i (recover_receipt hb env now fi i)) (\<lambda>x. ret [x])))"

definition recover_all ::
    "(bytes \<Rightarrow> bytes) \<Rightarrow> tx_env \<Rightarrow> pystr \<Rightarrow> (pystr \<Rightarrow> finish_input) \<Rightarrow> (pystr \<times> settled) list eact" where
  "recover_all hb env now fi =
     sbind (modify (\<lambda>e. e\<lparr>en_unrecoverable := []\<rparr>)) (\<lambda>_.
     sbind (gets (\<lambda>e. map tx_id (transactions_in_state [u ''PREPARED'', u ''AUTHORIZED''] (en_store e)))) (\<lambda>open_ones.
     sbind (collectM (\<lambda>i. guarded Unrecoverable i (recover_one hb env now fi i)) open_ones) (\<lambda>first.
     sbind (gets (\<lambda>e. map tx_id (transactions_in_state [u ''COMMITTED''] (en_store e)))) (\<lambda>committed.
     sbind (collectM (recover_committed hb env now fi) committed) (\<lambda>second.
     ret (first @ concat second))))))"

section \<open>Commit\<close>

definition refuse :: "tx_env \<Rightarrow> pystr \<Rightarrow> fields \<Rightarrow> pystr \<Rightarrow> pystr \<Rightarrow> exc \<Rightarrow> 'a sact" where
  "refuse env now r target code e =
     sbind (set_state env now r target (Some (pdict [(u ''code'', PStr code)])) False) (\<lambda>_. raise e)"

definition code_of :: "pystr \<Rightarrow> exc" where
  "code_of s = WL (map char_of s)"

definition require_no_writers :: "world \<Rightarrow> unit sact" where
  "require_no_writers w =
     sbind (gets jobs) (\<lambda>r. sbind (lift r) (\<lambda>js.
     sensure (\<not> list_ex (\<lambda>(j, _). jb_world j = w_instance_id w \<and> jb_state j \<in> active_states) js)
       (WL ''WRITERS_ACTIVE'')))"

definition decision_error :: "pystr \<Rightarrow> exc" where
  "decision_error decision =
     (if decision = u ''VALIDATION_CONTEXT_MISMATCH'' then WL ''EVIDENCE_STALE''
      else if decision = u ''PRIME_CHANGED'' then WL ''PRIME_CHANGED_DURING_CAPTURE''
      else code_of decision)"

definition loaded_prepared :: "tx_env \<Rightarrow> pystr \<Rightarrow> pystr \<Rightarrow> fields sact" where
  "loaded_prepared env now i =
     sbind (gets (load_record env i)) (\<lambda>loaded. sbind (lift loaded) (\<lambda>r.
     sbind (sensure (mget r (u ''state'') \<noteq> PStr (u ''DENIED'')) (WL ''TRANSACTION_DENIED'')) (\<lambda>_.
     sbind (sensure (mget r (u ''state'') = PStr (u ''PREPARED'')) (WL ''INVALID_TRANSACTION_STATE'')) (\<lambda>_.
     if is_map (mget r (u ''decisionInputs'')) \<and> mhas r (u ''validation'') then ret r
     else refuse env now r (u ''DENIED'') (u ''TRANSACTION_RECORD_LEGACY'') (WL ''TRANSACTION_RECORD_LEGACY'')))))"

text \<open>The captures of the live roots and of the candidate must still be the prepared ones.\<close>

definition unchanged ::
    "(bytes \<Rightarrow> bytes) \<Rightarrow> tx_env \<Rightarrow> pystr \<Rightarrow> fields \<Rightarrow> (pystr \<times> captured) list res \<Rightarrow> string \<Rightarrow> string
       \<Rightarrow> (pystr \<times> captured) list sact" where
  "unchanged hb env now r taken key code =
     sbind (lift taken) (\<lambda>ms.
     sbind (lift (root_set_hash hb (map snd ms))) (\<lambda>h.
     sbind (lift (pitem (PDict r) (u key))) (\<lambda>recorded.
     if recorded = PStr h then ret ms
     else refuse env now r (u ''DENIED'') (u code) (WL code))))"

definition commit_decision ::
    "(bytes \<Rightarrow> bytes) \<Rightarrow> tx_env \<Rightarrow> pystr \<Rightarrow> readings \<Rightarrow> (world \<Rightarrow> unit sact) \<Rightarrow> pystr
       \<Rightarrow> (fields \<times> (pystr \<times> captured) list) sact" where
  "commit_decision hb env now rd stop i =
     sbind (loaded_prepared env now i) (\<lambda>r.
     sbind (lift (text_item (PDict r) (u ''candidateWorld''))) (\<lambda>name.
     sbind (gets (world_get name)) (\<lambda>found. sbind (lift found) (\<lambda>candidate.
     sbind (stop candidate) (\<lambda>_.
     sbind (unchanged hb env now r (rd_current rd) ''beforeRoot'' ''PRIME_CHANGED_AFTER_PREPARE'') (\<lambda>current.
     sbind (lift (rd_staged rd)) (\<lambda>staged.
     sbind (lift (root_set_hash hb (map snd staged))) (\<lambda>staged_root.
     sbind (unchanged hb env now r (rd_candidate rd) ''candidateRoot'' ''CANDIDATE_CHANGED_AFTER_PREPARE'') (\<lambda>_.
     sbind (lift (rd_requirement rd)) (\<lambda>requirement.
     sbind (lift (content_root_set hb staged)) (\<lambda>staged_content.
     sbind (authorize hb rd r candidate current staged_root staged_content requirement) (\<lambda>(decision, r).
     if decision \<noteq> u ''AUTHORIZED''
     then sbind (set_state env now r (u ''DENIED'') (Some (pdict [(u ''code'', PStr decision)])) False) (\<lambda>r.
          sbind (if decision = u ''FOREIGN_MANAGED_WRITE''
                 then sbind prime (\<lambda>pw. note_unaccounted_write hb now pw
                   (map_or_empty (mget (sub_fields r ''decisionInputsAtCommit'') (u ''foreignWrites''))))
                 else ret ()) (\<lambda>_. raise (decision_error decision)))
     else
       sbind (checkpoint_collision hb i candidate staged) (\<lambda>colliding.
       if colliding \<noteq> None
       then refuse env now r (u ''ABORTED'') (u ''CHECKPOINT_IDENTITY_TAKEN'') (WL ''CHECKPOINT_IDENTITY_TAKEN'')
       else
         sbind (lift (pitem (PDict requirement) (u ''requirementHash''))) (\<lambda>h.
         sbind (set_state env now (dset (PStr (u ''commitRequirementHash'')) h r) (u ''AUTHORIZED'') None False) (\<lambda>r.
         let decided = mget (sub_fields (sub_fields r ''decisionInputsAtCommit'') ''generations'') (u ''after'') in
         if rd_now rd = None
         then refuse env now r (u ''ABORTED'') (u ''PRIME_WATCH_UNAVAILABLE'') (WL ''PRIME_WATCH_UNAVAILABLE'')
         else if counter_value (rd_now rd) \<noteq> decided
         then refuse env now r (u ''ABORTED'') (u ''PRIME_CHANGED_DURING_CAPTURE'') (WL ''PRIME_CHANGED_DURING_CAPTURE'')
         else ret (r, staged))))))))))))))))"

text \<open>
  The exchange of the live directory and the prepared mapping: refused before the rename, done, or done
  and then failed (a directory could not be flushed).
\<close>

datatype exchange_outcome = Exchanged | Not_Exchanged exc | Exchanged_Then exc

definition live_names :: "tx_env \<Rightarrow> pystr \<Rightarrow> store \<Rightarrow> bool option res" where
  "live_names env i s =
     (case marker (te_live env) s of
        Inr m \<Rightarrow> Inr (Some (m = Some i)) | Inl (WL _) \<Rightarrow> Inr None | Inl e \<Rightarrow> Inl e)"

text \<open>
  The handler of a failed exchange or finish: nothing happened and the transaction is aborted, or it
  happened and is finished now, or it is quarantined.
\<close>

definition after_failure ::
    "(bytes \<Rightarrow> bytes) \<Rightarrow> tx_env \<Rightarrow> pystr \<Rightarrow> finish_input \<Rightarrow> fields \<Rightarrow> (pystr \<times> captured) list \<Rightarrow> pystr
       \<Rightarrow> bool \<Rightarrow> exc \<Rightarrow> fields eact" where
  "after_failure hb env now fi r staged i exchanged e =
     sbind (gets (\<lambda>g. live_names env i (en_store g))) (\<lambda>m. sbind (lift m) (\<lambda>live_is_this.
     if \<not> exchanged \<and> live_is_this = Some False
     then sbind (on_store (set_state env now r (u ''ABORTED'') (coded ''ATOMIC_EXCHANGE_FAILED'') False)) (\<lambda>_. raise e)
     else if \<not> exchanged \<and> live_is_this = Some True
     then (\<lambda>g. case on_store (finish_committed hb env now fi r (Some staged)) g of
            (Inr _, f) \<Rightarrow> (Inl (WL ''COMMIT_DURABILITY_UNCERTAIN''), f)
          | (Inl x, f) \<Rightarrow> sbind (quarantine i x) (\<lambda>_. raise e) f)
     else sbind (quarantine i e) (\<lambda>_. raise e)))"

definition commit_exchange ::
    "(bytes \<Rightarrow> bytes) \<Rightarrow> tx_env \<Rightarrow> pystr \<Rightarrow> readings \<Rightarrow> finish_input \<Rightarrow> exchange_outcome
       \<Rightarrow> fields \<Rightarrow> (pystr \<times> captured) list \<Rightarrow> pystr \<Rightarrow> fields eact" where
  "commit_exchange hb env now rd fi outcome r staged i =
     (let fail = after_failure hb env now fi r staged i;
          swap = sbind (lift (text_item (PDict r) (u ''preparedMapping''))) (exchange_files (te_live env))
      in if rd_watched rd = None then fail False (WL ''PRIME_WATCH_UNAVAILABLE'')
      else case outcome of
        Not_Exchanged e \<Rightarrow> fail False e
      | Exchanged_Then e \<Rightarrow> (\<lambda>g. case on_store swap g of (Inl x, f) \<Rightarrow> fail False x f | (Inr _, f) \<Rightarrow> fail False e f)
      | Exchanged \<Rightarrow> (\<lambda>g. case on_store swap g of
            (Inl x, f) \<Rightarrow> fail False x f
          | (Inr _, f) \<Rightarrow> (case on_store (finish_committed hb env now fi r (Some staged)) f of
                (Inr result, h) \<Rightarrow> (Inr result, h)
              | (Inl x, h) \<Rightarrow> fail True x h)))"

definition commit ::
    "(bytes \<Rightarrow> bytes) \<Rightarrow> tx_env \<Rightarrow> pystr \<Rightarrow> readings \<Rightarrow> (world \<Rightarrow> unit sact) \<Rightarrow> finish_input \<Rightarrow> exchange_outcome
       \<Rightarrow> pystr \<Rightarrow> fields eact" where
  "commit hb env now rd stop fi outcome i =
     sbind assert_recovery_complete (\<lambda>_.
     sbind (on_store (commit_decision hb env now rd stop i)) (\<lambda>(r, staged).
     commit_exchange hb env now rd fi outcome r staged i))"

end
