(* ===== verification/Commit_Laws.thy ===== *)
theory Commit_Laws
  imports Commit Decision_Laws
begin

text \<open>
  What the steps after the exchange leave alone, and what recovery leaves behind. An action keeps a
  part of the state when that part is the same after it, however it ends.
\<close>

section \<open>What an action keeps\<close>

definition keeps :: "('s \<Rightarrow> 'b) \<Rightarrow> ('s, 'a) act \<Rightarrow> bool" where
  "keeps f m \<longleftrightarrow> (\<forall>s. f (snd (m s)) = f s)"

named_theorems keeps_intros \<open>one rule for each way an action is built\<close>

lemma keepsD: "keeps f m \<Longrightarrow> m s = (r, t) \<Longrightarrow> f t = f s"
  by (auto simp: keeps_def) (metis snd_conv)

lemma keepsI: "(\<And>s r t. m s = (r, t) \<Longrightarrow> f t = f s) \<Longrightarrow> keeps f m"
  by (auto simp: keeps_def) (metis prod.collapse)

lemma keeps_ret [keeps_intros]: "keeps f (ret x)"
  by (simp add: keeps_def ret_def)

lemma keeps_raise [keeps_intros]: "keeps f (raise e)"
  by (simp add: keeps_def raise_def)

lemma keeps_lift [keeps_intros]: "keeps f (lift r)"
  by (simp add: keeps_def lift_def)

lemma keeps_lift_state [keeps_intros]: "keeps f (\<lambda>s. lift (g s) s)"
  by (simp add: keeps_def lift_def)

lemma keeps_gets [keeps_intros]: "keeps f (gets g)"
  by (simp add: keeps_def gets_def)

lemma keeps_sensure [keeps_intros]: "keeps f (sensure b e)"
  by (simp add: keeps_def sensure_def)

lemma keeps_modify [keeps_intros]: "(\<And>s. f (h s) = f s) \<Longrightarrow> keeps f (modify h)"
  by (simp add: keeps_def modify_def)

lemma keeps_sbind [keeps_intros]: "keeps f m \<Longrightarrow> (\<And>x. keeps f (k x)) \<Longrightarrow> keeps f (sbind m k)"
  by (auto simp: keeps_def sbind_def split: prod.splits sum.splits) (metis snd_conv)+

lemma keeps_sbind_result:
  "keeps f m \<Longrightarrow> (\<And>s x t. m s = (Inr x, t) \<Longrightarrow> keeps f (k x)) \<Longrightarrow> keeps f (sbind m k)"
  by (auto simp: keeps_def sbind_def split: prod.splits sum.splits) (metis snd_conv)+

lemma keeps_smapM [keeps_intros]: "(\<And>x. keeps f (k x)) \<Longrightarrow> keeps f (smapM k xs)"
  by (induction xs) (auto intro: keeps_intros)

lemma keeps_if [keeps_intros]: "(b \<Longrightarrow> keeps f m) \<Longrightarrow> (\<not> b \<Longrightarrow> keeps f n) \<Longrightarrow> keeps f (if b then m else n)"
  by simp

lemma keeps_option [keeps_intros]:
  "(x = None \<Longrightarrow> keeps f m) \<Longrightarrow> (\<And>y. x = Some y \<Longrightarrow> keeps f (k y)) \<Longrightarrow> keeps f (case x of None \<Rightarrow> m | Some y \<Rightarrow> k y)"
  by (cases x) simp_all

lemma keeps_prod [keeps_intros]: "(\<And>a b. x = (a, b) \<Longrightarrow> keeps f (k a b)) \<Longrightarrow> keeps f (case x of (a, b) \<Rightarrow> k a b)"
  by (cases x) simp

lemma keeps_atomically [keeps_intros]: "keeps f m \<Longrightarrow> keeps f (atomically m)"
  by (auto simp: keeps_def atomically_def split: prod.splits sum.splits) (metis snd_conv)

section \<open>The rows of the transactions\<close>

text \<open>Every operation of the store but the update of a transaction keeps the rows of the transactions.\<close>

lemma keeps_store [keeps_intros]:
  "keeps st_txs (set_meta k v)" "keeps st_txs (get_meta k d)" "keeps st_txs (save_world w)"
  "keeps st_txs (insert_world w)" "keeps st_txs (update_root_generation k g m)"
  "keeps st_txs (write_file p data)"
  unfolding set_meta_def get_meta_def save_world_def insert_world_def update_root_generation_def write_file_def
  by (intro keeps_intros; simp)+

lemma keeps_store_chains [keeps_intros]:
  "keeps st_txs (append_causal_event hb now event)" "keeps st_txs (append_receipt hb now receipt)"
  unfolding append_causal_event_def append_receipt_def Let_def by (intro keeps_intros; simp)+

lemma keeps_prime [keeps_intros]: "keeps st_txs (set_prime a b c)" "keeps st_txs prime"
  unfolding set_prime_def prime_def by (intro keeps_intros)+

lemma keeps_replay [keeps_intros]: "keeps st_txs (insert_or_replay w)"
proof (rule keepsI)
  fix s r t assume h: "insert_or_replay w s = (r, t)"
  obtain x v where i: "insert_world w s = (x, v)" by (cases "insert_world w s")
  have "t = v" using h i by (auto simp: insert_or_replay_def split: sum.splits if_splits)
  then show "st_txs t = st_txs s" using keepsD [OF keeps_store(4) i] by simp
qed

lemma keeps_publish [keeps_intros]:
  "keeps st_txs (archive now w)" "keeps st_txs (publish_checkpoint hb env uuid now g cause er vr ws)"
proof -
  show a: "keeps st_txs (archive now w)" for w unfolding archive_def by (intro keeps_intros)
  show "keeps st_txs (publish_checkpoint hb env uuid now g cause er vr ws)"
    unfolding publish_checkpoint_def by (intro keeps_intros a)
qed

lemma keeps_finish [keeps_intros]:
  "keeps st_txs (save_manifests d ms)" "keeps st_txs (copy_state_files a b)" "keeps st_txs (advance_roots i ms)"
  "keeps st_txs (settle_candidate now w)" "keeps st_txs (archive_siblings now w)"
  "keeps st_txs (note_moved hb now i w)" "keeps st_txs (settle_receipt hb now proof r i w)"
  unfolding save_manifests_def copy_state_files_def advance_roots_def settle_candidate_def archive_siblings_def
    note_moved_def settle_receipt_def append_built_def
  by (intro keeps_intros)+

lemma keeps_committed [keeps_intros]:
  "keeps st_txs (publish_committed hb env uuid now r i w ms)"
  unfolding publish_committed_def enthrone_def publish_staged_def Let_def by (intro keeps_intros)

section \<open>One transaction at a time\<close>

text \<open>The identifiers of all transactions and the states of all but one.\<close>

definition others :: "pystr \<Rightarrow> store \<Rightarrow> (pystr \<times> pystr option) list" where
  "others i s = map (\<lambda>r. (tx_id r, if tx_id r = i then None else Some (tx_state_name r))) (st_txs s)"

lemma keeps_others: "keeps st_txs m \<Longrightarrow> keeps (others i) m"
  by (simp add: keeps_def others_def)

lemma others_update:
  "(\<And>r. tx_id (f r) = tx_id r) \<Longrightarrow> others i (s\<lparr>st_txs := update_where (\<lambda>r. tx_id r = i) f (st_txs s)\<rparr>) = others i s"
  by (auto simp: others_def update_where_def)

lemma others_ids: "others i t = others i s \<Longrightarrow> map tx_id (st_txs t) = map tx_id (st_txs s)"
  by (drule arg_cong [where f = "map fst"]) (simp add: others_def comp_def)

lemma others_state:
  assumes "others i t = others i s" and "row \<in> set (st_txs t)" and "tx_id row \<noteq> i"
  shows "\<exists>old \<in> set (st_txs s). tx_id old = tx_id row \<and> tx_state_name old = tx_state_name row"
proof -
  have "(tx_id row, Some (tx_state_name row)) \<in> set (others i t)"
    using assms(2,3) by (force simp: others_def)
  then have "(tx_id row, Some (tx_state_name row)) \<in> set (others i s)" using assms(1) by simp
  then show ?thesis by (auto simp: others_def split: if_splits)
qed

lemma keeps_reclaim [keeps_intros]: "keeps st_txs (reclaim env r)"
  by (rule keepsI, drule reclaim_run) auto

lemma keeps_update_transaction [keeps_intros]: "keeps (others i) (update_transaction now i state e c)"
  unfolding update_transaction_def by (intro keeps_intros) (rule others_update, simp)

lemma keeps_set_state:
  assumes "mget r (u ''transactionId'') = PStr i"
  shows "keeps (others i) (set_state env now r target e c)"
proof -
  have i: "text_item (PDict (stepped r target e)) (u ''transactionId'') = Inr i"
    using assms by (simp add: text_item_Inr mget_stepped)
  have w: "keeps st_txs (write_record r')" for r' unfolding write_record_def by (intro keeps_intros)
  have u: "keeps (others i) (sbind (lift (text_item (PDict (stepped r target e)) (u ''transactionId''))) k)"
    if "keeps (others i) (k i)" for k :: "pystr \<Rightarrow> fields sact"
    using that by (simp add: i keeps_def run_lift)
  show ?thesis
    unfolding set_state_def Let_def
    by (rule keeps_sbind [OF keeps_others [OF keeps_lift]], rule keeps_sbind [OF keeps_others [OF w]], rule u)
      (intro keeps_intros keeps_others [OF keeps_reclaim])
qed

lemma stepped_id: "mget (stepped r target e) (u ''transactionId'') = mget r (u ''transactionId'')"
  by (simp add: mget_stepped)

text \<open>No row of the transaction is still open.\<close>

definition closed :: "pystr \<Rightarrow> store \<Rightarrow> bool" where
  "closed i s \<longleftrightarrow> (\<forall>row \<in> set (st_txs s). tx_id row = i \<longrightarrow> tx_state_name row \<notin> {u ''PREPARED'', u ''AUTHORIZED''})"

lemma update_where_all:
  assumes "\<And>r. Q (f r)" shows "\<forall>row \<in> set (update_where P f rows). P row \<longrightarrow> Q row"
  using assms by (auto simp: update_where_def)

lemma set_state_result:
  assumes "set_state env now r target e c s = (Inr r', t)" and "mget r (u ''transactionId'') = PStr i"
  shows "r' = stepped r target e \<and> (\<forall>row \<in> set (st_txs t). tx_id row = i \<longrightarrow> tx_state_name row = target)"
proof (rule set_state_run [OF assms(1)], goal_cases)
  case (1 a b path data i' blob v)
  then have i: "i' = i" using assms(2) by simp
  have "st_txs t = st_txs v" using 1(11) keepsD [OF keeps_reclaim] by blast
  then have "st_txs t = update_where (\<lambda>r. tx_id r = i) (\<lambda>r. r\<lparr>tx_state_name := target, tx_error := blob,
           tx_committed_at := (if c then Some now else None)\<rparr>) (st_txs s)"
    unfolding 1(10) i by simp
  then have "\<forall>row \<in> set (st_txs t). tx_id row = i \<longrightarrow> tx_state_name row = target"
    by (simp only:) (rule update_where_all, simp)
  then show ?case using 1(4) by simp
qed

lemma keeps_settle_state:
  assumes "mget r (u ''transactionId'') = PStr i"
  shows "keeps (others i) (settle_state env now r)"
  unfolding settle_state_def
proof (rule keeps_sbind_result)
  show "keeps (others i) (if mget r (u ''state'') = PStr (u ''PREPARED'')
      then set_state env now r (u ''AUTHORIZED'') None False else ret r)"
    using assms by (intro keeps_intros keeps_set_state)
  fix s r' t
  assume "(if mget r (u ''state'') = PStr (u ''PREPARED'')
      then set_state env now r (u ''AUTHORIZED'') None False else ret r) s = (Inr r', t)"
  then have "mget r' (u ''transactionId'') = PStr i"
    using assms set_state_result [of env now r "u ''AUTHORIZED''" None False s r' t i]
    by (auto simp: stepped_id ret_def split: if_splits)
  then show "keeps (others i) (if mget r' (u ''state'') = PStr (u ''AUTHORIZED'')
      then set_state env now r' (u ''COMMITTED'') None True else ret r')"
    by (intro keeps_intros keeps_set_state)
qed

text \<open>The rows of a transaction all have the state; its record has it too.\<close>

definition in_state :: "pystr \<Rightarrow> pystr \<Rightarrow> store \<Rightarrow> bool" where
  "in_state i state s \<longleftrightarrow> (\<forall>row \<in> set (st_txs s). tx_id row = i \<longrightarrow> tx_state_name row = state)"

lemma in_state_closed: "in_state i x s \<Longrightarrow> x \<notin> {u ''PREPARED'', u ''AUTHORIZED''} \<Longrightarrow> closed i s"
  by (auto simp: in_state_def closed_def)

lemma in_state_cong: "st_txs t = st_txs s \<Longrightarrow> in_state i x t = in_state i x s"
  by (simp add: in_state_def)

lemma closed_cong: "st_txs t = st_txs s \<Longrightarrow> closed i t = closed i s"
  by (simp add: closed_def)

lemma load_record_in_state:
  assumes "load_record env i s = Inr r" and "distinct (map tx_id (st_txs s))"
  shows "\<exists>x. mget r (u ''state'') = PStr x \<and> in_state i x s \<and> mget r (u ''transactionId'') = PStr i"
proof -
  from load_record_Inr [OF assms(1)] obtain row where row: "row \<in> set (st_txs s)" "tx_id row = i"
      "mget r (u ''transactionId'') = PStr i" "mget r (u ''state'') = PStr (tx_state_name row)" by blast
  have same: "y = row" if "y \<in> set (st_txs s)" "tx_id y = i" for y
    using assms(2) row(1,2) that inj_onD [of tx_id "set (st_txs s)" y row] by (simp add: distinct_map)
  have "in_state i (tx_state_name row) s" unfolding in_state_def by (auto dest: same)
  then show ?thesis using row(3,4) by blast
qed

lemma settle_state_closes:
  assumes run: "settle_state env now r s = (Inr r', t)" and i: "mget r (u ''transactionId'') = PStr i"
    and state: "mget r (u ''state'') = PStr x" "in_state i x s"
  shows "closed i t"
proof -
  from run obtain r1 s1 where first: "(if mget r (u ''state'') = PStr (u ''PREPARED'')
      then set_state env now r (u ''AUTHORIZED'') None False else ret r) s = (Inr r1, s1)"
    and second: "(if mget r1 (u ''state'') = PStr (u ''AUTHORIZED'')
      then set_state env now r1 (u ''COMMITTED'') None True else ret r1) s1 = (Inr r', t)"
    unfolding settle_state_def by (rule sbind_InrE)
  have "\<exists>y. mget r1 (u ''state'') = PStr y \<and> in_state i y s1 \<and> y \<noteq> u ''PREPARED''
      \<and> mget r1 (u ''transactionId'') = PStr i"
  proof (cases "mget r (u ''state'') = PStr (u ''PREPARED'')")
    case True
    then have "set_state env now r (u ''AUTHORIZED'') None False s = (Inr r1, s1)" using first by simp
    from set_state_result [OF this i] show ?thesis using i by (simp add: in_state_def mget_stepped)
  next
    case False
    then show ?thesis using first state i by (auto simp: ret_def)
  qed
  then obtain y where y: "mget r1 (u ''state'') = PStr y" "in_state i y s1" "y \<noteq> u ''PREPARED''"
      "mget r1 (u ''transactionId'') = PStr i" by blast
  show ?thesis
  proof (cases "y = u ''AUTHORIZED''")
    case True
    then have "set_state env now r1 (u ''COMMITTED'') None True s1 = (Inr r', t)" using second y(1) by simp
    from set_state_result [OF this y(4)] show ?thesis by (auto simp: closed_def)
  next
    case False
    then have "t = s1" using second y(1) by (simp add: ret_def)
    then show ?thesis using y(2,3) False in_state_closed by simp
  qed
qed

lemma keeps_finish_committed:
  assumes "mget r (u ''transactionId'') = PStr i"
  shows "keeps (others i) (finish_committed hb env now fi r staged)"
  unfolding finish_committed_def
  by (intro keeps_intros keeps_settle_state assms; rule keeps_others, intro keeps_intros)

text \<open>An action that, when it completes from rows in a state, leaves the transaction closed.\<close>

definition closing :: "pystr \<Rightarrow> pystr \<Rightarrow> 'a sact \<Rightarrow> bool" where
  "closing i x m \<longleftrightarrow> (\<forall>s y t. in_state i x s \<longrightarrow> m s = (Inr y, t) \<longrightarrow> closed i t)"

lemma closing_before:
  assumes m: "keeps st_txs m" and k: "\<And>y. closing i x (k y)"
  shows "closing i x (sbind m k)"
  unfolding closing_def
proof (intro allI impI, elim sbind_InrE)
  fix s y t z r assume h: "in_state i x s" "m s = (Inr z, r)" "k z r = (Inr y, t)"
  then have "in_state i x r" using keepsD [OF m h(2)] in_state_cong by blast
  then show "closed i t" using k [of z] h(3) by (auto simp: closing_def)
qed

lemma closing_after:
  assumes m: "closing i x m" and k: "\<And>y. keeps st_txs (k y)"
  shows "closing i x (sbind m k)"
  unfolding closing_def
proof (intro allI impI, elim sbind_InrE)
  fix s y t z r assume h: "in_state i x s" "m s = (Inr z, r)" "k z r = (Inr y, t)"
  then have "closed i r" using m by (auto simp: closing_def)
  then show "closed i t" using keepsD [OF k h(3)] closed_cong by blast
qed

lemma closing_prod: "(\<And>a b. closing i x (k a b)) \<Longrightarrow> closing i x (case p of (a, b) \<Rightarrow> k a b)"
  by (cases p) simp

lemma closing_settle:
  assumes "mget r (u ''transactionId'') = PStr i" and "mget r (u ''state'') = PStr x"
    and "\<And>y. keeps st_txs (k y)"
  shows "closing i x (sbind (settle_state env now r) k)"
  by (intro closing_after assms(3)) (auto simp: closing_def intro: settle_state_closes [OF _ assms(1,2)])

lemma finish_committed_closes:
  assumes "mget r (u ''transactionId'') = PStr i" and "mget r (u ''state'') = PStr x"
  shows "closing i x (finish_committed hb env now fi r staged)"
  unfolding finish_committed_def
  by (intro closing_settle [OF assms] closing_before closing_prod keeps_intros)

section \<open>Recovery settles or quarantines\<close>

definition settling :: "pystr \<Rightarrow> 'a sact \<Rightarrow> bool" where
  "settling i m \<longleftrightarrow> (\<forall>s r t. distinct (map tx_id (st_txs s)) \<longrightarrow> m s = (r, t) \<longrightarrow>
     others i t = others i s \<and> ((\<exists>y. r = Inr y) \<longrightarrow> closed i t))"

lemma settling_loaded:
  assumes "\<And>r x. mget r (u ''transactionId'') = PStr i \<Longrightarrow> mget r (u ''state'') = PStr x
      \<Longrightarrow> keeps (others i) (k r) \<and> closing i x (k r)"
  shows "settling i (sbind (gets (load_record env i)) (\<lambda>loaded. sbind (lift loaded) k))"
  unfolding settling_def
proof (intro allI impI)
  fix s r t
  assume d: "distinct (map tx_id (st_txs s))"
    and run: "sbind (gets (load_record env i)) (\<lambda>loaded. sbind (lift loaded) k) s = (r, t)"
  show "others i t = others i s \<and> ((\<exists>y. r = Inr y) \<longrightarrow> closed i t)"
  proof (cases "load_record env i s")
    case (Inl e)
    then show ?thesis using run by (auto simp: run_gets run_lift)
  next
    case (Inr rec)
    then obtain x where x: "mget rec (u ''state'') = PStr x" "in_state i x s" "mget rec (u ''transactionId'') = PStr i"
      using load_record_in_state [OF _ d] by blast
    have run': "k rec s = (r, t)" using run Inr by (simp add: run_gets run_lift)
    have k: "keeps (others i) (k rec)" "closing i x (k rec)" using assms [OF x(3,1)] by auto
    show ?thesis using keepsD [OF k(1) run'] k(2) x(2) run' by (auto simp: closing_def)
  qed
qed

lemma closing_if: "(b \<Longrightarrow> closing i x m) \<Longrightarrow> (\<not> b \<Longrightarrow> closing i x n) \<Longrightarrow> closing i x (if b then m else n)"
  by simp

lemma closing_raise: "closing i x (raise e)"
  by (simp add: closing_def raise_def)

lemma closing_abort:
  assumes "mget r (u ''transactionId'') = PStr i" and "\<And>y. keeps st_txs (k y)"
  shows "closing i x (sbind (set_state env now r (u ''ABORTED'') e c) k)"
proof (rule closing_after [OF _ assms(2)])
  have "closed i t" if "set_state env now r (u ''ABORTED'') e c s = (Inr y, t)" for s y t
    using set_state_result [OF that assms(1)] by (auto simp: closed_def)
  then show "closing i x (set_state env now r (u ''ABORTED'') e c)" by (simp add: closing_def)
qed

lemma recover_one_settles: "settling i (recover_one hb env now fi i)"
  unfolding recover_one_def
proof (rule settling_loaded, rule conjI)
  fix r x assume r: "mget r (u ''transactionId'') = PStr i" and x: "mget r (u ''state'') = PStr x"
  let ?k = "sbind (gets (marker (te_live env))) (\<lambda>m. sbind (lift m) (\<lambda>live.
     sbind (lift (text_item (PDict r) (u ''preparedMapping''))) (\<lambda>mapping.
     sbind (gets (marker mapping)) (\<lambda>m. sbind (lift m) (\<lambda>prepared.
     if live = Some i \<and> prepared \<noteq> Some i
     then sbind (finish_committed hb env now (fi i) r None) (\<lambda>result. ret (Committed result))
     else if prepared = Some i \<and> live \<noteq> Some i
     then sbind (set_state env now r (u ''ABORTED'') (coded ''RECOVERED_BEFORE_COMMIT'') False) (\<lambda>_. ret Aborted)
     else raise ambiguous)))))"
  show "keeps (others i) ?k"
    by (intro keeps_finish_committed [OF r] keeps_set_state [OF r] keeps_intros)
  show "closing i x ?k"
    by (intro closing_after [OF finish_committed_closes [OF r x]] closing_abort [OF r] closing_if closing_raise
        closing_before keeps_intros)
qed

lemma recover_receipt_settles: "settling i (recover_receipt hb env now fi i)"
  unfolding recover_receipt_def
proof (rule settling_loaded, rule conjI)
  fix r x assume r: "mget r (u ''transactionId'') = PStr i" and x: "mget r (u ''state'') = PStr x"
  show "keeps (others i) (sbind (finish_committed hb env now (fi i) r None) (\<lambda>_. ret Receipt_Recovered))"
    by (intro keeps_finish_committed [OF r] keeps_intros)
  show "closing i x (sbind (finish_committed hb env now (fi i) r None) (\<lambda>_. ret Receipt_Recovered))"
    by (rule closing_after [OF finish_committed_closes [OF r x]]) (rule keeps_ret)
qed

text \<open>A transaction is accounted for when no row of it is open or it is in quarantine.\<close>

definition accounted :: "pystr \<Rightarrow> engine \<Rightarrow> bool" where
  "accounted i e \<longleftrightarrow> closed i (en_store e) \<or> i \<in> set (dkeys (en_unrecoverable e))"

definition engine_ids :: "engine \<Rightarrow> pystr list" where
  "engine_ids e = map tx_id (st_txs (en_store e))"

lemma closed_others:
  assumes "others i t = others i s" and "j \<noteq> i" and "closed j s" shows "closed j t"
  unfolding closed_def
proof (intro ballI impI)
  fix row assume "row \<in> set (st_txs t)" "tx_id row = j"
  then show "tx_state_name row \<notin> {u ''PREPARED'', u ''AUTHORIZED''}"
    using others_state [OF assms(1), of row] assms(2,3) by (auto simp: closed_def)
qed

lemma accounted_quarantined:
  "accounted j (e\<lparr>en_store := t, en_unrecoverable := dset i x q\<rparr>) \<longleftrightarrow> closed j t \<or> j = i \<or> j \<in> set (dkeys q)"
proof -
  have "set (dkeys (dset i x q)) = insert i (set (dkeys q))" by (rule set_dkeys_dset)
  then show ?thesis by (simp add: accounted_def del: set_map)
qed

lemma guarded_step:
  assumes run: "guarded failure i m e = (r, f)" and m: "settling i m" and d: "distinct (engine_ids e)"
  shows "engine_ids f = engine_ids e \<and> accounted i f \<and> (\<forall>j. accounted j e \<longrightarrow> accounted j f) \<and> (\<exists>x. r = Inr x)"
proof -
  obtain y t where y: "m (en_store e) = (y, t)" by (cases "m (en_store e)")
  have o: "others i t = others i (en_store e)" and c: "(\<exists>z. y = Inr z) \<longrightarrow> closed i t"
    using m d y by (auto simp: settling_def engine_ids_def)
  have ids: "map tx_id (st_txs t) = map tx_id (st_txs (en_store e))" by (rule others_ids [OF o])
  show ?thesis
  proof (cases y)
    case (Inr z)
    then have f: "f = e\<lparr>en_store := t\<rparr>" "r = Inr (i, z)" using run y by (auto simp: guarded_def on_store_def)
    have "accounted i f" using c Inr f by (simp add: accounted_def)
    moreover have "accounted j f" if "accounted j e" "j \<noteq> i" for j
      using that closed_others [OF o that(2)] f by (auto simp: accounted_def)
    ultimately show ?thesis using f ids by (auto simp: engine_ids_def)
  next
    case (Inl x)
    then have f: "f = e\<lparr>en_store := t, en_unrecoverable := dset i x (en_unrecoverable e)\<rparr>" "r = Inr (i, failure x)"
      using run y by (auto simp: guarded_def on_store_def)
    have "accounted i f" using f by (simp add: accounted_quarantined)
    moreover have "accounted j f" if "accounted j e" "j \<noteq> i" for j
      unfolding f accounted_quarantined using that closed_others [OF o that(2)] by (auto simp: accounted_def)
    ultimately show ?thesis using f ids by (auto simp: engine_ids_def)
  qed
qed

lemma collect_guarded:
  assumes "collectM (\<lambda>i. guarded failure i (m i)) is e = (r, f)" and "\<And>i. settling i (m i)"
    and "distinct (engine_ids e)"
  shows "engine_ids f = engine_ids e \<and> (\<forall>j. accounted j e \<or> j \<in> set is \<longrightarrow> accounted j f) \<and> (\<exists>x. r = Inr x)"
  using assms(1,3)
proof (induction "is" arbitrary: e r f)
  case Nil
  then show ?case by (auto simp: ret_def)
next
  case (Cons i js)
  obtain y g where y: "guarded failure i (m i) e = (y, g)" by (cases "guarded failure i (m i) e")
  note step = guarded_step [OF y assms(2) Cons.prems(2)]
  then obtain x where x: "y = Inr x" by blast
  obtain z h where z: "collectM (\<lambda>i. guarded failure i (m i)) js g = (z, h)"
    by (cases "collectM (\<lambda>i. guarded failure i (m i)) js g")
  have rest: "engine_ids h = engine_ids g \<and> (\<forall>j. accounted j g \<or> j \<in> set js \<longrightarrow> accounted j h) \<and> (\<exists>x. z = Inr x)"
    using Cons.IH [OF z] Cons.prems(2) step by simp
  then obtain w where "z = Inr w" by blast
  then have "f = h \<and> (\<exists>x. r = Inr x)" using Cons.prems(1) y x z by (auto simp: ret_def)
  then show ?case using rest step by auto
qed

lemma collect_committed:
  assumes "collectM (recover_committed hb env now fi) is e = (r, f)" and "distinct (engine_ids e)"
    and "\<forall>j. accounted j e"
  shows "(\<forall>j. accounted j f) \<and> (\<forall>x. r = Inl x \<longrightarrow> (\<exists>i g. receipt_for_transaction i g = Inl x))"
  using assms
proof (induction "is" arbitrary: e r f)
  case Nil
  then show ?case by (auto simp: ret_def)
next
  case (Cons i js)
  let ?step = "recover_committed hb env now fi i"
  obtain y g where y: "?step e = (y, g)" by (cases "?step e")
  have step: "engine_ids g = engine_ids e \<and> (\<forall>j. accounted j g)
      \<and> (\<forall>x. y = Inl x \<longrightarrow> receipt_for_transaction i (en_store e) = Inl x)"
  proof (cases "receipt_for_transaction i (en_store e)")
    case (Inl x)
    then show ?thesis using y Cons.prems(3) by (auto simp: recover_committed_def run_gets run_lift)
  next
    case (Inr known)
    show ?thesis
    proof (cases "known = None")
      case False
      then show ?thesis using y Inr Cons.prems(3) by (auto simp: recover_committed_def run_gets run_lift ret_def)
    next
      case True
      obtain z h where z: "guarded Receipt_Unrecoverable i (recover_receipt hb env now fi i) e = (z, h)"
        by (cases "guarded Receipt_Unrecoverable i (recover_receipt hb env now fi i) e")
      note s = guarded_step [OF z recover_receipt_settles Cons.prems(2)]
      then obtain x where "z = Inr x" by blast
      then have "g = h \<and> (\<exists>x. y = Inr x)"
        using y Inr True z by (auto simp: recover_committed_def run_gets run_lift ret_def)
      then show ?thesis using s Cons.prems(3) by auto
    qed
  qed
  show ?case
  proof (cases y)
    case (Inl x)
    then have "r = Inl x" "f = g" using Cons.prems(1) y by simp_all
    then show ?thesis using step Inl by blast
  next
    case (Inr x)
    obtain z h where z: "collectM (recover_committed hb env now fi) js g = (z, h)"
      by (cases "collectM (recover_committed hb env now fi) js g")
    have rest: "(\<forall>j. accounted j h) \<and> (\<forall>x. z = Inl x \<longrightarrow> (\<exists>i g. receipt_for_transaction i g = Inl x))"
      using Cons.IH [OF z] step Cons.prems(2) by simp
    have "f = h \<and> (\<forall>x. r = Inl x \<longrightarrow> z = Inl x)"
      using Cons.prems(1) y Inr z by (cases z) (auto simp: ret_def)
    then show ?thesis using rest by auto
  qed
qed

lemma recover_all_accounts:
  assumes run: "recover_all hb env now fi e = (r, f)" and d: "distinct (engine_ids e)"
  shows "(\<forall>j. accounted j f) \<and> (\<forall>x. r = Inl x \<longrightarrow> (\<exists>i g. receipt_for_transaction i g = Inl x))"
proof -
  let ?e = "e\<lparr>en_unrecoverable := []\<rparr>"
  let ?open = "map tx_id (transactions_in_state [u ''PREPARED'', u ''AUTHORIZED''] (en_store e))"
  obtain x g where x: "collectM (\<lambda>i. guarded Unrecoverable i (recover_one hb env now fi i)) ?open ?e = (x, g)"
    by (cases "collectM (\<lambda>i. guarded Unrecoverable i (recover_one hb env now fi i)) ?open ?e")
  have "distinct (engine_ids ?e)" using d by (simp add: engine_ids_def)
  note first = collect_guarded [OF x recover_one_settles this]
  then obtain out where out: "x = Inr out" by blast
  have "accounted j ?e \<or> j \<in> set ?open" for j
    by (auto simp: accounted_def closed_def transactions_in_state_def)
  then have all: "\<forall>j. accounted j g" using first by blast
  let ?done = "map tx_id (transactions_in_state [u ''COMMITTED''] (en_store g))"
  obtain y h where y: "collectM (recover_committed hb env now fi) ?done g = (y, h)"
    by (cases "collectM (recover_committed hb env now fi) ?done g")
  have ids: "distinct (engine_ids g)" using first d by (simp add: engine_ids_def)
  have "f = h \<and> (\<forall>x. r = Inl x \<longrightarrow> y = Inl x)"
    using run x out y by (cases y) (auto simp: recover_all_def run_modify run_gets ret_def)
  then show ?thesis using collect_committed [OF y ids all] by blast
qed

section \<open>What an accepted commit has checked\<close>

lemma refuse_fails: "refuse env now r target code e s \<noteq> (Inr y, t)"
  by (auto simp: refuse_def sbind_def raise_def split: prod.splits sum.splits)

text \<open>A capture taken now has the root the record says.\<close>

definition measured :: "(bytes \<Rightarrow> bytes) \<Rightarrow> (pystr \<times> captured) list res \<Rightarrow> pyval \<Rightarrow> bool" where
  "measured hb taken recorded \<longleftrightarrow>
     (\<exists>ms h. taken = Inr ms \<and> root_set_hash hb (map snd ms) = Inr h \<and> recorded = PStr h)"

lemma unchanged_run:
  assumes "unchanged hb env now r taken key code s = (Inr ms, t)"
  shows "t = s \<and> taken = Inr ms \<and> measured hb taken (mget r (u key))"
proof -
  from assms obtain h recorded where h: "taken = Inr ms" "root_set_hash hb (map snd ms) = Inr h"
      "pitem (PDict r) (u key) = Inr recorded" "recorded = PStr h" "t = s"
    unfolding unchanged_def by (elim sbind_InrE lift_InrE) (auto simp: ret_def refuse_fails split: if_splits)
  then have "mget r (u key) = PStr h" by (simp add: pitem_def mget_def req_Inr_iff)
  then show ?thesis using h by (auto simp: measured_def)
qed

lemma loaded_prepared_run:
  assumes "loaded_prepared env now i s = (Inr r, t)"
  shows "t = s \<and> load_record env i s = Inr r \<and> mget r (u ''state'') = PStr (u ''PREPARED'')"
  using assms unfolding loaded_prepared_def
  by (elim sbind_InrE lift_InrE gets_InrE sensure_InrE) (auto simp: ret_def refuse_fails split: if_splits)

lemma inputs_at_commit_run:
  assumes "inputs_at_commit hb rd r candidate current requirement s = (Inr inputs, t)"
  shows "mget inputs (u ''stagedRoot'') = mget (sub_fields r ''decisionInputs'') (u ''stagedRoot'')
    \<and> mget inputs (u ''generations'') = generations_value (rd_before rd) (rd_after rd)"
  using assms unfolding inputs_at_commit_def Let_def
  by (elim sbind_InrE) (auto simp: ret_def mget_set elim!: act_elims split: prod.splits)

lemma authorize_run:
  assumes "authorize hb rd r candidate current staged_root staged_content requirement s = (Inr (decision, r'), t)"
  shows "\<exists>q inputs. decide q = Inr (decision, inputs) \<and> qn_candidate q = candidate \<and> qn_phase q = u ''COMMIT''
    \<and> qn_expected_parent q = mget r (u ''parentContentExpected'') \<and> qn_base_root q = mget r (u ''baseRoot'')
    \<and> qn_delta_hash q = mget r (u ''deltaHash'')
    \<and> qn_expected_staged q = mget (sub_fields r ''decisionInputs'') (u ''stagedRoot'')
    \<and> qn_actual_staged q = PStr staged_root
    \<and> mget (qn_inputs q) (u ''generations'') = generations_value (rd_before rd) (rd_after rd)
    \<and> r' = dset (PStr (u ''decisionInputsAtCommit'')) (PDict (kept_inputs inputs)) r"
  using assms unfolding authorize_def Let_def
  apply (elim sbind_InrE lift_InrE gets_InrE)
  apply (clarsimp split: prod.splits simp: ret_def)
  apply (frule inputs_at_commit_run)
  apply (rule exI, intro exI conjI, assumption, simp_all)
  done

lemma kept_generations:
  assumes "decide q = Inr (decision, inputs)"
    and "mget (qn_inputs q) (u ''generations'') = generations_value before after"
    and "r' = dset (PStr (u ''decisionInputsAtCommit'')) (PDict (kept_inputs inputs)) r"
  shows "mget (sub_fields (sub_fields r' ''decisionInputsAtCommit'') ''generations'') (u ''after'') = counter_value after"
proof -
  have "\<exists>x. inputs = dset (PStr (u ''absent'')) x (qn_inputs q)" using assms(1) by (auto simp: decide_def res_iffs)
  then have "mget inputs (u ''generations'') = generations_value before after" using assms(2) by (auto simp: mget_set)
  then show ?thesis
    by (simp add: assms(3) sub_fields_def mget_set map_or_empty_def as_map_def kept_inputs_def generations_value_def)
      (simp add: mget_def)
qed

lemma commit_decision_steps:
  assumes "commit_decision hb env now rd stop i s = (Inr (r', staged), t)"
  obtains r name candidate h content requirement v s1 s2 s3 s4 s5 r1 ms ns where
    "loaded_prepared env now i s = (Inr r, s1)" and "text_item (PDict r) (u ''candidateWorld'') = Inr name"
    and "world_get name s1 = Inr candidate" and "stop candidate s1 = (Inr (), s2)"
    and "unchanged hb env now r (rd_current rd) ''beforeRoot'' ''PRIME_CHANGED_AFTER_PREPARE'' s2 = (Inr ms, s3)"
    and "rd_staged rd = Inr staged" and "root_set_hash hb (map snd staged) = Inr h"
    and "unchanged hb env now r (rd_candidate rd) ''candidateRoot'' ''CANDIDATE_CHANGED_AFTER_PREPARE'' s3 = (Inr ns, s4)"
    and "authorize hb rd r candidate ms h content requirement s4 = (Inr (u ''AUTHORIZED'', r1), s5)"
    and "\<exists>a. set_state env now (dset (PStr (u ''commitRequirementHash'')) v r1) (u ''AUTHORIZED'') None False a = (Inr r', t)"
    and "rd_now rd \<noteq> None"
    and "counter_value (rd_now rd)
       = mget (sub_fields (sub_fields r' ''decisionInputsAtCommit'') ''generations'') (u ''after'')"
  using assms unfolding commit_decision_def Let_def
  apply (elim sbind_InrE lift_InrE gets_InrE)
  apply (clarsimp simp: refuse_fails raise_def split: if_splits)
   apply (elim sbind_InrE lift_InrE gets_InrE)
   apply (simp add: raise_def)
  apply (elim sbind_InrE lift_InrE gets_InrE)
  apply (clarsimp simp: refuse_fails split: if_splits)
  apply (elim sbind_InrE lift_InrE gets_InrE)
  apply (clarsimp simp: refuse_fails ret_def split: if_splits)
  apply blast
  done

end
