(* ===== verification/Commit_Sample.thy ===== *)
theory Commit_Sample
  imports Commit_Laws Transaction_Lifecycle Manifest_Links
begin

text \<open>
  A store in which a prepared transaction is committed: one world that is both PRIME and the candidate,
  no registered root, and one hash for every digest. It witnesses the properties of the commit.
\<close>

section \<open>One digest\<close>

definition same_digest :: pystr where
  "same_digest = u ''sha256:'' @ hex_text (replicate 32 (CHR 0x41))"

lemma hash_id_constant: "hash_id (constant_hash b) = Inr same_digest"
  by (simp add: constant_hash_def hash_id_ok same_digest_def)

lemma same_digest_bytes: "hash_bytes_from_id same_digest = Inr (replicate 32 (CHR 0x41))"
  by (rule hash_bytes_from_hash_id) (simp add: hash_id_ok same_digest_def)

lemma identity_of_same: "identity_of (PStr same_digest) = Inr (Some (replicate 32 (CHR 0x41)))"
  by (rule identity_of_hash_id) (simp add: hash_id_ok same_digest_def)

lemma encodable_same: "encodable same_digest"
  unfolding same_digest_def by (simp add: encodable_append)

lemma tagged_same: "validate v = Inr () \<Longrightarrow> tagged_id constant_hash tag v = Inr same_digest"
  by (simp add: tagged_id_def canonical_bytes_def hash_id_constant)

section \<open>The world and the store\<close>

definition sample_candidate :: world where
  "sample_candidate = sample_world\<lparr>w_state := VALID, w_parent_content := same_digest, w_base_root := same_digest,
     w_root_set_hash := same_digest, w_delta_hash := Some same_digest, w_content_id := Some same_digest,
     w_components := map (\<lambda>k. (k, same_digest)) identity_components\<rparr>"

lemma candidate_columns: "valid_columns sample_candidate" "dicts_ok sample_candidate"
  by (auto simp: valid_columns_def valid_components sample_candidate_def sample_world_def identity_components_def
      dicts_ok_def encodable_same simp del: encodable_u intro: encodable_u)

definition candidate_row :: world_row where
  "candidate_row = (case row_of_world sample_candidate of Inr r \<Rightarrow> r)"

lemma candidate_row: "row_of_world sample_candidate = Inr candidate_row"
  using valid_columns_row [OF candidate_columns(1)] by (auto simp: candidate_row_def)

definition found_candidate :: world where
  "found_candidate = stored sample_candidate"

lemma candidate_found:
  assumes "st_worlds s = [candidate_row]"
  shows "world_get (u ''i'') s = Inr (found_candidate\<lparr>w_descendants := 0\<rparr>)"
proof -
  have i: "wr_instance_id candidate_row = u ''i''" "wr_parent_instance candidate_row = None"
    using row_of_world_ids [OF candidate_row] by (simp_all add: sample_candidate_def sample_world_def)
  have "descendant_count (u ''i'') s = 0"
    by (simp add: descendant_count_def assms parent_links_def i)
  moreover have "world_from_row candidate_row = Inr found_candidate"
    unfolding found_candidate_def by (rule world_from_row_of_world [OF candidate_row candidate_columns(2)])
  ultimately show ?thesis by (simp add: world_get_def world_lookup_def assms i)
qed

lemma candidate_fields:
  "w_instance_id found_candidate = u ''i''" "w_state found_candidate = VALID"
  "w_parent_content found_candidate = same_digest" "w_base_root found_candidate = same_digest"
  "w_root_set_hash found_candidate = same_digest" "w_delta_hash found_candidate = Some same_digest"
  "w_content_id found_candidate = Some same_digest" "w_contamination found_candidate = []"
  by (simp_all add: found_candidate_def stored_def sample_candidate_def sample_world_def)

lemma stored_components: "w_components (stored w) = sort_key fst (w_components w)"
  by (simp add: stored_def)

lemma dget_constant: "k \<in> set ks \<Longrightarrow> dget (map (\<lambda>k. (k, c)) ks) k = Some c"
  by (induction ks) auto

lemma candidate_components:
  assumes "k \<in> set identity_components" shows "dget (w_components found_candidate) k = Some same_digest"
proof -
  let ?cs = "map (\<lambda>k. (k, same_digest)) identity_components"
  have sorted: "w_components found_candidate = sort_key fst ?cs"
    unfolding found_candidate_def stored_components by (rule arg_cong [where f = "sort_key fst"])
      (simp add: sample_candidate_def)
  have distinct: "distinct (dkeys ?cs)" by (simp add: identity_components_def)
  show ?thesis unfolding sorted map_of_sort_key [OF distinct] using assms by (rule dget_constant)
qed

text \<open>The prepared record of the transaction.\<close>

definition primary_inputs :: fields where
  "primary_inputs = [(PStr (u ''evaluatedRequirement''), PStr same_digest),
     (PStr (u ''executedVerifiers''), PStr same_digest), (PStr (u ''rosterComplete''), PBool True)]"

definition prepared_inputs :: fields where
  "prepared_inputs = [(PStr (u ''conflictsMeasured''), PBool True), (PStr (u ''evidenceSubject''), PStr same_digest),
     (PStr (u ''primary''), PDict primary_inputs), (PStr (u ''stagedRoot''), PStr same_digest),
     (PStr (u ''testedRoot''), PStr same_digest)]"

definition committable :: fields where
  "committable = [(PStr (u ''baseRoot''), PStr same_digest), (PStr (u ''beforeRoot''), PStr same_digest),
     (PStr (u ''candidateRoot''), PStr same_digest), (PStr (u ''candidateWorld''), PStr (u ''i'')),
     (PStr (u ''decisionInputs''), PDict prepared_inputs), (PStr (u ''deltaHash''), PStr same_digest),
     (PStr (u ''parentContentExpected''), PStr same_digest),
     (PStr (u ''preparedMapping''), PStr (u ''/d/x/m'')), (PStr (u ''preparedPath''), PStr (u ''/t/x'')),
     (PStr (u ''schemaVersion''), PInt 1), (PStr (u ''stagingPayload''), PStr (u ''/d/x/p'')),
     (PStr (u ''state''), PStr (u ''PREPARED'')), (PStr (u ''transactionId''), PStr (u ''x'')),
     (PStr (u ''validation''), PDict [])]"

lemma record_order:
  "u ''evaluatedRequirement'' \<le> u ''executedVerifiers''" "u ''executedVerifiers'' \<le> u ''rosterComplete''"
  "u ''conflictsMeasured'' \<le> u ''evidenceSubject''" "u ''evidenceSubject'' \<le> u ''primary''"
  "u ''primary'' \<le> u ''stagedRoot''" "u ''stagedRoot'' \<le> u ''testedRoot''"
  "u ''baseRoot'' \<le> u ''beforeRoot''" "u ''beforeRoot'' \<le> u ''candidateRoot''"
  "u ''candidateRoot'' \<le> u ''candidateWorld''" "u ''candidateWorld'' \<le> u ''decisionInputs''"
  "u ''decisionInputs'' \<le> u ''deltaHash''" "u ''deltaHash'' \<le> u ''parentContentExpected''"
  "u ''parentContentExpected'' \<le> u ''preparedMapping''" "u ''transactionId'' \<le> u ''validation''"
  by (simp_all add: u_def)

lemma committable_norm: "norm (PDict committable) = PDict committable"
proof -
  have "norm (PDict primary_inputs) = PDict primary_inputs"
    by (simp add: primary_inputs_def norm.simps(2) key_of_def record_order)
  then have inputs: "norm (PDict prepared_inputs) = PDict prepared_inputs"
    by (simp add: prepared_inputs_def norm.simps(2) key_of_def record_order)
  then show ?thesis
    by (simp add: committable_def norm.simps(2) key_of_def record_order sample_order)
qed

lemma committable_canonical: "canonicalizable (PDict committable)"
  by (simp add: canonicalizable_def committable_def prepared_inputs_def primary_inputs_def encodable_same)

definition commit_store :: store where
  "commit_store = empty_store\<lparr>st_worlds := [candidate_row], st_txs := [sample_row],
     st_meta := [(u ''primeInstance'', utf8_encode (dumps (PStr (u ''i''))))],
     st_files := [(u ''/t/x'', utf8_encode (dumps (PDict committable)))]\<rparr>"

lemma committable_fields:
  "mget committable (u ''baseRoot'') = PStr same_digest" "mget committable (u ''beforeRoot'') = PStr same_digest"
  "mget committable (u ''candidateRoot'') = PStr same_digest" "mget committable (u ''candidateWorld'') = PStr (u ''i'')"
  "mget committable (u ''decisionInputs'') = PDict prepared_inputs" "mget committable (u ''deltaHash'') = PStr same_digest"
  "mget committable (u ''parentContentExpected'') = PStr same_digest"
  "mget committable (u ''preparedMapping'') = PStr (u ''/d/x/m'')"
  "mget committable (u ''preparedPath'') = PStr (u ''/t/x'')"
  "mget committable (u ''schemaVersion'') = PInt 1"
  "mget committable (u ''stagingPayload'') = PStr (u ''/d/x/p'')"
  "mget committable (u ''state'') = PStr (u ''PREPARED'')"
  "mget committable (u ''transactionId'') = PStr (u ''x'')"
  "mget committable (u ''validation'') = PDict []" "mhas committable (u ''validation'')"
  "mget committable (u ''returnOf'') = PNone" "mget committable (u ''conflicts'') = PNone"
  by (simp_all add: mget_def mhas_def committable_def)

lemma commit_read: "read_document e (u ''/t/x'') commit_store = Inr (PDict committable)"
  using utf8_roundtrip [OF encodable_dumps [OF committable_canonical]]
    loads_dumps [OF committable_canonical] committable_norm
  by (simp add: read_document_def commit_store_def)

lemma commit_load: "load_record sample_env (u ''x'') commit_store = Inr committable"
proof -
  have t: "transaction_record (u ''x'') commit_store = Inr (sample_row, PNone)"
    by (simp add: transaction_record_def commit_store_def sample_row_def json_load_def)
  have p: "tx_prepared_path sample_row = u ''/t/x''" "tx_state_name sample_row = u ''PREPARED''"
    by (simp_all add: sample_row_def)
  have o: "own_field sample_env (u ''x'') committable (u ''stagingPayload'') = Inr ()"
    "own_field sample_env (u ''x'') committable (u ''preparedMapping'') = Inr ()"
    by (simp_all add: own_field_def committable_fields sample_dirs sample_own)
  show ?thesis
    by (simp add: load_record_def t p commit_read as_map_def committable_fields truthy_def eq_int_def o
        sample_dirs(1) sample_own(1) Let_def)
qed

lemma prepared_loaded: "loaded_prepared sample_env [] (u ''x'') commit_store = (Inr committable, commit_store)"
  by (simp add: loaded_prepared_def run_gets run_lift run_sensure commit_load committable_fields is_map_def as_map_def
      ret_def)

lemma commit_prime: "prime commit_store = (Inr (Some (found_candidate\<lparr>w_descendants := 0\<rparr>)), commit_store)"
proof -
  have c: "canonicalizable (PStr (u ''i''))" by (simp add: canonicalizable_def)
  have "json_load (Some (utf8_encode (dumps (PStr (u ''i''))))) PNone = Inr (PStr (u ''i''))"
    using utf8_roundtrip [OF encodable_dumps [OF c]] loads_dumps [OF c] by (simp add: json_load_def)
  then have m: "get_meta (u ''primeInstance'') PNone commit_store = (Inr (PStr (u ''i'')), commit_store)"
    by (simp add: get_meta_def run_gets lift_def commit_store_def)
  have w: "world_get (u ''i'') commit_store = Inr (found_candidate\<lparr>w_descendants := 0\<rparr>)"
    by (rule candidate_found) (simp add: commit_store_def)
  show ?thesis unfolding prime_def sbind_run_Inr [of "get_meta (u ''primeInstance'') PNone", OF m]
    by (simp add: truthy_def run_gets run_lift w ret_def)
qed

section \<open>The measurements\<close>

definition sample_requirement :: fields where
  "sample_requirement = [(PStr (u ''requirementHash''), PStr same_digest)]"

definition sample_readings :: readings where
  "sample_readings = \<lparr>rd_before = Some 7, rd_after = Some 7, rd_now = Some 7, rd_current = Inr [], rd_staged = Inr [],
     rd_candidate = Inr [], rd_requirement = Inr sample_requirement, rd_source = (\<lambda>_. Inr []), rd_watched = Some []\<rparr>"

abbreviation the_candidate :: world where
  "the_candidate \<equiv> found_candidate\<lparr>w_descendants := 0\<rparr>"

lemma empty_root_set: "root_set_hash constant_hash [] = Inr same_digest"
  by (simp add: root_set_hash_def pairs_value_def canonical_bytes_def hash_id_constant)

lemma empty_content: "content_root_set constant_hash [] = Inr same_digest"
  by (simp add: content_root_set_def canonical_bytes_def hash_id_constant)

lemma empty_components:
  "component_roots constant_hash [] = Inr (map (\<lambda>k. (k, same_digest)) components_in_order)"
  by (simp add: component_roots_def pairs_value_def canonical_bytes_def hash_id_constant components_in_order_def)

lemma measured_clean:
  "foreign_writes_measured constant_hash [] (Some the_candidate) (Some the_candidate)
     = Inr (foreign_value ''NONE_FOUND'' ''live-capture-vs-prime-record'' [])"
proof -
  have k: "k \<in> set identity_components" if "k \<in> set compared_components" for k
    using that by (auto simp: compared_components_def identity_components_def)
  have o: "k \<in> set components_in_order" if "k \<in> set compared_components" for k
    using that by (auto simp: compared_components_def components_in_order_def)
  have known: "list_all (\<lambda>k. dget (w_components the_candidate) k \<noteq> None) compared_components"
    using k candidate_components by (simp add: list_all_iff)
  have same: "dget (map (\<lambda>k. (k, same_digest)) components_in_order) k = dget (w_components the_candidate) k"
    if "k \<in> set compared_components" for k
    using dget_constant [OF o [OF that]] candidate_components [OF k [OF that]] by simp
  have clean: "filter (\<lambda>k. dget (map (\<lambda>k. (k, same_digest)) components_in_order) k
      \<noteq> dget (w_components the_candidate) k) compared_components = []"
    using same by (simp add: filter_empty_conv)
  show ?thesis using known clean
    by (simp only: foreign_writes_measured_def candidate_fields world.simps option.case if_True not_True_eq_False
        empty_components rbind_simps Let_def list.map) (simp add: candidate_fields)
qed

lemma no_watch: "watch_sets constant_hash [] (rd_source sample_readings) (rd_watched sample_readings)
    = Inr (Some same_digest, Some same_digest)"
  by (simp add: watch_sets_def sample_readings_def opt_digest_def watch_set_digest_def tagged_same)

lemma subject_of_sample: "subject_pair constant_hash [] the_candidate None = Inr (Some same_digest, None)"
  by (simp add: subject_pair_def subject_digest_def candidate_fields tagged_same mget_def)

lemma declared_sample: "declared_verifiers_of constant_hash sample_requirement = Inr same_digest"
  by (simp add: declared_verifiers_of_def required_roster_def sample_requirement_def map_or_empty_def as_map_def mget_def
      declared_bundles_def iter_or_empty_def bundle_identity_def constant_hash_def same_digest_def truthy_def)

definition commit_inputs :: fields where
  "commit_inputs = fold (\<lambda>(k, v). dset (PStr (u k)) v)
     [(''expectedSubject'', PStr same_digest),
      (''foreignWrites'', PDict (foreign_value ''NONE_FOUND'' ''live-capture-vs-prime-record'' [])),
      (''watchSets'', pdict [(u ''registered'', PStr same_digest), (u ''watched'', PStr same_digest)]),
      (''primary'', PDict (dset (PStr (u ''declaredVerifiers'')) (PStr same_digest) primary_inputs)),
      (''generations'', generations_value (Some 7) (Some 7))] prepared_inputs"

lemma no_roots: "roots commit_store = []"
  by (simp add: roots_def commit_store_def empty_store_def)

lemma prepared_sub: "sub_fields prepared_inputs ''primary'' = primary_inputs"
  by (simp add: sub_fields_def prepared_inputs_def mget_def map_or_empty_def as_map_def)

lemma inputs_taken:
  "inputs_at_commit constant_hash sample_readings committable the_candidate [] sample_requirement commit_store
     = (Inr commit_inputs, commit_store)"
proof -
  have r: "return_of committable = None" "sub_fields committable ''validation'' = []"
      "sub_fields committable ''decisionInputs'' = prepared_inputs"
    by (simp_all add: return_of_def committable_fields sub_fields_def map_or_empty_def as_map_def)
  have g: "rd_before sample_readings = Some 7" "rd_after sample_readings = Some 7"
    by (simp_all add: sample_readings_def)
  show ?thesis
    unfolding inputs_at_commit_def sbind_run_Inr [of prime, OF commit_prime]
    by (simp only: run_lift measured_clean sum.case run_gets no_roots no_watch r subject_of_sample declared_sample
        prepared_sub g Let_def prod.case commit_inputs_def opt_str_def option.case ret_def)
qed

lemma inputs_run:
  "sbind (inputs_at_commit constant_hash sample_readings committable the_candidate [] sample_requirement) f commit_store
     = f commit_inputs commit_store"
  by (rule sbind_run_Inr) (rule inputs_taken)

lemma commit_inputs_fields:
  "mget commit_inputs (u ''expectedSubject'') = PStr same_digest"
  "mget commit_inputs (u ''evidenceSubject'') = PStr same_digest"
  "mget commit_inputs (u ''testedRoot'') = PStr same_digest" "mget commit_inputs (u ''stagedRoot'') = PStr same_digest"
  "mget commit_inputs (u ''conflictsMeasured'') = PBool True" "mget commit_inputs (u ''staged'') = PNone"
  "mget commit_inputs (u ''foreignWrites'') = PDict (foreign_value ''NONE_FOUND'' ''live-capture-vs-prime-record'' [])"
  "mget commit_inputs (u ''watchSets'') = pdict [(u ''registered'', PStr same_digest), (u ''watched'', PStr same_digest)]"
  "mget commit_inputs (u ''primary'') = PDict (dset (PStr (u ''declaredVerifiers'')) (PStr same_digest) primary_inputs)"
  "mget commit_inputs (u ''generations'') = generations_value (Some 7) (Some 7)"
  by (simp_all add: commit_inputs_def mget_set) (simp_all add: prepared_inputs_def mget_def)

section \<open>The decision and the step\<close>

definition commit_question :: question where
  "commit_question = \<lparr>qn_phase = u ''COMMIT'', qn_mode = PNone, qn_candidate = the_candidate,
         qn_subject = the_candidate, qn_expected_parent = PStr same_digest,
         qn_base_root = PStr same_digest, qn_delta_hash = PStr same_digest,
         qn_root_set = PStr same_digest, qn_expected_staged = PStr same_digest,
         qn_actual_staged = PStr same_digest, qn_staged_content = PStr same_digest,
         qn_conflicts = False, qn_requirement = PStr same_digest, qn_inputs = commit_inputs,
         qn_witness = PNone\<rparr>"

lemma commit_subs:
  "sub_fields commit_inputs ''staged'' = []"
  "sub_fields commit_inputs ''primary'' = dset (PStr (u ''declaredVerifiers'')) (PStr same_digest) primary_inputs"
  "sub_fields commit_inputs ''watchSets'' = [(PStr (u ''registered''), PStr same_digest), (PStr (u ''watched''), PStr same_digest)]"
  "sub_fields commit_inputs ''generations'' = [(PStr (u ''before''), PInt 7), (PStr (u ''after''), PInt 7)]"
  by (simp_all add: sub_fields_def commit_inputs_fields map_or_empty_def as_map_def generations_value_def counter_value_def)

lemma primary_fields:
  "mget primary_inputs (u ''evaluatedRequirement'') = PStr same_digest"
  "mget primary_inputs (u ''executedVerifiers'') = PStr same_digest"
  "mget primary_inputs (u ''rosterComplete'') = PBool True"
  by (simp_all add: mget_def primary_inputs_def)

lemma zip_names: "set (map fst (filter P (zip xs ys))) \<subseteq> set xs"
  by (auto dest: set_zip_leftD)

lemma commit_authorized:
  "\<exists>names. set names \<subseteq> range u \<and> decide commit_question
     = Inr (u ''AUTHORIZED'', dset (PStr (u ''absent'')) (texts names) commit_inputs)"
proof -
  have q: "qn_inputs commit_question = commit_inputs" "qn_candidate commit_question = the_candidate"
      "qn_phase commit_question = u ''COMMIT''" "qn_mode commit_question = PNone"
      "qn_conflicts commit_question = False"
    by (simp_all add: commit_question_def)
  have f: "foreign_state_of commit_inputs = Inr (u ''NONE_FOUND'')"
    by (simp add: foreign_state_of_def commit_inputs_fields or_empty_def truthy_def foreign_value_def pget_def)
  have "\<exists>v. question_of commit_question = Inr v \<and> collapse_decide v = Inr (u ''AUTHORIZED'')"
  proof (rule uniform_question_authorized [of "replicate 32 (CHR 0x41)" _ 7])
    show "\<forall>x \<in> set [qn_expected_parent commit_question, PStr (w_parent_content (qn_candidate commit_question)),
        mget (qn_inputs commit_question) (u ''expectedSubject''), mget (qn_inputs commit_question) (u ''evidenceSubject''),
        PStr (w_base_root (qn_candidate commit_question)), qn_base_root commit_question,
        opt_str (w_delta_hash (qn_candidate commit_question)), qn_delta_hash commit_question,
        qn_root_set commit_question, PStr (w_root_set_hash (qn_candidate commit_question)),
        qn_expected_staged commit_question, qn_actual_staged commit_question,
        qn_staged_content commit_question, mget (qn_inputs commit_question) (u ''testedRoot''),
        qn_requirement commit_question,
        mget (sub_fields (qn_inputs commit_question) ''primary'') (u ''evaluatedRequirement''),
        mget (sub_fields (qn_inputs commit_question) ''primary'') (u ''declaredVerifiers''),
        mget (sub_fields (qn_inputs commit_question) ''primary'') (u ''executedVerifiers''),
        mget (sub_fields (qn_inputs commit_question) ''watchSets'') (u ''registered''),
        mget (sub_fields (qn_inputs commit_question) ''watchSets'') (u ''watched'')].
          identity_of x = Inr (Some (replicate 32 (CHR 0x41)))"
      unfolding q by (simp add: commit_inputs_fields commit_subs mget_set primary_fields candidate_fields opt_str_def
          identity_of_same) (simp add: commit_question_def mget_def identity_of_same)
  qed (simp_all add: q f commit_subs commit_inputs_fields candidate_fields CHECKPOINT_def mget_set primary_fields
      All_Zero_def list_all_iff, simp_all add: mget_def)
  then obtain v where v: "question_of commit_question = Inr v" "collapse_decide v = Inr (u ''AUTHORIZED'')" by blast
  have "set (absent_inputs v) \<subseteq> range u"
    unfolding absent_inputs_def set_sort by (rule order_trans [OF zip_names]) (simp only: set_map, rule image_subsetI, rule rangeI)
  then show ?thesis using v by (auto simp: decide_def q)
qed

lemma sample_authorize:
  "\<exists>names. set names \<subseteq> range u \<and>
     authorize constant_hash sample_readings committable the_candidate [] same_digest same_digest sample_requirement commit_store
       = (Inr (u ''AUTHORIZED'', dset (PStr (u ''decisionInputsAtCommit''))
           (PDict (kept_inputs (dset (PStr (u ''absent'')) (texts names) commit_inputs))) committable), commit_store)"
proof -
  obtain names where names: "set names \<subseteq> range u" and d: "decide commit_question
     = Inr (u ''AUTHORIZED'', dset (PStr (u ''absent'')) (texts names) commit_inputs)"
    using commit_authorized by blast
  have r: "return_of committable = None" "sub_fields committable ''validation'' = []"
    by (simp_all add: return_of_def committable_fields sub_fields_def map_or_empty_def as_map_def)
  have s: "subject_of the_candidate None = ret the_candidate" by (simp add: subject_of_def)
  have root_set: "registered_root_set constant_hash [] = Inr same_digest"
    by (simp add: registered_root_set_def tagged_same)
  have h: "pitem (PDict sample_requirement) (u ''requirementHash'') = Inr (PStr same_digest)"
    by (simp add: pitem_def sample_requirement_def)
  have mode: "mget [] (u ''mode'') = PNone" "PNone \<noteq> CHECKPOINT" by (simp_all add: mget_def CHECKPOINT_def)
  have conflicts: "truthy PNone = False" by (simp add: truthy_def)
  have "authorize constant_hash sample_readings committable the_candidate [] same_digest same_digest sample_requirement commit_store
       = (Inr (u ''AUTHORIZED'', dset (PStr (u ''decisionInputsAtCommit''))
           (PDict (kept_inputs (dset (PStr (u ''absent'')) (texts names) commit_inputs))) committable), commit_store)"
    unfolding authorize_def r s
    by (simp only: run_ret inputs_run Let_def mode if_False run_gets no_roots
        run_lift root_set h sum.case committable_fields commit_inputs_fields conflicts witness_value_def option.case
        d [unfolded commit_question_def] prod.case ret_def)
  then show ?thesis using names by blast
qed

lemma no_collision: "checkpoint_collision constant_hash (u ''x'') the_candidate [] commit_store = (Inr None, commit_store)"
proof -
  have e: "u ''environment'' \<in> set identity_components" "u ''evidence'' \<in> set identity_components"
    by (simp_all add: identity_components_def)
  have env: "dget (w_components the_candidate) (u ''environment'') = Some same_digest"
      "dget (w_components the_candidate) (u ''evidence'') = Some same_digest"
    using candidate_components e by simp_all
  have now: "dget (map (\<lambda>k. (k, same_digest)) components_in_order) k = Some same_digest"
    if "k \<in> set compared_components" for k
    using that by (intro dget_constant) (auto simp: compared_components_def components_in_order_def)
  have "rmap (\<lambda>k. rbind (req KeyError (dget (map (\<lambda>k. (k, same_digest)) components_in_order) k)) hash_bytes_from_id)
      compared_components = Inr (map (\<lambda>_. replicate 32 (CHR 0x41)) compared_components)"
    by (rule rmap_all_Inr) (simp only: now req_simps rbind_simps same_digest_bytes)
  then have "staged_identity constant_hash the_candidate (map (\<lambda>k. (k, same_digest)) components_in_order) same_digest
      = Inr same_digest"
    unfolding staged_identity_def
    by (simp only: same_digest_bytes rbind_simps rmap.simps env req_simps)
      (simp add: compared_components_def core_world_id_def world_identity_def hash_id_constant)
  then show ?thesis
    unfolding checkpoint_collision_def sbind_run_Inr [of prime, OF commit_prime]
    by (simp add: candidate_fields run_lift empty_components ret_def)
qed

lemma kept_valid:
  assumes "set names \<subseteq> range u"
  shows "validate (PDict (kept_inputs (dset (PStr (u ''absent'')) (texts names) commit_inputs))) = Inr ()"
proof -
  have "rmap validate (map PStr names) = Inr (map (\<lambda>_. ()) (map PStr names))"
    by (rule rmap_all_Inr) (use assms in auto)
  then have "validate (texts names) = Inr ()" by (simp add: texts_def)
  then show ?thesis
    by (simp add: kept_inputs_def mget_set commit_inputs_fields encodable_same generations_value_def counter_value_def
        foreign_value_def texts_def del: validate.simps(5)) simp
qed

lemma sample_allowed_step: "mget r (u ''state'') = PStr (u ''PREPARED'') \<Longrightarrow> allowed_step r (u ''AUTHORIZED'') = Inr ()"
  unfolding allowed_step_Inr by (rule exI [of _ TxPREPARED], rule exI [of _ TxAUTHORIZED]) simp

lemma commit_step:
  assumes r: "mget r (u ''state'') = PStr (u ''PREPARED'')" "mget r (u ''transactionId'') = PStr (u ''x'')"
      "mget r (u ''preparedPath'') = PStr (u ''/t/x'')"
    and v: "validate (PDict (stepped r (u ''AUTHORIZED'') None)) = Inr ()"
  shows "\<exists>t. set_state sample_env [] r (u ''AUTHORIZED'') None False commit_store
     = (Inr (stepped r (u ''AUTHORIZED'') None), t)"
proof -
  let ?r = "stepped r (u ''AUTHORIZED'') None"
  obtain data where data: "canonical_bytes (PDict ?r) = Inr data" using v by (simp add: canonical_bytes_def)
  obtain t where w: "write_record ?r commit_store = (Inr (), t)" and t: "st_txs t = [sample_row]"
    using data write_record_run [of ?r commit_store "()"] by (simp add: mget_stepped r) (simp add: commit_store_def)
  obtain w where u: "update_transaction [] (u ''x'') (u ''AUTHORIZED'') None False t = (Inr (), w)"
    using update_transaction_run [of "[]" "u ''x''" "u ''AUTHORIZED''" None False t "()"]
    by (simp add: t sample_row_def error_blob_def TRANSACTION_STATE_CODES_def)
  have i: "text_item (PDict ?r) (u ''transactionId'') = Inr (u ''x'')" using r by (simp add: text_item_Inr mget_stepped)
  show ?thesis
    unfolding set_state_def Let_def
    by (simp add: run_lift sample_allowed_step [OF r(1)] w i u run_ret) (simp add: ret_def)
qed

lemma validate_dset:
  "validate (PDict d) = Inr () \<Longrightarrow> encodable k \<Longrightarrow> validate v = Inr () \<Longrightarrow> validate (PDict (dset (PStr k) v d)) = Inr ()"
  unfolding validate_PDict by (induction "PStr k" v d rule: dset.induct) auto

lemma commit_accepted:
  "\<exists>r t. commit_decision constant_hash sample_env [] sample_readings (\<lambda>_. ret ()) (u ''x'') commit_store = (Inr (r, []), t)"
proof -
  obtain names where names: "set names \<subseteq> range u" and
    a: "authorize constant_hash sample_readings committable the_candidate [] same_digest same_digest sample_requirement commit_store
       = (Inr (u ''AUTHORIZED'', dset (PStr (u ''decisionInputsAtCommit''))
           (PDict (kept_inputs (dset (PStr (u ''absent'')) (texts names) commit_inputs))) committable), commit_store)"
    using sample_authorize by blast
  let ?kept = "kept_inputs (dset (PStr (u ''absent'')) (texts names) commit_inputs)"
  let ?r = "dset (PStr (u ''commitRequirementHash'')) (PStr same_digest)
      (dset (PStr (u ''decisionInputsAtCommit'')) (PDict ?kept) committable)"
  have c: "validate (PDict committable) = Inr ()" using committable_canonical by (simp add: canonicalizable_def)
  have "validate (PDict (stepped ?r (u ''AUTHORIZED'') None)) = Inr ()"
    unfolding stepped_def
    by (intro validate_dset c kept_valid [OF names] encodable_u) (simp_all add: encodable_same)
  then obtain t where t: "set_state sample_env [] ?r (u ''AUTHORIZED'') None False commit_store
     = (Inr (stepped ?r (u ''AUTHORIZED'') None), t)"
    using commit_step [of ?r] by (auto simp: mget_set committable_fields)
  have name: "text_item (PDict committable) (u ''candidateWorld'') = Inr (u ''i'')"
    by (simp add: text_item_Inr committable_fields)
  have w: "world_get (u ''i'') commit_store = Inr the_candidate" by (rule candidate_found) (simp add: commit_store_def)
  have same: "unchanged constant_hash sample_env [] committable (Inr []) key code commit_store = (Inr [], commit_store)"
    if "mget committable (u key) = PStr same_digest" "PStr (u key) \<in> fst ` set committable" for key code
  proof -
    have "pitem (PDict committable) (u key) = Inr (PStr same_digest)"
      using that by (auto simp: pitem_def mget_def req_def split: option.splits dest: weak_map_of_SomeI)
    then show ?thesis by (simp add: unchanged_def run_lift empty_root_set ret_def)
  qed
  have u: "unchanged constant_hash sample_env [] committable (Inr []) ''beforeRoot'' code commit_store = (Inr [], commit_store)"
      "unchanged constant_hash sample_env [] committable (Inr []) ''candidateRoot'' code commit_store = (Inr [], commit_store)"
      for code by (rule same, simp add: committable_fields, simp add: committable_def)+
  have rd: "rd_current sample_readings = Inr []" "rd_staged sample_readings = Inr []" "rd_candidate sample_readings = Inr []"
      "rd_requirement sample_readings = Inr sample_requirement" "rd_now sample_readings = Some 7"
    by (simp_all add: sample_readings_def)
  have h: "pitem (PDict sample_requirement) (u ''requirementHash'') = Inr (PStr same_digest)"
    by (simp add: pitem_def sample_requirement_def)
  have after: "mget (sub_fields (sub_fields (stepped ?r (u ''AUTHORIZED'') None) ''decisionInputsAtCommit'') ''generations'')
      (u ''after'') = PInt 7"
    by (simp add: sub_fields_def mget_stepped mget_set map_or_empty_def as_map_def kept_inputs_def commit_inputs_fields
        generations_value_def counter_value_def) (simp add: mget_def)
  show ?thesis
    unfolding commit_decision_def
    by (simp add: prepared_loaded run_lift run_gets run_ret name w rd u empty_root_set
        empty_content a no_collision h t after counter_value_def ret_def)
qed

end
