(* ===== verification/Commit_Claims.thy ===== *)
theory Commit_Claims
  imports Commit_Sample Decision_Claims
begin

text \<open>
  Commit and recovery of a prepared transaction: the exchange is the commit point, and recovery leaves
  no transaction open that it did not put in quarantine.
\<close>

section \<open>The exchange on the files\<close>

definition apart :: "pystr \<Rightarrow> pystr \<Rightarrow> bool" where
  "apart a b \<longleftrightarrow> a \<noteq> b \<and> \<not> inside a b \<and> \<not> inside b a"

lemma apart_sym: "apart a b \<Longrightarrow> apart b a"
  by (auto simp: apart_def)

lemma inside_below: "inside a (a @ 47 # x)"
  by (auto simp: inside_iff)

lemma apart_inside:
  assumes "apart a b" and "inside a p" shows "\<not> inside b p"
proof
  assume "inside b p"
  then obtain x y where "p = a @ 47 # x" "p = b @ 47 # y" using assms(2) by (auto simp: inside_iff)
  then have "a @ 47 # x = b @ 47 # y" by simp
  then obtain c where "a = b @ c \<and> c @ 47 # x = 47 # y \<or> a @ c = b \<and> 47 # x = c @ 47 # y"
    by (auto simp: append_eq_append_conv2)
  then have "a = b \<or> inside b a \<or> inside a b"
    by (cases c) (auto simp: inside_iff)
  then show False using assms(1) by (auto simp: apart_def)
qed

lemma moved_inside:
  assumes "apart a b"
  shows "moved_path a b (a @ 47 # x) = b @ 47 # x" and "moved_path a b (b @ 47 # x) = a @ 47 # x"
  using apart_inside [OF apart_sym [OF assms] inside_below] inside_below by (simp_all add: moved_path_def)

lemma moved_outside: "\<not> inside a p \<Longrightarrow> \<not> inside b p \<Longrightarrow> moved_path a b p = p"
  by (simp add: moved_path_def)

lemma moved_moved:
  assumes "apart a b" shows "moved_path a b (moved_path a b p) = p"
proof -
  consider x where "p = a @ 47 # x" | x where "p = b @ 47 # x" | "\<not> inside a p" "\<not> inside b p"
    by (auto simp: inside_iff)
  then show ?thesis by cases (simp_all add: moved_inside [OF assms] moved_outside)
qed

lemma dget_moved:
  "(\<And>p. f (f p) = p) \<Longrightarrow> dget (map (\<lambda>(p, d). (f p, d)) fs) q = dget fs (f q)"
  by (induction fs) auto

lemma exchange_run:
  assumes "apart a b"
  shows "exchange_files a b s = (Inr (), s\<lparr>st_files := map (\<lambda>(p, d). (moved_path a b p, d)) (st_files s)\<rparr>)"
    and "dget (map (\<lambda>(p, d). (moved_path a b p, d)) (st_files s)) q = dget (st_files s) (moved_path a b q)"
  using dget_moved [of "moved_path a b"] moved_moved [OF assms] by (simp_all add: exchange_files_def modify_def)

lemma marker_cong:
  "dget (st_files t) (below d MARKER) = dget (st_files s) (below c MARKER) \<Longrightarrow> marker d t = marker c s"
  unfolding marker_def read_document_def Let_def by simp

lemma exchanged_markers:
  assumes "apart a b" and "exchange_files a b s = (x, t)"
  shows "marker a t = marker b s" and "marker b t = marker a s"
  using assms exchange_run [OF assms(1)] moved_inside [OF assms(1)]
  by (auto intro!: marker_cong simp: below_def)

lemma exchanged_record:
  assumes "apart a b" and "exchange_files a b s = (x, t)"
    and "\<And>row. List.find (\<lambda>r. tx_id r = i) (st_txs s) = Some row \<Longrightarrow>
      \<not> inside a (tx_prepared_path row) \<and> \<not> inside b (tx_prepared_path row)"
  shows "load_record env i t = load_record env i s"
  using assms exchange_run [OF assms(1)] by (intro load_record_cong) (auto simp: moved_outside)

section \<open>Properties\<close>

text \<open>
  C4. The exchange is the commit point. While the prepared mapping still holds a transaction's marker,
  recovery aborts it; once the mapping was exchanged with the live directory, recovery finishes the
  commit of the same record. Nothing between the two is possible, since the exchange is one rename.
\<close>
theorem exchange_is_commit_point:
  assumes "load_record env i s = Inr r" and "mget r (u ''preparedMapping'') = PStr mapping"
    and "marker mapping s = Inr (Some i)" and "marker (te_live env) s = Inr live" and "live \<noteq> Some i"
    and "apart (te_live env) mapping" and "exchange_files (te_live env) mapping s = (x, t)"
    and "\<And>row. List.find (\<lambda>r. tx_id r = i) (st_txs s) = Some row \<Longrightarrow>
      \<not> inside (te_live env) (tx_prepared_path row) \<and> \<not> inside mapping (tx_prepared_path row)"
  shows "recover_one hb env now fi i s
      = sbind (set_state env now r (u ''ABORTED'') (coded ''RECOVERED_BEFORE_COMMIT'') False) (\<lambda>_. ret Aborted) s
    \<and> recover_one hb env now fi i t
      = sbind (finish_committed hb env now (fi i) r None) (\<lambda>out. ret (Committed out)) t"
proof -
  have m: "text_item (PDict r) (u ''preparedMapping'') = Inr mapping" using assms(2) by (simp add: text_item_Inr)
  have after: "marker (te_live env) t = Inr (Some i)" "marker mapping t = Inr live" "load_record env i t = Inr r"
    using exchanged_markers [OF assms(6,7)] exchanged_record [OF assms(6,7,8)] assms(1,3,4) by simp_all
  have "recover_one hb env now fi i s
      = sbind (set_state env now r (u ''ABORTED'') (coded ''RECOVERED_BEFORE_COMMIT'') False) (\<lambda>_. ret Aborted) s"
    using assms(1,3,4,5) m by (simp add: recover_one_def run_gets run_lift)
  moreover have "recover_one hb env now fi i t
      = sbind (finish_committed hb env now (fi i) r None) (\<lambda>out. ret (Committed out)) t"
    using after assms(5) m by (simp add: recover_one_def run_gets run_lift)
  ultimately show ?thesis by simp
qed

definition sample_finish :: "pystr \<Rightarrow> finish_input" where
  "sample_finish i = \<lparr>fi_uuid = i, fi_proof = PNone, fi_live = Inr []\<rparr>"

definition sample_marker :: fields where
  "sample_marker = [(PStr (u ''schemaVersion''), PInt 1), (PStr (u ''transactionId''), PStr (u ''x''))]"

definition sample_staged :: store where
  "sample_staged = sample_prepared\<lparr>st_files :=
     (u ''/d/x/m/.worldline-generation.json'', utf8_encode (dumps (PDict sample_marker))) # st_files sample_prepared\<rparr>"

lemma sample_marker_text:
  "canonicalizable (PDict sample_marker)" "norm (PDict sample_marker) = PDict sample_marker"
proof -
  have "u ''schemaVersion'' \<le> u ''transactionId''" by (simp add: u_def)
  then show "norm (PDict sample_marker) = PDict sample_marker"
    by (simp add: sample_marker_def norm.simps(2) key_of_def)
  show "canonicalizable (PDict sample_marker)" by (simp add: canonicalizable_def sample_marker_def)
qed

lemma sample_mapping_path: "below (u ''/d/x/m'') MARKER = u ''/d/x/m/.worldline-generation.json''"
  by (simp add: below_def MARKER_def u_def)

lemma sample_mapping_marker: "marker (u ''/d/x/m'') sample_staged = Inr (Some (u ''x''))"
proof -
  have stored: "dget (st_files sample_staged) (u ''/d/x/m/.worldline-generation.json'')
      = Some (utf8_encode (dumps (PDict sample_marker)))"
    by (simp add: sample_staged_def)
  have read: "read_document ambiguous (u ''/d/x/m/.worldline-generation.json'') sample_staged = Inr (PDict sample_marker)"
    using utf8_roundtrip [OF encodable_dumps [OF sample_marker_text(1)]] loads_dumps [OF sample_marker_text(1)]
      sample_marker_text(2) stored
    by (simp add: read_document_def)
  have get: "pget (PDict sample_marker) (u ''schemaVersion'') PNone = Inr (PInt 1)"
      "pget (PDict sample_marker) (u ''transactionId'') PNone = Inr (PStr (u ''x''))"
    by (simp_all add: sample_marker_def pget_def)
  show ?thesis by (simp add: marker_def sample_mapping_path stored read get eq_int_def)
qed

lemma sample_live_marker: "marker (te_live sample_env) sample_staged = Inr None"
proof -
  have "below (te_live sample_env) MARKER = u ''/l/.worldline-generation.json''"
    by (simp add: below_def MARKER_def sample_env_def u_def)
  then show ?thesis by (simp add: marker_def sample_staged_def sample_prepared_def)
qed

lemma sample_staged_load: "load_record sample_env (u ''x'') sample_staged = Inr sample_record"
proof -
  have "load_record sample_env (u ''x'') sample_staged = load_record sample_env (u ''x'') sample_prepared"
  proof (rule load_record_cong)
    fix row assume "List.find (\<lambda>r. tx_id r = u ''x'') (st_txs sample_prepared) = Some row"
    then have "tx_prepared_path row = u ''/t/x''"
      by (auto simp: sample_prepared_def sample_row_def)
    then show "dget (st_files sample_staged) (tx_prepared_path row) = dget (st_files sample_prepared) (tx_prepared_path row)"
      by (simp add: sample_staged_def)
  qed (simp add: sample_staged_def)
  then show ?thesis using sample_record_load by simp
qed

theorem exchange_is_commit_point_witness:
  "\<exists>t. recover_one constant_hash sample_env [] sample_finish (u ''x'') sample_staged
      = sbind (set_state sample_env [] sample_record (u ''ABORTED'') (coded ''RECOVERED_BEFORE_COMMIT'') False)
          (\<lambda>_. ret Aborted) sample_staged
    \<and> recover_one constant_hash sample_env [] sample_finish (u ''x'') t
      = sbind (finish_committed constant_hash sample_env [] (sample_finish (u ''x'')) sample_record None)
          (\<lambda>out. ret (Committed out)) t"
proof -
  have apart: "apart (te_live sample_env) (u ''/d/x/m'')"
    by (simp add: apart_def inside_def prefixed_def sample_env_def) (simp add: u_def)
  note ex = exchange_run(1) [OF apart, of sample_staged]
  have path: "\<not> inside (te_live sample_env) (tx_prepared_path row) \<and> \<not> inside (u ''/d/x/m'') (tx_prepared_path row)"
    if "List.find (\<lambda>r. tx_id r = u ''x'') (st_txs sample_staged) = Some row" for row
  proof -
    have "tx_prepared_path row = u ''/t/x''"
      using that by (auto simp: sample_staged_def sample_prepared_def sample_row_def)
    then show ?thesis by (simp add: inside_def prefixed_def sample_env_def) (simp add: u_def)
  qed
  have none: "(None :: pystr option) \<noteq> Some (u ''x'')" by simp
  from exchange_is_commit_point [OF sample_staged_load sample_fields(1) sample_mapping_marker sample_live_marker none
      apart ex path] show ?thesis by blast
qed


definition sample_engine :: engine where
  "sample_engine = \<lparr>en_store = sample_prepared, en_unrecoverable = []\<rparr>"


lemma counter_value_inj: "counter_value a = counter_value b \<longleftrightarrow> a = b"
  by (cases a; cases b) (simp_all add: counter_value_def)



lemma prime_reads: "prime s = (r, t) \<Longrightarrow> t = s"
proof -
  have "keeps (\<lambda>s. s) prime" unfolding prime_def get_meta_def by (intro keeps_intros)
  then show "prime s = (r, t) \<Longrightarrow> t = s" by (rule keepsD)
qed

text \<open>
  C40. A return to a former reality rests on the store, not on the request: a checkpoint is witnessed only
  if it is PRIME itself or lies on the recorded chain of parents from PRIME, and then the content that
  is compared is the one its child recorded when it was born.
\<close>
theorem checkpoint_is_former_reality:
  assumes "checkpoint_witness subject s = (Inr (Some x), t)"
  shows "\<exists>pw. prime s = (Inr (Some pw), s) \<and> w_content_id subject = Some (ws_expected x)
    \<and> (w_instance_id pw = w_instance_id subject
      \<or> (\<exists>child l. (recorded_parent s)\<^sup>*\<^sup>* (w_instance_id pw) child \<and> lineage_link child s = Some l
          \<and> ln_parent l = Some (w_instance_id subject) \<and> ws_witnessed x = Some (ln_parent_content l)))"
proof -
  from checkpoint_witness_run [OF assms] obtain pw r where pw: "w_content_id subject = Some (ws_expected x)"
      "prime s = (Inr (Some pw), r)"
    and way: "w_instance_id pw = w_instance_id subject \<or> (\<exists>child recorded.
      lineage_walk r (w_instance_id subject) (w_instance_id pw) [] = Some (child, recorded)
      \<and> ws_witnessed x = Some recorded)" by blast
  have r: "r = s" using prime_reads pw(2) by blast
  from way have "w_instance_id pw = w_instance_id subject
      \<or> (\<exists>child l. (recorded_parent s)\<^sup>*\<^sup>* (w_instance_id pw) child \<and> lineage_link child s = Some l
          \<and> ln_parent l = Some (w_instance_id subject) \<and> ws_witnessed x = Some (ln_parent_content l))"
    unfolding r using lineage_walk_reach by blast
  then show ?thesis using pw r by blast
qed

theorem checkpoint_is_former_reality_witness:
  "\<exists>pw. prime commit_store = (Inr (Some pw), commit_store) \<and> w_instance_id pw = u ''i''"
proof -
  have m: "get_meta (u ''primeContent'') PNone commit_store = (Inr PNone, commit_store)"
    by (simp add: get_meta_def run_gets lift_def commit_store_def json_load_def)
  have i: "w_content_id the_candidate = Some same_digest" by (simp add: candidate_fields)
  have run: "checkpoint_witness the_candidate commit_store = (Inr (Some \<lparr>ws_source = u ''prime-register'',
      ws_expected = same_digest, ws_witnessed = None\<rparr>), commit_store)"
    unfolding checkpoint_witness_def i by (simp add: commit_prime m ret_def)
  from checkpoint_is_former_reality [OF run] show ?thesis
    using commit_prime by (auto simp: candidate_fields)
qed

end
