(* ===== verification/Prepare.thy ===== *)
theory Prepare
  imports Commit Delta
begin

text \<open>
  \<open>runtime/worldline/transaction.py\<close>, the preparation of a transaction: what is admitted, the staging of
  the merge of every root, the inputs of the decision, the record and the row. Trees are nodes, read at
  a path; writing a stage from a merge plan, the repository facts, the watcher, the validator of a staged
  tree and the reconciliation of PRIME are arguments. The bytes of a stage are not files of the store, its
  marker and manifests are.
\<close>

section \<open>What a preparation reads\<close>

text \<open>
  \<open>pp_drain\<close> is what the pending events of the watcher do to the store; \<open>pp_live\<close> resolves a root and is
  \<open>None\<close> where no directory is there; \<open>pp_stage\<close> is the tree found at the stage after it was written.
\<close>

record preparation =
  pp_uuid :: pystr
  pp_drain :: "unit sact"
  pp_reconcile :: "unit sact option"
  pp_before :: "int option"
  pp_after :: "int option"
  pp_requirement :: "fields res"
  pp_report :: "exc \<Rightarrow> pyval"
  pp_source :: "root_row \<Rightarrow> bytes res"
  pp_watched :: "(pystr \<times> bytes) list option"
  pp_live :: "root_row \<Rightarrow> node option res"
  pp_tree :: "pystr \<Rightarrow> node option"
  pp_repository :: "node \<Rightarrow> pyval res"
  pp_stage :: "root_row \<Rightarrow> merge_plan \<Rightarrow> node res"
  pp_client_safe :: "pystr \<Rightarrow> unit res"
  pp_validator :: "(pystr \<Rightarrow> world \<Rightarrow> (pystr \<times> captured) list \<Rightarrow> (pystr \<times> captured) list \<Rightarrow> pystr \<Rightarrow> fields sact) option"
  pp_dependencies :: "pystr \<Rightarrow> pyval list res"

definition staging_directory :: "tx_env \<Rightarrow> preparation \<Rightarrow> pystr" where
  "staging_directory env p = below (te_data env) (pp_uuid p)"

definition staging_payload :: "tx_env \<Rightarrow> preparation \<Rightarrow> pystr" where
  "staging_payload env p = below (staging_directory env p) (u ''payload'')"

definition staging_mapping :: "tx_env \<Rightarrow> preparation \<Rightarrow> pystr" where
  "staging_mapping env p = below (staging_directory env p) (u ''mapping'')"

definition record_path :: "tx_env \<Rightarrow> preparation \<Rightarrow> pystr" where
  "record_path env p = below (te_transactions env) (pp_uuid p @ u ''.json'')"

section \<open>What is admitted\<close>

definition named :: "pystr option \<Rightarrow> pystr option" where
  "named returned = Option.bind returned (\<lambda>t. if t = [] then None else Some t)"

text \<open>The candidate, the PRIME it would replace and the content its parent has in the store.\<close>

definition admitted ::
    "preparation \<Rightarrow> pystr \<Rightarrow> pystr \<Rightarrow> pystr option \<Rightarrow> (world \<times> world \<times> pystr) sact" where
  "admitted p value kind returned =
     sbind (sensure (kind \<in> {u ''collapse'', u ''return''}) (WL ''INVALID_TRANSACTION'')) (\<lambda>_.
     sbind (pp_drain p) (\<lambda>_.
     sbind (case pp_reconcile p of None \<Rightarrow> ret ()
       | Some reconcile \<Rightarrow> sbind (get_meta (u ''dirty'') (PBool False)) (\<lambda>d. if truthy d then reconcile else ret ())) (\<lambda>_.
     sbind (gets (world_get value)) (\<lambda>found. sbind (lift found) (\<lambda>candidate.
     sbind (subject_of candidate returned) (\<lambda>subject.
     sbind (sensure (w_world_kind candidate \<noteq> u ''system'' \<and> w_world_kind subject \<noteq> u ''system'')
       (WL ''SYSTEM_ROOT_COLLAPSE_UNSUPPORTED'')) (\<lambda>_.
     sbind (sensure (w_state candidate = VALID) (WL ''INVALID_CANDIDATE'')) (\<lambda>_.
     sbind (sensure (w_content_id candidate \<noteq> None \<and> w_delta_hash candidate \<noteq> None) (WL ''INCOMPLETE_WORLD'')) (\<lambda>_.
     sbind prime (\<lambda>found.
     sbind (lift (req (WL ''NO_PRIME'') found)) (\<lambda>current.
     sbind (sensure (w_content_id current \<noteq> None) (WL ''NO_PRIME'')) (\<lambda>_.
     sbind (gets (is_ancestor (w_parent_instance candidate) (w_instance_id current))) (\<lambda>found. sbind (lift found) (\<lambda>ancestor.
     sbind (sensure ancestor (WL ''PARENT_MISMATCH'')) (\<lambda>_.
     sbind (lift (req TypeError (w_parent_instance candidate))) (\<lambda>parent_name.
     sbind (gets (world_get parent_name)) (\<lambda>found. sbind (lift found) (\<lambda>parent.
     sbind (lift (req (WL ''INCOMPLETE_WORLD'') (w_content_id parent))) (\<lambda>expected.
     ret (candidate, current, expected))))))))))))))))))))"

section \<open>Captures\<close>

definition b64_field :: "pyval \<Rightarrow> string \<Rightarrow> bytes res" where
  "b64_field d k =
     rbind (str_item d (u k)) (\<lambda>text.
     rbind (ensure (list_all (\<lambda>c. c < 128) text) ValueError) (\<lambda>_.
     req ValueError (b64decode text)))"

definition capture_root :: "(bytes \<Rightarrow> bytes) \<Rightarrow> preparation \<Rightarrow> node \<Rightarrow> root_row \<Rightarrow> captured res" where
  "capture_root hb p tree row =
     rbind (if rt_kind row = u ''repo'' then pp_repository p tree else Inr PNone) (\<lambda>repository.
     capture hb {} (rt_path row) (rt_key row) (rt_kind row) repository tree)"

definition declared_manifest :: "store \<Rightarrow> pystr \<Rightarrow> root_row \<Rightarrow> bytes option" where
  "declared_manifest s payload row =
     dget (st_files s) (below (below payload (u ''manifests'')) (rt_key row @ u ''.json''))"

definition capture_payload ::
    "(bytes \<Rightarrow> bytes) \<Rightarrow> preparation \<Rightarrow> store \<Rightarrow> pystr \<Rightarrow> node \<Rightarrow> root_row \<Rightarrow> captured res" where
  "capture_payload hb p s payload tree row =
     (case declared_manifest s payload row of
        None \<Rightarrow> capture_root hb p tree row
      | Some data \<Rightarrow>
          rbind (load hb data) (\<lambda>m.
          rbind (pitem (cm_value m) (u ''rootKey'')) (\<lambda>key.
          rbind (ensure (key = PStr (rt_key row)) (WL ''PAYLOAD_INTEGRITY_FAILED'')) (\<lambda>_.
          rbind (pitem (cm_value m) (u ''kind'')) (\<lambda>kind.
          rbind (ensure (kind = PStr (rt_kind row)) (WL ''PAYLOAD_INTEGRITY_FAILED'')) (\<lambda>_.
          rbind (b64_field (cm_value m) ''rootPathB64'') (\<lambda>path.
          rbind (ensure (path = rt_path row) (WL ''PAYLOAD_INTEGRITY_FAILED'')) (\<lambda>_.
          rbind (verify_content hb m tree) (\<lambda>_. Inr m)))))))))"

text \<open>The manifests a finalization declared, \<open>None\<close> when one is missing or names another root.\<close>

fun finalized_manifests ::
    "(bytes \<Rightarrow> bytes) \<Rightarrow> store \<Rightarrow> pystr \<Rightarrow> root_row list \<Rightarrow> (pystr \<times> captured) list option res" where
  "finalized_manifests hb s payload [] = Inr (Some [])"
| "finalized_manifests hb s payload (row # rows) =
     (case declared_manifest s payload row of
        None \<Rightarrow> Inr None
      | Some data \<Rightarrow>
          rbind (load hb data) (\<lambda>m.
          if mget (map_or_empty (cm_value m)) (u ''rootKey'') \<noteq> PStr (rt_key row) then Inr None
          else rbind (finalized_manifests hb s payload rows) (\<lambda>rest.
               Inr (map_option (\<lambda>ms. (rt_key row, m) # ms) rest))))"

section \<open>The staging of one root\<close>

record staging =
  sg_base :: "(pystr \<times> captured) list"
  sg_current :: "(pystr \<times> captured) list"
  sg_candidate :: "(pystr \<times> captured) list"
  sg_staged :: "(pystr \<times> captured) list"
  sg_conflicts :: "pyval list"
  sg_declared :: bool

text \<open>The end of \<open>Delta.merge\<close>: the capture of what was written.\<close>

definition merged_stage ::
    "(bytes \<Rightarrow> bytes) \<Rightarrow> preparation \<Rightarrow> captured \<Rightarrow> captured \<Rightarrow> root_row \<Rightarrow> node \<Rightarrow> captured res" where
  "merged_stage hb p current cand row tree =
     rbind (if rt_kind row = u ''repo'' then pp_repository p tree
            else pget (cm_value cand) (u ''repository'') PNone) (\<lambda>repository.
     rbind (b64_field (cm_value current) ''rootPathB64'') (\<lambda>logical.
     rbind (str_item (cm_value current) (u ''rootKey'')) (\<lambda>key.
     rbind (str_item (cm_value current) (u ''kind'')) (\<lambda>kind.
     capture hb {} logical key kind repository tree))))"

definition stage_root ::
    "(bytes \<Rightarrow> bytes) \<Rightarrow> preparation \<Rightarrow> store \<Rightarrow> world \<Rightarrow> root_row \<Rightarrow> staging \<Rightarrow> staging res" where
  "stage_root hb p s w row g =
     (let key = rt_key row; missing = WL ''INCOMPLETE_WORLD'' in
     rbind (pp_live p row) (\<lambda>live.
     rbind (req missing (pp_tree p (below (w_base_payload_path w) key))) (\<lambda>base_tree.
     rbind (req missing (pp_tree p (below (w_payload_path w) key))) (\<lambda>candidate_tree.
     rbind (req missing live) (\<lambda>live_tree.
     let declared = sg_declared g \<and> declared_manifest s (w_payload_path w) row \<noteq> None in
     rbind (capture_payload hb p s (w_base_payload_path w) base_tree row) (\<lambda>base.
     rbind (capture_root hb p live_tree row) (\<lambda>current.
     rbind (capture_payload hb p s (w_payload_path w) candidate_tree row) (\<lambda>cand.
     let g' = g\<lparr>sg_base := dset key base (sg_base g), sg_current := dset key current (sg_current g),
                sg_candidate := dset key cand (sg_candidate g), sg_declared := declared\<rparr> in
     rbind (merge_plan_of hb base current cand) (\<lambda>plan. case plan of
         Conflicts cs \<Rightarrow> Inr (g'\<lparr>sg_conflicts := sg_conflicts g' @ map conflict_value cs\<rparr>)
       | Plan _ _ _ _ \<Rightarrow>
           rbind (pp_stage p row plan) (\<lambda>tree.
           rbind (merged_stage hb p current cand row tree) (\<lambda>staged.
           Inr (g'\<lparr>sg_staged := dset key staged (sg_staged g')\<rparr>))))))))))))"

definition stage_roots ::
    "(bytes \<Rightarrow> bytes) \<Rightarrow> preparation \<Rightarrow> world \<Rightarrow> root_row list \<Rightarrow> store \<Rightarrow> staging res" where
  "stage_roots hb p w rows s =
     rfold (stage_root hb p s w) rows \<lparr>sg_base = [], sg_current = [], sg_candidate = [], sg_staged = [],
       sg_conflicts = [], sg_declared = True\<rparr>"

section \<open>Dependencies\<close>

text \<open>A dependency is named by root, directory, format and name.\<close>

type_synonym dependency = "pystr \<times> pystr \<times> pystr \<times> pystr"

definition flatten_declared ::
    "pyval \<Rightarrow> pyval \<Rightarrow> (dependency \<times> pystr option) list \<Rightarrow> (dependency \<times> pystr option) list res" where
  "flatten_declared r dependency acc =
     rbind (pget dependency (u ''name'') PNone) (\<lambda>name. case name of
       PStr n \<Rightarrow>
         rbind (text_item r (u ''rootKey'')) (\<lambda>key.
         rbind (text_item r (u ''directoryB64'')) (\<lambda>directory.
         rbind (text_item r (u ''format'')) (\<lambda>format.
         rbind (pget dependency (u ''version'') PNone) (\<lambda>version.
         Inr (dset (key, directory, format, n) (if version = PNone then None else Some (py_str version)) acc)))))
     | _ \<Rightarrow> Inr acc)"

definition flatten_record ::
    "pyval \<Rightarrow> (dependency \<times> pystr option) list \<Rightarrow> (dependency \<times> pystr option) list res" where
  "flatten_record r acc =
     rbind (pget r (u ''declared'') PNone) (\<lambda>declared. case declared of
       PList ds \<Rightarrow> rfold (flatten_declared r) ds acc
     | _ \<Rightarrow> Inr acc)"

definition flatten_dependencies :: "pyval list \<Rightarrow> (dependency \<times> pystr option) list res" where
  "flatten_dependencies rs = rfold flatten_record rs []"

definition version_at :: "(dependency \<times> pystr option) list \<Rightarrow> dependency \<Rightarrow> pyval" where
  "version_at d key = (case dget d key of None \<Rightarrow> PNone | Some v \<Rightarrow> opt_str v)"

definition dependency_change ::
    "(dependency \<times> pystr option) list \<Rightarrow> (dependency \<times> pystr option) list \<Rightarrow> dependency \<Rightarrow> pyval" where
  "dependency_change before after key =
     (case key of (root_key, directory, format, name) \<Rightarrow>
       pdict [(u ''rootKey'', PStr root_key), (u ''directoryB64'', PStr directory), (u ''format'', PStr format),
         (u ''name'', PStr name),
         (u ''change'', PStr (if dget before key = None then u ''ADD''
            else if dget after key = None then u ''DELETE'' else u ''MODIFY'')),
         (u ''from'', version_at before key), (u ''to'', version_at after key)])"

definition dependency_changes :: "pyval list \<Rightarrow> pyval list \<Rightarrow> pyval list res" where
  "dependency_changes base cand =
     rbind (flatten_dependencies base) (\<lambda>before. rbind (flatten_dependencies cand) (\<lambda>after.
     Inr (map (dependency_change before after)
       (filter (\<lambda>k. dget before k \<noteq> dget after k) (sort (remdups (dkeys before @ dkeys after)))))))"

section \<open>What is measured on the staging\<close>

record gathered =
  ga_staging :: staging
  ga_delta :: delta_result
  ga_base_root :: pystr
  ga_before_root :: pystr
  ga_candidate_root :: pystr
  ga_staged_root :: "pystr option"
  ga_staged_content :: "pystr option"
  ga_tested :: "pystr option"
  ga_tested_source :: pystr
  ga_untested :: "pystr list"
  ga_validation :: "fields option"

text \<open>The roots of the staged tree, absent when the merge found conflicts.\<close>

definition staged_roots ::
    "(bytes \<Rightarrow> bytes) \<Rightarrow> staging \<Rightarrow> (pystr option \<times> pystr option) res" where
  "staged_roots hb g =
     (if sg_conflicts g \<noteq> [] then Inr (None, None)
      else rbind (root_set_hash hb (map snd (sg_staged g))) (\<lambda>h.
           rbind (content_root_set hb (sg_staged g)) (\<lambda>content.
           Inr (Some h, Some content))))"

definition finalized_of ::
    "(bytes \<Rightarrow> bytes) \<Rightarrow> fields \<Rightarrow> root_row list \<Rightarrow> store \<Rightarrow> (pystr \<times> captured) list option res" where
  "finalized_of hb freshness rows s =
     rbind (text_item (PDict freshness) (u ''subject'')) (\<lambda>name.
     rbind (world_get name s) (\<lambda>w. finalized_manifests hb s (w_payload_path w) rows))"

definition staged_evaluation ::
    "preparation \<Rightarrow> pystr \<Rightarrow> world \<Rightarrow> staging \<Rightarrow> pystr option \<Rightarrow> pystr option \<Rightarrow> fields option sact" where
  "staged_evaluation p payload candidate g content tested =
     (case (content, pp_validator p) of
        (Some c, Some examine) \<Rightarrow>
          if content = tested then ret None
          else sbind (examine payload candidate (sg_current g) (sg_staged g) c) (\<lambda>v.
               sbind (lift (pget (or_empty (mget v (u ''context''))) (u ''verifiersModifiedByCandidate'') PNone)) (\<lambda>rewritten.
               sbind (sensure (\<not> truthy rewritten) (WL ''VERIFIER_MODIFIED_BY_CANDIDATE'')) (\<lambda>_.
               ret (Some v))))
      | _ \<Rightarrow> ret None)"

definition gather ::
    "(bytes \<Rightarrow> bytes) \<Rightarrow> tx_env \<Rightarrow> preparation \<Rightarrow> world \<Rightarrow> fields \<Rightarrow> root_row list \<Rightarrow> gathered sact" where
  "gather hb env p candidate freshness rows =
     (let payload = staging_payload env p in
     sbind (gets (stage_roots hb p candidate rows)) (\<lambda>staged. sbind (lift staged) (\<lambda>g.
     sbind (lift (if sg_conflicts g \<noteq> [] then Inr []
       else rmap (\<lambda>key. pp_client_safe p (below payload key)) (dkeys (sg_staged g)))) (\<lambda>_.
     sbind (lift (compute_all hb (sg_base g) (sg_candidate g))) (\<lambda>delta.
     sbind (lift (root_set_hash hb (map snd (sg_base g)))) (\<lambda>base_root.
     sbind (lift (root_set_hash hb (map snd (sg_current g)))) (\<lambda>before_root.
     sbind (lift (root_set_hash hb (map snd (sg_candidate g)))) (\<lambda>candidate_root.
     sbind (lift (staged_roots hb g)) (\<lambda>(staged_root, content).
     sbind (gets (\<lambda>s. tested_content hb freshness (sg_candidate g) (sg_declared g) (finalized_of hb freshness rows s)))
       (\<lambda>found. sbind (lift found) (\<lambda>(tested, tested_manifests, source).
     sbind (lift (if sg_conflicts g \<noteq> [] then Inr []
       else content_differences (case tested_manifests of None \<Rightarrow> [] | Some ms \<Rightarrow> ms) (sg_staged g))) (\<lambda>untested.
     sbind (staged_evaluation p payload candidate g content tested) (\<lambda>validation.
     ret \<lparr>ga_staging = g, ga_delta = delta, ga_base_root = base_root, ga_before_root = before_root,
       ga_candidate_root = candidate_root, ga_staged_root = staged_root, ga_staged_content = content,
       ga_tested = tested, ga_tested_source = source, ga_untested = untested,
       ga_validation = validation\<rparr>)))))))))))))"

definition create_mapping :: "tx_env \<Rightarrow> preparation \<Rightarrow> unit sact" where
  "create_mapping env p =
     sbind (lift (canonical_bytes (pdict [(u ''schemaVersion'', PInt 1), (u ''transactionId'', PStr (pp_uuid p))])))
       (\<lambda>data. write_file (below (staging_mapping env p) MARKER) data)"

text \<open>The marker of the mapping, and the staged manifests beside the roots.\<close>

definition keep_staged :: "tx_env \<Rightarrow> preparation \<Rightarrow> staging \<Rightarrow> unit sact" where
  "keep_staged env p g =
     (if sg_conflicts g \<noteq> [] then ret ()
      else sbind (create_mapping env p) (\<lambda>_.
           save_manifests (below (staging_directory env p) (u ''manifests'')) (sg_staged g)))"

section \<open>The question\<close>

definition primary_block :: "fields \<Rightarrow> fields" where
  "primary_block freshness =
     (let execution = sub_fields freshness ''execution'' in
      map (\<lambda>(k, v). (PStr (u k), v))
        [(''evaluatedRequirement'', mget freshness (u ''candidateRequirementHash'')),
         (''rosterComplete'', PBool (mget execution (u ''complete'') = PBool True)),
         (''declaredVerifiers'', mget execution (u ''expected'')),
         (''executedVerifiers'', mget execution (u ''actual''))])"

definition inputs_at_prepare ::
    "(bytes \<Rightarrow> bytes) \<Rightarrow> preparation \<Rightarrow> world \<Rightarrow> world \<Rightarrow> world \<Rightarrow> pystr option \<Rightarrow> fields \<Rightarrow> gathered \<Rightarrow> fields sact" where
  "inputs_at_prepare hb p candidate current subject returned freshness ga =
     sbind (lift (staged_block hb subject (sub_fields freshness ''current'') (ga_validation ga))) (\<lambda>staged.
     sbind (lift (foreign_writes_measured hb (sg_current (ga_staging ga)) (Some current) (Some candidate))) (\<lambda>foreign.
     sbind (gets roots) (\<lambda>rows.
     sbind (lift (watch_sets hb rows (pp_source p) (pp_watched p))) (\<lambda>(registered, watched).
     sbind (lift (subject_pair hb freshness candidate (named returned))) (\<lambda>(expected, claimed).
     ret (map (\<lambda>(k, v). (PStr (u k), v))
       [(''schemaVersion'', PInt 1), (''expectedSubject'', opt_str expected), (''evidenceSubject'', opt_str claimed),
        (''stagedRoot'', opt_str (ga_staged_root ga)), (''testedRoot'', opt_str (ga_tested ga)),
        (''testedRootSource'', PStr (ga_tested_source ga)), (''primary'', PDict (primary_block freshness)),
        (''staged'', staged), (''conflictsMeasured'', PBool True), (''foreignWrites'', PDict foreign),
        (''watchSets'', pdict [(u ''registered'', opt_str registered), (u ''watched'', opt_str watched)]),
        (''generations'', generations_value (pp_before p) (pp_after p))]))))))"

definition prepare_question ::
    "preparation \<Rightarrow> world \<Rightarrow> world \<Rightarrow> pystr \<Rightarrow> fields \<Rightarrow> pystr \<Rightarrow> gathered \<Rightarrow> pyval \<Rightarrow> fields \<Rightarrow> question" where
  "prepare_question p candidate subject expected freshness root_set ga requirement inputs =
     \<lparr>qn_phase = u ''PREPARE'', qn_mode = mget freshness (u ''mode''), qn_candidate = candidate,
      qn_subject = subject, qn_expected_parent = PStr expected, qn_base_root = PStr (ga_base_root ga),
      qn_delta_hash = PStr (dl_hash (ga_delta ga)), qn_root_set = PStr root_set,
      qn_expected_staged = opt_str (ga_staged_root ga), qn_actual_staged = PNone,
      qn_staged_content = opt_str (ga_staged_content ga), qn_conflicts = (sg_conflicts (ga_staging ga) \<noteq> []),
      qn_requirement = requirement, qn_inputs = inputs, qn_witness = mget freshness (u ''witness'')\<rparr>"

section \<open>The record and the row\<close>

definition generated_of :: "world \<Rightarrow> pyval list res" where
  "generated_of w =
     rbind (pget (w_evidence w) (u ''metrics'') (PDict [])) (\<lambda>metrics.
     rbind (pget metrics (u ''generatedClassifiers'') (PList [])) (\<lambda>g.
     Inr (case g of PList xs \<Rightarrow> xs | _ \<Rightarrow> [])))"

definition changes_of :: "preparation \<Rightarrow> world \<Rightarrow> pyval list res" where
  "changes_of p w =
     rbind (pp_dependencies p (w_base_payload_path w)) (\<lambda>base.
     rbind (pp_dependencies p (w_payload_path w)) (\<lambda>cand.
     dependency_changes base cand))"

definition prepared_record ::
    "tx_env \<Rightarrow> pystr \<Rightarrow> preparation \<Rightarrow> pystr \<Rightarrow> pystr option \<Rightarrow> world \<Rightarrow> world \<Rightarrow> pystr \<Rightarrow> fields \<Rightarrow> pystr
       \<Rightarrow> gathered \<Rightarrow> pystr \<Rightarrow> fields \<Rightarrow> pyval list \<Rightarrow> pyval list \<Rightarrow> fields" where
  "prepared_record env now p kind returned candidate current expected freshness root_set ga decision inputs
       generated changes =
     map (\<lambda>(k, v). (PStr (u k), v))
       [(''schemaVersion'', PInt 1), (''transactionId'', PStr (pp_uuid p)), (''kind'', PStr kind),
        (''state'', PStr (if decision = u ''AUTHORIZED'' then u ''PREPARED'' else u ''DENIED'')),
        (''decision'', PStr decision), (''candidateWorld'', PStr (w_instance_id candidate)),
        (''candidateAlias'', PStr (w_alias candidate)), (''candidateContent'', opt_str (w_content_id candidate)),
        (''parentWorld'', PStr (w_parent_content candidate)), (''parentContentExpected'', PStr expected),
        (''currentPrime'', PStr (w_instance_id current)), (''currentPrimeContent'', opt_str (w_content_id current)),
        (''beforeRoot'', PStr (ga_before_root ga)), (''baseRoot'', PStr (ga_base_root ga)),
        (''candidateRoot'', PStr (ga_candidate_root ga)), (''deltaHash'', PStr (dl_hash (ga_delta ga))),
        (''delta'', PDict (dset (PStr (u ''baseRoot'')) (PStr (ga_base_root ga))
           (dset (PStr (u ''deltaHash'')) (PStr (dl_hash (ga_delta ga))) (map_or_empty (dl_value (ga_delta ga)))))),
        (''stagedRoot'', opt_str (ga_staged_root ga)), (''rootSetHash'', PStr root_set),
        (''conflicts'', PList (sg_conflicts (ga_staging ga))), (''contamination'', PList (w_contamination candidate)),
        (''validation'', PDict (filter (\<lambda>(k, _). k \<noteq> PStr (u ''current'')) freshness)),
        (''testedRoot'', opt_str (ga_tested ga)), (''stagedContentRoot'', opt_str (ga_staged_content ga)),
        (''recordSchema'', PInt 2), (''decisionInputs'', PDict inputs),
        (''untestedPaths'', texts (take 200 (ga_untested ga))),
        (''stagedValidation'', case ga_validation ga of None \<Rightarrow> PNone | Some v \<Rightarrow> PDict v),
        (''returnOf'', opt_str returned), (''stagingPayload'', PStr (staging_payload env p)),
        (''preparedMapping'', PStr (staging_mapping env p)), (''generationMarker'', PStr (pp_uuid p)),
        (''createdAt'', PStr now), (''generated'', PList generated), (''dependencyChanges'', PList changes),
        (''preparedPath'', PStr (record_path env p))]"

definition prepared_row :: "tx_env \<Rightarrow> pystr \<Rightarrow> preparation \<Rightarrow> pystr \<Rightarrow> world \<Rightarrow> pystr \<Rightarrow> gathered \<Rightarrow> pystr \<Rightarrow> tx_row" where
  "prepared_row env now p kind candidate root_set ga decision =
     \<lparr>tx_id = pp_uuid p, tx_kind = kind,
      tx_state_name = (if decision = u ''AUTHORIZED'' then u ''PREPARED'' else u ''DENIED''),
      tx_candidate = w_instance_id candidate, tx_prepared_path = record_path env p,
      tx_before_root = ga_before_root ga, tx_base_root = ga_base_root ga, tx_candidate_root = ga_candidate_root ga,
      tx_delta_hash = dl_hash (ga_delta ga), tx_staged_root = [], tx_root_set_hash = root_set,
      tx_marker = pp_uuid p, tx_created_at = now, tx_committed_at = None, tx_error = None\<rparr>"

section \<open>Preparation\<close>

text \<open>\<open>PreparedTransaction\<close>: what is returned of an authorized preparation.\<close>

definition picked :: "fields \<Rightarrow> string list \<Rightarrow> pyval" where
  "picked r ks = PDict (map (\<lambda>k. (PStr (u k), mget r (u k))) ks)"

definition prepared_value :: "fields \<Rightarrow> fields \<Rightarrow> gathered \<Rightarrow> fields" where
  "prepared_value r freshness ga =
     map (\<lambda>(k, k'). (PStr (u k), mget r (u k')))
       [(''transaction_id'', ''transactionId''), (''decision'', ''decision''), (''before_root'', ''beforeRoot''),
        (''candidate_root'', ''candidateRoot''), (''staged_root'', ''stagedRoot''), (''delta'', ''delta''),
        (''conflicts'', ''conflicts''), (''contamination'', ''contamination''), (''kind'', ''kind''),
        (''candidate_alias'', ''candidateAlias''), (''candidate_instance'', ''candidateWorld''),
        (''candidate_content'', ''candidateContent''), (''current_prime'', ''currentPrime''),
        (''prepared_at'', ''createdAt''), (''dependency_changes'', ''dependencyChanges''),
        (''tested_root'', ''testedRoot''), (''staged_content_root'', ''stagedContentRoot'')]
     @ map (\<lambda>(k, v). (PStr (u k), v))
       [(''validation'', picked freshness [''mode'', ''source'', ''requirementHash'', ''candidateRequirementHash'',
           ''contextHash'', ''policySourceSha256'', ''evaluatedAt'', ''witness'']),
        (''execution'', or_empty (mget freshness (u ''execution''))),
        (''untested_paths'', texts (take 50 (ga_untested ga))),
        (''staged_validation'', case ga_validation ga of None \<Rightarrow> PNone
           | Some v \<Rightarrow> picked v [''validationId'', ''outcome'', ''summary'', ''failed'', ''requirementHash'',
               ''contextHash'', ''examinedContentRoot'', ''results''])]"

text \<open>A denied transaction is recorded, its staging is removed, and the refusal is raised.\<close>

definition concluded ::
    "tx_env \<Rightarrow> preparation \<Rightarrow> world \<Rightarrow> pystr \<Rightarrow> fields \<Rightarrow> fields \<Rightarrow> fields sact" where
  "concluded env p candidate decision inputs value =
     (if decision = u ''AUTHORIZED'' then ret value
      else sbind (rmtree (staging_directory env p)) (\<lambda>_.
           if decision = u ''PRIME_CHANGED'' then raise (WL ''PRIME_CHANGED_DURING_CAPTURE'')
           else sbind (lift (reported_contamination candidate (map_or_empty (mget inputs (u ''foreignWrites''))))) (\<lambda>_.
                raise (WL ''CONFLICT''))))"

definition staged_transaction ::
    "(bytes \<Rightarrow> bytes) \<Rightarrow> tx_env \<Rightarrow> pystr \<Rightarrow> preparation \<Rightarrow> pystr \<Rightarrow> pystr option \<Rightarrow> world \<Rightarrow> world \<Rightarrow> pystr
       \<Rightarrow> root_row list \<Rightarrow> fields \<Rightarrow> pystr \<Rightarrow> fields sact" where
  "staged_transaction hb env now p kind returned candidate current expected rows freshness root_set =
     sbind (gather hb env p candidate freshness rows) (\<lambda>ga.
     sbind (keep_staged env p (ga_staging ga)) (\<lambda>_.
     sbind (subject_of candidate returned) (\<lambda>subject.
     sbind (inputs_at_prepare hb p candidate current subject returned freshness ga) (\<lambda>inputs.
     sbind (lift (pitem (PDict (sub_fields freshness ''current'')) (u ''requirementHash''))) (\<lambda>requirement.
     sbind (lift (decide (prepare_question p candidate subject expected freshness root_set ga requirement inputs)))
       (\<lambda>(decision, inputs).
     sbind (if decision = u ''FOREIGN_MANAGED_WRITE''
            then note_unaccounted_write hb now (Some current) (map_or_empty (mget inputs (u ''foreignWrites'')))
            else ret ()) (\<lambda>_.
     sbind (lift (generated_of candidate)) (\<lambda>generated.
     sbind (lift (changes_of p candidate)) (\<lambda>changes.
     let r = prepared_record env now p kind returned candidate current expected freshness root_set ga decision
               inputs generated changes in
     sbind (write_record r) (\<lambda>_.
     sbind (create_transaction (prepared_row env now p kind candidate root_set ga decision) (ga_staged_root ga)) (\<lambda>_.
     concluded env p candidate decision inputs (prepared_value r freshness ga))))))))))))"

text \<open>Whatever is raised before the record is written takes the staging away with it.\<close>

definition unless_recorded :: "tx_env \<Rightarrow> preparation \<Rightarrow> 'a sact \<Rightarrow> 'a sact" where
  "unless_recorded env p m s =
     (case m s of
        (Inr x, t) \<Rightarrow> (Inr x, t)
      | (Inl e, t) \<Rightarrow>
          if dget (st_files t) (record_path env p) \<noteq> None then (Inl e, t)
          else (Inl e, snd (rmtree (staging_directory env p) t)))"

definition prepare_store ::
    "(bytes \<Rightarrow> bytes) \<Rightarrow> tx_env \<Rightarrow> pystr \<Rightarrow> preparation \<Rightarrow> pystr \<Rightarrow> pystr \<Rightarrow> pystr option \<Rightarrow> fields sact" where
  "prepare_store hb env now p value kind returned =
     sbind (admitted p value kind returned) (\<lambda>(candidate, current, expected).
     sbind (gets roots) (\<lambda>rows.
     sbind (freshness_of hb now (pp_report p) (pp_requirement p) candidate kind returned) (\<lambda>freshness.
     sbind (lift (registered_root_set hb rows)) (\<lambda>root_set.
     unless_recorded env p
       (staged_transaction hb env now p kind returned candidate current expected rows freshness root_set)))))"

definition prepare ::
    "(bytes \<Rightarrow> bytes) \<Rightarrow> tx_env \<Rightarrow> pystr \<Rightarrow> preparation \<Rightarrow> pystr \<Rightarrow> pystr \<Rightarrow> pystr option \<Rightarrow> fields eact" where
  "prepare hb env now p value kind returned =
     sbind assert_recovery_complete (\<lambda>_. on_store (prepare_store hb env now p value kind returned))"

section \<open>Readiness\<close>

text \<open>
  The promotion inputs reported without a decision: the coverage of the watcher (its watched roots,
  faults and generation, \<open>None\<close> without one) and, when asked, the measurement of foreign writes.
\<close>

definition watch_coverage ::
    "(bytes \<Rightarrow> bytes) \<Rightarrow> root_row list \<Rightarrow> (root_row \<Rightarrow> bytes res) \<Rightarrow> ((pystr \<times> bytes) list \<times> pyval \<times> int) option
       \<Rightarrow> pyval res" where
  "watch_coverage hb rows source watcher =
     rbind (watch_sets hb rows source (map_option fst watcher)) (\<lambda>(registered, watched).
     let watched_keys = (case watcher of None \<Rightarrow> [] | Some (pairs, _) \<Rightarrow> map fst pairs) in
     Inr (pdict [
       (u ''state'', PStr (if watcher = None then u ''NO_WATCHER''
          else if registered \<noteq> None \<and> registered = watched then u ''COMPLETE'' else u ''INCOMPLETE'')),
       (u ''unwatchedRoots'', texts (filter (\<lambda>k. k \<notin> set watched_keys) (sort (map rt_key rows)))),
       (u ''faults'', case watcher of None \<Rightarrow> PDict [] | Some (_, faults, _) \<Rightarrow> faults),
       (u ''generation'', counter_value (map_option (\<lambda>(_, _, g). g) watcher))]))"

definition unmeasured_write :: "string \<Rightarrow> fields" where
  "unmeasured_write code = map (\<lambda>(k, v). (PStr (u k), v))
     [(''state'', PStr (u ''UNMEASURED'')), (''measuredBy'', PStr (u ''live-capture-vs-prime-record'')),
      (''error'', pdict [(u ''code'', PStr (u code))])]"

definition reported_foreign ::
    "(bytes \<Rightarrow> bytes) \<Rightarrow> (pystr \<times> captured) list res option \<Rightarrow> fields sact" where
  "reported_foreign hb live =
     (case live of
        None \<Rightarrow> ret [(PStr (u ''state''), PNone), (PStr (u ''measuredWith''), PStr (u ''doctor --refresh''))]
      | Some taken \<Rightarrow> (\<lambda>s.
          case sbind (lift taken) (\<lambda>ms. sbind prime (\<lambda>pw. lift (foreign_writes_measured hb ms pw None))) s of
            (Inl (WL code), t) \<Rightarrow> (Inr (unmeasured_write code), t)
          | (Inl OSError, t) \<Rightarrow> (Inr (unmeasured_write ''CAPTURE_FAILED''), t)
          | (r, t) \<Rightarrow> (r, t)))"

definition readiness ::
    "(bytes \<Rightarrow> bytes) \<Rightarrow> (root_row \<Rightarrow> bytes res) \<Rightarrow> ((pystr \<times> bytes) list \<times> pyval \<times> int) option
       \<Rightarrow> (pystr \<times> captured) list res option \<Rightarrow> pyval sact" where
  "readiness hb source watcher live =
     sbind (gets roots) (\<lambda>rows.
     sbind (lift (watch_coverage hb rows source watcher)) (\<lambda>coverage.
     sbind (reported_foreign hb live) (\<lambda>foreign.
     sbind (get_meta (u ''dirty'') (PBool False)) (\<lambda>dirty.
     ret (pdict [(u ''watchCoverage'', coverage),
       (u ''foreignWrites'', PDict (dset (PStr (u ''primeDirty'')) (PBool (truthy dirty)) foreign))])))))"

end
