(* ===== verification/Prepare_Laws.thy ===== *)
theory Prepare_Laws
  imports Prepare Commit_Laws
begin

text \<open>
  What a preparation leaves behind: an authorized one is a record, its file and a question the kernel
  answered; a refused one is at most a denied row.
\<close>

section \<open>The steps of a preparation\<close>

lemma gets_run: "gets f s = (Inr x, t) \<longleftrightarrow> x = f s \<and> t = s"
  by (auto simp: gets_def)

lemma lift_run: "lift r s = (Inr x, t) \<longleftrightarrow> r = Inr x \<and> t = s"
  by (auto simp: lift_def)

lemma sensure_run: "sensure b e s = (Inr x, t) \<longleftrightarrow> b \<and> t = s"
  by (auto simp: sensure_def)

lemma ret_run: "ret x s = (Inr y, t) \<longleftrightarrow> y = x \<and> t = s"
  by (auto simp: ret_def)

lemmas act_Inr = gets_run lift_run sensure_run ret_run

lemma concluded_authorized:
  assumes "concluded env p candidate decision inputs value s = (Inr v, t)"
  shows "decision = u ''AUTHORIZED'' \<and> v = value \<and> t = s"
  using assms by (auto simp: concluded_def ret_def sbind_def raise_def lift_def split: if_splits prod.splits sum.splits)

lemma create_transaction_run:
  "create_transaction r staged s = (Inr x, t) \<longleftrightarrow>
     (let row = r\<lparr>tx_staged_root := (case staged of None \<Rightarrow> u ''absent'' | Some x \<Rightarrow> x),
        tx_committed_at := None, tx_error := None\<rparr>
      in tx_constraints row s \<and> t = s\<lparr>st_txs := st_txs s @ [row]\<rparr>)"
  by (auto simp: create_transaction_def Let_def sbind_Inr_iff act_Inr modify_def split: if_splits)

lemma record_path_of: "mget (prepared_record env now p kind returned candidate current expected freshness root_set
    ga decision inputs generated changes) (u ''preparedPath'') = PStr (record_path env p)"
  by (simp add: prepared_record_def mget_def)

lemma staged_transaction_steps:
  assumes "staged_transaction hb env now p kind returned candidate current expected rows freshness root_set s
      = (Inr v, t)"
  shows "\<exists>ga s1 s2 subject inputs requirement inputs' generated changes r data row.
      gather hb env p candidate freshness rows s = (Inr ga, s1)
    \<and> keep_staged env p (ga_staging ga) s1 = (Inr (), s2)
    \<and> subject_of candidate returned s2 = (Inr subject, s2)
    \<and> inputs_at_prepare hb p candidate current subject returned freshness ga s2 = (Inr inputs, s2)
    \<and> decide (prepare_question p candidate subject expected freshness root_set ga requirement inputs)
        = Inr (u ''AUTHORIZED'', inputs')
    \<and> r = prepared_record env now p kind returned candidate current expected freshness root_set ga
        (u ''AUTHORIZED'') inputs' generated changes
    \<and> row = (prepared_row env now p kind candidate root_set ga (u ''AUTHORIZED''))
        \<lparr>tx_staged_root := (case ga_staged_root ga of None \<Rightarrow> u ''absent'' | Some x \<Rightarrow> x)\<rparr>
    \<and> canonical_bytes (PDict r) = Inr data \<and> v = prepared_value r freshness ga
    \<and> t = s2\<lparr>st_files := dset (record_path env p) data (st_files s2), st_txs := st_txs s2 @ [row]\<rparr>"
proof -
  have unmoved: "keeps (\<lambda>s. s) (subject_of candidate returned)"
    unfolding subject_of_def by (intro keeps_intros)
  have measured: "keeps (\<lambda>s. s) (inputs_at_prepare hb p candidate current w returned freshness ga)" for w ga
    unfolding inputs_at_prepare_def by (intro keeps_intros)
  from assms obtain ga s1 s2 subject s3 inputs s4 requirement decision inputs' s5 generated changes s6 s7 where
    steps: "gather hb env p candidate freshness rows s = (Inr ga, s1)"
      "keep_staged env p (ga_staging ga) s1 = (Inr (), s2)"
      "subject_of candidate returned s2 = (Inr subject, s3)"
      "inputs_at_prepare hb p candidate current subject returned freshness ga s3 = (Inr inputs, s4)"
      "decide (prepare_question p candidate subject expected freshness root_set ga requirement inputs)
        = Inr (decision, inputs')"
      "(if decision = u ''FOREIGN_MANAGED_WRITE''
        then note_unaccounted_write hb now (Some current) (map_or_empty (mget inputs' (u ''foreignWrites'')))
        else ret ()) s4 = (Inr (), s5)"
      "write_record (prepared_record env now p kind returned candidate current expected freshness root_set ga
         decision inputs' generated changes) s5 = (Inr (), s6)"
      "create_transaction (prepared_row env now p kind candidate root_set ga decision) (ga_staged_root ga) s6
         = (Inr (), s7)"
      "concluded env p candidate decision inputs' (prepared_value (prepared_record env now p kind returned candidate
         current expected freshness root_set ga decision inputs' generated changes) freshness ga) s7 = (Inr v, t)"
    unfolding staged_transaction_def Let_def by (auto elim!: sbind_InrE simp: lift_run)
  note last = concluded_authorized [OF steps(9)]
  have same: "s3 = s2" "s4 = s2" "s5 = s2"
    using keepsD [OF unmoved steps(3)] keepsD [OF measured steps(4)] steps(6) last by (auto simp: ret_def)
  obtain data where data: "canonical_bytes (PDict (prepared_record env now p kind returned candidate current expected
        freshness root_set ga decision inputs' generated changes)) = Inr data"
      "s6 = s2\<lparr>st_files := dset (record_path env p) data (st_files s2)\<rparr>"
    using steps(7) same(3) by (auto simp: write_record_run record_path_of)
  have "t = s2\<lparr>st_files := dset (record_path env p) data (st_files s2), st_txs := st_txs s2
      @ [(prepared_row env now p kind candidate root_set ga (u ''AUTHORIZED''))
           \<lparr>tx_staged_root := (case ga_staged_root ga of None \<Rightarrow> u ''absent'' | Some x \<Rightarrow> x)\<rparr>]\<rparr>"
    using steps(8) last data(2) by (simp add: create_transaction_run Let_def prepared_row_def)
  then show ?thesis
    using steps(1-5) same last data(1) by blast
qed

section \<open>What was admitted and asked\<close>

text \<open>The candidate of a transaction is a valid world that descends from the PRIME it would replace.\<close>

definition admissible :: "pystr \<Rightarrow> store \<Rightarrow> world \<Rightarrow> world \<Rightarrow> pystr \<Rightarrow> bool" where
  "admissible value s candidate current expected \<longleftrightarrow>
     world_get value s = Inr candidate \<and> w_state candidate = VALID \<and> w_world_kind candidate \<noteq> u ''system''
     \<and> prime s = (Inr (Some current), s)
     \<and> (\<exists>name parent. w_parent_instance candidate = Some name
         \<and> is_ancestor (Some name) (w_instance_id current) s = Inr True
         \<and> world_get name s = Inr parent \<and> w_content_id parent = Some expected)"

lemma prime_unmoved: "keeps (\<lambda>s. s) prime"
  unfolding prime_def get_meta_def by (intro keeps_intros)

lemma subject_unmoved: "keeps (\<lambda>s. s) (subject_of candidate returned)"
  unfolding subject_of_def by (intro keeps_intros)

lemma admitted_admissible:
  assumes "admitted p value kind returned s = (Inr (candidate, current, expected), t)"
  shows "admissible value t candidate current expected \<and> kind \<in> {u ''collapse'', u ''return''}"
proof -
  from assms obtain s1 s2 s3 subject found name parent where
    steps: "kind \<in> {u ''collapse'', u ''return''}" "world_get value s2 = Inr candidate"
      "subject_of candidate returned s2 = (Inr subject, s3)" "w_world_kind candidate \<noteq> u ''system''"
      "w_state candidate = VALID" "prime s3 = (Inr found, t)" "found = Some current"
      "is_ancestor (w_parent_instance candidate) (w_instance_id current) t = Inr True"
      "w_parent_instance candidate = Some name" "world_get name t = Inr parent" "w_content_id parent = Some expected"
    unfolding admitted_def by (auto elim!: sbind_InrE simp: act_Inr req_Inr_iff)
  have "s3 = s2" "t = s3"
    using keepsD [OF subject_unmoved steps(3)] keepsD [OF prime_unmoved steps(6)] by simp_all
  then show ?thesis using steps by (auto simp: admissible_def)
qed

lemma inputs_at_prepare_fields:
  assumes "inputs_at_prepare hb p candidate current subject returned freshness ga s = (Inr inputs, t)"
  shows "mget inputs (u ''generations'') = generations_value (pp_before p) (pp_after p)
    \<and> mget inputs (u ''testedRoot'') = opt_str (ga_tested ga)
    \<and> mget inputs (u ''stagedRoot'') = opt_str (ga_staged_root ga)
    \<and> mget inputs (u ''primary'') = PDict (primary_block freshness)"
  using assms unfolding inputs_at_prepare_def
  by (auto elim!: sbind_InrE simp: act_Inr mget_def split: prod.splits)

lemma generations_same:
  assumes "prime_still q" and "mget (qn_inputs q) (u ''generations'') = generations_value a b"
  shows "\<exists>g. a = Some g \<and> b = Some g"
  using assms by (auto simp: prime_still_def sub_fields_def generations_value_def map_or_empty_def as_map_def
      mget_def counter_value_def split: option.splits)

lemma prepare_store_steps:
  assumes "prepare_store hb env now p value kind returned s = (Inr v, t)"
  shows "\<exists>m candidate current expected rows m1 freshness root_set.
      admissible value m candidate current expected \<and> rows = roots m
    \<and> freshness_of hb now (pp_report p) (pp_requirement p) candidate kind returned m = (Inr freshness, m1)
    \<and> registered_root_set hb rows = Inr root_set
    \<and> staged_transaction hb env now p kind returned candidate current expected rows freshness root_set m1 = (Inr v, t)"
proof -
  from assms obtain candidate current expected m m1 freshness root_set where
    "admitted p value kind returned s = (Inr (candidate, current, expected), m)"
    "freshness_of hb now (pp_report p) (pp_requirement p) candidate kind returned m = (Inr freshness, m1)"
    "registered_root_set hb (roots m) = Inr root_set"
    "unless_recorded env p (staged_transaction hb env now p kind returned candidate current expected (roots m)
       freshness root_set) m1 = (Inr v, t)"
    unfolding prepare_store_def by (auto elim!: sbind_InrE simp: act_Inr)
  moreover from this(4) have "staged_transaction hb env now p kind returned candidate current expected (roots m)
      freshness root_set m1 = (Inr v, t)"
    by (auto simp: unless_recorded_def split: prod.splits sum.splits if_splits)
  ultimately show ?thesis using admitted_admissible by blast
qed

lemma prepared_fields:
  "mget (prepared_record env now p kind returned candidate current expected freshness root_set ga decision inputs
       generated changes) (u ''state'') = PStr (if decision = u ''AUTHORIZED'' then u ''PREPARED'' else u ''DENIED'')"
  "mget (prepared_record env now p kind returned candidate current expected freshness root_set ga decision inputs
       generated changes) (u ''transactionId'') = PStr (pp_uuid p)"
  "mget (prepared_record env now p kind returned candidate current expected freshness root_set ga decision inputs
       generated changes) (u ''decisionInputs'') = PDict inputs"
  "mget (prepared_record env now p kind returned candidate current expected freshness root_set ga decision inputs
       generated changes) (u ''candidateWorld'') = PStr (w_instance_id candidate)"
  "mget (prepared_record env now p kind returned candidate current expected freshness root_set ga decision inputs
       generated changes) (u ''parentContentExpected'') = PStr expected"
  "mget (prepared_record env now p kind returned candidate current expected freshness root_set ga decision inputs
       generated changes) (u ''schemaVersion'') = PInt 1"
  by (simp_all add: prepared_record_def mget_def)

definition question_admitted :: "preparation \<Rightarrow> world \<Rightarrow> pystr \<Rightarrow> question \<Rightarrow> bool" where
  "question_admitted p candidate expected q \<longleftrightarrow> qn_phase q = u ''PREPARE'' \<and> qn_candidate q = candidate
     \<and> qn_expected_parent q = PStr expected \<and> \<not> qn_conflicts q
     \<and> world_agrees q \<and> prime_still q \<and> evidence_applies q \<and> covered_bytes q"

definition recorded_as ::
    "tx_env \<Rightarrow> preparation \<Rightarrow> world \<Rightarrow> pystr \<Rightarrow> fields \<Rightarrow> store \<Rightarrow> bool" where
  "recorded_as env p candidate expected inputs s \<longleftrightarrow>
     (\<exists>row \<in> set (st_txs s). tx_id row = pp_uuid p \<and> tx_state_name row = u ''PREPARED''
        \<and> tx_candidate row = w_instance_id candidate \<and> tx_prepared_path row = record_path env p)
     \<and> (\<exists>r data. dget (st_files s) (record_path env p) = Some data \<and> canonical_bytes (PDict r) = Inr data
        \<and> mget r (u ''schemaVersion'') = PInt 1 \<and> mget r (u ''transactionId'') = PStr (pp_uuid p)
        \<and> mget r (u ''state'') = PStr (u ''PREPARED'')
        \<and> mget r (u ''candidateWorld'') = PStr (w_instance_id candidate)
        \<and> mget r (u ''parentContentExpected'') = PStr expected \<and> mget r (u ''decisionInputs'') = PDict inputs)"

section \<open>What a refusal leaves\<close>

text \<open>The operations handed to a preparation do not touch the rows of the transactions.\<close>

definition keeps_transactions :: "preparation \<Rightarrow> bool" where
  "keeps_transactions p \<longleftrightarrow> keeps st_txs (pp_drain p)
     \<and> (case pp_reconcile p of None \<Rightarrow> True | Some m \<Rightarrow> keeps st_txs m)
     \<and> (case pp_validator p of None \<Rightarrow> True | Some m \<Rightarrow> \<forall>a b c d e. keeps st_txs (m a b c d e))"

definition given_up :: "tx_env \<Rightarrow> preparation \<Rightarrow> store \<Rightarrow> bool" where
  "given_up env p s \<longleftrightarrow> (\<forall>path. inside (staging_directory env p) path \<longrightarrow> dget (st_files s) path = None)"

definition denied_row :: "tx_env \<Rightarrow> preparation \<Rightarrow> store \<Rightarrow> store \<Rightarrow> bool" where
  "denied_row env p s t \<longleftrightarrow> (\<exists>row. st_txs t = st_txs s @ [row] \<and> tx_id row = pp_uuid p
     \<and> tx_state_name row = u ''DENIED'' \<and> given_up env p t)"

definition refuses :: "tx_env \<Rightarrow> preparation \<Rightarrow> 'a sact \<Rightarrow> bool" where
  "refuses env p m \<longleftrightarrow> (\<forall>s x t. m s = (Inl x, t) \<longrightarrow> st_txs t = st_txs s \<or> denied_row env p s t)"

lemma refuses_sbind:
  assumes m: "keeps st_txs m" and k: "\<And>x. refuses env p (k x)"
  shows "refuses env p (sbind m k)"
  unfolding refuses_def
proof (intro allI impI)
  fix s x t assume run: "sbind m k s = (Inl x, t)"
  obtain y r where y: "m s = (y, r)" by (cases "m s")
  have same: "st_txs r = st_txs s" by (rule keepsD [OF m y])
  show "st_txs t = st_txs s \<or> denied_row env p s t"
  proof (cases y)
    case (Inl e)
    then show ?thesis using run y same by simp
  next
    case (Inr z)
    then have "k z r = (Inl x, t)" using run y by simp
    then have "st_txs t = st_txs r \<or> denied_row env p r t" using k [of z] unfolding refuses_def by blast
    then show ?thesis using same by (simp add: denied_row_def)
  qed
qed

lemma refuses_prod: "(\<And>a b. refuses env p (k a b)) \<Longrightarrow> refuses env p (case x of (a, b) \<Rightarrow> k a b)"
  by (cases x) simp

lemma given_up_rmtree: "given_up env p (snd (rmtree (staging_directory env p) s))"
  by (simp add: given_up_def rmtree_def modify_def dget_rmtree)

lemma concluded_refused:
  assumes "concluded env p candidate decision inputs value s = (Inl x, t)"
  shows "decision \<noteq> u ''AUTHORIZED'' \<and> t = snd (rmtree (staging_directory env p) s)"
  using assms
  by (auto simp: concluded_def rmtree_def run_modify run_lift ret_def raise_def modify_def split: if_splits sum.splits)

lemma refuses_created:
  "refuses env p (sbind (create_transaction (prepared_row env now p kind candidate root_set ga decision) staged)
     (\<lambda>_. concluded env p candidate decision inputs value))"
  unfolding refuses_def
proof (intro allI impI)
  fix s x t
  let ?create = "create_transaction (prepared_row env now p kind candidate root_set ga decision) staged"
  assume run: "sbind ?create (\<lambda>_. concluded env p candidate decision inputs value) s = (Inl x, t)"
  obtain y r where y: "?create s = (y, r)" by (cases "?create s")
  show "st_txs t = st_txs s \<or> denied_row env p s t"
  proof (cases y)
    case (Inl e)
    then have "t = r" using run y by simp
    then show ?thesis using y Inl
      by (auto simp: create_transaction_def Let_def run_gets run_sensure modify_def split: if_splits)
  next
    case (Inr z)
    then have "concluded env p candidate decision inputs value r = (Inl x, t)" using run y by simp
    note out = concluded_refused [OF this]
    obtain row where row: "st_txs r = st_txs s @ [row]" "tx_id row = pp_uuid p"
        "tx_state_name row = (if decision = u ''AUTHORIZED'' then u ''PREPARED'' else u ''DENIED'')"
      using y unfolding Inr create_transaction_run Let_def by (auto simp: prepared_row_def)
    have "st_txs t = st_txs r" using out by (simp add: rmtree_def modify_def)
    then have "denied_row env p s t"
      using row out given_up_rmtree [of env p r] unfolding denied_row_def by auto
    then show ?thesis by simp
  qed
qed

lemma keeps_note [keeps_intros]: "keeps st_txs (note_unaccounted_write hb now pw m)"
  unfolding note_unaccounted_write_def by (intro keeps_intros)

lemma keeps_prepare_parts [keeps_intros]:
  "keeps st_txs (keep_staged env p g)" "keeps st_txs (subject_of candidate returned)"
  "keeps st_txs (inputs_at_prepare hb p candidate current w returned freshness ga)" "keeps st_txs (write_record r)"
  unfolding keep_staged_def create_mapping_def subject_of_def inputs_at_prepare_def write_record_def
  by (intro keeps_intros)+

lemma keeps_gather:
  assumes "keeps_transactions p" shows "keeps st_txs (gather hb env p candidate freshness rows)"
proof -
  have "keeps st_txs (staged_evaluation p payload candidate g content tested)" for payload g content tested
    using assms unfolding staged_evaluation_def keeps_transactions_def
    by (auto split: option.splits intro!: keeps_intros)
  then show ?thesis unfolding gather_def Let_def by (intro keeps_intros)
qed

lemma refuses_staged:
  assumes "keeps_transactions p"
  shows "refuses env p (staged_transaction hb env now p kind returned candidate current expected rows freshness root_set)"
  unfolding staged_transaction_def Let_def
  by (intro refuses_created refuses_sbind refuses_prod keeps_gather [OF assms] keeps_intros)

lemma refuses_unless_recorded:
  assumes m: "refuses env p m" shows "refuses env p (unless_recorded env p m)"
  unfolding refuses_def
proof (intro allI impI)
  fix s x t assume run: "unless_recorded env p m s = (Inl x, t)"
  then obtain e r where r: "m s = (Inl e, r)" and t: "t = r \<or> t = snd (rmtree (staging_directory env p) r)"
    by (auto simp: unless_recorded_def split: prod.splits sum.splits if_splits)
  have "st_txs t = st_txs r" using t by (auto simp: rmtree_def modify_def)
  moreover have "given_up env p r \<Longrightarrow> given_up env p t"
    using t given_up_rmtree by auto
  ultimately show "st_txs t = st_txs s \<or> denied_row env p s t"
    using m r by (auto simp: refuses_def denied_row_def)
qed

text \<open>After a refused staging the staging is gone, unless the record file is there.\<close>

lemma refused_is_given_up:
  assumes "unless_recorded env p m s = (Inl x, t)"
  shows "given_up env p t \<or> dget (st_files t) (record_path env p) \<noteq> None"
  using assms given_up_rmtree by (auto simp: unless_recorded_def split: prod.splits sum.splits if_splits)

lemma keeps_admitted:
  assumes "keeps_transactions p" shows "keeps st_txs (admitted p value kind returned)"
proof -
  have reconcile: "keeps st_txs m" if "pp_reconcile p = Some m" for m
    using assms that by (simp add: keeps_transactions_def)
  have drain: "keeps st_txs (pp_drain p)" using assms by (simp add: keeps_transactions_def)
  show ?thesis unfolding admitted_def
    by (intro keeps_intros drain; rule reconcile)
qed

lemma keeps_refusing [keeps_intros]: "keeps st_txs (refusing hb now report subject kind r)"
  unfolding refusing_def by (auto split: sum.splits exc.splits intro!: keeps_intros)

lemma keeps_witness [keeps_intros]: "keeps st_txs (checkpoint_witness subject)"
  unfolding checkpoint_witness_def by (intro keeps_intros)

lemma keeps_freshness [keeps_intros]: "keeps st_txs (freshness_of hb now report requirement candidate kind returned)"
  unfolding freshness_of_def checkpoint_freshness_def evaluated_freshness_def by (intro keeps_intros)

lemma refuses_prepare:
  assumes "keeps_transactions p" shows "refuses env p (prepare_store hb env now p value kind returned)"
  unfolding prepare_store_def
  by (intro refuses_unless_recorded refuses_staged [OF assms] refuses_sbind refuses_prod keeps_admitted [OF assms]
      keeps_intros)

end
