(* ===== verification/Prepare_Sample.thy ===== *)
theory Prepare_Sample
  imports Prepare_Laws Commit_Sample
begin

text \<open>
  A store in which a return is prepared: PRIME is a checkpoint, the vehicle of the return is its child,
  no root is registered, and one hash stands for every digest.
\<close>

section \<open>The worlds\<close>

definition checkpoint_world_sample :: world where
  "checkpoint_world_sample = sample_candidate\<lparr>w_actor := u ''worldline''\<rparr>"

definition vehicle :: world where
  "vehicle = sample_candidate\<lparr>w_instance_id := u ''c'', w_alias := u ''v'', w_parent_instance := Some (u ''i''),
     w_content_id := Some (u ''k'')\<rparr>"

definition row_for :: "world \<Rightarrow> world_row" where
  "row_for w = (case row_of_world w of Inr r \<Rightarrow> r)"

lemma row_for: "valid_columns w \<Longrightarrow> row_of_world w = Inr (row_for w)"
  using valid_columns_row [of w] by (auto simp: row_for_def)

lemma return_columns:
  "valid_columns checkpoint_world_sample" "valid_columns vehicle" "dicts_ok checkpoint_world_sample" "dicts_ok vehicle"
  using candidate_columns by (simp_all add: valid_columns_def dicts_ok_def checkpoint_world_sample_def vehicle_def)

lemma return_rows:
  "wr_instance_id (row_for checkpoint_world_sample) = u ''i''" "wr_instance_id (row_for vehicle) = u ''c''"
  using row_of_world_ids [OF row_for [OF return_columns(1)]] row_of_world_ids [OF row_for [OF return_columns(2)]]
  by (simp_all add: checkpoint_world_sample_def vehicle_def sample_candidate_def sample_world_def)

definition return_store :: store where
  "return_store = empty_store\<lparr>st_worlds := [row_for checkpoint_world_sample, row_for vehicle],
     st_meta := [(u ''primeInstance'', utf8_encode (dumps (PStr (u ''i'')))),
                 (u ''primeContent'', utf8_encode (dumps (PStr same_digest)))]\<rparr>"

definition found_prime :: world where
  "found_prime = (stored checkpoint_world_sample)\<lparr>w_descendants := descendant_count (u ''i'') return_store\<rparr>"

definition found_vehicle :: world where
  "found_vehicle = (stored vehicle)\<lparr>w_descendants := descendant_count (u ''c'') return_store\<rparr>"

lemma return_found:
  "world_get (u ''i'') return_store = Inr found_prime" "world_get (u ''c'') return_store = Inr found_vehicle"
proof -
  have p: "world_from_row (row_for checkpoint_world_sample) = Inr (stored checkpoint_world_sample)"
    and v: "world_from_row (row_for vehicle) = Inr (stored vehicle)"
    using row_for return_columns by (auto intro: world_from_row_of_world)
  have lookup: "world_lookup (u ''i'') (st_worlds return_store) = Some (row_for checkpoint_world_sample)"
      "world_lookup (u ''c'') (st_worlds return_store) = Some (row_for vehicle)"
    by (simp_all add: world_lookup_def return_store_def return_rows)
  show "world_get (u ''i'') return_store = Inr found_prime" "world_get (u ''c'') return_store = Inr found_vehicle"
    by (simp_all add: world_get_def lookup p v return_rows found_prime_def found_vehicle_def)
qed

lemma prime_fields:
  "w_instance_id found_prime = u ''i''" "w_actor found_prime = u ''worldline''" "w_parent_instance found_prime = None"
  "w_content_id found_prime = Some same_digest" "w_world_kind found_prime = u ''computational''"
  "w_components found_prime = w_components found_candidate"
  by (simp_all add: found_prime_def stored_def checkpoint_world_sample_def found_candidate_def sample_candidate_def
      sample_world_def)

lemma vehicle_fields:
  "w_instance_id found_vehicle = u ''c''" "w_alias found_vehicle = u ''v''" "w_state found_vehicle = VALID"
  "w_parent_instance found_vehicle = Some (u ''i'')" "w_parent_content found_vehicle = same_digest"
  "w_base_root found_vehicle = same_digest" "w_root_set_hash found_vehicle = same_digest"
  "w_delta_hash found_vehicle = Some same_digest" "w_content_id found_vehicle = Some (u ''k'')"
  "w_contamination found_vehicle = []" "w_world_kind found_vehicle = u ''computational''"
  "w_mission_hash found_vehicle = u ''m''" "w_evidence found_vehicle = PDict []"
  by (simp_all add: found_vehicle_def stored_def vehicle_def sample_candidate_def sample_world_def norm.simps(2))

lemma stored_meta:
  assumes "encodable t" shows "json_load (Some (utf8_encode (dumps (PStr t)))) PNone = Inr (PStr t)"
proof -
  have c: "canonicalizable (PStr t)" using assms by (simp add: canonicalizable_def)
  show ?thesis using utf8_roundtrip [OF encodable_dumps [OF c]] loads_dumps [OF c] by (simp add: json_load_def)
qed

lemma return_meta:
  "get_meta (u ''primeInstance'') PNone return_store = (Inr (PStr (u ''i'')), return_store)"
  "get_meta (u ''primeContent'') PNone return_store = (Inr (PStr same_digest), return_store)"
  using stored_meta encodable_same encodable_u
  by (simp_all add: get_meta_def run_gets lift_def return_store_def)

lemma return_prime: "prime return_store = (Inr (Some found_prime), return_store)"
  unfolding prime_def sbind_run_Inr [of "get_meta (u ''primeInstance'') PNone", OF return_meta(1)]
  by (simp add: truthy_def run_gets run_lift return_found ret_def)

lemma return_roots: "roots return_store = []"
  by (simp add: roots_def return_store_def empty_store_def)

section \<open>Admission\<close>

definition return_requirement :: fields where
  "return_requirement = [(PStr (u ''requirementHash''), PStr same_digest), (PStr (u ''policy''), PDict [])]"

definition sample_preparation :: preparation where
  "sample_preparation = \<lparr>pp_uuid = u ''y'', pp_drain = ret (), pp_reconcile = None, pp_before = Some 7,
     pp_after = Some 7, pp_requirement = Inr return_requirement, pp_report = (\<lambda>_. PNone), pp_source = (\<lambda>_. Inr []),
     pp_watched = Some [], pp_live = (\<lambda>_. Inr None), pp_tree = (\<lambda>_. None), pp_repository = (\<lambda>_. Inr PNone),
     pp_stage = (\<lambda>_ _. Inl OSError), pp_client_safe = (\<lambda>_. Inr ()), pp_validator = None,
     pp_dependencies = (\<lambda>_. Inr [])\<rparr>"

lemma sample_parts:
  "pp_uuid sample_preparation = u ''y''" "pp_drain sample_preparation = ret ()" "pp_reconcile sample_preparation = None"
  "pp_before sample_preparation = Some 7" "pp_after sample_preparation = Some 7"
  "pp_requirement sample_preparation = Inr return_requirement" "pp_watched sample_preparation = Some []"
  "pp_validator sample_preparation = None" "pp_dependencies sample_preparation = (\<lambda>_. Inr [])"
  by (simp_all add: sample_preparation_def)

lemma vehicle_descends: "is_ancestor (Some (u ''i'')) (u ''i'') return_store = Inr True"
  by (simp add: is_ancestor_def ancestor_walk.simps)

lemma sample_admitted:
  "admitted sample_preparation (u ''c'') (u ''return'') (Some (u ''i'')) return_store
     = (Inr (found_vehicle, found_prime, same_digest), return_store)"
  by (simp add: admitted_def sample_parts run_ret run_sensure run_gets run_lift return_found subject_of_def vehicle_fields
      prime_fields return_prime vehicle_descends ret_def lift_def)

definition return_freshness :: fields where
  "return_freshness = map (\<lambda>(k, v). (PStr (u k), v)) [(''mode'', CHECKPOINT), (''requirementHash'', PStr same_digest),
       (''candidateRequirementHash'', PNone), (''policySourceSha256'', PNone), (''subject'', PStr (u ''i'')),
       (''contextHash'', PNone), (''source'', PNone),
       (''witness'', pdict [(u ''source'', PStr (u ''prime-register'')), (u ''expected'', PStr same_digest),
          (u ''witnessed'', PStr same_digest)]),
       (''current'', PDict return_requirement),
       (''execution'', pdict [(u ''complete'', PBool False), (u ''expected'', PStr same_digest),
          (u ''actual'', PNone), (u ''mode'', PStr (u ''no-candidate-evaluation'')),
          (u ''problems'', PList []), (u ''requiredChecks'', PList [])])]"

lemma return_declared: "declared_verifiers_of constant_hash return_requirement = Inr same_digest"
  by (simp add: declared_verifiers_of_def required_roster_def return_requirement_def map_or_empty_def as_map_def mget_def
      declared_bundles_def iter_or_empty_def bundle_identity_def constant_hash_def same_digest_def truthy_def)

lemma return_witness:
  "checkpoint_witness found_prime return_store
     = (Inr (Some \<lparr>ws_source = u ''prime-register'', ws_expected = same_digest, ws_witnessed = Some same_digest\<rparr>),
        return_store)"
  by (simp add: checkpoint_witness_def prime_fields return_prime return_meta ret_def)

lemma return_subject: "subject_of found_vehicle (Some (u ''i'')) return_store = (Inr found_prime, return_store)"
  by (simp add: subject_of_def run_gets return_found lift_def)

lemma sample_freshness:
  "freshness_of constant_hash [] (\<lambda>_. PNone) (Inr return_requirement) found_vehicle (u ''return'') (Some (u ''i''))
     return_store = (Inr return_freshness, return_store)"
proof -
  have h: "pitem (PDict return_requirement) (u ''requirementHash'') = Inr (PStr same_digest)"
      "policy_source return_requirement = Inr PNone"
    by (simp_all add: pitem_def policy_source_def return_requirement_def pget_def)
  show ?thesis
    by (simp add: freshness_of_def run_lift run_ret return_subject prime_fields checkpoint_freshness_def h
        return_witness return_declared witness_value_def opt_str_def) (simp add: ret_def return_freshness_def)
qed

section \<open>The staging and the decision\<close>

definition no_staging :: staging where
  "no_staging = \<lparr>sg_base = [], sg_current = [], sg_candidate = [], sg_staged = [], sg_conflicts = [],
     sg_declared = True\<rparr>"

definition empty_delta :: delta_result where
  "empty_delta = \<lparr>dl_operations = [], dl_value = pdict [(u ''schemaVersion'', PInt 1), (u ''roots'', PList []),
     (u ''operations'', PList []), (u ''summary'', op_summary [])], dl_hash = same_digest\<rparr>"

lemma no_delta: "compute_all constant_hash [] [] = Inr empty_delta"
  by (simp add: compute_all_def validate_operations_def canonical_bytes_def hash_id_constant empty_delta_def op_summary_def
      count_op_def)

definition sample_gathered :: gathered where
  "sample_gathered = \<lparr>ga_staging = no_staging, ga_delta = empty_delta, ga_base_root = same_digest,
     ga_before_root = same_digest, ga_candidate_root = same_digest, ga_staged_root = Some same_digest,
     ga_staged_content = Some same_digest, ga_tested = Some same_digest, ga_tested_source = u ''declared-manifests'',
     ga_untested = [], ga_validation = None\<rparr>"

lemma freshness_fields:
  "mget return_freshness (u ''examinedContentRoot'') = PNone" "mget return_freshness (u ''mode'') = CHECKPOINT"
  "mget return_freshness (u ''candidateRequirementHash'') = PNone"
  "mget return_freshness (u ''witness'') = pdict [(u ''source'', PStr (u ''prime-register'')),
     (u ''expected'', PStr same_digest), (u ''witnessed'', PStr same_digest)]"
  "sub_fields return_freshness ''current'' = return_requirement"
  "mget (sub_fields return_freshness ''execution'') (u ''complete'') = PBool False"
  "mget (sub_fields return_freshness ''execution'') (u ''expected'') = PStr same_digest"
  "mget (sub_fields return_freshness ''execution'') (u ''actual'') = PNone"
  by (simp_all add: sub_fields_def return_freshness_def mget_def map_or_empty_def as_map_def)

lemma sample_staged: "stage_roots constant_hash sample_preparation found_vehicle [] s = Inr no_staging"
  by (simp add: stage_roots_def no_staging_def)

lemma sample_tested: "tested_content constant_hash return_freshness [] True f
    = Inr (Some same_digest, Some [], u ''declared-manifests'')"
  by (simp add: tested_content_def freshness_fields CHECKPOINT_def empty_content)

lemma sample_gather:
  "gather constant_hash env sample_preparation found_vehicle return_freshness [] s = (Inr sample_gathered, s)"
  by (simp add: gather_def Let_def run_gets run_lift sample_staged no_staging_def no_delta empty_root_set staged_roots_def
      empty_content sample_tested content_differences_def staged_evaluation_def sample_parts run_ret)
    (simp add: ret_def sample_gathered_def no_staging_def)

definition return_inputs :: fields where
  "return_inputs = map (\<lambda>(k, v). (PStr (u k), v))
       [(''schemaVersion'', PInt 1), (''expectedSubject'', PStr same_digest), (''evidenceSubject'', PStr same_digest),
        (''stagedRoot'', PStr same_digest), (''testedRoot'', PStr same_digest),
        (''testedRootSource'', PStr (u ''declared-manifests'')), (''primary'', PDict (primary_block return_freshness)),
        (''staged'', pdict [(u ''ran'', PBool False), (u ''evaluatedRequirement'', PNone),
          (u ''rosterComplete'', PBool False), (u ''executedVerifiers'', PNone), (u ''examinedRoot'', PNone)]),
        (''conflictsMeasured'', PBool True),
        (''foreignWrites'', PDict (foreign_value ''NONE_FOUND'' ''live-capture-vs-prime-record'' [])),
        (''watchSets'', pdict [(u ''registered'', PStr same_digest), (u ''watched'', PStr same_digest)]),
        (''generations'', generations_value (Some 7) (Some 7))]"

lemma return_clean:
  "foreign_writes_measured constant_hash [] (Some found_prime) (Some found_vehicle)
     = Inr (foreign_value ''NONE_FOUND'' ''live-capture-vs-prime-record'' [])"
proof -
  have "foreign_writes_measured constant_hash [] (Some found_prime) (Some found_vehicle)
      = foreign_writes_measured constant_hash [] (Some the_candidate) (Some the_candidate)"
    by (simp add: foreign_writes_measured_def prime_fields vehicle_fields candidate_fields)
  then show ?thesis by (simp add: measured_clean)
qed

lemma return_subjects:
  "subject_pair constant_hash return_freshness found_vehicle (Some (u ''i'')) = Inr (Some same_digest, Some same_digest)"
proof -
  have "ascii_encode (u ''i'') = Inr (map char_of (u ''i''))" by (simp add: ascii_encode_def u_def)
  then have b: "return_binding constant_hash (u ''i'') = Inr same_digest"
    by (simp add: return_binding_def hash_id_constant)
  have "subject_digest constant_hash (PStr (u ''i'')) x = Inr (Some same_digest)" if "encodable x" for x
    using that by (simp add: subject_digest_def tagged_same)
  then show ?thesis by (simp add: subject_pair_def b freshness_fields vehicle_fields encodable_same)
qed

lemma return_watch: "watch_sets constant_hash [] (pp_source sample_preparation) (Some []) = Inr (Some same_digest, Some same_digest)"
  by (simp add: watch_sets_def opt_digest_def watch_set_digest_def tagged_same)

lemma same_worlds:
  assumes "st_worlds s = st_worlds return_store" "st_meta s = st_meta return_store" "st_roots s = st_roots return_store"
  shows "roots s = []" and "world_get x s = world_get x return_store"
  using assms return_roots
  by (simp_all add: roots_def world_get_def descendant_count_def)

lemma sample_inputs:
  assumes "roots s = []"
  shows "inputs_at_prepare constant_hash sample_preparation found_vehicle found_prime found_prime (Some (u ''i''))
    return_freshness sample_gathered s = (Inr return_inputs, s)"
proof -
  have ga: "ga_validation sample_gathered = None" "sg_current (ga_staging sample_gathered) = []"
      "ga_staged_root sample_gathered = Some same_digest" "ga_tested sample_gathered = Some same_digest"
      "ga_tested_source sample_gathered = u ''declared-manifests''"
    by (simp_all add: sample_gathered_def no_staging_def)
  have n: "named (Some (u ''i'')) = Some (u ''i'')" by (simp add: named_def)
  show ?thesis
    by (simp add: inputs_at_prepare_def run_lift run_gets staged_block_def ga return_clean assms return_watch n return_subjects
        sample_parts opt_str_def) (simp add: ret_def return_inputs_def)
qed

definition return_question :: question where
  "return_question = prepare_question sample_preparation found_vehicle found_prime same_digest return_freshness
     same_digest sample_gathered (PStr same_digest) return_inputs"

lemma return_input_fields:
  "mget return_inputs (u ''expectedSubject'') = PStr same_digest"
  "mget return_inputs (u ''evidenceSubject'') = PStr same_digest"
  "mget return_inputs (u ''testedRoot'') = PStr same_digest"
  "mget return_inputs (u ''conflictsMeasured'') = PBool True"
  "mget return_inputs (u ''foreignWrites'') = PDict (foreign_value ''NONE_FOUND'' ''live-capture-vs-prime-record'' [])"
  "sub_fields return_inputs ''primary'' = primary_block return_freshness"
  "sub_fields return_inputs ''staged'' = [(PStr (u ''ran''), PBool False), (PStr (u ''evaluatedRequirement''), PNone),
     (PStr (u ''rosterComplete''), PBool False), (PStr (u ''executedVerifiers''), PNone),
     (PStr (u ''examinedRoot''), PNone)]"
  "sub_fields return_inputs ''watchSets'' = [(PStr (u ''registered''), PStr same_digest), (PStr (u ''watched''), PStr same_digest)]"
  "sub_fields return_inputs ''generations'' = [(PStr (u ''before''), PInt 7), (PStr (u ''after''), PInt 7)]"
  by (simp_all add: return_inputs_def mget_def sub_fields_def map_or_empty_def as_map_def generations_value_def
      counter_value_def)

lemma return_parts:
  "qn_phase return_question = u ''PREPARE''" "qn_mode return_question = CHECKPOINT"
  "qn_candidate return_question = found_vehicle" "qn_subject return_question = found_prime"
  "qn_expected_parent return_question = PStr same_digest" "qn_base_root return_question = PStr same_digest"
  "qn_delta_hash return_question = PStr same_digest" "qn_root_set return_question = PStr same_digest"
  "qn_expected_staged return_question = PStr same_digest" "qn_actual_staged return_question = PNone"
  "qn_staged_content return_question = PStr same_digest" "\<not> qn_conflicts return_question"
  "qn_requirement return_question = PStr same_digest" "qn_inputs return_question = return_inputs"
  "qn_witness return_question = pdict [(u ''source'', PStr (u ''prime-register'')),
     (u ''expected'', PStr same_digest), (u ''witnessed'', PStr same_digest)]"
  by (simp_all add: return_question_def prepare_question_def freshness_fields sample_gathered_def empty_delta_def
      no_staging_def opt_str_def)

lemma return_primary:
  "mget (primary_block return_freshness) (u ''declaredVerifiers'') = PStr same_digest"
  "mget (primary_block return_freshness) (u ''evaluatedRequirement'') = PNone"
  "mget (primary_block return_freshness) (u ''executedVerifiers'') = PNone"
  "mget (primary_block return_freshness) (u ''rosterComplete'') = PBool False"
  by (simp_all add: primary_block_def Let_def freshness_fields) (simp_all add: mget_def)

lemma return_witnessed: "mget (map_or_empty (or_empty (qn_witness return_question))) (u ''witnessed'') = PStr same_digest"
  by (simp add: return_parts or_empty_def truthy_def map_or_empty_def as_map_def mget_def)

lemma return_decided: "\<exists>v. question_of return_question = Inr v \<and> collapse_decide v = Inr (u ''AUTHORIZED'')"
proof -
  let ?d = "replicate 32 (CHR 0x41) :: bytes"
  have foreign: "foreign_state_of return_inputs = Inr (u ''NONE_FOUND'')"
    by (simp add: foreign_state_of_def return_input_fields or_empty_def truthy_def foreign_value_def pget_def)
  have staged: "mget (sub_fields return_inputs ''staged'') (u ''evaluatedRequirement'') = PNone"
      "mget (sub_fields return_inputs ''staged'') (u ''executedVerifiers'') = PNone"
      "mget (sub_fields return_inputs ''staged'') (u ''examinedRoot'') = PNone"
    unfolding return_input_fields by (simp_all add: mget_def)
  have watch: "mget (sub_fields return_inputs ''watchSets'') (u ''registered'') = PStr same_digest"
      "mget (sub_fields return_inputs ''watchSets'') (u ''watched'') = PStr same_digest"
      "mget (sub_fields return_inputs ''generations'') (u ''before'') = PInt 7"
      "mget (sub_fields return_inputs ''generations'') (u ''after'') = PInt 7"
    unfolding return_input_fields by (simp_all add: mget_def)
  note known = identity_of_same identity_of_PNone
  note parts = return_parts(1-14) return_input_fields(1-6) staged watch return_primary return_witnessed vehicle_fields
    prime_fields
  obtain v where v: "question_of return_question = Inr v"
    by (simp add: question_of_def Let_def parts known foreign unless_def opt_str_def)
  note F = question_facts [OF v] and G = question_flags [OF v]
  have facts: "expected_parent v = Some ?d" "candidate_parent v = Some ?d" "expected_subject v = Some ?d"
      "evidence_subject v = Some ?d" "expected_base v = Some ?d" "candidate_base v = Some ?d"
      "expected_delta v = Some ?d" "candidate_delta v = Some ?d" "expected_root_set v = Some ?d"
      "candidate_root_set v = Some ?d" "expected_staged_root v = Some ?d" "actual_staged_root v = None"
      "staged_content_root v = Some ?d" "tested_root v = Some ?d" "current_requirement v = Some ?d"
      "evaluated_requirement v = None" "declared_verifiers v = Some ?d" "executed_verifiers v = None"
      "registered_watch_set v = Some ?d" "watched_set v = Some ?d"
      "staged_evaluated_requirement v = None" "staged_executed_verifiers v = None"
      "staged_examined_root v = None" "expected_checkpoint v = Some ?d" "witnessed_checkpoint v = Some ?d"
    using F by (auto simp: parts known unless_def opt_str_def)
  have marks: "candidate_state v = u ''VALID''" "phase_of v = u ''PREPARE''" "mode_of v = u ''CHECKPOINT_RETURN''"
      "conflicts_of v = u ''NONE_FOUND''" "foreign_writes v = u ''NONE_FOUND''" "\<not> roster_complete v"
      "generation_before v = Some 7" "generation_after v = Some 7"
    using G by (simp_all add: parts foreign counter_of_def)
  have "typed_input v"
    by (simp add: typed_input_def hash_values_def typed_hash_def typed_counter_def facts marks STATE_CODES_def
        COLLAPSE_PHASES_def EVALUATION_MODES_def MEASUREMENTS_def All_Zero_def list_all_iff)
  moreover have "well_posed v" by (simp add: well_posed_def facts marks)
  moreover have "All_Hold (request_of v)"
    by (simp add: All_Hold_def request_of_def facts marks Same_def measurement_of_def Staged_Root_Holds_def
        Evidence_Holds_def Covered_def Primary_Covers_def STATE_CODES_def world_states_def)
  ultimately have "collapse_decide v = Inr (u ''AUTHORIZED'')" unfolding collapse_decide_authorized by simp
  then show ?thesis using v by blast
qed

lemma return_authorized:
  "\<exists>names. set names \<subseteq> range u \<and> decide return_question
     = Inr (u ''AUTHORIZED'', dset (PStr (u ''absent'')) (texts names) return_inputs)"
proof -
  obtain v where v: "question_of return_question = Inr v" "collapse_decide v = Inr (u ''AUTHORIZED'')"
    using return_decided by blast
  have "set (absent_inputs v) \<subseteq> range u"
    unfolding absent_inputs_def set_sort by (rule order_trans [OF zip_names]) (simp only: set_map, rule image_subsetI, rule rangeI)
  then show ?thesis using v return_parts(14) by (auto simp: decide_def)
qed

section \<open>The run\<close>

definition return_record :: "pystr list \<Rightarrow> fields" where
  "return_record names = prepared_record sample_env [] sample_preparation (u ''return'') (Some (u ''i'')) found_vehicle
     found_prime same_digest return_freshness same_digest sample_gathered (u ''AUTHORIZED'')
     (dset (PStr (u ''absent'')) (texts names) return_inputs) [] []"

lemma validate_fields:
  "validate (PDict (map (\<lambda>(k, v). (PStr (u k), v)) kvs)) = Inr () \<longleftrightarrow> list_all (\<lambda>(k, v). validate v = Inr ()) kvs"
  unfolding validate_PDict by (force simp: list_all_iff)

lemma validate_texts:
  assumes "set names \<subseteq> range u" shows "validate (texts names) = Inr ()"
proof -
  have "rmap validate (map PStr names) = Inr (map (\<lambda>_. ()) (map PStr names))"
    by (rule rmap_all_Inr) (use assms in auto)
  then show ?thesis by (simp add: texts_def)
qed

lemma return_inputs_valid: "validate (PDict return_inputs) = Inr ()"
proof -
  have primary: "validate (PDict (primary_block return_freshness)) = Inr ()"
    unfolding primary_block_def Let_def freshness_fields validate_fields by (simp add: encodable_same)
  show ?thesis
    unfolding return_inputs_def validate_fields
    by (simp add: primary encodable_same generations_value_def counter_value_def foreign_value_def texts_def
        del: validate.simps(6)) (simp add: encodable_same)
qed

lemma encodable_below: "encodable a \<Longrightarrow> encodable b \<Longrightarrow> encodable (below a b)"
  by (simp add: below_def encodable_append surrogate_def)

lemma return_record_valid:
  assumes "set names \<subseteq> range u" shows "validate (PDict (return_record names)) = Inr ()"
proof -
  have inputs: "validate (PDict (dset (PStr (u ''absent'')) (texts names) return_inputs)) = Inr ()"
    using return_inputs_valid validate_texts [OF assms] by (intro validate_dset) simp_all
  have delta: "validate (PDict (dset (PStr (u ''baseRoot'')) (PStr same_digest)
      (dset (PStr (u ''deltaHash'')) (PStr same_digest) (map_or_empty (dl_value empty_delta))))) = Inr ()"
    by (intro validate_dset) (simp_all add: encodable_same empty_delta_def map_or_empty_def as_map_def op_summary_def count_op_def)
  have fresh: "validate (PDict (filter (\<lambda>(k, _). k \<noteq> PStr (u ''current'')) return_freshness)) = Inr ()"
    by (simp add: return_freshness_def encodable_same CHECKPOINT_def)
  have paths: "encodable (staging_payload sample_env sample_preparation)"
      "encodable (staging_mapping sample_env sample_preparation)" "encodable (record_path sample_env sample_preparation)"
    by (simp_all add: staging_payload_def staging_mapping_def staging_directory_def record_path_def encodable_below
        encodable_append sample_parts sample_env_def)
  have gathered: "ga_staging sample_gathered = no_staging" "ga_delta sample_gathered = empty_delta"
      "ga_base_root sample_gathered = same_digest" "ga_before_root sample_gathered = same_digest"
      "ga_candidate_root sample_gathered = same_digest" "ga_staged_root sample_gathered = Some same_digest"
      "ga_staged_content sample_gathered = Some same_digest" "ga_tested sample_gathered = Some same_digest"
      "ga_untested sample_gathered = []" "ga_validation sample_gathered = None" "sg_conflicts no_staging = []"
      "dl_hash empty_delta = same_digest" "texts [] = PList []"
    by (simp_all add: sample_gathered_def no_staging_def empty_delta_def texts_def)
  show ?thesis
    unfolding return_record_def prepared_record_def validate_fields
    by (simp add: encodable_same inputs delta fresh paths vehicle_fields prime_fields gathered opt_str_def sample_parts
        del: validate.simps(6))
qed

lemma sample_kept:
  "\<exists>files. keep_staged sample_env sample_preparation no_staging return_store
     = (Inr (), return_store\<lparr>st_files := files\<rparr>)"
proof -
  obtain data where "canonical_bytes (pdict [(u ''schemaVersion'', PInt 1), (u ''transactionId'', PStr (u ''y''))]) = Inr data"
    by (simp add: canonical_bytes_def)
  then have "create_mapping sample_env sample_preparation return_store = (Inr (), return_store
      \<lparr>st_files := dset (below (staging_mapping sample_env sample_preparation) MARKER) data (st_files return_store)\<rparr>)"
    by (simp add: create_mapping_def sample_parts run_lift write_file_def modify_def)
  then show ?thesis
    by (intro exI) (simp add: keep_staged_def no_staging_def save_manifests_def ret_def)
qed

lemma sample_created:
  assumes "st_worlds s = st_worlds return_store" and "st_txs s = []"
  shows "\<exists>t. create_transaction (prepared_row sample_env [] sample_preparation (u ''return'') found_vehicle same_digest
     sample_gathered (u ''AUTHORIZED'')) (Some same_digest) s = (Inr (), t)"
  using assms
  by (simp add: create_transaction_run Let_def tx_constraints_def prepared_row_def vehicle_fields return_store_def
      return_rows TRANSACTION_STATE_CODES_def)

lemma sample_staged_run:
  "\<exists>v t. staged_transaction constant_hash sample_env [] sample_preparation (u ''return'') (Some (u ''i'')) found_vehicle
     found_prime same_digest [] return_freshness same_digest return_store = (Inr v, t)"
proof -
  obtain names where names: "set names \<subseteq> range u" and d: "decide return_question
     = Inr (u ''AUTHORIZED'', dset (PStr (u ''absent'')) (texts names) return_inputs)"
    using return_authorized by blast
  obtain files where kept: "keep_staged sample_env sample_preparation no_staging return_store
     = (Inr (), return_store\<lparr>st_files := files\<rparr>)" using sample_kept by blast
  let ?s = "return_store\<lparr>st_files := files\<rparr>"
  have same: "roots ?s = []" "world_get (u ''i'') ?s = Inr found_prime"
    using same_worlds [of ?s] return_found by simp_all
  have subject: "subject_of found_vehicle (Some (u ''i'')) ?s = (Inr found_prime, ?s)"
    by (simp add: subject_of_def run_gets same lift_def)
  have h: "pitem (PDict return_requirement) (u ''requirementHash'') = Inr (PStr same_digest)"
    by (simp add: pitem_def return_requirement_def)
  have parts: "generated_of found_vehicle = Inr []" "changes_of sample_preparation found_vehicle = Inr []"
    by (simp_all add: generated_of_def vehicle_fields pget_def changes_of_def sample_parts dependency_changes_def
        flatten_dependencies_def)
  obtain data where "canonical_bytes (PDict (return_record names)) = Inr data"
    using return_record_valid [OF names] by (simp add: canonical_bytes_def)
  then obtain r where w: "write_record (return_record names) ?s = (Inr (), r)"
    and r: "st_worlds r = st_worlds return_store" "st_txs r = []"
    using write_record_run [of "return_record names" ?s "()"] record_path_of
    by (simp add: return_record_def) (simp add: return_store_def empty_store_def)
  obtain t where c: "create_transaction (prepared_row sample_env [] sample_preparation (u ''return'') found_vehicle
      same_digest sample_gathered (u ''AUTHORIZED'')) (Some same_digest) r = (Inr (), t)"
    using sample_created [OF r] by blast
  have ga: "ga_staging sample_gathered = no_staging" "ga_staged_root sample_gathered = Some same_digest"
    by (simp_all add: sample_gathered_def)
  show ?thesis
    unfolding staged_transaction_def
    by (simp add: sample_gather ga kept subject sample_inputs [OF same(1)] freshness_fields run_lift h
        d [unfolded return_question_def] run_ret parts Let_def w [unfolded return_record_def] c concluded_def ret_def)
qed

lemma sample_prepared:
  "\<exists>v f. prepare constant_hash sample_env [] sample_preparation (u ''c'') (u ''return'') (Some (u ''i''))
     \<lparr>en_store = return_store, en_unrecoverable = []\<rparr> = (Inr v, f)"
proof -
  obtain v t where run: "staged_transaction constant_hash sample_env [] sample_preparation (u ''return'') (Some (u ''i''))
     found_vehicle found_prime same_digest [] return_freshness same_digest return_store = (Inr v, t)"
    using sample_staged_run by blast
  have root_set: "registered_root_set constant_hash [] = Inr same_digest"
    by (simp add: registered_root_set_def tagged_same)
  have fresh: "freshness_of constant_hash [] (pp_report sample_preparation) (Inr return_requirement) found_vehicle
      (u ''return'') (Some (u ''i'')) return_store = (Inr return_freshness, return_store)"
    using sample_freshness by (simp add: sample_preparation_def)
  have "prepare_store constant_hash sample_env [] sample_preparation (u ''c'') (u ''return'') (Some (u ''i'')) return_store
      = (Inr v, t)"
    unfolding prepare_store_def
    by (simp add: sample_admitted run_gets return_roots sample_parts fresh run_lift root_set unless_recorded_def run)
  then show ?thesis
    by (simp add: prepare_def assert_recovery_complete_def run_gets sbind_def sensure_def gets_def ret_def on_store_def)
qed

end
