(* ===== verification/Prepare_Claims.thy ===== *)
theory Prepare_Claims
  imports Prepare_Sample
begin

text \<open>
  The preparation of a transaction: what was decided, and what a refusal leaves behind.
\<close>



text \<open>
  C25. A refused preparation leaves no transaction that could be committed: however it is refused, the rows
  are those of before, or one row more, of this transaction, denied, and then nothing of its staging is
  left. The operations handed to the preparation (the drain of the watcher, the reconciliation, the
  validator) are assumed not to touch the rows of transactions.
\<close>
theorem refused_preparation_leaves_nothing_open:
  assumes "prepare hb env now p value kind returned e = (Inl x, f)" and "keeps_transactions p"
  shows "st_txs (en_store f) = st_txs (en_store e)
    \<or> (\<exists>row. st_txs (en_store f) = st_txs (en_store e) @ [row] \<and> tx_id row = pp_uuid p
         \<and> tx_state_name row = u ''DENIED''
         \<and> (\<forall>path. inside (staging_directory env p) path \<longrightarrow> dget (st_files (en_store f)) path = None))"
proof (cases "en_unrecoverable e = []")
  case True
  then have "on_store (prepare_store hb env now p value kind returned) e = (Inl x, f)"
    using assms(1) by (simp add: prepare_def assert_recovery_complete_def sbind_def gets_def sensure_def)
  then have "prepare_store hb env now p value kind returned (en_store e) = (Inl x, en_store f)"
    by (auto simp: on_store_def split: prod.splits)
  then have "st_txs (en_store f) = st_txs (en_store e) \<or> denied_row env p (en_store e) (en_store f)"
    using refuses_prepare [OF assms(2)] unfolding refuses_def by blast
  then show ?thesis unfolding denied_row_def given_up_def .
next
  case False
  then have "f = e"
    using assms(1) by (simp add: prepare_def assert_recovery_complete_def sbind_def gets_def sensure_def)
  then show ?thesis by simp
qed

lemma keeps_transactions_sample: "keeps_transactions (sample_preparation\<lparr>pp_requirement := r\<rparr>)"
  by (simp add: keeps_transactions_def sample_parts keeps_ret)

theorem refused_preparation_leaves_nothing_open_witness:
  "\<exists>x f. prepare constant_hash sample_env [] (sample_preparation\<lparr>pp_requirement := Inl OSError\<rparr>) (u ''c'') (u ''return'')
       (Some (u ''i'')) \<lparr>en_store = return_store, en_unrecoverable = []\<rparr> = (Inl x, f)
     \<and> (st_txs (en_store f) = [] \<or> (\<exists>row. st_txs (en_store f) = [row] \<and> tx_state_name row = u ''DENIED''))"
proof -
  let ?p = "sample_preparation\<lparr>pp_requirement := Inl OSError\<rparr>"
  let ?e = "\<lparr>en_store = return_store, en_unrecoverable = []\<rparr>"
  have "admitted ?p (u ''c'') (u ''return'') (Some (u ''i'')) return_store
     = (Inr (found_vehicle, found_prime, same_digest), return_store)"
    using sample_admitted by (simp add: admitted_def)
  then have "prepare_store constant_hash sample_env [] ?p (u ''c'') (u ''return'') (Some (u ''i'')) return_store
      = (Inl OSError, return_store)"
    by (simp add: prepare_store_def run_gets freshness_of_def run_lift sbind_run_Inl)
  then have run: "prepare constant_hash sample_env [] ?p (u ''c'') (u ''return'') (Some (u ''i'')) ?e = (Inl OSError, ?e)"
    by (simp add: prepare_def assert_recovery_complete_def on_store_def sbind_def gets_def sensure_def)
  have "st_txs return_store = []" by (simp add: return_store_def empty_store_def)
  then show ?thesis
    using run refused_preparation_leaves_nothing_open [OF run keeps_transactions_sample] by auto
qed

end
