(* ===== verification/Admission.thy ===== *)
theory Admission
  imports PyText
begin

text \<open>
  \<open>runtime/worldline/admission.py\<close>: may a workload start now? The limits a workload is held to, the
  observation of the machine, the ledger of reservations and the decision under its lock. The texts of
  reasons, and what a decision repeats of the policy and the machine, are left out. What the files of \<open>/proc\<close> hold (ASCII, and no number of more digits than \<open>int()\<close> reads), the reading of a float as hundredths, the
  clock, the identifier of a reservation and the answers of the service manager are arguments.
\<close>

section \<open>The limits of a workload\<close>

abbreviation policy_invalid :: exc where
  "policy_invalid \<equiv> WL ''RESOURCE_POLICY_INVALID''"

abbreviation state_unknown :: exc where
  "state_unknown \<equiv> WL ''RESOURCE_STATE_UNKNOWN''"

definition GIB :: int where "GIB = 1024 * 1024 * 1024"
definition MAX_MEMORY_BYTES :: int where "MAX_MEMORY_BYTES = 2 ^ 44"
definition MAX_TASKS :: int where "MAX_TASKS = 2 ^ 20"
definition MAX_TIMEOUT_SECONDS :: int where "MAX_TIMEOUT_SECONDS = 30 * 24 * 3600"
definition MAX_CONCURRENT :: int where "MAX_CONCURRENT = 4096"

record limits =
  li_memory_max :: "int option"
  li_memory_high :: "int option"
  li_swap_max :: "int option"
  li_cpu_quota :: "int option"
  li_cpu_weight :: "int option"
  li_tasks_max :: "int option"
  li_disk_growth :: "int option"
  li_timeout :: "int option"
  li_concurrent :: "int option"
  li_enforcement :: pystr

definition positive :: "pyval \<Rightarrow> int \<Rightarrow> int option res" where
  "positive v ceiling = (case v of
       PNone \<Rightarrow> Inr None
     | PInt i \<Rightarrow> rbind (ensure (0 < i \<and> i \<le> ceiling) policy_invalid) (\<lambda>_. Inr (Some i))
     | _ \<Rightarrow> Inl policy_invalid)"

definition LIMIT_FIELDS :: "pystr list" where
  "LIMIT_FIELDS = map u [''memoryMaxBytes'', ''memoryHighBytes'', ''memorySwapMaxBytes'', ''cpuQuotaPercent'',
     ''cpuWeight'', ''tasksMax'', ''diskGrowthMaxBytes'', ''timeoutSeconds'', ''maxConcurrentWorkloads'', ''enforcement'']"

definition limits_of :: "(pyval \<times> pyval) list option \<Rightarrow> limits res" where
  "limits_of mapping =
     (let v = (case mapping of None \<Rightarrow> [] | Some m \<Rightarrow> m);
          enforcement = (if mhas v (u ''enforcement'') then mget v (u ''enforcement'') else PStr (u ''cgroup2''))
      in
      rbind (ensure (set (dkeys v) \<subseteq> PStr ` set LIMIT_FIELDS) policy_invalid) (\<lambda>_.
      rbind (ensure (enforcement \<in> {PStr (u ''cgroup2''), PStr (u ''none'')}) policy_invalid) (\<lambda>_.
      rbind (positive (mget v (u ''cpuWeight'')) 10000) (\<lambda>weight.
      rbind (positive (mget v (u ''memoryMaxBytes'')) MAX_MEMORY_BYTES) (\<lambda>memory_max.
      rbind (positive (mget v (u ''memoryHighBytes'')) MAX_MEMORY_BYTES) (\<lambda>memory_high.
      rbind (positive (mget v (u ''memorySwapMaxBytes'')) MAX_MEMORY_BYTES) (\<lambda>swap_max.
      rbind (positive (mget v (u ''cpuQuotaPercent'')) (100 * 4096)) (\<lambda>cpu_quota.
      rbind (positive (mget v (u ''tasksMax'')) MAX_TASKS) (\<lambda>tasks_max.
      rbind (positive (mget v (u ''diskGrowthMaxBytes'')) MAX_MEMORY_BYTES) (\<lambda>disk_growth.
      rbind (positive (mget v (u ''timeoutSeconds'')) MAX_TIMEOUT_SECONDS) (\<lambda>timeout.
      rbind (positive (mget v (u ''maxConcurrentWorkloads'')) MAX_CONCURRENT) (\<lambda>concurrent.
      rbind (ensure (case (memory_high, memory_max) of (Some h, Some m) \<Rightarrow> h \<le> m | _ \<Rightarrow> True) policy_invalid) (\<lambda>_.
      Inr \<lparr>li_memory_max = memory_max, li_memory_high = memory_high, li_swap_max = swap_max,
        li_cpu_quota = cpu_quota, li_cpu_weight = weight, li_tasks_max = tasks_max, li_disk_growth = disk_growth,
        li_timeout = timeout, li_concurrent = concurrent,
        li_enforcement = (if enforcement = PStr (u ''none'') then u ''none'' else u ''cgroup2'')\<rparr>)))))))))))))"

definition opt_int :: "int option \<Rightarrow> pyval" where
  "opt_int i = (case i of None \<Rightarrow> PNone | Some n \<Rightarrow> PInt n)"

text \<open>What enters the hash of a requirement.\<close>

definition limits_value :: "limits \<Rightarrow> pyval" where
  "limits_value p = pdict [
     (u ''memoryMaxBytes'', opt_int (li_memory_max p)), (u ''memoryHighBytes'', opt_int (li_memory_high p)),
     (u ''memorySwapMaxBytes'', opt_int (li_swap_max p)), (u ''cpuQuotaPercent'', opt_int (li_cpu_quota p)),
     (u ''cpuWeight'', opt_int (li_cpu_weight p)), (u ''tasksMax'', opt_int (li_tasks_max p)),
     (u ''diskGrowthMaxBytes'', opt_int (li_disk_growth p)), (u ''timeoutSeconds'', opt_int (li_timeout p)),
     (u ''maxConcurrentWorkloads'', opt_int (li_concurrent p)), (u ''enforcement'', PStr (li_enforcement p))]"

definition unit_property :: "string \<Rightarrow> int option \<Rightarrow> string \<Rightarrow> pystr list" where
  "unit_property name value suffix =
     (case value of None \<Rightarrow> [] | Some i \<Rightarrow> [u name @ u ''='' @ int_repr i @ u suffix])"

definition unit_properties :: "limits \<Rightarrow> pystr list" where
  "unit_properties p =
     (if li_enforcement p \<noteq> u ''cgroup2'' then []
      else map u [''MemoryAccounting=yes'', ''CPUAccounting=yes'', ''TasksAccounting=yes'', ''IOAccounting=yes'']
        @ unit_property ''MemoryMax'' (li_memory_max p) '''' @ unit_property ''MemoryHigh'' (li_memory_high p) ''''
        @ unit_property ''MemorySwapMax'' (li_swap_max p) '''' @ unit_property ''CPUQuota'' (li_cpu_quota p) ''%''
        @ unit_property ''CPUWeight'' (li_cpu_weight p) '''' @ unit_property ''TasksMax'' (li_tasks_max p) '''')"

section \<open>The floors\<close>

record floors =
  fl_memory :: int
  fl_disk :: int
  fl_inodes :: int
  fl_pressure :: int

definition FLOOR_FIELDS :: "pystr list" where
  "FLOOR_FIELDS = map u [''minFreeMemoryBytes'', ''minFreeDiskBytes'', ''minFreeInodes'', ''maxMemoryPressureHundredths'']"

definition floor_field :: "(pyval \<times> pyval) list \<Rightarrow> string \<Rightarrow> int \<Rightarrow> int res" where
  "floor_field v name preset =
     (case (if mhas v (u name) then mget v (u name) else PInt preset) of
        PInt i \<Rightarrow> rbind (ensure (0 \<le> i) policy_invalid) (\<lambda>_. Inr i)
      | _ \<Rightarrow> Inl policy_invalid)"

definition floors_of :: "(pyval \<times> pyval) list option \<Rightarrow> floors res" where
  "floors_of mapping =
     (let v = (case mapping of None \<Rightarrow> [] | Some m \<Rightarrow> m) in
      rbind (ensure (set (dkeys v) \<subseteq> PStr ` set FLOOR_FIELDS) policy_invalid) (\<lambda>_.
      rbind (floor_field v ''maxMemoryPressureHundredths'' 5000) (\<lambda>pressure.
      rbind (ensure (pressure \<le> 10000) policy_invalid) (\<lambda>_.
      rbind (floor_field v ''minFreeMemoryBytes'' (2 * GIB)) (\<lambda>memory.
      rbind (floor_field v ''minFreeDiskBytes'' (2 * GIB)) (\<lambda>disk.
      rbind (floor_field v ''minFreeInodes'' 10000) (\<lambda>nodes.
      Inr \<lparr>fl_memory = memory, fl_disk = disk, fl_inodes = nodes, fl_pressure = pressure\<rparr>)))))))"

section \<open>The machine\<close>

fun lines_from :: "pystr \<Rightarrow> pystr \<Rightarrow> pystr list" where
  "lines_from w [] = (if w = [] then [] else [w])"
| "lines_from w (c # s) =
     (if c \<in> {10, 11, 12, 28, 29, 30} then w # lines_from [] s
      else if c = 13 then w # lines_from [] (drop (if take 1 s = [10] then 1 else 0) s)
      else lines_from (w @ [c]) s)"

definition partition_at :: "nat \<Rightarrow> pystr \<Rightarrow> (pystr \<times> pystr) option" where
  "partition_at c s = (if c \<in> set s then Some (takeWhile (\<lambda>x. x \<noteq> c) s, tl (dropWhile (\<lambda>x. x \<noteq> c) s)) else None)"

definition number_text :: "pystr \<Rightarrow> int option" where
  "number_text s = (if s \<noteq> [] \<and> list_all is_digit s then Some (int (digits_val s)) else None)"

definition meminfo_line :: "pystr \<Rightarrow> (pystr \<times> int) list \<Rightarrow> (pystr \<times> int) list" where
  "meminfo_line line values =
     (case partition_at 58 line of
        None \<Rightarrow> values
      | Some (name, rest) \<Rightarrow> (case py_words rest of
          [] \<Rightarrow> values
        | w # ws \<Rightarrow> (case number_text w of
            None \<Rightarrow> values
          | Some n \<Rightarrow> dset name (if ws \<noteq> [] \<and> hd ws = u ''kB'' then n * 1024 else n) values)))"

definition read_meminfo :: "pystr \<Rightarrow> (pystr \<times> int) list res" where
  "read_meminfo text =
     (let values = fold meminfo_line (lines_from [] text) [] in
      rbind (ensure (dget values (u ''MemTotal'') \<noteq> None \<and> dget values (u ''MemAvailable'') \<noteq> None) ValueError)
        (\<lambda>_. Inr values))"

text \<open>
  \<open>percent\<close> reads a float as hundredths of a percent, \<open>None\<close> for what is not a percentage.
\<close>

definition pressure_item ::
    "(pystr \<Rightarrow> int option) \<Rightarrow> pystr \<Rightarrow> pystr \<Rightarrow> (pystr \<times> int) list \<Rightarrow> (pystr \<times> int) list res" where
  "pressure_item percent kind item values =
     (case partition_at 61 item of
        None \<Rightarrow> Inr values
      | Some (key, raw) \<Rightarrow>
          if prefixed key (u ''avg'')
          then rbind (req ValueError (percent raw)) (\<lambda>n. Inr (dset (kind @ u ''.'' @ key) n values))
          else Inr values)"

definition pressure_line ::
    "(pystr \<Rightarrow> int option) \<Rightarrow> pystr \<Rightarrow> (pystr \<times> int) list \<Rightarrow> (pystr \<times> int) list res" where
  "pressure_line percent line values =
     (case py_words line of
        [] \<Rightarrow> Inr values
      | kind # items \<Rightarrow>
          if kind \<in> {u ''some'', u ''full''} then rfold (pressure_item percent kind) items values else Inr values)"

definition read_pressure :: "(pystr \<Rightarrow> int option) \<Rightarrow> pystr \<Rightarrow> int res" where
  "read_pressure percent text =
     rbind (rfold (pressure_line percent) (lines_from [] text) []) (\<lambda>values.
     req ValueError (dget values (u ''some.avg10'')))"

record disk =
  dk_free :: int
  dk_inodes :: int
  dk_total :: int

record measures =
  ms_total :: int
  ms_available :: int
  ms_swap :: "int option"
  ms_memory :: "int option"
  ms_cpu :: "int option"
  ms_io :: "int option"
  ms_disk :: "(pystr \<times> disk) list"

datatype machine = Unobserved | Observed measures

datatype 'a host_file = Absent | Broken | Content 'a

record host =
  ho_meminfo :: "pystr host_file"
  ho_pressure :: "string \<Rightarrow> pystr host_file"
  ho_percent :: "pystr \<Rightarrow> int option"
  ho_disks :: "(pystr \<times> disk option) list"

definition pressure_of :: "host \<Rightarrow> string \<Rightarrow> int option option" where
  "pressure_of h name =
     (case ho_pressure h name of
        Absent \<Rightarrow> if name = ''memory'' then None else Some None
      | Broken \<Rightarrow> None
      | Content text \<Rightarrow> (case read_pressure (ho_percent h) text of Inl _ \<Rightarrow> None | Inr n \<Rightarrow> Some (Some n)))"

definition observe :: "host \<Rightarrow> machine" where
  "observe h =
     (case ho_meminfo h of
        Content text \<Rightarrow> (case read_meminfo text of
            Inl _ \<Rightarrow> Unobserved
          | Inr values \<Rightarrow>
              let total = the (dget values (u ''MemTotal'')); available = the (dget values (u ''MemAvailable'')) in
              if total \<le> 0 \<or> available < 0 \<or> total < available then Unobserved
              else (case (pressure_of h ''memory'', pressure_of h ''cpu'', pressure_of h ''io'') of
                  (Some m, Some c, Some i) \<Rightarrow>
                    if list_ex (\<lambda>(_, d). d = None) (ho_disks h) then Unobserved
                    else Observed \<lparr>ms_total = total, ms_available = available, ms_swap = dget values (u ''SwapFree''),
                        ms_memory = m, ms_cpu = c, ms_io = i, ms_disk = map (\<lambda>(n, d). (n, the d)) (ho_disks h)\<rparr>
                | _ \<Rightarrow> Unobserved))
      | _ \<Rightarrow> Unobserved)"

section \<open>The ledger of reservations\<close>

text \<open>
  The ledger is one JSON file, replaced as a whole under an exclusive lock: what reading and decoding it
  gives is its state. \<open>int()\<close> of a text or of a float is \<open>conv\<close>, \<open>None\<close> where it raises.
\<close>

record reservation =
  rs_id :: pystr
  rs_workload :: pystr
  rs_unit :: "pystr option"
  rs_memory :: int
  rs_tasks :: int
  rs_created :: int
  rs_owner :: int

datatype ledger = Missing | Unreadable | Document pyval

type_synonym 'a lact = "(ledger, 'a) act"

definition reservation_value :: "reservation \<Rightarrow> pyval" where
  "reservation_value r = pdict [(u ''reservationId'', PStr (rs_id r)), (u ''workload'', PStr (rs_workload r)),
     (u ''unit'', opt_str (rs_unit r)), (u ''memoryBytes'', PInt (rs_memory r)), (u ''tasks'', PInt (rs_tasks r)),
     (u ''createdAtMs'', PInt (rs_created r)), (u ''ownerPid'', PInt (rs_owner r))]"

definition py_int :: "(pyval \<Rightarrow> int option) \<Rightarrow> pyval \<Rightarrow> int res" where
  "py_int conv v = (case v of
       PInt i \<Rightarrow> Inr i
     | PBool b \<Rightarrow> Inr (if b then 1 else 0)
     | PStr _ \<Rightarrow> req ValueError (conv v)
     | PFloat _ \<Rightarrow> req ValueError (conv v)
     | _ \<Rightarrow> Inl TypeError)"

definition reservation_of :: "(pyval \<Rightarrow> int option) \<Rightarrow> pyval \<Rightarrow> reservation res" where
  "reservation_of conv v =
     rbind (pitem v (u ''reservationId'')) (\<lambda>i.
     rbind (pget v (u ''workload'') (PStr [])) (\<lambda>workload.
     rbind (pget v (u ''unit'') PNone) (\<lambda>unit.
     rbind (rbind (pget v (u ''memoryBytes'') (PInt 0)) (py_int conv)) (\<lambda>memory.
     rbind (rbind (pget v (u ''tasks'') (PInt 0)) (py_int conv)) (\<lambda>tasks.
     rbind (rbind (pget v (u ''createdAtMs'') (PInt 0)) (py_int conv)) (\<lambda>created.
     rbind (rbind (pget v (u ''ownerPid'') (PInt 0)) (py_int conv)) (\<lambda>owner.
     rbind (case unit of PNone \<Rightarrow> Inr None | PStr t \<Rightarrow> Inr (Some t) | _ \<Rightarrow> Inl TypeError) (\<lambda>unit.
     Inr \<lparr>rs_id = py_str i, rs_workload = py_str workload, rs_unit = unit, rs_memory = memory, rs_tasks = tasks,
       rs_created = created, rs_owner = owner\<rparr>))))))))"

definition plausible :: "reservation \<Rightarrow> bool" where
  "plausible r \<longleftrightarrow> 0 \<le> rs_memory r \<and> 0 \<le> rs_tasks r \<and> rs_memory r \<le> MAX_MEMORY_BYTES"

definition ledger_entry :: "(pyval \<Rightarrow> int option) \<Rightarrow> pyval \<Rightarrow> reservation res" where
  "ledger_entry conv v =
     (case reservation_of conv v of
        Inl _ \<Rightarrow> Inl state_unknown
      | Inr r \<Rightarrow> rbind (ensure (plausible r) state_unknown) (\<lambda>_. Inr r))"

definition load_ledger :: "(pyval \<Rightarrow> int option) \<Rightarrow> ledger \<Rightarrow> reservation list res" where
  "load_ledger conv f =
     (case f of
        Missing \<Rightarrow> Inr []
      | Unreadable \<Rightarrow> Inl state_unknown
      | Document raw \<Rightarrow>
          rbind (req state_unknown (as_map raw)) (\<lambda>m.
          case mget m (u ''reservations'') of
            PList items \<Rightarrow>
              rbind (rmap (ledger_entry conv) items) (\<lambda>rs.
              rbind (ensure (distinct (map rs_id rs)) state_unknown) (\<lambda>_. Inr rs))
          | _ \<Rightarrow> Inl state_unknown))"

definition store_ledger :: "int \<Rightarrow> reservation list \<Rightarrow> unit lact" where
  "store_ledger now rs = modify (\<lambda>_. Document (pdict [(u ''schemaVersion'', PInt 1), (u ''updatedAtMs'', PInt now),
     (u ''reservations'', PList (map reservation_value rs))]))"

definition outstanding :: "(pyval \<Rightarrow> int option) \<Rightarrow> reservation list lact" where
  "outstanding conv = sbind (gets (load_ledger conv)) lift"

definition add_reservation :: "(pyval \<Rightarrow> int option) \<Rightarrow> int \<Rightarrow> reservation \<Rightarrow> unit lact" where
  "add_reservation conv now r = sbind (outstanding conv) (\<lambda>rs. store_ledger now (rs @ [r]))"

definition release_reservation :: "(pyval \<Rightarrow> int option) \<Rightarrow> int \<Rightarrow> pystr \<Rightarrow> bool lact" where
  "release_reservation conv now i =
     sbind (outstanding conv) (\<lambda>rs.
     let remaining = filter (\<lambda>r. rs_id r \<noteq> i) rs in
     if length remaining = length rs then ret False
     else sbind (store_ledger now remaining) (\<lambda>_. ret True))"

definition attach_unit :: "(pyval \<Rightarrow> int option) \<Rightarrow> int \<Rightarrow> pystr \<Rightarrow> pystr \<Rightarrow> unit lact" where
  "attach_unit conv now i unit =
     sbind (sensure (unit \<noteq> [] \<and> 10 \<notin> set unit \<and> 47 \<notin> set unit) policy_invalid) (\<lambda>_.
     sbind (outstanding conv) (\<lambda>rs.
     store_ledger now (map (\<lambda>r. if rs_id r = i then r\<lparr>rs_unit := Some unit\<rparr> else r) rs)))"

text \<open>Three answers: \<open>None\<close> is a manager that could not tell, and an exception counts as that.\<close>

definition gone :: "(reservation \<Rightarrow> bool option res) \<Rightarrow> reservation \<Rightarrow> bool" where
  "gone is_live r \<longleftrightarrow> is_live r = Inr (Some False)"

definition reconcile_ledger ::
    "(pyval \<Rightarrow> int option) \<Rightarrow> int \<Rightarrow> (reservation \<Rightarrow> bool option res) \<Rightarrow> reservation list lact" where
  "reconcile_ledger conv now is_live =
     sbind (outstanding conv) (\<lambda>rs.
     let dropped = filter (gone is_live) rs; live = filter (\<lambda>r. r \<notin> set dropped) rs in
     sbind (if dropped \<noteq> [] then store_ledger now live else ret ()) (\<lambda>_. ret dropped))"

section \<open>The decision\<close>

record authority =
  au_machine :: machine
  au_floors :: floors
  au_usage :: "reservation \<Rightarrow> int option res"
  au_live :: "reservation \<Rightarrow> bool option res"
  au_conv :: "pyval \<Rightarrow> int option"
  au_now :: int
  au_pid :: int

datatype admission_outcome = Admitted pystr | Unavailable | State_Unknown | Policy_Invalid

record arithmetic =
  ar_requested :: int
  ar_available :: int
  ar_withheld :: int
  ar_floor :: int
  ar_headroom :: int
  ar_count :: nat
  ar_accounted :: bool

record admission =
  ad_outcome :: admission_outcome
  ad_arithmetic :: "arithmetic option"

definition withheld_of :: "authority \<Rightarrow> reservation \<Rightarrow> int res" where
  "withheld_of a r =
     rbind (au_usage a r) (\<lambda>used. Inr (case used of None \<Rightarrow> rs_memory r | Some n \<Rightarrow> max 0 (rs_memory r - n)))"

definition outstanding_withheld :: "authority \<Rightarrow> reservation list \<Rightarrow> int res" where
  "outstanding_withheld a rs = rbind (rmap (withheld_of a) rs) (\<lambda>ws. Inr (sum_list ws))"

text \<open>The appetite: \<open>None\<close> is a request that cannot be; a request without any ceiling reserves nothing.\<close>

definition declared_ceiling :: "limits \<Rightarrow> int option" where
  "declared_ceiling p = (case li_memory_max p of Some m \<Rightarrow> Some m | None \<Rightarrow> li_memory_high p)"

definition unmetered :: "limits \<Rightarrow> int option \<Rightarrow> bool" where
  "unmetered p requested \<longleftrightarrow> requested = None \<and> declared_ceiling p = None"

definition request_bytes :: "limits \<Rightarrow> int option \<Rightarrow> int option" where
  "request_bytes p requested =
     (case (requested, declared_ceiling p) of
        (None, None) \<Rightarrow> Some 0
      | (Some n, _) \<Rightarrow> if 0 < n \<and> n \<le> MAX_MEMORY_BYTES then Some n else None
      | (None, Some n) \<Rightarrow> if 0 < n \<and> n \<le> MAX_MEMORY_BYTES then Some n else None)"

definition not_gone :: "authority \<Rightarrow> reservation list \<Rightarrow> reservation list res" where
  "not_gone a rs =
     rbind (rmap (\<lambda>r. rbind (au_live a r) (\<lambda>l. Inr (r, l \<noteq> Some False))) rs) (\<lambda>marked.
     Inr (map fst (filter snd marked)))"

definition arithmetic_of :: "authority \<Rightarrow> limits \<Rightarrow> int option \<Rightarrow> int \<Rightarrow> int \<Rightarrow> reservation list \<Rightarrow> int \<Rightarrow> arithmetic" where
  "arithmetic_of a p requested n available current withheld =
     \<lparr>ar_requested = n, ar_available = available, ar_withheld = withheld, ar_floor = fl_memory (au_floors a),
      ar_headroom = available - withheld - fl_memory (au_floors a), ar_count = length current,
      ar_accounted = (\<not> unmetered p requested)\<rparr>"

definition gates_open :: "authority \<Rightarrow> limits \<Rightarrow> measures \<Rightarrow> arithmetic \<Rightarrow> bool" where
  "gates_open a p m x \<longleftrightarrow>
     (case li_concurrent p of None \<Rightarrow> True | Some limit \<Rightarrow> int (ar_count x) < limit)
     \<and> (case ms_memory m of None \<Rightarrow> True | Some h \<Rightarrow> h \<le> fl_pressure (au_floors a))
     \<and> list_all (\<lambda>(_, d). fl_disk (au_floors a) \<le> dk_free d \<and> fl_inodes (au_floors a) \<le> dk_inodes d) (ms_disk m)
     \<and> ar_requested x \<le> ar_headroom x"

definition admit :: "authority \<Rightarrow> pystr \<Rightarrow> pystr \<Rightarrow> limits \<Rightarrow> int option \<Rightarrow> admission lact" where
  "admit a uuid workload p requested =
     (if workload = [] then ret \<lparr>ad_outcome = Policy_Invalid, ad_arithmetic = None\<rparr>
      else case request_bytes p requested of
        None \<Rightarrow> ret \<lparr>ad_outcome = Policy_Invalid, ad_arithmetic = None\<rparr>
      | Some n \<Rightarrow> (case au_machine a of
          Unobserved \<Rightarrow> ret \<lparr>ad_outcome = State_Unknown, ad_arithmetic = None\<rparr>
        | Observed m \<Rightarrow>
            sbind (gets (load_ledger (au_conv a))) (\<lambda>loaded. case loaded of
              Inl _ \<Rightarrow> ret \<lparr>ad_outcome = State_Unknown, ad_arithmetic = None\<rparr>
            | Inr rs \<Rightarrow>
                sbind (lift (not_gone a rs)) (\<lambda>current.
                sbind (lift (outstanding_withheld a current)) (\<lambda>withheld.
                let x = arithmetic_of a p requested n (ms_available m) current withheld in
                if \<not> gates_open a p m x then ret \<lparr>ad_outcome = Unavailable, ad_arithmetic = Some x\<rparr>
                else
                  sbind (store_ledger (au_now a) (rs @ [\<lparr>rs_id = uuid, rs_workload = workload, rs_unit = None,
                    rs_memory = n, rs_tasks = (case li_tasks_max p of None \<Rightarrow> 0 | Some k \<Rightarrow> k),
                    rs_created = au_now a, rs_owner = au_pid a\<rparr>])) (\<lambda>_.
                  ret \<lparr>ad_outcome = Admitted uuid, ad_arithmetic = Some x\<rparr>))))))"

definition refusal_code :: "admission_outcome \<Rightarrow> string" where
  "refusal_code x = (case x of Admitted _ \<Rightarrow> ''ADMITTED'' | Unavailable \<Rightarrow> ''RESOURCES_UNAVAILABLE''
     | State_Unknown \<Rightarrow> ''RESOURCE_STATE_UNKNOWN'' | Policy_Invalid \<Rightarrow> ''RESOURCE_POLICY_INVALID'')"

text \<open>\<open>with gate.guard(...)\<close>: the reservation is there before the workload and is released on every exit.\<close>

definition with_finally :: "('s, 'a) act \<Rightarrow> ('s, 'b) act \<Rightarrow> ('s, 'a) act" where
  "with_finally m c s = (case m s of (r, t) \<Rightarrow> (case c t of (Inl e, v) \<Rightarrow> (Inl e, v) | (Inr _, v) \<Rightarrow> (r, v)))"

definition guarded_workload ::
    "authority \<Rightarrow> pystr \<Rightarrow> pystr \<Rightarrow> limits \<Rightarrow> int option \<Rightarrow> (pystr \<Rightarrow> 'a lact) \<Rightarrow> 'a lact" where
  "guarded_workload a uuid workload p requested body =
     sbind (admit a uuid workload p requested) (\<lambda>d. case ad_outcome d of
       Admitted i \<Rightarrow> with_finally (body i) (release_reservation (au_conv a) (au_now a) i)
     | refused \<Rightarrow> raise (WL (refusal_code refused)))"

section \<open>The report\<close>

record admission_report =
  rp_withheld :: int
  rp_headroom :: "int option"
  rp_ledger_error :: bool
  rp_unmetered :: bool
  rp_enforced :: bool
  rp_would_admit :: "bool option"

definition or_zero :: "int option \<Rightarrow> int" where
  "or_zero i = (case i of None \<Rightarrow> 0 | Some n \<Rightarrow> n)"

definition report :: "authority \<Rightarrow> limits \<Rightarrow> ledger \<Rightarrow> admission_report res" where
  "report a p f =
     (let loaded = load_ledger (au_conv a) f;
          broken = (case loaded of Inl _ \<Rightarrow> True | Inr _ \<Rightarrow> False);
          current = (case loaded of Inl _ \<Rightarrow> [] | Inr rs \<Rightarrow> rs)
      in
      rbind (outstanding_withheld a current) (\<lambda>withheld.
      let headroom = (case au_machine a of Unobserved \<Rightarrow> None
            | Observed m \<Rightarrow> Some (ms_available m - withheld - fl_memory (au_floors a)));
          asked = (if or_zero (li_memory_max p) \<noteq> 0 then or_zero (li_memory_max p) else or_zero (li_memory_high p))
      in Inr \<lparr>rp_withheld = withheld, rp_headroom = headroom, rp_ledger_error = broken,
        rp_unmetered = (li_memory_max p = None \<and> li_memory_high p = None),
        rp_enforced = (li_enforcement p = u ''cgroup2'' \<and> unit_properties p \<noteq> []),
        rp_would_admit = (if broken then None else map_option (\<lambda>h. asked \<le> h) headroom)\<rparr>))"

section \<open>What the service manager answers\<close>

text \<open>
  \<open>_reservation_is_live\<close> and \<open>_reservation_usage\<close> of \<open>controller.py\<close>: \<open>metadata\<close> and \<open>telemetry\<close> are the
  answers of the manager about a unit.
\<close>

definition reservation_is_live ::
    "(pystr \<Rightarrow> (pyval \<times> pyval) list res) \<Rightarrow> reservation \<Rightarrow> bool option res" where
  "reservation_is_live metadata r =
     (case rs_unit r of
        None \<Rightarrow> Inr (Some True)
      | Some unit \<Rightarrow>
          if unit = [] then Inr (Some True)
          else (case metadata unit of
              Inl (WL _) \<Rightarrow> Inr None
            | Inl e \<Rightarrow> Inl e
            | Inr m \<Rightarrow>
                if mget m (u ''state'') \<noteq> PStr (u ''CAPTURED'') \<or> \<not> truthy (mget m (u ''ActiveState'')) then Inr None
                else Inr (Some (mget m (u ''ActiveState'')
                       \<in> (PStr \<circ> u) ` {''active'', ''activating'', ''reloading'', ''deactivating''}))))"

definition reservation_usage ::
    "(pystr \<Rightarrow> (pyval \<times> pyval) list res) \<Rightarrow> reservation \<Rightarrow> int option res" where
  "reservation_usage telemetry r =
     (case rs_unit r of
        None \<Rightarrow> Inr None
      | Some unit \<Rightarrow>
          if unit = [] then Inr None
          else rbind (telemetry unit) (\<lambda>reading.
               if mget reading (u ''state'') \<noteq> PStr (u ''OBSERVED'') then Inr None
               else (case mget reading (u ''currentMemoryBytes'') of PInt n \<Rightarrow> Inr (Some n) | PNone \<Rightarrow> Inr None
                     | _ \<Rightarrow> Inl TypeError)))"

end
