(* ===== verification/Admission_Laws.thy ===== *)
theory Admission_Laws
  imports Admission
begin

text \<open>
  The ledger reads back what was written, so its operations are operations on a list of reservations; no
  sequence of them promises more memory than the machine has above the floor.
\<close>

section \<open>A file that holds a list\<close>

text \<open>
  What the operations need of the file: what was written reads back, and what reads is well formed.
\<close>

locale list_file =
  fixes read :: "'f \<Rightarrow> 'r list res" and save :: "int \<Rightarrow> 'r list \<Rightarrow> ('f, unit) act" and good :: "'r list \<Rightarrow> bool"
  assumes read_good: "read f = Inr rs \<Longrightarrow> good rs"
    and save_total: "\<exists>g. save now rs f = (Inr (), g)"
    and read_save: "good rs \<Longrightarrow> save now rs f = (Inr (), g) \<Longrightarrow> read g = Inr rs"
begin

lemma rewrite:
  assumes "read f = Inr rs" and "good rs \<Longrightarrow> good (h rs)"
  obtains g where "sbind (sbind (gets read) lift) (\<lambda>rs. save now (h rs)) f = (Inr (), g)" and "read g = Inr (h rs)"
proof -
  obtain g where g: "save now (h rs) f = (Inr (), g)" using save_total by blast
  moreover have "read g = Inr (h rs)" using read_save [OF _ g] assms read_good by blast
  ultimately show ?thesis using that assms(1) by (simp add: sbind_def gets_def lift_def)
qed

lemma unread: "read f = Inl e \<Longrightarrow> sbind (sbind (gets read) lift) k f = (Inl e, f)"
  by (simp add: sbind_def gets_def lift_def)

lemma read_then: "read f = Inr rs \<Longrightarrow> sbind (sbind (gets read) lift) k f = k rs f"
  by (simp add: sbind_def gets_def lift_def)

end

section \<open>The ledger\<close>

definition good_ledger :: "reservation list \<Rightarrow> bool" where
  "good_ledger rs \<longleftrightarrow> list_all plausible rs \<and> distinct (map rs_id rs)"

lemma reservation_roundtrip: "reservation_of conv (reservation_value r) = Inr r"
  by (cases r) (simp add: reservation_of_def reservation_value_def pitem_def pget_def py_int_def opt_str_def
      split: option.splits)

lemma ledger_entry_value: "plausible r \<Longrightarrow> ledger_entry conv (reservation_value r) = Inr r"
  by (simp add: ledger_entry_def reservation_roundtrip)

lemma ledger_entry_plausible: "ledger_entry conv v = Inr r \<Longrightarrow> plausible r"
  by (auto simp: ledger_entry_def rbind_Inr_iff ensure_Inr_iff split: sum.splits)

lemma load_good: "load_ledger conv f = Inr rs \<Longrightarrow> good_ledger rs"
proof (cases f)
  case (Document raw)
  assume "load_ledger conv f = Inr rs"
  then obtain m where m: "as_map raw = Some m" "(case mget m (u ''reservations'') of
      PList items \<Rightarrow> rbind (rmap (ledger_entry conv) items) (\<lambda>rs.
        rbind (ensure (distinct (map rs_id rs)) state_unknown) (\<lambda>_. Inr rs))
    | _ \<Rightarrow> Inl state_unknown) = Inr rs"
    unfolding Document load_ledger_def ledger.case by (auto simp: res_iffs)
  then obtain items where "rmap (ledger_entry conv) items = Inr rs" "distinct (map rs_id rs)"
    by (cases "mget m (u ''reservations'')") (auto simp: res_iffs)
  moreover from this(1) have "list_all plausible rs"
    by (induction items arbitrary: rs) (auto simp: res_iffs dest: ledger_entry_plausible)
  ultimately show ?thesis by (simp add: good_ledger_def)
qed (auto simp: load_ledger_def good_ledger_def)

lemma load_stored:
  assumes "good_ledger rs" and "store_ledger now rs f = (Inr (), g)"
  shows "load_ledger conv g = Inr rs"
proof -
  have entries: "rmap (ledger_entry conv) (map reservation_value rs) = Inr rs"
    using assms(1) unfolding good_ledger_def by (induction rs) (auto simp: ledger_entry_value)
  have g: "g = Document (pdict [(u ''schemaVersion'', PInt 1), (u ''updatedAtMs'', PInt now),
     (u ''reservations'', PList (map reservation_value rs))])"
    using assms(2) by (simp add: store_ledger_def modify_def)
  show ?thesis using entries assms(1) unfolding g
    by (simp add: load_ledger_def as_map_def mget_def good_ledger_def)
qed

interpretation ledger: list_file "load_ledger conv" store_ledger good_ledger
proof
  show "good_ledger rs" if "load_ledger conv f = Inr rs" for f rs using that by (rule load_good)
  show "\<exists>g. store_ledger now rs f = (Inr (), g)" for now rs f by (simp add: store_ledger_def modify_def)
  show "load_ledger conv g = Inr rs" if "good_ledger rs" "store_ledger now rs f = (Inr (), g)" for now rs f g
    using that by (rule load_stored)
qed

lemma good_filter: "good_ledger rs \<Longrightarrow> good_ledger (filter P rs)"
  by (auto simp: good_ledger_def list_all_iff distinct_map_filter)

lemma good_map: "(\<And>r. rs_id (h r) = rs_id r \<and> rs_memory (h r) = rs_memory r \<and> rs_tasks (h r) = rs_tasks r)
    \<Longrightarrow> good_ledger rs \<Longrightarrow> good_ledger (map h rs)"
  by (auto simp: good_ledger_def list_all_iff plausible_def comp_def)

lemma release_run:
  assumes "load_ledger conv f = Inr rs"
  obtains g where "release_reservation conv now i f = (Inr (i \<in> rs_id ` set rs), g)"
    and "load_ledger conv g = Inr (filter (\<lambda>r. rs_id r \<noteq> i) rs)"
proof -
  let ?rest = "filter (\<lambda>r. rs_id r \<noteq> i) rs"
  have run: "release_reservation conv now i f
      = (if length ?rest = length rs then (Inr False, f) else sbind (store_ledger now ?rest) (\<lambda>_. ret True) f)"
    unfolding release_reservation_def outstanding_def ledger.read_then [OF assms] by (simp add: Let_def ret_def)
  show ?thesis
  proof (cases "i \<in> rs_id ` set rs")
    case True
    then obtain r where "r \<in> set rs" "\<not> rs_id r \<noteq> i" by auto
    then have "length ?rest < length rs" by (rule length_filter_less)
    then have shorter: "length ?rest \<noteq> length rs" by simp
    obtain g where g: "store_ledger now ?rest f = (Inr (), g)" using ledger.save_total by blast
    have "load_ledger conv g = Inr ?rest"
      using load_stored [OF good_filter [OF load_good [OF assms]] g] .
    then show ?thesis using that [of g] run shorter True g by (simp add: ret_def)
  next
    case False
    then have same: "?rest = rs" by (auto simp: filter_id_conv)
    then show ?thesis using that [of f] run assms False by simp
  qed
qed

lemma attach_run:
  assumes "load_ledger conv f = Inr rs" and "attach_unit conv now i unit f = (x, g)"
  shows "x = Inl policy_invalid \<and> g = f \<or> load_ledger conv g
    = Inr (map (\<lambda>r. if rs_id r = i then r\<lparr>rs_unit := Some unit\<rparr> else r) rs)"
proof (cases "unit \<noteq> [] \<and> 10 \<notin> set unit \<and> 47 \<notin> set unit")
  case True
  let ?h = "map (\<lambda>r. if rs_id r = i then r\<lparr>rs_unit := Some unit\<rparr> else r)"
  have "good_ledger (?h rs)" by (rule good_map [OF _ load_good [OF assms(1)]]) simp
  then obtain v where v: "sbind (sbind (gets (load_ledger conv)) lift) (\<lambda>rs. store_ledger now (?h rs)) f = (Inr (), v)"
      "load_ledger conv v = Inr (?h rs)"
    using ledger.rewrite [OF assms(1), of ?h] by blast
  then have "v = g" using assms(2) True by (simp add: attach_unit_def outstanding_def run_sensure)
  then show ?thesis using v(2) by simp
next
  case False
  then show ?thesis using assms(2) by (auto simp: attach_unit_def run_sensure)
qed

lemma reconcile_run:
  assumes "load_ledger conv f = Inr rs"
  obtains g where "reconcile_ledger conv now is_live f = (Inr (filter (gone is_live) rs), g)"
    and "load_ledger conv g = Inr (filter (\<lambda>r. \<not> gone is_live r) rs)"
proof -
  let ?kept = "filter (\<lambda>r. \<not> gone is_live r) rs"
  have kept: "filter (\<lambda>r. r \<notin> set (filter (gone is_live) rs)) rs = ?kept" by (rule filter_cong) auto
  have run: "reconcile_ledger conv now is_live f = sbind (if filter (gone is_live) rs \<noteq> [] then store_ledger now ?kept
      else ret ()) (\<lambda>_. ret (filter (gone is_live) rs)) f"
    unfolding reconcile_ledger_def outstanding_def ledger.read_then [OF assms] Let_def kept ..
  show ?thesis
  proof (cases "filter (gone is_live) rs = []")
    case True
    then have "?kept = rs" by (auto simp: filter_empty_conv filter_id_conv)
    then show ?thesis using that [of f] run assms True by (simp add: run_ret ret_def)
  next
    case False
    obtain g where g: "store_ledger now ?kept f = (Inr (), g)" using ledger.save_total by blast
    have "load_ledger conv g = Inr ?kept"
      using load_stored [OF good_filter [OF load_good [OF assms]] g] .
    then show ?thesis using that [of g] run False g by (simp add: ret_def)
  qed
qed

lemma unreadable_unmoved:
  assumes "load_ledger conv f = Inl e"
  shows "release_reservation conv now i f = (Inl e, f)" and "reconcile_ledger conv now is_live f = (Inl e, f)"
  using ledger.unread [OF assms] by (simp_all add: release_reservation_def reconcile_ledger_def outstanding_def)

end
