(* ===== verification/Admission_Claims.thy ===== *)
theory Admission_Claims
  imports Admission_Laws
begin

text \<open>
  What admission promises: limits in range, no memory promised twice, a reservation released on every
  exit, and a reconciliation that drops only what is known to be gone.
\<close>

section \<open>Limits\<close>

lemma positive_Inr: "positive v c = Inr x \<longleftrightarrow> v = PNone \<and> x = None \<or> (\<exists>i. v = PInt i \<and> x = Some i \<and> 0 < i \<and> i \<le> c)"
  by (cases v) (auto simp: positive_def res_iffs)

definition within :: "int \<Rightarrow> int option \<Rightarrow> bool" where
  "within c x \<longleftrightarrow> (case x of None \<Rightarrow> True | Some i \<Rightarrow> 0 < i \<and> i \<le> c)"

lemma positive_within: "positive v c = Inr x \<Longrightarrow> within c x"
  by (auto simp: positive_Inr within_def)

lemma limits_read:
  assumes "limits_of mapping = Inr p"
  shows "list_all (within MAX_MEMORY_BYTES) [li_memory_max p, li_memory_high p, li_swap_max p, li_disk_growth p]
      \<and> within 409600 (li_cpu_quota p) \<and> within 10000 (li_cpu_weight p) \<and> within MAX_TASKS (li_tasks_max p)
      \<and> within MAX_TIMEOUT_SECONDS (li_timeout p) \<and> within MAX_CONCURRENT (li_concurrent p)"
    and "(case (li_memory_high p, li_memory_max p) of (Some h, Some m) \<Rightarrow> h \<le> m | _ \<Rightarrow> True)
      \<and> li_enforcement p \<in> {u ''cgroup2'', u ''none''}"
proof -
  obtain weight memory_max memory_high swap_max cpu_quota tasks_max disk_growth timeout concurrent enforcement where
    read: "within 10000 weight" "within MAX_MEMORY_BYTES memory_max" "within MAX_MEMORY_BYTES memory_high"
      "within MAX_MEMORY_BYTES swap_max" "within (100 * 4096) cpu_quota" "within MAX_TASKS tasks_max"
      "within MAX_MEMORY_BYTES disk_growth" "within MAX_TIMEOUT_SECONDS timeout" "within MAX_CONCURRENT concurrent"
    and order: "case (memory_high, memory_max) of (Some h, Some m) \<Rightarrow> h \<le> m | _ \<Rightarrow> True"
    and p: "p = \<lparr>li_memory_max = memory_max, li_memory_high = memory_high, li_swap_max = swap_max,
        li_cpu_quota = cpu_quota, li_cpu_weight = weight, li_tasks_max = tasks_max, li_disk_growth = disk_growth,
        li_timeout = timeout, li_concurrent = concurrent,
        li_enforcement = (if enforcement = PStr (u ''none'') then u ''none'' else u ''cgroup2'')\<rparr>"
    using assms unfolding limits_of_def Let_def rbind_Inr_iff sum.inject
    by (elim exE conjE) (drule positive_within, drule positive_within, drule positive_within, drule positive_within,
      drule positive_within, drule positive_within, drule positive_within, drule positive_within,
      drule positive_within, simp only: ensure_Inr_iff, blast)
  show "list_all (within MAX_MEMORY_BYTES) [li_memory_max p, li_memory_high p, li_swap_max p, li_disk_growth p]
      \<and> within 409600 (li_cpu_quota p) \<and> within 10000 (li_cpu_weight p) \<and> within MAX_TASKS (li_tasks_max p)
      \<and> within MAX_TIMEOUT_SECONDS (li_timeout p) \<and> within MAX_CONCURRENT (li_concurrent p)"
    using read unfolding p by simp
  show "(case (li_memory_high p, li_memory_max p) of (Some h, Some m) \<Rightarrow> h \<le> m | _ \<Rightarrow> True)
      \<and> li_enforcement p \<in> {u ''cgroup2'', u ''none''}"
    using order unfolding p by simp
qed

text \<open>
  Limits that were accepted are in range: each one is absent or positive and at most its ceiling, the
  high watermark is not above the maximum, and the enforcement is one of the two known ones.
\<close>
theorem accepted_limits_in_range:
  assumes "limits_of mapping = Inr p"
  shows "list_all (within MAX_MEMORY_BYTES) [li_memory_max p, li_memory_high p, li_swap_max p, li_disk_growth p]
    \<and> within 409600 (li_cpu_quota p) \<and> within 10000 (li_cpu_weight p) \<and> within MAX_TASKS (li_tasks_max p)
    \<and> within MAX_TIMEOUT_SECONDS (li_timeout p) \<and> within MAX_CONCURRENT (li_concurrent p)
    \<and> (\<forall>h m. li_memory_high p = Some h \<and> li_memory_max p = Some m \<longrightarrow> h \<le> m)
    \<and> li_enforcement p \<in> {u ''cgroup2'', u ''none''}"
proof (intro conjI allI impI)
  fix h m assume "li_memory_high p = Some h \<and> li_memory_max p = Some m"
  then show "h \<le> m" using limits_read(2) [OF assms] by simp
qed (use limits_read [OF assms] in blast)+

theorem accepted_limits_in_range_witness:
  "\<exists>p. limits_of (Some [(PStr (u ''memoryMaxBytes''), PInt 4096), (PStr (u ''memoryHighBytes''), PInt 1024)]) = Inr p
     \<and> within MAX_TASKS (li_tasks_max p) \<and> li_memory_max p = Some 4096 \<and> li_memory_high p = Some 1024"
proof -
  let ?m = "Some [(PStr (u ''memoryMaxBytes''), PInt 4096), (PStr (u ''memoryHighBytes''), PInt 1024)]"
  obtain p where p: "limits_of ?m = Inr p" "li_memory_max p = Some 4096" "li_memory_high p = Some 1024"
    by (simp add: limits_of_def mhas_def mget_def LIMIT_FIELDS_def positive_def MAX_MEMORY_BYTES_def)
  then show ?thesis using accepted_limits_in_range [OF p(1)] by blast
qed

section \<open>No memory is promised twice\<close>

definition promised :: "reservation list \<Rightarrow> int" where
  "promised rs = sum_list (map rs_memory rs)"

text \<open>
  The steps of the ledger, by whichever process: the clock, the identifier of the process and the machine
  differ from step to step, but no observation shows more than \<open>peak\<close> available, and an admission takes a new
  identifier.
\<close>

definition seen_by :: "authority \<Rightarrow> machine \<Rightarrow> int \<Rightarrow> int \<Rightarrow> authority" where
  "seen_by a m now pid = a\<lparr>au_machine := m, au_now := now, au_pid := pid\<rparr>"

inductive ledger_step :: "authority \<Rightarrow> int \<Rightarrow> ledger \<Rightarrow> ledger \<Rightarrow> bool" for a peak where
  asking: "limits_of mapping = Inr p \<Longrightarrow> (case m of Unobserved \<Rightarrow> True | Observed ms \<Rightarrow> ms_available ms \<le> peak) \<Longrightarrow>
    admit (seen_by a m now pid) uuid workload p requested f = (r, g) \<Longrightarrow>
    load_ledger (au_conv a) f = Inr rs \<Longrightarrow> uuid \<notin> rs_id ` set rs \<Longrightarrow> ledger_step a peak f g"
| releasing: "release_reservation (au_conv a) now i f = (r, g) \<Longrightarrow> ledger_step a peak f g"
| attaching: "attach_unit (au_conv a) now i unit f = (r, g) \<Longrightarrow> ledger_step a peak f g"
| reconciling: "reconcile_ledger (au_conv a) now is_live f = (r, g) \<Longrightarrow> ledger_step a peak f g"

lemma request_nonnegative: "request_bytes p requested = Some n \<Longrightarrow> 0 \<le> n \<and> n \<le> MAX_MEMORY_BYTES"
  by (auto simp: request_bytes_def MAX_MEMORY_BYTES_def split: option.splits if_splits)

text \<open>An admission either leaves the ledger or adds one reservation that passed every gate.\<close>

lemma admit_run:
  assumes "admit a uuid workload p requested f = (r, g)" and "load_ledger (au_conv a) f = Inr rs"
  shows "g = f \<and> (\<forall>d. r = Inr d \<longrightarrow> (\<forall>i. ad_outcome d \<noteq> Admitted i))
    \<or> (\<exists>n m current withheld new x. request_bytes p requested = Some n \<and> au_machine a = Observed m
        \<and> not_gone a rs = Inr current \<and> outstanding_withheld a current = Inr withheld
        \<and> x = arithmetic_of a p requested n (ms_available m) current withheld \<and> gates_open a p m x
        \<and> rs_id new = uuid \<and> rs_memory new = n \<and> rs_unit new = None
        \<and> rs_tasks new = (case li_tasks_max p of None \<Rightarrow> 0 | Some k \<Rightarrow> k)
        \<and> store_ledger (au_now a) (rs @ [new]) f = (Inr (), g)
        \<and> r = Inr \<lparr>ad_outcome = Admitted uuid, ad_arithmetic = Some x\<rparr>)"
proof (cases "workload = [] \<or> request_bytes p requested = None \<or> au_machine a = Unobserved")
  case True
  then show ?thesis using assms(1)
    by (auto simp: admit_def ret_def split: option.splits machine.splits if_splits)
next
  case False
  then obtain n m where n: "request_bytes p requested = Some n" and m: "au_machine a = Observed m"
    by (cases "au_machine a") auto
  show ?thesis
  proof (cases "rbind (not_gone a rs) (outstanding_withheld a)")
    case (Inl e)
    then show ?thesis using assms False n m
      by (auto simp: admit_def run_gets run_lift rbind_Inl_iff split: sum.splits)
  next
    case (Inr withheld)
    then obtain current where c: "not_gone a rs = Inr current" "outstanding_withheld a current = Inr withheld"
      by (auto simp: rbind_Inr_iff)
    define x where "x = arithmetic_of a p requested n (ms_available m) current withheld"
    define new where "new = \<lparr>rs_id = uuid, rs_workload = workload, rs_unit = None, rs_memory = n,
       rs_tasks = (case li_tasks_max p of None \<Rightarrow> 0 | Some k \<Rightarrow> k), rs_created = au_now a, rs_owner = au_pid a\<rparr>"
    have run: "admit a uuid workload p requested f = (if \<not> gates_open a p m x
        then ret \<lparr>ad_outcome = Unavailable, ad_arithmetic = Some x\<rparr> f
        else sbind (store_ledger (au_now a) (rs @ [new])) (\<lambda>_. ret \<lparr>ad_outcome = Admitted uuid, ad_arithmetic = Some x\<rparr>) f)"
      using False n m assms(2) c by (simp add: admit_def run_gets run_lift Let_def x_def new_def)
    show ?thesis
    proof (cases "gates_open a p m x")
      case True
      obtain v where v: "store_ledger (au_now a) (rs @ [new]) f = (Inr (), v)" using ledger.save_total by blast
      then have out: "r = Inr \<lparr>ad_outcome = Admitted uuid, ad_arithmetic = Some x\<rparr>" "g = v"
        using run assms(1) True by (simp_all add: ret_def)
      have "rs_id new = uuid \<and> rs_memory new = n \<and> rs_unit new = None
          \<and> rs_tasks new = (case li_tasks_max p of None \<Rightarrow> 0 | Some k \<Rightarrow> k)" by (simp add: new_def)
      then show ?thesis using n m c x_def True v out by blast
    next
      case False
      then show ?thesis using run assms(1) by (simp add: ret_def)
    qed
  qed
qed

lemma asking_good:
  assumes "good_ledger rs" and "uuid \<notin> rs_id ` set rs" and "limits_of mapping = Inr p"
    and "request_bytes p requested = Some n" and "rs_id new = uuid" and "rs_memory new = n"
    and "rs_tasks new = (case li_tasks_max p of None \<Rightarrow> 0 | Some k \<Rightarrow> k)"
  shows "good_ledger (rs @ [new])"
proof -
  have "0 \<le> rs_tasks new" using limits_read(1) [OF assms(3)] assms(7)
    by (auto simp: within_def split: option.splits)
  then have "plausible new" using request_nonnegative [OF assms(4)] assms(6) by (simp add: plausible_def)
  then show ?thesis using assms(1,2,5) by (auto simp: good_ledger_def)
qed

lemma withheld_whole:
  "\<forall>r. au_usage a r = Inr None \<Longrightarrow> outstanding_withheld a rs = Inr (promised rs)"
proof -
  assume "\<forall>r. au_usage a r = Inr None"
  then have "rmap (withheld_of a) rs = Inr (map rs_memory rs)"
    by (induction rs) (simp_all add: withheld_of_def)
  then show ?thesis by (simp add: outstanding_withheld_def promised_def)
qed

lemma not_gone_all: "(\<And>r. \<exists>l. au_live a r = Inr l \<and> l \<noteq> Some False) \<Longrightarrow> not_gone a rs = Inr rs"
proof -
  assume live: "\<And>r. \<exists>l. au_live a r = Inr l \<and> l \<noteq> Some False"
  have "rbind (au_live a r) (\<lambda>l. Inr (r, l \<noteq> Some False)) = Inr (r, True)" for r using live [of r] by auto
  then have "rmap (\<lambda>r. rbind (au_live a r) (\<lambda>l. Inr (r, l \<noteq> Some False))) rs = Inr (map (\<lambda>r. (r, True)) rs)"
    by (induction rs) simp_all
  then show ?thesis by (simp add: not_gone_def comp_def)
qed

lemma promised_filter: "good_ledger rs \<Longrightarrow> promised (filter P rs) \<le> promised rs"
  by (induction rs) (auto simp: promised_def good_ledger_def plausible_def)

lemma promised_map: "(\<And>r. rs_memory (h r) = rs_memory r) \<Longrightarrow> promised (map h rs) = promised rs"
  by (simp add: promised_def comp_def)

lemma asking_promise:
  assumes "limits_of mapping = Inr p" and "case au_machine a of Unobserved \<Rightarrow> True | Observed ms \<Rightarrow> ms_available ms \<le> peak"
    and "admit a uuid workload p requested f = (r, g)" and "load_ledger (au_conv a) f = Inr rs"
    and "uuid \<notin> rs_id ` set rs" and "\<forall>r. au_usage a r = Inr None"
    and "\<And>r. \<exists>l. au_live a r = Inr l \<and> l \<noteq> Some False"
  shows "\<exists>rs'. load_ledger (au_conv a) g = Inr rs' \<and> promised rs' \<le> max (promised rs) (peak - fl_memory (au_floors a))"
  using admit_run [OF assms(3,4)]
proof
  assume "g = f \<and> (\<forall>d. r = Inr d \<longrightarrow> (\<forall>i. ad_outcome d \<noteq> Admitted i))"
  then show ?thesis using assms(4) by auto
next
  assume "\<exists>n m current withheld new x. request_bytes p requested = Some n \<and> au_machine a = Observed m
      \<and> not_gone a rs = Inr current \<and> outstanding_withheld a current = Inr withheld
      \<and> x = arithmetic_of a p requested n (ms_available m) current withheld \<and> gates_open a p m x
      \<and> rs_id new = uuid \<and> rs_memory new = n \<and> rs_unit new = None
      \<and> rs_tasks new = (case li_tasks_max p of None \<Rightarrow> 0 | Some k \<Rightarrow> k)
      \<and> store_ledger (au_now a) (rs @ [new]) f = (Inr (), g)
      \<and> r = Inr \<lparr>ad_outcome = Admitted uuid, ad_arithmetic = Some x\<rparr>"
  then obtain n m current withheld new x where n: "request_bytes p requested = Some n"
    and m: "au_machine a = Observed m" and current: "not_gone a rs = Inr current"
    and withheld: "outstanding_withheld a current = Inr withheld"
    and x: "x = arithmetic_of a p requested n (ms_available m) current withheld" and gates: "gates_open a p m x"
    and new: "rs_id new = uuid" "rs_memory new = n"
      "rs_tasks new = (case li_tasks_max p of None \<Rightarrow> 0 | Some k \<Rightarrow> k)"
    and stored: "store_ledger (au_now a) (rs @ [new]) f = (Inr (), g)" by blast
  have "current = rs" using current not_gone_all [OF assms(7)] by simp
  then have w: "withheld = promised rs" using withheld withheld_whole [OF assms(6)] by simp
  have "n \<le> ms_available m - withheld - fl_memory (au_floors a)"
    using gates x by (simp add: gates_open_def arithmetic_of_def)
  then have "promised (rs @ [new]) \<le> peak - fl_memory (au_floors a)"
    using w new(2) m assms(2) by (simp add: promised_def)
  moreover have "good_ledger (rs @ [new])"
    using asking_good [OF load_good [OF assms(4)] assms(5) assms(1) n new] .
  ultimately show ?thesis using load_stored [OF _ stored] by fastforce
qed

lemma step_promise:
  assumes "ledger_step a peak f g" and "load_ledger (au_conv a) f = Inr rs"
    and "\<forall>r. au_usage a r = Inr None" and "\<And>r. \<exists>l. au_live a r = Inr l \<and> l \<noteq> Some False"
  shows "\<exists>rs'. load_ledger (au_conv a) g = Inr rs' \<and> promised rs' \<le> max (promised rs) (peak - fl_memory (au_floors a))"
  using assms(1)
proof cases
  case (asking mapping p m now pid uuid workload requested r ls)
  then show ?thesis
    using asking_promise [of mapping p peak "seen_by a m now pid" uuid workload requested f r g rs] assms(2,3,4)
    by (simp add: seen_by_def)
next
  case (releasing now i r)
  obtain v where v: "release_reservation (au_conv a) now i f = (Inr (i \<in> rs_id ` set rs), v)"
    "load_ledger (au_conv a) v = Inr (filter (\<lambda>r. rs_id r \<noteq> i) rs)" by (rule release_run [OF assms(2)])
  then show ?thesis using releasing promised_filter [OF load_good [OF assms(2)]] by (auto simp: le_max_iff_disj)
next
  case (attaching now i unit r)
  have "promised (map (\<lambda>r. if rs_id r = i then r\<lparr>rs_unit := Some unit\<rparr> else r) rs) = promised rs"
    by (rule promised_map) simp
  then show ?thesis using attach_run [OF assms(2) attaching] assms(2) by (auto simp: le_max_iff_disj)
next
  case (reconciling now is_live r)
  obtain v where v: "reconcile_ledger (au_conv a) now is_live f = (Inr (filter (gone is_live) rs), v)"
    "load_ledger (au_conv a) v = Inr (filter (\<lambda>r. \<not> gone is_live r) rs)" by (rule reconcile_run [OF assms(2)])
  then show ?thesis using reconciling promised_filter [OF load_good [OF assms(2)]] by (auto simp: le_max_iff_disj)
qed

text \<open>
  C26. Admission never promises a byte twice. Whatever admissions, releases, attachments and reconciliations
  run, in whatever order and by whatever processes, the ledger stays readable, and the sum of its
  reservations exceeds what was available above the floor only if it did at the beginning. The default
  answers for usage (nothing is known) and liveness are assumed.
\<close>
theorem admission_never_overcommits:
  assumes "(ledger_step a peak)\<^sup>*\<^sup>* f g" and "load_ledger (au_conv a) f = Inr rs"
    and "\<forall>r. au_usage a r = Inr None" and "\<forall>r. au_live a r \<in> {Inr None, Inr (Some True)}"
  shows "\<exists>rs'. load_ledger (au_conv a) g = Inr rs' \<and> promised rs' \<le> max (promised rs) (peak - fl_memory (au_floors a))"
  using assms(1)
proof (induction rule: rtranclp_induct)
  case base
  then show ?case using assms(2) by simp
next
  case (step v w)
  then obtain mid where mid: "load_ledger (au_conv a) v = Inr mid"
    "promised mid \<le> max (promised rs) (peak - fl_memory (au_floors a))" by blast
  have "\<exists>l. au_live a r = Inr l \<and> l \<noteq> Some False" for r using assms(4) [THEN spec, of r] by auto
  then obtain rs' where rs': "load_ledger (au_conv a) w = Inr rs'"
      "promised rs' \<le> max (promised mid) (peak - fl_memory (au_floors a))"
    using step_promise [OF step(2) mid(1) assms(3)] by blast
  then show ?case using mid(2) by (intro exI [of _ rs']) linarith
qed

text \<open>A machine with 8 KiB available above a floor of 1 KiB.\<close>

definition sample_machine :: machine where
  "sample_machine = Observed \<lparr>ms_total = 16384, ms_available = 9216, ms_swap = None, ms_memory = Some 10, ms_cpu = None,
     ms_io = None, ms_disk = []\<rparr>"

definition sample_authority :: authority where
  "sample_authority = \<lparr>au_machine = sample_machine,
     au_floors = \<lparr>fl_memory = 1024, fl_disk = 0, fl_inodes = 0, fl_pressure = 5000\<rparr>,
     au_usage = (\<lambda>_. Inr None), au_live = (\<lambda>_. Inr (Some True)), au_conv = (\<lambda>_. None), au_now = 7, au_pid = 1\<rparr>"

definition sample_limits :: limits where
  "sample_limits = \<lparr>li_memory_max = Some 6144, li_memory_high = None, li_swap_max = None, li_cpu_quota = None,
     li_cpu_weight = None, li_tasks_max = Some 16, li_disk_growth = None, li_timeout = None, li_concurrent = None,
     li_enforcement = u ''cgroup2''\<rparr>"

definition sample_reservation :: "pystr \<Rightarrow> reservation" where
  "sample_reservation i = \<lparr>rs_id = i, rs_workload = u ''run'', rs_unit = None, rs_memory = 6144, rs_tasks = 16,
     rs_created = 7, rs_owner = 1\<rparr>"

lemma sample_limits_accepted:
  "limits_of (Some [(PStr (u ''memoryMaxBytes''), PInt 6144), (PStr (u ''tasksMax''), PInt 16)]) = Inr sample_limits"
  by (simp add: limits_of_def mhas_def mget_def LIMIT_FIELDS_def positive_def MAX_MEMORY_BYTES_def MAX_TASKS_def
      sample_limits_def)

lemma sample_good: "good_ledger [sample_reservation i]"
  by (simp add: good_ledger_def sample_reservation_def plausible_def MAX_MEMORY_BYTES_def)

definition sample_ledger :: "pystr \<Rightarrow> ledger" where
  "sample_ledger i = Document (pdict [(u ''schemaVersion'', PInt 1), (u ''updatedAtMs'', PInt 7),
     (u ''reservations'', PList [reservation_value (sample_reservation i)])])"

lemma sample_loads: "load_ledger conv (sample_ledger i) = Inr [sample_reservation i]"
  by (rule load_stored [OF sample_good, of 7 _ Missing]) (simp add: store_ledger_def modify_def sample_ledger_def)

lemma run_store: "sbind (store_ledger now rs) k f = k () (Document (pdict [(u ''schemaVersion'', PInt 1),
    (u ''updatedAtMs'', PInt now), (u ''reservations'', PList (map reservation_value rs))]))"
  by (simp add: store_ledger_def modify_def sbind_def)

lemma sample_request: "request_bytes sample_limits None = Some 6144"
  by (simp add: sample_limits_def request_bytes_def declared_ceiling_def MAX_MEMORY_BYTES_def)

lemmas sample_admission = admit_def sample_request run_gets run_lift run_store Let_def not_gone_def outstanding_withheld_def
  withheld_of_def arithmetic_of_def gates_open_def unmetered_def declared_ceiling_def sample_authority_def
  sample_machine_def ret_def

lemma sample_workload_admitted:
  "admit sample_authority i (u ''run'') sample_limits None Missing
    = (Inr \<lparr>ad_outcome = Admitted i, ad_arithmetic = Some \<lparr>ar_requested = 6144, ar_available = 9216, ar_withheld = 0,
        ar_floor = 1024, ar_headroom = 8192, ar_count = 0, ar_accounted = True\<rparr>\<rparr>, sample_ledger i)"
proof -
  have "load_ledger conv Missing = Inr []" for conv by (simp add: load_ledger_def)
  then show ?thesis
    by (simp add: sample_admission) (simp add: sample_limits_def sample_ledger_def sample_reservation_def)
qed

lemma sample_workload_refused:
  "admit sample_authority j (u ''run'') sample_limits None (sample_ledger i)
    = (Inr \<lparr>ad_outcome = Unavailable, ad_arithmetic = Some \<lparr>ar_requested = 6144, ar_available = 9216, ar_withheld = 6144,
        ar_floor = 1024, ar_headroom = 2048, ar_count = 1, ar_accounted = True\<rparr>\<rparr>, sample_ledger i)"
  by (simp add: sample_admission sample_loads) (simp add: sample_limits_def sample_reservation_def)

text \<open>Two workloads of 6 KiB ask: the first is admitted, the second is refused.\<close>

theorem admission_never_overcommits_witness:
  "\<exists>rs. load_ledger (\<lambda>_. None) (sample_ledger (u ''a'')) = Inr rs \<and> promised rs = 6144 \<and> promised rs \<le> 8192"
proof -
  let ?a = sample_authority
  have same: "seen_by ?a sample_machine 7 1 = ?a" by (simp add: seen_by_def sample_authority_def)
  have first: "admit (seen_by ?a sample_machine 7 1) (u ''a'') (u ''run'') sample_limits None Missing
      = (fst (admit ?a (u ''a'') (u ''run'') sample_limits None Missing), sample_ledger (u ''a''))"
    unfolding same sample_workload_admitted by simp
  have second: "admit (seen_by ?a sample_machine 7 1) (u ''b'') (u ''run'') sample_limits None (sample_ledger (u ''a''))
      = (fst (admit ?a (u ''b'') (u ''run'') sample_limits None (sample_ledger (u ''a''))), sample_ledger (u ''a''))"
    unfolding same sample_workload_refused by simp
  have peak: "case sample_machine of Unobserved \<Rightarrow> True | Observed ms \<Rightarrow> ms_available ms \<le> 9216"
    by (simp add: sample_machine_def)
  have "ledger_step ?a 9216 Missing (sample_ledger (u ''a''))"
    by (rule asking [OF sample_limits_accepted peak first, where rs = "[]"])
      (simp_all add: load_ledger_def)
  moreover have "ledger_step ?a 9216 (sample_ledger (u ''a'')) (sample_ledger (u ''a''))"
    by (rule asking [OF sample_limits_accepted peak second sample_loads])
      (simp add: sample_reservation_def)
  ultimately have "(ledger_step ?a 9216)\<^sup>*\<^sup>* Missing (sample_ledger (u ''a''))"
    by (meson rtranclp.rtrancl_into_rtrancl rtranclp.rtrancl_refl)
  then have "\<exists>rs. load_ledger (au_conv ?a) (sample_ledger (u ''a'')) = Inr rs
      \<and> promised rs \<le> max (promised []) (9216 - fl_memory (au_floors ?a))"
    by (rule admission_never_overcommits) (simp_all add: load_ledger_def sample_authority_def)
  then show ?thesis by (simp add: sample_authority_def sample_loads promised_def sample_reservation_def)
qed

section \<open>A reservation is released\<close>

text \<open>
  C27. A guard leaves no reservation behind: whether the workload is refused, returns or raises, the ledger
  afterwards holds the reservations it held before, provided the workload itself leaves the others alone.
  The result is the refusal's code or what the workload gave.
\<close>
theorem guard_releases:
  assumes "guarded_workload a uuid workload p requested body f = (r, g)"
    and "load_ledger (au_conv a) f = Inr rs" and "uuid \<notin> rs_id ` set rs" and "limits_of mapping = Inr p"
    and "\<forall>v ls. load_ledger (au_conv a) v = Inr ls \<longrightarrow> (\<exists>ls'. load_ledger (au_conv a) (snd (body uuid v)) = Inr ls'
      \<and> filter (\<lambda>r. rs_id r \<noteq> uuid) ls' = filter (\<lambda>r. rs_id r \<noteq> uuid) ls)"
  shows "load_ledger (au_conv a) g = Inr rs \<and>
    ((\<exists>e d. r = Inl e \<and> (admit a uuid workload p requested f = (Inl e, f)
        \<or> admit a uuid workload p requested f = (Inr d, f) \<and> e = WL (refusal_code (ad_outcome d))))
     \<or> (\<exists>d v. admit a uuid workload p requested f = (Inr d, v) \<and> ad_outcome d = Admitted uuid
        \<and> r = fst (body uuid v)))"
proof -
  obtain x v where adm: "admit a uuid workload p requested f = (x, v)" by (cases "admit a uuid workload p requested f")
  show ?thesis using admit_run [OF adm assms(2)]
  proof
    assume refused: "v = f \<and> (\<forall>d. x = Inr d \<longrightarrow> (\<forall>i. ad_outcome d \<noteq> Admitted i))"
    show ?thesis
    proof (cases x)
      case (Inl e)
      then show ?thesis using assms(1,2) adm refused by (auto simp: guarded_workload_def sbind_def)
    next
      case (Inr d)
      then have "r = Inl (WL (refusal_code (ad_outcome d))) \<and> g = f" using assms(1) adm refused
        by (cases "ad_outcome d") (auto simp: guarded_workload_def sbind_def raise_def)
      then show ?thesis using assms(2) adm Inr refused by auto
    qed
  next
    assume "\<exists>n m current withheld new y. request_bytes p requested = Some n \<and> au_machine a = Observed m
      \<and> not_gone a rs = Inr current \<and> outstanding_withheld a current = Inr withheld
      \<and> y = arithmetic_of a p requested n (ms_available m) current withheld \<and> gates_open a p m y
      \<and> rs_id new = uuid \<and> rs_memory new = n \<and> rs_unit new = None
      \<and> rs_tasks new = (case li_tasks_max p of None \<Rightarrow> 0 | Some k \<Rightarrow> k)
      \<and> store_ledger (au_now a) (rs @ [new]) f = (Inr (), v)
      \<and> x = Inr \<lparr>ad_outcome = Admitted uuid, ad_arithmetic = Some y\<rparr>"
    then obtain n new y where n: "request_bytes p requested = Some n" and new: "rs_id new = uuid" "rs_memory new = n"
        "rs_tasks new = (case li_tasks_max p of None \<Rightarrow> 0 | Some k \<Rightarrow> k)"
      and stored: "store_ledger (au_now a) (rs @ [new]) f = (Inr (), v)"
      and x: "x = Inr \<lparr>ad_outcome = Admitted uuid, ad_arithmetic = Some y\<rparr>" by blast
    have good: "good_ledger (rs @ [new])" by (rule asking_good [OF load_good [OF assms(2)] assms(3,4) n new])
    obtain z w where body: "body uuid v = (z, w)" by (cases "body uuid v")
    obtain ls where ls: "load_ledger (au_conv a) w = Inr ls"
        "filter (\<lambda>r. rs_id r \<noteq> uuid) ls = filter (\<lambda>r. rs_id r \<noteq> uuid) (rs @ [new])"
      using assms(5) load_stored [OF good stored] body by (metis snd_conv)
    have others: "filter (\<lambda>r. rs_id r \<noteq> uuid) (rs @ [new]) = rs"
      using assms(3) new(1) by (simp add: filter_id_conv) (metis imageI)
    obtain e where e: "release_reservation (au_conv a) (au_now a) uuid w = (Inr (uuid \<in> rs_id ` set ls), e)"
        "load_ledger (au_conv a) e = Inr (filter (\<lambda>r. rs_id r \<noteq> uuid) ls)" by (rule release_run [OF ls(1)])
    have "guarded_workload a uuid workload p requested body f = (z, e)"
      using adm x body e(1) by (simp add: guarded_workload_def sbind_def with_finally_def)
    then show ?thesis using assms(1) adm x body e(2) ls(2) others by auto
  qed
qed

text \<open>A workload that names its unit and then raises.\<close>

definition sample_body :: "pystr \<Rightarrow> unit lact" where
  "sample_body i = sbind (attach_unit (\<lambda>_. None) 7 i (u ''w.service'')) (\<lambda>_. raise (WL ''STOPPED''))"

lemma sample_body_others:
  assumes "load_ledger (\<lambda>_. None) v = Inr ls"
  shows "\<exists>ls'. load_ledger (\<lambda>_. None) (snd (sample_body i v)) = Inr ls'
    \<and> filter (\<lambda>r. rs_id r \<noteq> i) ls' = filter (\<lambda>r. rs_id r \<noteq> i) ls"
proof -
  obtain x w where w: "attach_unit (\<lambda>_. None) 7 i (u ''w.service'') v = (x, w)" by (cases "attach_unit (\<lambda>_. None) 7 i (u ''w.service'') v")
  then have end_state: "snd (sample_body i v) = w" by (cases x) (simp_all add: sample_body_def sbind_def raise_def)
  have "filter (\<lambda>r. rs_id r \<noteq> i) (map (\<lambda>r. if rs_id r = i then r\<lparr>rs_unit := Some (u ''w.service'')\<rparr> else r) ls)
      = filter (\<lambda>r. rs_id r \<noteq> i) ls"
    by (induction ls) auto
  then show ?thesis using attach_run [OF assms w] assms end_state by auto
qed

theorem guard_releases_witness:
  "load_ledger (\<lambda>_. None) (snd (guarded_workload sample_authority (u ''a'') (u ''run'') sample_limits None sample_body
     Missing)) = Inr [] \<and> fst (guarded_workload sample_authority (u ''a'') (u ''run'') sample_limits None sample_body
     Missing) = Inl (WL ''STOPPED'')"
proof -
  let ?run = "guarded_workload sample_authority (u ''a'') (u ''run'') sample_limits None sample_body Missing"
  have conv: "au_conv sample_authority = (\<lambda>_. None)" by (simp add: sample_authority_def)
  have empty: "load_ledger (\<lambda>_. None) Missing = Inr []" by (simp add: load_ledger_def)
  have "fst (sample_body (u ''a'') (sample_ledger (u ''a''))) = Inl (WL ''STOPPED'')"
    by (simp add: sample_body_def attach_unit_def outstanding_def sbind_def sensure_def gets_def lift_def ret_def
        sample_loads raise_def store_ledger_def modify_def) (simp add: u_def)
  with guard_releases [of sample_authority "u ''a''" "u ''run''" sample_limits None sample_body Missing "fst ?run"
      "snd ?run" "[]", unfolded conv, OF _ empty _ sample_limits_accepted]
  show ?thesis by (auto simp: sample_workload_admitted sample_body_others sample_ledger_def)
qed

section \<open>Reconciliation\<close>

lemma gone_means:
  assumes "gone (reservation_is_live metadata) r"
  shows "\<exists>unit m. rs_unit r = Some unit \<and> unit \<noteq> [] \<and> metadata unit = Inr m \<and> mget m (u ''state'') = PStr (u ''CAPTURED'')
      \<and> truthy (mget m (u ''ActiveState''))
      \<and> mget m (u ''ActiveState'') \<notin> (PStr \<circ> u) ` {''active'', ''activating'', ''reloading'', ''deactivating''}"
  using assms
  by (auto simp: gone_def reservation_is_live_def split: option.splits if_splits sum.splits exc.splits)


text \<open>A reservation whose unit the manager has stopped, and one it cannot answer about.\<close>

definition sample_metadata :: "pystr \<Rightarrow> (pyval \<times> pyval) list res" where
  "sample_metadata unit = (if unit = u ''w.service''
     then Inr [(PStr (u ''state''), PStr (u ''CAPTURED'')), (PStr (u ''ActiveState''), PStr (u ''failed''))]
     else Inl (WL ''SYSTEMD_UNAVAILABLE''))"

definition sample_pair :: "reservation list" where
  "sample_pair = [sample_reservation (u ''a'')\<lparr>rs_unit := Some (u ''w.service'')\<rparr>,
     sample_reservation (u ''b'')\<lparr>rs_unit := Some (u ''v.service'')\<rparr>]"

lemma sample_pair_good: "good_ledger sample_pair"
  by (simp add: good_ledger_def sample_pair_def sample_reservation_def plausible_def MAX_MEMORY_BYTES_def)


section \<open>The report\<close>

lemma asked_is_declared:
  assumes "limits_of mapping = Inr p"
  shows "request_bytes p None = Some (if or_zero (li_memory_max p) \<noteq> 0 then or_zero (li_memory_max p)
    else or_zero (li_memory_high p))"
  using limits_read(1) [OF assms]
  by (auto simp: request_bytes_def declared_ceiling_def or_zero_def within_def split: option.splits)

text \<open>
  C29. The report and the decision agree: when no reservation is gone and nothing but memory stands in the
  way, the report says that a workload would be admitted exactly when an admission asked with the same
  limits admits, and it shows the headroom the decision used.
\<close>
theorem report_agrees_with_admission:
  assumes "report a p f = Inr rp" and "rp_would_admit rp = Some b" and "limits_of mapping = Inr p"
    and "workload \<noteq> []" and "\<forall>r. au_live a r \<in> {Inr None, Inr (Some True)}" and "li_concurrent p = None"
    and "au_machine a = Observed m" and "case ms_memory m of None \<Rightarrow> True | Some h \<Rightarrow> h \<le> fl_pressure (au_floors a)"
    and "list_all (\<lambda>(_, d). fl_disk (au_floors a) \<le> dk_free d \<and> fl_inodes (au_floors a) \<le> dk_inodes d) (ms_disk m)"
  shows "\<exists>d x g. admit a uuid workload p None f = (Inr d, g) \<and> ad_arithmetic d = Some x
    \<and> ar_withheld x = rp_withheld rp \<and> Some (ar_headroom x) = rp_headroom rp
    \<and> (b \<longleftrightarrow> ad_outcome d = Admitted uuid)"
proof -
  let ?n = "if or_zero (li_memory_max p) \<noteq> 0 then or_zero (li_memory_max p) else or_zero (li_memory_high p)"
  obtain rs where rs: "load_ledger (au_conv a) f = Inr rs"
    using assms(1,2) by (cases "load_ledger (au_conv a) f") (auto simp: report_def res_iffs Let_def)
  obtain w where w: "outstanding_withheld a rs = Inr w"
    using assms(1) rs by (auto simp: report_def res_iffs)
  have live: "\<exists>l. au_live a r = Inr l \<and> l \<noteq> Some False" for r using assms(5) [THEN spec, of r] by auto
  let ?x = "arithmetic_of a p None ?n (ms_available m) rs w"
  have rp: "rp_withheld rp = w" "rp_headroom rp = Some (ar_headroom ?x)" "b \<longleftrightarrow> ?n \<le> ar_headroom ?x"
    using assms(1,2,7) rs w by (auto simp: report_def Let_def arithmetic_of_def)
  have gates: "gates_open a p m ?x \<longleftrightarrow> ?n \<le> ar_headroom ?x"
    using assms(6,8,9) by (simp add: gates_open_def arithmetic_of_def)
  show ?thesis
    using assms(4,7) rs w rp gates
    by (simp add: admit_def asked_is_declared [OF assms(3)] run_gets run_lift not_gone_all [OF live] Let_def run_store
        ret_def arithmetic_of_def)
qed

lemma sample_report: "report sample_authority sample_limits (sample_ledger i) = Inr \<lparr>rp_withheld = 6144,
    rp_headroom = Some 2048, rp_ledger_error = False, rp_unmetered = False, rp_enforced = True,
    rp_would_admit = Some False\<rparr>"
  by (simp add: report_def sample_loads)
    (simp add: Let_def outstanding_withheld_def withheld_of_def sample_reservation_def sample_authority_def
      sample_machine_def or_zero_def sample_limits_def unit_properties_def)

theorem report_agrees_with_admission_witness:
  "\<exists>d g. admit sample_authority (u ''b'') (u ''run'') sample_limits None (sample_ledger (u ''a'')) = (Inr d, g)
     \<and> ad_outcome d \<noteq> Admitted (u ''b'')"
proof -
  have "\<exists>d x g. admit sample_authority (u ''b'') (u ''run'') sample_limits None (sample_ledger (u ''a'')) = (Inr d, g)
      \<and> ad_arithmetic d = Some x \<and> ar_withheld x = 6144 \<and> Some (ar_headroom x) = Some 2048
      \<and> (False \<longleftrightarrow> ad_outcome d = Admitted (u ''b''))"
    using report_agrees_with_admission [OF sample_report _ sample_limits_accepted, of False "u ''run''" _ "u ''b''"]
    by (simp add: sample_authority_def sample_machine_def sample_limits_def)
  then show ?thesis by auto
qed

end
