(* ===== verification/Prune.thy ===== *)
theory Prune
  imports Store PyText
begin

text \<open>
  \<open>runtime/worldline/prune.py\<close>: which payloads of finished worlds are offered for removal, and what is
  recorded when they are removed. Directories are canonical paths (what \<open>realpath\<close> gives); which exist is
  the state, beside the store. Arguments are \<open>realpath\<close>, the sizes of trees, the live source of a root, the
  moment a stamp names, the log files of a world, and how a removal (\<open>fstree.remove_tree\<close>) or the unlinking
  of a log ends. The texts of failures are left out, their paths are kept. No link on a recorded path lies
  inside a tree that is removed, so \<open>realpath\<close> is one function throughout.
\<close>

datatype removal = Whole | Untouched | Part "pystr list"

record pruner =
  pe_real :: "pystr \<Rightarrow> pystr"
  pe_data :: pystr
  pe_overlays :: pystr
  pe_bytes :: "pystr \<Rightarrow> int"
  pe_source :: "root_row \<Rightarrow> pystr res"
  pe_moment :: "pystr \<Rightarrow> int res"
  pe_logs :: "pystr \<Rightarrow> pystr list"
  pe_remove :: "pystr \<Rightarrow> removal"
  pe_unlink :: "pystr \<Rightarrow> bool"

section \<open>The plan\<close>

definition prunable_states :: "world_state set" where
  "prunable_states = {ARCHIVED, DEAD, DEGRADED, COLLAPSED}"

definition nonempty :: "pystr option \<Rightarrow> pystr option" where
  "nonempty x = (if x = Some [] then None else x)"

definition finished :: "world \<Rightarrow> pystr" where
  "finished w = (case nonempty (w_ended w) of Some t \<Rightarrow> t | None \<Rightarrow> w_born w)"

definition protected :: "world option \<Rightarrow> pystr list" where
  "protected p = (case p of None \<Rightarrow> []
     | Some w \<Rightarrow> w_instance_id w # (case nonempty (w_parent_instance w) of None \<Rightarrow> [] | Some i \<Rightarrow> [i]))"

definition busy :: "(job_row \<times> pyval \<times> pyval) list \<Rightarrow> pystr list" where
  "busy js = map jb_world (filter (\<lambda>j. jb_state j \<in> active_states) (map fst js))"

definition eligible :: "pystr list \<Rightarrow> pystr list \<Rightarrow> world \<Rightarrow> bool" where
  "eligible prot active w \<longleftrightarrow> w_state w \<in> prunable_states \<and> \<not> w_payload_pruned w
     \<and> w_instance_id w \<notin> set prot \<and> w_instance_id w \<notin> set active"

definition old_enough :: "pruner \<Rightarrow> int option \<Rightarrow> world \<Rightarrow> bool res" where
  "old_enough pe cutoff w = (case cutoff of None \<Rightarrow> Inr True
     | Some c \<Rightarrow> rbind (pe_moment pe (finished w)) (\<lambda>t. Inr (t < c)))"

definition candidates ::
    "pruner \<Rightarrow> pystr list \<Rightarrow> pystr list \<Rightarrow> int option \<Rightarrow> int option \<Rightarrow> world list \<Rightarrow> world list res" where
  "candidates pe prot active cutoff keep ws =
     rbind (rmap (\<lambda>w. rbind (if eligible prot active w then old_enough pe cutoff w else Inr False)
       (\<lambda>b. Inr (w, b))) ws) (\<lambda>marked.
     rbind (rmap (\<lambda>w. rbind (pe_moment pe (finished w)) (\<lambda>t. Inr (t, w))) (map fst (filter snd marked))) (\<lambda>timed.
     let cs = map snd (sort_key fst timed) in
     Inr (case keep of None \<Rightarrow> cs | Some k \<Rightarrow> if 0 < k then take (length cs - nat k) cs else cs)))"

definition world_refs :: "world \<Rightarrow> pystr list" where
  "world_refs w = [w_payload_path w, w_base_payload_path w]"

definition overlay_path :: "pruner \<Rightarrow> world \<Rightarrow> pystr" where
  "overlay_path pe w = pe_overlays pe @ 47 # w_instance_id w"

definition referenced :: "pruner \<Rightarrow> pystr list \<Rightarrow> world list \<Rightarrow> root_row list \<Rightarrow> pystr list res" where
  "referenced pe pruning ws rts =
     rbind (rmap (\<lambda>r. rbind (pe_source pe r) (\<lambda>live. Inr (dirname 47 live))) rts) (\<lambda>lives.
     Inr (concat (map (\<lambda>w. map (pe_real pe) (world_refs w))
            (filter (\<lambda>w. w_instance_id w \<notin> set pruning \<and> \<not> w_payload_pruned w) ws)) @ lives))"

text \<open>A directory is offered once, by the first world that names it, with its size and that world's alias.\<close>

type_synonym claims = "(pystr \<times> int \<times> pystr) list"

definition offer ::
    "pruner \<Rightarrow> pystr list \<Rightarrow> pystr list \<Rightarrow> world \<Rightarrow> pystr \<Rightarrow> claims \<times> pystr list \<Rightarrow> claims \<times> pystr list" where
  "offer pe dirs refs w path c = (case c of (claims, own) \<Rightarrow>
     let real = pe_real pe path in
     if real \<in> set refs \<or> real \<in> set (dkeys claims) \<or> real \<notin> set dirs then (claims, own)
     else (dset real (pe_bytes pe real, w_alias w) claims, own @ [real]))"

record prune_entry =
  pn_alias :: pystr
  pn_instance :: pystr
  pn_state :: world_state
  pn_finished :: pystr
  pn_directories :: "pystr list"
  pn_logs :: "pystr list"
  pn_bytes :: int
  pn_leftover :: bool

definition entry_of :: "pruner \<Rightarrow> world \<Rightarrow> pystr list \<Rightarrow> pystr list \<Rightarrow> bool \<Rightarrow> prune_entry" where
  "entry_of pe w own logs leftover = \<lparr>pn_alias = w_alias w, pn_instance = w_instance_id w, pn_state = w_state w,
     pn_finished = finished w, pn_directories = own, pn_logs = logs, pn_bytes = sum_list (map (pe_bytes pe) own),
     pn_leftover = leftover\<rparr>"

definition plan_world ::
    "pruner \<Rightarrow> pystr list \<Rightarrow> pystr list \<Rightarrow> bool \<Rightarrow> world \<Rightarrow> claims \<times> prune_entry list \<Rightarrow> claims \<times> prune_entry list" where
  "plan_world pe dirs refs logs w p = (case p of (claims, es) \<Rightarrow>
     let (claims, own) = offer pe dirs [] w (overlay_path pe w) (fold (offer pe dirs refs w) (world_refs w) (claims, []));
         files = (if logs then pe_logs pe (w_instance_id w) else [])
     in if own = [] \<and> files = [] then (claims, es) else (claims, es @ [entry_of pe w own files False]))"

text \<open>The overlay of a world that is already pruned is offered again when it is still there.\<close>

definition plan_leftover ::
    "pruner \<Rightarrow> pystr list \<Rightarrow> pystr list \<Rightarrow> pystr list \<Rightarrow> world \<Rightarrow> claims \<times> prune_entry list
      \<Rightarrow> claims \<times> prune_entry list" where
  "plan_leftover pe dirs prot active w p = (case p of (claims, es) \<Rightarrow>
     if \<not> w_payload_pruned w \<or> w_instance_id w \<in> set prot \<or> w_instance_id w \<in> set active then (claims, es)
     else let (claims, own) = offer pe dirs [] w (overlay_path pe w) (claims, []) in
       if own = [] then (claims, es) else (claims, es @ [entry_of pe w own [] True]))"

record prune_plan =
  pl_worlds :: "prune_entry list"
  pl_directories :: claims
  pl_bytes :: int
  pl_protected :: "pystr list"

definition plan_prune :: "pruner \<Rightarrow> pystr list \<Rightarrow> int option \<Rightarrow> int option \<Rightarrow> bool \<Rightarrow> prune_plan sact" where
  "plan_prune pe dirs cutoff keep logs =
     sbind (gets (transactions_in_state [u ''PREPARED'', u ''AUTHORIZED''])) (\<lambda>opened.
     sbind (sensure (opened = []) (WL ''PRUNE_BLOCKED'')) (\<lambda>_.
     sbind (gets worlds) (\<lambda>r. sbind (lift r) (\<lambda>ws.
     sbind prime (\<lambda>p.
     sbind (gets jobs) (\<lambda>r. sbind (lift r) (\<lambda>js.
     let prot = protected p; active = busy js in
     sbind (lift (candidates pe prot active cutoff keep ws)) (\<lambda>cs.
     sbind (gets roots) (\<lambda>rts.
     sbind (lift (referenced pe (map w_instance_id cs) ws rts)) (\<lambda>refs.
     let (claims, es) = fold (plan_leftover pe dirs prot active) ws (fold (plan_world pe dirs refs logs) cs ([], [])) in
     ret \<lparr>pl_worlds = es, pl_directories = sort_key fst claims, pl_bytes = sum_list (map (fst \<circ> snd) claims),
       pl_protected = sort (remdups prot)\<rparr>))))))))))"

section \<open>Carrying it out\<close>

record keeper =
  kp_store :: store
  kp_dirs :: "pystr list"

type_synonym 'a kact = "(keeper, 'a) act"

definition in_store :: "'a sact \<Rightarrow> 'a kact" where
  "in_store m k = (case m (kp_store k) of (r, t) \<Rightarrow> (r, k\<lparr>kp_store := t\<rparr>))"

definition within_tree :: "pystr \<Rightarrow> pystr \<Rightarrow> bool" where
  "within_tree d x \<longleftrightarrow> x = d \<or> prefixed x (d @ [47])"

text \<open>A removal that fails part way leaves the directory and some of what is below it.\<close>

definition after_removal :: "removal \<Rightarrow> pystr \<Rightarrow> pystr list \<Rightarrow> pystr list" where
  "after_removal outcome d dirs = (case outcome of
       Whole \<Rightarrow> filter (\<lambda>x. \<not> within_tree d x) dirs
     | Untouched \<Rightarrow> dirs
     | Part rest \<Rightarrow> filter (\<lambda>x. \<not> within_tree d x \<or> x = d \<or> x \<in> set rest) dirs)"

record removed =
  rm_dirs :: "pystr list"
  rm_whole :: "pystr list"
  rm_partial :: "pystr list"
  rm_untouched :: "pystr list"
  rm_failures :: "pystr list"

definition remove_one :: "pruner \<Rightarrow> pystr \<Rightarrow> removed \<Rightarrow> removed" where
  "remove_one pe d g =
     (if pe_real pe d \<notin> set (rm_dirs g) then g
      else let g' = g\<lparr>rm_dirs := after_removal (pe_remove pe d) d (rm_dirs g)\<rparr> in
        (case pe_remove pe d of
           Untouched \<Rightarrow> g'\<lparr>rm_failures := rm_failures g @ [d], rm_untouched := rm_untouched g @ [d]\<rparr>
         | Part _ \<Rightarrow> g'\<lparr>rm_failures := rm_failures g @ [d], rm_partial := rm_partial g @ [d]\<rparr>
         | Whole \<Rightarrow> g'\<lparr>rm_whole := rm_whole g @ [d]\<rparr>))"

definition remove_all :: "pruner \<Rightarrow> pystr list \<Rightarrow> pystr list \<Rightarrow> removed" where
  "remove_all pe ds dirs = fold (remove_one pe) ds
     \<lparr>rm_dirs = dirs, rm_whole = [], rm_partial = [], rm_untouched = [], rm_failures = []\<rparr>"

text \<open>Its own payload could not be touched, or is another world's base and was not offered.\<close>

definition payload_whole :: "pruner \<Rightarrow> world \<Rightarrow> removed \<Rightarrow> bool" where
  "payload_whole pe w g \<longleftrightarrow> (let payload = pe_real pe (w_payload_path w) in
     payload \<in> set (rm_dirs g) \<and> payload \<notin> set (rm_whole g) \<and> payload \<notin> set (rm_partial g))"

record prune_result =
  px_pruned :: "pystr list"
  px_directories :: "pystr list"
  px_bytes :: int
  px_failures :: "pystr list"

fun text_join :: "pystr \<Rightarrow> pystr list \<Rightarrow> pystr" where
  "text_join sep [] = []"
| "text_join sep [x] = x"
| "text_join sep (x # y # xs) = x @ sep @ text_join sep (y # xs)"

definition prune_reason :: "prune_entry \<Rightarrow> pystr list \<Rightarrow> pystr" where
  "prune_reason e kept =
     (let n = length (pn_directories e) in
      if kept = []
      then u ''payload pruned: '' @ int_repr (int n) @ u '' directories, '' @ int_repr (pn_bytes e) @ u '' bytes''
      else u ''payload pruned in part: '' @ int_repr (int n - int (length kept)) @ u '' of '' @ int_repr (int n)
        @ u '' directories removed; not removed: '' @ text_join (u '', '') kept)"

definition prune_event :: "world \<Rightarrow> pystr \<Rightarrow> pyval" where
  "prune_event w reason = pdict [(u ''schemaVersion'', PInt 1), (u ''worldInstance'', PStr (w_instance_id w)),
     (u ''kind'', PStr (u ''prune'')), (u ''actor'', PStr (u ''worldline'')), (u ''reason'', PStr reason)]"

definition outside_store :: "pruner \<Rightarrow> pystr list \<Rightarrow> prune_entry \<Rightarrow> pystr list" where
  "outside_store pe dirs e = filter (\<lambda>d. pe_real pe d \<in> set dirs
     \<and> \<not> prefixed (pe_real pe d) (pe_real pe (pe_data pe) @ [47])) (pn_directories e)"

definition record_pruned :: "(bytes \<Rightarrow> bytes) \<Rightarrow> pystr \<Rightarrow> world \<Rightarrow> pystr \<Rightarrow> unit sact" where
  "record_pruned hb now w reason =
     sbind (save_world (w\<lparr>w_payload_pruned := True, w_pruned_at := Some now\<rparr>)) (\<lambda>_.
     sbind (append_causal_event hb now (prune_event w reason)) (\<lambda>_. ret ()))"

definition apply_entry ::
    "pruner \<Rightarrow> (bytes \<Rightarrow> bytes) \<Rightarrow> pystr \<Rightarrow> prune_entry \<Rightarrow> prune_result \<Rightarrow> prune_result kact" where
  "apply_entry pe hb now e out =
     sbind (gets (\<lambda>k. world_get (pn_instance e) (kp_store k))) (\<lambda>r. sbind (lift r) (\<lambda>w.
     sbind (gets kp_dirs) (\<lambda>dirs.
     let outside = outside_store pe dirs e in
     if outside \<noteq> [] then ret (out\<lparr>px_failures := px_failures out @ outside\<rparr>)
     else
       let g = remove_all pe (pn_directories e) dirs;
           out = out\<lparr>px_directories := px_directories out @ rm_whole g,
             px_bytes := px_bytes out + sum_list (map (pe_bytes pe) (rm_whole g)),
             px_failures := px_failures out @ rm_failures g\<rparr>
       in
       sbind (modify (\<lambda>k. k\<lparr>kp_dirs := rm_dirs g\<rparr>)) (\<lambda>_.
       if pn_leftover e then ret out
       else if payload_whole pe w g then ret out
       else
         let kept = rm_partial g @ rm_untouched g in
         sbind (in_store (record_pruned hb now w (prune_reason e kept))) (\<lambda>_.
         ret (out\<lparr>px_failures := px_failures out @ filter (\<lambda>l. \<not> pe_unlink pe l) (pn_logs e),
           px_pruned := px_pruned out @ [w_alias w]\<rparr>))))))"

fun apply_entries ::
    "pruner \<Rightarrow> (bytes \<Rightarrow> bytes) \<Rightarrow> pystr \<Rightarrow> prune_entry list \<Rightarrow> prune_result \<Rightarrow> prune_result kact" where
  "apply_entries pe hb now [] out = ret out"
| "apply_entries pe hb now (e # es) out =
     sbind (apply_entry pe hb now e out) (\<lambda>out. apply_entries pe hb now es out)"

definition apply_plan :: "pruner \<Rightarrow> (bytes \<Rightarrow> bytes) \<Rightarrow> pystr \<Rightarrow> prune_plan \<Rightarrow> prune_result kact" where
  "apply_plan pe hb now p = apply_entries pe hb now (pl_worlds p)
     \<lparr>px_pruned = [], px_directories = [], px_bytes = 0, px_failures = []\<rparr>"

definition require_payload :: "world \<Rightarrow> unit res" where
  "require_payload w = ensure (\<not> w_payload_pruned w) (WL ''PAYLOAD_PRUNED'')"

text \<open>The worlds area: sizes of the five directories, zero for one that is not there.\<close>

definition usage_of :: "pruner \<Rightarrow> pystr list \<Rightarrow> (pystr \<times> pystr) list \<Rightarrow> (pystr \<times> int) list \<times> int" where
  "usage_of pe dirs areas =
     (let sizes = map (\<lambda>(name, path). (name, if pe_real pe path \<in> set dirs then pe_bytes pe path else 0)) areas
      in (sizes, sum_list (map snd sizes)))"

end
