(* ===== verification/Prune_Laws.thy ===== *)
theory Prune_Laws
  imports Prune Commit_Laws
begin

text \<open>
  What a plan may name and what carrying it out may remove: every entry of a plan belongs to a candidate or
  to a world already pruned, its directories are its overlay or nobody else's, and no directory disappears
  that is not below one the plan names.
\<close>

section \<open>The plan\<close>

lemma offer_own:
  "d \<in> set (snd (offer pe dirs refs w path c))
    \<Longrightarrow> d \<in> set (snd c) \<or> d = pe_real pe path \<and> d \<notin> set refs \<and> d \<in> set dirs"
  by (auto simp: offer_def Let_def split: prod.splits if_splits)

lemma offers_own:
  "d \<in> set (snd (fold (offer pe dirs refs w) paths c))
    \<Longrightarrow> d \<in> set (snd c) \<or> d \<in> pe_real pe ` set paths \<and> d \<notin> set refs \<and> d \<in> set dirs"
proof (induction paths arbitrary: c)
  case (Cons path paths)
  then have "d \<in> set (snd (offer pe dirs refs w path c)) \<or> d \<in> pe_real pe ` set paths \<and> d \<notin> set refs \<and> d \<in> set dirs"
    by simp
  then show ?case using offer_own [of d pe dirs refs w path c] by auto
qed simp

definition planned :: "pruner \<Rightarrow> pystr list \<Rightarrow> pystr list \<Rightarrow> world \<Rightarrow> prune_entry \<Rightarrow> bool" where
  "planned pe dirs refs w e \<longleftrightarrow> pn_instance e = w_instance_id w
     \<and> (\<forall>d \<in> set (pn_directories e). d \<in> set dirs
          \<and> (d = pe_real pe (overlay_path pe w) \<or> d \<in> pe_real pe ` set (world_refs w) \<and> d \<notin> set refs))"

lemma planned_entry:
  assumes "\<And>d. d \<in> set own \<Longrightarrow> d \<in> set dirs
    \<and> (d = pe_real pe (overlay_path pe w) \<or> d \<in> pe_real pe ` set (world_refs w) \<and> d \<notin> set refs)"
  shows "planned pe dirs refs w (entry_of pe w own files b)"
  using assms unfolding planned_def entry_of_def by simp

lemma plan_world_entries:
  assumes "e \<in> set (snd (plan_world pe dirs refs logs w p))"
  shows "e \<in> set (snd p) \<or> planned pe dirs refs w e"
proof -
  obtain claims es where p: "p = (claims, es)" by (cases p)
  obtain c own where o: "offer pe dirs [] w (overlay_path pe w) (fold (offer pe dirs refs w) (world_refs w) (claims, []))
      = (c, own)" by fastforce
  have own: "d \<in> set dirs \<and> (d = pe_real pe (overlay_path pe w) \<or> d \<in> pe_real pe ` set (world_refs w) \<and> d \<notin> set refs)"
    if "d \<in> set own" for d
    using offer_own [of d pe dirs "[]" w "overlay_path pe w"] offers_own [of d pe dirs refs w "world_refs w" "(claims, [])"]
      o that by (metis empty_iff list.set(1) snd_conv)
  have "e \<in> set es \<or> (\<exists>files. e = entry_of pe w own files False)" using assms o
    by (auto simp: plan_world_def p Let_def split: if_splits)
  then show ?thesis using planned_entry [OF own] p by auto
qed

lemma plan_leftover_entries:
  assumes "e \<in> set (snd (plan_leftover pe dirs prot active w p))"
  shows "e \<in> set (snd p) \<or> planned pe dirs refs w e \<and> w_payload_pruned w"
proof -
  obtain claims es where p: "p = (claims, es)" by (cases p)
  obtain c own where o: "offer pe dirs [] w (overlay_path pe w) (claims, []) = (c, own)" by fastforce
  have own: "d \<in> set dirs \<and> (d = pe_real pe (overlay_path pe w) \<or> d \<in> pe_real pe ` set (world_refs w) \<and> d \<notin> set refs)"
    if "d \<in> set own" for d
    using offer_own [of d pe dirs "[]" w "overlay_path pe w" "(claims, [])"] unfolding o snd_conv using that by auto
  have "e \<in> set es \<or> e = entry_of pe w own [] True \<and> w_payload_pruned w" using assms o
    by (auto simp: plan_leftover_def p Let_def split: if_splits)
  then show ?thesis using planned_entry [OF own] p by auto
qed

lemma fold_entries:
  assumes "\<And>w p e. w \<in> set ws \<Longrightarrow> e \<in> set (snd (f w p)) \<Longrightarrow> e \<in> set (snd p) \<or> Q w e"
  shows "e \<in> set (snd (fold f ws p)) \<Longrightarrow> e \<in> set (snd p) \<or> (\<exists>w \<in> set ws. Q w e)"
  using assms
proof (induction ws arbitrary: p)
  case (Cons w ws)
  have "e \<in> set (snd (f w p)) \<or> (\<exists>v \<in> set ws. Q v e)" using Cons.IH Cons.prems by simp
  then show ?case using Cons.prems(2) [of w e p] by auto
qed simp

lemma candidates_eligible:
  assumes "candidates pe prot active cutoff keep ws = Inr cs" and "w \<in> set cs"
  shows "w \<in> set ws" and "eligible prot active w"
proof -
  let ?mark = "\<lambda>w. rbind (if eligible prot active w then old_enough pe cutoff w else Inr False) (\<lambda>b. Inr (w, b))"
  let ?time = "\<lambda>w. rbind (pe_moment pe (finished w)) (\<lambda>t. Inr (t, w))"
  obtain marked timed where m: "rmap ?mark ws = Inr marked"
      "rmap ?time (map fst (filter snd marked)) = Inr timed" and sub: "w \<in> set (map snd (sort_key fst timed))"
  proof -
    obtain marked timed where m: "rmap ?mark ws = Inr marked" "rmap ?time (map fst (filter snd marked)) = Inr timed"
      and cs: "cs = (case keep of None \<Rightarrow> map snd (sort_key fst timed)
        | Some k \<Rightarrow> if 0 < k then take (length (map snd (sort_key fst timed)) - nat k) (map snd (sort_key fst timed))
                     else map snd (sort_key fst timed))"
      using assms(1) unfolding candidates_def Let_def by (auto simp only: rbind_Inr_iff sum.inject)
    define l where "l = map snd (sort_key fst timed)"
    have "set cs \<subseteq> set l" unfolding cs l_def [symmetric]
      using set_take_subset by (auto split: option.split dest: in_set_takeD)
    then have "w \<in> set (map snd (sort_key fst timed))" using assms(2) l_def by blast
    then show ?thesis using that m by blast
  qed
  have "map snd ts = xs" if "rmap ?time xs = Inr ts" for xs ts
    using that by (induction xs arbitrary: ts) (auto simp: res_iffs)
  from arg_cong [OF this [OF m(2)], of set] have "snd ` set timed = set (map fst (filter snd marked))" by simp
  moreover have "w \<in> snd ` set timed" using sub by simp
  ultimately have "w \<in> set (map fst (filter snd marked))" by blast
  then have "(w, True) \<in> set marked" by auto
  moreover have "\<forall>v b. (v, b) \<in> set ms \<longrightarrow> v \<in> set xs \<and> (b \<longrightarrow> eligible prot active v)"
    if "rmap ?mark xs = Inr ms" for xs ms
    using that by (induction xs arbitrary: ms) (auto simp: res_iffs split: if_splits)
  ultimately show "w \<in> set ws" "eligible prot active w" using m(1) by fastforce+
qed

lemma in_concat_map: "x \<in> set xs \<Longrightarrow> y \<in> set (f x) \<Longrightarrow> y \<in> set (concat (map f xs) @ ys)"
  by auto

lemma referenced_retained:
  assumes "referenced pe pruning ws rts = Inr refs" and "w \<in> set ws" and "w_instance_id w \<notin> set pruning"
    and "\<not> w_payload_pruned w" and "q \<in> set (world_refs w)"
  shows "pe_real pe q \<in> set refs"
proof -
  obtain lives where refs: "refs = concat (map (\<lambda>w. map (pe_real pe) (world_refs w))
      (filter (\<lambda>w. w_instance_id w \<notin> set pruning \<and> \<not> w_payload_pruned w) ws)) @ lives"
    using assms(1) by (auto simp: referenced_def res_iffs)
  have "w \<in> set (filter (\<lambda>w. w_instance_id w \<notin> set pruning \<and> \<not> w_payload_pruned w) ws)" using assms(2,3,4) by simp
  moreover have "pe_real pe q \<in> set (map (pe_real pe) (world_refs w))" using assms(5) by simp
  ultimately show ?thesis unfolding refs by (rule in_concat_map)
qed

lemma prime_still: "prime s = (r, t) \<Longrightarrow> t = s"
proof -
  have "keeps (\<lambda>s. s) prime" unfolding prime_def get_meta_def by (intro keeps_intros)
  then show "prime s = (r, t) \<Longrightarrow> t = s" by (rule keepsD)
qed

lemma plan_prune_Inr:
  assumes "plan_prune pe dirs cutoff keep logs s = (Inr p, t)"
  obtains ws pr js cs refs where "t = s" and "worlds s = Inr ws" and "prime s = (Inr pr, s)" and "jobs s = Inr js"
    and "candidates pe (protected pr) (busy js) cutoff keep ws = Inr cs"
    and "referenced pe (map w_instance_id cs) ws (roots s) = Inr refs"
    and "pl_worlds p = snd (fold (plan_leftover pe dirs (protected pr) (busy js)) ws
      (fold (plan_world pe dirs refs logs) cs ([], [])))"
    and "transactions_in_state [u ''PREPARED'', u ''AUTHORIZED''] s = []"
proof -
  note run = assms [unfolded plan_prune_def run_gets run_lift run_sensure]
  have opened: "transactions_in_state [u ''PREPARED'', u ''AUTHORIZED''] s = []" using run by (simp split: if_splits)
  then obtain ws where ws: "worlds s = Inr ws" using run by (simp split: sum.splits)
  obtain r t' where p0: "prime s = (r, t')" by (cases "prime s")
  then have p1: "prime s = (r, s)" using prime_still by blast
  then obtain pr where pr: "prime s = (Inr pr, s)" using run opened ws by (cases r) simp_all
  obtain js where js: "jobs s = Inr js" using run opened ws pr by (simp split: sum.splits)
  obtain cs where cs: "candidates pe (protected pr) (busy js) cutoff keep ws = Inr cs"
    using run opened ws pr js by (simp add: Let_def run_lift split: sum.splits)
  obtain refs where refs: "referenced pe (map w_instance_id cs) ws (roots s) = Inr refs"
    using run opened ws pr js cs by (simp add: Let_def run_lift run_gets split: sum.splits)
  have "t = s \<and> pl_worlds p = snd (fold (plan_leftover pe (dirs) (protected pr) (busy js)) ws
      (fold (plan_world pe dirs refs logs) cs ([], [])))"
    using run opened ws pr js cs refs by (auto simp: Let_def run_lift run_gets ret_def split: prod.splits)
  then show ?thesis using that opened ws pr js cs refs by blast
qed

lemma plan_entries:
  assumes "plan_prune pe dirs cutoff keep logs s = (Inr p, t)" and "e \<in> set (pl_worlds p)"
  obtains ws pr js cs refs w where "worlds s = Inr ws" and "prime s = (Inr pr, s)" and "jobs s = Inr js"
    and "candidates pe (protected pr) (busy js) cutoff keep ws = Inr cs"
    and "referenced pe (map w_instance_id cs) ws (roots s) = Inr refs"
    and "w \<in> set ws" and "planned pe dirs refs w e" and "w \<in> set cs \<or> w_payload_pruned w"
proof -
  obtain ws pr js cs refs where facts: "worlds s = Inr ws" "prime s = (Inr pr, s)" "jobs s = Inr js"
    "candidates pe (protected pr) (busy js) cutoff keep ws = Inr cs"
    "referenced pe (map w_instance_id cs) ws (roots s) = Inr refs"
    "pl_worlds p = snd (fold (plan_leftover pe dirs (protected pr) (busy js)) ws
      (fold (plan_world pe dirs refs logs) cs ([], [])))"
    by (rule plan_prune_Inr [OF assms(1)])
  have "e \<in> set (snd (fold (plan_world pe dirs refs logs) cs ([], [])))
      \<or> (\<exists>w \<in> set ws. planned pe dirs refs w e \<and> w_payload_pruned w)"
    using assms(2) unfolding facts(6) by (rule fold_entries [rotated]) (rule plan_leftover_entries)
  moreover have "e \<in> set (snd (fold (plan_world pe dirs refs logs) cs ([], [])))
      \<Longrightarrow> e \<in> set (snd ([] :: claims, [] :: prune_entry list)) \<or> (\<exists>w \<in> set cs. planned pe dirs refs w e)"
    by (rule fold_entries) (rule plan_world_entries)
  ultimately obtain w where "planned pe dirs refs w e" "w \<in> set cs \<or> w \<in> set ws \<and> w_payload_pruned w" by auto
  then show ?thesis using that facts candidates_eligible(1) [OF facts(4)] by blast
qed

section \<open>What disappears\<close>

lemma after_removal_keeps:
  "x \<in> set dirs \<Longrightarrow> x \<notin> set (after_removal outcome d dirs) \<Longrightarrow> within_tree d x"
  by (cases outcome) (auto simp: after_removal_def)

lemma remove_one_dirs:
  "x \<in> set (rm_dirs g) \<Longrightarrow> x \<notin> set (rm_dirs (remove_one pe d g)) \<Longrightarrow> pe_real pe d \<in> set (rm_dirs g) \<and> within_tree d x"
  by (auto simp: remove_one_def Let_def dest: after_removal_keeps split: removal.splits if_splits)

lemma remove_one_shrinks: "set (rm_dirs (remove_one pe d g)) \<subseteq> set (rm_dirs g)"
  by (auto simp: remove_one_def Let_def after_removal_def split: removal.splits)

lemma remove_all_dirs:
  "x \<in> set (rm_dirs g) \<Longrightarrow> x \<notin> set (rm_dirs (fold (remove_one pe) ds g))
    \<Longrightarrow> \<exists>d \<in> set ds. pe_real pe d \<in> set (rm_dirs g) \<and> within_tree d x"
proof (induction ds arbitrary: g)
  case (Cons d ds)
  show ?case
  proof (cases "x \<in> set (rm_dirs (remove_one pe d g))")
    case True
    then show ?thesis using Cons.IH [OF True] Cons.prems(2) remove_one_shrinks [of pe d g] by auto
  next
    case False
    then show ?thesis using remove_one_dirs [OF Cons.prems(1)] by auto
  qed
qed simp

lemma remove_all_shrinks: "set (rm_dirs (fold (remove_one pe) ds g)) \<subseteq> set (rm_dirs g)"
  by (induction ds arbitrary: g) (use remove_one_shrinks in fastforce)+

lemma remove_all_removes:
  assumes "x \<in> set dirs" and "x \<notin> set (rm_dirs (remove_all pe ds dirs))"
  shows "\<exists>d \<in> set ds. pe_real pe d \<in> set dirs \<and> within_tree d x"
  using remove_all_dirs [of x "\<lparr>rm_dirs = dirs, rm_whole = [], rm_partial = [], rm_untouched = [], rm_failures = []\<rparr>"]
    assms by (simp add: remove_all_def)

lemma remove_all_subset: "set (rm_dirs (remove_all pe ds dirs)) \<subseteq> set dirs"
  unfolding remove_all_def by (rule order_trans [OF remove_all_shrinks]) simp

text \<open>An entry either changes nothing, or removes what it names and then leaves the store or records its world.\<close>

lemma apply_entry_run:
  assumes "apply_entry pe hb now e out k = (r, k')"
  defines "g \<equiv> remove_all pe (pn_directories e) (kp_dirs k)"
  obtains (refused) "k' = k" and "\<forall>out'. r = Inr out' \<longrightarrow> px_pruned out' = px_pruned out \<and> outside_store pe (kp_dirs k) e \<noteq> []"
  | (kept) w out' where "world_get (pn_instance e) (kp_store k) = Inr w" and "outside_store pe (kp_dirs k) e = []"
      and "k' = k\<lparr>kp_dirs := rm_dirs g\<rparr>" and "r = Inr out'" and "px_pruned out' = px_pruned out"
      and "pn_leftover e \<or> payload_whole pe w g"
  | (recorded) w reason x t where "world_get (pn_instance e) (kp_store k) = Inr w" and "outside_store pe (kp_dirs k) e = []"
      and "k' = k\<lparr>kp_dirs := rm_dirs g, kp_store := t\<rparr>" and "\<not> pn_leftover e" and "\<not> payload_whole pe w g"
      and "record_pruned hb now w reason (kp_store k) = (x, t)"
      and "\<forall>out'. r = Inr out' \<longrightarrow> x = Inr () \<and> px_pruned out' = px_pruned out @ [w_alias w]"
proof (cases "world_get (pn_instance e) (kp_store k)")
  case (Inl x)
  then show ?thesis using assms(1) by (intro refused) (auto simp: apply_entry_def run_gets run_lift)
next
  case (Inr w)
  show ?thesis
  proof (cases "outside_store pe (kp_dirs k) e = []")
    case False
    then show ?thesis using assms(1) Inr by (intro refused) (auto simp: apply_entry_def run_gets run_lift ret_def)
  next
    case inside: True
    show ?thesis
    proof (cases "pn_leftover e \<or> payload_whole pe w g")
      case True
      then have "k' = k\<lparr>kp_dirs := rm_dirs g\<rparr>" "\<exists>out'. r = Inr out' \<and> px_pruned out' = px_pruned out"
        using assms(1) Inr inside unfolding g_def
        by (auto simp: apply_entry_def run_gets run_lift run_modify Let_def ret_def split: if_splits)
      then show ?thesis using kept [OF Inr inside] True by blast
    next
      case False
      define reason where "reason = prune_reason e (rm_partial g @ rm_untouched g)"
      obtain x t where rec: "record_pruned hb now w reason (kp_store k) = (x, t)" by fastforce
      have "in_store (record_pruned hb now w reason) (k\<lparr>kp_dirs := rm_dirs g\<rparr>)
          = (x, k\<lparr>kp_dirs := rm_dirs g, kp_store := t\<rparr>)" using rec by (simp add: in_store_def)
      then have "k' = k\<lparr>kp_dirs := rm_dirs g, kp_store := t\<rparr>
          \<and> (\<forall>out'. r = Inr out' \<longrightarrow> x = Inr () \<and> px_pruned out' = px_pruned out @ [w_alias w])"
        using assms(1) Inr inside False unfolding g_def reason_def
        by (cases x) (auto simp: apply_entry_def run_gets run_lift run_modify Let_def ret_def)
      then show ?thesis using recorded [OF Inr inside _ _ _ rec] False by blast
    qed
  qed
qed

section \<open>The rows of the worlds\<close>

definition rows_at :: "pystr \<Rightarrow> store \<Rightarrow> world_row list" where
  "rows_at i s = filter (\<lambda>r. wr_instance_id r = i) (st_worlds s)"

definition row_ids :: "store \<Rightarrow> pystr list" where
  "row_ids s = map wr_instance_id (st_worlds s)"

lemma keeps_event_worlds: "keeps st_worlds (append_causal_event hb now event)"
  unfolding append_causal_event_def Let_def by (intro keeps_intros; simp)+

lemma save_world_rows:
  assumes "save_world w s = (x, t)"
  shows "row_ids t = row_ids s" and "i \<noteq> w_instance_id w \<Longrightarrow> rows_at i t = rows_at i s"
proof -
  have "t = s \<or> x = Inr ()" using assms
    by (auto simp: save_world_def sbind_def lift_def gets_def sensure_def modify_def split: sum.splits if_splits)
  then consider "t = s" | r where "row_of_world w = Inr r"
      "t = s\<lparr>st_worlds := update_where (\<lambda>y. wr_instance_id y = w_instance_id w) (\<lambda>_. r) (st_worlds s)\<rparr>"
    using assms save_world_Inr [of w s "()" t] by auto
  then have "row_ids t = row_ids s \<and> (i \<noteq> w_instance_id w \<longrightarrow> rows_at i t = rows_at i s)"
  proof cases
    case 2
    have "map wr_instance_id (update_where (\<lambda>y. wr_instance_id y = w_instance_id w) (\<lambda>_. r) rows) = map wr_instance_id rows
        \<and> (i \<noteq> w_instance_id w \<longrightarrow> filter (\<lambda>r. wr_instance_id r = i)
            (update_where (\<lambda>y. wr_instance_id y = w_instance_id w) (\<lambda>_. r) rows) = filter (\<lambda>r. wr_instance_id r = i) rows)"
      for rows using row_of_world_ids [OF 2(1)] by (induction rows) (auto simp: update_where_def)
    then show ?thesis using 2(2) by (simp add: row_ids_def rows_at_def)
  qed simp
  then show "row_ids t = row_ids s" "i \<noteq> w_instance_id w \<Longrightarrow> rows_at i t = rows_at i s" by blast+
qed

lemma record_pruned_rows:
  assumes "record_pruned hb now w reason s = (x, t)"
  shows "row_ids t = row_ids s" and "i \<noteq> w_instance_id w \<Longrightarrow> rows_at i t = rows_at i s"
proof -
  obtain y v where v: "save_world (w\<lparr>w_payload_pruned := True, w_pruned_at := Some now\<rparr>) s = (y, v)" by fastforce
  have "st_worlds t = st_worlds v"
  proof (cases y)
    case (Inl e)
    then show ?thesis using assms v by (simp add: record_pruned_def)
  next
    case (Inr z)
    obtain q q' where q: "append_causal_event hb now (prune_event w reason) v = (q, q')" by fastforce
    then have "t = q'" using assms v Inr by (cases q) (simp_all add: record_pruned_def ret_def)
    then show ?thesis using keepsD [OF keeps_event_worlds q] by simp
  qed
  then show "row_ids t = row_ids s" "i \<noteq> w_instance_id w \<Longrightarrow> rows_at i t = rows_at i s"
    using save_world_rows [OF v] by (simp_all add: row_ids_def rows_at_def)
qed

lemma world_get_instance:
  assumes "world_get i s = Inr w" and "i \<in> set (row_ids s)"
  shows "w_instance_id w = i"
proof -
  obtain r where r: "List.find (\<lambda>r. wr_instance_id r = i) (st_worlds s) = Some r"
    using assms(2) by (cases "List.find (\<lambda>r. wr_instance_id r = i) (st_worlds s)")
      (auto simp: row_ids_def find_None_iff)
  then have "wr_instance_id r = i" by (auto simp: find_Some_iff)
  then show ?thesis using assms(1) r world_from_row_id
    by (auto simp: world_get_def world_lookup_def res_iffs)
qed

lemma apply_entry_frame:
  assumes "apply_entry pe hb now e out k = (r, k')" and "pn_instance e \<in> set (row_ids (kp_store k))"
  shows "row_ids (kp_store k') = row_ids (kp_store k)"
    and "i \<noteq> pn_instance e \<Longrightarrow> rows_at i (kp_store k') = rows_at i (kp_store k)"
    and "x \<in> set (kp_dirs k) \<Longrightarrow> x \<notin> set (kp_dirs k') \<Longrightarrow> \<exists>d \<in> set (pn_directories e). within_tree d x
      \<and> prefixed (pe_real pe d) (pe_real pe (pe_data pe) @ [47])"
    and "set (kp_dirs k') \<subseteq> set (kp_dirs k)"
proof -
  have rows: "row_ids (kp_store k') = row_ids (kp_store k)
      \<and> (i \<noteq> pn_instance e \<longrightarrow> rows_at i (kp_store k') = rows_at i (kp_store k))"
    using assms(1)
  proof (cases rule: apply_entry_run)
    case (recorded w reason x t)
    then show ?thesis using world_get_instance [OF recorded(1) assms(2)] record_pruned_rows [OF recorded(6)] by simp
  qed simp_all
  then show "row_ids (kp_store k') = row_ids (kp_store k)"
    and "i \<noteq> pn_instance e \<Longrightarrow> rows_at i (kp_store k') = rows_at i (kp_store k)" by blast+
  have dirs: "k' = k \<or> outside_store pe (kp_dirs k) e = [] \<and> kp_dirs k' = rm_dirs (remove_all pe (pn_directories e) (kp_dirs k))"
    using assms(1) by (cases rule: apply_entry_run) simp_all
  show "set (kp_dirs k') \<subseteq> set (kp_dirs k)" using dirs remove_all_subset [of pe "pn_directories e" "kp_dirs k"] by auto
  show "\<exists>d \<in> set (pn_directories e). within_tree d x \<and> prefixed (pe_real pe d) (pe_real pe (pe_data pe) @ [47])"
    if here: "x \<in> set (kp_dirs k)" and lost: "x \<notin> set (kp_dirs k')"
  proof -
    have run: "outside_store pe (kp_dirs k) e = []" "kp_dirs k' = rm_dirs (remove_all pe (pn_directories e) (kp_dirs k))"
      using dirs here lost by auto
    then obtain d where "d \<in> set (pn_directories e)" "pe_real pe d \<in> set (kp_dirs k)" "within_tree d x"
      using remove_all_removes [OF here] lost by force
    then show ?thesis using run(1) by (auto simp: outside_store_def filter_empty_conv)
  qed
qed

lemma apply_entries_frame:
  assumes "apply_entries pe hb now es out k = (r, k')" and "\<And>e. e \<in> set es \<Longrightarrow> pn_instance e \<in> set (row_ids (kp_store k))"
  shows "i \<notin> pn_instance ` set es \<Longrightarrow> rows_at i (kp_store k') = rows_at i (kp_store k)"
    and "x \<in> set (kp_dirs k) \<Longrightarrow> x \<notin> set (kp_dirs k') \<Longrightarrow> \<exists>e \<in> set es. \<exists>d \<in> set (pn_directories e). within_tree d x
      \<and> prefixed (pe_real pe d) (pe_real pe (pe_data pe) @ [47])"
proof -
  have "(i \<notin> pn_instance ` set es \<longrightarrow> rows_at i (kp_store k') = rows_at i (kp_store k))
      \<and> (x \<in> set (kp_dirs k) \<longrightarrow> x \<notin> set (kp_dirs k') \<longrightarrow> (\<exists>e \<in> set es. \<exists>d \<in> set (pn_directories e). within_tree d x
      \<and> prefixed (pe_real pe d) (pe_real pe (pe_data pe) @ [47])))"
    using assms
  proof (induction es arbitrary: out k)
    case Nil
    then show ?case by (simp add: ret_def)
  next
    case (Cons e es)
    obtain y v where v: "apply_entry pe hb now e out k = (y, v)" by fastforce
    have here: "pn_instance e \<in> set (row_ids (kp_store k))" using Cons.prems(2) by simp
    note frame = apply_entry_frame [OF v here]
    show ?case
    proof (cases y)
      case (Inl z)
      then have "k' = v" using Cons.prems(1) v by simp
      then show ?thesis using frame(2) [of i] frame(3) [of x] by auto
    next
      case (Inr out')
      then have rest: "apply_entries pe hb now es out' v = (r, k')" using Cons.prems(1) v by simp
      have "(i \<notin> pn_instance ` set es \<longrightarrow> rows_at i (kp_store k') = rows_at i (kp_store v))
        \<and> (x \<in> set (kp_dirs v) \<longrightarrow> x \<notin> set (kp_dirs k') \<longrightarrow> (\<exists>e \<in> set es. \<exists>d \<in> set (pn_directories e). within_tree d x
          \<and> prefixed (pe_real pe d) (pe_real pe (pe_data pe) @ [47])))"
        by (rule Cons.IH [OF rest]) (use Cons.prems(2) frame(1) in simp)
      then show ?thesis using frame(2) [of i] frame(3) [of x] by auto
    qed
  qed
  then show "i \<notin> pn_instance ` set es \<Longrightarrow> rows_at i (kp_store k') = rows_at i (kp_store k)"
    and "x \<in> set (kp_dirs k) \<Longrightarrow> x \<notin> set (kp_dirs k') \<Longrightarrow> \<exists>e \<in> set es. \<exists>d \<in> set (pn_directories e). within_tree d x
      \<and> prefixed (pe_real pe d) (pe_real pe (pe_data pe) @ [47])" by blast+
qed

end
