(* ===== verification/Prune_Claims.thy ===== *)
theory Prune_Claims
  imports Prune_Laws
begin

text \<open>
  What pruning promises: the living keep their payloads, a world is recorded as pruned only when its payload
  is not whole, and every record is an event of a chain that still verifies. The sample is a store with a
  dead world and a living one that share a base.
\<close>

section \<open>The living keep their payloads\<close>

text \<open>
  The layout of the store: no payload is at or below an overlay, none is strictly below another.
\<close>

definition laid_out :: "pruner \<Rightarrow> world list \<Rightarrow> bool" where
  "laid_out pe ws \<longleftrightarrow> list_all (\<lambda>w. list_all (\<lambda>v. list_all (\<lambda>q.
       \<not> within_tree (pe_real pe (overlay_path pe v)) (pe_real pe q)
       \<and> list_all (\<lambda>q'. \<not> prefixed (pe_real pe q) (pe_real pe q' @ [47])) (world_refs v)) (world_refs w)) ws) ws"

lemma plan_entry_rows:
  assumes "worlds s = Inr ws" and "w \<in> set ws"
  shows "w_instance_id w \<in> set (row_ids s)"
proof -
  obtain vs where vs: "rmap world_from_row (sort_key (\<lambda>r. (wr_born r, wr_instance_id r)) (st_worlds s)) = Inr vs"
      "ws = map (\<lambda>w. w\<lparr>w_descendants := descendant_count (w_instance_id w) s\<rparr>) vs"
    using assms(1) by (auto simp: worlds_def res_iffs)
  then have "w_instance_id w \<in> w_instance_id ` set vs" using assms(2) by auto
  then show ?thesis using rmap_world_ids [OF vs(1)] by (simp add: row_ids_def)
qed

lemma plan_spares:
  assumes "plan_prune pe dirs cutoff keep logs s = (Inr p, t)" and "worlds s = Inr ws"
    and "prime s = (Inr pr, s)" and "jobs s = Inr js" and "distinct (map w_instance_id ws)"
    and "w \<in> set ws" and "\<not> w_payload_pruned w" and "\<not> eligible (protected pr) (busy js) w"
    and "e \<in> set (pl_worlds p)"
  shows "pn_instance e \<noteq> w_instance_id w"
    and "\<lbrakk>laid_out pe ws; q \<in> set (world_refs w); d \<in> set (pn_directories e)\<rbrakk> \<Longrightarrow> \<not> within_tree d (pe_real pe q)"
    and "pn_instance e \<in> set (row_ids s)"
proof -
  obtain cs refs v where cs: "candidates pe (protected pr) (busy js) cutoff keep ws = Inr cs"
    and refs: "referenced pe (map w_instance_id cs) ws (roots s) = Inr refs" and v: "v \<in> set ws"
    and e: "planned pe dirs refs v e" and why: "v \<in> set cs \<or> w_payload_pruned v"
    using plan_entries [OF assms(1,9)] assms(2,3,4) by (metis Pair_inject option.inject sum.inject(2))
  have same: "x = y" if "x \<in> set ws" "y \<in> set ws" "w_instance_id x = w_instance_id y" for x y
    using assms(5) that by (meson distinct_map inj_onD)
  have "v \<noteq> w" using why assms(7,8) candidates_eligible(2) [OF cs] by blast
  then show "pn_instance e \<noteq> w_instance_id w" using e same [OF v assms(6)] by (auto simp: planned_def)
  show "pn_instance e \<in> set (row_ids s)" using e plan_entry_rows [OF assms(2) v] by (simp add: planned_def)
  have "w_instance_id w \<notin> set (map w_instance_id cs)"
  proof
    assume "w_instance_id w \<in> set (map w_instance_id cs)"
    then obtain x where "x \<in> set cs" "w_instance_id x = w_instance_id w" by auto
    then show False using candidates_eligible [OF cs] same [OF _ assms(6)] assms(8) by blast
  qed
  then have ref: "pe_real pe q \<in> set refs" if "q \<in> set (world_refs w)" for q
    by (rule referenced_retained [OF refs assms(6) _ assms(7) that])
  show "\<not> within_tree d (pe_real pe q)"
    if laid: "laid_out pe ws" and q: "q \<in> set (world_refs w)" and d: "d \<in> set (pn_directories e)"
  proof -
    have apart: "\<not> within_tree (pe_real pe (overlay_path pe v)) (pe_real pe q)"
        "q' \<in> set (world_refs v) \<Longrightarrow> \<not> prefixed (pe_real pe q) (pe_real pe q' @ [47])" for q'
      using laid q v assms(6) by (auto simp: laid_out_def list_all_iff)
    consider "d = pe_real pe (overlay_path pe v)" | q' where "d = pe_real pe q'" "q' \<in> set (world_refs v)" "d \<notin> set refs"
      using e d by (auto simp: planned_def)
    then show ?thesis
    proof cases
      case 2
      then show ?thesis using apart(2) [of q'] ref [OF q] by (auto simp: within_tree_def)
    qed (use apart(1) in simp)
  qed
qed


section \<open>A record is honest\<close>

lemma remove_one_lists:
  "set (rm_whole (remove_one pe d g)) \<subseteq> insert d (set (rm_whole g))"
  "d' \<in> set (rm_partial (remove_one pe d g)) \<Longrightarrow> d' \<in> set (rm_partial g) \<or> d' = d \<and> (\<exists>rest. pe_remove pe d = Part rest)"
  by (auto simp: remove_one_def Let_def split: removal.splits if_splits)

lemma remove_one_whole:
  "d' \<in> set (rm_whole (remove_one pe d g)) \<Longrightarrow> d' \<in> set (rm_whole g) \<or> d' = d \<and> d' \<notin> set (rm_dirs (remove_one pe d g))"
  by (auto simp: remove_one_def Let_def after_removal_def within_tree_def split: removal.splits if_splits)

lemma remove_all_lists:
  "d \<in> set (rm_whole (remove_all pe ds dirs)) \<Longrightarrow> d \<notin> set (rm_dirs (remove_all pe ds dirs))"
  "d \<in> set (rm_partial (remove_all pe ds dirs)) \<Longrightarrow> d \<in> set ds \<and> (\<exists>rest. pe_remove pe d = Part rest)"
proof -
  have "(d \<in> set (rm_whole (fold (remove_one pe) ds g)) \<longrightarrow>
        d \<in> set (rm_whole g) \<and> d \<in> set (rm_dirs g) \<or> d \<notin> set (rm_dirs (fold (remove_one pe) ds g)))
      \<and> (d \<in> set (rm_partial (fold (remove_one pe) ds g)) \<longrightarrow>
        d \<in> set (rm_partial g) \<or> d \<in> set ds \<and> (\<exists>rest. pe_remove pe d = Part rest))" for g
  proof (induction ds arbitrary: g)
    case (Cons x ds)
    show ?case using Cons.IH [of "remove_one pe x g"] remove_one_whole [of d pe x g] remove_one_lists(2) [of d pe x g]
        remove_one_shrinks [of pe x g] by auto
  qed simp
  from this [of "\<lparr>rm_dirs = dirs, rm_whole = [], rm_partial = [], rm_untouched = [], rm_failures = []\<rparr>"]
  show "d \<in> set (rm_whole (remove_all pe ds dirs)) \<Longrightarrow> d \<notin> set (rm_dirs (remove_all pe ds dirs))"
    and "d \<in> set (rm_partial (remove_all pe ds dirs)) \<Longrightarrow> d \<in> set ds \<and> (\<exists>rest. pe_remove pe d = Part rest)"
    by (simp_all add: remove_all_def)
qed

lemma record_pruned_Inr:
  assumes "record_pruned hb now w reason s = (Inr x, t)"
  obtains v ids where "save_world (w\<lparr>w_payload_pruned := True, w_pruned_at := Some now\<rparr>) s = (Inr (), v)"
    and "append_causal_event hb now (prune_event w reason) v = (Inr ids, t)"
  using assms unfolding record_pruned_def by (elim act_elims) auto

lemma recorded_row:
  assumes "record_pruned hb now w reason s = (Inr x, t)" and "dicts_ok w"
  shows "\<exists>v. world_get (w_instance_id w) t = Inr v \<and> w_payload_pruned v \<and> require_payload v = Inl (WL ''PAYLOAD_PRUNED'')"
proof -
  let ?w = "w\<lparr>w_payload_pruned := True, w_pruned_at := Some now\<rparr>"
  obtain v ids where save: "save_world ?w s = (Inr (), v)"
    and app: "append_causal_event hb now (prune_event w reason) v = (Inr ids, t)"
    by (rule record_pruned_Inr [OF assms(1)])
  have "st_worlds t = st_worlds v" using keepsD [OF keeps_event_worlds app] .
  then have "world_get (w_instance_id w) t = world_get (w_instance_id w) v"
    by (simp add: world_get_def descendant_count_def)
  moreover have "dicts_ok ?w" using assms(2) by (simp add: dicts_ok_def)
  ultimately show ?thesis using save_world_lookup [OF save]
    by (simp add: stored_def require_payload_def)
qed


section \<open>Every record is an event\<close>

lemma record_pruned_chain:
  assumes "record_pruned hb now w reason s = (Inr x, t)" and "verify_chains hb s = Inr (n, m)" and "paths_apart s"
  shows "verify_chains hb t = Inr (Suc n, m)" and "paths_apart t"
proof -
  obtain v ids where save: "save_world (w\<lparr>w_payload_pruned := True, w_pruned_at := Some now\<rparr>) s = (Inr (), v)"
    and app: "append_causal_event hb now (prune_event w reason) v = (Inr ids, t)"
    by (rule record_pruned_Inr [OF assms(1)])
  obtain rows where v: "v = s\<lparr>st_worlds := rows\<rparr>" using save unfolding save_world_Inr by blast
  have "verify_chains hb v = Inr (n, m)" "paths_apart v"
    using assms(2,3) by (simp_all add: v verify_chains_def paths_apart_def)
  then show "verify_chains hb t = Inr (Suc n, m)" "paths_apart t" using append_event_verifies [OF app] by blast+
qed

lemma apply_entries_chain:
  assumes "apply_entries pe hb now es out k = (Inr out', k')" and "verify_chains hb (kp_store k) = Inr (n, m)"
    and "paths_apart (kp_store k)"
  shows "\<exists>names. px_pruned out' = px_pruned out @ names \<and> verify_chains hb (kp_store k') = Inr (n + length names, m)
    \<and> paths_apart (kp_store k')"
  using assms
proof (induction es arbitrary: out k n)
  case Nil
  then show ?case by (auto simp: ret_def)
next
  case (Cons e es)
  obtain mid v where v: "apply_entry pe hb now e out k = (Inr mid, v)"
    and rest: "apply_entries pe hb now es mid v = (Inr out', k')"
    using Cons.prems(1) by (auto simp: sbind_Inr_iff)
  from v have "\<exists>names. px_pruned mid = px_pruned out @ names \<and> verify_chains hb (kp_store v) = Inr (n + length names, m)
      \<and> paths_apart (kp_store v)"
  proof (cases rule: apply_entry_run)
    case (recorded w reason x t)
    have x: "x = Inr ()" "px_pruned mid = px_pruned out @ [w_alias w]" using recorded(7) by blast+
    have "kp_store v = t" using recorded(3) by simp
    then show ?thesis using record_pruned_chain [OF recorded(6) [unfolded x(1)] Cons.prems(2,3)] x(2)
      by (intro exI [of _ "[w_alias w]"]) simp
  next
    case refused
    then show ?thesis using Cons.prems(2,3) by (intro exI [of _ "[]"]) simp
  next
    case (kept w out2)
    then show ?thesis using Cons.prems(2,3) by (intro exI [of _ "[]"]) simp
  qed
  then obtain names where names: "px_pruned mid = px_pruned out @ names"
      "verify_chains hb (kp_store v) = Inr (n + length names, m)" "paths_apart (kp_store v)" by blast
  obtain more where "px_pruned out' = px_pruned mid @ more"
      "verify_chains hb (kp_store k') = Inr (n + length names + length more, m)" "paths_apart (kp_store k')"
    using Cons.IH [OF rest names(2,3)] by blast
  then show ?case using names(1) by (intro exI [of _ "names @ more"]) (simp add: add.assoc)
qed

text \<open>
  Every world that is recorded as pruned is an event of the causal chain: after a completed prune of a
  store whose chains verify, the chains verify, with one event more for each world it names and no receipt
  more or less.
\<close>
theorem prune_keeps_chains:
  assumes "apply_plan pe hb now p k = (Inr out, k')" and "verify_chains hb (kp_store k) = Inr (n, m)"
    and "paths_apart (kp_store k)"
  shows "verify_chains hb (kp_store k') = Inr (n + length (px_pruned out), m) \<and> paths_apart (kp_store k')"
  using apply_entries_chain [OF assms(1) [unfolded apply_plan_def] assms(2,3)] by simp

section \<open>A sample\<close>

definition dead_world :: world where
  "dead_world = sample_world\<lparr>w_instance_id := u ''d'', w_alias := u ''dead'', w_state := DEAD, w_ended := Some (u ''t''),
     w_payload_path := u ''/s/d'', w_base_payload_path := u ''/s/b''\<rparr>"

definition living_world :: world where
  "living_world = sample_world\<lparr>w_payload_path := u ''/s/i'', w_base_payload_path := u ''/s/b''\<rparr>"

definition prune_store :: store where
  "prune_store = snd (insert_world living_world (snd (insert_world dead_world empty_store)))"

definition sample_pruner :: pruner where
  "sample_pruner = \<lparr>pe_real = (\<lambda>p. p), pe_data = u ''/s'', pe_overlays = u ''/o'', pe_bytes = (\<lambda>_. 10),
     pe_source = (\<lambda>_. Inl ValueError), pe_moment = (\<lambda>_. Inr 0), pe_logs = (\<lambda>_. []), pe_remove = (\<lambda>_. Whole),
     pe_unlink = (\<lambda>_. True)\<rparr>"

definition prune_keeper :: keeper where
  "prune_keeper = \<lparr>kp_store = prune_store, kp_dirs = [u ''/s/d'', u ''/s/b'', u ''/s/i'']\<rparr>"

lemma row_fields:
  "row_of_world w = Inr r \<Longrightarrow> wr_alias r = w_alias w \<and> wr_born r = w_born w \<and> wr_parent_instance r = w_parent_instance w
     \<and> wr_content_id r = w_content_id w \<and> wr_world_kind r = w_world_kind w \<and> wr_complexity r = w_complexity w
     \<and> wr_risk r = w_risk w"
  by (auto simp: row_of_world_def res_iffs simp del: validate.simps)

lemma variant_columns: "valid_columns dead_world" "valid_columns living_world"
  using sample_columns by (simp_all add: valid_columns_def dead_world_def living_world_def del: validate.simps)

lemma prune_rows:
  obtains rd ri where "row_of_world dead_world = Inr rd" and "row_of_world living_world = Inr ri"
    and "prune_store = empty_store\<lparr>st_worlds := [rd, ri]\<rparr>"
proof -
  obtain rd ri where r: "row_of_world dead_world = Inr rd" "row_of_world living_world = Inr ri"
    using variant_columns [THEN valid_columns_row] by blast
  note f = row_fields [OF r(1)] row_fields [OF r(2)] row_of_world_ids [OF r(1)] row_of_world_ids [OF r(2)]
  have "world_constraints rd []" "world_constraints ri [rd]" using f
    by (simp_all add: world_constraints_def levels_def dead_world_def living_world_def sample_world_def)
  then have "insert_world dead_world empty_store = (Inr (), empty_store\<lparr>st_worlds := [rd]\<rparr>)"
    and "insert_world living_world (empty_store\<lparr>st_worlds := [rd]\<rparr>) = (Inr (), empty_store\<lparr>st_worlds := [rd, ri]\<rparr>)"
    unfolding insert_world_Inr using r by (simp_all add: empty_store_def)
  then show thesis using that [OF r] by (simp add: prune_store_def)
qed

lemma prune_worlds:
  obtains v w where "worlds prune_store = Inr [v, w]" and "world_get (u ''d'') prune_store = Inr v"
    and "v = stored dead_world\<lparr>w_descendants := w_descendants v\<rparr>" and "w = stored living_world\<lparr>w_descendants := w_descendants w\<rparr>"
proof -
  obtain rd ri where r: "row_of_world dead_world = Inr rd" "row_of_world living_world = Inr ri"
    and s: "prune_store = empty_store\<lparr>st_worlds := [rd, ri]\<rparr>" by (rule prune_rows)
  note f = row_fields [OF r(1)] row_fields [OF r(2)] row_of_world_ids [OF r(1)] row_of_world_ids [OF r(2)]
  have ok: "dicts_ok dead_world" "dicts_ok living_world"
    by (simp_all add: dicts_ok_def dead_world_def living_world_def sample_world_def identity_components_def)
  note reads = world_from_row_of_world [OF r(1) ok(1)] world_from_row_of_world [OF r(2) ok(2)]
  have "sort_key (\<lambda>r. (wr_born r, wr_instance_id r)) [rd, ri] = [rd, ri]" using f
    by (simp add: dead_world_def living_world_def sample_world_def u_def)
  then have "worlds prune_store = Inr [stored dead_world\<lparr>w_descendants := descendant_count (u ''d'') prune_store\<rparr>,
      stored living_world\<lparr>w_descendants := descendant_count (u ''i'') prune_store\<rparr>]"
    using reads by (simp add: worlds_def s stored_def dead_world_def living_world_def sample_world_def)
  moreover have "world_get (u ''d'') prune_store = Inr (stored dead_world\<lparr>w_descendants := descendant_count (u ''d'') prune_store\<rparr>)"
    using reads(1) f by (simp add: world_get_def world_lookup_def s dead_world_def sample_world_def)
  ultimately show thesis by (rule that) simp_all
qed

lemma event_appends:
  assumes "world_get (w_instance_id w) s = Inr v" and "w_instance_id w \<in> set (map wr_instance_id (st_worlds s))"
    and "st_events s = []" and "encodable reason" and "encodable (w_instance_id w)"
  shows "\<exists>ids t. append_causal_event constant_hash now (prune_event w reason) s = (Inr ids, t)"
proof -
  have "validate (prune_event w reason) = Inr ()" unfolding prune_event_def validate_pdict using assms(4,5) by simp
  then obtain b where b: "canonical_bytes (prune_event w reason) = Inr b" by (simp add: canonical_bytes_def)
  have ids: "pget (prune_event w reason) (u ''schemaVersion'') PNone = Inr (PInt 1)"
      "pget (prune_event w reason) (u ''worldInstance'') (PStr []) = Inr (PStr (w_instance_id w))"
      "pget (prune_event w reason) (u ''kind'') (PStr (u ''event'')) = Inr (PStr (u ''prune''))"
    unfolding prune_event_def pget_pdict by (simp_all add: u_def)
  show ?thesis
    unfolding append_causal_event_def Let_def
    using assms(2) by (simp add: act_run ids eq_int_def assms(1) b assms(3) last_row_def previous_chain_def core_link_def
        constant_roots hash_id_ok event_constraints_def ret_def del: list.set_map)
qed

lemma stored_columns: "valid_columns (stored dead_world)"
proof -
  have same: "w_evidence dead_world = PDict []" "w_workspace dead_world = PDict []" "w_delta dead_world = PDict []"
      "w_conflicts dead_world = []" "w_contamination dead_world = []"
    by (simp_all add: dead_world_def sample_world_def)
  have empty: "norm (PDict []) = PDict []" by (simp add: norm.simps)
  have "validate (components_value (sort_key fst (w_components dead_world))) = Inr ()"
    using variant_columns(1) unfolding valid_columns_def valid_components set_sort by blast
  then show ?thesis using variant_columns(1)
    by (simp add: valid_columns_def stored_def same empty del: validate.simps)
qed

lemma stored_dicts: "dicts_ok (stored dead_world)"
proof -
  have same: "w_evidence dead_world = PDict []" "w_workspace dead_world = PDict []" "w_delta dead_world = PDict []"
      "w_conflicts dead_world = []" "w_contamination dead_world = []"
    by (simp_all add: dead_world_def sample_world_def)
  have empty: "norm (PDict []) = PDict []" by (simp add: norm.simps)
  have "distinct (dkeys (w_components dead_world))"
    by (simp add: dead_world_def sample_world_def identity_components_def)
  then have "distinct (dkeys (sort_key fst (w_components dead_world)))" by (simp add: distinct_map)
  then show ?thesis by (simp add: dicts_ok_def stored_def same empty)
qed

lemma sample_recorded:
  assumes "world_get (u ''d'') prune_store = Inr v" and "v = stored dead_world\<lparr>w_descendants := w_descendants v\<rparr>"
    and "encodable reason"
  shows "\<exists>t. record_pruned constant_hash (u ''now'') v reason prune_store = (Inr (), t)"
proof -
  let ?v = "v\<lparr>w_payload_pruned := True, w_pruned_at := Some (u ''now'')\<rparr>"
  obtain rd ri where r: "row_of_world dead_world = Inr rd" "row_of_world living_world = Inr ri"
    and s: "prune_store = empty_store\<lparr>st_worlds := [rd, ri]\<rparr>" by (rule prune_rows)
  note f = row_fields [OF r(2)] row_of_world_ids [OF r(1)] row_of_world_ids [OF r(2)]
  have vf: "w_instance_id v = u ''d''" "w_alias v = u ''dead''" "w_parent_instance v = None" "w_content_id v = None"
      "w_world_kind v = u ''computational''" "w_complexity v = u ''LOW''" "w_risk v = u ''LOW''"
    by (subst assms(2), simp add: stored_def dead_world_def sample_world_def)+
  have "valid_columns ?v" using stored_columns by (subst assms(2)) (simp add: valid_columns_def del: validate.simps)
  then obtain x where x: "row_of_world ?v = Inr x" using valid_columns_row [of ?v] by blast
  have "world_constraints x [ri]" using row_fields [OF x] row_of_world_ids [OF x] vf f
    by (simp add: world_constraints_def levels_def living_world_def sample_world_def u_def)
  moreover have "filter (\<lambda>y. wr_instance_id y \<noteq> u ''d'') [rd, ri] = [ri]" using f
    by (simp add: dead_world_def living_world_def sample_world_def u_def)
  moreover have "wr_instance_id rd = u ''d''" using f by (simp add: dead_world_def)
  moreover have rows: "st_worlds prune_store = [rd, ri]" by (simp add: s)
  ultimately have "\<exists>r. row_of_world ?v = Inr r \<and> (\<exists>y \<in> set (st_worlds prune_store). wr_instance_id y = w_instance_id ?v)
      \<and> world_constraints r (filter (\<lambda>y. wr_instance_id y \<noteq> w_instance_id ?v) (st_worlds prune_store))"
    unfolding rows using x vf(1) by (intro exI [of _ x]) simp
  then obtain t where t: "save_world ?v prune_store = (Inr (), t)" using save_world_Inr [of ?v prune_store "()"] by blast
  then have rows_t: "st_worlds t = update_where (\<lambda>y. wr_instance_id y = u ''d'') (\<lambda>_. x) [rd, ri]" "st_events t = []"
  proof -
    obtain r where "row_of_world ?v = Inr r" "t = prune_store\<lparr>st_worlds :=
        update_where (\<lambda>y. wr_instance_id y = w_instance_id ?v) (\<lambda>_. r) (st_worlds prune_store)\<rparr>"
      using t unfolding save_world_Inr by blast
    then have "t = prune_store\<lparr>st_worlds := update_where (\<lambda>y. wr_instance_id y = u ''d'') (\<lambda>_. x) [rd, ri]\<rparr>"
      using x vf(1) rows by simp
    then show "st_worlds t = update_where (\<lambda>y. wr_instance_id y = u ''d'') (\<lambda>_. x) [rd, ri]" "st_events t = []"
      by (simp_all add: s empty_store_def)
  qed
  have "dicts_ok ?v" using stored_dicts by (subst assms(2)) (simp add: dicts_ok_def)
  then obtain v' where "world_get (w_instance_id v) t = Inr v'" using save_world_lookup [OF t] by auto
  moreover have "w_instance_id v \<in> set (map wr_instance_id (st_worlds t))" "st_events t = []"
    using row_of_world_ids [OF x] vf(1) \<open>wr_instance_id rd = u ''d''\<close> rows_t by (simp_all add: update_where_def)
  ultimately obtain ids t' where "append_causal_event constant_hash (u ''now'') (prune_event v reason) t = (Inr ids, t')"
    using event_appends [of v t v' reason] assms(3) vf(1) by (metis encodable_u)
  then show ?thesis using t by (simp add: record_pruned_def ret_def)
qed

lemma sample_plan:
  obtains p v w where "plan_prune sample_pruner (kp_dirs prune_keeper) None None False prune_store = (Inr p, prune_store)"
    and "pl_worlds p = [entry_of sample_pruner v [u ''/s/d''] [] False]"
    and "world_get (u ''d'') prune_store = Inr v" and "v = stored dead_world\<lparr>w_descendants := w_descendants v\<rparr>"
    and "worlds prune_store = Inr [v, w]" and "w = stored living_world\<lparr>w_descendants := w_descendants w\<rparr>"
proof -
  obtain v w where ws: "worlds prune_store = Inr [v, w]" and get: "world_get (u ''d'') prune_store = Inr v"
    and v: "v = stored dead_world\<lparr>w_descendants := w_descendants v\<rparr>"
    and w: "w = stored living_world\<lparr>w_descendants := w_descendants w\<rparr>" by (rule prune_worlds)
  have vf: "w_instance_id v = u ''d''" "w_state v = DEAD" "w_payload_pruned v = False" "w_payload_path v = u ''/s/d''"
      "w_base_payload_path v = u ''/s/b''"
    by (subst v, simp add: stored_def dead_world_def sample_world_def)+
  have wf: "w_instance_id w = u ''i''" "w_state w = MUTABLE" "w_payload_pruned w = False" "w_payload_path w = u ''/s/i''"
      "w_base_payload_path w = u ''/s/b''"
    by (subst w, simp add: stored_def living_world_def sample_world_def)+
  obtain rd ri where s: "prune_store = empty_store\<lparr>st_worlds := [rd, ri]\<rparr>" by (rule prune_rows)
  have empty: "transactions_in_state l prune_store = []" "jobs prune_store = Inr []" "roots prune_store = []" for l
    by (simp_all add: s empty_store_def transactions_in_state_def jobs_def roots_def)
  have prime: "prime prune_store = (Inr None, prune_store)"
  proof -
    have "get_meta (u ''primeInstance'') PNone prune_store = (Inr PNone, prune_store)"
      by (simp add: get_meta_def run_gets s empty_store_def json_load_def lift_def)
    then show ?thesis by (simp add: prime_def truthy_def ret_def)
  qed
  have cs: "candidates sample_pruner [] [] None None [v, w] = Inr [v]"
    using vf wf by (simp add: candidates_def eligible_def old_enough_def prunable_states_def sample_pruner_def)
  have refs: "referenced sample_pruner [u ''d''] [v, w] [] = Inr [u ''/s/i'', u ''/s/b'']"
    using vf wf by (simp add: referenced_def world_refs_def sample_pruner_def u_def)
  have plan: "fold (plan_leftover sample_pruner (kp_dirs prune_keeper) [] []) [v, w]
      (fold (plan_world sample_pruner (kp_dirs prune_keeper) [u ''/s/i'', u ''/s/b''] False) [v] ([], []))
      = ([(u ''/s/d'', 10, w_alias v)], [entry_of sample_pruner v [u ''/s/d''] [] False])"
  proof -
    let ?offer = "offer sample_pruner (kp_dirs prune_keeper)"
    have apart: "u ''/s/d'' \<notin> {u ''/s/i'', u ''/s/b''}" "u ''/o'' @ 47 # u ''d'' \<notin> {u ''/s/d'', u ''/s/i'', u ''/s/b''}"
      by (simp_all add: u_def)
    have offers: "?offer [u ''/s/i'', u ''/s/b''] v (u ''/s/d'') ([], []) = ([(u ''/s/d'', 10, w_alias v)], [u ''/s/d''])"
        "?offer [u ''/s/i'', u ''/s/b''] v (u ''/s/b'') c = c"
        "?offer [] v (overlay_path sample_pruner v) c = c" for c
      using apart by (auto simp: offer_def Let_def overlay_path_def prune_keeper_def sample_pruner_def vf split: prod.splits)
    have "plan_world sample_pruner (kp_dirs prune_keeper) [u ''/s/i'', u ''/s/b''] False v ([], [])
        = ([(u ''/s/d'', 10, w_alias v)], [entry_of sample_pruner v [u ''/s/d''] [] False])"
      by (simp add: plan_world_def world_refs_def vf offers)
    then show ?thesis by (simp add: plan_leftover_def vf wf)
  qed
  have "plan_prune sample_pruner (kp_dirs prune_keeper) None None False prune_store
      = (Inr \<lparr>pl_worlds = [entry_of sample_pruner v [u ''/s/d''] [] False], pl_directories = [(u ''/s/d'', 10, w_alias v)],
          pl_bytes = 10, pl_protected = []\<rparr>, prune_store)"
    by (simp add: plan_prune_def run_gets run_sensure run_lift empty ws prime cs refs plan [simplified] Let_def
        protected_def busy_def vf ret_def)
  then show thesis by (rule that [OF _ _ get v ws w]) simp
qed

definition sample_entry :: "world \<Rightarrow> prune_entry" where
  "sample_entry v = entry_of sample_pruner v [u ''/s/d''] [] False"

lemma sample_apply:
  assumes "world_get (u ''d'') prune_store = Inr v" and "v = stored dead_world\<lparr>w_descendants := w_descendants v\<rparr>"
  obtains out' k' where "apply_entry sample_pruner constant_hash (u ''now'') (sample_entry v) out prune_keeper = (Inr out', k')"
    and "px_pruned out' = px_pruned out @ [u ''dead'']" and "kp_dirs k' = [u ''/s/b'', u ''/s/i'']"
proof -
  have vf: "w_instance_id v = u ''d''" "w_alias v = u ''dead''" "w_payload_path v = u ''/s/d''"
    by (subst assms(2), simp add: stored_def dead_world_def sample_world_def)+
  have e: "pn_instance (sample_entry v) = u ''d''" "pn_directories (sample_entry v) = [u ''/s/d'']"
      "pn_leftover (sample_entry v) = False" "pn_logs (sample_entry v) = []"
    by (simp_all add: sample_entry_def entry_of_def vf)
  have outside: "outside_store sample_pruner (kp_dirs prune_keeper) (sample_entry v) = []"
    by (simp add: outside_store_def e sample_pruner_def u_def prefixed_def)
  have g: "remove_all sample_pruner [u ''/s/d''] (kp_dirs prune_keeper) = \<lparr>rm_dirs = [u ''/s/b'', u ''/s/i''],
      rm_whole = [u ''/s/d''], rm_partial = [], rm_untouched = [], rm_failures = []\<rparr>"
    by (simp add: remove_all_def remove_one_def Let_def after_removal_def within_tree_def sample_pruner_def prune_keeper_def u_def
        prefixed_def)
  have gone: "\<not> payload_whole sample_pruner v (remove_all sample_pruner [u ''/s/d''] (kp_dirs prune_keeper))"
    unfolding payload_whole_def Let_def g by (simp add: vf sample_pruner_def)
  have "encodable (prune_reason (sample_entry v) [])"
    by (simp add: prune_reason_def encodable_append encodable_int_repr)
  then obtain t where "record_pruned constant_hash (u ''now'') v (prune_reason (sample_entry v) []) prune_store = (Inr (), t)"
    using sample_recorded [OF assms] by blast
  then have "in_store (record_pruned constant_hash (u ''now'') v (prune_reason (sample_entry v) []))
      (prune_keeper\<lparr>kp_dirs := [u ''/s/b'', u ''/s/i'']\<rparr>) = (Inr (), prune_keeper\<lparr>kp_dirs := [u ''/s/b'', u ''/s/i''], kp_store := t\<rparr>)"
    by (simp add: in_store_def prune_keeper_def)
  moreover have "kp_store prune_keeper = prune_store" by (simp add: prune_keeper_def)
  ultimately show thesis using that assms(1) outside gone
    by (simp add: apply_entry_def e run_gets run_lift run_modify Let_def g vf ret_def)
qed

lemma sample_laid_out:
  assumes "v = stored dead_world\<lparr>w_descendants := w_descendants v\<rparr>" and "w = stored living_world\<lparr>w_descendants := w_descendants w\<rparr>"
  shows "laid_out sample_pruner [v, w]"
proof -
  have "world_refs v = [u ''/s/d'', u ''/s/b'']" "overlay_path sample_pruner v = u ''/o'' @ 47 # u ''d''"
    by (subst assms(1), simp add: world_refs_def overlay_path_def sample_pruner_def stored_def dead_world_def sample_world_def)+
  moreover have "world_refs w = [u ''/s/i'', u ''/s/b'']" "overlay_path sample_pruner w = u ''/o'' @ 47 # u ''i''"
    by (subst assms(2), simp add: world_refs_def overlay_path_def sample_pruner_def stored_def living_world_def sample_world_def)+
  ultimately show ?thesis by (simp add: laid_out_def) (simp add: within_tree_def sample_pruner_def u_def prefixed_def)
qed



theorem prune_keeps_chains_witness:
  "\<exists>p out k'. apply_plan sample_pruner constant_hash (u ''now'') p prune_keeper = (Inr out, k')
     \<and> verify_chains constant_hash (kp_store k') = Inr (1, 0)"
proof -
  obtain p v w where plan: "plan_prune sample_pruner (kp_dirs prune_keeper) None None False prune_store = (Inr p, prune_store)"
    and entries: "pl_worlds p = [entry_of sample_pruner v [u ''/s/d''] [] False]"
    and get: "world_get (u ''d'') prune_store = Inr v" and v: "v = stored dead_world\<lparr>w_descendants := w_descendants v\<rparr>"
    and ws: "worlds prune_store = Inr [v, w]" and w: "w = stored living_world\<lparr>w_descendants := w_descendants w\<rparr>"
    by (rule sample_plan)
  let ?out = "\<lparr>px_pruned = [], px_directories = [], px_bytes = 0, px_failures = []\<rparr>"
  obtain out k' where a: "apply_entry sample_pruner constant_hash (u ''now'') (sample_entry v) ?out prune_keeper = (Inr out, k')"
    and out: "px_pruned out = px_pruned ?out @ [u ''dead'']" using sample_apply [OF get v, of ?out] by blast
  have run: "apply_plan sample_pruner constant_hash (u ''now'') p prune_keeper = (Inr out, k')"
    using a by (simp add: apply_plan_def entries sample_entry_def ret_def)
  obtain rd ri where s: "prune_store = empty_store\<lparr>st_worlds := [rd, ri]\<rparr>" by (rule prune_rows)
  have "verify_chains constant_hash (kp_store prune_keeper) = Inr (0, 0)" "paths_apart (kp_store prune_keeper)"
    by (simp_all add: prune_keeper_def s empty_store_def verify_chains_def paths_apart_def u_def)
  then show ?thesis using prune_keeps_chains [OF run] run out by fastforce
qed

section \<open>A shared payload\<close>

text \<open>
  Two finished worlds are pruned together, and the base of the first is the payload of the second: the
  payload goes with the first, and the second has no entry, so it is never recorded as pruned.
\<close>

definition base_world :: world where
  "base_world = dead_world\<lparr>w_instance_id := u ''b'', w_alias := u ''base'', w_payload_path := u ''/s/b''\<rparr>"

lemma shared_payload_is_not_recorded:
  "map (\<lambda>e. (pn_instance e, pn_directories e))
     (snd (fold (plan_world sample_pruner (kp_dirs prune_keeper) [] False) [dead_world, base_world] ([], [])))
   = [(u ''d'', [u ''/s/d'', u ''/s/b''])]"
  "eligible [] [] base_world \<and> w_payload_path base_world = u ''/s/b''"
  by (simp_all add: plan_world_def offer_def Let_def world_refs_def overlay_path_def sample_pruner_def prune_keeper_def
      base_world_def dead_world_def sample_world_def entry_of_def eligible_def prunable_states_def u_def)

end
