(* ===== verification/Checkpoint.thy ===== *)
theory Checkpoint
  imports Commit Delta
begin

text \<open>
  \<open>runtime/worldline/checkpoint.py\<close>: PRIME is frozen into a new generation, from which worlds are forked
  and to which a return is compared. What the pending events of the watcher do to the store, the
  generations it reports before and after, the trees of the roots, the repository facts and the outcome of
  copying a tree (\<open>Manifest.materialize\<close>) are arguments; the manifests and the state files are files of the
  store, the copied trees are not.
\<close>

record freezing =
  fz_gate :: "unit res"
  fz_uuid :: pystr
  fz_generations :: pystr
  fz_watch :: "(unit sact \<times> int \<times> int) option"
  fz_reconcile :: "unit sact option"
  fz_tree :: "root_row \<Rightarrow> node res"
  fz_repository :: "node \<Rightarrow> pyval res"
  fz_copy :: "root_row \<Rightarrow> unit res"

record frozen =
  fp_generation :: pystr
  fp_parent_instance :: pystr
  fp_parent_content :: pystr
  fp_payload :: pystr
  fp_state_root :: pystr
  fp_workspace :: pyval
  fp_root_set_hash :: pystr
  fp_manifests :: "(pystr \<times> captured) list"

definition freeze_directory :: "freezing \<Rightarrow> pystr" where
  "freeze_directory z = below (fz_generations z) (fz_uuid z)"

definition freeze_payload :: "freezing \<Rightarrow> pystr" where
  "freeze_payload z = below (freeze_directory z) (u ''payload'')"

definition manifests_of :: "pystr \<Rightarrow> pystr" where
  "manifests_of payload = below payload (u ''manifests'')"

definition freeze_root ::
    "(bytes \<Rightarrow> bytes) \<Rightarrow> freezing \<Rightarrow> root_row \<Rightarrow> (pystr \<times> captured) list \<Rightarrow> (pystr \<times> captured) list sact" where
  "freeze_root hb z row ms =
     sbind (lift (fz_tree z row)) (\<lambda>tree.
     sbind (lift (if rt_kind row = u ''repo'' then fz_repository z tree else Inr PNone)) (\<lambda>repository.
     sbind (lift (capture hb {} (rt_path row) (rt_key row) (rt_kind row) repository tree)) (\<lambda>m.
     sbind (lift (fz_copy z row)) (\<lambda>_.
     sbind (write_file (below (manifests_of (freeze_payload z)) (rt_key row @ u ''.json'')) (cm_canonical m)) (\<lambda>_.
     ret (dset (rt_key row) m ms))))))"

fun freeze_roots ::
    "(bytes \<Rightarrow> bytes) \<Rightarrow> freezing \<Rightarrow> root_row list \<Rightarrow> (pystr \<times> captured) list \<Rightarrow> (pystr \<times> captured) list sact" where
  "freeze_roots hb z [] ms = ret ms"
| "freeze_roots hb z (row # rows) ms = sbind (freeze_root hb z row ms) (freeze_roots hb z rows)"

text \<open>Everything after the directories were made: whatever is raised takes the generation away with it.\<close>

definition taking_away :: "pystr \<Rightarrow> 'a sact \<Rightarrow> 'a sact" where
  "taking_away directory m s =
     (case m s of (Inr x, t) \<Rightarrow> (Inr x, t) | (Inl e, t) \<Rightarrow> (Inl e, snd (rmtree directory t)))"

definition freeze_content :: "(bytes \<Rightarrow> bytes) \<Rightarrow> freezing \<Rightarrow> world \<Rightarrow> pystr \<Rightarrow> frozen sact" where
  "freeze_content hb z parent content =
     sbind (gets roots) (\<lambda>rows.
     sbind (freeze_roots hb z rows []) (\<lambda>ms.
     sbind (copy_state_files (manifests_of (w_payload_path parent)) (manifests_of (freeze_payload z))) (\<lambda>_.
     sbind (sensure (case fz_watch z of None \<Rightarrow> True | Some (_, before, after) \<Rightarrow> before = after)
       (WL ''PRIME_CHANGED_DURING_CAPTURE'')) (\<lambda>_.
     sbind (lift (root_set_hash hb (map snd ms))) (\<lambda>state_root.
     sbind (lift (registered_root_set hb rows)) (\<lambda>root_set.
     ret \<lparr>fp_generation = fz_uuid z, fp_parent_instance = w_instance_id parent, fp_parent_content = content,
       fp_payload = freeze_payload z, fp_state_root = state_root, fp_workspace = w_workspace parent,
       fp_root_set_hash = root_set, fp_manifests = ms\<rparr>))))))"

definition freeze_begin :: "freezing \<Rightarrow> (world \<times> pystr) sact" where
  "freeze_begin z =
     sbind (lift (fz_gate z)) (\<lambda>_.
     sbind (case fz_watch z of None \<Rightarrow> ret () | Some (drain, _) \<Rightarrow> drain) (\<lambda>_.
     sbind (case fz_reconcile z of None \<Rightarrow> ret ()
       | Some reconcile \<Rightarrow> sbind (get_meta (u ''dirty'') (PBool False)) (\<lambda>d. if truthy d then reconcile else ret ())) (\<lambda>_.
     sbind prime (\<lambda>found.
     sbind (lift (req (WL ''NO_PRIME'') found)) (\<lambda>parent.
     sbind (lift (req (WL ''NO_PRIME'') (w_content_id parent))) (\<lambda>content.
     sbind (gets roots) (\<lambda>rows.
     sbind (sensure (fz_watch z \<noteq> None \<or> rows = []) (WL ''PRIME_WATCH_UNAVAILABLE'')) (\<lambda>_.
     ret (parent, content)))))))))"

definition freeze :: "(bytes \<Rightarrow> bytes) \<Rightarrow> freezing \<Rightarrow> frozen sact" where
  "freeze hb z =
     sbind (freeze_begin z) (\<lambda>(parent, content).
     taking_away (freeze_directory z) (freeze_content hb z parent content))"

end
