(* ===== verification/Returning.thy ===== *)
theory Returning
  imports Checkpoint Prune Prepare
begin

text \<open>
  \<open>runtime/worldline/returning.py\<close>: the return to a former reality. A checkpoint is selected, its payload is
  verified against its stored manifests or against what the store recorded when it was displaced, and a
  candidate made of it goes through the preparation and the commit of every transaction. The trees below a
  payload, \<open>None\<close> where no directory is there, and the outcome of copying one are arguments.
\<close>

record returning =
  rv_now :: pystr
  rv_uuid :: pystr
  rv_worlds :: pystr
  rv_tree :: "pystr \<Rightarrow> root_row \<Rightarrow> node option"
  rv_copy :: "root_row \<Rightarrow> unit res"

section \<open>The point of return\<close>

definition returnable_states :: "world_state set" where
  "returnable_states = {ARCHIVED, COLLAPSED, VALID}"

definition return_target :: "pystr option \<Rightarrow> world sact" where
  "return_target value =
     (case value of
        Some v \<Rightarrow> sbind (gets (world_get v)) lift
      | None \<Rightarrow>
          sbind prime (\<lambda>found.
          sbind (lift (req (WL ''NO_RETURN_POINT'') (Option.bind found w_parent_instance))) (\<lambda>parent.
          sbind (gets (world_get parent)) lift)))"

definition select_point :: "pystr option \<Rightarrow> world sact" where
  "select_point value =
     sbind (return_target value) (\<lambda>w.
     sbind (sensure (w_state w \<in> returnable_states) (WL ''INVALID_RETURN_POINT'')) (\<lambda>_.
     sbind (lift (require_payload w)) (\<lambda>_. ret w)))"

section \<open>What the point holds\<close>

text \<open>The stored manifests, \<open>None\<close> when one is missing or no longer matches its tree.\<close>

fun stored_point ::
    "(bytes \<Rightarrow> bytes) \<Rightarrow> returning \<Rightarrow> store \<Rightarrow> pystr \<Rightarrow> root_row list \<Rightarrow> (pystr \<times> captured) list option res" where
  "stored_point hb v s payload [] = Inr (Some [])"
| "stored_point hb v s payload (row # rows) =
     rbind (req (WL ''RETURN_POINT_INCOMPLETE'') (rv_tree v payload row)) (\<lambda>tree.
     case declared_manifest s payload row of
       None \<Rightarrow> Inr None
     | Some data \<Rightarrow>
         rbind (load hb data) (\<lambda>m.
         case verify_content hb m tree of
           Inl e \<Rightarrow> if e = failed then Inr None else Inl e
         | Inr _ \<Rightarrow> rbind (stored_point hb v s payload rows) (\<lambda>rest. Inr (map_option ((#) (rt_key row, m)) rest))))"

definition fresh_root ::
    "(bytes \<Rightarrow> bytes) \<Rightarrow> returning \<Rightarrow> pystr \<Rightarrow> root_row \<Rightarrow> (pystr \<times> captured) res" where
  "fresh_root hb v payload row =
     rbind (req OSError (rv_tree v payload row)) (\<lambda>tree.
     rbind (capture hb {} (rt_path row) (rt_key row) (rt_kind row) PNone tree) (\<lambda>m. Inr (rt_key row, m)))"

text \<open>The newest committed receipt that recorded this state as the one it displaced.\<close>

fun receipt_displacing :: "pystr \<Rightarrow> store \<Rightarrow> receipt_row list \<Rightarrow> pystr option" where
  "receipt_displacing root_hash s [] = None"
| "receipt_displacing root_hash s (r # rs) =
     (case read_json (rc_path r) s of
        Inr (PDict kvs) \<Rightarrow>
          if eq_str (mget kvs (u ''beforeRoot'')) root_hash
          then Some (if truthy (mget kvs (u ''receiptId'')) then py_str (mget kvs (u ''receiptId'')) else rc_transaction r)
          else receipt_displacing root_hash s rs
      | _ \<Rightarrow> receipt_displacing root_hash s rs)"

datatype displacement = Exchange pystr | Supersession pystr

definition displacement_witness :: "store \<Rightarrow> world \<Rightarrow> pystr \<Rightarrow> displacement option res" where
  "displacement_witness s selected root_hash =
     (case receipt_displacing root_hash s (rev (receipts s)) of
        Some r \<Rightarrow> Inr (Some (Exchange r))
      | None \<Rightarrow>
          rbind (worlds s) (\<lambda>ws. Inr (map_option (\<lambda>w. Supersession (w_alias w))
            (List.find (\<lambda>w. w_parent_instance w = Some (w_instance_id selected) \<and> prefixed (w_alias w) (u ''prime-'')
              \<and> w_base_root w = root_hash) ws))))"

definition return_point ::
    "(bytes \<Rightarrow> bytes) \<Rightarrow> returning \<Rightarrow> world \<Rightarrow> root_row list \<Rightarrow> store \<Rightarrow> (pystr \<times> captured) list res" where
  "return_point hb v selected rows s =
     rbind (stored_point hb v s (w_payload_path selected) rows) (\<lambda>stored.
     case stored of
       Some ms \<Rightarrow> Inr ms
     | None \<Rightarrow>
         rbind (rmap (fresh_root hb v (w_payload_path selected)) rows) (\<lambda>fresh.
         rbind (root_set_hash hb (map snd fresh)) (\<lambda>observed.
         rbind (displacement_witness s selected observed) (\<lambda>witness.
         rbind (ensure (witness \<noteq> None) failed) (\<lambda>_. Inr fresh)))))"

section \<open>The candidate of a return\<close>

text \<open>Every root: the manifest of the frozen PRIME, and the copy of the point with its manifest.\<close>

fun return_roots ::
    "(bytes \<Rightarrow> bytes) \<Rightarrow> returning \<Rightarrow> frozen \<Rightarrow> pystr \<Rightarrow> (pystr \<times> captured) list \<Rightarrow> root_row list
       \<Rightarrow> (pystr \<times> captured) list sact" where
  "return_roots hb v f payload ms [] = ret []"
| "return_roots hb v f payload ms (row # rows) =
     sbind (gets (\<lambda>s. declared_manifest s (fp_payload f) row)) (\<lambda>found.
     sbind (lift (rbind (req OSError found) (load hb))) (\<lambda>base.
     sbind (lift (req KeyError (dget ms (rt_key row)))) (\<lambda>m.
     sbind (lift (rv_copy v row)) (\<lambda>_.
     sbind (write_file (below (manifests_of payload) (rt_key row @ u ''.json'')) (cm_canonical m)) (\<lambda>_.
     sbind (return_roots hb v f payload ms rows) (\<lambda>rest.
     ret ((rt_key row, base) # rest)))))))"

definition return_mission :: "(bytes \<Rightarrow> bytes) \<Rightarrow> world \<Rightarrow> pystr res" where
  "return_mission hb selected =
     rbind (ensure (list_all (\<lambda>c. c < 128) (w_instance_id selected)) ValueError) (\<lambda>_.
     hash_id (hb (''worldline-return-v1'' @ utf8_encode (w_instance_id selected))))"

definition return_world ::
    "(bytes \<Rightarrow> bytes) \<Rightarrow> returning \<Rightarrow> frozen \<Rightarrow> world \<Rightarrow> (pystr \<times> captured) list \<Rightarrow> delta_result \<Rightarrow> world res" where
  "return_world hb v f selected ms delta =
     rbind (return_mission hb selected) (\<lambda>mission.
     rbind (create (rv_uuid v) (rv_now v) \<lparr>
         r_alias = u ''return-'' @ w_alias selected @ u ''-'' @ take 8 (rv_uuid v),
         r_parent_instance = Some (fp_parent_instance f), r_parent_content = fp_parent_content f,
         r_cause = u ''Return to '' @ w_alias selected, r_actor = u ''worldline'',
         r_payload_path = below (below (rv_worlds v) (rv_uuid v)) (u ''payload''), r_base_payload_path = fp_payload f,
         r_base_root = fp_state_root f, r_root_set_hash = fp_root_set_hash f, r_mission_hash = mission,
         r_workspace = Some (w_workspace selected), r_world_kind = u ''computational''\<rparr>) (\<lambda>w.
     rbind (component_roots hb (map snd ms)) (\<lambda>components.
     rbind (req KeyError (dget (w_components selected) (u ''environment''))) (\<lambda>environment.
     rbind (req KeyError (dget (w_components selected) (u ''evidence''))) (\<lambda>evidence.
     rbind (pitem (dl_value delta) (u ''summary'')) (\<lambda>summary.
     rbind (pitem (dl_value delta) (u ''operations'')) (\<lambda>operations.
     rbind (transition (rv_now v) FINALIZING (w\<lparr>
         w_components := dset (u ''evidence'') evidence (dset (u ''environment'') environment components),
         w_evidence := w_evidence selected, w_delta_hash := Some (dl_hash delta),
         w_delta := dict_with summary [(u ''files'', operations)]\<rparr>)) (\<lambda>w.
     rbind (establish_identity hb w) (\<lambda>(w, _).
     transition (rv_now v) VALID w)))))))))"

definition return_candidate :: "(bytes \<Rightarrow> bytes) \<Rightarrow> freezing \<Rightarrow> returning \<Rightarrow> world \<Rightarrow> world sact" where
  "return_candidate hb z v selected =
     (let payload = below (below (rv_worlds v) (rv_uuid v)) (u ''payload'') in
     sbind (freeze hb z) (\<lambda>f.
     sbind (gets roots) (\<lambda>rows.
     sbind (gets (return_point hb v selected rows)) (\<lambda>found. sbind (lift found) (\<lambda>ms.
     sbind (return_roots hb v f payload ms rows) (\<lambda>base.
     sbind (copy_state_files (manifests_of (w_payload_path selected)) (manifests_of payload)) (\<lambda>_.
     sbind (lift (compute_all hb base ms)) (\<lambda>delta.
     sbind (lift (return_world hb v f selected ms delta)) (\<lambda>w.
     sbind (insert_world w) (\<lambda>_. ret w))))))))))"

text \<open>\<open>execute\<close>: the return is a transaction like any other.\<close>

definition execute_return ::
    "(bytes \<Rightarrow> bytes) \<Rightarrow> tx_env \<Rightarrow> pystr \<Rightarrow> freezing \<Rightarrow> returning \<Rightarrow> preparation \<Rightarrow> readings
       \<Rightarrow> (world \<Rightarrow> unit sact) \<Rightarrow> finish_input \<Rightarrow> exchange_outcome \<Rightarrow> pystr option \<Rightarrow> fields eact" where
  "execute_return hb env now z v p rd stop fi outcome value =
     sbind (on_store (select_point value)) (\<lambda>selected.
     sbind (on_store (return_candidate hb z v selected)) (\<lambda>candidate.
     sbind (prepare hb env now p (w_instance_id candidate) (u ''return'') (Some (w_instance_id selected))) (\<lambda>prepared.
     sbind (lift (text_item (PDict prepared) (u ''transaction_id''))) (\<lambda>i.
     commit hb env now rd stop fi outcome i))))"

end
