(* ===== verification/Checkpoint_Claims.thy ===== *)
theory Checkpoint_Claims
  imports Returning Prune_Laws Prepare_Sample
begin

text \<open>
  What a frozen PRIME and a return promise: a frozen generation is one captured reality, a refused freeze
  leaves nothing behind, and a return restores only a state that was real.
\<close>

section \<open>Freezing\<close>

text \<open>What the loop over the roots captured.\<close>

definition frozen_root :: "(bytes \<Rightarrow> bytes) \<Rightarrow> freezing \<Rightarrow> root_row \<Rightarrow> captured \<Rightarrow> bool" where
  "frozen_root hb z row m \<longleftrightarrow> fz_copy z row = Inr () \<and> (\<exists>tree repository. fz_tree z row = Inr tree
     \<and> (if rt_kind row = u ''repo'' then fz_repository z tree = Inr repository else repository = PNone)
     \<and> capture hb {} (rt_path row) (rt_key row) (rt_kind row) repository tree = Inr m)"

lemma freeze_root_Inr:
  assumes "freeze_root hb z row ms s = (Inr ms', t)"
  shows "\<exists>m. frozen_root hb z row m \<and> ms' = dset (rt_key row) m ms \<and> t = s\<lparr>st_files := dset
    (below (manifests_of (freeze_payload z)) (rt_key row @ u ''.json'')) (cm_canonical m) (st_files s)\<rparr>"
  using assms unfolding freeze_root_def write_file_def
  by (elim act_elims) (auto simp: frozen_root_def split: if_splits)

lemma freeze_roots_Inr:
  assumes "freeze_roots hb z rows ms s = (Inr ms', t)"
  shows "\<exists>captures. list_all2 (frozen_root hb z) rows captures
    \<and> ms' = fold (\<lambda>(k, v). dset k v) (zip (map rt_key rows) captures) ms"
  using assms
proof (induction rows arbitrary: ms s)
  case Nil
  then show ?case by (simp add: ret_def)
next
  case (Cons row rows)
  obtain mid v where mid: "freeze_root hb z row ms s = (Inr mid, v)" and rest: "freeze_roots hb z rows mid v = (Inr ms', t)"
    using Cons.prems(1) by (auto simp: sbind_Inr_iff)
  obtain m where m: "frozen_root hb z row m" "mid = dset (rt_key row) m ms" using freeze_root_Inr [OF mid] by blast
  obtain captures where "list_all2 (frozen_root hb z) rows captures"
    and "ms' = fold (\<lambda>(k, v). dset k v) (zip (map rt_key rows) captures) mid"
    using Cons.IH [OF rest] by blast
  then show ?case using m by (intro exI [of _ "m # captures"]) simp
qed

lemma freeze_begin_Inr:
  assumes "freeze_begin z s = (Inr (parent, content), t)"
  shows "prime t = (Inr (Some parent), t)" and "w_content_id parent = Some content"
    and "fz_watch z \<noteq> None \<or> roots t = []" and "fz_gate z = Inr ()"
proof -
  define tail where "tail = (\<lambda>found :: world option.
       sbind (lift (req (WL ''NO_PRIME'') found)) (\<lambda>parent.
       sbind (lift (req (WL ''NO_PRIME'') (w_content_id parent))) (\<lambda>content.
       sbind (gets roots) (\<lambda>rows.
       sbind (sensure (fz_watch z \<noteq> None \<or> rows = []) (WL ''PRIME_WATCH_UNAVAILABLE'')) (\<lambda>_.
       ret (parent, content))))))"
  have "\<exists>a b v w found. lift (fz_gate z) s = (Inr a, b) \<and> prime v = (Inr found, w) \<and> tail found w = (Inr (parent, content), t)"
    using assms unfolding freeze_begin_def tail_def [symmetric] by (simp only: sbind_Inr_iff) blast
  then obtain a b v w found where gate: "lift (fz_gate z) s = (Inr a, b)" and found: "prime v = (Inr found, w)"
    and drained: "tail found w = (Inr (parent, content), t)" by blast
  have [simp]: "w = v" using prime_still [OF found] .
  have rest: "found = Some parent \<and> w_content_id parent = Some content \<and> (fz_watch z \<noteq> None \<or> roots v = []) \<and> t = v"
    using drained unfolding tail_def by (elim act_elims) (auto simp: req_Inr_iff)
  show "prime t = (Inr (Some parent), t)" "w_content_id parent = Some content"
    "fz_watch z \<noteq> None \<or> roots t = []" using rest found by simp_all
  show "fz_gate z = Inr ()" using gate by (simp add: lift_def)
qed

lemma taking_away_Inr: "taking_away d m s = (Inr x, t) \<longleftrightarrow> m s = (Inr x, t)"
  by (cases "m s") (auto simp: taking_away_def split: sum.splits)

text \<open>The loops write below the directory of the new generation and change nothing else.\<close>

lemma below_generation: "inside d (below (manifests_of (below d p)) name)"
  by (simp add: inside_def below_def manifests_of_def prefixed_def)

lemma keeps_outside [keeps_intros]:
  "keeps (\<lambda>s. s\<lparr>st_files := []\<rparr>) (write_file p b)"
  "q \<noteq> p \<Longrightarrow> keeps (\<lambda>s. dget (st_files s) q) (write_file p b)"
  unfolding write_file_def by (intro keeps_intros; simp add: dget_dset)+

lemma keeps_freeze_roots:
  assumes "\<And>name b. keeps f (write_file (below (manifests_of (freeze_payload z)) name) b)"
  shows "keeps f (freeze_roots hb z rows ms)"
proof (induction rows arbitrary: ms)
  case (Cons row rows)
  show ?case unfolding freeze_roots.simps freeze_root_def by (intro keeps_intros assms Cons.IH)
qed (simp add: keeps_ret)

lemma keeps_freeze_content:
  assumes "\<And>name b. keeps f (write_file (below (manifests_of (freeze_payload z)) name) b)"
  shows "keeps f (freeze_content hb z parent content)"
  unfolding freeze_content_def copy_state_files_def
  by (intro keeps_intros keeps_freeze_roots assms)

lemma freeze_content_frame:
  "keeps (\<lambda>s. s\<lparr>st_files := []\<rparr>) (freeze_content hb z parent content)"
  "\<not> inside (freeze_directory z) q \<Longrightarrow> keeps (\<lambda>s. dget (st_files s) q) (freeze_content hb z parent content)"
proof -
  show "keeps (\<lambda>s. s\<lparr>st_files := []\<rparr>) (freeze_content hb z parent content)"
    by (intro keeps_freeze_content keeps_outside)
  assume "\<not> inside (freeze_directory z) q"
  then have "q \<noteq> below (manifests_of (freeze_payload z)) name" for name
    using below_generation unfolding freeze_payload_def by metis
  then show "keeps (\<lambda>s. dget (st_files s) q) (freeze_content hb z parent content)"
    by (intro keeps_freeze_content keeps_outside)
qed

lemma freeze_content_Inr:
  assumes "freeze_content hb z parent content s = (Inr f, t)"
  shows "fp_parent_instance f = w_instance_id parent \<and> fp_parent_content f = content \<and> fp_payload f = freeze_payload z
    \<and> (\<forall>drain before after. fz_watch z = Some (drain, before, after) \<longrightarrow> before = after)
    \<and> (\<exists>captures. list_all2 (frozen_root hb z) (roots s) captures
         \<and> fp_manifests f = dbuild (zip (map rt_key (roots s)) captures))
    \<and> root_set_hash hb (map snd (fp_manifests f)) = Inr (fp_state_root f)
    \<and> registered_root_set hb (roots s) = Inr (fp_root_set_hash f)"
proof -
  obtain ms v where ms: "freeze_roots hb z (roots s) [] s = (Inr ms, v)"
    and rest: "fp_parent_instance f = w_instance_id parent" "fp_parent_content f = content" "fp_payload f = freeze_payload z"
      "\<forall>drain before after. fz_watch z = Some (drain, before, after) \<longrightarrow> before = after" "fp_manifests f = ms"
      "root_set_hash hb (map snd ms) = Inr (fp_state_root f)" "registered_root_set hb (roots s) = Inr (fp_root_set_hash f)"
    using assms unfolding freeze_content_def by (elim act_elims) (auto split: option.splits)
  show ?thesis using freeze_roots_Inr [OF ms] rest unfolding dbuild_def by simp
qed

section \<open>The properties of a frozen PRIME\<close>

text \<open>
  C32. A frozen generation is one reality: it descends from what the store calls PRIME at that moment, every
  registered root was captured and copied, the watcher saw no change between the first and the last of them
  (without a watcher there is no root), and its state root is the digest of exactly these captures.
\<close>
theorem freeze_is_one_reality:
  assumes "freeze hb z s = (Inr f, t)"
  shows "\<exists>v parent captures. freeze_begin z s = (Inr (parent, fp_parent_content f), v)
    \<and> prime v = (Inr (Some parent), v) \<and> w_instance_id parent = fp_parent_instance f
    \<and> w_content_id parent = Some (fp_parent_content f)
    \<and> (case fz_watch z of None \<Rightarrow> roots v = [] | Some (_, before, after) \<Rightarrow> before = after)
    \<and> list_all2 (frozen_root hb z) (roots v) captures
    \<and> fp_manifests f = dbuild (zip (map rt_key (roots v)) captures)
    \<and> root_set_hash hb (map snd (fp_manifests f)) = Inr (fp_state_root f)
    \<and> registered_root_set hb (roots v) = Inr (fp_root_set_hash f)"
proof -
  obtain parent content v where b: "freeze_begin z s = (Inr (parent, content), v)"
    and c: "freeze_content hb z parent content v = (Inr f, t)"
    using assms unfolding freeze_def by (auto simp: sbind_Inr_iff taking_away_Inr)
  show ?thesis using freeze_begin_Inr [OF b] freeze_content_Inr [OF c] b by (auto split: option.split)
qed


section \<open>A sample\<close>

definition sample_root :: root_row where
  "sample_root = \<lparr>rt_key = u ''k'', rt_path = ''/r'', rt_display_path = u ''/r'', rt_kind = u ''repo'', rt_device = 1,
     rt_primary = True, rt_generation = None, rt_manifest_root = None, rt_added_at = u ''t''\<rparr>"

definition rooted_store :: store where
  "rooted_store = return_store\<lparr>st_roots := [sample_root]\<rparr>"

definition sample_freezing :: "int \<Rightarrow> freezing" where
  "sample_freezing after = \<lparr>fz_gate = Inr (), fz_uuid = u ''g'', fz_generations = u ''/g'', fz_watch = Some (ret (), 0, after),
     fz_reconcile = None, fz_tree = (\<lambda>_. Inr (NDir sample_info sample_children)), fz_repository = (\<lambda>_. Inr PNone),
     fz_copy = (\<lambda>_. Inr ())\<rparr>"

lemma rooted_prime: "prime rooted_store = (Inr (Some found_prime), rooted_store)"
proof -
  have get: "world_get (u ''i'') rooted_store = Inr found_prime"
    using return_found(1) by (simp add: world_get_def descendant_count_def rooted_store_def)
  have meta: "get_meta (u ''primeInstance'') PNone rooted_store = (Inr (PStr (u ''i'')), rooted_store)"
    "get_meta (u ''primeContent'') PNone rooted_store = (Inr (PStr same_digest), rooted_store)"
    using return_meta by (simp_all add: get_meta_def run_gets lift_def rooted_store_def)
  show ?thesis
    unfolding prime_def sbind_run_Inr [of "get_meta (u ''primeInstance'') PNone", OF meta(1)]
    by (simp add: truthy_def run_gets run_lift get ret_def)
qed

lemma rooted_roots: "roots rooted_store = [sample_root]"
  by (simp add: roots_def rooted_store_def)

lemma rooted_begin:
  "freeze_begin (sample_freezing n) rooted_store = (Inr (found_prime, same_digest), rooted_store)"
  by (simp add: freeze_begin_def sample_freezing_def act_run rooted_prime prime_fields ret_def)

lemma sample_manifest:
  obtains m where "capture constant_hash {} ''/r'' (u ''k'') (u ''repo'') PNone (NDir sample_info sample_children) = Inr m"
    and "root_pair m = Inr (u ''k'', same_digest)"
proof -
  obtain m where m: "capture constant_hash {} ''/r'' (u ''k'') (u ''repo'') PNone (NDir sample_info sample_children) = Inr m"
    using sample_capture by blast
  then have "root_pair m = Inr (u ''k'', same_digest)"
    by (auto simp: capture_def res_iffs Let_def manifest_hash_def hash_id_constant root_pair_def str_item_def pitem_def pget_def u_def)
  with m show thesis by (rule that)
qed

lemma sample_root_sets:
  assumes "root_pair m = Inr (u ''k'', same_digest)"
  shows "root_set_hash constant_hash [m] = Inr same_digest" and "registered_root_set constant_hash [sample_root] = Inr same_digest"
  using assms encodable_same encodable_path_b64 [of "rt_path sample_root", unfolded path_b64_def]
  by (simp_all add: root_set_hash_def pairs_value_def canonical_bytes_def hash_id_constant registered_root_set_def tagged_same
      sample_root_def)

lemma sample_watch: "fz_watch (sample_freezing n) = Some (ret (), 0, n)"
  by (simp add: sample_freezing_def)

lemma sample_loop:
  obtains m v where "freeze_roots constant_hash (sample_freezing n) [sample_root] [] rooted_store = (Inr [(u ''k'', m)], v)"
    and "root_pair m = Inr (u ''k'', same_digest)"
    and "st_files v = [(below (manifests_of (freeze_payload (sample_freezing n))) (u ''k.json''), cm_canonical m)]"
proof -
  obtain m where m: "capture constant_hash {} ''/r'' (u ''k'') (u ''repo'') PNone (NDir sample_info sample_children) = Inr m"
    and p: "root_pair m = Inr (u ''k'', same_digest)" by (rule sample_manifest)
  let ?v = "rooted_store\<lparr>st_files := [(below (manifests_of (freeze_payload (sample_freezing n))) (u ''k.json''), cm_canonical m)]\<rparr>"
  have f: "fz_tree (sample_freezing n) sample_root = Inr (NDir sample_info sample_children)"
    "fz_repository (sample_freezing n) (NDir sample_info sample_children) = Inr PNone"
    "fz_copy (sample_freezing n) sample_root = Inr ()" by (simp_all add: sample_freezing_def)
  have r: "rt_key sample_root = u ''k''" "rt_kind sample_root = u ''repo''" "rt_path sample_root = ''/r''"
    by (simp_all add: sample_root_def)
  have j: "u ''k'' @ u ''.json'' = u ''k.json''" by (simp add: u_def)
  have "freeze_root constant_hash (sample_freezing n) sample_root [] rooted_store = (Inr [(u ''k'', m)], ?v)"
    unfolding freeze_root_def f r by (simp add: act_run f m j write_file_def ret_def rooted_store_def return_store_def empty_store_def)
  then have "freeze_roots constant_hash (sample_freezing n) [sample_root] [] rooted_store = (Inr [(u ''k'', m)], ?v)"
    by (simp add: ret_def)
  from that [OF this p] show thesis by simp
qed

lemma copy_nothing:
  assumes "st_files v = [(below d (u ''k.json''), b)]" shows "copy_state_files a c v = (Inr (), v)"
proof -
  have "rev (below a (u n)) \<noteq> rev (below d (u ''k.json''))" if "n \<in> {''environment.json'', ''evidence.json'', ''agent.json''}" for n
    using that by (auto simp: below_def u_def)
  then have "dget (st_files v) (below a (u n)) = None" if "n \<in> {''environment.json'', ''evidence.json'', ''agent.json''}" for n
    using assms that by auto
  then show ?thesis by (simp add: copy_state_files_def sbind_def gets_def ret_def)
qed

lemma sample_content:
  obtains m v where "root_pair m = Inr (u ''k'', same_digest)"
    and "freeze_content constant_hash (sample_freezing n) parent content rooted_store
      = sbind (sensure (0 = n) (WL ''PRIME_CHANGED_DURING_CAPTURE'')) (\<lambda>_. ret \<lparr>fp_generation = fz_uuid (sample_freezing n),
         fp_parent_instance = w_instance_id parent, fp_parent_content = content, fp_payload = freeze_payload (sample_freezing n),
         fp_state_root = same_digest, fp_workspace = w_workspace parent, fp_root_set_hash = same_digest,
         fp_manifests = [(u ''k'', m)]\<rparr>) v"
proof -
  obtain m v where r: "freeze_roots constant_hash (sample_freezing n) [sample_root] [] rooted_store = (Inr [(u ''k'', m)], v)"
    and p: "root_pair m = Inr (u ''k'', same_digest)"
    and v: "st_files v = [(below (manifests_of (freeze_payload (sample_freezing n))) (u ''k.json''), cm_canonical m)]"
    by (rule sample_loop)
  show thesis
    by (rule that [OF p, of v])
      (simp add: freeze_content_def act_run rooted_roots r copy_nothing [OF v] sample_watch sample_root_sets [OF p]
        del: freeze_roots.simps)
qed

theorem freeze_is_one_reality_witness:
  "\<exists>f t. freeze constant_hash (sample_freezing 0) rooted_store = (Inr f, t)
     \<and> (\<exists>v parent captures. freeze_begin (sample_freezing 0) rooted_store = (Inr (parent, fp_parent_content f), v)
       \<and> list_all2 (frozen_root constant_hash (sample_freezing 0)) (roots v) captures \<and> roots v = [sample_root])"
proof -
  have "\<exists>f t. freeze constant_hash (sample_freezing 0) rooted_store = (Inr f, t)"
    by (rule sample_content [of 0 found_prime same_digest]) (simp add: freeze_def rooted_begin taking_away_def act_run ret_def)
  then obtain f t where f: "freeze constant_hash (sample_freezing 0) rooted_store = (Inr f, t)" by blast
  then show ?thesis using freeze_is_one_reality [OF f] rooted_begin [of 0] rooted_roots by fastforce
qed


section \<open>Returning\<close>

definition stored_root :: "(bytes \<Rightarrow> bytes) \<Rightarrow> returning \<Rightarrow> store \<Rightarrow> pystr \<Rightarrow> root_row \<Rightarrow> captured \<Rightarrow> bool" where
  "stored_root hb v s payload row m \<longleftrightarrow> (\<exists>tree data. rv_tree v payload row = Some tree
     \<and> declared_manifest s payload row = Some data \<and> load hb data = Inr m \<and> verify_content hb m tree = Inr ())"

definition captured_root :: "(bytes \<Rightarrow> bytes) \<Rightarrow> returning \<Rightarrow> pystr \<Rightarrow> root_row \<Rightarrow> captured \<Rightarrow> bool" where
  "captured_root hb v payload row m \<longleftrightarrow> (\<exists>tree. rv_tree v payload row = Some tree
     \<and> capture hb {} (rt_path row) (rt_key row) (rt_kind row) PNone tree = Inr m)"

text \<open>
  The store itself says that this state was real when it was displaced: a receipt displaced it, whichever
  world it was then, or a checkpoint superseded this world in it.
\<close>

definition recorded_displacement :: "store \<Rightarrow> world \<Rightarrow> pystr \<Rightarrow> bool" where
  "recorded_displacement s selected h \<longleftrightarrow>
     (\<exists>r \<in> set (receipts s). \<exists>kvs. read_json (rc_path r) s = Inr (PDict kvs) \<and> mget kvs (u ''beforeRoot'') = PStr h)
     \<or> (\<exists>ws. worlds s = Inr ws \<and> (\<exists>w \<in> set ws. w_parent_instance w = Some (w_instance_id selected)
          \<and> prefixed (w_alias w) (u ''prime-'') \<and> w_base_root w = h))"

lemma stored_point_Some:
  "stored_point hb v s payload rows = Inr (Some ms)
    \<Longrightarrow> map fst ms = map rt_key rows \<and> list_all2 (stored_root hb v s payload) rows (map snd ms)"
proof (induction rows arbitrary: ms)
  case (Cons row rows)
  obtain tree data m where t: "rv_tree v payload row = Some tree" "declared_manifest s payload row = Some data"
      "load hb data = Inr m"
    and k: "(case verify_content hb m tree of Inl e \<Rightarrow> if e = failed then Inr None else Inl e
         | Inr _ \<Rightarrow> rbind (stored_point hb v s payload rows) (\<lambda>rest. Inr (map_option ((#) (rt_key row, m)) rest)))
       = Inr (Some ms)"
    using Cons.prems by (auto simp: res_iffs req_Inr_iff split: option.splits)
  then obtain rest where "verify_content hb m tree = Inr ()" "stored_point hb v s payload rows = Inr (Some rest)"
      "ms = (rt_key row, m) # rest"
    by (cases "verify_content hb m tree") (auto simp: res_iffs split: if_splits)
  with t have "stored_root hb v s payload row m \<and> stored_point hb v s payload rows = Inr (Some rest) \<and> ms = (rt_key row, m) # rest"
    by (auto simp: stored_root_def)
  then show ?case using Cons.IH [of rest] by auto
qed simp

lemma fresh_point:
  "rmap (fresh_root hb v payload) rows = Inr ms
    \<Longrightarrow> map fst ms = map rt_key rows \<and> list_all2 (captured_root hb v payload) rows (map snd ms)"
  by (induction rows arbitrary: ms) (auto simp: fresh_root_def captured_root_def res_iffs req_Inr_iff)

lemma receipt_displacing_Some:
  "receipt_displacing h s rs = Some i
    \<Longrightarrow> \<exists>r \<in> set rs. \<exists>kvs. read_json (rc_path r) s = Inr (PDict kvs) \<and> mget kvs (u ''beforeRoot'') = PStr h"
  by (induction rs) (auto simp: eq_str_def split: sum.splits pyval.splits if_splits)

text \<open>The receipt that is found is not compared with the world: it vouches for whichever is selected.\<close>

lemma receipt_vouches_for_any_world:
  "receipt_displacing h s (rev (receipts s)) = Some r
    \<Longrightarrow> displacement_witness s selected h = Inr (Some (Exchange r))"
  by (simp add: displacement_witness_def)

lemma displacement_witness_Some:
  assumes "displacement_witness s selected h = Inr (Some d)" shows "recorded_displacement s selected h"
proof (cases "receipt_displacing h s (rev (receipts s))")
  case None
  then obtain ws where ws: "worlds s = Inr ws"
    and "List.find (\<lambda>w. w_parent_instance w = Some (w_instance_id selected) \<and> prefixed (w_alias w) (u ''prime-'')
              \<and> w_base_root w = h) ws \<noteq> None"
    using assms by (auto simp: displacement_witness_def res_iffs)
  then have "\<exists>w \<in> set ws. w_parent_instance w = Some (w_instance_id selected) \<and> prefixed (w_alias w) (u ''prime-'')
      \<and> w_base_root w = h"
    unfolding find_None_iff by blast
  then show ?thesis using ws by (auto simp: recorded_displacement_def)
next
  case (Some i)
  from receipt_displacing_Some [OF this] show ?thesis by (auto simp: recorded_displacement_def)
qed


definition displaced_store :: store where
  "displaced_store = return_store\<lparr>
     st_receipts := [\<lparr>rc_id = u ''r'', rc_previous = None, rc_transaction = u ''x'', rc_root = u ''h'', rc_chain = u ''h'',
       rc_path = u ''/r.json'', rc_created_at = u ''t''\<rparr>],
     st_files := [(u ''/r.json'', utf8_encode (dumps (pdict [(u ''beforeRoot'', PStr same_digest)])))]\<rparr>"

definition sample_returning :: returning where
  "sample_returning = \<lparr>rv_now = u ''now'', rv_uuid = u ''v'', rv_worlds = u ''/w'',
     rv_tree = (\<lambda>_ _. Some (NDir sample_info sample_children)), rv_copy = (\<lambda>_. Inr ())\<rparr>"

lemma displaced_receipt:
  "read_json (u ''/r.json'') displaced_store = Inr (PDict [(PStr (u ''beforeRoot''), PStr same_digest)])"
proof -
  have c: "canonicalizable (pdict [(u ''beforeRoot'', PStr same_digest)])"
    using encodable_same by (simp add: canonicalizable_def canonicalizable_PDict)
  show ?thesis
    using utf8_roundtrip [OF encodable_dumps [OF c]] loads_dumps [OF c]
    by (simp add: read_json_def displaced_store_def json_load_def norm.simps key_of_def)
qed

lemma displaced_receipts: "\<exists>r. receipts displaced_store = [r] \<and> rc_path r = u ''/r.json''"
  by (simp add: receipts_def displaced_store_def)


end
