(* ===== verification/Fork.thy ===== *)
theory Fork
  imports Checkpoint
begin

text \<open>
  \<open>runtime/worldline/fork.py\<close> and \<open>scoring.py\<close>: worlds forked from a frozen PRIME, the three lanes of a
  race, what becomes of a run that could not start, and the scores of finished siblings. The agent adapters,
  the runner and the threads of a race are outside: the name of an adapter, the check of its credentials and
  the run itself are arguments.
\<close>

section \<open>Worlds from a frozen parent\<close>

record forking =
  fk_worlds :: pystr
  fk_now :: pystr
  fk_adapter :: "pystr \<Rightarrow> pystr res"
  fk_credentials :: "pystr \<Rightarrow> unit res"

definition mission_hash_of :: "(bytes \<Rightarrow> bytes) \<Rightarrow> pystr \<Rightarrow> pystr res" where
  "mission_hash_of hb mission =
     rbind (ensure (encodable mission) ValueError) (\<lambda>_.
     hash_id (hb (''worldline-mission-v1'' @ utf8_encode mission)))"

definition resolved_agent :: "forking \<Rightarrow> pystr \<Rightarrow> pystr res" where
  "resolved_agent k agent =
     rbind (fk_adapter k agent) (\<lambda>name. rbind (fk_credentials k agent) (\<lambda>_. Inr name))"

definition lane_world ::
    "(bytes \<Rightarrow> bytes) \<Rightarrow> forking \<Rightarrow> pystr \<Rightarrow> pystr \<Rightarrow> pystr \<Rightarrow> pystr \<Rightarrow> frozen \<Rightarrow> world res" where
  "lane_world hb k uuid name mission actor parent =
     rbind (mission_hash_of hb mission) (\<lambda>digest.
     rbind (create uuid (fk_now k) \<lparr>r_alias = name, r_parent_instance = Some (fp_parent_instance parent),
         r_parent_content = fp_parent_content parent, r_cause = mission, r_actor = actor,
         r_payload_path = below (below (fk_worlds k) (u ''pending'')) (u ''payload''),
         r_base_payload_path = fp_payload parent, r_base_root = fp_state_root parent,
         r_root_set_hash = fp_root_set_hash parent, r_mission_hash = digest,
         r_workspace = Some (fp_workspace parent), r_world_kind = u ''computational''\<rparr>) (\<lambda>w.
     Inr (w\<lparr>w_payload_path := below (below (fk_worlds k) uuid) (u ''payload'')\<rparr>)))"

text \<open>\<open>frozen\<close> is a parent that is frozen already, or how to freeze one.\<close>

definition create_world ::
    "(bytes \<Rightarrow> bytes) \<Rightarrow> forking \<Rightarrow> pystr \<Rightarrow> pystr \<Rightarrow> pystr \<Rightarrow> pystr \<Rightarrow> frozen sact \<Rightarrow> world sact" where
  "create_world hb k uuid name mission agent parent_of =
     sbind (sensure (mission \<noteq> []) (WL ''NO_MISSION'')) (\<lambda>_.
     sbind (lift (validate_user_alias name)) (\<lambda>_.
     sbind (lift (resolved_agent k agent)) (\<lambda>actor.
     sbind parent_of (\<lambda>parent.
     sbind (lift (lane_world hb k uuid name mission actor parent)) (\<lambda>w.
     sbind (insert_world w) (\<lambda>_. ret w))))))"

section \<open>A race\<close>

definition lanes :: "pystr option \<Rightarrow> pystr list" where
  "lanes name = map (\<lambda>lane. (case name of None \<Rightarrow> [] | Some n \<Rightarrow> n @ u ''-'') @ lane) [u ''alpha'', u ''beta'', u ''gamma'']"

definition alias_free :: "pystr \<Rightarrow> unit sact" where
  "alias_free alias s = (case world_get alias s of
       Inr _ \<Rightarrow> (Inl (WL ''WORLD_CONFLICT''), s)
     | Inl (WL _) \<Rightarrow> (Inr (), s)
     | Inl e \<Rightarrow> (Inl e, s))"

fun create_lanes ::
    "(bytes \<Rightarrow> bytes) \<Rightarrow> forking \<Rightarrow> pystr \<Rightarrow> frozen \<Rightarrow> (pystr \<times> pystr \<times> pystr) list \<Rightarrow> world list sact" where
  "create_lanes hb k mission parent [] = ret []"
| "create_lanes hb k mission parent ((uuid, alias, agent) # rest) =
     sbind (create_world hb k uuid alias mission agent (ret parent)) (\<lambda>w.
     sbind (create_lanes hb k mission parent rest) (\<lambda>ws. ret (w # ws)))"

definition race ::
    "(bytes \<Rightarrow> bytes) \<Rightarrow> forking \<Rightarrow> freezing \<Rightarrow> pystr list \<Rightarrow> pystr option \<Rightarrow> pystr \<Rightarrow> pystr list \<Rightarrow> world list sact" where
  "race hb k z uuids name mission agents =
     sbind (sensure (length agents = 3) (WL ''INVALID_RACE'')) (\<lambda>_.
     sbind (lift (case name of None \<Rightarrow> Inr () | Some n \<Rightarrow> rbind (validate_user_alias n) (\<lambda>_. Inr ()))) (\<lambda>_.
     sbind (lift (rmap (resolved_agent k) agents)) (\<lambda>_.
     sbind (smapM alias_free (lanes name)) (\<lambda>_.
     sbind (freeze hb z) (\<lambda>parent.
     create_lanes hb k mission parent (zip uuids (zip (lanes name) agents)))))))"

section \<open>A run that could not start\<close>

definition terminate_failed_start :: "pystr \<Rightarrow> pystr \<Rightarrow> pyval \<Rightarrow> unit sact" where
  "terminate_failed_start now i error s =
     (case world_get i s of
        Inl (WL _) \<Rightarrow> (Inr (), s)
      | Inl e \<Rightarrow> (Inl e, s)
      | Inr w \<Rightarrow>
          sbind (gets (active_jobs_for_world i)) (\<lambda>r. sbind (lift r) (\<lambda>js.
          sbind (smapM (\<lambda>j. update_job now (jb_id j) (u ''DEAD'') None None (Some error) True) js) (\<lambda>_.
          if w_state w \<notin> {MUTABLE, FINALIZING}
          then (case w_evidence w of
              PDict kvs \<Rightarrow>
                if mget kvs (u ''supervision'') = PNone
                then save_world (w\<lparr>w_evidence := dict_with (w_evidence w) [(u ''supervision'', error)]\<rparr>)
                else ret ()
            | _ \<Rightarrow> ret ())
          else
            sbind (lift (case w_evidence w of PDict kvs \<Rightarrow>
                rbind (pget (w_evidence w) (u ''checks'') (PList [])) piter | _ \<Rightarrow> Inr [])) (\<lambda>checks.
            sbind (lift (transition now DEAD (w\<lparr>w_evidence := pdict [(u ''summary'', PStr (u ''FAIL'')),
                (u ''checks'', PList checks), (u ''supervision'', error)]\<rparr>))) save_world)))) s)"

section \<open>Scores\<close>

definition in_group :: "world \<Rightarrow> bool" where
  "in_group w \<longleftrightarrow> w_state w \<in> {VALID, DEGRADED, DEAD, ARCHIVED, COLLAPSED} \<and> \<not> prefixed (w_alias w) (u ''prime-'')"

definition score_groups :: "world list \<Rightarrow> world list list" where
  "score_groups ws = (let members = filter in_group ws in
     map (\<lambda>p. filter (\<lambda>w. w_parent_instance w = p) members) (rev (remdups (rev (map w_parent_instance members)))))"

definition delta_bytes :: "world \<Rightarrow> (pystr \<times> nat) res" where
  "delta_bytes w = rbind (canonical_bytes (w_delta w)) (\<lambda>b. Inr (w_instance_id w, length b))"

definition complexity_of :: "nat \<Rightarrow> nat list \<Rightarrow> nat \<Rightarrow> pystr" where
  "complexity_of siblings sizes n =
     (let apart = sort (remdups sizes) in
      if siblings = 1 \<or> length apart = 1 then u ''MEDIUM''
      else if n = hd apart then u ''LOW''
      else if n = last apart then u ''HIGH''
      else u ''MEDIUM'')"

definition gap :: "bool \<Rightarrow> pyval \<Rightarrow> pyval list res" where
  "gap required item =
     rbind (pget item (u ''required'') PNone) (\<lambda>r.
     if truthy r \<noteq> required then Inr []
     else rbind (pget item (u ''status'') PNone) (\<lambda>status.
       if eq_str status (u ''PASS'') then Inr []
       else rbind (pget item (u ''id'') PNone) (\<lambda>i. Inr [i])))"

definition gaps :: "bool \<Rightarrow> pyval list \<Rightarrow> pyval list res" where
  "gaps required listed = rbind (rmap (gap required) listed) (\<lambda>xs. Inr (concat xs))"

definition with_risk :: "nat \<Rightarrow> world \<Rightarrow> world res" where
  "with_risk n w =
     rbind (pget (w_evidence w) (u ''checks'') (PList [])) (\<lambda>checks.
     rbind (piter checks) (\<lambda>listed.
     rbind (gaps True listed) (\<lambda>failures.
     rbind (gaps False listed) (\<lambda>optional.
     let risk = (if w_state w \<notin> {VALID, COLLAPSED, ARCHIVED} \<or> w_contamination w \<noteq> [] \<or> w_conflicts w \<noteq> [] \<or> failures \<noteq> []
                 then u ''HIGH''
                 else if \<not> truthy checks \<or> optional \<noteq> [] then u ''MEDIUM'' else u ''LOW'')
     in Inr (w\<lparr>w_risk := risk, w_evidence := dict_with (w_evidence w) [(u ''scoreFacts'', pdict [
          (u ''canonicalDeltaBytes'', PInt (int n)), (u ''requiredFailures'', PList failures),
          (u ''optionalGaps'', PList optional), (u ''missingEvidence'', PBool (\<not> truthy checks)),
          (u ''contaminationCount'', PInt (int (length (w_contamination w)))),
          (u ''conflictCount'', PInt (int (length (w_conflicts w)))),
          (u ''integrityState'', PStr (state_name (w_state w)))])]\<rparr>)))))"

definition scored :: "world list \<Rightarrow> (pystr \<times> nat) list \<Rightarrow> world \<Rightarrow> world res" where
  "scored siblings sizes w =
     rbind (req KeyError (dget sizes (w_instance_id w))) (\<lambda>n.
     with_risk n (w\<lparr>w_complexity := complexity_of (length siblings) (map snd sizes) n\<rparr>))"

definition score_group :: "world list \<Rightarrow> unit sact" where
  "score_group siblings =
     sbind (lift (rmap delta_bytes siblings)) (\<lambda>sizes.
     smapM (\<lambda>w. sbind (lift (scored siblings (dbuild sizes) w)) save_world) siblings)"

definition score :: "world list \<Rightarrow> unit sact" where
  "score ws = smapM score_group (score_groups ws)"

text \<open>\<open>run_world\<close>: \<open>run\<close> is everything the runner does, \<open>described\<close> how an exception is reported.\<close>

definition run_world :: "pystr \<Rightarrow> (exc \<Rightarrow> pyval) \<Rightarrow> pystr \<Rightarrow> world sact \<Rightarrow> world sact" where
  "run_world now described i run s =
     (case run s of
        (Inl e, t) \<Rightarrow> sbind (terminate_failed_start now i (described e)) (\<lambda>_. raise e) t
      | (Inr w, t) \<Rightarrow>
          sbind (gets (terminal_siblings w)) (\<lambda>r. sbind (lift r) (\<lambda>siblings.
          sbind (score (w # siblings)) (\<lambda>_. ret w))) t)"

end
