(* ===== verification/Fork_Claims.thy ===== *)
theory Fork_Claims
  imports Fork Prune_Laws
begin

text \<open>
  What becomes of a run that could not start, and what a low risk means.
\<close>

section \<open>A run that could not start\<close>

text \<open>Ending jobs by their ids leaves every other job, and the rows of the worlds, as they were.\<close>

lemma update_job_Inr:
  assumes "update_job now i state un pid error ended s = (Inr (), t)"
  shows "\<exists>f. (\<forall>j. jb_id (f j) = jb_id j \<and> jb_world (f j) = jb_world j \<and> jb_state (f j) = state)
    \<and> t = s\<lparr>st_jobs := update_where (\<lambda>j. jb_id j = i) f (st_jobs s)\<rparr>"
  using assms unfolding update_job_def
  by (elim act_elims) (rule exI [of _ "\<lambda>j. j\<lparr>jb_state := state, jb_unit := coalesce un (jb_unit j),
        jb_pid := coalesce pid (jb_pid j), jb_error := _, jb_ended_at := _\<rparr>"], auto)

lemma end_jobs_Inr:
  assumes "smapM (\<lambda>j. update_job now (jb_id j) state un pid error ended) js s = (Inr (), t)"
  shows "st_worlds t = st_worlds s \<and> (\<forall>j \<in> set (st_jobs t). \<exists>k \<in> set (st_jobs s). jb_id j = jb_id k \<and> jb_world j = jb_world k
    \<and> (jb_state j = state \<or> j = k \<and> jb_id k \<notin> jb_id ` set js))"
  using assms
proof (induction js arbitrary: s)
  case Nil
  then show ?case by (auto simp: ret_def)
next
  case (Cons i js)
  obtain v where v: "update_job now (jb_id i) state un pid error ended s = (Inr (), v)"
    and rest: "smapM (\<lambda>j. update_job now (jb_id j) state un pid error ended) js v = (Inr (), t)"
    using Cons.prems by (auto simp: sbind_Inr_iff)
  obtain f where f: "\<forall>j. jb_id (f j) = jb_id j \<and> jb_world (f j) = jb_world j \<and> jb_state (f j) = state"
    and vs: "v = s\<lparr>st_jobs := update_where (\<lambda>j. jb_id j = jb_id i) f (st_jobs s)\<rparr>"
    using update_job_Inr [OF v] by blast
  have step: "\<forall>k \<in> set (st_jobs v). \<exists>l \<in> set (st_jobs s). jb_id k = jb_id l \<and> jb_world k = jb_world l
      \<and> (jb_state k = state \<or> k = l \<and> jb_id l \<noteq> jb_id i)"
    using f by (auto simp: vs update_where_def)
  have worlds: "st_worlds v = st_worlds s" by (simp add: vs)
  note ih = Cons.IH [OF rest]
  show ?case
  proof (intro conjI ballI)
    fix j assume "j \<in> set (st_jobs t)"
    with ih obtain k where k: "k \<in> set (st_jobs v)" "jb_id j = jb_id k" "jb_world j = jb_world k"
      "jb_state j = state \<or> j = k \<and> jb_id k \<notin> jb_id ` set js" by blast
    with step obtain l where "l \<in> set (st_jobs s)" "jb_id k = jb_id l" "jb_world k = jb_world l"
      "jb_state k = state \<or> k = l \<and> jb_id l \<noteq> jb_id i" by blast
    with k show "\<exists>k \<in> set (st_jobs s). jb_id j = jb_id k \<and> jb_world j = jb_world k
        \<and> (jb_state j = state \<or> j = k \<and> jb_id k \<notin> jb_id ` set (i # js))"
      by (intro bexI [of _ l]) auto
  qed (use ih worlds in simp)
qed

lemma jobs_listed: "jobs s = Inr xs \<Longrightarrow> set (map fst xs) = set (st_jobs s)"
proof -
  have "rmap (\<lambda>j. rbind (json_load (jb_error j) PNone) (\<lambda>error. rbind (json_load (Some (jb_sandbox j)) (PDict [])) (\<lambda>sandbox.
       Inr (j, error, sandbox)))) rows = Inr xs \<Longrightarrow> map fst xs = rows" for rows xs
    by (induction rows arbitrary: xs) (auto simp: res_iffs)
  then have "jobs s = Inr xs \<Longrightarrow> map fst xs = sort_key jb_started_at (st_jobs s)" unfolding jobs_def by blast
  then show "jobs s = Inr xs \<Longrightarrow> set (map fst xs) = set (st_jobs s)" by (metis set_sort)
qed

lemma active_listed:
  assumes "active_jobs_for_world i s = Inr js" and "j \<in> set (st_jobs s)" and "jb_world j = i" and "jb_state j \<in> active_states"
  shows "j \<in> set js"
proof -
  from assms(1) obtain xs where xs: "jobs s = Inr xs" "js = filter (\<lambda>j. jb_world j = i \<and> jb_state j \<in> active_states) (map fst xs)"
    by (auto simp: active_jobs_for_world_def res_iffs)
  show ?thesis using assms(2-4) jobs_listed [OF xs(1)] unfolding xs(2) set_filter by blast
qed

lemma world_get_row:
  assumes "world_get i s = Inr w" and "w_instance_id w = i" and "distinct (row_ids s)" and "r \<in> set (st_worlds s)"
    and "wr_instance_id r = i"
  shows "wr_state r = w_state w"
proof -
  from assms(1) obtain q v where q: "world_lookup i (st_worlds s) = Some q" and v: "world_from_row q = Inr v"
    and w: "w = v\<lparr>w_descendants := descendant_count (wr_instance_id q) s\<rparr>"
    by (auto simp: world_get_def res_iffs req_Inr_iff)
  have "q \<in> set (st_worlds s)"
    using q by (auto simp: world_lookup_def find_Some_iff split: option.splits)
  moreover have "w_instance_id v = wr_instance_id q" "w_state v = wr_state q" using v by (auto simp: world_from_row_def res_iffs)
  ultimately have "q = r" using assms(2-5) w by (auto simp: row_ids_def distinct_map inj_on_def)
  then show ?thesis using w \<open>w_state v = wr_state q\<close> by simp
qed

lemma save_world_state:
  assumes "save_world w s = (Inr x, t)"
  shows "st_jobs t = st_jobs s" and "r \<in> set (st_worlds t) \<Longrightarrow> wr_instance_id r = w_instance_id w \<Longrightarrow> wr_state r = w_state w"
  using assms row_of_world_ids unfolding save_world_Inr by (auto simp: update_where_def split: if_splits)

text \<open>
  C35. A world whose run failed is not left in motion: once the failure was recorded no job of it is active and
  its row is in no state that a run could continue from.
\<close>
theorem failed_start_terminates:
  assumes "terminate_failed_start now i error s = (Inr (), t)" and "world_get i s = Inr w" and "w_instance_id w = i"
    and "distinct (row_ids s)"
  shows "(\<forall>j \<in> set (st_jobs t). jb_world j = i \<longrightarrow> jb_state j \<notin> active_states)
    \<and> (\<forall>r \<in> set (st_worlds t). wr_instance_id r = i \<longrightarrow> wr_state r \<notin> {MUTABLE, FINALIZING})"
proof -
  note run = assms(1) [unfolded terminate_failed_start_def assms(2) sum.case]
  obtain js v where js: "active_jobs_for_world i s = Inr js"
    and v: "smapM (\<lambda>j. update_job now (jb_id j) (u ''DEAD'') None None (Some error) True) js s = (Inr (), v)"
    and rest: "v = t \<and> w_state w \<notin> {MUTABLE, FINALIZING}
      \<or> (\<exists>e. w_state w \<notin> {MUTABLE, FINALIZING} \<and> save_world (w\<lparr>w_evidence := e\<rparr>) v = (Inr (), t))
      \<or> (\<exists>e ended. save_world (w\<lparr>w_evidence := e, w_state := DEAD, w_ended := ended\<rparr>) v = (Inr (), t))"
  proof (cases "w_state w \<in> {MUTABLE, FINALIZING}")
    case False
    then show thesis using run that by (elim act_elims) (auto split: pyval.splits if_splits elim!: act_elims)
  next
    case True
    then show thesis using run that by (elim act_elims) (auto simp: transition_Inr elim!: act_elims, blast+)
  qed
  have "st_jobs t = st_jobs v" using rest save_world_state(1) by auto
  moreover have "jb_state j \<notin> active_states" if "j \<in> set (st_jobs v)" "jb_world j = i" for j
    using end_jobs_Inr [OF v] that active_listed [OF js] by (fastforce simp: active_states_def u_def)
  moreover have "wr_state r \<notin> {MUTABLE, FINALIZING}" if "r \<in> set (st_worlds t)" "wr_instance_id r = i" for r
    using rest that save_world_state(2) [of _ v _ t r] world_get_row [OF assms(2-4), of r] end_jobs_Inr [OF v] assms(3) by fastforce
  ultimately show ?thesis by simp
qed

section \<open>Scores\<close>

lemma low_level: "(if a then h else if b then m else l) = l \<Longrightarrow> l \<noteq> h \<Longrightarrow> l \<noteq> m \<Longrightarrow> \<not> a \<and> \<not> b"
  by (cases a; cases b) simp_all

lemma gaps_none:
  assumes "gaps b listed = Inr []" and "item \<in> set listed"
  shows "\<exists>r. pget item (u ''required'') PNone = Inr r \<and> (truthy r = b \<longrightarrow> pget item (u ''status'') PNone = Inr (PStr (u ''PASS'')))"
  using assms
  by (induction listed) (auto simp: gaps_def gap_def res_iffs eq_str_def split: if_splits)


section \<open>Samples of a failed start and of a score\<close>

definition running_job :: job_row where
  "running_job = \<lparr>jb_id = u ''j'', jb_world = u ''i'', jb_state = u ''RUNNING'', jb_unit = None, jb_pid = Some 7,
     jb_started_at = u ''t'', jb_ended_at = None, jb_error = None, jb_raw_event_path = u ''/e'',
     jb_sandbox = utf8_encode (dumps (PDict []))\<rparr>"

definition busy_store :: store where
  "busy_store = sample_store\<lparr>st_jobs := [running_job]\<rparr>"

lemma running_listed: "active_jobs_for_world (u ''i'') busy_store = Inr [running_job]"
proof -
  have c: "canonicalizable (PDict [])" by (simp add: canonicalizable_def canonicalizable_PDict)
  have "json_load (Some (jb_sandbox running_job)) (PDict []) = Inr (PDict [])"
    using utf8_roundtrip [OF encodable_dumps [OF c]] loads_dumps [OF c]
    by (simp add: running_job_def json_load_def norm.simps)
  then show ?thesis
    by (simp add: active_jobs_for_world_def jobs_def busy_store_def) (simp add: running_job_def json_load_def active_states_def)
qed

lemma busy_world:
  obtains r w where "st_worlds busy_store = [r]" and "wr_instance_id r = u ''i''" and "wr_state r = MUTABLE"
    and "world_get (u ''i'') busy_store = Inr w" and "w = stored sample_world\<lparr>w_descendants := w_descendants w\<rparr>"
proof -
  obtain r where r: "row_of_world sample_world = Inr r" "wr_instance_id r = u ''i''"
    and s: "sample_store = empty_store\<lparr>st_worlds := [r]\<rparr>" by (rule sample_insert)
  have w: "world_from_row r = Inr (stored sample_world)" using r(1) sample_dicts by (rule world_from_row_of_world)
  have st: "wr_state r = MUTABLE" using row_of_world_ids [OF r(1)] by (simp add: sample_world_def)
  have "world_get (u ''i'') busy_store = Inr (stored sample_world\<lparr>w_descendants := descendant_count (u ''i'') busy_store\<rparr>)"
    using r w by (simp add: world_get_def world_lookup_def busy_store_def s)
  then show thesis by (rule that [OF _ r(2) st, rotated]) (simp_all add: busy_store_def s)
qed

lemma failed_start_runs:
  "\<exists>t. terminate_failed_start (u ''now'') (u ''i'') (PStr (u ''gone'')) busy_store = (Inr (), t)"
proof -
  obtain r w where rows: "st_worlds busy_store = [r]" "wr_instance_id r = u ''i''"
    and get: "world_get (u ''i'') busy_store = Inr w" and w: "w = stored sample_world\<lparr>w_descendants := w_descendants w\<rparr>"
    by (rule busy_world)
  have f: "w_state w = MUTABLE" "w_evidence w = PDict []" "w_instance_id w = u ''i''" "w_workspace w = PDict []"
      "w_delta w = PDict []" "w_conflicts w = []" "w_contamination w = []" "w_parent_instance w = None"
      "w_world_kind w = u ''computational''" "w_complexity w = u ''LOW''" "w_risk w = u ''LOW''"
    by (subst w, simp add: stored_def sample_world_def norm.simps(2))+
  have blob: "error_blob (Some (PStr (u ''gone''))) = Inr (Some (utf8_encode (dumps (PStr (u ''gone'')))))"
    by (simp add: error_blob_def json_blob_ok)
  have "\<exists>x. update_job (u ''now'') (u ''j'') (u ''DEAD'') None None (Some (PStr (u ''gone''))) True busy_store
      = (Inr (), busy_store\<lparr>st_jobs := x\<rparr>)"
    by (simp add: update_job_def act_run blob) (simp add: busy_store_def running_job_def sensure_def, rule exI, rule refl)
  then obtain x where job: "update_job (u ''now'') (u ''j'') (u ''DEAD'') None None (Some (PStr (u ''gone''))) True busy_store
      = (Inr (), busy_store\<lparr>st_jobs := x\<rparr>)" by blast
  define ev where "ev = pdict [(u ''summary'', PStr (u ''FAIL'')), (u ''checks'', PList []), (u ''supervision'', PStr (u ''gone''))]"
  have ev: "PDict [(PStr (u ''summary''), PStr (u ''FAIL'')), (PStr (u ''checks''), PList []),
      (PStr (u ''supervision''), PStr (u ''gone''))] = ev" by (simp add: ev_def)
  define w' where "w' = w\<lparr>w_evidence := ev, w_state := DEAD, w_ended := Some (u ''now'')\<rparr>"
  have tr: "transition (u ''now'') DEAD (w\<lparr>w_evidence := ev\<rparr>) = Inr w'"
    by (simp add: transition_Inr w'_def f TERMINAL_STATES_def)
  have "validate ev = Inr ()" unfolding ev_def validate_pdict by simp
  moreover have "validate (components_value (w_components w')) = Inr ()"
    unfolding w'_def by (simp, subst w) (use sample_columns in \<open>simp add: valid_columns_def valid_components stored_def\<close>)
  ultimately have "valid_columns w'" by (simp add: valid_columns_def w'_def f)
  then obtain r' where r': "row_of_world w' = Inr r'" using valid_columns_row by blast
  have "wr_parent_instance r' = None" "wr_world_kind r' = u ''computational''" "wr_complexity r' = u ''LOW''" "wr_risk r' = u ''LOW''"
    using r' by (auto simp: row_of_world_def res_iffs w'_def f simp del: validate.simps)
  then have "world_constraints r' []" by (simp add: world_constraints_def levels_def)
  then have save: "\<exists>t. save_world w' (busy_store\<lparr>st_jobs := x\<rparr>) = (Inr (), t)"
    unfolding save_world_Inr using r' rows by (simp add: w'_def f)
  have j: "jb_id running_job = u ''j''" by (simp add: running_job_def)
  show ?thesis
    using save by (simp add: terminate_failed_start_def get running_listed act_run job j f pget_def piter_def
        ev tr ret_def)
qed

theorem failed_start_terminates_witness:
  "\<exists>t. terminate_failed_start (u ''now'') (u ''i'') (PStr (u ''gone'')) busy_store = (Inr (), t)
     \<and> jb_state (hd (st_jobs busy_store)) \<in> active_states
     \<and> (\<forall>j \<in> set (st_jobs t). jb_world j = u ''i'' \<longrightarrow> jb_state j \<notin> active_states)
     \<and> (\<forall>r \<in> set (st_worlds t). wr_instance_id r = u ''i'' \<longrightarrow> wr_state r \<notin> {MUTABLE, FINALIZING})"
proof -
  obtain t where t: "terminate_failed_start (u ''now'') (u ''i'') (PStr (u ''gone'')) busy_store = (Inr (), t)"
    using failed_start_runs by blast
  obtain r w where rows: "st_worlds busy_store = [r]"
    and get: "world_get (u ''i'') busy_store = Inr w" and w: "w = stored sample_world\<lparr>w_descendants := w_descendants w\<rparr>"
    by (rule busy_world)
  have "w_instance_id w = u ''i''" by (subst w) (simp add: stored_def sample_world_def)
  moreover have "distinct (row_ids busy_store)" by (simp add: row_ids_def rows)
  ultimately have "(\<forall>j \<in> set (st_jobs t). jb_world j = u ''i'' \<longrightarrow> jb_state j \<notin> active_states)
     \<and> (\<forall>r \<in> set (st_worlds t). wr_instance_id r = u ''i'' \<longrightarrow> wr_state r \<notin> {MUTABLE, FINALIZING})"
    by (rule failed_start_terminates [OF t get])
  moreover have "jb_state (hd (st_jobs busy_store)) \<in> active_states"
    by (simp add: busy_store_def running_job_def active_states_def)
  ultimately show ?thesis using t by blast
qed

definition checked_world :: world where
  "checked_world = sample_world\<lparr>w_state := VALID, w_risk := u ''HIGH'', w_evidence := pdict [(u ''checks'', PList
     [pdict [(u ''id'', PStr (u ''unit'')), (u ''required'', PBool True), (u ''status'', PStr (u ''PASS''))]])]\<rparr>"


end
