(* ===== verification/Causal.thy ===== *)
theory Causal
  imports Prepare Receipt
begin

text \<open>
  \<open>runtime/worldline/causal.py\<close>: the journal of what changed and why. When a world is finished every file of its
  delta becomes an event of the causal chain and the lines it changed become ranges; later a line of PRIME is
  asked back for the world that wrote it. What the files hold is an argument, and so is the directory a
  relative path starts from.
\<close>

section \<open>Lines\<close>

text \<open>\<open>str.splitlines\<close>: a carriage return with the line feed after it is one break.\<close>

definition line_break :: "nat \<Rightarrow> bool" where
  "line_break c \<longleftrightarrow> c \<in> {10, 11, 12, 13, 28, 29, 30, 133, 8232, 8233}"

function splitlines :: "pystr \<Rightarrow> pystr list" where
  "splitlines [] = []"
| "splitlines (c # s) =
     (if c = 13 \<and> prefixed s [10] then [] # splitlines (tl s)
      else if line_break c then [] # splitlines s
      else case splitlines s of [] \<Rightarrow> [[c]] | l # ls \<Rightarrow> (c # l) # ls)"
  by pat_completeness auto
termination by (relation "measure length") (auto simp: less_Suc_eq_le)

section \<open>What changed between two texts\<close>

text \<open>
  \<open>difflib.SequenceMatcher\<close> without junk: the longest block two sequences share, the earliest in the first and
  then in the second, and the same again on both sides of it.
\<close>

fun common :: "'a list \<Rightarrow> 'a list \<Rightarrow> nat" where
  "common (x # xs) (y # ys) = (if x = y then Suc (common xs ys) else 0)"
| "common xs ys = 0"

definition better :: "nat \<times> nat \<times> nat \<Rightarrow> nat \<times> nat \<times> nat \<Rightarrow> nat \<times> nat \<times> nat" where
  "better r best = (if snd (snd best) < snd (snd r) then r else best)"

definition longest_block :: "'a list \<Rightarrow> 'a list \<Rightarrow> nat \<times> nat \<times> nat" where
  "longest_block xs ys = fold better
     (concat (map (\<lambda>i. map (\<lambda>j. (i, j, common (drop i xs) (drop j ys))) [0..<length ys]) [0..<length xs])) (0, 0, 0)"

lemma common_le: "common xs ys \<le> length xs" "common xs ys \<le> length ys"
  by (induction xs ys rule: common.induct) auto

lemma fold_better: "fold better rs b \<in> insert b (set rs)"
proof (induction rs arbitrary: b)
  case (Cons r rs)
  have "fold better rs (better r b) \<in> insert (better r b) (set rs)" by (rule Cons.IH)
  moreover have "better r b = r \<or> better r b = b" by (simp add: better_def)
  ultimately show ?case by auto
qed simp

lemma longest_block_of:
  assumes "longest_block xs ys = (i, j, k)"
  shows "k = 0 \<or> i < length xs \<and> j < length ys \<and> k = common (drop i xs) (drop j ys)"
  using fold_better [of "concat (map (\<lambda>i. map (\<lambda>j. (i, j, common (drop i xs) (drop j ys))) [0..<length ys]) [0..<length xs])" "(0, 0, 0)"]
    assms unfolding longest_block_def by auto

lemma longest_block_fits:
  assumes "longest_block xs ys = (i, j, k)" and "k \<noteq> 0"
  shows "i + k \<le> length xs" and "j + k \<le> length ys"
  using longest_block_of [OF assms(1)] common_le [of "drop i xs" "drop j ys"] assms(2) by auto

function matching_blocks :: "'a list \<Rightarrow> 'a list \<Rightarrow> nat \<Rightarrow> nat \<Rightarrow> (nat \<times> nat \<times> nat) list" where
  "matching_blocks xs ys i0 j0 =
     (case longest_block xs ys of (i, j, k) \<Rightarrow>
        if k = 0 then []
        else matching_blocks (take i xs) (take j ys) i0 j0 @ (i0 + i, j0 + j, k)
          # matching_blocks (drop (i + k) xs) (drop (j + k) ys) (i0 + i + k) (j0 + j + k))"
  by pat_completeness auto
termination
proof (relation "measure (\<lambda>(xs, ys, i0, j0). length xs)", goal_cases)
  case (2 xs ys i0 j0 i y j k)
  then show ?case using longest_block_fits(1) [of xs ys i j k] by simp
next
  case (3 xs ys i0 j0 i y j k)
  then show ?case using longest_block_fits(1) [of xs ys i j k] by simp
qed simp

declare matching_blocks.simps [simp del]

text \<open>\<open>get_opcodes\<close> without the equal ones: the stretches of the second sequence between the blocks.\<close>

fun opcodes :: "nat \<Rightarrow> nat \<Rightarrow> (nat \<times> nat \<times> nat) list \<Rightarrow> (nat \<times> nat) list" where
  "opcodes i j [] = []"
| "opcodes i j ((a, b, k) # bs) = (if i < a \<or> j < b then [(j, b)] else []) @ opcodes (a + k) (b + k) bs"

definition changed_stretches :: "'a list \<Rightarrow> 'a list \<Rightarrow> (nat \<times> nat) list" where
  "changed_stretches xs ys = opcodes 0 0 (matching_blocks xs ys 0 0 @ [(length xs, length ys, 0)])"

definition line_range :: "nat \<times> nat \<Rightarrow> int \<times> int \<times> pystr" where
  "line_range s = (let start = max 1 (int (fst s) + 1) in (start, max start (int (snd s)), u ''line''))"

definition is_file_entry :: "pyval option \<Rightarrow> bool res" where
  "is_file_entry entry = (case entry of None \<Rightarrow> Inr False
     | Some e \<Rightarrow> rbind (pget e (u ''type'') PNone) (\<lambda>type. Inr (eq_str type (u ''file''))))"

definition whole_file :: "pystr \<Rightarrow> int \<Rightarrow> (int \<times> int \<times> pystr) list" where
  "whole_file granularity n = [(1, max 1 n, granularity)]"

definition ranges_of ::
    "(pystr \<Rightarrow> bytes \<Rightarrow> bytes option) \<Rightarrow> bytes \<Rightarrow> captured \<Rightarrow> captured \<Rightarrow> pystr \<Rightarrow> pystr \<Rightarrow> (int \<times> int \<times> pystr) list res" where
  "ranges_of rd relative base candidate base_root candidate_root =
     rbind (entry_map base) (\<lambda>bs.
     rbind (entry_map candidate) (\<lambda>cs.
     rbind (is_file_entry (dget cs relative)) (\<lambda>file_now.
     if \<not> file_now then Inr (whole_file (u ''file'') 1)
     else rbind (req OSError (rd candidate_root relative)) (\<lambda>now.
     case utf8_decode now of None \<Rightarrow> Inr (whole_file (u ''file'') 1)
     | Some text \<Rightarrow>
     rbind (is_file_entry (dget bs relative)) (\<lambda>file_before.
     if \<not> file_before then Inr (whole_file (u ''line'') (int (length (splitlines text))))
     else rbind (req OSError (rd base_root relative)) (\<lambda>before.
     case utf8_decode before of None \<Rightarrow> Inr (whole_file (u ''file'') 1)
     | Some old \<Rightarrow>
         let result = map line_range (changed_stretches (splitlines old) (splitlines text))
         in Inr (if result = [] then whole_file (u ''file'') (int (length (splitlines text))) else result)))))))"

section \<open>The index of a world\<close>

definition source_matches :: "pyval \<Rightarrow> pystr \<Rightarrow> event_row \<times> pyval \<Rightarrow> bool res" where
  "source_matches root_key encoded item =
     (if \<not> eq_str (ev_path_b64 (fst item)) encoded then Inr False
      else rbind (pget (snd item) (u ''rootKey'') PNone) (\<lambda>r. Inr (py_eq r root_key)))"

definition source_event :: "(event_row \<times> pyval) list \<Rightarrow> pyval \<Rightarrow> pystr \<Rightarrow> (event_row \<times> pyval) option res" where
  "source_event events root_key encoded =
     rbind (rmap (source_matches root_key encoded) events) (\<lambda>hits.
     let matching = map fst (filter snd (zip events hits));
         invocation = filter (\<lambda>(e, _). ev_kind e \<in> {u ''agent-invocation'', u ''agent-invocation-result''}) events
     in Inr (if matching \<noteq> [] then Some (last matching) else if invocation \<noteq> [] then Some (last invocation) else None))"

fun any_covers :: "pyval \<Rightarrow> pyval list \<Rightarrow> bool res" where
  "any_covers display [] = Inr False"
| "any_covers display (pattern # rest) =
     rbind (glob_applies display pattern) (\<lambda>hit. if hit then Inr True else any_covers display rest)"

definition covering :: "pyval \<Rightarrow> pyval \<Rightarrow> bool res" where
  "covering display check =
     rbind (pget check (u ''covers'') (PList [])) (\<lambda>patterns. rbind (piter patterns) (any_covers display))"

definition covering_checks :: "world \<Rightarrow> pyval \<Rightarrow> pyval list res" where
  "covering_checks w display =
     rbind (pget (w_evidence w) (u ''checks'') (PList [])) (\<lambda>checks.
     rbind (piter checks) (\<lambda>listed.
     rbind (rmap (covering display) listed) (\<lambda>hits. Inr (map fst (filter snd (zip listed hits))))))"

definition file_event ::
    "world \<Rightarrow> pyval \<Rightarrow> pyval \<Rightarrow> pystr \<Rightarrow> pyval \<Rightarrow> (event_row \<times> pyval) option \<Rightarrow> pyval list \<Rightarrow> pyval res" where
  "file_event w operation root_key encoded display source evidence =
     (let value = (case source of None \<Rightarrow> PDict [] | Some (_, v) \<Rightarrow> v) in
     rbind (pget value (u ''actor'') (PStr (w_actor w))) (\<lambda>actor.
     rbind (pget value (u ''tool'') PNone) (\<lambda>tool.
     rbind (pget value (u ''reason'') PNone) (\<lambda>reason.
     rbind (pitem operation (u ''op'')) (\<lambda>kind.
     Inr (pdict [(u ''schemaVersion'', PInt 1), (u ''worldInstance'', PStr (w_instance_id w)),
       (u ''kind'', PStr (u ''file-delta'')), (u ''actor'', actor), (u ''tool'', tool), (u ''reason'', reason),
       (u ''sourceEvent'', (case source of None \<Rightarrow> PNone | Some (e, _) \<Rightarrow> PStr (ev_id e))),
       (u ''rootKey'', root_key), (u ''pathB64'', PStr encoded), (u ''pathDisplay'', display),
       (u ''operation'', kind), (u ''evidence'', PList evidence)]))))))"

definition stored_manifests :: "(bytes \<Rightarrow> bytes) \<Rightarrow> pystr \<Rightarrow> store \<Rightarrow> (pystr \<times> captured) list res" where
  "stored_manifests hb payload s =
     rbind (rmap (\<lambda>row. rbind (req OSError (declared_manifest s payload row)) (\<lambda>data.
       rbind (load hb data) (\<lambda>m. Inr (rt_key row, m)))) (roots s)) (\<lambda>kvs. Inr (dbuild kvs))"

definition manifest_at :: "(pystr \<times> captured) list \<Rightarrow> pyval \<Rightarrow> (pystr \<times> captured) res" where
  "manifest_at ms root_key = (case root_key of
       PStr k \<Rightarrow> rbind (req KeyError (dget ms k)) (\<lambda>m. Inr (k, m))
     | PList _ \<Rightarrow> Inl TypeError
     | PDict _ \<Rightarrow> Inl TypeError
     | _ \<Rightarrow> Inl KeyError)"

definition index_operation ::
    "(bytes \<Rightarrow> bytes) \<Rightarrow> pystr \<Rightarrow> (pystr \<Rightarrow> bytes \<Rightarrow> bytes option) \<Rightarrow> world \<Rightarrow> (pystr \<times> captured) list
       \<Rightarrow> (pystr \<times> captured) list \<Rightarrow> (event_row \<times> pyval) list \<Rightarrow> pyval \<Rightarrow> range_row list option sact" where
  "index_operation hb now rd w base candidate prior operation =
     sbind (lift (str_item operation (u ''pathB64''))) (\<lambda>encoded.
     sbind (lift (path_from_b64 encoded)) (\<lambda>relative.
     if relative = [] then ret None
     else
     sbind (lift (pitem operation (u ''rootKey''))) (\<lambda>root_key.
     sbind (lift (pitem operation (u ''pathDisplay''))) (\<lambda>display.
     sbind (lift (source_event prior root_key encoded)) (\<lambda>source.
     sbind (lift (covering_checks w display)) (\<lambda>evidence.
     sbind (lift (file_event w operation root_key encoded display source evidence)) (\<lambda>event.
     sbind (append_causal_event hb now event) (\<lambda>link.
     sbind (lift (manifest_at base root_key)) (\<lambda>(k, b).
     sbind (lift (manifest_at candidate root_key)) (\<lambda>(_, c).
     sbind (lift (ranges_of rd relative b c (below (w_base_payload_path w) k) (below (w_payload_path w) k))) (\<lambda>spans.
     ret (Some (map (\<lambda>(start, stop, granularity). \<lparr>rg_world = w_instance_id w, rg_event = ci_id link, rg_root_key = k,
       rg_path_b64 = encoded, rg_path_display = py_str display, rg_start = start, rg_end = stop,
       rg_granularity = granularity\<rparr>) spans)))))))))))))"

fun index_operations ::
    "(pyval \<Rightarrow> range_row list option sact) \<Rightarrow> pyval list \<Rightarrow> (nat \<times> range_row list) sact" where
  "index_operations one [] = ret (0, [])"
| "index_operations one (operation # rest) =
     sbind (one operation) (\<lambda>found.
     sbind (index_operations one rest) (\<lambda>(n, spans).
     ret (case found of None \<Rightarrow> (n, spans) | Some rs \<Rightarrow> (Suc n, rs @ spans))))"

definition index_world ::
    "(bytes \<Rightarrow> bytes) \<Rightarrow> pystr \<Rightarrow> (pystr \<Rightarrow> bytes \<Rightarrow> bytes option) \<Rightarrow> world \<Rightarrow> nat sact" where
  "index_world hb now rd w =
     sbind (gets (stored_manifests hb (w_base_payload_path w))) (\<lambda>b. sbind (lift b) (\<lambda>base.
     sbind (gets (stored_manifests hb (w_payload_path w))) (\<lambda>c. sbind (lift c) (\<lambda>candidate.
     sbind (gets (causal_events_for_world (w_instance_id w))) (\<lambda>e. sbind (lift e) (\<lambda>prior.
     sbind (lift (rbind (pget (w_delta w) (u ''files'') (PList [])) piter)) (\<lambda>operations.
     sbind (index_operations (index_operation hb now rd w base candidate prior) operations) (\<lambda>(n, spans).
     sbind (if spans = [] then ret () else add_line_ranges spans) (\<lambda>_.
     ret n)))))))))"

section \<open>Where a path lies\<close>

text \<open>\<open>os.fsdecode\<close> and \<open>os.fsencode\<close>: a byte that is no UTF-8 becomes a lone surrogate and back.\<close>

definition utf8_head :: "nat list \<Rightarrow> (nat \<times> nat) option" where
  "utf8_head bs = map_option (\<lambda>n. (hd (the (utf8_dec (take n bs))), n))
     (List.find (\<lambda>n. n \<le> length bs \<and> (case utf8_dec (take n bs) of Some [_] \<Rightarrow> True | _ \<Rightarrow> False)) [1, 2, 3, 4])"

function escape_decode :: "nat list \<Rightarrow> pystr" where
  "escape_decode [] = []"
| "escape_decode (b # bs) = (case utf8_head (b # bs) of
       None \<Rightarrow> (0xDC00 + b) # escape_decode bs
     | Some (c, n) \<Rightarrow> c # escape_decode (drop (n - 1) bs))"
  by pat_completeness auto
termination by (relation "measure length") (auto simp: less_Suc_eq_le)

definition fsdecode :: "bytes \<Rightarrow> pystr" where
  "fsdecode b = escape_decode (map of_char b)"

definition fsencode :: "pystr \<Rightarrow> bytes res" where
  "fsencode s =
     rbind (rmap (\<lambda>c. if 0xDC80 \<le> c \<and> c \<le> 0xDCFF then Inr [c - 0xDC00]
       else if surrogate c then Inl ValueError else Inr (utf8_cp c)) s) (\<lambda>bs. Inr (map char_of (concat bs)))"

text \<open>A \<open>PurePosixPath\<close>: its root and its parts. Two slashes at the front, and no third, are a root of their own.\<close>

type_synonym purepath = "pystr \<times> pystr list"

definition pure_path :: "pystr \<Rightarrow> purepath" where
  "pure_path s =
     (if prefixed s [47, 47] \<and> \<not> prefixed s [47, 47, 47] then [47, 47] else if prefixed s [47] then [47] else [],
      filter (\<lambda>p. p \<noteq> [] \<and> p \<noteq> [46]) (split_on 47 s))"

definition joined :: "purepath \<Rightarrow> purepath \<Rightarrow> purepath" where
  "joined base p = (if fst p \<noteq> [] then p else (fst base, snd base @ snd p))"

definition relative_to :: "purepath \<Rightarrow> purepath \<Rightarrow> pystr list option" where
  "relative_to p base =
     (if fst p = fst base \<and> prefixed (snd p) (snd base) then Some (drop (length (snd base)) (snd p)) else None)"

definition path_text :: "pystr list \<Rightarrow> pystr" where
  "path_text parts = (if parts = [] then [46] else join_on 47 parts)"

definition located :: "pystr \<Rightarrow> root_row list \<Rightarrow> pystr \<Rightarrow> (root_row \<times> pystr list) res" where
  "located cwd rows value =
     (let base = pure_path cwd; supplied = pure_path value in
     rbind (if fst supplied \<noteq> [] then Inr supplied
       else rbind (req (WL ''NO_PRIMARY_ROOT'') (List.find rt_primary rows)) (\<lambda>primary.
         Inr (joined (pure_path (fsdecode (rt_path primary))) supplied))) (\<lambda>p.
     let absolute = joined base p;
         below_root = (\<lambda>row. relative_to absolute (joined base (pure_path (fsdecode (rt_path row)))))
     in
     rbind (req not_found (List.find (\<lambda>row. below_root row \<noteq> None) rows)) (\<lambda>row.
     let relative = the (below_root row) in
     rbind (ensure ([46, 46] \<notin> set relative) not_found) (\<lambda>_. Inr (row, relative)))))"

section \<open>Who wrote a line\<close>

record asking =
  ak_cwd :: pystr
  ak_source :: "root_row \<Rightarrow> pystr res"
  ak_read :: "pystr \<Rightarrow> pystr list \<Rightarrow> bytes option"

text \<open>The bytes are \<open>None\<close> unless a regular file is there, below its base with every link resolved.\<close>

definition line_text :: "asking \<Rightarrow> pystr \<Rightarrow> pystr list \<Rightarrow> int \<Rightarrow> pystr option" where
  "line_text q base relative line =
     (case Option.bind (ak_read q base relative) utf8_decode of None \<Rightarrow> None
      | Some text \<Rightarrow> let ls = splitlines text in
          if 0 < line \<and> line \<le> int (length ls) then Some (ls ! nat (line - 1)) else None)"

definition in_effect :: "world option \<Rightarrow> world \<Rightarrow> bool" where
  "in_effect prime_world w \<longleftrightarrow>
     w_state w = COLLAPSED \<or> map_option w_instance_id prime_world = Some (w_instance_id w)"

fun choose_event ::
    "(world \<Rightarrow> bool) \<Rightarrow> store \<Rightarrow> pystr list \<Rightarrow> (range_row \<times> event_row) list
       \<Rightarrow> ((range_row \<times> event_row) option \<times> pystr list) res" where
  "choose_event holds s bystanders [] = Inr (None, bystanders)"
| "choose_event holds s bystanders (row # rows) =
     rbind (world_get (rg_world (fst row)) s) (\<lambda>w.
     if holds w then Inr (Some row, bystanders) else choose_event holds s (bystanders @ [w_alias w]) rows)"

definition holds_line ::
    "asking \<Rightarrow> world option \<Rightarrow> pystr option \<Rightarrow> pystr \<Rightarrow> pystr list \<Rightarrow> int \<Rightarrow> world \<Rightarrow> bool" where
  "holds_line q prime_world live root_key relative line w \<longleftrightarrow>
     in_effect prime_world w \<and> \<not> w_payload_pruned w
     \<and> (live \<noteq> None \<longrightarrow> line_text q (below (w_payload_path w) root_key) relative line = live)"

text \<open>The ancestors of a world, from itself, until one has no parent or was seen.\<close>

lemma world_get_listed: "world_get x s = Inr w \<Longrightarrow> w_instance_id w \<in> wr_instance_id ` set (st_worlds s)"
proof -
  assume "world_get x s = Inr w"
  then obtain r v where r: "world_lookup x (st_worlds s) = Some r" and v: "world_from_row r = Inr v"
    and w: "w = v\<lparr>w_descendants := descendant_count (wr_instance_id r) s\<rparr>"
    unfolding world_get_def by (auto simp: res_iffs)
  have "r \<in> set (st_worlds s)"
    using r by (auto simp: world_lookup_def find_Some_iff split: option.splits)
  moreover have "w_instance_id v = wr_instance_id r"
    using v by (auto simp: world_from_row_def res_iffs)
  ultimately show ?thesis using w by simp
qed

function lineage_of :: "store \<Rightarrow> pystr \<Rightarrow> pystr list \<Rightarrow> world list res" where
  "lineage_of s value seen =
     (case world_get value s of
        Inl e \<Rightarrow> Inl e
      | Inr w \<Rightarrow>
          if w_instance_id w \<in> set seen then Inr []
          else case w_parent_instance w of
              None \<Rightarrow> Inr [w]
            | Some p \<Rightarrow> rbind (lineage_of s p (w_instance_id w # seen)) (\<lambda>ws. Inr (w # ws)))"
  by pat_completeness auto
termination
proof (relation "measure (\<lambda>(s, value, seen). card (wr_instance_id ` set (st_worlds s) - set seen))", goal_cases)
  case (2 s i seen w p)
  then have "w_instance_id w \<in> wr_instance_id ` set (st_worlds s)" by (auto dest: world_get_listed)
  with 2 have "card (wr_instance_id ` set (st_worlds s) - set (w_instance_id w # seen))
      < card (wr_instance_id ` set (st_worlds s) - set seen)"
    by (intro psubset_card_mono) auto
  then show ?case by simp
qed simp

declare lineage_of.simps [simp del]

datatype attribution = ToWorld | ToCheckpoint

record account =
  ac_attribution :: attribution
  ac_world :: pystr
  ac_actor :: pyval
  ac_mission :: "pystr option"
  ac_reason :: pyval
  ac_granularity :: pystr
  ac_evidence :: pyval
  ac_ancestors :: "(pystr \<times> pystr \<times> pystr option) list"
  ac_receipt :: "pyval option"
  ac_event :: "pystr option"
  ac_bystanders :: "pystr list"

definition ancestor_entry :: "world \<Rightarrow> pystr \<times> pystr \<times> pystr option" where
  "ancestor_entry w =
     (if prefixed (w_alias w) (u ''prime-'') then u ''PRIME'' else w_alias w, w_instance_id w, w_content_id w)"

definition checkpoint_attribution :: "world option \<Rightarrow> pystr list \<Rightarrow> store \<Rightarrow> account res" where
  "checkpoint_attribution prime_world bystanders s =
     rbind (case prime_world of None \<Rightarrow> Inr [] | Some w \<Rightarrow> lineage_of s (w_instance_id w) []) (\<lambda>ancestors.
     Inr \<lparr>ac_attribution = ToCheckpoint, ac_world = u ''PRIME'', ac_actor = PStr (u ''worldline''), ac_mission = None,
       ac_reason = PStr (u ''no world in PRIME'' @ 39 # u ''s lineage changed this line; it dates from a checkpoint (registration or return)''),
       ac_granularity = u ''checkpoint'', ac_evidence = PList [], ac_ancestors = map ancestor_entry ancestors,
       ac_receipt = None, ac_event = None, ac_bystanders = bystanders\<rparr>)"

definition world_attribution :: "range_row \<Rightarrow> event_row \<Rightarrow> pystr list \<Rightarrow> store \<Rightarrow> account res" where
  "world_attribution r e bystanders s =
     rbind (read_json (ev_path e) s) (\<lambda>event.
     rbind (world_get (rg_world r) s) (\<lambda>w.
     rbind (lineage_of s (rg_world r) []) (\<lambda>ancestors.
     rbind (case w_content_id w of None \<Rightarrow> Inr None | Some c \<Rightarrow> receipt_for_candidate c s) (\<lambda>receipt.
     rbind (pget event (u ''actor'') (PStr (w_actor w))) (\<lambda>actor.
     rbind (pget event (u ''reason'') PNone) (\<lambda>reason.
     rbind (pget event (u ''evidence'') (PList [])) (\<lambda>evidence.
     Inr \<lparr>ac_attribution = ToWorld, ac_world = w_alias w, ac_actor = actor, ac_mission = Some (w_cause w),
       ac_reason = (if truthy reason then reason else PStr (u ''not supplied by adapter'')),
       ac_granularity = rg_granularity r, ac_evidence = evidence, ac_ancestors = map ancestor_entry ancestors,
       ac_receipt = map_option snd receipt, ac_event = Some (ev_id e), ac_bystanders = bystanders\<rparr>)))))))"

definition why :: "asking \<Rightarrow> pystr \<Rightarrow> int \<Rightarrow> account sact" where
  "why q value line =
     sbind (sensure (1 \<le> line) (WL ''INVALID_LINE'')) (\<lambda>_.
     sbind (gets roots) (\<lambda>rows.
     sbind (lift (located (ak_cwd q) rows value)) (\<lambda>(row, relative).
     sbind (lift (fsencode (path_text relative))) (\<lambda>raw.
     sbind (lift (ak_source q row)) (\<lambda>live_root.
     let live = line_text q live_root relative line in
     sbind prime (\<lambda>prime_world.
     sbind (gets (\<lambda>s. choose_event (holds_line q prime_world live (rt_key row) relative line) s []
         (line_events (rt_key row) (path_b64 raw) line s))) (\<lambda>c.
     sbind (lift c) (\<lambda>(chosen, bystanders).
     case chosen of
       None \<Rightarrow> if live = None then raise not_found
         else sbind (gets (checkpoint_attribution prime_world bystanders)) lift
     | Some (r, e) \<Rightarrow> sbind (gets (world_attribution r e bystanders)) lift))))))))"

end
