(* ===== verification/Causal_Claims.thy ===== *)
theory Causal_Claims
  imports Causal Prune_Laws Prepare_Sample "HOL-Library.Sublist"
begin

text \<open>
  The promises of the journal: a line that no range names was there before, in its place among the others, and
  a line is credited to a world only when that world is in effect and still holds the text of the line.
\<close>

section \<open>The blocks of two sequences\<close>

fun aligned :: "'a list \<Rightarrow> 'a list \<Rightarrow> nat \<Rightarrow> nat \<Rightarrow> (nat \<times> nat \<times> nat) list \<Rightarrow> bool" where
  "aligned X Y i j [] \<longleftrightarrow> True"
| "aligned X Y i j ((a, b, k) # bs) \<longleftrightarrow> i \<le> a \<and> j \<le> b \<and> a + k \<le> length X \<and> b + k \<le> length Y
     \<and> take k (drop a X) = take k (drop b Y) \<and> aligned X Y (a + k) (b + k) bs"

lemma aligned_append:
  assumes "aligned X Y i j bs" and "aligned X Y i' j' cs" and "i \<le> i'" and "j \<le> j'"
    and "\<forall>(a, b, k) \<in> set bs. a + k \<le> i' \<and> b + k \<le> j'"
  shows "aligned X Y i j (bs @ cs)"
  using assms
proof (induction bs arbitrary: i j)
  case Nil
  then show ?case by (cases cs) auto
qed auto

lemma common_take: "k \<le> common xs ys \<Longrightarrow> take k xs = take k ys"
  by (induction xs ys arbitrary: k rule: common.induct) (auto split: if_splits simp: take_Cons')

lemma longest_block_same:
  "longest_block xs ys = (i, j, k) \<Longrightarrow> take k (drop i xs) = take k (drop j ys)"
  using longest_block_of [of xs ys i j k] common_take [of k "drop i xs" "drop j ys"] by auto

text \<open>A part of a longer list, by where it starts.\<close>

definition part_of :: "'a list \<Rightarrow> nat \<Rightarrow> 'a list \<Rightarrow> bool" where
  "part_of xs i X \<longleftrightarrow> (\<exists>pre post. X = pre @ xs @ post \<and> length pre = i)"

lemma part_of_take: "part_of xs i X \<Longrightarrow> part_of (take n xs) i X"
  unfolding part_of_def by (metis append_assoc append_take_drop_id)

lemma part_of_drop:
  assumes "part_of xs i X" and "n \<le> length xs" shows "part_of (drop n xs) (i + n) X"
proof -
  from assms(1) obtain pre post where "X = pre @ xs @ post" "length pre = i" by (auto simp: part_of_def)
  then have "X = (pre @ take n xs) @ drop n xs @ post" "length (pre @ take n xs) = i + n" using assms(2) by simp_all
  then show ?thesis unfolding part_of_def by blast
qed

lemma part_of_inside: "part_of xs i X \<Longrightarrow> a + k \<le> length xs \<Longrightarrow> take k (drop a xs) = take k (drop (i + a) X)"
  by (auto simp: part_of_def)

lemma part_of_length: "part_of xs i X \<Longrightarrow> i + length xs \<le> length X"
  by (auto simp: part_of_def)

lemma blocks_aligned:
  assumes "part_of xs i0 X" and "part_of ys j0 Y"
  shows "aligned X Y i0 j0 (matching_blocks xs ys i0 j0)
    \<and> (\<forall>(a, b, k) \<in> set (matching_blocks xs ys i0 j0). a + k \<le> i0 + length xs \<and> b + k \<le> j0 + length ys)"
  using assms
proof (induction xs ys i0 j0 rule: matching_blocks.induct)
  case (1 xs ys i0 j0)
  obtain i j k where l: "longest_block xs ys = (i, j, k)" by (cases "longest_block xs ys")
  show ?case
  proof (cases "k = 0")
    case True
    then show ?thesis by (simp add: matching_blocks.simps [of xs ys] l)
  next
    case False
    let ?L = "matching_blocks (take i xs) (take j ys) i0 j0"
    let ?R = "matching_blocks (drop (i + k) xs) (drop (j + k) ys) (i0 + i + k) (j0 + j + k)"
    have fits: "i + k \<le> length xs" "j + k \<le> length ys" using longest_block_fits [OF l False] .
    have left: "aligned X Y i0 j0 ?L \<and> (\<forall>(a, b, n) \<in> set ?L. a + n \<le> i0 + i \<and> b + n \<le> j0 + j)"
      using "1.IH"(1) [OF l [symmetric] refl False] "1.prems" fits part_of_take by fastforce
    have right: "aligned X Y (i0 + i + k) (j0 + j + k) ?R
        \<and> (\<forall>(a, b, n) \<in> set ?R. a + n \<le> i0 + length xs \<and> b + n \<le> j0 + length ys)"
      using "1.IH"(2) [OF l [symmetric] refl False] part_of_drop [OF "1.prems"(1), of "i + k"]
        part_of_drop [OF "1.prems"(2), of "j + k"] fits by (fastforce simp: add.assoc)
    have same: "take k (drop (i0 + i) X) = take k (drop (j0 + j) Y)"
      using longest_block_same [OF l] part_of_inside [OF "1.prems"(1) fits(1)] part_of_inside [OF "1.prems"(2) fits(2)] by simp
    have bounds: "i0 + i + k \<le> length X" "j0 + j + k \<le> length Y"
      using "1.prems" [THEN part_of_length] fits by linarith+
    have "aligned X Y i0 j0 (?L @ (i0 + i, j0 + j, k) # ?R)"
      by (rule aligned_append [where i' = "i0 + i" and j' = "j0 + j"]) (use left right same bounds in auto)
    moreover have "matching_blocks xs ys i0 j0 = ?L @ (i0 + i, j0 + j, k) # ?R"
      using False by (subst matching_blocks.simps) (simp add: l)
    ultimately show ?thesis using left right fits by fastforce
  qed
qed

text \<open>The positions of the second sequence that no stretch covers are the positions of the blocks.\<close>

definition untouched :: "(nat \<times> nat) list \<Rightarrow> nat \<Rightarrow> bool" where
  "untouched spans p \<longleftrightarrow> (\<forall>(a, b) \<in> set spans. \<not> (a \<le> p \<and> p < b))"

lemma kept_in_order:
  assumes "aligned X Y i j (bs @ [(length X, length Y, 0)])" and "i \<le> length X" and "j \<le> length Y"
  shows "subseq (map ((!) Y) (filter (untouched (opcodes i j (bs @ [(length X, length Y, 0)]))) [j..<length Y])) (drop i X)"
  using assms
proof (induction bs arbitrary: i j)
  case Nil
  have "filter (untouched (opcodes i j [(length X, length Y, 0)])) [j..<length Y] = []"
    by (auto simp: filter_empty_conv untouched_def)
  then show ?case by simp
next
  case (Cons c bs)
  obtain a b k where c: "c = (a, b, k)" by (cases c)
  let ?rest = "opcodes (a + k) (b + k) (bs @ [(length X, length Y, 0)])"
  let ?all = "opcodes i j (c # bs @ [(length X, length Y, 0)])"
  have al: "i \<le> a" "j \<le> b" "a + k \<le> length X" "b + k \<le> length Y" "take k (drop a X) = take k (drop b Y)"
    and rest: "aligned X Y (a + k) (b + k) (bs @ [(length X, length Y, 0)])"
    using Cons.prems(1) by (auto simp: c)
  have ih: "subseq (map ((!) Y) (filter (untouched ?rest) [b + k..<length Y])) (drop (a + k) X)"
    by (rule Cons.IH [OF rest al(3,4)])
  have split: "[j..<length Y] = [j..<b] @ [b..<b + k] @ [b + k..<length Y]"
    using al(2,4) by (metis le_add1 le_trans upt_add_eq_append le_iff_add append.assoc)
  have first: "filter (untouched ?all) [j..<b] = []" using al(2) by (auto simp: filter_empty_conv untouched_def c)
  have "subseq (map ((!) Y) (filter (untouched ?all) [b..<b + k])) (map ((!) Y) [b..<b + k])"
    by (intro subseq_map subseq_filter_left)
  also have "map ((!) Y) [b..<b + k] = take k (drop a X)"
    using al(4) unfolding al(5) by (auto intro!: nth_equalityI)
  finally have mid: "subseq (map ((!) Y) (filter (untouched ?all) [b..<b + k])) (take k (drop a X))" .
  have "filter (untouched ?all) [b + k..<length Y] = filter (untouched ?rest) [b + k..<length Y]"
    by (rule filter_cong) (auto simp: untouched_def c)
  with ih have last: "subseq (map ((!) Y) (filter (untouched ?all) [b + k..<length Y])) (drop (a + k) X)" by simp
  have "subseq (map ((!) Y) (filter (untouched ?all) [j..<length Y])) (take k (drop a X) @ drop (a + k) X)"
    unfolding split filter_append map_append first by (simp add: list_emb_append_mono [OF mid last])
  also have "take k (drop a X) @ drop (a + k) X = drop a X" by (metis append_take_drop_id drop_drop add.commute)
  also have "subseq (drop a X) (drop i X)" using al(1) by (metis le_add_diff_inverse2 drop_drop suffix_drop suffix_imp_subseq)
  finally show ?case by simp
qed

lemma changed_stretches_keep:
  "subseq (map ((!) ys) (filter (untouched (changed_stretches xs ys)) [0..<length ys])) xs"
proof -
  have p: "part_of xs 0 xs" "part_of ys 0 ys" by (auto simp: part_of_def)
  have "aligned xs ys 0 0 (matching_blocks xs ys 0 0 @ [(length xs, length ys, 0)])"
    by (rule aligned_append [where i' = "length xs" and j' = "length ys"]) (use blocks_aligned [OF p] in auto)
  from kept_in_order [OF this] show ?thesis by (simp add: changed_stretches_def)
qed

section \<open>Lines without a range\<close>

definition unlisted :: "(int \<times> int \<times> pystr) list \<Rightarrow> nat \<Rightarrow> bool" where
  "unlisted spans p \<longleftrightarrow> (\<forall>(start, stop, granularity) \<in> set spans. \<not> (start \<le> int p + 1 \<and> int p + 1 \<le> stop))"

lemma unlisted_untouched: "unlisted (map line_range stretches) p \<Longrightarrow> untouched stretches p"
  by (fastforce simp: unlisted_def untouched_def line_range_def Let_def)

lemma whole_file_lists: "p < n \<Longrightarrow> \<not> unlisted (whole_file g (int n)) p"
  by (auto simp: unlisted_def whole_file_def)

lemma nothing_unlisted: "filter (unlisted (whole_file g (int n))) [0..<n] = []"
  using whole_file_lists by (auto simp: filter_empty_conv)

text \<open>
  C31. The journal misses no line: when a file is text before and after, the lines of the new text that no range
  names are lines of the old text, in the same order and as often.
\<close>
theorem unlisted_lines_were_there:
  assumes "ranges_of rd relative base candidate base_root candidate_root = Inr spans"
    and "entry_map candidate = Inr cs" and "is_file_entry (dget cs relative) = Inr True"
    and "rd candidate_root relative = Some now" and "utf8_decode now = Some text"
    and "rd base_root relative = Some before" and "utf8_decode before = Some old"
  shows "subseq (map ((!) (splitlines text)) (filter (unlisted spans) [0..<length (splitlines text)])) (splitlines old)"
proof -
  let ?lines = "splitlines text"
  let ?ranges = "map line_range (changed_stretches (splitlines old) ?lines)"
  have "(\<exists>g. spans = whole_file g (int (length ?lines))) \<or> spans = ?ranges"
    using assms by (auto simp: ranges_of_def res_iffs Let_def split: if_splits)
  then show ?thesis
  proof
    assume "\<exists>g. spans = whole_file g (int (length ?lines))"
    then show ?thesis using nothing_unlisted by fastforce
  next
    assume spans: "spans = ?ranges"
    have "filter (unlisted spans) [0..<length ?lines]
        = filter (unlisted spans) (filter (untouched (changed_stretches (splitlines old) ?lines)) [0..<length ?lines])"
      unfolding spans filter_filter by (rule filter_cong) (use unlisted_untouched in auto)
    then have "subseq (map ((!) ?lines) (filter (unlisted spans) [0..<length ?lines]))
        (map ((!) ?lines) (filter (untouched (changed_stretches (splitlines old) ?lines)) [0..<length ?lines]))"
      by (simp only:) (intro subseq_map subseq_filter_left)
    then show ?thesis using changed_stretches_keep subseq_order.trans by blast
  qed
qed

text \<open>
  A file that was no UTF-8 and now is has a range for its first line alone, whatever it holds.
\<close>

lemma binary_before_has_one_line:
  assumes "entry_map base = Inr bs" and "is_file_entry (dget bs relative) = Inr True"
    and "entry_map candidate = Inr cs" and "is_file_entry (dget cs relative) = Inr True"
    and "rd candidate_root relative = Some now" and "utf8_decode now = Some text"
    and "rd base_root relative = Some before" and "utf8_decode before = None"
  shows "ranges_of rd relative base candidate base_root candidate_root = Inr [(1, 1, u ''file'')]"
  using assms by (simp add: ranges_of_def whole_file_def)

section \<open>Who is credited\<close>

lemma choose_event_Some:
  assumes "choose_event holds s by0 rows = Inr (Some row, bystanders)"
  shows "\<exists>newer older ws w. rows = newer @ row # older \<and> rmap (\<lambda>x. world_get (rg_world (fst x)) s) newer = Inr ws
    \<and> bystanders = by0 @ map w_alias ws \<and> (\<forall>v \<in> set ws. \<not> holds v)
    \<and> world_get (rg_world (fst row)) s = Inr w \<and> holds w"
  using assms
proof (induction rows arbitrary: by0)
  case (Cons x rows)
  obtain v where v: "world_get (rg_world (fst x)) s = Inr v" using Cons.prems by (auto simp: res_iffs)
  show ?case
  proof (cases "holds v")
    case True
    then have "x = row" "bystanders = by0" using Cons.prems v by simp_all
    then show ?thesis using v True by (intro exI [of _ "[]"] exI [of _ rows]) auto
  next
    case False
    then have "choose_event holds s (by0 @ [w_alias v]) rows = Inr (Some row, bystanders)" using Cons.prems v by simp
    from Cons.IH [OF this] obtain newer older ws w where "rows = newer @ row # older"
        "rmap (\<lambda>x. world_get (rg_world (fst x)) s) newer = Inr ws" "bystanders = by0 @ w_alias v # map w_alias ws"
        "\<forall>v \<in> set ws. \<not> holds v" "world_get (rg_world (fst row)) s = Inr w" "holds w" by auto
    then show ?thesis using v False by (intro exI [of _ "x # newer"] exI [of _ older] exI [of _ "v # ws"]) simp
  qed
qed simp

lemma why_Inr:
  assumes "why q path line s = (Inr ac, t)" and "ac_attribution ac = ToWorld"
  obtains row relative raw live_root prime_world r e bystanders
  where "t = s" and "located (ak_cwd q) (roots s) path = Inr (row, relative)" and "fsencode (path_text relative) = Inr raw"
    and "ak_source q row = Inr live_root" and "prime s = (Inr prime_world, s)"
    and "choose_event (holds_line q prime_world (line_text q live_root relative line) (rt_key row) relative line) s []
      (line_events (rt_key row) (path_b64 raw) line s) = Inr (Some (r, e), bystanders)"
    and "world_attribution r e bystanders s = Inr ac"
proof -
  note run = assms(1) [unfolded why_def Let_def]
  obtain row relative where l: "located (ak_cwd q) (roots s) path = Inr (row, relative)"
    and 1: "sbind (lift (fsencode (path_text relative))) (\<lambda>raw.
     sbind (lift (ak_source q row)) (\<lambda>live_root.
     sbind prime (\<lambda>prime_world.
     sbind (gets (\<lambda>s. choose_event (holds_line q prime_world (line_text q live_root relative line) (rt_key row) relative line) s []
         (line_events (rt_key row) (path_b64 raw) line s))) (\<lambda>c.
     sbind (lift c) (\<lambda>(chosen, bystanders).
     case chosen of
       None \<Rightarrow> if line_text q live_root relative line = None then raise not_found
         else sbind (gets (checkpoint_attribution prime_world bystanders)) lift
     | Some (r, e) \<Rightarrow> sbind (gets (world_attribution r e bystanders)) lift))))) s = (Inr ac, t)"
    using run by (simp add: run_sensure run_gets run_lift split: if_splits sum.splits prod.splits)
  obtain raw where raw: "fsencode (path_text relative) = Inr raw" using 1 by (auto simp: run_lift split: sum.splits)
  obtain live_root where source: "ak_source q row = Inr live_root" using 1 raw by (auto simp: run_lift split: sum.splits)
  obtain prime_world u where p0: "prime s = (Inr prime_world, u)"
    using 1 raw source by (cases "prime s", cases "fst (prime s)") (auto simp: run_lift)
  then have p: "prime s = (Inr prime_world, s)" using prime_still by metis
  let ?holds = "holds_line q prime_world (line_text q live_root relative line) (rt_key row) relative line"
  obtain chosen bystanders where c: "choose_event ?holds s [] (line_events (rt_key row) (path_b64 raw) line s)
      = Inr (chosen, bystanders)"
    using 1 by (auto simp: run_lift raw source p run_gets split: sum.splits)
  have 2: "(case chosen of
       None \<Rightarrow> if line_text q live_root relative line = None then raise not_found
         else sbind (gets (checkpoint_attribution prime_world bystanders)) lift
     | Some (r, e) \<Rightarrow> sbind (gets (world_attribution r e bystanders)) lift) s = (Inr ac, t)"
    using 1 by (simp add: run_lift raw source p run_gets c)
  have "chosen \<noteq> None"
  proof
    assume "chosen = None"
    then show False
      using 2 assms(2) by (auto simp: run_gets lift_def raise_def checkpoint_attribution_def res_iffs split: if_splits)
  qed
  then obtain r e where chosen: "chosen = Some (r, e)" by auto
  have "t = s \<and> world_attribution r e bystanders s = Inr ac"
    using 2 by (auto simp: chosen run_gets lift_def)
  then show thesis using that l raw source p c chosen by blast
qed


section \<open>Samples\<close>

definition text_manifest :: captured where
  "text_manifest = \<lparr>cm_value = pdict [(u ''entries'', PList [pdict [(u ''pathB64'', PStr (path_b64 ''a'')),
     (u ''type'', PStr (u ''file''))]])], cm_canonical = [], cm_root = u ''h''\<rparr>"

definition old_text :: pystr where
  "old_text = [120, 10, 121, 10]"

definition new_text :: pystr where
  "new_text = [120, 10, 122, 13, 10, 119]"

definition sample_reading :: "pystr \<Rightarrow> bytes \<Rightarrow> bytes option" where
  "sample_reading d path = Some (utf8_encode (if d = u ''/old'' then old_text else new_text))"

lemma sample_texts: "utf8_decode (utf8_encode old_text) = Some old_text" "utf8_decode (utf8_encode new_text) = Some new_text"
  by (simp_all add: utf8_roundtrip old_text_def new_text_def encodable_def surrogate_def)

lemma sample_lines: "splitlines old_text = [[120], [121]]" "splitlines new_text = [[120], [122], [119]]"
  by (simp_all add: old_text_def new_text_def line_break_def prefixed_def)

lemma sample_changed: "changed_stretches [[120 :: nat], [121]] [[120], [122], [119]] = [(1, 3)]"
  by code_simp

lemma text_entries:
  obtains es where "entry_map text_manifest = Inr es" and "is_file_entry (dget es ''a'') = Inr True"
proof -
  have "path_from_b64 (path_b64 ''a'') = Inr ''a''" by code_simp
  then have "entry_map text_manifest = Inr [(''a'', pdict [(u ''pathB64'', PStr (path_b64 ''a'')), (u ''type'', PStr (u ''file''))])]"
    by (simp add: entry_map_def entry_list_def text_manifest_def pitem_def piter_def entry_path_def str_item_def dbuild_def)
  moreover have "is_file_entry (dget [(''a'', pdict [(u ''pathB64'', PStr (path_b64 ''a'')), (u ''type'', PStr (u ''file''))])] ''a'')
      = Inr True" by (simp add: is_file_entry_def pget_def eq_str_def u_def)
  ultimately show thesis by (rule that)
qed

theorem unlisted_lines_were_there_witness:
  "\<exists>spans. ranges_of sample_reading ''a'' text_manifest text_manifest (u ''/old'') (u ''/new'') = Inr spans
     \<and> spans = [(2, 3, u ''line'')]
     \<and> subseq (map ((!) (splitlines new_text)) (filter (unlisted spans) [0..<length (splitlines new_text)])) (splitlines old_text)"
proof -
  obtain es where es: "entry_map text_manifest = Inr es" "is_file_entry (dget es ''a'') = Inr True" by (rule text_entries)
  have rd: "sample_reading (u ''/new'') ''a'' = Some (utf8_encode new_text)" "sample_reading (u ''/old'') ''a'' = Some (utf8_encode old_text)"
    by (simp_all add: sample_reading_def)
  have "ranges_of sample_reading ''a'' text_manifest text_manifest (u ''/old'') (u ''/new'') = Inr [(2, 3, u ''line'')]"
    by (simp add: ranges_of_def es rd sample_texts sample_lines sample_changed line_range_def Let_def)
  from this unlisted_lines_were_there [OF this es rd(1) sample_texts(2) rd(2) sample_texts(1)] show ?thesis by blast
qed

definition asked_root :: root_row where
  "asked_root = \<lparr>rt_key = u ''k'', rt_path = ''/r'', rt_display_path = u ''/r'', rt_kind = u ''repo'', rt_device = 1,
     rt_primary = True, rt_generation = None, rt_manifest_root = None, rt_added_at = u ''t''\<rparr>"

definition sample_range :: range_row where
  "sample_range = \<lparr>rg_world = u ''i'', rg_event = u ''e'', rg_root_key = u ''k'', rg_path_b64 = path_b64 ''a'',
     rg_path_display = u ''a'', rg_start = 1, rg_end = 2, rg_granularity = u ''line''\<rparr>"

definition sample_line_event :: event_row where
  "sample_line_event = \<lparr>ev_id = u ''e'', ev_world = u ''i'', ev_ordinal = 0, ev_kind = u ''file-delta'', ev_actor = PNone,
     ev_tool = PNone, ev_reason = PNone, ev_path_b64 = PStr (path_b64 ''a''), ev_path_display = PStr (u ''a''),
     ev_line_start = PNone, ev_line_end = PNone, ev_predecessor = u ''p'', ev_root = u ''h'', ev_chain = u ''e'',
     ev_path = u ''/e.json'', ev_created_at = u ''t''\<rparr>"

definition asked_store :: store where
  "asked_store = return_store\<lparr>st_roots := [asked_root], st_ranges := [sample_range], st_events := [sample_line_event],
     st_files := [(u ''/e.json'', utf8_encode (dumps (PDict [])))]\<rparr>"

definition sample_asking :: asking where
  "sample_asking = \<lparr>ak_cwd = u ''/'', ak_source = (\<lambda>_. Inr (u ''/live'')), ak_read = (\<lambda>_ _. Some (utf8_encode old_text))\<rparr>"

lemma sample_fsdecode: "fsdecode ''/r'' = u ''/r''"
  by (simp add: fsdecode_def utf8_head_def u_def)

lemma sample_located: "located (u ''/'') [asked_root] (u ''/r/a'') = Inr (asked_root, [u ''a''])"
proof -
  have p: "pure_path (u ''/'') = ([47], [])" "pure_path (u ''/r/a'') = ([47], [u ''r'', u ''a''])" "pure_path (u ''/r'') = ([47], [u ''r''])"
    by (simp_all add: pure_path_def prefixed_def u_def)
  have "rt_path asked_root = ''/r''" by (simp add: asked_root_def)
  then show ?thesis by (simp add: located_def p sample_fsdecode joined_def relative_to_def prefixed_def) (simp add: u_def)
qed

lemma sample_raw: "fsencode (path_text [u ''a'']) = Inr ''a''"
  by (simp add: fsencode_def path_text_def u_def surrogate_def utf8_cp_def char_of_eq_iff take_bit_eq_mod)

lemma asked_world: "world_get (u ''i'') asked_store = Inr found_prime"
  using return_found(1) by (simp add: world_get_def descendant_count_def asked_store_def)

lemma asked_prime: "prime asked_store = (Inr (Some found_prime), asked_store)"
proof -
  have meta: "get_meta (u ''primeInstance'') PNone asked_store = (Inr (PStr (u ''i'')), asked_store)"
    "get_meta (u ''primeContent'') PNone asked_store = (Inr (PStr same_digest), asked_store)"
    using return_meta by (simp_all add: get_meta_def run_gets lift_def asked_store_def)
  show ?thesis
    unfolding prime_def sbind_run_Inr [of "get_meta (u ''primeInstance'') PNone", OF meta(1)]
    by (simp add: truthy_def run_gets run_lift asked_world ret_def)
qed

lemma asked_event: "read_json (u ''/e.json'') asked_store = Inr (PDict [])"
proof -
  have c: "canonicalizable (PDict [])" by (simp add: canonicalizable_def canonicalizable_PDict)
  show ?thesis using utf8_roundtrip [OF encodable_dumps [OF c]] loads_dumps [OF c]
    by (simp add: read_json_def asked_store_def json_load_def norm.simps)
qed

lemma asked_rows: "line_events (u ''k'') (path_b64 ''a'') 1 asked_store = [(sample_range, sample_line_event)]"
  by (simp add: line_events_def asked_store_def) (simp add: sample_range_def sample_line_event_def)

lemma why_answers: "\<exists>ac. why sample_asking (u ''/r/a'') 1 asked_store = (Inr ac, asked_store) \<and> ac_attribution ac = ToWorld"
proof -
  have roots: "roots asked_store = [asked_root]" by (simp add: roots_def asked_store_def)
  have q: "ak_cwd sample_asking = u ''/''" "ak_source sample_asking asked_root = Inr (u ''/live'')"
    "rt_key asked_root = u ''k''" by (simp_all add: sample_asking_def asked_root_def)
  have line: "line_text sample_asking b r 1 = Some [120]" for b r
    by (simp add: line_text_def sample_asking_def sample_texts sample_lines)
  have holds: "holds_line sample_asking (Some found_prime) (Some [120]) (u ''k'') [u ''a''] 1 found_prime"
    by (simp add: holds_line_def in_effect_def line) (simp add: found_prime_def stored_def checkpoint_world_sample_def
        sample_candidate_def sample_world_def)
  have f: "rg_world sample_range = u ''i''" "ev_path sample_line_event = u ''/e.json''"
    by (simp_all add: sample_range_def sample_line_event_def)
  have lineage: "lineage_of asked_store (u ''i'') [] = Inr [found_prime]"
    by (subst lineage_of.simps) (simp add: asked_world prime_fields)
  have receipt: "receipt_for_candidate c asked_store = Inr None" for c
    by (simp add: receipt_for_candidate_def receipts_def asked_store_def return_store_def empty_store_def)
  show ?thesis
    by (simp add: why_def act_run roots q sample_located sample_raw Let_def line asked_prime asked_rows f asked_world holds
        world_attribution_def asked_event lineage receipt prime_fields pget_def lift_def)
qed


end
