(* ===== verification/Spec2Isabelle.thy ===== *)
theory Spec2Isabelle
  imports Canonical_Roundtrip CoreDecide Resolution Store_Laws Delta_Laws Executed_Laws Evidence_Laws
    Project_Laws Validation_Laws Transaction_Lifecycle Decision_Claims Receipt_Laws Commit_Claims Prepare_Claims
    Admission_Claims Prune_Claims Checkpoint_Claims Fork_Claims Causal_Claims
begin

text \<open>
  A model of Worldline: a local runtime in which agents work in copies of managed roots
  (``worlds''), evidence about a world is recorded and classified, and one world at a time is
  collapsed into the live state by a transaction that a proved kernel authorizes.

  The Python runtime (\<open>runtime/worldline\<close>) and the SPARK kernel it calls (\<open>core\<close>) are modelled by
  shallow embedding: a record per class, a datatype per enumeration, one definition per operation
  with its error branches as values of \<open>exc\<close>. The clock, random identifiers and, in the runtime,
  the byte hash are arguments of the definitions that use them.

  \<^item> \<open>Prelude\<close>: strings, bytes, errors, sequencing, dictionaries.
  \<^item> \<open>Sha256\<close> (\<open>core/attest\<close>): the streaming hash, refined to the padded-block specification.
  \<^item> \<open>Kernel\<close> (\<open>core/worldline-*\<close>): lifecycles, the collapse decision, evaluation rules, the links
    of the chains and the C wire record.
  \<^item> \<open>Canonical\<close>, \<open>Canonical_Roundtrip\<close> (\<open>canonical.py\<close>): canonical JSON and its round trip.
  \<^item> \<open>CoreAbi\<close>, \<open>CoreDecide\<close> (\<open>core.py\<close>): the typed binding to the kernel.
  \<^item> \<open>PyValue\<close>, \<open>Resolution\<close> (\<open>resolution.py\<close>): path functions and policy tokens.
  \<^item> \<open>Model\<close> (\<open>model.py\<close>): the world record, its lifecycle steps and its identity.
  \<^item> \<open>Store\<close>, \<open>Store_Chains\<close>, \<open>Store_Worlds\<close>, \<open>Store_Laws\<close> (\<open>store.py\<close>): the database as a record of
    tables; every method as one action that either keeps the state or returns the next one; the
    causal and receipt chains and their verifier; the sweep of a daemon start. The laws: an append
    keeps a verified chain verified, a verified chain binds its payloads, a world row reads back.
  \<^item> \<open>Base64\<close>, \<open>Manifest\<close>, \<open>Manifest_Links\<close> (\<open>manifest.py\<close>): the capture of a tree as canonical
    entries, loading and verifying a manifest, and that a captured link resolves inside its root.
  \<^item> \<open>Delta\<close>, \<open>Delta_Laws\<close> (\<open>delta.py\<close>): the operations between two manifests and the plan of a
    three-way merge; the laws compare both with the entries at each path.
  \<^item> \<open>PyText\<close>: decoded JSON values as the runtime reads them (\<open>dict.get\<close>, truth, equality), and the
    calculus of the exceptions a computation can raise.
  \<^item> \<open>Executed\<close>, \<open>Executed_Laws\<close> (\<open>executed.py\<close>): the verifier set a check executes: staging, its
    identity, the second reading, the rewritten command.
  \<^item> \<open>Evidence\<close>, \<open>Evidence_Laws\<close> (the rules of \<open>finalize.py\<close>, \<open>report.py\<close>): private reports, what a
    check record must say to be admitted, the roster of required checks.
  \<^item> \<open>Project\<close>, \<open>Project_Laws\<close> (\<open>project.py\<close>): the policy file and its path patterns.
  \<^item> \<open>Validation\<close>, \<open>Validation_Laws\<close> (\<open>validation.py\<close>): the requirement a world is evaluated against,
    the context of an evaluation, its verification and comparison.

  \<^item> \<open>Transaction\<close>, \<open>Transaction_Laws\<close>, \<open>Transaction_Lifecycle\<close> (\<open>transaction.py\<close>, its durable side):
    the record file and the row of a prepared transaction, its steps, the generation markers, the
    walks over the lineage; a completed step keeps file and row in agreement, a torn one is refused.
  \<^item> \<open>Decision\<close>, \<open>Decision_Laws\<close>, \<open>Decision_Claims\<close> (\<open>transaction.py\<close>, its decision inputs): every
    identity the kernel is asked with and where it comes from; what an authorization means.
  \<^item> \<open>Receipt\<close>, \<open>Receipt_Laws\<close> (\<open>receipt.py\<close>) and \<open>Prime\<close> (\<open>prime.py\<close>): the receipt of a commit, and
    the publication of a generation as PRIME.
  \<^item> \<open>Commit\<close>, \<open>Commit_Laws\<close>, \<open>Commit_Sample\<close>, \<open>Commit_Claims\<close> (\<open>transaction.py\<close>): commit, exchange,
    finishing and recovery. The laws: a frame calculus over the actions of the store (\<open>keeps\<close>), from
    which follows that recovery settles or quarantines every transaction; what a commit has checked;
    the exchange is the commit point. The sample is a store in which a commit is accepted.

  \<^item> \<open>Prepare\<close>, \<open>Prepare_Laws\<close>, \<open>Prepare_Sample\<close>, \<open>Prepare_Claims\<close> (\<open>transaction.py\<close>): what a transaction
    is prepared from: admission, the merge of every root, the measurements, the question, the record.
    An authorized preparation is one the kernel answered on the admitted candidate; a refused one leaves
    at most a denied row.

  \<^item> \<open>Admission\<close>, \<open>Admission_Laws\<close>, \<open>Admission_Claims\<close> (\<open>admission.py\<close>): the limits of a workload, the
    observation of the machine, the ledger of reservations and the decision whether a workload may start.
    The ledger reads back what was written (the locale \<open>list_file\<close>), so no sequence of its operations
    promises more memory than there is above the floor.

  \<^item> \<open>Prune\<close>, \<open>Prune_Laws\<close>, \<open>Prune_Claims\<close> (\<open>prune.py\<close>): which payloads of finished worlds are offered for
    removal and what is recorded. Worlds in use keep their payloads, a world is recorded only without its
    payload, every record is an event of the causal chain.

  \<^item> \<open>Checkpoint\<close>, \<open>Returning\<close>, \<open>Checkpoint_Claims\<close> (\<open>checkpoint.py\<close>, \<open>returning.py\<close>): PRIME frozen into a
    generation, and the return to a former reality through the transaction of \<open>Prepare\<close> and \<open>Commit\<close>. A frozen
    generation is one captured reality, a refused freeze leaves nothing, and what a return restores was
    stored or recorded as displaced.
  \<^item> \<open>Fork\<close>, \<open>Fork_Claims\<close> (\<open>fork.py\<close>, \<open>scoring.py\<close>): worlds and races from a frozen parent, the end of a
    run that could not start, the scores of siblings.
  \<^item> \<open>Causal\<close>, \<open>Causal_Claims\<close> (\<open>causal.py\<close>): the events and line ranges of a finished world, and whom a line
    of PRIME is credited to. No changed line of a text is missed; a credited world holds the line.

  The parts meet where the code composes them: \<open>Model\<close> and \<open>Store\<close> call the transition rules of
  \<open>Kernel\<close>; \<open>CoreDecide\<close> fills the wire record of \<open>Kernel\<close> from the runtime's typed calls; \<open>Evidence\<close>
  classifies records with it; \<open>Validation\<close> reads the policy of \<open>Project\<close>, the tokens of \<open>Resolution\<close>
  and the history kept in \<open>Store\<close>; \<open>Decision\<close> asks the kernel through \<open>CoreDecide\<close> with identities taken
  from \<open>Store\<close>, \<open>Manifest\<close>, \<open>Evidence\<close> and \<open>Validation\<close>; \<open>Prepare\<close> and \<open>Commit\<close> drive \<open>Delta\<close>, \<open>Transaction\<close>, \<open>Decision\<close>, \<open>Prime\<close>
  and \<open>Receipt\<close> over one store.

  The reader of canonical JSON (\<open>Canonical\<close>) runs on fuel, the length of its text; the theorem
  \<open>reader_fuel_enough\<close> shows the bound is enough. Every other loop is structural or has a
  termination proof.

  What a commit reads of the outside (captures of trees, the watcher's generation, the requirement in
  force) is one record of readings, \<open>readings\<close>; the files of the store, among them the transaction
  records and the generation markers, are bytes under paths, so the exchange of two directories is a
  renaming of paths.

  Not modelled. Locks, threads and the descriptors of open files: a method of the store is one
  step. The bytes of files enter as arguments (trees of entries), so the system calls of
  \<open>paths.py\<close>, \<open>roots.py\<close>, \<open>relocate.py\<close>, \<open>fstree.py\<close> and \<open>linux/\<close> are outside, and so are the
  processes of \<open>checks.py\<close>, \<open>runner.py\<close>, the evaluators and the agents, and the socket of the
  daemon. The clock, random identifiers, the host's configuration and, outside \<open>Sha256\<close>, the hash
  of bytes are arguments.
\<close>

end
